(* ===== verification/Prelude.thy ===== *)
theory Prelude
  imports Main "HOL-Library.AList" "HOL-Library.Sublist" "HOL-Library.List_Lexorder"
    "HOL-Library.Char_ord"
begin

section \<open>Prelude: what the components share\<close>

text \<open>
  The vocabulary of the development: the insertion-ordered \<open>Map\<close> of JavaScript as an
  association list with its contract as the locale \<open>js_map\<close>, the string functions of
  the standard library that the gateway calls (strings are lists of UTF-16 code units, of
  which the model has the Latin-1 ones), integer rounding, and list facts used by several
  components.  Times are milliseconds since the epoch, as \<open>Date.now()\<close> gives them, and
  are an argument of every operation that reads the clock.
\<close>

named_theorems string_simps
  \<open>facts about the string functions of the standard library\<close>

named_theorems gateway_simps
  \<open>unfolding facts of the small definitions that several components share\<close>

type_synonym timestamp = int
type_synonym ('k, 'v) jsmap = "('k \<times> 'v) list"

subsection \<open>The insertion-ordered Map\<close>

text \<open>
  \<open>Map.set\<close> keeps the place of a key that is present and appends a new one;
  \<open>Map.delete\<close> removes a key; iteration runs in insertion order.  The contract is
  stated over any representation; the model's is the association list of
  \<open>HOL-Library.AList\<close>.
\<close>

locale js_map =
  fixes get :: "'m \<Rightarrow> 'k \<Rightarrow> 'v option"
    and put :: "'k \<Rightarrow> 'v \<Rightarrow> 'm \<Rightarrow> 'm"
    and del :: "'k \<Rightarrow> 'm \<Rightarrow> 'm"
    and keys :: "'m \<Rightarrow> 'k list"
    and invar :: "'m \<Rightarrow> bool"
  assumes get_put: "get (put k v m) = (get m)(k \<mapsto> v)"
    and get_del: "get (del k m) = (get m)(k := None)"
    and set_keys: "set (keys m) = dom (get m)"
    and distinct_keys: "invar m \<Longrightarrow> distinct (keys m)"
    and keys_put_old: "get m k \<noteq> None \<Longrightarrow> keys (put k v m) = keys m"
    and keys_put_new: "get m k = None \<Longrightarrow> keys (put k v m) = keys m @ [k]"
    and keys_del: "keys (del k m) = filter (\<lambda>k'. k' \<noteq> k) (keys m)"
    and invar_put: "invar m \<Longrightarrow> invar (put k v m)"
    and invar_del: "invar m \<Longrightarrow> invar (del k m)"
begin

lemma in_keys: "k \<in> set (keys m) \<longleftrightarrow> get m k \<noteq> None"
  by (auto simp: set_keys)

lemma size_put:
  "length (keys (put k v m)) = (if get m k = None then Suc (length (keys m)) else length (keys m))"
  by (simp add: keys_put_old keys_put_new)

lemma size_del: "length (keys (del k m)) \<le> length (keys m)"
  by (simp add: keys_del)

lemma get_del_many: "get (fold del ks m) k = (if k \<in> set ks then None else get m k)"
  by (induction ks arbitrary: m) (auto simp: get_del)

lemma keys_del_many: "keys (fold del ks m) = filter (\<lambda>k. k \<notin> set ks) (keys m)"
  by (induction ks arbitrary: m) (auto simp: keys_del intro: filter_cong)

lemma invar_del_many: "invar m \<Longrightarrow> invar (fold del ks m)"
  by (induction ks arbitrary: m) (auto intro: invar_del)

end

definition map_wf :: "('k, 'v) jsmap \<Rightarrow> bool" where
  "map_wf m = distinct (map fst m)"

abbreviation map_keys :: "('k, 'v) jsmap \<Rightarrow> 'k list" where
  "map_keys m \<equiv> map fst m"

abbreviation map_has :: "('k, 'v) jsmap \<Rightarrow> 'k \<Rightarrow> bool" where
  "map_has m k \<equiv> map_of m k \<noteq> None"

lemma update_keys_old: "map_of m k \<noteq> None \<Longrightarrow> map fst (AList.update k v m) = map fst m"
  by (induction m) auto

lemma update_keys_new: "map_of m k = None \<Longrightarrow> AList.update k v m = m @ [(k, v)]"
  by (induction m) (auto split: if_splits)

lemma delete_keys: "map fst (AList.delete k m) = filter (\<lambda>k'. k' \<noteq> k) (map fst m)"
  by (induction m) auto

interpretation alist_map: js_map map_of AList.update AList.delete "map fst" map_wf
proof (unfold_locales, goal_cases)
  case (1 k v m) show ?case by (rule update_conv')
next
  case (2 k m) show ?case by (rule delete_conv')
next
  case (3 m) show ?case by (simp add: dom_map_of_conv_image_fst)
next
  case (4 m) then show ?case by (simp add: map_wf_def)
next
  case (5 m k v) then show ?case by (rule update_keys_old)
next
  case (6 m k v) then show ?case by (simp add: update_keys_new)
next
  case (7 k m) show ?case by (rule delete_keys)
next
  case (8 m k v) then show ?case by (simp add: map_wf_def distinct_update)
next
  case (9 m k) then show ?case by (simp add: map_wf_def distinct_delete)
qed

lemma map_wf_Nil [simp]: "map_wf []"
  by (simp add: map_wf_def)

lemma map_of_size [simp]: "length (map fst m) = length m"
  by simp

subsection \<open>Lists\<close>

lemma find_SomeD: "find P xs = Some x \<Longrightarrow> x \<in> set xs \<and> P x"
  by (induction xs) (auto split: if_splits)

subsection \<open>Integer rounding\<close>

text \<open>\<open>Math.ceil(a / b)\<close> on integers, for a positive \<open>b\<close>.\<close>

definition ceil_div :: "int \<Rightarrow> int \<Rightarrow> int" where
  "ceil_div a b = - ((- a) div b)"

lemma le_div_iff_int: "0 < (b::int) \<Longrightarrow> n \<le> a div b \<longleftrightarrow> n * b \<le> a"
proof
  assume b: "0 < b" and "n \<le> a div b"
  then have "n * b \<le> (a div b) * b" by (simp add: mult_right_mono)
  also have "\<dots> \<le> a" using b by (simp add: minus_mod_eq_div_mult [symmetric])
  finally show "n * b \<le> a" .
next
  assume b: "0 < b" and le: "n * b \<le> a"
  from le b have "n * b div b \<le> a div b" by (rule zdiv_mono1)
  moreover have "n * b div b = n" using b by (intro nonzero_mult_div_cancel_right) simp
  ultimately show "n \<le> a div b" by (simp only:)
qed

lemma ceil_div_le_iff: "0 < b \<Longrightarrow> ceil_div a b \<le> n \<longleftrightarrow> a \<le> n * b"
  using le_div_iff_int [of b "- n" "- a"] by (auto simp: ceil_div_def)

lemma ceil_div_ge: "0 < b \<Longrightarrow> a \<le> ceil_div a b * b"
  using ceil_div_le_iff [of b a "ceil_div a b"] by simp

lemma ceil_div_nonpos: "0 < b \<Longrightarrow> a \<le> 0 \<Longrightarrow> ceil_div a b \<le> 0"
  by (simp add: ceil_div_le_iff)

lemma ceil_div_pos: "0 < b \<Longrightarrow> 0 < a \<Longrightarrow> 0 < ceil_div a b"
  using ceil_div_le_iff [of b a 0] by auto

subsection \<open>Strings\<close>

text \<open>
  \<open>startsWith\<close>, \<open>endsWith\<close> and \<open>includes\<close> are the library's \<open>prefix\<close>, \<open>suffix\<close> and
  \<open>sublist\<close>.  \<open>split\<close> cuts at every occurrence of one character, \<open>indexOf\<close> is
  \<open>None\<close> where the source tests for \<open>-1\<close>, \<open>trim\<close> removes the white space of both
  ends, \<open>toLowerCase\<close> maps the upper-case letters of Latin-1.
\<close>

abbreviation starts_with :: "string \<Rightarrow> string \<Rightarrow> bool" where
  "starts_with v p \<equiv> prefix p v"

abbreviation ends_with :: "string \<Rightarrow> string \<Rightarrow> bool" where
  "ends_with v p \<equiv> suffix p v"

abbreviation js_includes :: "'a list \<Rightarrow> 'a list \<Rightarrow> bool" where
  "js_includes v w \<equiv> sublist w v"

fun index_of :: "char \<Rightarrow> string \<Rightarrow> nat option" where
  "index_of c [] = None"
| "index_of c (x # xs) = (if x = c then Some 0 else map_option Suc (index_of c xs))"

fun split_on :: "char \<Rightarrow> string \<Rightarrow> string list" where
  "split_on c [] = [[]]"
| "split_on c (x # xs) =
     (if x = c then [] # split_on c xs
      else case split_on c xs of [] \<Rightarrow> [[x]] | w # ws \<Rightarrow> (x # w) # ws)"

fun join_with :: "string \<Rightarrow> string list \<Rightarrow> string" where
  "join_with sep [] = []"
| "join_with sep [w] = w"
| "join_with sep (w # ws) = w @ sep @ join_with sep ws"

definition is_space :: "char \<Rightarrow> bool" where
  "is_space c = (let n = (of_char c :: nat) in (9 \<le> n \<and> n \<le> 13) \<or> n = 32 \<or> n = 160)"

definition trim :: "string \<Rightarrow> string" where
  "trim s = rev (dropWhile is_space (rev (dropWhile is_space s)))"

definition lower_char :: "char \<Rightarrow> char" where
  "lower_char c =
     (let n = (of_char c :: nat)
      in if (65 \<le> n \<and> n \<le> 90) \<or> (192 \<le> n \<and> n \<le> 222 \<and> n \<noteq> 215)
         then char_of (n + 32) else c)"

definition to_lower :: "string \<Rightarrow> string" where
  "to_lower s = map lower_char s"

text \<open>The letter of the French messages that is not in ASCII, and the apostrophe.\<close>

abbreviation e_acute :: string where "e_acute \<equiv> [CHR 0xE9]"
abbreviation apostrophe :: string where "apostrophe \<equiv> [CHR 0x27]"

lemma split_on_nonempty [simp]: "split_on c s \<noteq> []"
  by (induction s) (auto split: list.splits)

lemma join_split_on [string_simps]: "join_with [c] (split_on c s) = s"
proof (induction s)
  case Nil
  show ?case by simp
next
  case (Cons x xs)
  obtain w ws where "split_on c xs = w # ws"
    by (cases "split_on c xs") auto
  with Cons show ?case by (cases ws) auto
qed

lemma split_on_no_sep: "w \<in> set (split_on c s) \<Longrightarrow> c \<notin> set w"
  by (induction s arbitrary: w) (auto split: if_splits list.splits)

lemma split_on_append_sep:
  "c \<notin> set w \<Longrightarrow> split_on c (w @ c # s) = w # split_on c s"
  by (induction w) auto

lemma split_on_none: "c \<notin> set w \<Longrightarrow> split_on c w = [w]"
  by (induction w) auto

lemma index_of_None [string_simps]: "index_of c s = None \<longleftrightarrow> c \<notin> set s"
  by (induction s) auto

lemma index_of_Some: "index_of c s = Some i \<Longrightarrow> i < length s \<and> s ! i = c \<and> c \<notin> set (take i s)"
  by (induction s arbitrary: i) (auto split: if_splits)

lemma index_of_append_sep [string_simps]: "c \<notin> set w \<Longrightarrow> index_of c (w @ c # s) = Some (length w)"
  by (induction w) auto

lemma lower_char_idem: "lower_char (lower_char c) = lower_char c"
proof -
  have "(of_char c :: nat) < 256" by simp
  then show ?thesis
    by (auto simp: lower_char_def Let_def take_bit_eq_mod)
qed

lemma to_lower_idem [string_simps]: "to_lower (to_lower s) = to_lower s"
  by (simp add: to_lower_def lower_char_idem)

text \<open>A separator that does not occur after its last place splits a text in one way.\<close>

lemma last_sep_unique:
  "(c :: char) \<notin> set xs \<Longrightarrow> c \<notin> set ys \<Longrightarrow> as @ c # xs = bs @ c # ys \<Longrightarrow> as = bs \<and> xs = ys"
proof (induction as arbitrary: bs)
  case Nil
  then show ?case by (cases bs) auto
next
  case (Cons a as)
  then show ?case by (cases bs) auto
qed

subsection \<open>Decimal numerals\<close>

text \<open>\<open>String(n)\<close> and template interpolation on integers.\<close>

definition digit_char :: "nat \<Rightarrow> char" where
  "digit_char d = char_of (48 + d)"

fun show_nat :: "nat \<Rightarrow> string" where
  "show_nat n = (if n < 10 then [digit_char n] else show_nat (n div 10) @ [digit_char (n mod 10)])"

declare show_nat.simps [simp del]

definition show_int :: "int \<Rightarrow> string" where
  "show_int n = (if n < 0 then CHR ''-'' # show_nat (nat (- n)) else show_nat (nat n))"

definition is_digit :: "char \<Rightarrow> bool" where
  "is_digit c = (let n = (of_char c :: nat) in 48 \<le> n \<and> n \<le> 57)"

fun parse_nat :: "nat \<Rightarrow> string \<Rightarrow> nat" where
  "parse_nat acc [] = acc"
| "parse_nat acc (c # cs) = parse_nat (acc * 10 + (of_char c - 48)) cs"

lemma of_char_digit [simp]: "d < 10 \<Longrightarrow> (of_char (digit_char d) :: nat) = 48 + d"
  by (simp add: digit_char_def take_bit_eq_mod)

lemma is_digit_digit_char [simp]: "d < 10 \<Longrightarrow> is_digit (digit_char d)"
  by (simp add: is_digit_def)

lemma show_nat_digits: "c \<in> set (show_nat n) \<Longrightarrow> is_digit c"
proof (induction n rule: show_nat.induct)
  case (1 n)
  show ?case
  proof (cases "n < 10")
    case True
    with "1.prems" show ?thesis by (simp add: show_nat.simps [of n])
  next
    case False
    with "1.prems" have "c \<in> set (show_nat (n div 10)) \<or> c = digit_char (n mod 10)"
      by (subst (asm) show_nat.simps) auto
    then show ?thesis
    proof
      assume "c \<in> set (show_nat (n div 10))"
      then show ?thesis by (rule "1.IH" [OF False])
    next
      assume "c = digit_char (n mod 10)"
      then show ?thesis by simp
    qed
  qed
qed

lemma show_nat_nonempty [simp]: "show_nat n \<noteq> []"
  by (subst show_nat.simps) simp

lemma parse_nat_append: "parse_nat acc (xs @ ys) = parse_nat (parse_nat acc xs) ys"
  by (induction xs arbitrary: acc) auto

lemma parse_show_nat: "parse_nat 0 (show_nat n) = n"
proof (induction n rule: show_nat.induct)
  case (1 n)
  then show ?case by (cases "n < 10") (simp_all add: show_nat.simps [of n] parse_nat_append)
qed

lemma show_nat_inject [simp]: "show_nat m = show_nat n \<longleftrightarrow> m = n"
  by (metis parse_show_nat)

lemma minus_not_digit [simp]: "\<not> is_digit (CHR ''-'')"
  by (simp add: is_digit_def)

lemma show_nat_no_minus: "show_nat k @ r \<noteq> CHR ''-'' # s"
proof
  assume eq: "show_nat k @ r = CHR ''-'' # s"
  obtain c cs where k: "show_nat k = c # cs" by (cases "show_nat k") auto
  with eq have "c = CHR ''-''" by simp
  with k show_nat_digits [of c k] show False by simp
qed

text \<open>
  A numeral is found again at the front of a longer text when what follows it is no digit:
  what makes texts that are built by concatenation readable again.
\<close>

lemma digits_prefix_unique:
  assumes "\<forall>c \<in> set xs. is_digit c" "\<forall>c \<in> set ys. is_digit c"
    and "xs @ r = ys @ s" "r = [] \<or> \<not> is_digit (hd r)" "s = [] \<or> \<not> is_digit (hd s)"
  shows "xs = ys \<and> r = s"
  using assms
proof (induction xs arbitrary: ys)
  case Nil
  then show ?case by (cases ys) auto
next
  case (Cons x xs)
  then show ?case by (cases ys) auto
qed

lemma show_nat_prefix_unique:
  assumes "show_nat m @ r = show_nat n @ s" "r = [] \<or> \<not> is_digit (hd r)" "s = [] \<or> \<not> is_digit (hd s)"
  shows "m = n \<and> r = s"
  using digits_prefix_unique [OF _ _ assms] show_nat_digits by auto

lemma show_int_prefix_unique:
  assumes eq: "show_int m @ r = show_int n @ s"
    and r: "r = [] \<or> \<not> is_digit (hd r)" and s: "s = [] \<or> \<not> is_digit (hd s)"
  shows "m = n \<and> r = s"
proof (cases "m < 0")
  case m: True
  show ?thesis
  proof (cases "n < 0")
    case True
    with m eq have "show_nat (nat (- m)) @ r = show_nat (nat (- n)) @ s"
      by (simp add: show_int_def)
    from show_nat_prefix_unique [OF this r s] m True show ?thesis by auto
  next
    case False
    with m eq show ?thesis by (metis append_Cons show_int_def show_nat_no_minus)
  qed
next
  case m: False
  show ?thesis
  proof (cases "n < 0")
    case True
    with m eq show ?thesis by (metis append_Cons show_int_def show_nat_no_minus)
  next
    case False
    with m eq have "show_nat (nat m) @ r = show_nat (nat n) @ s"
      by (simp add: show_int_def)
    from show_nat_prefix_unique [OF this r s] m False show ?thesis by auto
  qed
qed

lemma show_int_inject [simp]: "show_int m = show_int n \<longleftrightarrow> m = n"
  using show_int_prefix_unique [of m "[]" n "[]"] by auto

text \<open>The same numerals by recursion on integers, whose literals are binary: what evaluation uses.\<close>

function show_pos :: "int \<Rightarrow> string" where
  "show_pos n =
     (if n < 10 then [digit_char (nat n)] else show_pos (n div 10) @ [digit_char (nat (n mod 10))])"
  by pat_completeness auto

termination show_pos
  by (relation "measure nat") auto

declare show_pos.simps [simp del]

lemma show_pos_show_nat: "0 \<le> n \<Longrightarrow> show_pos n = show_nat (nat n)"
proof (induction n rule: show_pos.induct)
  case (1 n)
  show ?case
  proof (cases "n < 10")
    case True
    with "1.prems" show ?thesis by (simp add: show_pos.simps [of n] show_nat.simps [of "nat n"])
  next
    case False
    with 1 have "show_pos (n div 10) = show_nat (nat (n div 10))" by simp
    with False "1.prems" show ?thesis
      by (simp add: show_pos.simps [of n] show_nat.simps [of "nat n"] nat_div_distrib nat_mod_distrib)
  qed
qed

lemma show_int_code [code]:
  "show_int n = (if n < 0 then CHR ''-'' # show_pos (- n) else show_pos n)"
  by (simp add: show_int_def show_pos_show_nat)

end
