(* ===== verification/Json.thy ===== *)
theory Json
  imports Prelude "HOL-Library.Multiset"
begin

section \<open>JSON values, canonical order and serialisation (src/src/utils)\<close>

text \<open>
  The dynamic values the gateway handles: what \<open>JSON.parse\<close> returns, \<open>undefined\<close> for an
  absent property, \<open>JBuiltin\<close> for a member that a plain object or an array inherits
  from its prototype, and \<open>JNaN\<close> for the result of a conversion to a number that fails.  An object is the list of its own properties in enumeration order
  (array indices first, in numeric order, then the other keys in order of creation).
  Numbers are integers.  \<open>deepSort\<close> and \<open>deterministicStringify\<close> follow
  \<open>utils/deep-sort.ts\<close>.  The lemmas of \<open>Json_Canonical\<close> show that the serialisation of
  a sorted value is the same for two values exactly when they differ only in the order of
  keys, for values without a \<open>__proto__\<close> key: assigning to that key does not create a
  property.
\<close>

datatype json =
    JUndef
  | JNull
  | JBool bool
  | JNum int
  | JStr string
  | JArr "json list"
  | JObj "(string \<times> json) list"
  | JBuiltin string
  | JNaN

type_synonym jobject = "(string \<times> json) list"

subsection \<open>Properties of objects\<close>

definition array_index :: "string \<Rightarrow> nat option" where
  "array_index k =
     (if k \<noteq> [] \<and> list_all is_digit k \<and> show_nat (parse_nat 0 k) = k \<and> parse_nat 0 k < 4294967295
      then Some (parse_nat 0 k) else None)"

fun obj_place :: "string \<Rightarrow> 'v \<Rightarrow> (string \<times> 'v) list \<Rightarrow> (string \<times> 'v) list" where
  "obj_place k v [] = [(k, v)]"
| "obj_place k v ((k', v') # ps) =
     (case array_index k of
        None \<Rightarrow> (k', v') # obj_place k v ps
      | Some i \<Rightarrow>
          (case array_index k' of
             None \<Rightarrow> (k, v) # (k', v') # ps
           | Some j \<Rightarrow> if i < j then (k, v) # (k', v') # ps else (k', v') # obj_place k v ps))"

definition obj_insert :: "string \<Rightarrow> 'v \<Rightarrow> (string \<times> 'v) list \<Rightarrow> (string \<times> 'v) list" where
  "obj_insert k v ps = (if map_has ps k then AList.update k v ps else obj_place k v ps)"

text \<open>
  \<open>obj[k] = v\<close>: an assignment to \<open>__proto__\<close> on a plain object reaches the setter of
  \<open>Object.prototype\<close> and leaves the own properties as they are.
\<close>

definition obj_assign :: "string \<Rightarrow> 'v \<Rightarrow> (string \<times> 'v) list \<Rightarrow> (string \<times> 'v) list" where
  "obj_assign k v ps = (if k = ''__proto__'' then ps else obj_insert k v ps)"

definition obj_build :: "(string \<times> 'v) list \<Rightarrow> (string \<times> 'v) list" where
  "obj_build es = fold (\<lambda>(k, v). obj_assign k v) es []"

text \<open>Reading an own property (\<open>undefined\<close> when there is none).\<close>

definition obj_get :: "jobject \<Rightarrow> string \<Rightarrow> json" where
  "obj_get ps k = (case map_of ps k of Some v \<Rightarrow> v | None \<Rightarrow> JUndef)"

text \<open>The members that every object inherits from \<open>Object.prototype\<close>.\<close>

definition object_members :: "string list" where
  "object_members = [''constructor'', ''__defineGetter__'', ''__defineSetter__'', ''hasOwnProperty'',
     ''__lookupGetter__'', ''__lookupSetter__'', ''isPrototypeOf'', ''propertyIsEnumerable'',
     ''toString'', ''valueOf'', ''__proto__'', ''toLocaleString'']"

definition inherited :: "string list \<Rightarrow> string \<Rightarrow> json" where
  "inherited members k = (if k \<in> set members then JBuiltin k else JUndef)"

definition object_member :: "jobject \<Rightarrow> string \<Rightarrow> json" where
  "object_member ps k = (case map_of ps k of Some v \<Rightarrow> v | None \<Rightarrow> inherited object_members k)"

text \<open>\<open>String(v)\<close>: what a template or \<open>String\<close> makes of a value.\<close>

primrec js_string :: "json \<Rightarrow> string" where
  "js_string JUndef = ''undefined''"
| "js_string JNull = ''null''"
| "js_string (JBool b) = (if b then ''true'' else ''false'')"
| "js_string (JNum n) = show_int n"
| "js_string (JStr s) = s"
| "js_string (JArr xs) = join_with '','' (map2 (\<lambda>x t. if x = JUndef \<or> x = JNull then [] else t) xs (map js_string xs))"
| "js_string (JObj ps) = ''[object Object]''"
| "js_string (JBuiltin f) =
     (if f = ''__proto__'' then ''[object Object]''
      else ''function '' @ (if f = ''constructor'' then ''Object'' else f) @ ''() { [native code] }'')"
| "js_string JNaN = ''NaN''"

text \<open>The truth value of a value in a condition.\<close>

definition truthy :: "json \<Rightarrow> bool" where
  "truthy v \<longleftrightarrow> v \<notin> {JUndef, JNull, JBool False, JNum 0, JStr [], JNaN}"

text \<open>
  \<open>===\<close> between values of different sources: an object or an array is never identical to one
  of another source.
\<close>

fun strict_eq :: "json \<Rightarrow> json \<Rightarrow> bool" where
  "strict_eq JUndef JUndef = True"
| "strict_eq JNull JNull = True"
| "strict_eq (JBool a) (JBool b) = (a = b)"
| "strict_eq (JNum a) (JNum b) = (a = b)"
| "strict_eq (JStr a) (JStr b) = (a = b)"
| "strict_eq _ _ = False"

subsection \<open>deepSort and deterministicStringify\<close>

primrec deepSort :: "json \<Rightarrow> json" where
  "deepSort JUndef = JUndef"
| "deepSort JNull = JNull"
| "deepSort (JBool b) = JBool b"
| "deepSort (JNum n) = JNum n"
| "deepSort (JStr s) = JStr s"
| "deepSort (JArr xs) = JArr (map deepSort xs)"
| "deepSort (JObj ps) = JObj (obj_build (sort_key fst (map (map_prod id deepSort) ps)))"
| "deepSort (JBuiltin f) = JBuiltin f"
| "deepSort JNaN = JNaN"

definition hex_digit :: "nat \<Rightarrow> char" where
  "hex_digit d = (if d < 10 then char_of (48 + d) else char_of (87 + d))"

definition escape_char :: "char \<Rightarrow> string" where
  "escape_char c =
     (let n = (of_char c :: nat)
      in if n = 34 then [CHR 0x5C, CHR 0x22]
         else if n = 92 then [CHR 0x5C, CHR 0x5C]
         else if n = 8 then [CHR 0x5C, CHR ''b'']
         else if n = 12 then [CHR 0x5C, CHR ''f'']
         else if n = 10 then [CHR 0x5C, CHR ''n'']
         else if n = 13 then [CHR 0x5C, CHR ''r'']
         else if n = 9 then [CHR 0x5C, CHR ''t'']
         else if n < 32
           then [CHR 0x5C, CHR ''u'', CHR ''0'', CHR ''0'', hex_digit (n div 16), hex_digit (n mod 16)]
         else [c])"

definition quote_string :: "string \<Rightarrow> string" where
  "quote_string s = CHR 0x22 # concat (map escape_char s) @ [CHR 0x22]"

definition property_text :: "string \<Rightarrow> string option \<Rightarrow> string option" where
  "property_text k t = map_option (\<lambda>s. quote_string k @ CHR '':'' # s) t"

primrec stringify :: "json \<Rightarrow> string option" where
  "stringify JUndef = None"
| "stringify JNull = Some ''null''"
| "stringify (JBool b) = Some (if b then ''true'' else ''false'')"
| "stringify (JNum n) = Some (show_int n)"
| "stringify (JStr s) = Some (quote_string s)"
| "stringify (JArr xs) =
     Some (CHR ''['' # join_with '','' (map (\<lambda>t. case t of None \<Rightarrow> ''null'' | Some s \<Rightarrow> s) (map stringify xs))
           @ '']'')"
| "stringify (JObj ps) =
     Some (CHR ''{'' # join_with '',''
             (List.map_filter (\<lambda>(k, t). property_text k t) (map (map_prod id stringify) ps)) @ ''}'')"
| "stringify (JBuiltin f) = None"
| "stringify JNaN = Some ''null''"

definition deterministicStringify :: "json \<Rightarrow> string option" where
  "deterministicStringify v = stringify (deepSort v)"

subsection \<open>Well-formed values\<close>

text \<open>
  \<open>json_plain\<close>: nothing in the value is \<open>undefined\<close> or inherited, as for a value
  that \<open>JSON.parse\<close> returned.  \<open>json_ok\<close>: moreover the keys of every object are
  distinct and none is \<open>__proto__\<close>.
\<close>

primrec json_plain :: "json \<Rightarrow> bool" where
  "json_plain JUndef = False"
| "json_plain JNull = True"
| "json_plain (JBool b) = True"
| "json_plain (JNum n) = True"
| "json_plain (JStr s) = True"
| "json_plain (JArr xs) = list_all id (map json_plain xs)"
| "json_plain (JObj ps) = list_all snd (map (map_prod id json_plain) ps)"
| "json_plain (JBuiltin f) = False"
| "json_plain JNaN = False"

primrec json_ok :: "json \<Rightarrow> bool" where
  "json_ok JUndef = False"
| "json_ok JNull = True"
| "json_ok (JBool b) = True"
| "json_ok (JNum n) = True"
| "json_ok (JStr s) = True"
| "json_ok (JArr xs) = list_all id (map json_ok xs)"
| "json_ok (JObj ps) =
     (distinct (map fst ps) \<and> ''__proto__'' \<notin> set (map fst ps) \<and>
      list_all snd (map (map_prod id json_ok) ps))"
| "json_ok (JBuiltin f) = False"
| "json_ok JNaN = False"

lemma json_plain_JArr [simp]: "json_plain (JArr xs) \<longleftrightarrow> (\<forall>x \<in> set xs. json_plain x)"
  by (simp add: list_all_iff)

lemma json_plain_JObj [simp]: "json_plain (JObj ps) \<longleftrightarrow> (\<forall>p \<in> set ps. json_plain (snd p))"
  by (auto simp: list_all_iff)

lemma json_ok_JArr [simp]: "json_ok (JArr xs) \<longleftrightarrow> (\<forall>x \<in> set xs. json_ok x)"
  by (simp add: list_all_iff)

lemma json_ok_JObj [simp]:
  "json_ok (JObj ps) \<longleftrightarrow>
     distinct (map fst ps) \<and> ''__proto__'' \<notin> fst ` set ps \<and> (\<forall>p \<in> set ps. json_ok (snd p))"
  by (auto simp: list_all_iff)

declare json_plain.simps(6,7) [simp del] json_ok.simps(6,7) [simp del]

lemma json_induct [case_names Undef Null Bool Num Str Arr Obj Builtin NaN]:
  assumes "P JUndef" "P JNull" "\<And>b. P (JBool b)" "\<And>n. P (JNum n)" "\<And>s. P (JStr s)"
    and "\<And>xs. (\<And>x. x \<in> set xs \<Longrightarrow> P x) \<Longrightarrow> P (JArr xs)"
    and "\<And>ps. (\<And>k v. (k, v) \<in> set ps \<Longrightarrow> P v) \<Longrightarrow> P (JObj ps)"
    and "\<And>f. P (JBuiltin f)" "P JNaN"
  shows "P v"
proof (induction v)
  case (JObj ps)
  have "P v" if "(k, v) \<in> set ps" for k v
    by (rule JObj [OF that]) (simp add: snds.intros)
  then show ?case by (rule assms(7))
qed (use assms in auto)

lemma json_ok_plain: "json_ok v \<Longrightarrow> json_plain v"
  by (induction v rule: json_induct) auto

subsection \<open>Lemmas on object construction\<close>

lemma map_of_obj_place: "map_of ps k = None \<Longrightarrow> map_of (obj_place k v ps) = (map_of ps)(k \<mapsto> v)"
  by (induction k v ps rule: obj_place.induct) (auto split: option.splits if_splits)

lemma map_of_obj_insert [simp]: "map_of (obj_insert k v ps) = (map_of ps)(k \<mapsto> v)"
  by (simp add: obj_insert_def map_of_obj_place update_conv')

lemma set_obj_place: "set (obj_place k v ps) = insert (k, v) (set ps)"
  by (induction k v ps rule: obj_place.induct) (auto split: option.splits)

lemma map_of_obj_assign:
  "map_of (obj_assign k v ps) = (if k = ''__proto__'' then map_of ps else (map_of ps)(k \<mapsto> v))"
  by (simp add: obj_assign_def)

lemma obj_assign_proto [simp]: "obj_assign ''__proto__'' v ps = ps"
  by (simp add: obj_assign_def)

lemma set_obj_insert: "set (obj_insert k v ps) \<subseteq> insert (k, v) (set ps)"
proof -
  have "set (AList.update k v qs) \<subseteq> insert (k, v) (set qs)" for qs :: "(string \<times> 'a) list"
    by (induction qs) auto
  then show ?thesis by (simp add: obj_insert_def set_obj_place)
qed

lemma distinct_obj_insert: "distinct (map fst ps) \<Longrightarrow> distinct (map fst (obj_insert k v ps))"
proof -
  have "distinct (map fst (obj_place k v qs))" if "map_of qs k = None" "distinct (map fst qs)" for qs :: "(string \<times> 'a) list"
    using that
  proof (induction k v qs rule: obj_place.induct)
    case (2 k v k' v' qs)
    then show ?case
      by (auto simp: set_obj_place map_of_eq_None_iff split: option.splits if_splits)
  qed simp
  then show "distinct (map fst ps) \<Longrightarrow> distinct (map fst (obj_insert k v ps))"
    by (cases "map_of ps k") (simp_all add: obj_insert_def distinct_update)
qed

lemma distinct_obj_build: "distinct (map fst (obj_build es))"
proof -
  have "distinct (map fst (fold (\<lambda>(k, v). obj_assign k v) es ps))" if "distinct (map fst ps)" for ps
    using that by (induction es arbitrary: ps) (auto simp: obj_assign_def distinct_obj_insert)
  then show ?thesis by (simp add: obj_build_def)
qed

lemma set_obj_assign: "set (obj_assign k v ps) \<subseteq> insert (k, v) (set ps)"
  using set_obj_insert [of k v ps] by (auto simp: obj_assign_def)

lemma set_obj_fold:
  "set (fold (\<lambda>(k, v). obj_assign k v) es ps) \<subseteq> set es \<union> set ps"
proof (induction es arbitrary: ps)
  case (Cons e es)
  obtain k v where e: "e = (k, v)" by (cases e)
  from Cons [of "obj_assign k v ps"] set_obj_assign [of k v ps] e show ?case by auto
qed simp

lemma set_obj_build: "set (obj_build es) \<subseteq> set es"
  using set_obj_fold [of es "[]"] by (simp add: obj_build_def)

lemma map_of_obj_fold:
  "distinct (map fst es) \<Longrightarrow>
   map_of (fold (\<lambda>(k, v). obj_assign k v) es ps) k =
     (if k = ''__proto__'' then map_of ps k
      else case map_of es k of Some v \<Rightarrow> Some v | None \<Rightarrow> map_of ps k)"
proof (induction es arbitrary: ps)
  case (Cons e es)
  obtain k' v' where e: "e = (k', v')" by (cases e)
  from Cons.prems e have "k' \<notin> fst ` set es" by simp
  then have "map_of es k' = None" by (simp add: map_of_eq_None_iff)
  with Cons e show ?case by (auto simp: map_of_obj_assign split: option.splits)
qed simp

lemma map_of_obj_build:
  "distinct (map fst es) \<Longrightarrow>
   map_of (obj_build es) k = (if k = ''__proto__'' then None else map_of es k)"
  by (simp add: obj_build_def map_of_obj_fold split: option.splits)

lemma obj_fold_skip_proto:
  "fold (\<lambda>(k, v). obj_assign k v) es ps =
   fold (\<lambda>(k, v). obj_assign k v) (filter (\<lambda>e. fst e \<noteq> ''__proto__'') es) ps"
  by (induction es arbitrary: ps) auto

lemma obj_build_skip_proto: "obj_build es = obj_build (filter (\<lambda>e. fst e \<noteq> ''__proto__'') es)"
  unfolding obj_build_def by (rule obj_fold_skip_proto)

end
