(* ===== verification/Json_Canonical.thy ===== *)
theory Json_Canonical
  imports Json
begin

section \<open>The canonical text of a JSON value\<close>

text \<open>
  Two values are equivalent when they differ only in the order of the keys of their objects.
  \<open>deepSort_eq_iff\<close>: sorting identifies exactly the equivalent values.
  \<open>stringify_inject\<close>: the text of a value determines it.  Together: the text that is
  hashed into cache keys and request fingerprints is the same exactly for equivalent values.
\<close>

inductive json_eqv :: "json \<Rightarrow> json \<Rightarrow> bool" where
  eqv_refl: "json_eqv v v"
| eqv_arr: "length xs = length ys \<Longrightarrow> (\<And>i. i < length xs \<Longrightarrow> json_eqv (xs ! i) (ys ! i)) \<Longrightarrow>
     json_eqv (JArr xs) (JArr ys)"
| eqv_obj: "distinct (map fst ps) \<Longrightarrow> distinct (map fst qs) \<Longrightarrow> fst ` set ps = fst ` set qs \<Longrightarrow>
     (\<And>k v w. (k, v) \<in> set ps \<Longrightarrow> (k, w) \<in> set qs \<Longrightarrow> json_eqv v w) \<Longrightarrow>
     json_eqv (JObj ps) (JObj qs)"

subsection \<open>Sorting\<close>

lemma set_eq_sort_eq:
  assumes "distinct (map fst ps)" "distinct (map fst qs)" "set ps = set qs"
  shows "sort_key fst ps = sort_key fst (qs :: (string \<times> 'v) list)"
proof (rule sort_key_inj_key_eq)
  have d: "distinct ps" "distinct qs" using assms(1,2) by (simp_all add: distinct_map)
  then show "mset ps = mset (sort_key fst qs)"
    using assms(3) by (simp add: set_eq_iff_mset_eq_distinct)
  show "inj_on fst (set ps)" using assms(1) by (simp add: distinct_map)
  show "sorted (map fst (sort_key fst qs))" by simp
qed

lemma distinct_map_prod [simp]: "map fst (map (map_prod id f) ps) = map fst ps"
  by (induction ps) auto

lemma map_of_map_prod: "map_of (map (map_prod id f) ps) k = map_option f (map_of ps k)"
  by (induction ps) auto

lemma distinct_sort_key [simp]:
  "distinct (map fst (sort_key fst ps)) \<longleftrightarrow> distinct (map fst (ps :: (string \<times> 'v) list))"
  by (metis mset_map mset_sort mset_eq_imp_distinct_iff)

lemma map_of_sort_key:
  "distinct (map fst ps) \<Longrightarrow> map_of (sort_key fst ps) = map_of (ps :: (string \<times> 'v) list)"
  by (rule map_of_eqI) (auto simp: map_of_inject_set)

lemma map_of_deepSort_obj:
  "distinct (map fst ps) \<Longrightarrow>
   map_of (obj_build (sort_key fst (map (map_prod id f) ps))) k =
     (if k = ''__proto__'' then None else map_option f (map_of ps k))"
  by (simp add: map_of_obj_build map_of_sort_key map_of_map_prod)

lemma eqv_deepSort: "json_eqv v w \<Longrightarrow> deepSort v = deepSort w"
proof (induction rule: json_eqv.induct)
  case (eqv_arr xs ys)
  then show ?case by (auto intro: nth_equalityI)
next
  case (eqv_obj ps qs)
  let ?f = "map (map_prod id deepSort)"
  have "set (?f ps) = set (?f qs)"
  proof -
    have "map_of (?f ps) k = map_of (?f qs) k" for k
    proof (cases "map_of ps k")
      case None
      then have "map_of qs k = None" using eqv_obj.hyps(3) by (simp add: map_of_eq_None_iff)
      with None show ?thesis by (simp add: map_of_map_prod)
    next
      case (Some v)
      then have "k \<in> fst ` set qs" using eqv_obj.hyps(3) by (metis domI dom_map_of_conv_image_fst)
      then obtain w where w: "map_of qs k = Some w" by (metis domD dom_map_of_conv_image_fst)
      with Some eqv_obj.IH have "deepSort v = deepSort w" by (meson map_of_SomeD)
      with Some w show ?thesis by (simp add: map_of_map_prod)
    qed
    then show ?thesis using eqv_obj.hyps(1,2) by (intro map_of_inject_set [THEN iffD1]) auto
  qed
  then show ?case
    using set_eq_sort_eq [of "?f ps" "?f qs"] eqv_obj.hyps(1,2) by simp
qed simp

lemma deepSort_eqv:
  "deepSort v = deepSort w \<Longrightarrow> json_ok v \<Longrightarrow> json_ok w \<Longrightarrow> json_eqv v w"
proof (induction v arbitrary: w rule: json_induct)
  case (Arr xs)
  from Arr.prems(1) obtain ys where w: "w = JArr ys" by (cases w) auto
  with Arr.prems(1) have m: "map deepSort xs = map deepSort ys" by simp
  then have len: "length xs = length ys" by (rule map_eq_imp_length_eq)
  have "json_eqv (xs ! i) (ys ! i)" if "i < length xs" for i
  proof (rule Arr.IH)
    show "deepSort (xs ! i) = deepSort (ys ! i)" using m that len by (metis nth_map)
  qed (use Arr.prems w that len in auto)
  with w len show ?case by (simp add: eqv_arr)
next
  case (Obj ps)
  from Obj.prems(1) obtain qs where w: "w = JObj qs" by (cases w) auto
  let ?b = "\<lambda>ps. obj_build (sort_key fst (map (map_prod id deepSort) ps))"
  have d: "distinct (map fst ps)" "distinct (map fst qs)"
    and np: "''__proto__'' \<notin> fst ` set ps" "''__proto__'' \<notin> fst ` set qs"
    using Obj.prems w by auto
  have eq: "map_option deepSort (map_of ps k) = map_option deepSort (map_of qs k)" for k
  proof (cases "k = ''__proto__''")
    case True
    then have "map_of ps k = None" "map_of qs k = None" using np by (auto simp: map_of_eq_None_iff)
    then show ?thesis by simp
  next
    case False
    have "map_of (?b ps) k = map_of (?b qs) k" using Obj.prems(1) w by simp
    with False d show ?thesis by (simp add: map_of_deepSort_obj)
  qed
  have "fst ` set ps = fst ` set qs"
  proof -
    have "map_of ps k = None \<longleftrightarrow> map_of qs k = None" for k using eq [of k] by (metis option.map_disc_iff)
    then show ?thesis by (auto simp: map_of_eq_None_iff)
  qed
  moreover have "json_eqv v u" if "(k, v) \<in> set ps" "(k, u) \<in> set qs" for k v u
  proof (rule Obj.IH)
    show "(k, v) \<in> set ps" by fact
    show "deepSort v = deepSort u" using eq [of k] d that by simp
  qed (use Obj.prems w that in auto)
  ultimately show ?case using w d by (auto intro: eqv_obj)
next
  case (Bool b)
  then show ?case by (cases w) (auto intro: eqv_refl)
next
  case (Num n)
  then show ?case by (cases w) (auto intro: eqv_refl)
next
  case (Str s)
  then show ?case by (cases w) (auto intro: eqv_refl)
next
  case Null
  then show ?case by (cases w) (auto intro: eqv_refl)
next
  case (Builtin f)
  from Builtin.prems(2) have False by simp
  then show ?case ..
qed auto

lemma deepSort_eq_iff: "json_ok v \<Longrightarrow> json_ok w \<Longrightarrow> deepSort v = deepSort w \<longleftrightarrow> json_eqv v w"
  using deepSort_eqv eqv_deepSort by blast

inductive_simps json_eqv_simps [simp]:
  "json_eqv (JStr s) v" "json_eqv (JNum n) v" "json_eqv (JBool b) v" "json_eqv JNull v"

lemma json_eqv_obj_iff:
  assumes "distinct (map fst ps)" "distinct (map fst qs)"
  shows "json_eqv (JObj ps) (JObj qs) \<longleftrightarrow> (\<forall>k. rel_option json_eqv (map_of ps k) (map_of qs k))"
proof
  assume "json_eqv (JObj ps) (JObj qs)"
  then show "\<forall>k. rel_option json_eqv (map_of ps k) (map_of qs k)"
  proof cases
    case eqv_refl
    then show ?thesis by (simp add: option.rel_refl json_eqv.eqv_refl)
  next
    case eqv_obj
    show ?thesis
    proof
      fix k
      show "rel_option json_eqv (map_of ps k) (map_of qs k)"
      proof (cases "k \<in> fst ` set ps")
        case True
        then obtain v w where "map_of ps k = Some v" "map_of qs k = Some w"
          using eqv_obj(3) by (metis domD dom_map_of_conv_image_fst)
        with eqv_obj(4) show ?thesis by (auto dest: map_of_SomeD)
      next
        case False
        then have "map_of ps k = None" "map_of qs k = None"
          using eqv_obj(3) by (simp_all add: map_of_eq_None_iff)
        then show ?thesis by simp
      qed
    qed
  qed
next
  assume r: "\<forall>k. rel_option json_eqv (map_of ps k) (map_of qs k)"
  then have "map_of ps k = None \<longleftrightarrow> map_of qs k = None" for k
    by (metis option.rel_distinct(1,2) option.exhaust)
  then have "fst ` set ps = fst ` set qs" by (auto simp: map_of_eq_None_iff)
  moreover have "json_eqv v w" if "(k, v) \<in> set ps" "(k, w) \<in> set qs" for k v w
    using r [rule_format, of k] that assms by simp
  ultimately show "json_eqv (JObj ps) (JObj qs)" using assms by (intro json_eqv.eqv_obj)
qed

subsection \<open>The text determines the value\<close>

text \<open>The texts of the escapes form a prefix code in which no code word starts with a quote.\<close>

definition hex_value :: "char \<Rightarrow> nat" where
  "hex_value c = (let n = of_char c in if n < 97 then n - 48 else n - 87)"

definition unescape_letter :: "char \<Rightarrow> char" where
  "unescape_letter c =
     (if c = CHR ''b'' then CHR 0x08 else if c = CHR ''f'' then CHR 0x0C
      else if c = CHR ''n'' then CHR 0x0A else if c = CHR ''r'' then CHR 0x0D
      else if c = CHR ''t'' then CHR 0x09 else c)"

fun unescape :: "string \<Rightarrow> char \<times> string" where
  "unescape (x # y # s) =
     (if x \<noteq> CHR 0x5C then (x, y # s)
      else if y = CHR ''u'' then (char_of (hex_value (s ! 2) * 16 + hex_value (s ! 3)), drop 4 s)
      else (unescape_letter y, s))"
| "unescape [x] = (x, [])"
| "unescape [] = undefined"

lemma hex_value_digit: "d < 16 \<Longrightarrow> hex_value (hex_digit d) = d"
  by (auto simp: hex_value_def hex_digit_def Let_def take_bit_eq_mod)

lemma unescape_escape: "unescape (escape_char c @ s) = (c, s)"
proof -
  define n where "n = (of_char c :: nat)"
  have c: "c = char_of n" by (simp add: n_def)
  have n: "n < 256" by (simp add: n_def)
  have letters: "unescape_letter (CHR 0x22) = CHR 0x22"
    "unescape_letter (CHR 0x5C) = CHR 0x5C"
    "CHR 0x22 \<noteq> CHR ''u''" "CHR 0x5C \<noteq> CHR ''u''"
    by code_simp+
  have ascii: "CHR 0x22 = char_of (34::nat)" "CHR 0x5C = char_of (92::nat)" by code_simp+
  show ?thesis
  proof (cases "n < 32")
    case True
    then have "n div 16 < 16" "n mod 16 < 16" by auto
    moreover have "CHR 0x09 = char_of (9::nat)" "CHR 0x0D = char_of (13::nat)" "CHR 0x0A = char_of (10::nat)"
      "CHR 0x0C = char_of (12::nat)" "CHR 0x08 = char_of (8::nat)" by code_simp+
    ultimately show ?thesis using True
      by (auto simp: escape_char_def Let_def n_def [symmetric] hex_value_digit c unescape_letter_def)
  next
    case False
    show ?thesis
    proof (cases "n = 34 \<or> n = 92")
      case True
      then have "c = CHR 0x22 \<and> escape_char c = [CHR 0x5C, CHR 0x22] \<or>
          c = CHR 0x5C \<and> escape_char c = [CHR 0x5C, CHR 0x5C]"
        using ascii by (auto simp: escape_char_def n_def [symmetric] c)
      then show ?thesis using letters by auto
    next
      case plain: False
      then have "c \<noteq> CHR 0x5C"
        using n by (simp add: c char_of_eq_iff take_bit_eq_mod)
      moreover have "escape_char c = [c]"
        using False plain by (simp add: escape_char_def n_def [symmetric])
      ultimately show ?thesis by (cases s) auto
    qed
  qed
qed

lemma escape_char_inject: "escape_char c @ s = escape_char d @ t \<Longrightarrow> c = d \<and> s = t"
  by (metis Pair_inject unescape_escape)

lemma escape_char_nonempty [simp]: "escape_char c \<noteq> []"
  by (simp add: escape_char_def Let_def)

lemma escape_char_hd: "hd (escape_char c) \<noteq> CHR 0x22"
proof -
  have "CHR 0x5C \<noteq> (CHR 0x22 :: char)" by code_simp
  then show ?thesis by (auto simp: escape_char_def Let_def)
qed

lemma quote_unique: "quote_string s @ r = quote_string t @ r' \<Longrightarrow> s = t \<and> r = r'"
proof -
  have body: "concat (map escape_char s) @ CHR 0x22 # r =
        concat (map escape_char t) @ CHR 0x22 # r' \<Longrightarrow> s = t \<and> r = r'" for s t
  proof (induction s arbitrary: t)
    case Nil
    show ?case
    proof (cases t)
      case (Cons d t')
      with Nil have "hd (escape_char d) = CHR 0x22"
        by (cases "escape_char d") auto
      then show ?thesis by (simp add: escape_char_hd)
    qed (use Nil in simp)
  next
    case (Cons c s)
    show ?case
    proof (cases t)
      case Nil
      with Cons.prems have "hd (escape_char c) = CHR 0x22"
        by (cases "escape_char c") auto
      then show ?thesis by (simp add: escape_char_hd)
    next
      case t: (Cons d t')
      have "escape_char c @ (concat (map escape_char s) @ CHR 0x22 # r) =
          escape_char d @ (concat (map escape_char t') @ CHR 0x22 # r')"
        using Cons.prems t by simp
      from escape_char_inject [OF this] have "c = d" and
        "concat (map escape_char s) @ CHR 0x22 # r =
         concat (map escape_char t') @ CHR 0x22 # r'"
        by blast+
      with Cons.IH [of t'] t show ?thesis by simp
    qed
  qed
  show "quote_string s @ r = quote_string t @ r' \<Longrightarrow> s = t \<and> r = r'"
    by (rule body) (simp add: quote_string_def)
qed

text \<open>A sequence of texts, separated by commas and closed by a bracket.\<close>

definition seq_text :: "string list \<Rightarrow> char \<Rightarrow> string" where
  "seq_text ts c = join_with '','' ts @ [c]"

lemma seq_text_simps [simp]:
  "seq_text [] c = [c]"
  "seq_text [t] c = t @ [c]"
  "seq_text (t # u # ts) c = t @ CHR '','' # seq_text (u # ts) c"
  by (simp_all add: seq_text_def)

definition delim :: "string \<Rightarrow> bool" where
  "delim r \<longleftrightarrow> r = [] \<or> hd r \<in> {CHR '','', CHR '']'', CHR ''}''}"

lemma delim_simps [simp]: "delim []" "delim (CHR '','' # r)" "delim (CHR '']'' # r)" "delim (CHR ''}'' # r)"
  by (simp_all add: delim_def)

lemma delim_not_digit: "delim r \<Longrightarrow> r = [] \<or> \<not> is_digit (hd r)"
  by (auto simp: delim_def is_digit_def)

lemma seq_text_unique:
  assumes "\<And>x y r r'. x \<in> set xs \<Longrightarrow> y \<in> set ys \<Longrightarrow> f x @ r = f y @ r' \<Longrightarrow> delim r \<Longrightarrow> delim r' \<Longrightarrow> x = y \<and> r = r'"
    and "\<And>x. x \<in> set xs \<union> set ys \<Longrightarrow> f x \<noteq> [] \<and> \<not> delim (f x)"
    and "c \<in> {CHR '']'', CHR ''}''}"
    and "seq_text (map f xs) c @ r = seq_text (map f ys) c @ r'"
  shows "xs = ys \<and> r = r'"
  using assms
proof (induction xs arbitrary: ys)
  case Nil
  show ?case
  proof (cases ys)
    case (Cons y ys')
    then have fy: "f y \<noteq> []" "\<not> delim (f y)" using Nil.prems(2) by auto
    have "hd (seq_text (map f ys) c @ r') = hd (f y)"
      using Cons fy by (cases ys') (auto simp: hd_append)
    moreover have "hd (seq_text (map f ys) c @ r') = c"
      using Nil.prems(4) by (metis append_Cons append_Nil list.map(1) list.sel(1) seq_text_simps(1))
    ultimately have "hd (f y) = c" by simp
    with fy Nil.prems(3) show ?thesis by (auto simp: delim_def)
  qed (use Nil in auto)
next
  case (Cons x xs)
  show ?case
  proof (cases ys)
    case Nil
    have fx: "f x \<noteq> []" "\<not> delim (f x)" using Cons.prems(2) by auto
    have "hd (seq_text (map f (x # xs)) c @ r) = hd (f x)"
      using fx by (cases xs) (auto simp: hd_append)
    moreover have "hd (seq_text (map f (x # xs)) c @ r) = c" using Cons.prems(4) Nil by simp
    ultimately have "hd (f x) = c" by simp
    with fx Cons.prems(3) show ?thesis by (auto simp: delim_def)
  next
    case ys: (Cons y ys')
    obtain t where t: "seq_text (map f (x # xs)) c @ r = f x @ t" "delim t"
      "t = (if xs = [] then c # r else CHR '','' # seq_text (map f xs) c @ r)"
      using Cons.prems(3) by (cases xs) auto
    obtain u where u: "seq_text (map f ys) c @ r' = f y @ u" "delim u"
      "u = (if ys' = [] then c # r' else CHR '','' # seq_text (map f ys') c @ r')"
      using Cons.prems(3) ys by (cases ys') auto
    have "f x @ t = f y @ u" using Cons.prems(4) t(1) u(1) by simp
    then have xy: "x = y" and tu: "t = u"
      using Cons.prems(1) [of x y t u] t(2) u(2) ys by auto
    show ?thesis
    proof (cases "xs = [] \<or> ys' = []")
      case True
      with tu t(3) u(3) Cons.prems(3) have "xs = []" "ys' = []" "r = r'" by (auto split: if_splits)
      with xy ys show ?thesis by simp
    next
      case False
      with tu t(3) u(3) have "seq_text (map f xs) c @ r = seq_text (map f ys') c @ r'" by auto
      then have "xs = ys' \<and> r = r'"
        using Cons.prems ys by (intro Cons.IH) auto
      with xy ys show ?thesis by simp
    qed
  qed
qed

text \<open>The text of a plain value, and its shape at each constructor.\<close>

definition jtext :: "json \<Rightarrow> string" where
  "jtext v = the (stringify v)"

definition entry_text :: "string \<times> json \<Rightarrow> string" where
  "entry_text p = quote_string (fst p) @ CHR '':'' # jtext (snd p)"

lemma stringify_plain: "json_plain v \<Longrightarrow> stringify v = Some (jtext v)"
  by (cases v) (auto simp: jtext_def)

lemma map_filter_entries:
  "\<forall>p \<in> set ps. json_plain (snd p) \<Longrightarrow>
   List.map_filter (\<lambda>(k, t). property_text k t) (map (map_prod id stringify) ps) = map entry_text ps"
  by (induction ps) (auto simp: map_filter_simps property_text_def entry_text_def stringify_plain)

lemma jtext_simps [simp]:
  "jtext JNull = ''null''"
  "jtext (JBool b) = (if b then ''true'' else ''false'')"
  "jtext (JNum n) = show_int n"
  "jtext (JStr s) = quote_string s"
  by (simp_all add: jtext_def)

lemma jtext_arr:
  "json_plain (JArr xs) \<Longrightarrow> jtext (JArr xs) = CHR ''['' # seq_text (map jtext xs) (CHR '']'')"
proof -
  assume "json_plain (JArr xs)"
  then have "map (\<lambda>t. case t of None \<Rightarrow> ''null'' | Some s \<Rightarrow> s) (map stringify xs) = map jtext xs"
    by (induction xs) (auto simp: stringify_plain)
  then have "stringify (JArr xs) = Some (CHR ''['' # join_with '','' (map jtext xs) @ '']'')"
    by (simp only: stringify.simps)
  then show ?thesis by (simp add: jtext_def [of "JArr xs"] seq_text_def)
qed

lemma jtext_obj:
  "json_plain (JObj ps) \<Longrightarrow> jtext (JObj ps) = CHR ''{'' # seq_text (map entry_text ps) (CHR ''}'')"
  by (simp add: jtext_def seq_text_def map_filter_entries)

lemma show_int_hd: "show_int n \<noteq> [] \<and> (is_digit (hd (show_int n)) \<or> hd (show_int n) = CHR ''-'')"
proof -
  have "is_digit (hd (show_nat k))" for k
    by (rule show_nat_digits) (rule hd_in_set, simp)
  then show ?thesis by (simp add: show_int_def)
qed

text \<open>Values are told apart by the first character of their text.\<close>

fun text_kind :: "json \<Rightarrow> nat" where
  "text_kind JNull = 0"
| "text_kind (JBool b) = (if b then 1 else 2)"
| "text_kind (JNum n) = 3"
| "text_kind (JStr s) = 4"
| "text_kind (JArr xs) = 5"
| "text_kind (JObj ps) = 6"
| "text_kind _ = 7"

definition char_kind :: "char \<Rightarrow> nat" where
  "char_kind c =
     (if c = CHR ''n'' then 0 else if c = CHR ''t'' then 1 else if c = CHR ''f'' then 2
      else if c = CHR 0x22 then 4 else if c = CHR ''['' then 5 else if c = CHR ''{'' then 6
      else 3)"

lemma digit_kind: "is_digit c \<Longrightarrow> char_kind c = 3"
  by (auto simp: char_kind_def is_digit_def)

lemma jtext_hd: "json_plain v \<Longrightarrow> jtext v \<noteq> [] \<and> \<not> delim (jtext v) \<and> char_kind (hd (jtext v)) = text_kind v"
proof (cases v)
  case (JNum n)
  have "\<not> delim (show_int n)" using show_int_hd [of n] by (auto simp: delim_def is_digit_def)
  moreover have "char_kind (hd (show_int n)) = 3"
  proof (cases "is_digit (hd (show_int n))")
    case False
    with show_int_hd [of n] have "hd (show_int n) = CHR ''-''" by simp
    then show ?thesis by (simp add: char_kind_def)
  qed (rule digit_kind)
  ultimately show ?thesis using JNum show_int_hd [of n] by simp
qed (auto simp: delim_def char_kind_def quote_string_def jtext_arr jtext_obj)

lemma jtext_kind_eq:
  "json_plain v \<Longrightarrow> json_plain w \<Longrightarrow> jtext v @ r = jtext w @ r' \<Longrightarrow> text_kind v = text_kind w"
  using jtext_hd [of v] jtext_hd [of w] by (metis hd_append)

lemma jtext_unique:
  "json_plain v \<Longrightarrow> json_plain w \<Longrightarrow> jtext v @ r = jtext w @ r' \<Longrightarrow> delim r \<Longrightarrow> delim r' \<Longrightarrow>
   v = w \<and> r = r'"
proof (induction v arbitrary: w r r' rule: json_induct)
  case (Num n)
  from jtext_kind_eq [OF Num.prems(1-3)] obtain m where w: "w = JNum m"
    by (cases w) (auto split: if_splits)
  with Num.prems show ?case
    using show_int_prefix_unique [of n r m r'] delim_not_digit by auto
next
  case (Str s)
  from jtext_kind_eq [OF Str.prems(1-3)] obtain t where w: "w = JStr t"
    by (cases w) (auto split: if_splits)
  with Str.prems show ?case using quote_unique [of s r t r'] by auto
next
  case (Arr xs)
  from jtext_kind_eq [OF Arr.prems(1-3)] obtain ys where w: "w = JArr ys"
    by (cases w) (auto split: if_splits)
  have "xs = ys \<and> r = r'"
  proof (rule seq_text_unique [where f = jtext and c = "CHR '']''"])
    show "seq_text (map jtext xs) (CHR '']'') @ r = seq_text (map jtext ys) (CHR '']'') @ r'"
      using Arr.prems w by (simp add: jtext_arr)
  next
    fix x y t t'
    assume "x \<in> set xs" "y \<in> set ys" "jtext x @ t = jtext y @ t'" "delim t" "delim t'"
    then show "x = y \<and> t = t'" using Arr.prems(1,2) w by (intro Arr.IH) auto
  next
    fix x
    assume "x \<in> set xs \<union> set ys"
    then have "json_plain x" using Arr.prems(1,2) w by auto
    then show "jtext x \<noteq> [] \<and> \<not> delim (jtext x)" using jtext_hd by blast
  qed simp
  with w show ?case by simp
next
  case (Obj ps)
  from jtext_kind_eq [OF Obj.prems(1-3)] obtain qs where w: "w = JObj qs"
    by (cases w) (auto split: if_splits)
  have "ps = qs \<and> r = r'"
  proof (rule seq_text_unique [where f = entry_text and c = "CHR ''}''"])
    show "seq_text (map entry_text ps) (CHR ''}'') @ r = seq_text (map entry_text qs) (CHR ''}'') @ r'"
      using Obj.prems w by (simp add: jtext_obj)
  next
    fix p q t t'
    assume p: "p \<in> set ps" "q \<in> set qs" and eq: "entry_text p @ t = entry_text q @ t'"
      and d: "delim t" "delim t'"
    obtain k v k' v' where kv: "p = (k, v)" "q = (k', v')" by (cases p, cases q)
    from eq kv have "quote_string k @ (CHR '':'' # jtext v @ t) = quote_string k' @ (CHR '':'' # jtext v' @ t')"
      by (simp add: entry_text_def)
    from quote_unique [OF this] have "k = k'" "jtext v @ t = jtext v' @ t'" by auto
    moreover have "v = v' \<and> t = t'"
    proof (rule Obj.IH)
      show "(k, v) \<in> set ps" using p(1) kv by simp
      show "json_plain v" "json_plain v'" using Obj.prems(1,2) w p kv by fastforce+
    qed fact+
    ultimately show "p = q \<and> t = t'" using kv by simp
  qed (auto simp: entry_text_def quote_string_def delim_def)
  with w show ?case by simp
next
  case (Bool b)
  from jtext_kind_eq [OF Bool.prems(1-3)] have "w = JBool b"
    by (cases w) (auto split: if_splits)
  with Bool.prems show ?case by simp
next
  case Null
  from jtext_kind_eq [OF Null.prems(1-3)] have "w = JNull"
    by (cases w) (auto split: if_splits)
  with Null.prems show ?case by simp
qed auto

lemma stringify_inject:
  "json_plain v \<Longrightarrow> json_plain w \<Longrightarrow> stringify v = stringify w \<longleftrightarrow> v = w"
  using jtext_unique [of v w "[]" "[]"] by (auto simp: stringify_plain)

lemma deepSort_plain: "json_plain v \<Longrightarrow> json_plain (deepSort v)"
proof (induction v rule: json_induct)
  case (Obj ps)
  have "json_plain (snd p)" if "p \<in> set (obj_build (sort_key fst (map (map_prod id deepSort) ps)))" for p
  proof -
    from that set_obj_build have "p \<in> set (map (map_prod id deepSort) ps)" by fastforce
    with Obj show ?thesis by fastforce
  qed
  then show ?case by simp
qed auto

lemma deterministicStringify_eq_iff:
  assumes "json_ok v" "json_ok w"
  shows "deterministicStringify v = deterministicStringify w \<longleftrightarrow> json_eqv v w"
  using assms
  by (simp add: deterministicStringify_def stringify_inject deepSort_plain json_ok_plain deepSort_eq_iff)

text \<open>The text of an object without its \<open>__proto__\<close> entry is the text of the object.\<close>

lemma sort_key_filter:
  "filter (\<lambda>e. P (fst e)) (sort_key fst ps) = sort_key fst (filter (\<lambda>e. P (fst e)) (ps :: (string \<times> 'v) list))"
  by (rule filter_sort [symmetric] | simp add: filter_sort)+

lemma deepSort_drop_proto:
  "deepSort (JObj ps) = deepSort (JObj (filter (\<lambda>p. fst p \<noteq> ''__proto__'') ps))"
proof -
  have "map (map_prod id deepSort) (filter (\<lambda>p. fst p \<noteq> ''__proto__'') ps) =
        filter (\<lambda>p. fst p \<noteq> ''__proto__'') (map (map_prod id deepSort) ps)"
    by (induction ps) auto
  then have "sort_key fst (map (map_prod id deepSort) (filter (\<lambda>p. fst p \<noteq> ''__proto__'') ps)) =
      filter (\<lambda>p. fst p \<noteq> ''__proto__'') (sort_key fst (map (map_prod id deepSort) ps))"
    using sort_key_filter [of "\<lambda>k. k \<noteq> ''__proto__''" "map (map_prod id deepSort) ps"]
    by (simp only:)
  then show ?thesis
    using obj_build_skip_proto [of "sort_key fst (map (map_prod id deepSort) ps)"] by simp
qed

end
