(* ===== verification/Authenticator.thy ===== *)
theory Authenticator
  imports Json
begin

section \<open>Authentication (src/src/auth/authenticator.ts)\<close>

text \<open>
  The three methods of authentication.  Header names are lower case or as written, and a
  header has one value.  The JWT library is a parameter: \<open>fetch\<close> makes the key set of a URL
  (or throws) and \<open>verify\<close> is \<open>jwtVerify\<close>, the payload of a token that passes or the message
  of the error.  The cache of key sets is the state.  Buffers of two strings are equal when
  the strings are.
\<close>

datatype auth_method = MethodNone | MethodApiKey | MethodJwt | MethodOther string

record api_key_entry =
  ak_key :: string
  ak_client_id :: string
  ak_tenant_id :: string

record auth_config =
  au_method :: auth_method
  au_jwks_url :: "string option"
  au_issuer :: "string option"
  au_audience :: "string option"
  au_tenant_claim :: "string option"
  au_client_claim :: "string option"
  au_api_keys :: "api_key_entry list option"
  au_algorithms :: "string list option"

datatype auth_result =
    Authenticated (auth_client: string) (auth_tenant: string) (auth_claims: "jobject option")
  | Rejected (auth_error: string)

record verify_options =
  vo_issuer :: "string option"
  vo_audience :: "string option"
  vo_clockTolerance :: int
  vo_algorithms :: "string list"

type_synonym headers = "(string, string) jsmap"

definition default_algorithms :: "string list" where
  "default_algorithms = [''RS256'', ''RS384'', ''RS512'', ''PS256'', ''PS384'', ''PS512'',
     ''ES256'', ''ES384'', ''ES512'', ''EdDSA'']"

definition header_either :: "headers \<Rightarrow> string \<Rightarrow> string \<Rightarrow> string option" where
  "header_either headers a b = (case map_of headers a of Some v \<Rightarrow> Some v | None \<Rightarrow> map_of headers b)"

definition bearer_token :: "headers \<Rightarrow> string option" where
  "bearer_token headers =
     (case header_either headers ''authorization'' ''Authorization'' of
        Some h \<Rightarrow> (if starts_with h ''Bearer '' then Some (drop 7 h) else None)
      | None \<Rightarrow> None)"

definition presented_key :: "headers \<Rightarrow> string option" where
  "presented_key headers =
     (case bearer_token headers of
        Some k \<Rightarrow> Some k
      | None \<Rightarrow> header_either headers ''x-api-key'' ''X-API-Key'')"

text \<open>The loop looks at every entry, so that the last one that matches is taken.\<close>

definition match_key :: "string \<Rightarrow> api_key_entry list \<Rightarrow> api_key_entry option" where
  "match_key key entries =
     fold (\<lambda>k matched. if length (ak_key k) = length key \<and> ak_key k = key then Some k else matched) entries None"

definition authenticateApiKey :: "headers \<Rightarrow> auth_config \<Rightarrow> auth_result" where
  "authenticateApiKey headers config =
     (case presented_key headers of
        None \<Rightarrow> Rejected (''Cl'' @ e_acute @ '' API manquante'')
      | Some key \<Rightarrow>
          (if key = [] then Rejected (''Cl'' @ e_acute @ '' API manquante'')
           else case match_key key (case au_api_keys config of Some ks \<Rightarrow> ks | None \<Rightarrow> []) of
             None \<Rightarrow> Rejected (''Cl'' @ e_acute @ '' API invalide'')
           | Some entry \<Rightarrow> Authenticated (ak_client_id entry) (ak_tenant_id entry) None))"

subsection \<open>JWT\<close>

type_synonym 'j jwks_cache = "(string, 'j) jsmap"

definition getJwks :: "(string \<Rightarrow> string + 'j) \<Rightarrow> string \<Rightarrow> 'j jwks_cache \<Rightarrow> (string + 'j) \<times> 'j jwks_cache" where
  "getJwks fetch jwksUrl cache =
     (case map_of cache jwksUrl of
        Some cached \<Rightarrow> (Inr cached, cache)
      | None \<Rightarrow>
          (case fetch jwksUrl of
             Inl e \<Rightarrow> (Inl e, cache)
           | Inr jwks \<Rightarrow> (Inr jwks, AList.update jwksUrl jwks cache)))"

definition verify_options_of :: "auth_config \<Rightarrow> verify_options" where
  "verify_options_of config = \<lparr>vo_issuer = au_issuer config, vo_audience = au_audience config,
     vo_clockTolerance = 60,
     vo_algorithms = (case au_algorithms config of Some a \<Rightarrow> a | None \<Rightarrow> default_algorithms)\<rparr>"

text \<open>\<open>String(payload[name])\<close>, and the default when the payload has no such member.\<close>

definition claim_text :: "jobject \<Rightarrow> string \<Rightarrow> string \<Rightarrow> string" where
  "claim_text payload name dflt =
     (let v = object_member payload name in if v \<noteq> JUndef then js_string v else dflt)"

definition payload_result :: "auth_config \<Rightarrow> jobject \<Rightarrow> auth_result" where
  "payload_result config payload =
     (let clientClaim = (case au_client_claim config of Some c \<Rightarrow> c | None \<Rightarrow> ''sub'');
          tenantClaim = (case au_tenant_claim config of Some c \<Rightarrow> c | None \<Rightarrow> ''org_id'');
          client_id = claim_text payload clientClaim [];
          tenant_id = claim_text payload tenantClaim ''default''
      in if client_id = [] then Rejected (''Claim manquant : '' @ clientClaim)
         else Authenticated client_id tenant_id (Some payload))"

definition authenticateJwt ::
  "(string \<Rightarrow> string + 'j) \<Rightarrow> (string \<Rightarrow> 'j \<Rightarrow> verify_options \<Rightarrow> string + jobject) \<Rightarrow>
   headers \<Rightarrow> auth_config \<Rightarrow> 'j jwks_cache \<Rightarrow> auth_result \<times> 'j jwks_cache" where
  "authenticateJwt fetch verify headers config cache =
     (case bearer_token headers of
        None \<Rightarrow> (Rejected ''Token Bearer manquant'', cache)
      | Some token \<Rightarrow>
          (case au_jwks_url config of
             None \<Rightarrow> (Rejected (''JWKS URL non configur'' @ e_acute @ ''e''), cache)
           | Some url \<Rightarrow>
               (if url = [] then (Rejected (''JWKS URL non configur'' @ e_acute @ ''e''), cache)
                else case getJwks fetch url cache of
                  (Inl e, cache') \<Rightarrow> (Rejected e, cache')
                | (Inr jwks, cache') \<Rightarrow>
                    (case verify token jwks (verify_options_of config) of
                       Inl e \<Rightarrow> (Rejected e, cache')
                     | Inr payload \<Rightarrow> (payload_result config payload, cache')))))"

definition authenticate ::
  "(string \<Rightarrow> string + 'j) \<Rightarrow> (string \<Rightarrow> 'j \<Rightarrow> verify_options \<Rightarrow> string + jobject) \<Rightarrow>
   headers \<Rightarrow> auth_config \<Rightarrow> 'j jwks_cache \<Rightarrow> auth_result \<times> 'j jwks_cache" where
  "authenticate fetch verify headers config cache =
     (case au_method config of
        MethodNone \<Rightarrow> (Authenticated ''anonymous'' ''default'' None, cache)
      | MethodApiKey \<Rightarrow> (authenticateApiKey headers config, cache)
      | MethodJwt \<Rightarrow> authenticateJwt fetch verify headers config cache
      | MethodOther m \<Rightarrow> (Rejected (''M'' @ e_acute @ ''thode d'' @ apostrophe @ ''authentification inconnue : '' @ m), cache))"

subsection \<open>Lemmas\<close>

lemma find_snoc: "find P (xs @ [k]) = (case find P xs of Some x \<Rightarrow> Some x | None \<Rightarrow> if P k then Some k else None)"
  by (induction xs) auto

lemma match_key_fold:
  "fold (\<lambda>k matched. if length (ak_key k) = length key \<and> ak_key k = key then Some k else matched) entries m =
   (case find (\<lambda>k. ak_key k = key) (rev entries) of Some k \<Rightarrow> Some k | None \<Rightarrow> m)"
proof (induction entries arbitrary: m)
  case (Cons k entries)
  show ?case by (auto simp: Cons.IH find_snoc split: option.split)
qed simp

lemma match_key_eq: "match_key key entries = find (\<lambda>k. ak_key k = key) (rev entries)"
  by (simp add: match_key_def match_key_fold split: option.split)

lemma match_key_SomeD: "match_key key entries = Some e \<Longrightarrow> e \<in> set entries \<and> ak_key e = key"
  by (auto simp: match_key_eq dest: find_SomeD)

text \<open>
  A configured list of algorithms replaces the default one, also by algorithms that the
  comment on the option calls always forbidden.
\<close>

lemma configured_algorithms_replace: "au_algorithms config = Some a \<Longrightarrow> vo_algorithms (verify_options_of config) = a"
  by (simp add: verify_options_of_def)

text \<open>Claims that are no strings are all accepted: null is the client \<open>null\<close>, every object the same client.\<close>

lemma null_claim_is_client:
  "au_client_claim config = None \<Longrightarrow> map_of payload ''sub'' = Some JNull \<Longrightarrow>
   auth_client (payload_result config payload) = ''null''"
  by (simp add: payload_result_def claim_text_def object_member_def Let_def)

lemma object_claims_collide:
  assumes "au_client_claim config = None" "map_of payload ''sub'' = Some (JObj ps)" "map_of payload' ''sub'' = Some (JObj ps')"
  shows "auth_client (payload_result config payload) = auth_client (payload_result config payload')"
  using assms by (simp add: payload_result_def claim_text_def object_member_def Let_def)

text \<open>A request is authenticated as a client exactly when the configured method accepts what it
  presents: no method asks for nothing, the key method needs a configured key (the last entry
  of a key counts), the JWT method a token that the library verifies under the options of the
  configuration, with the key set of the configured URL and a client claim that is not empty.\<close>

theorem authenticate_iff:
  "fst (authenticate fetch verify headers config cache) = Authenticated c t claims \<longleftrightarrow>
     (case au_method config of
        MethodNone \<Rightarrow> c = ''anonymous'' \<and> t = ''default'' \<and> claims = None
      | MethodApiKey \<Rightarrow> claims = None \<and>
          (\<exists>key entry. presented_key headers = Some key \<and> key \<noteq> [] \<and>
             find (\<lambda>k. ak_key k = key) (rev (case au_api_keys config of Some ks \<Rightarrow> ks | None \<Rightarrow> [])) = Some entry \<and>
             c = ak_client_id entry \<and> t = ak_tenant_id entry)
      | MethodJwt \<Rightarrow>
          (\<exists>token url jwks payload. bearer_token headers = Some token \<and> au_jwks_url config = Some url \<and> url \<noteq> [] \<and>
             fst (getJwks fetch url cache) = Inr jwks \<and>
             verify token jwks (verify_options_of config) = Inr payload \<and> claims = Some payload \<and>
             c = claim_text payload (case au_client_claim config of Some k \<Rightarrow> k | None \<Rightarrow> ''sub'') [] \<and> c \<noteq> [] \<and>
             t = claim_text payload (case au_tenant_claim config of Some k \<Rightarrow> k | None \<Rightarrow> ''org_id'') ''default'')
      | MethodOther m \<Rightarrow> False)"
proof (cases "au_method config")
  case MethodApiKey
  then show ?thesis
    by (auto simp: authenticate_def authenticateApiKey_def match_key_eq split: option.splits)
next
  case MethodJwt
  then show ?thesis
    by (auto simp: authenticate_def authenticateJwt_def payload_result_def Let_def
        split: option.splits sum.splits prod.splits if_splits)
qed (auto simp: authenticate_def)

end
