(* ===== verification/Rate_Backend.thy ===== *)
theory Rate_Backend
  imports Prelude
begin

section \<open>The interface of the rate-limit backends (src/src/rate-limit/types.ts)\<close>

text \<open>
  The result of a check, the operations of a backend as the record \<open>backend_ops\<close> over the
  backend's own state, and their contract.  \<open>rate_backend\<close> is what the memory and the Redis
  backend both keep: a check without consumption decides as a consumption would, and the
  remaining count lies between zero and the limit.  \<open>isolated_backend\<close> adds that a check
  does not change what another check will say, which only the memory backend keeps.
\<close>

record rate_limit_result =
  rl_allowed :: bool
  rl_remaining :: int
  rl_limit :: int
  rl_reset_at :: timestamp
  rl_retry_after :: "int option"

record rate_limit_check =
  ck_key :: string
  ck_limit :: int
  ck_window_ms :: int
  ck_label :: string

record 's backend_ops =
  be_consume :: "timestamp \<Rightarrow> string \<Rightarrow> int \<Rightarrow> int \<Rightarrow> 's \<Rightarrow> rate_limit_result \<times> 's"
  be_check :: "timestamp \<Rightarrow> string \<Rightarrow> int \<Rightarrow> int \<Rightarrow> 's \<Rightarrow> rate_limit_result \<times> 's"
  be_reset :: "string \<Rightarrow> 's \<Rightarrow> 's"
  be_resetAll :: "'s \<Rightarrow> 's"

text \<open>One check of the list through the backend, consuming or not.\<close>

definition run_check ::
  "'s backend_ops \<Rightarrow> bool \<Rightarrow> timestamp \<Rightarrow> rate_limit_check \<Rightarrow> 's \<Rightarrow> rate_limit_result \<times> 's" where
  "run_check be consume now c s =
     (if consume then be_consume be now (ck_key c) (ck_limit c) (ck_window_ms c) s
      else be_check be now (ck_key c) (ck_limit c) (ck_window_ms c) s)"

text \<open>The loop over the checks: it stops at the first one that is refused.\<close>

fun run_checks ::
  "'s backend_ops \<Rightarrow> bool \<Rightarrow> timestamp \<Rightarrow> rate_limit_check list \<Rightarrow> 's
     \<Rightarrow> (rate_limit_check \<times> rate_limit_result) option \<times> 's" where
  "run_checks be consume now [] s = (None, s)"
| "run_checks be consume now (c # cs) s =
     (let (r, s') = run_check be consume now c s
      in if \<not> rl_allowed r then (Some (c, r), s') else run_checks be consume now cs s')"

locale rate_backend =
  fixes be :: "'s backend_ops"
  assumes check_consume: "rl_allowed (fst (be_check be now key limit w s)) =
      rl_allowed (fst (be_consume be now key limit w s))"
    and check_bounds: "0 \<le> limit \<Longrightarrow> 0 \<le> rl_remaining (fst (be_check be now key limit w s)) \<and>
      rl_remaining (fst (be_check be now key limit w s)) \<le> limit"
    and consume_bounds: "0 \<le> limit \<Longrightarrow> 0 \<le> rl_remaining (fst (be_consume be now key limit w s)) \<and>
      rl_remaining (fst (be_consume be now key limit w s)) \<le> limit"
begin

lemma run_check_same:
  "rl_allowed (fst (run_check be consume now c s)) = rl_allowed (fst (run_check be False now c s))"
  by (simp add: run_check_def check_consume)

lemma blocked_in: "fst (run_checks be consume now cs s) = Some (c, r) \<Longrightarrow> c \<in> set cs \<and> \<not> rl_allowed r"
  by (induction cs arbitrary: s) (auto simp: Let_def case_prod_unfold split: if_splits)

lemma first_refused: "\<not> rl_allowed (fst (run_check be False now c s)) \<Longrightarrow>
    fst (run_checks be consume now (c # cs) s) \<noteq> None"
  using run_check_same [of consume now c s] by (simp add: Let_def case_prod_unfold)

end

locale isolated_backend = rate_backend +
  assumes check_keeps: "rl_allowed (fst (be_check be now key' limit' w' (snd (be_check be now key limit w s)))) =
      rl_allowed (fst (be_check be now key' limit' w' s))"
begin

text \<open>A preview of a list of checks says of each what it says on its own.\<close>

lemma preview_iff:
  "fst (run_checks be False now cs s) = None \<longleftrightarrow> (\<forall>c \<in> set cs. rl_allowed (fst (run_check be False now c s)))"
proof (induction cs arbitrary: s)
  case (Cons c cs)
  then show ?case
    by (auto simp: Let_def case_prod_unfold run_check_def check_keeps)
qed simp

lemma preview_blocked:
  "map_option fst (fst (run_checks be False now cs s)) =
     find (\<lambda>c. \<not> rl_allowed (fst (run_check be False now c s))) cs"
proof (induction cs arbitrary: s)
  case (Cons c cs)
  then show ?case
    by (auto simp: Let_def case_prod_unfold run_check_def check_keeps)
qed simp

end

end
