(* ===== verification/Redis_Limiter.thy ===== *)
theory Redis_Limiter
  imports Rate_Backend
begin

section \<open>The Redis limiter and its mock (src/src/rate-limit/redis-limiter.ts)\<close>

text \<open>
  The two Lua scripts and the methods around them.  The Redis server is a parameter: the
  record \<open>redis_ops\<close> has the commands the scripts call over an abstract database, and
  \<open>redis_ok\<close> states what their documentation says of the members a key has.  The value of
  \<open>math.random\<close> in a script is the argument \<open>rand\<close>; Redis documents that the generator
  starts from the same seed in every script.  The clock of the gateway and that of the
  server are one.
\<close>

record 'r redis_ops =
  r_zremrangebyscore :: "timestamp \<Rightarrow> string \<Rightarrow> int \<Rightarrow> int \<Rightarrow> 'r \<Rightarrow> 'r"
  r_zcard :: "timestamp \<Rightarrow> string \<Rightarrow> 'r \<Rightarrow> nat"
  r_zadd :: "timestamp \<Rightarrow> string \<Rightarrow> int \<Rightarrow> string \<Rightarrow> 'r \<Rightarrow> 'r"
  r_pexpire :: "timestamp \<Rightarrow> string \<Rightarrow> int \<Rightarrow> 'r \<Rightarrow> 'r"
  r_oldest_score :: "timestamp \<Rightarrow> string \<Rightarrow> 'r \<Rightarrow> int option"
  r_scan :: "string \<Rightarrow> 'r \<Rightarrow> string list"
  r_del :: "string \<Rightarrow> 'r \<Rightarrow> 'r"
  r_members :: "timestamp \<Rightarrow> string \<Rightarrow> 'r \<Rightarrow> string \<Rightarrow> int option"

text \<open>
  \<open>ZCARD\<close> counts the members, \<open>ZADD\<close> sets the score of a member, \<open>ZREMRANGEBYSCORE\<close> removes
  the members whose score lies in the closed range, \<open>PEXPIRE\<close> with a positive time removes
  nothing at once, and as time passes members can only disappear.
\<close>

definition redis_ok :: "'r redis_ops \<Rightarrow> bool" where
  "redis_ok ops \<longleftrightarrow>
     (\<forall>now k db. finite (dom (r_members ops now k db)) \<and> r_zcard ops now k db = card (dom (r_members ops now k db))) \<and>
     (\<forall>now k s m db. r_members ops now k (r_zadd ops now k s m db) = (r_members ops now k db)(m \<mapsto> s)) \<and>
     (\<forall>now k lo hi db m. r_members ops now k (r_zremrangebyscore ops now k lo hi db) m =
        (case r_members ops now k db m of None \<Rightarrow> None | Some s \<Rightarrow> if lo \<le> s \<and> s \<le> hi then None else Some s)) \<and>
     (\<forall>now k ms db. 0 < ms \<longrightarrow> r_members ops now k (r_pexpire ops now k ms db) = r_members ops now k db) \<and>
     (\<forall>now later k db. now \<le> later \<longrightarrow> dom (r_members ops later k db) \<subseteq> dom (r_members ops now k db))"

lemma redis_okD:
  assumes "redis_ok ops"
  shows "finite (dom (r_members ops now k db))"
    and "r_zcard ops now k db = card (dom (r_members ops now k db))"
    and "r_members ops now k (r_zadd ops now k s m db) = (r_members ops now k db)(m \<mapsto> s)"
    and "r_members ops now k (r_zremrangebyscore ops now k lo hi db) m =
        (case r_members ops now k db m of None \<Rightarrow> None | Some s \<Rightarrow> if lo \<le> s \<and> s \<le> hi then None else Some s)"
    and "0 < ms \<Longrightarrow> r_members ops now k (r_pexpire ops now k ms db) = r_members ops now k db"
    and "now \<le> later \<Longrightarrow> dom (r_members ops later k db) \<subseteq> dom (r_members ops now k db)"
  using assms by (simp_all add: redis_ok_def)

subsection \<open>The scripts\<close>

definition SLIDING_WINDOW_LUA ::
  "'r redis_ops \<Rightarrow> int \<Rightarrow> string \<Rightarrow> timestamp \<Rightarrow> int \<Rightarrow> int \<Rightarrow> 'r \<Rightarrow> (int \<times> int \<times> int) \<times> 'r" where
  "SLIDING_WINDOW_LUA ops rand key now window limit db =
     (let db1 = r_zremrangebyscore ops now key 0 (now - window) db;
          count = int (r_zcard ops now key db1)
      in if count < limit
         then (let member = show_int now @ CHR ''-'' # show_int rand;
                   db2 = r_zadd ops now key now member db1
               in ((1, limit - count - 1, 0), r_pexpire ops now key window db2))
         else ((0, 0, case r_oldest_score ops now key db1 of
                        Some oldest \<Rightarrow> (if oldest + window - now < 0 then 0 else oldest + window - now)
                      | None \<Rightarrow> 0), db1))"

definition CHECK_ONLY_LUA ::
  "'r redis_ops \<Rightarrow> string \<Rightarrow> timestamp \<Rightarrow> int \<Rightarrow> int \<Rightarrow> 'r \<Rightarrow> (int \<times> int \<times> int) \<times> 'r" where
  "CHECK_ONLY_LUA ops key now window limit db =
     (let db1 = r_zremrangebyscore ops now key 0 (now - window) db;
          count = int (r_zcard ops now key db1)
      in if count < limit then ((1, limit - count, 0), db1)
         else ((0, 0, case r_oldest_score ops now key db1 of
                        Some oldest \<Rightarrow> (if oldest + window - now < 0 then 0 else oldest + window - now)
                      | None \<Rightarrow> 0), db1))"

definition executeLua :: "timestamp \<Rightarrow> int \<Rightarrow> int \<Rightarrow> int \<times> int \<times> int \<Rightarrow> rate_limit_result" where
  "executeLua now limit window_ms result =
     (case result of (allowed, remaining, retryAfterMs) \<Rightarrow>
        \<lparr>rl_allowed = (allowed = 1), rl_remaining = remaining, rl_limit = limit,
         rl_reset_at = now + window_ms,
         rl_retry_after = (if retryAfterMs > 0 then Some (ceil_div retryAfterMs 1000) else None)\<rparr>)"

definition redis_consume ::
  "'r redis_ops \<Rightarrow> int \<Rightarrow> string \<Rightarrow> timestamp \<Rightarrow> string \<Rightarrow> int \<Rightarrow> int \<Rightarrow> 'r \<Rightarrow> rate_limit_result \<times> 'r" where
  "redis_consume ops rand keyPrefix now key limit window_ms db =
     (let (result, db') = SLIDING_WINDOW_LUA ops rand (keyPrefix @ key) now window_ms limit db
      in (executeLua now limit window_ms result, db'))"

definition redis_check ::
  "'r redis_ops \<Rightarrow> string \<Rightarrow> timestamp \<Rightarrow> string \<Rightarrow> int \<Rightarrow> int \<Rightarrow> 'r \<Rightarrow> rate_limit_result \<times> 'r" where
  "redis_check ops keyPrefix now key limit window_ms db =
     (let (result, db') = CHECK_ONLY_LUA ops (keyPrefix @ key) now window_ms limit db
      in (executeLua now limit window_ms result, db'))"

definition scanAndDelete :: "'r redis_ops \<Rightarrow> string \<Rightarrow> 'r \<Rightarrow> 'r" where
  "scanAndDelete ops pattern db = fold (r_del ops) (r_scan ops pattern db) db"

definition redis_reset :: "'r redis_ops \<Rightarrow> string \<Rightarrow> string \<Rightarrow> 'r \<Rightarrow> 'r" where
  "redis_reset ops keyPrefix key db = scanAndDelete ops (keyPrefix @ key @ ''*'') db"

definition redis_resetAll :: "'r redis_ops \<Rightarrow> string \<Rightarrow> 'r \<Rightarrow> 'r" where
  "redis_resetAll ops keyPrefix db = scanAndDelete ops (keyPrefix @ ''*'') db"

definition redis_getUsage :: "'r redis_ops \<Rightarrow> string \<Rightarrow> timestamp \<Rightarrow> string \<Rightarrow> int \<Rightarrow> 'r \<Rightarrow> int \<times> 'r" where
  "redis_getUsage ops keyPrefix now key window_ms db =
     (let db' = r_zremrangebyscore ops now (keyPrefix @ key) 0 (now - window_ms) db
      in (int (r_zcard ops now (keyPrefix @ key) db'), db'))"

definition redis_backend :: "'r redis_ops \<Rightarrow> int \<Rightarrow> string \<Rightarrow> 'r backend_ops" where
  "redis_backend ops rand keyPrefix = \<lparr>be_consume = redis_consume ops rand keyPrefix,
     be_check = redis_check ops keyPrefix, be_reset = redis_reset ops keyPrefix,
     be_resetAll = redis_resetAll ops keyPrefix\<rparr>"

interpretation redis: rate_backend "redis_backend ops rand keyPrefix" for ops rand keyPrefix
  by unfold_locales
     (auto simp: redis_backend_def redis_consume_def redis_check_def SLIDING_WINDOW_LUA_def CHECK_ONLY_LUA_def
        executeLua_def Let_def)

subsection \<open>The mock\<close>

type_synonym mock_store = "(string, timestamp list) jsmap"

definition mock_prune :: "string \<Rightarrow> timestamp \<Rightarrow> int \<Rightarrow> mock_store \<Rightarrow> timestamp list \<times> mock_store" where
  "mock_prune key now window_ms store =
     (let cutoff = now - window_ms;
          all_ts = (case map_of store key of Some ts \<Rightarrow> ts | None \<Rightarrow> []);
          valid = filter (\<lambda>t. t \<ge> cutoff) all_ts
      in (valid, AList.update key valid store))"

definition mock_refusal :: "timestamp \<Rightarrow> int \<Rightarrow> int \<Rightarrow> timestamp list \<Rightarrow> rate_limit_result" where
  "mock_refusal now limit window_ms valid =
     (let oldest = (case valid of t # _ \<Rightarrow> t | [] \<Rightarrow> now); retryMs = (oldest + window_ms) - now
      in \<lparr>rl_allowed = False, rl_remaining = 0, rl_limit = limit, rl_reset_at = now + window_ms,
          rl_retry_after = Some (max 1 (ceil_div retryMs 1000))\<rparr>)"

definition mock_consume ::
  "timestamp \<Rightarrow> string \<Rightarrow> int \<Rightarrow> int \<Rightarrow> mock_store \<Rightarrow> rate_limit_result \<times> mock_store" where
  "mock_consume now key limit window_ms store =
     (let (valid, store1) = mock_prune key now window_ms store;
          count = int (length valid)
      in if count < limit
         then (let valid' = valid @ [now]
               in (\<lparr>rl_allowed = True, rl_remaining = limit - int (length valid'), rl_limit = limit,
                    rl_reset_at = now + window_ms, rl_retry_after = None\<rparr>,
                   AList.update key valid' store1))
         else (mock_refusal now limit window_ms valid, store1))"

definition mock_check ::
  "timestamp \<Rightarrow> string \<Rightarrow> int \<Rightarrow> int \<Rightarrow> mock_store \<Rightarrow> rate_limit_result \<times> mock_store" where
  "mock_check now key limit window_ms store =
     (let (valid, store1) = mock_prune key now window_ms store;
          count = int (length valid)
      in if count < limit
         then (\<lparr>rl_allowed = True, rl_remaining = limit - count, rl_limit = limit,
                rl_reset_at = now + window_ms, rl_retry_after = None\<rparr>, store1)
         else (mock_refusal now limit window_ms valid, store1))"

definition mock_reset :: "string \<Rightarrow> mock_store \<Rightarrow> mock_store" where
  "mock_reset key store =
     fold (\<lambda>k st. if k = key \<or> starts_with k (key @ '':'') then AList.delete k st else st) (map_keys store) store"

definition mock_getUsage :: "timestamp \<Rightarrow> string \<Rightarrow> int \<Rightarrow> mock_store \<Rightarrow> int \<times> mock_store" where
  "mock_getUsage now key window_ms store =
     (let (valid, store1) = mock_prune key now window_ms store in (int (length valid), store1))"

definition mock_backend :: "mock_store backend_ops" where
  "mock_backend = \<lparr>be_consume = mock_consume, be_check = mock_check, be_reset = mock_reset, be_resetAll = (\<lambda>_. [])\<rparr>"

interpretation mock: rate_backend mock_backend
  by unfold_locales
     (auto simp: mock_backend_def mock_consume_def mock_check_def mock_refusal_def mock_prune_def Let_def)

subsection \<open>Windows that share a key\<close>

lemma redis_consume_allowed:
  "rl_allowed (fst (redis_consume ops rand p now key limit w db)) \<longleftrightarrow>
     int (r_zcard ops now (p @ key) (r_zremrangebyscore ops now (p @ key) 0 (now - w) db)) < limit"
  by (auto simp: redis_consume_def SLIDING_WINDOW_LUA_def executeLua_def Let_def)

lemma redis_consume_members:
  assumes "redis_ok ops" "0 < w" "rl_allowed (fst (redis_consume ops rand p now key limit w db))"
  shows "r_members ops now (p @ key) (snd (redis_consume ops rand p now key limit w db)) =
    (r_members ops now (p @ key) (r_zremrangebyscore ops now (p @ key) 0 (now - w) db))
      (show_int now @ CHR ''-'' # show_int rand \<mapsto> now)"
  using assms(3) redis_okD(3,5) [OF assms(1)] assms(2)
  by (simp add: redis_consume_allowed redis_consume_def SLIDING_WINDOW_LUA_def Let_def executeLua_def split: if_splits)

lemma zcard_consumed:
  assumes "redis_ok ops" "0 < w" "rl_allowed (fst (redis_consume ops rand p now key limit w db))"
    "now \<le> later"
  shows "int (r_zcard ops later (p @ key) (r_zremrangebyscore ops later (p @ key) lo hi
      (snd (redis_consume ops rand p now key limit w db)))) \<le> limit"
proof -
  let ?k = "p @ key" and ?db = "snd (redis_consume ops rand p now key limit w db)"
  let ?old = "r_zremrangebyscore ops now ?k 0 (now - w) db"
  let ?new = "r_zremrangebyscore ops later ?k lo hi ?db"
  note fin = redis_okD(1) [OF assms(1)] and card = redis_okD(2) [OF assms(1)]
  have "dom (r_members ops later ?k ?new) \<subseteq> dom (r_members ops later ?k ?db)"
    by (auto simp: dom_def redis_okD(4) [OF assms(1)] split: option.splits)
  also have "\<dots> \<subseteq> dom (r_members ops now ?k ?db)"
    by (rule redis_okD(6) [OF assms(1,4)])
  also have "\<dots> = insert (show_int now @ CHR ''-'' # show_int rand) (dom (r_members ops now ?k ?old))"
    unfolding redis_consume_members [OF assms(1-3)] by simp
  finally have "card (dom (r_members ops later ?k ?new)) \<le>
      card (insert (show_int now @ CHR ''-'' # show_int rand) (dom (r_members ops now ?k ?old)))"
    by (intro card_mono) (simp_all add: fin)
  also have "\<dots> \<le> Suc (card (dom (r_members ops now ?k ?old)))"
    by (rule card_insert_le_m1) simp_all
  finally have "r_zcard ops later ?k ?new \<le> Suc (r_zcard ops now ?k ?old)"
    by (simp only: card)
  with assms(3) show ?thesis by (simp add: redis_consume_allowed)
qed

text \<open>With the Redis backend the windows of one key share one set of members: once a request
  is admitted under a limit for one window, a higher limit for any other window of the same key
  admits it too, however many requests that other window has seen.  An hourly limit above the
  limit per minute never refuses anything.\<close>

theorem redis_longer_window_never_blocks:
  assumes "redis_ok ops" "0 < w" "now \<le> later" "limit < limit'"
    and "rl_allowed (fst (redis_consume ops rand p now key limit w db))"
  shows "rl_allowed (fst (redis_consume ops rand' p later key limit' w'
      (snd (redis_consume ops rand p now key limit w db))))"
proof -
  from zcard_consumed [OF assms(1,2,5,3), of 0 "later - w'"] assms(4)
  show ?thesis by (simp only: redis_consume_allowed)
qed

fun same_instant :: "'r redis_ops \<Rightarrow> int \<Rightarrow> string \<Rightarrow> timestamp \<Rightarrow> string \<Rightarrow> int \<Rightarrow> int \<Rightarrow> nat \<Rightarrow> 'r \<Rightarrow> bool list" where
  "same_instant ops rand p now key limit w 0 db = []"
| "same_instant ops rand p now key limit w (Suc n) db =
     (let (r, db') = redis_consume ops rand p now key limit w db
      in rl_allowed r # same_instant ops rand p now key limit w n db')"

text \<open>Requests of one key in the same millisecond count once: the member that a request adds is
  made of the time and of a random number that is the same in every execution of the script, so
  all of them write the same member, and when two more requests would fit, any number does.\<close>

theorem redis_same_instant_unlimited:
  assumes "redis_ok ops" "0 < w"
    and "int (r_zcard ops now (p @ key) (r_zremrangebyscore ops now (p @ key) 0 (now - w) db)) + 1 < limit"
  shows "same_instant ops rand p now key limit w n db = replicate n True"
proof -
  let ?k = "p @ key" and ?m = "show_int now @ CHR ''-'' # show_int rand"
  let ?rest = "\<lambda>d. {m. \<exists>s. r_members ops now ?k d m = Some s \<and> \<not> (0 \<le> s \<and> s \<le> now - w) \<and> m \<noteq> ?m}"
  note fin = redis_okD(1) [OF assms(1)] and card = redis_okD(2) [OF assms(1)]
  note rem = redis_okD(4) [OF assms(1)]
  have dom_rem: "dom (r_members ops now ?k (r_zremrangebyscore ops now ?k 0 (now - w) d)) \<subseteq> insert ?m (?rest d)"
    "?rest d \<subseteq> dom (r_members ops now ?k (r_zremrangebyscore ops now ?k 0 (now - w) d))" for d
    by (auto simp: dom_def rem split: option.splits if_splits)
  have "same_instant ops rand p now key limit w n d = replicate n True" if "int (card (?rest d)) + 1 < limit" for d
    using that
  proof (induction n arbitrary: d)
    case (Suc n)
    have fr: "finite (?rest d)" by (rule finite_subset [OF dom_rem(2) fin])
    have "card (dom (r_members ops now ?k (r_zremrangebyscore ops now ?k 0 (now - w) d))) \<le> card (insert ?m (?rest d))"
      using fr by (intro card_mono dom_rem(1)) simp
    also have "\<dots> \<le> Suc (card (?rest d))" by (rule card_insert_le_m1) simp_all
    finally have al: "rl_allowed (fst (redis_consume ops rand p now key limit w d))"
      using Suc.prems by (simp add: redis_consume_allowed card)
    have "?rest (snd (redis_consume ops rand p now key limit w d)) = ?rest d"
      unfolding redis_consume_members [OF assms(1,2) al] by (auto simp: rem split: option.splits)
    with Suc.IH [of "snd (redis_consume ops rand p now key limit w d)"] Suc.prems al
    show ?case by (simp add: Let_def case_prod_unfold)
  qed simp
  moreover have "card (?rest db) \<le> r_zcard ops now ?k (r_zremrangebyscore ops now ?k 0 (now - w) db)"
    unfolding card by (intro card_mono dom_rem(2) fin)
  ultimately show ?thesis using assms(3) by simp
qed

subsection \<open>A server for the witnesses\<close>

text \<open>A server with one association list of members per key that never expires a key by itself.\<close>

type_synonym simple_db = "(string, (string, int) jsmap) jsmap"

definition simple_zset :: "simple_db \<Rightarrow> string \<Rightarrow> (string, int) jsmap" where
  "simple_zset db k = (case map_of db k of Some z \<Rightarrow> AList.clearjunk z | None \<Rightarrow> [])"

definition simple_redis :: "simple_db redis_ops" where
  "simple_redis =
     \<lparr>r_zremrangebyscore = (\<lambda>now k lo hi db.
          AList.update k (filter (\<lambda>(m, s). \<not> (lo \<le> s \<and> s \<le> hi)) (simple_zset db k)) db),
      r_zcard = (\<lambda>now k db. length (simple_zset db k)),
      r_zadd = (\<lambda>now k s m db. AList.update k (AList.update m s (simple_zset db k)) db),
      r_pexpire = (\<lambda>now k ms db. if 0 < ms then db else AList.delete k db),
      r_oldest_score = (\<lambda>now k db. case map snd (simple_zset db k) of
          [] \<Rightarrow> None | s # ss \<Rightarrow> Some (fold min ss s)),
      r_scan = (\<lambda>pattern db. filter (\<lambda>k. starts_with k (butlast pattern)) (map fst db)),
      r_del = AList.delete,
      r_members = (\<lambda>now k db. map_of (simple_zset db k))\<rparr>"

lemma map_of_filter_score:
  "distinct (map fst z) \<Longrightarrow> map_of (filter (\<lambda>(m, s). P s) z) m =
     (case map_of z m of None \<Rightarrow> None | Some s \<Rightarrow> if P s then Some s else None)"
proof (induction z)
  case (Cons e z)
  then have "map_of z (fst e) = None" by (simp add: map_of_eq_None_iff)
  with Cons show ?case by (cases e) auto
qed simp

lemma simple_zset_wf: "distinct (map fst (simple_zset db k))"
  by (simp add: simple_zset_def distinct_clearjunk split: option.split)

lemma simple_redis_ok: "redis_ok simple_redis"
proof -
  have "length (simple_zset db k) = card (dom (map_of (simple_zset db k)))" for db k
    using distinct_card [OF simple_zset_wf, of db k] by (simp add: dom_map_of_conv_image_fst)
  moreover have "map_of (filter (\<lambda>(m, s). \<not> (lo \<le> s \<and> s \<le> hi)) (simple_zset db k)) m =
      (case map_of (simple_zset db k) m of None \<Rightarrow> None | Some s \<Rightarrow> if lo \<le> s \<and> s \<le> hi then None else Some s)"
    for lo hi db k m
    using map_of_filter_score [OF simple_zset_wf, of "\<lambda>s. \<not> (lo \<le> s \<and> s \<le> hi)" db k m] by (auto split: option.split)
  moreover have "map_of (simple_zset (AList.update k z db) k) = map_of z" for k z db
    by (simp add: simple_zset_def update_conv' map_of_clearjunk)
  ultimately show ?thesis
    by (simp add: redis_ok_def simple_redis_def finite_dom_map_of update_conv')
qed

text \<open>Four requests were admitted a minute and a half ago; the limit of two per hour does not see them.\<close>

definition busy_db :: simple_db where
  "busy_db = [(''conduit:rl:client:a'', map (\<lambda>i. (show_nat i, 1000 + int i)) [0..<4])]"

theorem redis_longer_window_never_blocks_witness:
  "rl_allowed (fst (redis_consume simple_redis 7 ''conduit:rl:'' 100000 ''client:a'' 2 3600000
     (snd (redis_consume simple_redis 7 ''conduit:rl:'' 100000 ''client:a'' 1 60000 busy_db)))) \<and>
   \<not> rl_allowed (fst (redis_check simple_redis ''conduit:rl:'' 100000 ''client:a'' 2 3600000 busy_db))"
proof -
  have h: "0 < (60000 :: int)" "(100000 :: int) \<le> 100000" "(1 :: int) < 2"
    "rl_allowed (fst (redis_consume simple_redis 7 ''conduit:rl:'' 100000 ''client:a'' 1 60000 busy_db))"
    by simp_all code_simp
  have n: "\<not> rl_allowed (fst (redis_check simple_redis ''conduit:rl:'' 100000 ''client:a'' 2 3600000 busy_db))"
    by code_simp
  show ?thesis using n redis_longer_window_never_blocks [OF simple_redis_ok h] by blast
qed

theorem redis_same_instant_unlimited_witness:
  "same_instant simple_redis 7 ''conduit:rl:'' 100000 ''client:a'' 2 60000 50 [] = replicate 50 True"
proof -
  have h: "0 < (60000 :: int)"
    "int (r_zcard simple_redis 100000 (''conduit:rl:'' @ ''client:a'')
        (r_zremrangebyscore simple_redis 100000 (''conduit:rl:'' @ ''client:a'') 0 (100000 - 60000) [])) + 1 < 2"
    by simp code_simp
  show ?thesis by (rule redis_same_instant_unlimited [OF simple_redis_ok h])
qed

end
