(* ===== verification/Cache_Store.thy ===== *)
theory Cache_Store
  imports Json
begin

section \<open>The first-level cache and its indexes (src/src/cache/cache-store.ts)\<close>

text \<open>
  \<open>CacheStore\<close> keeps the entries in an \<open>lru-cache\<close> and, beside it, for every server and for
  every tool of a server the set of the keys of its entries, which invalidation uses.  The
  LRU cache is a parameter, the record \<open>lru_ops\<close>: its operations return the entries they
  disposed of, for which the store's callback has to clean the indexes.  \<open>lru_ok\<close> states
  what its documentation says of the entries it holds (\<open>lru_map\<close>), with no assumption on
  which ones it evicts.  Sets are lists without repetition.
\<close>

record cache_entry =
  ce_result :: json
  ce_createdAt :: timestamp
  ce_ttl :: int
  ce_toolName :: string
  ce_serverId :: string

record 'c lru_ops =
  lru_get :: "string \<Rightarrow> 'c \<Rightarrow> cache_entry option \<times> 'c"
  lru_set :: "string \<Rightarrow> cache_entry \<Rightarrow> 'c \<Rightarrow> (string \<times> cache_entry) list \<times> 'c"
  lru_delete :: "string \<Rightarrow> 'c \<Rightarrow> bool \<times> (string \<times> cache_entry) list \<times> 'c"
  lru_clear :: "'c \<Rightarrow> (string \<times> cache_entry) list \<times> 'c"
  lru_keys :: "'c \<Rightarrow> string list"
  lru_map :: "'c \<Rightarrow> string \<Rightarrow> cache_entry option"

text \<open>
  \<open>get\<close> changes the order of use only.  \<open>set\<close> stores the entry and may evict others; what
  it disposes of are former entries, which it no longer holds unless it is the overwritten
  one, and nothing disappears without being disposed of.  \<open>delete\<close> removes and disposes
  of the one entry.
\<close>

definition lru_get_ok :: "'c lru_ops \<Rightarrow> bool" where
  "lru_get_ok ops \<longleftrightarrow>
     (\<forall>k c. fst (lru_get ops k c) = lru_map ops c k \<and> lru_map ops (snd (lru_get ops k c)) = lru_map ops c)"

definition lru_set_ok :: "'c lru_ops \<Rightarrow> bool" where
  "lru_set_ok ops \<longleftrightarrow>
     (\<forall>k e c k' e'. lru_map ops (snd (lru_set ops k e c)) k = Some e \<and>
        (k' \<noteq> k \<longrightarrow> lru_map ops (snd (lru_set ops k e c)) k' \<in> {lru_map ops c k', None}) \<and>
        ((k', e') \<in> set (fst (lru_set ops k e c)) \<longrightarrow>
           lru_map ops c k' = Some e' \<and> (k' = k \<or> lru_map ops (snd (lru_set ops k e c)) k' = None)) \<and>
        (lru_map ops c k' = Some e' \<and> lru_map ops (snd (lru_set ops k e c)) k' \<noteq> Some e' \<longrightarrow>
           (k', e') \<in> set (fst (lru_set ops k e c))))"

definition lru_delete_ok :: "'c lru_ops \<Rightarrow> bool" where
  "lru_delete_ok ops \<longleftrightarrow>
     (\<forall>k c. fst (lru_delete ops k c) = (lru_map ops c k \<noteq> None) \<and>
        fst (snd (lru_delete ops k c)) = (case lru_map ops c k of Some e \<Rightarrow> [(k, e)] | None \<Rightarrow> []) \<and>
        lru_map ops (snd (snd (lru_delete ops k c))) = (lru_map ops c)(k := None))"

definition lru_ok :: "'c lru_ops \<Rightarrow> bool" where
  "lru_ok ops \<longleftrightarrow> lru_get_ok ops \<and> lru_set_ok ops \<and> lru_delete_ok ops \<and>
     (\<forall>c. lru_map ops (snd (lru_clear ops c)) = Map.empty \<and> set (lru_keys ops c) = dom (lru_map ops c))"

lemma lru_okD:
  assumes "lru_ok ops"
  shows "fst (lru_get ops k c) = lru_map ops c k"
    and "lru_map ops (snd (lru_get ops k c)) = lru_map ops c"
    and "fst (lru_delete ops k c) \<longleftrightarrow> lru_map ops c k \<noteq> None"
    and "fst (snd (lru_delete ops k c)) = (case lru_map ops c k of Some e \<Rightarrow> [(k, e)] | None \<Rightarrow> [])"
    and "lru_map ops (snd (snd (lru_delete ops k c))) = (lru_map ops c)(k := None)"
    and "lru_map ops (snd (lru_clear ops c)) = Map.empty"
    and "set (lru_keys ops c) = dom (lru_map ops c)"
  using assms by (simp_all add: lru_ok_def lru_get_ok_def lru_delete_ok_def)

lemma lru_set_okD:
  assumes "lru_ok ops"
  shows "lru_map ops (snd (lru_set ops k e c)) k = Some e"
    and "k' \<noteq> k \<Longrightarrow> lru_map ops (snd (lru_set ops k e c)) k' \<in> {lru_map ops c k', None}"
    and "(k', e') \<in> set (fst (lru_set ops k e c)) \<Longrightarrow>
           lru_map ops c k' = Some e' \<and> (k' = k \<or> lru_map ops (snd (lru_set ops k e c)) k' = None)"
    and "lru_map ops c k' = Some e' \<Longrightarrow> lru_map ops (snd (lru_set ops k e c)) k' \<noteq> Some e' \<Longrightarrow>
           (k', e') \<in> set (fst (lru_set ops k e c))"
proof -
  have l: "lru_set_ok ops" using assms by (simp add: lru_ok_def)
  have l': "lru_map ops (snd (lru_set ops k e c)) k = Some e \<and>
        (k' \<noteq> k \<longrightarrow> lru_map ops (snd (lru_set ops k e c)) k' \<in> {lru_map ops c k', None}) \<and>
        ((k', e') \<in> set (fst (lru_set ops k e c)) \<longrightarrow>
           lru_map ops c k' = Some e' \<and> (k' = k \<or> lru_map ops (snd (lru_set ops k e c)) k' = None)) \<and>
        (lru_map ops c k' = Some e' \<and> lru_map ops (snd (lru_set ops k e c)) k' \<noteq> Some e' \<longrightarrow>
           (k', e') \<in> set (fst (lru_set ops k e c)))"
    by (rule l [unfolded lru_set_ok_def, THEN spec, THEN spec, THEN spec, THEN spec, THEN spec])
  from l' show "lru_map ops (snd (lru_set ops k e c)) k = Some e" by (rule conjunct1)
  from l' show "k' \<noteq> k \<Longrightarrow> lru_map ops (snd (lru_set ops k e c)) k' \<in> {lru_map ops c k', None}"
    by (elim conjE) (erule mp)
  from l' show "(k', e') \<in> set (fst (lru_set ops k e c)) \<Longrightarrow>
      lru_map ops c k' = Some e' \<and> (k' = k \<or> lru_map ops (snd (lru_set ops k e c)) k' = None)"
    by (elim conjE) (erule mp)
  from l' show "lru_map ops c k' = Some e' \<Longrightarrow> lru_map ops (snd (lru_set ops k e c)) k' \<noteq> Some e' \<Longrightarrow>
      (k', e') \<in> set (fst (lru_set ops k e c))"
    by (elim conjE) (erule mp, rule conjI)
qed

subsection \<open>Sets of keys\<close>

type_synonym key_index = "(string, string list) jsmap"

definition index_keys :: "key_index \<Rightarrow> string \<Rightarrow> string list" where
  "index_keys idx s = (case map_of idx s of Some ks \<Rightarrow> ks | None \<Rightarrow> [])"

definition index_remove :: "string \<Rightarrow> string \<Rightarrow> key_index \<Rightarrow> key_index" where
  "index_remove s key idx =
     (case map_of idx s of Some ks \<Rightarrow> AList.update s (removeAll key ks) idx | None \<Rightarrow> idx)"

definition index_add :: "string \<Rightarrow> string \<Rightarrow> key_index \<Rightarrow> key_index" where
  "index_add s key idx =
     (let idx' = (if \<not> map_has idx s then AList.update s [] idx else idx);
          ks = index_keys idx' s
      in AList.update s (if key \<in> set ks then ks else ks @ [key]) idx')"

lemma index_keys_remove:
  "index_keys (index_remove s key idx) s' = (if s' = s then removeAll key (index_keys idx s') else index_keys idx s')"
  by (simp add: index_keys_def index_remove_def update_conv' split: option.split)

lemma index_keys_add:
  "set (index_keys (index_add s key idx) s') = (if s' = s then insert key (set (index_keys idx s')) else set (index_keys idx s'))"
  by (auto simp: index_keys_def index_add_def Let_def update_conv' split: option.splits if_splits)

lemma index_keys_delete: "index_keys (AList.delete s idx) s' = (if s' = s then [] else index_keys idx s')"
  by (simp add: index_keys_def delete_conv')

subsection \<open>The store\<close>

record 'c cache_store =
  cs_cache :: 'c
  cs_hits :: int
  cs_misses :: int
  cs_skips :: int
  cs_serverIndex :: key_index
  cs_toolIndex :: key_index
  cs_maxEntryBytes :: int

definition tool_index_key :: "cache_entry \<Rightarrow> string" where
  "tool_index_key e = ce_toolName e @ CHR ''@'' # ce_serverId e"

text \<open>The \<open>dispose\<close> callback.\<close>

definition dispose_entry :: "string \<times> cache_entry \<Rightarrow> 'c cache_store \<Rightarrow> 'c cache_store" where
  "dispose_entry d st =
     (case d of (key, value) \<Rightarrow>
       st\<lparr>cs_serverIndex := index_remove (ce_serverId value) key (cs_serverIndex st),
          cs_toolIndex := index_remove (tool_index_key value) key (cs_toolIndex st)\<rparr>)"

definition dispose_all :: "(string \<times> cache_entry) list \<Rightarrow> 'c cache_store \<Rightarrow> 'c cache_store" where
  "dispose_all ds st = fold dispose_entry ds st"

definition new_cache_store :: "'c \<Rightarrow> int \<Rightarrow> 'c cache_store" where
  "new_cache_store c max_entry_size_kb = \<lparr>cs_cache = c, cs_hits = 0, cs_misses = 0, cs_skips = 0,
     cs_serverIndex = [], cs_toolIndex = [], cs_maxEntryBytes = max_entry_size_kb * 1024\<rparr>"

definition byte_length :: "string \<Rightarrow> int" where
  "byte_length s = int (sum_list (map (\<lambda>c. if (of_char c :: nat) < 128 then 1 else 2) s))"

definition entry_json :: "cache_entry \<Rightarrow> json" where
  "entry_json e = JObj [(''result'', ce_result e), (''createdAt'', JNum (ce_createdAt e)),
     (''ttl'', JNum (ce_ttl e)), (''toolName'', JStr (ce_toolName e)), (''serverId'', JStr (ce_serverId e))]"

definition entry_bytes :: "cache_entry \<Rightarrow> int" where
  "entry_bytes e = byte_length (case stringify (entry_json e) of Some t \<Rightarrow> t | None \<Rightarrow> [])"

definition delete_raw :: "'c lru_ops \<Rightarrow> string \<Rightarrow> 'c cache_store \<Rightarrow> bool \<times> 'c cache_store" where
  "delete_raw ops key st =
     (let (removed, ds, c) = lru_delete ops key (cs_cache st)
      in (removed, dispose_all ds (st\<lparr>cs_cache := c\<rparr>)))"

definition store_delete :: "'c lru_ops \<Rightarrow> string \<Rightarrow> 'c cache_store \<Rightarrow> bool \<times> 'c cache_store" where
  "store_delete ops key st =
     (let (entry, c) = lru_get ops key (cs_cache st);
          st1 = st\<lparr>cs_cache := c\<rparr>;
          st2 = (case entry of
                   Some e \<Rightarrow> st1\<lparr>cs_serverIndex := index_remove (ce_serverId e) key (cs_serverIndex st1),
                                cs_toolIndex := index_remove (tool_index_key e) key (cs_toolIndex st1)\<rparr>
                 | None \<Rightarrow> st1)
      in delete_raw ops key st2)"

definition store_get ::
  "'c lru_ops \<Rightarrow> timestamp \<Rightarrow> string \<Rightarrow> 'c cache_store \<Rightarrow> cache_entry option \<times> 'c cache_store" where
  "store_get ops now key st =
     (let (entry, c) = lru_get ops key (cs_cache st); st1 = st\<lparr>cs_cache := c\<rparr>
      in case entry of
           None \<Rightarrow> (None, st1\<lparr>cs_misses := cs_misses st1 + 1\<rparr>)
         | Some e \<Rightarrow>
             (let ageMs = now - ce_createdAt e; ttlMs = ce_ttl e * 1000
              in if ageMs > ttlMs
                 then (let (_, st2) = store_delete ops key st1 in (None, st2\<lparr>cs_misses := cs_misses st2 + 1\<rparr>))
                 else (Some e, st1\<lparr>cs_hits := cs_hits st1 + 1\<rparr>)))"

definition store_set :: "'c lru_ops \<Rightarrow> string \<Rightarrow> cache_entry \<Rightarrow> 'c cache_store \<Rightarrow> 'c cache_store" where
  "store_set ops key entry st =
     (if entry_bytes entry > cs_maxEntryBytes st then st
      else (let (ds, c) = lru_set ops key entry (cs_cache st);
                st1 = dispose_all ds (st\<lparr>cs_cache := c\<rparr>)
            in st1\<lparr>cs_serverIndex := index_add (ce_serverId entry) key (cs_serverIndex st1),
                   cs_toolIndex := index_add (tool_index_key entry) key (cs_toolIndex st1)\<rparr>))"

definition deleteByServer :: "'c lru_ops \<Rightarrow> string \<Rightarrow> 'c cache_store \<Rightarrow> nat \<times> 'c cache_store" where
  "deleteByServer ops serverId st =
     (case map_of (cs_serverIndex st) serverId of
        None \<Rightarrow> (0, st)
      | Some keys \<Rightarrow>
          (let st1 = fold (\<lambda>key s.
                 let (entry, c) = lru_get ops key (cs_cache s);
                     s1 = s\<lparr>cs_cache := c\<rparr>;
                     s2 = (case entry of
                             Some e \<Rightarrow> s1\<lparr>cs_toolIndex := index_remove (tool_index_key e) key (cs_toolIndex s1)\<rparr>
                           | None \<Rightarrow> s1)
                 in snd (delete_raw ops key s2)) keys st
           in (length keys, st1\<lparr>cs_serverIndex := AList.delete serverId (cs_serverIndex st1)\<rparr>)))"

text \<open>
  In \<open>deleteByTool\<close> the callback empties the very set the loop took its keys from, so that
  the second loop runs over what is left of it.
\<close>

definition deleteByTool :: "'c lru_ops \<Rightarrow> string \<Rightarrow> string \<Rightarrow> 'c cache_store \<Rightarrow> nat \<times> 'c cache_store" where
  "deleteByTool ops toolName serverId st =
     (let tk = toolName @ CHR ''@'' # serverId
      in case map_of (cs_toolIndex st) tk of
           None \<Rightarrow> (0, st)
         | Some keys \<Rightarrow>
             (let st1 = fold (\<lambda>key s. snd (delete_raw ops key s)) keys st;
                  st2 = (if map_has (cs_serverIndex st1) serverId
                         then st1\<lparr>cs_serverIndex :=
                                fold (index_remove serverId) (index_keys (cs_toolIndex st1) tk) (cs_serverIndex st1)\<rparr>
                         else st1)
              in (length keys, st2\<lparr>cs_toolIndex := AList.delete tk (cs_toolIndex st2)\<rparr>)))"

definition deleteByPrefix :: "'c lru_ops \<Rightarrow> string \<Rightarrow> 'c cache_store \<Rightarrow> nat \<times> 'c cache_store" where
  "deleteByPrefix ops pre st =
     (let ks = filter (\<lambda>k. starts_with k pre) (lru_keys ops (cs_cache st))
      in (length ks, fold (\<lambda>k s. snd (store_delete ops k s)) ks st))"

definition store_keys :: "'c lru_ops \<Rightarrow> string option \<Rightarrow> 'c cache_store \<Rightarrow> string list" where
  "store_keys ops pre st =
     (let allKeys = lru_keys ops (cs_cache st)
      in case pre of None \<Rightarrow> allKeys
         | Some p \<Rightarrow> (if p = [] then allKeys else filter (\<lambda>k. starts_with k p) allKeys))"

definition recordSkip :: "'c cache_store \<Rightarrow> 'c cache_store" where
  "recordSkip st = st\<lparr>cs_skips := cs_skips st + 1\<rparr>"

definition store_clear :: "'c lru_ops \<Rightarrow> 'c cache_store \<Rightarrow> 'c cache_store" where
  "store_clear ops st =
     (let (ds, c) = lru_clear ops (cs_cache st)
      in (dispose_all ds (st\<lparr>cs_cache := c\<rparr>))\<lparr>cs_serverIndex := [], cs_toolIndex := [],
           cs_hits := 0, cs_misses := 0, cs_skips := 0\<rparr>)"

text \<open>\<open>hitRate\<close> is the pair of the hits and of the total they are divided by, none when it is zero.\<close>

record cache_stats =
  cst_hits :: int
  cst_misses :: int
  cst_skips :: int
  cst_entries :: nat
  cst_hitRate :: "(int \<times> int) option"

definition getStats :: "'c lru_ops \<Rightarrow> 'c cache_store \<Rightarrow> cache_stats" where
  "getStats ops st =
     (let total = cs_hits st + cs_misses st
      in \<lparr>cst_hits = cs_hits st, cst_misses = cs_misses st, cst_skips = cs_skips st,
          cst_entries = length (lru_keys ops (cs_cache st)),
          cst_hitRate = (if total > 0 then Some (cs_hits st, total) else None)\<rparr>)"

subsection \<open>The indexes hold exactly the keys of the entries\<close>

abbreviation content :: "'c lru_ops \<Rightarrow> 'c cache_store \<Rightarrow> string \<Rightarrow> cache_entry option" where
  "content ops st \<equiv> lru_map ops (cs_cache st)"

abbreviation server_keys :: "'c cache_store \<Rightarrow> string \<Rightarrow> string list" where
  "server_keys st s \<equiv> index_keys (cs_serverIndex st) s"

abbreviation tool_keys :: "'c cache_store \<Rightarrow> string \<Rightarrow> string list" where
  "tool_keys st t \<equiv> index_keys (cs_toolIndex st) t"

definition keys_where :: "(cache_entry \<Rightarrow> string) \<Rightarrow> (string \<Rightarrow> cache_entry option) \<Rightarrow> string \<Rightarrow> string set" where
  "keys_where f m s = {k. map_option f (m k) = Some s}"

definition store_ok :: "'c lru_ops \<Rightarrow> 'c cache_store \<Rightarrow> bool" where
  "store_ok ops st \<longleftrightarrow>
     (\<forall>s. distinct (server_keys st s) \<and> set (server_keys st s) = keys_where ce_serverId (content ops st) s) \<and>
     (\<forall>t. distinct (tool_keys st t) \<and> set (tool_keys st t) = keys_where tool_index_key (content ops st) t)"

lemma index_add_distinct: "\<forall>s. distinct (index_keys idx s) \<Longrightarrow> distinct (index_keys (index_add s key idx) s')"
  by (auto simp: index_keys_def index_add_def Let_def update_conv' split: option.splits if_splits)

lemma dispose_entry_simps:
  "cs_cache (dispose_entry (k, e) st) = cs_cache st" "cs_maxEntryBytes (dispose_entry (k, e) st) = cs_maxEntryBytes st"
  "server_keys (dispose_entry (k, e) st) s = (if s = ce_serverId e then removeAll k (server_keys st s) else server_keys st s)"
  "tool_keys (dispose_entry (k, e) st) t = (if t = tool_index_key e then removeAll k (tool_keys st t) else tool_keys st t)"
  by (simp_all add: dispose_entry_def index_keys_remove)

lemma dispose_all_simps [simp]:
  "cs_cache (dispose_all ds st) = cs_cache st" "cs_maxEntryBytes (dispose_all ds st) = cs_maxEntryBytes st"
  "server_keys (dispose_all ds st) s = filter (\<lambda>k. \<forall>e. (k, e) \<in> set ds \<longrightarrow> ce_serverId e \<noteq> s) (server_keys st s)"
  "tool_keys (dispose_all ds st) t = filter (\<lambda>k. \<forall>e. (k, e) \<in> set ds \<longrightarrow> tool_index_key e \<noteq> t) (tool_keys st t)"
proof -
  have "cs_cache (fold dispose_entry ds st) = cs_cache st \<and>
    cs_maxEntryBytes (fold dispose_entry ds st) = cs_maxEntryBytes st \<and>
    server_keys (fold dispose_entry ds st) s = filter (\<lambda>k. \<forall>e. (k, e) \<in> set ds \<longrightarrow> ce_serverId e \<noteq> s) (server_keys st s) \<and>
    tool_keys (fold dispose_entry ds st) t = filter (\<lambda>k. \<forall>e. (k, e) \<in> set ds \<longrightarrow> tool_index_key e \<noteq> t) (tool_keys st t)"
  proof (induction ds arbitrary: st)
    case (Cons d ds)
    obtain k e where d: "d = (k, e)" by (cases d)
    show ?case
      by (auto simp: Cons.IH d dispose_entry_simps removeAll_filter_not_eq intro!: filter_cong)
  qed simp
  then show "cs_cache (dispose_all ds st) = cs_cache st" "cs_maxEntryBytes (dispose_all ds st) = cs_maxEntryBytes st"
    "server_keys (dispose_all ds st) s = filter (\<lambda>k. \<forall>e. (k, e) \<in> set ds \<longrightarrow> ce_serverId e \<noteq> s) (server_keys st s)"
    "tool_keys (dispose_all ds st) t = filter (\<lambda>k. \<forall>e. (k, e) \<in> set ds \<longrightarrow> tool_index_key e \<noteq> t) (tool_keys st t)"
    by (simp_all add: dispose_all_def)
qed

text \<open>A step that removes one key; the callers that clean an index first do nothing more.\<close>

definition removes_key :: "'c lru_ops \<Rightarrow> string \<Rightarrow> ('c cache_store \<Rightarrow> 'c cache_store) \<Rightarrow> bool" where
  "removes_key ops key f \<longleftrightarrow> (\<forall>st. store_ok ops st \<longrightarrow>
     store_ok ops (f st) \<and> content ops (f st) = (content ops st)(key := None))"

lemma delete_raw_cache:
  assumes "lru_ok ops"
  shows "content ops (snd (delete_raw ops key st)) = (content ops st)(key := None)"
    and "server_keys (snd (delete_raw ops key st)) s =
      filter (\<lambda>k. k = key \<longrightarrow> map_option ce_serverId (content ops st key) \<noteq> Some s) (server_keys st s)"
    and "tool_keys (snd (delete_raw ops key st)) t =
      filter (\<lambda>k. k = key \<longrightarrow> map_option tool_index_key (content ops st key) \<noteq> Some t) (tool_keys st t)"
  by (cases "content ops st key";
      auto simp: delete_raw_def case_prod_unfold Let_def lru_okD [OF assms] intro!: filter_cong)+

lemma store_okI:
  assumes "\<And>s. distinct (server_keys st s)" "\<And>s. set (server_keys st s) = keys_where ce_serverId (content ops st) s"
    and "\<And>t. distinct (tool_keys st t)" "\<And>t. set (tool_keys st t) = keys_where tool_index_key (content ops st) t"
  shows "store_ok ops st"
  using assms by (simp add: store_ok_def)

lemma store_okD:
  assumes "store_ok ops st"
  shows "distinct (server_keys st s)" "set (server_keys st s) = keys_where ce_serverId (content ops st) s"
    "distinct (tool_keys st t)" "set (tool_keys st t) = keys_where tool_index_key (content ops st) t"
  using assms by (simp_all add: store_ok_def)

lemma removal_ok:
  assumes ok: "store_ok ops st" and c: "content ops st' = (content ops st)(key := None)"
    and s: "\<And>s. server_keys st' s = filter (P s) (server_keys st s)"
    and t: "\<And>t. tool_keys st' t = filter (Q t) (tool_keys st t)"
    and P: "\<And>s k. P s k \<longleftrightarrow> (k = key \<longrightarrow> map_option ce_serverId (content ops st key) \<noteq> Some s)"
    and Q: "\<And>t k. Q t k \<longleftrightarrow> (k = key \<longrightarrow> map_option tool_index_key (content ops st key) \<noteq> Some t)"
  shows "store_ok ops st'"
  by (rule store_okI) (auto simp: s t P Q c store_okD [OF ok] keys_where_def)

lemma delete_raw_removes: "lru_ok ops \<Longrightarrow> removes_key ops key (\<lambda>st. snd (delete_raw ops key st))"
  unfolding removes_key_def by (auto intro: removal_ok simp: delete_raw_cache)

lemma removes_cleaned:
  assumes "lru_ok ops" "\<And>st. content ops (g st) = content ops st"
    and "\<And>st s. server_keys (g st) s = filter (\<lambda>k. k = key \<longrightarrow> A st s) (server_keys st s)"
    and "\<And>st t. tool_keys (g st) t = filter (\<lambda>k. k = key \<longrightarrow> B st t) (tool_keys st t)"
    and "\<And>st s. \<forall>e. content ops st key = Some e \<longrightarrow> ce_serverId e \<noteq> s \<Longrightarrow> A st s"
    and "\<And>st t. \<forall>e. content ops st key = Some e \<longrightarrow> tool_index_key e \<noteq> t \<Longrightarrow> B st t"
  shows "removes_key ops key (\<lambda>st. snd (delete_raw ops key (g st)))"
  unfolding removes_key_def
proof (intro allI impI conjI)
  fix st assume ok: "store_ok ops st"
  show c: "content ops (snd (delete_raw ops key (g st))) = (content ops st)(key := None)"
    using assms(1,2) by (simp add: delete_raw_cache)
  show "store_ok ops (snd (delete_raw ops key (g st)))"
    by (rule removal_ok [OF ok c, where
          P = "\<lambda>s k. k = key \<longrightarrow> map_option ce_serverId (content ops st key) \<noteq> Some s" and
          Q = "\<lambda>t k. k = key \<longrightarrow> map_option tool_index_key (content ops st key) \<noteq> Some t"])
       (auto simp: delete_raw_cache [OF assms(1)] assms(2-4) intro!: filter_cong dest: assms(5,6))
qed

lemma store_delete_removes: 
  assumes "lru_ok ops"
  shows "removes_key ops key (\<lambda>st. snd (store_delete ops key st))"
proof -
  let ?g = "\<lambda>st. let st1 = st\<lparr>cs_cache := snd (lru_get ops key (cs_cache st))\<rparr>
     in case content ops st key of
          Some e \<Rightarrow> st1\<lparr>cs_serverIndex := index_remove (ce_serverId e) key (cs_serverIndex st1),
                      cs_toolIndex := index_remove (tool_index_key e) key (cs_toolIndex st1)\<rparr>
        | None \<Rightarrow> st1"
  have eq: "(\<lambda>st. snd (store_delete ops key st)) = (\<lambda>st. snd (delete_raw ops key (?g st)))"
    by (rule ext) (simp add: store_delete_def case_prod_unfold Let_def lru_okD [OF assms])
  show ?thesis unfolding eq
    by (rule removes_cleaned [OF assms, where
          A = "\<lambda>st s. \<forall>e. content ops st key = Some e \<longrightarrow> ce_serverId e \<noteq> s" and
          B = "\<lambda>st t. \<forall>e. content ops st key = Some e \<longrightarrow> tool_index_key e \<noteq> t"])
       (auto simp: Let_def lru_okD [OF assms] index_keys_remove removeAll_filter_not_eq
          intro!: filter_cong filter_True [symmetric] split: option.split)
qed

lemma server_step_removes:
  assumes "lru_ok ops"
  shows "removes_key ops key (\<lambda>s. let (entry, c) = lru_get ops key (cs_cache s); s1 = s\<lparr>cs_cache := c\<rparr>;
      s2 = (case entry of Some e \<Rightarrow> s1\<lparr>cs_toolIndex := index_remove (tool_index_key e) key (cs_toolIndex s1)\<rparr> | None \<Rightarrow> s1)
      in snd (delete_raw ops key s2))"
proof -
  let ?g = "\<lambda>st. let st1 = st\<lparr>cs_cache := snd (lru_get ops key (cs_cache st))\<rparr>
     in case content ops st key of
          Some e \<Rightarrow> st1\<lparr>cs_toolIndex := index_remove (tool_index_key e) key (cs_toolIndex st1)\<rparr> | None \<Rightarrow> st1"
  have eq: "(\<lambda>s. let (entry, c) = lru_get ops key (cs_cache s); s1 = s\<lparr>cs_cache := c\<rparr>;
      s2 = (case entry of Some e \<Rightarrow> s1\<lparr>cs_toolIndex := index_remove (tool_index_key e) key (cs_toolIndex s1)\<rparr> | None \<Rightarrow> s1)
      in snd (delete_raw ops key s2)) = (\<lambda>st. snd (delete_raw ops key (?g st)))"
    by (rule ext) (simp add: case_prod_unfold Let_def lru_okD [OF assms])
  show ?thesis unfolding eq
    by (rule removes_cleaned [OF assms, where
          A = "\<lambda>st s. True" and B = "\<lambda>st t. \<forall>e. content ops st key = Some e \<longrightarrow> tool_index_key e \<noteq> t"])
       (auto simp: Let_def lru_okD [OF assms] index_keys_remove removeAll_filter_not_eq
          intro!: filter_cong filter_True [symmetric] split: option.split)
qed

text \<open>A loop of such steps removes the keys of its list.\<close>

lemma removes_fold:
  assumes "\<And>key. removes_key ops key (f key)"
  shows "store_ok ops st \<Longrightarrow> store_ok ops (fold f ks st) \<and>
    content ops (fold f ks st) = (\<lambda>k. if k \<in> set ks then None else content ops st k)"
proof (induction ks arbitrary: st)
  case (Cons k ks)
  then show ?case using assms [of k] by (auto simp: removes_key_def)
qed simp

lemma store_ok_new: "lru_map ops c = Map.empty \<Longrightarrow> store_ok ops (new_cache_store c kb)"
  by (rule store_okI) (simp_all add: new_cache_store_def index_keys_def keys_where_def)

lemma store_get_ok:
  assumes "lru_ok ops" "store_ok ops st"
  shows "store_ok ops (snd (store_get ops now key st))"
proof -
  have st1: "store_ok ops (st\<lparr>cs_cache := snd (lru_get ops key (cs_cache st))\<rparr>)"
    by (rule store_okI) (simp_all add: store_okD [OF assms(2)] lru_okD [OF assms(1)])
  have misses: "store_ok ops (s\<lparr>cs_misses := n\<rparr>) = store_ok ops s" "store_ok ops (s\<lparr>cs_hits := n\<rparr>) = store_ok ops s"
    for s n by (simp_all add: store_ok_def)
  from st1 store_delete_removes [OF assms(1), of key] show ?thesis
    by (auto simp: store_get_def case_prod_unfold Let_def misses removes_key_def split: option.split)
qed

lemma store_set_ok:
  assumes ops: "lru_ok ops" and ok: "store_ok ops st"
  shows "store_ok ops (store_set ops key entry st)"
proof (cases "entry_bytes entry > cs_maxEntryBytes st")
  case False
  let ?ds = "fst (lru_set ops key entry (cs_cache st))" and ?c = "snd (lru_set ops key entry (cs_cache st))"
  let ?st' = "store_set ops key entry st"
  have c: "content ops ?st' = lru_map ops ?c"
    using False by (simp add: store_set_def case_prod_unfold Let_def)
  note set_ok = lru_set_okD [OF ops, where k = key and e = entry and c = "cs_cache st"]
  have keys: "k \<in> keys_where f (lru_map ops ?c) s \<longleftrightarrow>
      (k = key \<and> f entry = s) \<or> (k \<in> keys_where f (content ops st) s \<and> (\<forall>e. (k, e) \<in> set ?ds \<longrightarrow> f e \<noteq> s))"
    for f k s
  proof (cases "k = key")
    case True
    have "f e = f entry" if "content ops st key = Some e" "(key, e) \<notin> set ?ds" for e
      using set_ok(4) [of key e] set_ok(1) that by auto
    with True set_ok(1) set_ok(3) [of key] show ?thesis
      by (auto simp: keys_where_def)
  next
    case False
    from set_ok(2) [OF False] consider "lru_map ops ?c k = content ops st k" | "lru_map ops ?c k = None"
      by (elim insertE emptyE) simp_all
    then show ?thesis
    proof cases
      case 1
      then have "(k, e) \<notin> set ?ds" for e using set_ok(3) [of k e] False by auto
      with 1 False show ?thesis by (simp add: keys_where_def)
    next
      case 2
      then have "(k, e) \<in> set ?ds" if "content ops st k = Some e" for e using set_ok(4) [OF that] by simp
      with 2 False show ?thesis by (auto simp: keys_where_def)
    qed
  qed
  have server: "set (server_keys ?st' s) = keys_where ce_serverId (content ops ?st') s" for s
  proof (rule set_eqI)
    fix k
    show "k \<in> set (server_keys ?st' s) \<longleftrightarrow> k \<in> keys_where ce_serverId (content ops ?st') s"
      unfolding c keys [of k ce_serverId s]
      using False by (auto simp: store_set_def case_prod_unfold Let_def index_keys_add store_okD [OF ok])
  qed
  have tool: "set (tool_keys ?st' t) = keys_where tool_index_key (content ops ?st') t" for t
  proof (rule set_eqI)
    fix k
    show "k \<in> set (tool_keys ?st' t) \<longleftrightarrow> k \<in> keys_where tool_index_key (content ops ?st') t"
      unfolding c keys [of k tool_index_key t]
      using False by (auto simp: store_set_def case_prod_unfold Let_def index_keys_add store_okD [OF ok])
  qed
  have d: "distinct (server_keys ?st' s)" "distinct (tool_keys ?st' t)" for s t
    using False store_okD [OF ok]
    by (simp_all add: store_set_def case_prod_unfold Let_def index_add_distinct)
  show ?thesis by (rule store_okI [OF d(1) server d(2) tool])
qed (simp add: store_set_def ok)

lemma drop_empty_index:
  assumes "store_ok ops s"
  shows "keys_where ce_serverId (content ops s) i = {} \<Longrightarrow>
      store_ok ops (s\<lparr>cs_serverIndex := AList.delete i (cs_serverIndex s)\<rparr>)"
    and "keys_where tool_index_key (content ops s) t = {} \<Longrightarrow>
      store_ok ops (s\<lparr>cs_toolIndex := AList.delete t (cs_toolIndex s)\<rparr>)"
  by (rule store_okI; auto simp: index_keys_delete store_okD [OF assms])+

lemma deleteByServer_spec:
  assumes ops: "lru_ok ops" and ok: "store_ok ops st"
  shows "store_ok ops (snd (deleteByServer ops serverId st)) \<and>
    content ops (snd (deleteByServer ops serverId st)) =
      (\<lambda>k. if k \<in> keys_where ce_serverId (content ops st) serverId then None else content ops st k) \<and>
    fst (deleteByServer ops serverId st) = card (keys_where ce_serverId (content ops st) serverId)"
proof (cases "map_of (cs_serverIndex st) serverId")
  case None
  then have "keys_where ce_serverId (content ops st) serverId = {}"
    using store_okD(2) [OF ok, of serverId] by (simp add: index_keys_def)
  with None ok show ?thesis by (simp add: deleteByServer_def)
next
  case (Some keys)
  then have keys: "server_keys st serverId = keys" by (simp add: index_keys_def)
  let ?st1 = "fold (\<lambda>key s. let (entry, c) = lru_get ops key (cs_cache s); s1 = s\<lparr>cs_cache := c\<rparr>;
      s2 = (case entry of Some e \<Rightarrow> s1\<lparr>cs_toolIndex := index_remove (tool_index_key e) key (cs_toolIndex s1)\<rparr> | None \<Rightarrow> s1)
      in snd (delete_raw ops key s2)) keys st"
  from removes_fold [OF server_step_removes [OF ops] ok, of keys]
  have ok1: "store_ok ops ?st1" and c1: "content ops ?st1 = (\<lambda>k. if k \<in> set keys then None else content ops st k)"
    by blast+
  have ks: "set keys = keys_where ce_serverId (content ops st) serverId" "length keys = card (set keys)"
    using store_okD(1,2) [OF ok, of serverId] distinct_card [of keys] unfolding keys by simp_all
  have "keys_where ce_serverId (content ops ?st1) serverId = {}"
    unfolding c1 ks(1) by (auto simp: keys_where_def)
  then have "store_ok ops (?st1\<lparr>cs_serverIndex := AList.delete serverId (cs_serverIndex ?st1)\<rparr>)"
    by (rule drop_empty_index(1) [OF ok1])
  moreover have "snd (deleteByServer ops serverId st) = ?st1\<lparr>cs_serverIndex := AList.delete serverId (cs_serverIndex ?st1)\<rparr>"
    "fst (deleteByServer ops serverId st) = length keys"
    unfolding deleteByServer_def Some by (simp_all add: Let_def)
  moreover have "content ops (s\<lparr>cs_serverIndex := i\<rparr>) = content ops s" for s i by simp
  ultimately show ?thesis using c1 ks by (simp only: simp_thms)
qed

lemma deleteByTool_spec:
  assumes ops: "lru_ok ops" and ok: "store_ok ops st"
  shows "store_ok ops (snd (deleteByTool ops toolName serverId st)) \<and>
    content ops (snd (deleteByTool ops toolName serverId st)) =
      (\<lambda>k. if k \<in> keys_where tool_index_key (content ops st) (toolName @ CHR ''@'' # serverId)
           then None else content ops st k) \<and>
    fst (deleteByTool ops toolName serverId st) =
      card (keys_where tool_index_key (content ops st) (toolName @ CHR ''@'' # serverId))"
proof (cases "map_of (cs_toolIndex st) (toolName @ CHR ''@'' # serverId)")
  case None
  then have "keys_where tool_index_key (content ops st) (toolName @ CHR ''@'' # serverId) = {}"
    using store_okD(4) [OF ok, of "toolName @ CHR ''@'' # serverId"] by (simp add: index_keys_def)
  with None ok show ?thesis by (simp add: deleteByTool_def Let_def)
next
  case (Some keys)
  let ?tk = "toolName @ CHR ''@'' # serverId"
  from Some have keys: "tool_keys st ?tk = keys" by (simp add: index_keys_def)
  let ?st1 = "fold (\<lambda>key s. snd (delete_raw ops key s)) keys st"
  from removes_fold [OF delete_raw_removes [OF ops] ok, of keys]
  have ok1: "store_ok ops ?st1" and c1: "content ops ?st1 = (\<lambda>k. if k \<in> set keys then None else content ops st k)"
    by blast+
  have ks: "set keys = keys_where tool_index_key (content ops st) ?tk" "length keys = card (set keys)"
    using store_okD(3,4) [OF ok, of ?tk] distinct_card [of keys] unfolding keys by simp_all
  have none: "keys_where tool_index_key (content ops ?st1) ?tk = {}"
    unfolding c1 ks(1) by (auto simp: keys_where_def)
  then have left: "tool_keys ?st1 ?tk = []" using store_okD(4) [OF ok1, of ?tk] by simp
  have run: "snd (deleteByTool ops toolName serverId st) = ?st1\<lparr>cs_toolIndex := AList.delete ?tk (cs_toolIndex ?st1)\<rparr>"
    "fst (deleteByTool ops toolName serverId st) = length keys"
    by (simp_all add: deleteByTool_def Let_def Some left)
  have "store_ok ops (?st1\<lparr>cs_toolIndex := AList.delete ?tk (cs_toolIndex ?st1)\<rparr>)"
    using none by (rule drop_empty_index(2) [OF ok1])
  with c1 ks show ?thesis by (simp add: run)
qed

subsection \<open>Every reachable store\<close>

datatype store_call =
    CallGet timestamp string
  | CallSet string cache_entry
  | CallDelete string
  | CallDeleteByServer string
  | CallDeleteByTool string string
  | CallDeleteByPrefix string
  | CallRecordSkip
  | CallClear

fun store_step :: "'c lru_ops \<Rightarrow> store_call \<Rightarrow> 'c cache_store \<Rightarrow> 'c cache_store" where
  "store_step ops (CallGet now key) st = snd (store_get ops now key st)"
| "store_step ops (CallSet key entry) st = store_set ops key entry st"
| "store_step ops (CallDelete key) st = snd (store_delete ops key st)"
| "store_step ops (CallDeleteByServer s) st = snd (deleteByServer ops s st)"
| "store_step ops (CallDeleteByTool t s) st = snd (deleteByTool ops t s st)"
| "store_step ops (CallDeleteByPrefix p) st = snd (deleteByPrefix ops p st)"
| "store_step ops CallRecordSkip st = recordSkip st"
| "store_step ops CallClear st = store_clear ops st"

definition store_run :: "'c lru_ops \<Rightarrow> store_call list \<Rightarrow> 'c cache_store \<Rightarrow> 'c cache_store" where
  "store_run ops calls st = fold (store_step ops) calls st"

lemma store_step_ok:
  assumes "lru_ok ops" "store_ok ops st"
  shows "store_ok ops (store_step ops call st)"
proof (cases call)
  case (CallDelete key)
  with store_delete_removes [OF assms(1), of key] assms(2) show ?thesis by (simp add: removes_key_def)
next
  case (CallDeleteByPrefix p)
  with removes_fold [OF store_delete_removes [OF assms(1)] assms(2)] show ?thesis
    by (simp add: deleteByPrefix_def Let_def)
next
  case CallClear
  then show ?thesis
    by (simp add: store_clear_def case_prod_unfold Let_def)
       (rule store_okI; simp add: index_keys_def keys_where_def lru_okD [OF assms(1)])
next
  case CallRecordSkip
  with assms(2) show ?thesis by (simp add: recordSkip_def store_ok_def)
next
  case (CallDeleteByServer s)
  with deleteByServer_spec [OF assms, of s] show ?thesis by simp
next
  case (CallDeleteByTool t s)
  with deleteByTool_spec [OF assms, of t s] show ?thesis by simp
qed (use store_get_ok [OF assms] store_set_ok [OF assms] in simp_all)

lemma store_run_ok: "lru_ok ops \<Longrightarrow> store_ok ops st \<Longrightarrow> store_ok ops (store_run ops calls st)"
  unfolding store_run_def by (induction calls arbitrary: st) (simp_all add: store_step_ok)

text \<open>C16. After any calls, evictions included, the two indexes hold exactly the keys of the entries that
  are cached, each under its server and its tool, once: invalidation finds every entry, and no
  reference to an entry that is gone stays behind.\<close>

theorem store_indexes_exact:
  assumes "lru_ok ops" "lru_map ops c = Map.empty"
  shows "(\<forall>s. set (server_keys (store_run ops calls (new_cache_store c kb)) s) =
      {k. map_option ce_serverId (content ops (store_run ops calls (new_cache_store c kb)) k) = Some s}) \<and>
    (\<forall>t. set (tool_keys (store_run ops calls (new_cache_store c kb)) t) =
      {k. map_option tool_index_key (content ops (store_run ops calls (new_cache_store c kb)) k) = Some t}) \<and>
    (\<forall>s. distinct (server_keys (store_run ops calls (new_cache_store c kb)) s) \<and>
      distinct (tool_keys (store_run ops calls (new_cache_store c kb)) s))"
  using store_okD [OF store_run_ok [OF assms(1) store_ok_new [OF assms(2)]], of calls kb]
  by (simp add: keys_where_def)

lemma without_where:
  "(\<lambda>k. if k \<in> {k. \<exists>e. m k = Some e \<and> P e} then None else m k) =
   (\<lambda>k. case m k of Some e \<Rightarrow> if P e then None else Some e | None \<Rightarrow> None)"
proof
  fix k
  show "(if k \<in> {k. \<exists>e. m k = Some e \<and> P e} then None else m k) =
      (case m k of Some e \<Rightarrow> if P e then None else Some e | None \<Rightarrow> None)"
    by (cases "m k") auto
qed

text \<open>C17. Invalidation is complete and exact: whatever calls came before, invalidating a server
  removes all its entries, invalidating a tool of a server all entries of that tool on that server,
  both leave every other entry in place, and the number returned is that of the entries removed; for
  server ids without an at sign.\<close>

theorem invalidation_exact:
  assumes "lru_ok ops" "lru_map ops c = Map.empty" "st = store_run ops calls (new_cache_store c kb)"
    and "CHR ''@'' \<notin> set serverId" "\<forall>e \<in> ran (content ops st). CHR ''@'' \<notin> set (ce_serverId e)"
  shows "content ops (snd (deleteByServer ops serverId st)) =
      (\<lambda>k. case content ops st k of Some e \<Rightarrow> if ce_serverId e = serverId then None else Some e | None \<Rightarrow> None) \<and>
    content ops (snd (deleteByTool ops toolName serverId st)) =
      (\<lambda>k. case content ops st k of
             Some e \<Rightarrow> if ce_toolName e = toolName \<and> ce_serverId e = serverId then None else Some e | None \<Rightarrow> None) \<and>
    fst (deleteByServer ops serverId st) = card {k. \<exists>e. content ops st k = Some e \<and> ce_serverId e = serverId} \<and>
    fst (deleteByTool ops toolName serverId st) =
      card {k. \<exists>e. content ops st k = Some e \<and> ce_toolName e = toolName \<and> ce_serverId e = serverId}"
proof -
  have ok: "store_ok ops st" unfolding assms(3) by (rule store_run_ok [OF assms(1) store_ok_new [OF assms(2)]])
  have server: "keys_where ce_serverId (content ops st) serverId =
      {k. \<exists>e. content ops st k = Some e \<and> ce_serverId e = serverId}"
    by (auto simp: keys_where_def)
  have "tool_index_key e = toolName @ CHR ''@'' # serverId \<longleftrightarrow> ce_toolName e = toolName \<and> ce_serverId e = serverId"
    if "content ops st k = Some e" for k e
  proof -
    have "CHR ''@'' \<notin> set (ce_serverId e)" using assms(5) that by (auto intro: ranI)
    then show ?thesis
      using last_sep_unique [of "CHR ''@''" "ce_serverId e" serverId "ce_toolName e" toolName] assms(4)
      by (auto simp: tool_index_key_def)
  qed
  then have tool: "keys_where tool_index_key (content ops st) (toolName @ CHR ''@'' # serverId) =
      {k. \<exists>e. content ops st k = Some e \<and> ce_toolName e = toolName \<and> ce_serverId e = serverId}"
    by (auto simp: keys_where_def)
  show ?thesis
    using deleteByServer_spec [OF assms(1) ok, of serverId] deleteByTool_spec [OF assms(1) ok, of toolName serverId]
    unfolding server tool by (simp only: without_where simp_thms)
qed

text \<open>A lookup never returns an entry whose life time is over: what it returns is the entry stored
  under that key, not older than its life time, and an entry that is too old is removed.\<close>

theorem store_get_fresh:
  assumes "lru_ok ops" "store_ok ops st"
  shows "(case fst (store_get ops now key st) of
      Some e \<Rightarrow> content ops st key = Some e \<and> now - ce_createdAt e \<le> ce_ttl e * 1000
    | None \<Rightarrow> content ops (snd (store_get ops now key st)) key = None)"
proof (cases "content ops st key")
  case None
  then show ?thesis by (simp add: store_get_def case_prod_unfold Let_def lru_okD [OF assms(1)])
next
  case (Some e)
  let ?st1 = "st\<lparr>cs_cache := snd (lru_get ops key (cs_cache st))\<rparr>"
  have "store_ok ops ?st1" by (rule store_okI) (simp_all add: store_okD [OF assms(2)] lru_okD [OF assms(1)])
  with store_delete_removes [OF assms(1), of key] have "content ops (snd (store_delete ops key ?st1)) key = None"
    by (simp add: removes_key_def)
  with Some show ?thesis
    by (simp add: store_get_def case_prod_unfold Let_def lru_okD [OF assms(1)])
qed

subsection \<open>A cache of two entries for the witnesses\<close>

type_synonym two_entries = "(string \<times> cache_entry) list"

definition two_set :: "string \<Rightarrow> cache_entry \<Rightarrow> two_entries \<Rightarrow> (string \<times> cache_entry) list \<times> two_entries" where
  "two_set k e c =
     (let old = (case map_of c k of Some o' \<Rightarrow> [(k, o')] | None \<Rightarrow> []); rest = AList.delete k c
      in if length rest < 2 then (old, (k, e) # rest)
         else (let h = fst (last rest)
               in (old @ (case map_of rest h of Some v \<Rightarrow> [(h, v)] | None \<Rightarrow> []), (k, e) # AList.delete h rest)))"

definition two_lru :: "two_entries lru_ops" where
  "two_lru = \<lparr>lru_get = (\<lambda>k c. (map_of c k, c)), lru_set = two_set,
     lru_delete = (\<lambda>k c. (map_has c k, (case map_of c k of Some e \<Rightarrow> [(k, e)] | None \<Rightarrow> []), AList.delete k c)),
     lru_clear = (\<lambda>c. (c, [])), lru_keys = (\<lambda>c. remdups (map fst c)), lru_map = map_of\<rparr>"

lemma two_lru_ok: "lru_ok two_lru"
proof -
  have "lru_get_ok two_lru" "lru_delete_ok two_lru"
    by (simp_all add: lru_get_ok_def lru_delete_ok_def two_lru_def delete_conv')
  moreover have "lru_set_ok two_lru"
  proof -
    have main: "map_of (snd (two_set k e c)) k = Some e \<and>
        (k' \<noteq> k \<longrightarrow> map_of (snd (two_set k e c)) k' \<in> {map_of c k', None}) \<and>
        ((k', e') \<in> set (fst (two_set k e c)) \<longrightarrow>
           map_of c k' = Some e' \<and> (k' = k \<or> map_of (snd (two_set k e c)) k' = None)) \<and>
        (map_of c k' = Some e' \<and> map_of (snd (two_set k e c)) k' \<noteq> Some e' \<longrightarrow> (k', e') \<in> set (fst (two_set k e c)))"
      for k e c k' e'
    proof (cases "length (AList.delete k c) < 2")
      case True
      then show ?thesis by (cases "map_of c k") (auto simp: two_set_def delete_conv')
    next
      case False
      define h where "h = fst (last (AList.delete k c))"
      from False have "last (AList.delete k c) \<in> set (AList.delete k c)" by (intro last_in_set) auto
      then have "h \<in> fst ` set (AList.delete k c)" unfolding h_def by (rule imageI)
      then have "map_of (AList.delete k c) h \<noteq> None" by (simp only: map_of_eq_None_iff simp_thms)
      then have hk: "h \<noteq> k" and "map_of c h \<noteq> None" by (simp_all add: delete_conv' split: if_splits)
      then obtain v where v: "map_of c h = Some v" by blast
      have c': "map_of (snd (two_set k e c)) = ((map_of c)(k := None, h := None))(k \<mapsto> e)"
        and ds: "fst (two_set k e c) = (case map_of c k of Some o' \<Rightarrow> [(k, o')] | None \<Rightarrow> []) @ [(h, v)]"
        using False hk v by (simp_all add: two_set_def delete_conv' Let_def flip: h_def)
      show ?thesis unfolding c' ds using hk v by (cases "map_of c k") auto
    qed
    show ?thesis
      unfolding lru_set_ok_def two_lru_def lru_ops.select_convs by (intro allI main)
  qed
  moreover have "set (lru_keys two_lru c) = dom (lru_map two_lru c)" for c
    by (simp add: two_lru_def dom_map_of_conv_image_fst)
  ultimately show ?thesis by (simp add: lru_ok_def) (simp add: two_lru_def)
qed

definition example_entry :: "string \<Rightarrow> cache_entry" where
  "example_entry tool = \<lparr>ce_result = JObj [], ce_createdAt = 1000, ce_ttl = 60, ce_toolName = tool, ce_serverId = ''crm''\<rparr>"

definition example_calls :: "store_call list" where
  "example_calls = [CallSet ''k1'' (example_entry ''get''), CallSet ''k2'' (example_entry ''list''),
     CallSet ''k3'' (example_entry ''get'')]"

definition example_cache :: "two_entries cache_store" where
  "example_cache = store_run two_lru example_calls (new_cache_store [] 64)"

theorem store_indexes_exact_witness:
  "set (server_keys example_cache ''crm'') = {k. map_option ce_serverId (content two_lru example_cache k) = Some ''crm''} \<and>
   server_keys example_cache ''crm'' = [''k2'', ''k3'']"
proof -
  have e: "lru_map two_lru [] = Map.empty" by (simp add: two_lru_def)
  have k: "server_keys example_cache ''crm'' = [''k2'', ''k3'']" by code_simp
  show ?thesis using store_indexes_exact [OF two_lru_ok e, of example_calls 64] k
    unfolding example_cache_def by blast
qed

theorem invalidation_exact_witness:
  "fst (deleteByTool two_lru ''get'' ''crm'' example_cache) =
     card {k. \<exists>e. content two_lru example_cache k = Some e \<and> ce_toolName e = ''get'' \<and> ce_serverId e = ''crm''} \<and>
   fst (deleteByTool two_lru ''get'' ''crm'' example_cache) = 1"
proof -
  have e: "lru_map two_lru [] = Map.empty" by (simp add: two_lru_def)
  have n: "fst (deleteByTool two_lru ''get'' ''crm'' example_cache) = 1" by code_simp
  have "list_all (\<lambda>p. ce_serverId (snd p) = ''crm'') (cs_cache example_cache)" by code_simp
  then have "\<forall>e \<in> ran (content two_lru example_cache). CHR ''@'' \<notin> set (ce_serverId e)"
    by (auto simp: two_lru_def ran_def list_all_iff dest!: map_of_SomeD)
  from invalidation_exact [OF two_lru_ok e example_cache_def _ this, of "''crm''" "''get''"] n
  show ?thesis by simp
qed

theorem store_get_fresh_witness:
  "content two_lru (snd (store_get two_lru 61001 ''k2'' example_cache)) ''k2'' = None \<and>
   fst (store_get two_lru 61000 ''k2'' example_cache) \<noteq> None"
proof -
  have ok: "store_ok two_lru example_cache"
    unfolding example_cache_def by (rule store_run_ok [OF two_lru_ok store_ok_new]) (simp add: two_lru_def)
  have n: "fst (store_get two_lru 61001 ''k2'' example_cache) = None"
    "fst (store_get two_lru 61000 ''k2'' example_cache) \<noteq> None" by code_simp+
  from store_get_fresh [OF two_lru_ok ok, of 61001 "''k2''"] n show ?thesis by simp
qed

end
