(* ===== verification/Redis_Cache.thy ===== *)
theory Redis_Cache
  imports Cache_Store
begin

section \<open>The second-level cache (src/src/cache/redis-cache.ts)\<close>

text \<open>
  \<open>RedisCacheStore\<close> shares entries between instances.  The Redis client is a parameter:
  \<open>kv_ops\<close> has the commands it sends, each of which may be rejected (\<open>None\<close>), and \<open>kv_ok\<close>
  says what a client that answers does.  A read that takes longer than its 100 ms limit is
  one that finds nothing.  \<open>decode\<close> is \<open>JSON.parse\<close> at the type of entries, \<open>None\<close> when it
  throws.  The text of an entry is that of \<open>Cache_Store\<close>.
\<close>

record 'r kv_ops =
  kv_get :: "timestamp \<Rightarrow> string \<Rightarrow> 'r \<Rightarrow> string option option"
  kv_set :: "timestamp \<Rightarrow> string \<Rightarrow> string \<Rightarrow> int \<Rightarrow> 'r \<Rightarrow> bool \<times> 'r"
  kv_del :: "string \<Rightarrow> 'r \<Rightarrow> int option \<times> 'r"
  kv_scan :: "string \<Rightarrow> 'r \<Rightarrow> string list list \<times> bool"
  kv_map :: "timestamp \<Rightarrow> 'r \<Rightarrow> string \<Rightarrow> string option"

text \<open>
  A client that answers in time reads what the server holds (\<open>kv_map\<close>), and a value set with
  \<open>EX\<close> is there until that many seconds have passed.
\<close>

definition kv_ok :: "'r kv_ops \<Rightarrow> bool" where
  "kv_ok ops \<longleftrightarrow>
     (\<forall>now k db. kv_get ops now k db = Some (kv_map ops now db k)) \<and>
     (\<forall>now later k v ex db. now \<le> later \<longrightarrow> later < now + ex * 1000 \<longrightarrow>
        kv_map ops later (snd (kv_set ops now k v ex db)) k = Some v)"

lemma kv_okD:
  assumes "kv_ok ops"
  shows "kv_get ops now k db = Some (kv_map ops now db k)"
    and "now \<le> later \<Longrightarrow> later < now + ex * 1000 \<Longrightarrow> kv_map ops later (snd (kv_set ops now k v ex db)) k = Some v"
  using assms by (simp_all add: kv_ok_def)

record 'r l2_cache =
  l2_db :: 'r
  l2_connected :: bool
  l2_keyPrefix :: string
  l2_maxEntrySizeBytes :: int
  l2_hits :: int
  l2_misses :: int
  l2_writes :: int
  l2_writesCoalesced :: int
  l2_errors :: int
  l2_recentWrites :: "(string, timestamp) jsmap"

definition WRITE_COALESCE_WINDOW_MS :: int where "WRITE_COALESCE_WINDOW_MS = 200"
definition RECENT_WRITES_MAX :: nat where "RECENT_WRITES_MAX = 4096"

definition new_l2_cache :: "'r \<Rightarrow> string \<Rightarrow> int \<Rightarrow> 'r l2_cache" where
  "new_l2_cache db keyPrefix maxEntrySizeKb = \<lparr>l2_db = db, l2_connected = False, l2_keyPrefix = keyPrefix,
     l2_maxEntrySizeBytes = maxEntrySizeKb * 1024, l2_hits = 0, l2_misses = 0, l2_writes = 0,
     l2_writesCoalesced = 0, l2_errors = 0, l2_recentWrites = []\<rparr>"

definition l2_connect :: "'r l2_cache \<Rightarrow> 'r l2_cache" where
  "l2_connect c = c\<lparr>l2_connected := True\<rparr>"

definition l2_disconnect :: "'r l2_cache \<Rightarrow> 'r l2_cache" where
  "l2_disconnect c = c\<lparr>l2_connected := False\<rparr>"

definition l2_key :: "'r l2_cache \<Rightarrow> string \<Rightarrow> string" where
  "l2_key c key = l2_keyPrefix c @ key"

definition entry_text :: "cache_entry \<Rightarrow> string" where
  "entry_text e = (case stringify (entry_json e) of Some t \<Rightarrow> t | None \<Rightarrow> [])"

subsection \<open>Operations\<close>

definition l2_get ::
  "'r kv_ops \<Rightarrow> (string \<Rightarrow> cache_entry option) \<Rightarrow> timestamp \<Rightarrow> string \<Rightarrow> 'r l2_cache \<Rightarrow>
   cache_entry option \<times> 'r l2_cache" where
  "l2_get ops decode now key c =
     (if \<not> l2_connected c then (None, c)
      else case kv_get ops now (l2_key c key) (l2_db c) of
        None \<Rightarrow> (None, c\<lparr>l2_errors := l2_errors c + 1\<rparr>)
      | Some None \<Rightarrow> (None, c\<lparr>l2_misses := l2_misses c + 1\<rparr>)
      | Some (Some raw) \<Rightarrow>
          (if raw = [] then (None, c\<lparr>l2_misses := l2_misses c + 1\<rparr>)
           else case decode raw of
             None \<Rightarrow> (None, c\<lparr>l2_errors := l2_errors c + 1\<rparr>)
           | Some entry \<Rightarrow>
               (if now - ce_createdAt entry > ce_ttl entry * 1000
                then (None, c\<lparr>l2_misses := l2_misses c + 1\<rparr>)
                else (Some entry, c\<lparr>l2_hits := l2_hits c + 1\<rparr>))))"

text \<open>The first loop of \<open>markWrite\<close> stops as soon as the map is small enough again.\<close>

fun prune_expired :: "timestamp \<Rightarrow> (string \<times> timestamp) list \<Rightarrow> (string, timestamp) jsmap \<Rightarrow> (string, timestamp) jsmap" where
  "prune_expired now [] m = m"
| "prune_expired now ((k, v) # rest) m =
     (let m' = (if v \<le> now then AList.delete k m else m)
      in if length m' \<le> RECENT_WRITES_MAX then m' else prune_expired now rest m')"

fun prune_oldest :: "(string, timestamp) jsmap \<Rightarrow> (string, timestamp) jsmap" where
  "prune_oldest [] = []"
| "prune_oldest ((k, v) # m) =
     (if length ((k, v) # m) > RECENT_WRITES_MAX then prune_oldest m else (k, v) # m)"

definition markWrite :: "string \<Rightarrow> timestamp \<Rightarrow> (string, timestamp) jsmap \<Rightarrow> (string, timestamp) jsmap" where
  "markWrite key now m =
     (let m1 = AList.update key (now + WRITE_COALESCE_WINDOW_MS) m
      in if length m1 > RECENT_WRITES_MAX then prune_oldest (prune_expired now m1 m1) else m1)"

definition l2_set ::
  "'r kv_ops \<Rightarrow> timestamp \<Rightarrow> string \<Rightarrow> cache_entry \<Rightarrow> int \<Rightarrow> 'r l2_cache \<Rightarrow> 'r l2_cache" where
  "l2_set ops now key entry ttlSeconds c =
     (if \<not> l2_connected c then c
      else (let json = entry_text entry
        in if int (length json) > l2_maxEntrySizeBytes c then c
           else if (case map_of (l2_recentWrites c) key of Some recent \<Rightarrow> recent > now | None \<Rightarrow> False)
           then c\<lparr>l2_writesCoalesced := l2_writesCoalesced c + 1\<rparr>
           else (let (ok, db) = kv_set ops now (l2_key c key) json (max 1 ttlSeconds) (l2_db c)
                 in c\<lparr>l2_recentWrites := markWrite key now (l2_recentWrites c),
                      l2_writes := l2_writes c + 1, l2_db := db,
                      l2_errors := l2_errors c + (if ok then 0 else 1)\<rparr>)))"

definition l2_delete :: "'r kv_ops \<Rightarrow> string \<Rightarrow> 'r l2_cache \<Rightarrow> bool \<times> 'r l2_cache" where
  "l2_delete ops key c =
     (if \<not> l2_connected c then (False, c)
      else case kv_del ops (l2_key c key) (l2_db c) of
        (None, db) \<Rightarrow> (False, c\<lparr>l2_db := db, l2_errors := l2_errors c + 1\<rparr>)
      | (Some n, db) \<Rightarrow> (n > 0, c\<lparr>l2_db := db\<rparr>))"

text \<open>
  The loops over the pages of a scan.  A command that is rejected ends the loop, and what
  was deleted so far is returned; a page is deleted as a whole, so that its keys count only
  when every one of them was deleted.
\<close>

fun delete_page :: "'r kv_ops \<Rightarrow> string list \<Rightarrow> 'r \<Rightarrow> bool \<times> 'r" where
  "delete_page ops [] db = (True, db)"
| "delete_page ops (k # ks) db =
     (case kv_del ops k db of (r, db1) \<Rightarrow>
        (case delete_page ops ks db1 of (ok, db2) \<Rightarrow> (r \<noteq> None \<and> ok, db2)))"

fun delete_pages :: "'r kv_ops \<Rightarrow> string list list \<Rightarrow> int \<Rightarrow> 'r \<Rightarrow> bool \<times> int \<times> 'r" where
  "delete_pages ops [] deleted db = (True, deleted, db)"
| "delete_pages ops (keys # pages) deleted db =
     (case delete_page ops keys db of (ok, db1) \<Rightarrow>
        (if ok then delete_pages ops pages (deleted + int (length keys)) db1 else (False, deleted, db1)))"

definition deleteByPattern :: "'r kv_ops \<Rightarrow> string \<Rightarrow> 'r l2_cache \<Rightarrow> int \<times> 'r l2_cache" where
  "deleteByPattern ops pattern c =
     (if \<not> l2_connected c then (0, c)
      else (case kv_scan ops (l2_key c pattern) (l2_db c) of (pages, scanned) \<Rightarrow>
        (case delete_pages ops pages 0 (l2_db c) of (ok, deleted, db) \<Rightarrow>
           (deleted, c\<lparr>l2_db := db, l2_errors := l2_errors c + (if ok \<and> scanned then 0 else 1)\<rparr>))))"

fun delete_tool_keys ::
  "'r kv_ops \<Rightarrow> (string \<Rightarrow> cache_entry option) \<Rightarrow> timestamp \<Rightarrow> string \<Rightarrow> string \<Rightarrow> string list \<Rightarrow>
   int \<Rightarrow> 'r l2_cache \<Rightarrow> bool \<times> int \<times> 'r l2_cache" where
  "delete_tool_keys ops decode now tool server [] deleted c = (True, deleted, c)"
| "delete_tool_keys ops decode now tool server (key # keys) deleted c =
     (case kv_get ops now key (l2_db c) of
        None \<Rightarrow> (False, deleted, c)
      | Some None \<Rightarrow> delete_tool_keys ops decode now tool server keys deleted c
      | Some (Some raw) \<Rightarrow>
          (if raw = [] then delete_tool_keys ops decode now tool server keys deleted c
           else case decode raw of
             None \<Rightarrow> delete_tool_keys ops decode now tool server keys deleted (c\<lparr>l2_errors := l2_errors c + 1\<rparr>)
           | Some entry \<Rightarrow>
               (if ce_toolName entry = tool \<and> ce_serverId entry = server
                then (case kv_del ops key (l2_db c) of
                        (None, db) \<Rightarrow> (False, deleted, c\<lparr>l2_db := db\<rparr>)
                      | (Some n, db) \<Rightarrow>
                          delete_tool_keys ops decode now tool server keys (deleted + n) (c\<lparr>l2_db := db\<rparr>))
                else delete_tool_keys ops decode now tool server keys deleted c)))"

definition l2_deleteByTool ::
  "'r kv_ops \<Rightarrow> (string \<Rightarrow> cache_entry option) \<Rightarrow> timestamp \<Rightarrow> string \<Rightarrow> string \<Rightarrow> 'r l2_cache \<Rightarrow> int \<times> 'r l2_cache" where
  "l2_deleteByTool ops decode now toolName serverId c =
     (if \<not> l2_connected c then (0, c)
      else (case kv_scan ops (l2_key c ''*'') (l2_db c) of (pages, scanned) \<Rightarrow>
        (case delete_tool_keys ops decode now toolName serverId (concat pages) 0 c of (ok, deleted, c') \<Rightarrow>
           (deleted, c'\<lparr>l2_errors := l2_errors c' + (if ok \<and> scanned then 0 else 1)\<rparr>))))"

definition l2_flush :: "'r kv_ops \<Rightarrow> 'r l2_cache \<Rightarrow> int \<times> 'r l2_cache" where
  "l2_flush ops c = deleteByPattern ops ''*'' c"

subsection \<open>The map of recent writes is bounded\<close>

lemma prune_oldest_length: "length (prune_oldest m) \<le> RECENT_WRITES_MAX"
  by (induction m rule: prune_oldest.induct) (simp_all add: RECENT_WRITES_MAX_def)

lemma markWrite_length: "length (markWrite key now m) \<le> RECENT_WRITES_MAX"
  by (simp add: markWrite_def Let_def prune_oldest_length)

lemma l2_recent_bounded:
  assumes "length (l2_recentWrites c) \<le> RECENT_WRITES_MAX"
  shows "length (l2_recentWrites (l2_set ops now key entry ttl c)) \<le> RECENT_WRITES_MAX"
  using assms by (simp add: l2_set_def Let_def markWrite_length split: option.split prod.split)

lemma prune_expired_last:
  "m \<noteq> [] \<Longrightarrow> last m = (key, v) \<Longrightarrow> now < v \<Longrightarrow> (\<And>v'. (key, v') \<in> set ms \<Longrightarrow> now < v') \<Longrightarrow>
   prune_expired now ms m \<noteq> [] \<and> last (prune_expired now ms m) = (key, v)"
proof (induction now ms m rule: prune_expired.induct)
  case (2 now k v' rest m)
  have step: "AList.delete k m \<noteq> [] \<and> last (AList.delete k m) = (key, v)" if "k \<noteq> key"
  proof -
    from 2(2,3) obtain m0 where m0: "m = m0 @ [(key, v)]" by (metis append_butlast_last_id)
    show ?thesis unfolding m0 using that by (simp add: AList.delete_eq)
  qed
  have live: "\<And>v'. (key, v') \<in> set rest \<Longrightarrow> now < v'" using 2(5) by simp
  show ?case
  proof (cases "v' \<le> now")
    case True
    then have "k \<noteq> key" using 2(5) [of v'] by auto
    note d = step [OF this]
    show ?thesis
    proof (cases "length (AList.delete k m) \<le> RECENT_WRITES_MAX")
      case False
      with True 2(1) [OF refl] d 2(4) live show ?thesis by (simp add: Let_def)
    qed (use True d in \<open>simp add: Let_def\<close>)
  next
    case False
    with 2(1) [OF refl] 2(2-4) live show ?thesis by (simp add: Let_def)
  qed
qed simp

lemma prune_oldest_last:
  "m \<noteq> [] \<Longrightarrow> prune_oldest m \<noteq> [] \<and> last (prune_oldest m) = last m"
  by (induction m rule: prune_oldest.induct) (auto simp: RECENT_WRITES_MAX_def)

text \<open>A write is remembered for as long as its window is open, whatever is pruned for it.\<close>

lemma markWrite_remembers:
  assumes "map_wf m" "length m \<le> RECENT_WRITES_MAX"
  shows "map_of (markWrite key now m) key = Some (now + WRITE_COALESCE_WINDOW_MS)"
proof (cases "map_has m key")
  case True
  then have "length (AList.update key (now + WRITE_COALESCE_WINDOW_MS) m) = length m"
    using update_keys_old [of m key] by (metis length_map)
  with assms show ?thesis by (simp add: markWrite_def Let_def update_conv')
next
  case False
  let ?v = "now + WRITE_COALESCE_WINDOW_MS"
  have v: "now < ?v" by (simp add: WRITE_COALESCE_WINDOW_MS_def)
  have u: "AList.update key ?v m = m @ [(key, ?v)]" using False by (intro update_keys_new) simp
  have only: "now < v'" if "(key, v') \<in> set (m @ [(key, ?v)])" for v'
  proof -
    have "(key, v') \<notin> set m" using False by (metis fst_conv image_eqI map_of_eq_None_iff not_None_eq)
    then show ?thesis using that v by simp
  qed
  let ?p = "prune_expired now (m @ [(key, ?v)]) (m @ [(key, ?v)])"
  have p: "?p \<noteq> [] \<and> last ?p = (key, ?v)"
    by (rule prune_expired_last) (use v only in auto)
  have wf: "map_wf (prune_expired now ms q)" if "map_wf q" for ms q
    using that by (induction now ms q rule: prune_expired.induct) (auto simp: Let_def alist_map.invar_del)
  have wf2: "map_wf (prune_oldest q)" if "map_wf q" for q
    using that by (induction q rule: prune_oldest.induct) (auto simp: map_wf_def)
  have wfu: "map_wf (m @ [(key, ?v)])" using alist_map.invar_put [OF assms(1), of key ?v] u by simp
  let ?q = "prune_oldest ?p"
  have "?q \<noteq> [] \<and> last ?q = (key, ?v)" using prune_oldest_last [of ?p] p by simp
  then have "(key, ?v) \<in> set ?q" by (metis last_in_set)
  moreover have "distinct (map fst ?q)" using wf2 [OF wf [OF wfu]] by (simp add: map_wf_def)
  ultimately have "map_of ?q key = Some ?v" by (rule map_of_is_SomeI [rotated])
  then show ?thesis using False by (simp add: markWrite_def Let_def u map_add_def)
qed

lemma markWrite_wf: "map_wf m \<Longrightarrow> map_wf (markWrite key now m)"
proof -
  assume m: "map_wf m"
  have wf: "map_wf (prune_expired now ms q)" if "map_wf q" for ms q
    using that by (induction now ms q rule: prune_expired.induct) (auto simp: Let_def alist_map.invar_del)
  have wf2: "map_wf (prune_oldest q)" if "map_wf q" for q
    using that by (induction q rule: prune_oldest.induct) (auto simp: map_wf_def)
  show ?thesis using m by (simp add: markWrite_def Let_def wf wf2 alist_map.invar_put)
qed

subsection \<open>What a write leads to\<close>

lemma entry_text_nonempty: "entry_text e \<noteq> []"
  by (simp add: entry_text_def entry_json_def)

lemma delete_tool_keys_keeps:
  "delete_tool_keys ops decode now tool server keys deleted c = (ok, n, c') \<Longrightarrow>
   l2_recentWrites c' = l2_recentWrites c \<and> l2_connected c' = l2_connected c \<and>
   l2_maxEntrySizeBytes c' = l2_maxEntrySizeBytes c"
proof (induction keys arbitrary: tool server deleted c)
  case (Cons key keys)
  show ?case
    using Cons.prems
    by (auto split: option.splits if_splits prod.splits dest!: Cons.IH)
qed simp

lemma l2_deleteByTool_keeps:
  "l2_recentWrites (snd (l2_deleteByTool ops decode now tool server c)) = l2_recentWrites c"
  "l2_connected (snd (l2_deleteByTool ops decode now tool server c)) = l2_connected c"
  "l2_maxEntrySizeBytes (snd (l2_deleteByTool ops decode now tool server c)) = l2_maxEntrySizeBytes c"
  by (auto simp: l2_deleteByTool_def split: prod.splits dest: delete_tool_keys_keeps)

text \<open>A value that was written to the second level is read back exactly while it is younger
  than its own TTL: the longer life that the multiplier gives it in Redis changes nothing.\<close>

theorem l2_read_after_write:
  assumes "kv_ok ops" "decode (entry_text e) = Some e" "l2_connected c"
    and "int (length (entry_text e)) \<le> l2_maxEntrySizeBytes c"
    and "\<forall>recent. map_of (l2_recentWrites c) key = Some recent \<longrightarrow> recent \<le> now"
    and "now \<le> later" "later < now + max 1 ttlSeconds * 1000"
  shows "fst (l2_get ops decode later key (l2_set ops now key e ttlSeconds c)) =
    (if later - ce_createdAt e \<le> ce_ttl e * 1000 then Some e else None)"
proof -
  have fresh: "\<not> (case map_of (l2_recentWrites c) key of Some recent \<Rightarrow> recent > now | None \<Rightarrow> False)"
    using assms(5) by (auto split: option.split)
  obtain ok db where kv: "kv_set ops now (l2_key c key) (entry_text e) (max 1 ttlSeconds) (l2_db c) = (ok, db)"
    by (cases "kv_set ops now (l2_key c key) (entry_text e) (max 1 ttlSeconds) (l2_db c)")
  have m: "kv_map ops later db (l2_key c key) = Some (entry_text e)"
    using kv_okD(2) [OF assms(1,6,7), of "l2_key c key" "entry_text e" "l2_db c"] kv by simp
  show ?thesis
    using assms(2-4) fresh kv m
    by (simp add: l2_set_def l2_get_def l2_key_def kv_okD(1) [OF assms(1)] entry_text_nonempty)
qed

text \<open>A write to a key within 200 ms of the last one is dropped, also when the entries of the
  tool were deleted in between: the value computed after an invalidation does not reach Redis.\<close>

theorem l2_rewrite_dropped:
  assumes "l2_connected c" "map_wf (l2_recentWrites c)" "length (l2_recentWrites c) \<le> RECENT_WRITES_MAX"
    and "int (length (entry_text e)) \<le> l2_maxEntrySizeBytes c"
    and "int (length (entry_text e')) \<le> l2_maxEntrySizeBytes c"
    and "\<forall>recent. map_of (l2_recentWrites c) key = Some recent \<longrightarrow> recent \<le> now"
    and "later < now + 200"
    and "c' = snd (l2_deleteByTool ops decode between tool server (l2_set ops now key e ttl c))"
  shows "l2_set ops later key e' ttl' c' = c'\<lparr>l2_writesCoalesced := l2_writesCoalesced c' + 1\<rparr>"
proof -
  let ?c = "l2_set ops now key e ttl c"
  have fresh: "\<not> (case map_of (l2_recentWrites c) key of Some recent \<Rightarrow> recent > now | None \<Rightarrow> False)"
    using assms(6) by (auto split: option.split)
  have c: "l2_recentWrites ?c = markWrite key now (l2_recentWrites c)" "l2_connected ?c"
    "l2_maxEntrySizeBytes ?c = l2_maxEntrySizeBytes c"
    using assms(1,4) fresh by (simp_all add: l2_set_def Let_def split: prod.split)
  have "map_of (l2_recentWrites c') key = Some (now + 200)"
    using markWrite_remembers [OF assms(2,3), of key now]
    by (simp add: assms(8) l2_deleteByTool_keeps c WRITE_COALESCE_WINDOW_MS_def)
  moreover have "l2_connected c'" "l2_maxEntrySizeBytes c' = l2_maxEntrySizeBytes c"
    using c by (simp_all add: assms(8) l2_deleteByTool_keeps)
  ultimately show ?thesis using assms(5,7) by (simp add: l2_set_def)
qed

subsection \<open>An instance\<close>

text \<open>A list of keys with their value and the time of their end.\<close>

type_synonym timed_db = "(string \<times> string \<times> timestamp) list"

definition timed_map :: "timestamp \<Rightarrow> timed_db \<Rightarrow> string \<Rightarrow> string option" where
  "timed_map now db k =
     (case map_of db k of Some (v, until) \<Rightarrow> if now < until then Some v else None | None \<Rightarrow> None)"

definition timed_kv :: "timed_db kv_ops" where
  "timed_kv = \<lparr>kv_get = (\<lambda>now k db. Some (timed_map now db k)),
     kv_set = (\<lambda>now k v ex db. (True, AList.update k (v, now + ex * 1000) db)),
     kv_del = (\<lambda>k db. (Some (if map_has db k then 1 else 0), AList.delete k db)),
     kv_scan = (\<lambda>pattern db. ([map fst db], True)), kv_map = timed_map\<rparr>"

lemma timed_kv_ok: "kv_ok timed_kv"
  by (simp add: kv_ok_def timed_kv_def timed_map_def update_conv')

definition l2_entry :: "int \<Rightarrow> cache_entry" where
  "l2_entry n = \<lparr>ce_result = JObj [(''n'', JNum n)], ce_createdAt = 1000, ce_ttl = 5, ce_toolName = ''t'', ce_serverId = ''s''\<rparr>"

definition l2_example :: "timed_db l2_cache" where
  "l2_example = l2_connect (new_l2_cache [] ''p:'' 1)"

definition l2_decode :: "string \<Rightarrow> cache_entry option" where
  "l2_decode t = (if t = entry_text (l2_entry 1) then Some (l2_entry 1) else None)"

lemma l2_example_facts:
  "l2_connected l2_example" "l2_recentWrites l2_example = []"
  "int (length (entry_text (l2_entry 1))) \<le> l2_maxEntrySizeBytes l2_example"
  "int (length (entry_text (l2_entry 2))) \<le> l2_maxEntrySizeBytes l2_example"
  by code_simp+

theorem l2_read_after_write_witness:
  "fst (l2_get timed_kv l2_decode 6000 ''k'' (l2_set timed_kv 1000 ''k'' (l2_entry 1) 15 l2_example)) = Some (l2_entry 1) \<and>
   fst (l2_get timed_kv l2_decode 6001 ''k'' (l2_set timed_kv 1000 ''k'' (l2_entry 1) 15 l2_example)) = None"
proof -
  have d: "l2_decode (entry_text (l2_entry 1)) = Some (l2_entry 1)" by (simp add: l2_decode_def)
  have r: "\<forall>recent. map_of (l2_recentWrites l2_example) ''k'' = Some recent \<longrightarrow> recent \<le> 1000"
    by (simp add: l2_example_facts)
  have e: "ce_createdAt (l2_entry 1) = 1000" "ce_ttl (l2_entry 1) = 5" by (simp_all add: l2_entry_def)
  show ?thesis
    using l2_read_after_write [where decode = l2_decode and e = "l2_entry 1" and later = 6000 and ttlSeconds = 15,
        OF timed_kv_ok d l2_example_facts(1,3) r]
      l2_read_after_write [where decode = l2_decode and e = "l2_entry 1" and later = 6001 and ttlSeconds = 15,
        OF timed_kv_ok d l2_example_facts(1,3) r] by (simp add: e)
qed

theorem l2_rewrite_dropped_witness:
  "let c' = snd (l2_deleteByTool timed_kv l2_decode 1050 ''t'' ''s'' (l2_set timed_kv 1000 ''k'' (l2_entry 1) 15 l2_example))
   in l2_db c' = [] \<and> l2_db (l2_set timed_kv 1100 ''k'' (l2_entry 2) 15 c') = []"
proof -
  let ?c = "snd (l2_deleteByTool timed_kv l2_decode 1050 ''t'' ''s'' (l2_set timed_kv 1000 ''k'' (l2_entry 1) 15 l2_example))"
  have "l2_db ?c = []" by code_simp
  moreover have "l2_set timed_kv 1100 ''k'' (l2_entry 2) 15 ?c = ?c\<lparr>l2_writesCoalesced := l2_writesCoalesced ?c + 1\<rparr>"
    by (rule l2_rewrite_dropped [of l2_example "l2_entry 1" "l2_entry 2" "''k''" 1000])
      (simp_all add: l2_example_facts)
  ultimately show ?thesis by (simp add: Let_def)
qed

end
