(* ===== verification/Trace.thy ===== *)
theory Trace
  imports Prelude
begin

section \<open>Trace identifiers (src/src/observability/trace.ts)\<close>

text \<open>
  The W3C \<open>traceparent\<close> header is parsed and formatted, and an identifier is chosen from the
  headers of a request.  \<open>fresh\<close> is the UUID that \<open>generateTraceId\<close> would return.
\<close>

definition is_hex :: "char \<Rightarrow> bool" where
  "is_hex c = (let n = (of_char c :: nat) in (48 \<le> n \<and> n \<le> 57) \<or> (97 \<le> n \<and> n \<le> 102))"

record traceparent_info =
  tp_version :: string
  tp_traceId :: string
  tp_parentId :: string
  tp_flags :: string

definition hex_field :: "nat \<Rightarrow> string \<Rightarrow> bool" where
  "hex_field n s \<longleftrightarrow> length s = n \<and> list_all is_hex s"

text \<open>The anchored pattern of the source: four fields of hexadecimal digits between dashes.\<close>

definition parseTraceparent :: "string \<Rightarrow> traceparent_info option" where
  "parseTraceparent header =
     (case split_on (CHR ''-'') (trim header) of
        [v, t, p, f] \<Rightarrow>
          (if hex_field 2 v \<and> hex_field 32 t \<and> hex_field 16 p \<and> hex_field 2 f
           then Some \<lparr>tp_version = v, tp_traceId = t, tp_parentId = p, tp_flags = f\<rparr> else None)
      | _ \<Rightarrow> None)"

definition pad_start :: "nat \<Rightarrow> char \<Rightarrow> string \<Rightarrow> string" where
  "pad_start n c s = replicate (n - length s) c @ s"

definition formatTraceparent :: "string \<Rightarrow> string \<Rightarrow> bool \<Rightarrow> string" where
  "formatTraceparent traceId spanId sampled =
     (let hexTraceId = take 32 (pad_start 32 (CHR ''0'') (filter (\<lambda>c. c \<noteq> CHR ''-'') traceId));
          flags = (if sampled then ''01'' else ''00'')
      in ''00-'' @ hexTraceId @ ''-'' @ spanId @ ''-'' @ flags)"

definition uuid_form :: "string \<Rightarrow> string" where
  "uuid_form t = take 8 t @ ''-'' @ take 4 (drop 8 t) @ ''-'' @ take 4 (drop 12 t) @ ''-'' @
     take 4 (drop 16 t) @ ''-'' @ drop 20 t"

text \<open>Headers arrive as a map from lower-case names to single values.\<close>

definition resolveTraceId :: "string \<Rightarrow> (string, string) jsmap \<Rightarrow> string" where
  "resolveTraceId fresh headers =
     (let custom = (case map_of headers ''x-conduit-trace-id'' of
                      Some v \<Rightarrow> (if trim v \<noteq> [] then trim v else fresh)
                    | None \<Rightarrow> fresh)
      in case map_of headers ''traceparent'' of
           Some tp \<Rightarrow> (case parseTraceparent tp of Some info \<Rightarrow> uuid_form (tp_traceId info) | None \<Rightarrow> custom)
         | None \<Rightarrow> custom)"

definition buildTraceHeaders :: "string \<Rightarrow> string \<Rightarrow> (string \<times> string) list" where
  "buildTraceHeaders spanId traceId =
     [(''X-Conduit-Trace-Id'', traceId), (''traceparent'', formatTraceparent traceId spanId True)]"

subsection \<open>Lemmas\<close>

lemma hex_no_dash: "hex_field n s \<Longrightarrow> CHR ''-'' \<notin> set s"
  by (auto simp: hex_field_def list_all_iff is_hex_def Let_def)

lemma hex_not_space: "is_hex c \<Longrightarrow> \<not> is_space c"
  by (auto simp: is_hex_def is_space_def Let_def)

lemma filter_hex: "hex_field n s \<Longrightarrow> filter (\<lambda>c. c \<noteq> CHR ''-'') s = s"
  using hex_no_dash by (auto simp: filter_id_conv)

lemma uuid_form_digits:
  assumes "hex_field 32 t"
  shows "filter (\<lambda>c. c \<noteq> CHR ''-'') (uuid_form t) = t"
proof -
  have f: "filter (\<lambda>c. c \<noteq> CHR ''-'') s = s" if "set s \<subseteq> set t" for s
    using that hex_no_dash [OF assms] by (auto simp: filter_id_conv)
  have sub: "set (take 8 t) \<subseteq> set t" "set (take 4 (drop 8 t)) \<subseteq> set t" "set (take 4 (drop 12 t)) \<subseteq> set t"
    "set (take 4 (drop 16 t)) \<subseteq> set t" "set (drop 20 t) \<subseteq> set t"
    by (meson order_trans set_drop_subset set_take_subset)+
  have cut: "drop n t = take 4 (drop n t) @ drop (n + 4) t" for n
    using append_take_drop_id [of 4 "drop n t"] by (simp add: add.commute)
  have "t = take 8 t @ drop 8 t" by simp
  also have "drop 8 t = take 4 (drop 8 t) @ take 4 (drop 12 t) @ take 4 (drop 16 t) @ drop 20 t"
    using cut [of 8] cut [of 12] cut [of 16] by simp
  finally have "take 8 t @ take 4 (drop 8 t) @ take 4 (drop 12 t) @ take 4 (drop 16 t) @ drop 20 t = t" ..
  then show ?thesis by (simp add: uuid_form_def f sub)
qed

text \<open>What \<open>formatTraceparent\<close> writes is read back with the same trace and span.\<close>

lemma trim_id:
  assumes "s \<noteq> []" "\<not> is_space (hd s)" "\<not> is_space (last s)"
  shows "trim s = s"
proof -
  have "dropWhile is_space s = s" using assms by (cases s) auto
  moreover have "dropWhile is_space (rev s) = rev s"
    using assms by (cases "rev s") (auto simp: hd_rev)
  ultimately show ?thesis by (simp add: trim_def)
qed

lemma parse_format_traceparent:
  assumes "hex_field 32 t" "hex_field 16 p"
  shows "parseTraceparent (formatTraceparent (uuid_form t) p sampled) =
    Some \<lparr>tp_version = ''00'', tp_traceId = t, tp_parentId = p,
      tp_flags = (if sampled then ''01'' else ''00'')\<rparr>"
proof -
  let ?fl = "if sampled then ''01'' else ''00''"
  have len: "length t = 32" using assms(1) by (simp add: hex_field_def)
  have fmt: "formatTraceparent (uuid_form t) p sampled = ''00'' @ CHR ''-'' # t @ CHR ''-'' # p @ CHR ''-'' # ?fl"
    by (simp add: formatTraceparent_def pad_start_def uuid_form_digits [OF assms(1)] len)
  have "trim (''00'' @ CHR ''-'' # t @ CHR ''-'' # p @ CHR ''-'' # ?fl) =
      ''00'' @ CHR ''-'' # t @ CHR ''-'' # p @ CHR ''-'' # ?fl"
    by (rule trim_id) (simp_all add: is_space_def)
  moreover have "split_on (CHR ''-'') (''00'' @ CHR ''-'' # t @ CHR ''-'' # p @ CHR ''-'' # ?fl) =
      [''00'', t, p, ?fl]"
    using hex_no_dash [OF assms(1)] hex_no_dash [OF assms(2)]
    by (simp add: split_on_append_sep split_on_none del: split_on.simps append_Cons append_Nil)
  moreover have "hex_field 2 ''00''" "hex_field 2 ?fl" by (simp_all add: hex_field_def is_hex_def)
  ultimately show ?thesis unfolding fmt parseTraceparent_def using assms by simp
qed

end
