(* ===== verification/Circuit_Breaker.thy ===== *)
theory Circuit_Breaker
  imports Prelude
begin

section \<open>The circuit breaker of an upstream server (src/src/router/circuit-breaker.ts)\<close>

text \<open>
  The state of one \<open>CircuitBreaker\<close>, its operations, and the calls a breaker can receive
  as the type \<open>breaker_op\<close>, so that a run is a list of calls in the order in which the
  event loop executes them.  The clock is the argument of the operations that read
  \<open>Date.now()\<close>.  The lemmas give the invariant of the reachable states, the transitions of
  the state machine, and what a run of calls does to an open circuit.
\<close>

datatype circuit_state = Closed | Open | HalfOpen

record breaker_config =
  cb_enabled :: bool
  cb_failure_threshold :: int
  cb_reset_timeout_ms :: int
  cb_half_open_max_requests :: int
  cb_success_threshold :: int

definition DEFAULT_CONFIG :: breaker_config where
  "DEFAULT_CONFIG = \<lparr>cb_enabled = True, cb_failure_threshold = 5, cb_reset_timeout_ms = 30000,
     cb_half_open_max_requests = 1, cb_success_threshold = 2\<rparr>"

record breaker =
  br_state :: circuit_state
  br_failureCount :: int
  br_successCount :: int
  br_lastFailureTime :: timestamp
  br_halfOpenRequests :: int
  br_tripCount :: int

definition new_breaker :: breaker where
  "new_breaker = \<lparr>br_state = Closed, br_failureCount = 0, br_successCount = 0,
     br_lastFailureTime = 0, br_halfOpenRequests = 0, br_tripCount = 0\<rparr>"

subsection \<open>Operations\<close>

definition canExecute :: "breaker_config \<Rightarrow> timestamp \<Rightarrow> breaker \<Rightarrow> bool \<times> breaker" where
  "canExecute cfg now b =
     (case br_state b of
        Closed \<Rightarrow> (True, b)
      | Open \<Rightarrow>
          (if now - br_lastFailureTime b \<ge> cb_reset_timeout_ms cfg
           then (let b' = b\<lparr>br_state := HalfOpen, br_halfOpenRequests := 0, br_successCount := 0\<rparr>
                 in if br_halfOpenRequests b' < cb_half_open_max_requests cfg
                    then (True, b'\<lparr>br_halfOpenRequests := br_halfOpenRequests b' + 1\<rparr>)
                    else (False, b'))
           else (False, b))
      | HalfOpen \<Rightarrow>
          (if br_halfOpenRequests b < cb_half_open_max_requests cfg
           then (True, b\<lparr>br_halfOpenRequests := br_halfOpenRequests b + 1\<rparr>)
           else (False, b)))"

definition onSuccess :: "breaker_config \<Rightarrow> breaker \<Rightarrow> breaker" where
  "onSuccess cfg b =
     (case br_state b of
        Closed \<Rightarrow> b\<lparr>br_failureCount := 0\<rparr>
      | HalfOpen \<Rightarrow>
          (let b1 = b\<lparr>br_successCount := br_successCount b + 1\<rparr>;
               b2 = (if br_halfOpenRequests b1 > 0
                     then b1\<lparr>br_halfOpenRequests := br_halfOpenRequests b1 - 1\<rparr> else b1)
           in if br_successCount b2 \<ge> cb_success_threshold cfg
              then b2\<lparr>br_state := Closed, br_failureCount := 0, br_successCount := 0,
                      br_halfOpenRequests := 0\<rparr>
              else b2)
      | Open \<Rightarrow> b)"

definition onFailure :: "breaker_config \<Rightarrow> timestamp \<Rightarrow> breaker \<Rightarrow> breaker" where
  "onFailure cfg now b =
     (let b1 = b\<lparr>br_lastFailureTime := now\<rparr>
      in case br_state b1 of
           Closed \<Rightarrow>
             (let b2 = b1\<lparr>br_failureCount := br_failureCount b1 + 1\<rparr>
              in if br_failureCount b2 \<ge> cb_failure_threshold cfg
                 then b2\<lparr>br_state := Open, br_tripCount := br_tripCount b2 + 1\<rparr> else b2)
         | HalfOpen \<Rightarrow>
             b1\<lparr>br_state := Open, br_tripCount := br_tripCount b1 + 1, br_successCount := 0,
                br_halfOpenRequests := 0\<rparr>
         | Open \<Rightarrow> b1)"

definition breaker_reset :: "breaker \<Rightarrow> breaker" where
  "breaker_reset b = b\<lparr>br_state := Closed, br_failureCount := 0, br_successCount := 0,
     br_halfOpenRequests := 0, br_lastFailureTime := 0\<rparr>"

record breaker_info =
  bi_state :: circuit_state
  bi_failures :: int
  bi_successes :: int
  bi_last_failure :: timestamp
  bi_trip_count :: int

definition getState :: "breaker \<Rightarrow> breaker_info" where
  "getState b = \<lparr>bi_state = br_state b, bi_failures = br_failureCount b,
     bi_successes = br_successCount b, bi_last_failure = br_lastFailureTime b,
     bi_trip_count = br_tripCount b\<rparr>"

subsection \<open>Runs\<close>

datatype breaker_op =
    CanExecute timestamp
  | OnSuccess
  | OnFailure timestamp
  | ResetBreaker

text \<open>One call; what \<open>canExecute\<close> answered is recorded.\<close>

fun breaker_call :: "breaker_config \<Rightarrow> breaker_op \<Rightarrow> breaker \<Rightarrow> bool list \<times> breaker" where
  "breaker_call cfg (CanExecute now) b = (let (ok, b') = canExecute cfg now b in ([ok], b'))"
| "breaker_call cfg OnSuccess b = ([], onSuccess cfg b)"
| "breaker_call cfg (OnFailure now) b = ([], onFailure cfg now b)"
| "breaker_call cfg ResetBreaker b = ([], breaker_reset b)"

fun breaker_run :: "breaker_config \<Rightarrow> breaker_op list \<Rightarrow> breaker \<Rightarrow> bool list \<times> breaker" where
  "breaker_run cfg [] b = ([], b)"
| "breaker_run cfg (op # ops) b =
     (let (as, b') = breaker_call cfg op b; (as', b'') = breaker_run cfg ops b' in (as @ as', b''))"

inductive breaker_reachable :: "breaker_config \<Rightarrow> breaker \<Rightarrow> bool" for cfg where
  new: "breaker_reachable cfg new_breaker"
| call: "breaker_reachable cfg b \<Longrightarrow> breaker_reachable cfg (snd (breaker_call cfg op b))"

inductive_cases breaker_reachableE: "breaker_reachable cfg b"

definition breaker_invar :: "breaker_config \<Rightarrow> breaker \<Rightarrow> bool" where
  "breaker_invar cfg b \<longleftrightarrow>
     0 \<le> br_failureCount b \<and> 0 \<le> br_successCount b \<and> 0 \<le> br_tripCount b \<and>
     0 \<le> br_halfOpenRequests b \<and> br_halfOpenRequests b \<le> cb_half_open_max_requests cfg \<and>
     (br_state b = Closed \<longrightarrow> br_failureCount b < cb_failure_threshold cfg) \<and>
     (br_state b = HalfOpen \<longrightarrow> br_successCount b < cb_success_threshold cfg) \<and>
     (br_state b \<noteq> HalfOpen \<longrightarrow> br_halfOpenRequests b = 0 \<and> br_successCount b = 0) \<and>
     (br_state b \<noteq> Closed \<longrightarrow> 0 < br_tripCount b)"

definition breaker_config_ok :: "breaker_config \<Rightarrow> bool" where
  "breaker_config_ok cfg \<longleftrightarrow> 1 \<le> cb_failure_threshold cfg \<and> 0 \<le> cb_reset_timeout_ms cfg \<and>
     1 \<le> cb_half_open_max_requests cfg \<and> 1 \<le> cb_success_threshold cfg"

lemma breaker_call_invar:
  assumes "breaker_config_ok cfg" "breaker_invar cfg b"
  shows "breaker_invar cfg (snd (breaker_call cfg op b))"
  using assms
  by (cases op)
     (auto simp: breaker_config_ok_def breaker_invar_def canExecute_def onSuccess_def onFailure_def
        breaker_reset_def Let_def split: circuit_state.split)

lemma breaker_run_append:
  "breaker_run cfg (ops @ ops') b =
     (let (as, b') = breaker_run cfg ops b; (as', b'') = breaker_run cfg ops' b' in (as @ as', b''))"
  by (induction ops arbitrary: b) (auto simp: Let_def split: prod.split)

lemma breaker_run_reachable: "breaker_reachable cfg b \<Longrightarrow> breaker_reachable cfg (snd (breaker_run cfg ops b))"
proof (induction ops arbitrary: b)
  case (Cons op ops)
  from Cons.IH [OF breaker_reachable.call [OF Cons.prems, of op]] show ?case
    by (auto simp: Let_def split: prod.split)
qed simp

text \<open>C13. In every state a breaker can reach by calls of its operations in any order, the
  number of probes in flight it counts lies between zero and the configured maximum, a
  closed circuit has fewer failures than the threshold, a half-open one fewer successes than
  the number that closes it, and the counters of the half-open phase are zero outside it.\<close>

theorem breaker_reachable_invar:
  assumes "breaker_config_ok cfg" "breaker_reachable cfg b"
  shows "breaker_invar cfg b"
  using assms(2)
proof induction
  case new
  with assms(1) show ?case
    by (simp add: breaker_invar_def new_breaker_def breaker_config_ok_def)
next
  case (call b op)
  with assms(1) show ?case by (intro breaker_call_invar)
qed

theorem breaker_reachable_invar_witness:
  "breaker_invar DEFAULT_CONFIG (snd (breaker_run DEFAULT_CONFIG
     [CanExecute 1, OnFailure 2, OnFailure 3, OnFailure 4, OnFailure 5, OnFailure 6, CanExecute 30006] new_breaker))"
proof -
  have ok: "breaker_config_ok DEFAULT_CONFIG" by (simp add: breaker_config_ok_def DEFAULT_CONFIG_def)
  show ?thesis
    by (rule breaker_reachable_invar [OF ok breaker_run_reachable [OF breaker_reachable.new]])
qed

subsection \<open>Transitions\<close>

text \<open>The edges of the state machine, with the condition under which a call takes each.\<close>

inductive breaker_edge :: "breaker_config \<Rightarrow> breaker \<Rightarrow> breaker_op \<Rightarrow> circuit_state \<Rightarrow> bool" for cfg b where
  trip: "br_state b = Closed \<Longrightarrow> br_failureCount b + 1 \<ge> cb_failure_threshold cfg
     \<Longrightarrow> breaker_edge cfg b (OnFailure now) Open"
| probe: "br_state b = Open \<Longrightarrow> now - br_lastFailureTime b \<ge> cb_reset_timeout_ms cfg
     \<Longrightarrow> breaker_edge cfg b (CanExecute now) HalfOpen"
| recover: "br_state b = HalfOpen \<Longrightarrow> br_successCount b + 1 \<ge> cb_success_threshold cfg
     \<Longrightarrow> breaker_edge cfg b OnSuccess Closed"
| reopen: "br_state b = HalfOpen \<Longrightarrow> breaker_edge cfg b (OnFailure now) Open"
| force: "br_state b \<noteq> Closed \<Longrightarrow> breaker_edge cfg b ResetBreaker Closed"

inductive_simps breaker_edge_simps [gateway_simps]:
  "breaker_edge cfg b (CanExecute now) s" "breaker_edge cfg b OnSuccess s"
  "breaker_edge cfg b (OnFailure now) s" "breaker_edge cfg b ResetBreaker s"

text \<open>A call changes the state of the circuit exactly along the edges of the documented
  state machine, each under its condition, and the trip counter grows, by one, exactly on
  the edges that lead to the open state.\<close>

theorem breaker_call_transition:
  "(br_state (snd (breaker_call cfg op b)) = s \<longleftrightarrow>
      breaker_edge cfg b op s \<or> (s = br_state b \<and> (\<nexists>t. breaker_edge cfg b op t))) \<and>
   br_tripCount (snd (breaker_call cfg op b)) =
      br_tripCount b + (if breaker_edge cfg b op Open then 1 else 0)"
  by (cases op; cases "br_state b")
     (auto simp: gateway_simps canExecute_def onSuccess_def onFailure_def breaker_reset_def Let_def)

subsection \<open>Runs from the open state\<close>

definition before_timeout :: "breaker_config \<Rightarrow> timestamp \<Rightarrow> breaker_op \<Rightarrow> bool" where
  "before_timeout cfg opened op =
     (case op of CanExecute now \<Rightarrow> now < opened + cb_reset_timeout_ms cfg
      | OnFailure now \<Rightarrow> opened \<le> now | OnSuccess \<Rightarrow> True | ResetBreaker \<Rightarrow> False)"

text \<open>An open circuit admits nothing until the reset timeout has passed since the failure
  that opened it, whatever late results of earlier requests come in: every \<open>canExecute\<close> of
  the run answers false, the circuit stays open and it is not counted as tripped again.\<close>

theorem open_circuit_rejects:
  assumes "br_state b = Open" "opened \<le> br_lastFailureTime b"
    and "\<forall>op \<in> set ops. before_timeout cfg opened op"
  shows "set (fst (breaker_run cfg ops b)) \<subseteq> {False} \<and>
    br_state (snd (breaker_run cfg ops b)) = Open \<and>
    br_tripCount (snd (breaker_run cfg ops b)) = br_tripCount b"
  using assms
proof (induction ops arbitrary: b)
  case (Cons op ops)
  then have "br_state (snd (breaker_call cfg op b)) = Open \<and>
      opened \<le> br_lastFailureTime (snd (breaker_call cfg op b)) \<and>
      br_tripCount (snd (breaker_call cfg op b)) = br_tripCount b \<and>
      set (fst (breaker_call cfg op b)) \<subseteq> {False}"
    by (cases op) (auto simp: before_timeout_def canExecute_def onSuccess_def onFailure_def)
  with Cons.IH [of "snd (breaker_call cfg op b)"] Cons.prems(3) show ?case
    by (auto simp: Let_def split: prod.split)
qed simp

definition tripped_breaker :: breaker where
  "tripped_breaker = snd (breaker_run DEFAULT_CONFIG (replicate 5 (OnFailure 1000)) new_breaker)"

theorem open_circuit_rejects_witness:
  "fst (breaker_run DEFAULT_CONFIG [CanExecute 2000, OnSuccess, OnFailure 2500, CanExecute 30999] tripped_breaker)
     = [False, False] \<and>
   br_tripCount (snd (breaker_run DEFAULT_CONFIG [CanExecute 2000, OnSuccess, OnFailure 2500, CanExecute 30999]
     tripped_breaker)) = 1"
proof -
  have h: "br_state tripped_breaker = Open" "1000 \<le> br_lastFailureTime tripped_breaker"
    "\<forall>op \<in> set [CanExecute 2000, OnSuccess, OnFailure 2500, CanExecute 30999].
        before_timeout DEFAULT_CONFIG 1000 op"
    by code_simp+
  have "fst (breaker_run DEFAULT_CONFIG [CanExecute 2000, OnSuccess, OnFailure 2500, CanExecute 30999] tripped_breaker)
     = [False, False] \<and> br_tripCount tripped_breaker = 1"
    by code_simp
  with open_circuit_rejects [OF h] show ?thesis by metis
qed

text \<open>One probe that succeeds, while successes are still missing.\<close>

lemma probe_success_step:
  assumes "br_state b = HalfOpen" "br_halfOpenRequests b = 0" "1 \<le> cb_half_open_max_requests cfg"
  shows "breaker_run cfg [CanExecute t, OnSuccess] b =
    ([True], if br_successCount b + 1 \<ge> cb_success_threshold cfg
      then b\<lparr>br_state := Closed, br_failureCount := 0, br_successCount := 0, br_halfOpenRequests := 0\<rparr>
      else b\<lparr>br_successCount := br_successCount b + 1\<rparr>)"
  using assms by (simp add: canExecute_def onSuccess_def)

abbreviation probe_rounds :: "timestamp list \<Rightarrow> breaker_op list" where
  "probe_rounds ts \<equiv> concat (map (\<lambda>t. [CanExecute t, OnSuccess]) ts)"

lemma half_open_recovers:
  assumes "br_state b = HalfOpen" "br_halfOpenRequests b = 0" "1 \<le> cb_half_open_max_requests cfg"
    and "ts \<noteq> []" "br_successCount b + int (length ts) = cb_success_threshold cfg"
  shows "breaker_run cfg (probe_rounds ts) b =
    (replicate (length ts) True,
     b\<lparr>br_state := Closed, br_failureCount := 0, br_successCount := 0, br_halfOpenRequests := 0\<rparr>)"
  using assms
proof (induction ts arbitrary: b)
  case (Cons t ts)
  have step: "breaker_run cfg (probe_rounds (t # ts)) b =
    (let (as, b') = breaker_run cfg [CanExecute t, OnSuccess] b;
         (as', b'') = breaker_run cfg (probe_rounds ts) b' in (as @ as', b''))"
    using breaker_run_append [of cfg "[CanExecute t, OnSuccess]" "probe_rounds ts" b] by simp
  note first = probe_success_step [OF Cons.prems(1-3), of t]
  show ?case
  proof (cases "ts = []")
    case True
    with Cons.prems show ?thesis unfolding step first by simp
  next
    case False
    with Cons.prems have "\<not> br_successCount b + 1 \<ge> cb_success_threshold cfg"
      by (cases ts) auto
    with Cons.prems False Cons.IH [of "b\<lparr>br_successCount := br_successCount b + 1\<rparr>"] show ?thesis
      unfolding step first by simp
  qed
qed simp

text \<open>C14. Recovery: once the reset timeout has passed, as many successful probes as the success
  threshold asks for, one after the other and at any times, are all admitted and close the
  circuit with its failure count cleared, also with a single probe slot.\<close>

theorem open_circuit_recovers:
  assumes "br_state b = Open" "1 \<le> cb_half_open_max_requests cfg"
    and "hd ts - br_lastFailureTime b \<ge> cb_reset_timeout_ms cfg"
    and "1 \<le> length ts" "int (length ts) = cb_success_threshold cfg"
  shows "breaker_run cfg (probe_rounds ts) b =
    (replicate (length ts) True,
     b\<lparr>br_state := Closed, br_failureCount := 0, br_successCount := 0, br_halfOpenRequests := 0\<rparr>)"
proof -
  let ?b = "b\<lparr>br_state := HalfOpen, br_halfOpenRequests := 0, br_successCount := 0\<rparr>"
  obtain t ts' where ts: "ts = t # ts'" using assms(4) by (cases ts) auto
  have "canExecute cfg t b = canExecute cfg t ?b"
    using assms(1-3) ts by (simp add: canExecute_def)
  then have "breaker_run cfg (probe_rounds ts) b = breaker_run cfg (probe_rounds ts) ?b"
    by (simp add: ts)
  with half_open_recovers [of ?b cfg ts] assms show ?thesis by (simp add: ts)
qed

theorem open_circuit_recovers_witness:
  "fst (breaker_run DEFAULT_CONFIG (probe_rounds [31000, 31050]) tripped_breaker) = [True, True] \<and>
   br_state (snd (breaker_run DEFAULT_CONFIG (probe_rounds [31000, 31050]) tripped_breaker)) = Closed"
proof -
  have h: "br_state tripped_breaker = Open" "1 \<le> cb_half_open_max_requests DEFAULT_CONFIG"
    "hd [31000, 31050] - br_lastFailureTime tripped_breaker \<ge> cb_reset_timeout_ms DEFAULT_CONFIG"
    "1 \<le> length [31000 :: int, 31050]" "int (length [31000 :: int, 31050]) = cb_success_threshold DEFAULT_CONFIG"
    by code_simp+
  show ?thesis unfolding open_circuit_recovers [OF h] by simp
qed

text \<open>
  The counter of probes in flight counts results, not requests: a success of a request that
  was admitted before the circuit opened frees the slot of a probe that is still running, so
  with one slot two probes run at once, and it counts towards closing the circuit.
\<close>

lemma late_success_frees_probe_slot:
  "fst (breaker_run DEFAULT_CONFIG
     ([CanExecute 1000] @ replicate 5 (OnFailure 1000) @ [CanExecute 31000, CanExecute 31001, OnSuccess, CanExecute 31002])
     new_breaker) = [True, True, False, True]"
  by code_simp

end
