(* ===== verification/Namespace.thy ===== *)
theory Namespace
  imports Prelude
begin

section \<open>Tool names across servers (src/src/router/namespace.ts)\<close>

text \<open>
  How the tools of several servers get one name each: with the \<open>prefix\<close> strategy the
  exposed name is the server id, a dot and the tool's own name, with \<open>none\<close> it is the
  tool's own name and a name that is offered twice is an error.  \<open>buildNamespaceMap\<close> makes
  the map from exposed names, \<open>resolveTool\<close> reads it.  The lemmas show that the two agree:
  an exposed name leads back to the server and the tool it stands for.
\<close>

datatype namespace_strategy = Prefixed | NoNamespace

record tool_target =
  tt_serverId :: string
  tt_toolName :: string

definition applyNamespace :: "string \<Rightarrow> string \<Rightarrow> string" where
  "applyNamespace serverId toolName = serverId @ CHR ''.'' # toolName"

definition resolveNamespacedTool :: "string \<Rightarrow> tool_target option" where
  "resolveNamespacedTool namespacedName =
     (case index_of (CHR ''.'') namespacedName of
        None \<Rightarrow> None
      | Some separatorIndex \<Rightarrow>
          (if separatorIndex \<le> 0 then None
           else (let serverId = take separatorIndex namespacedName;
                     toolName = drop (separatorIndex + 1) namespacedName
                 in if serverId = [] \<or> toolName = [] then None
                    else Some \<lparr>tt_serverId = serverId, tt_toolName = toolName\<rparr>)))"

definition count_names :: "string list \<Rightarrow> (string, int) jsmap \<Rightarrow> (string, int) jsmap" where
  "count_names names nameCount =
     fold (\<lambda>n m. AList.update n ((case map_of m n of Some c \<Rightarrow> c | None \<Rightarrow> 0) + 1) m) names nameCount"

definition detectConflicts :: "(string, string list) jsmap \<Rightarrow> string list" where
  "detectConflicts toolsByServer =
     (let nameCount = fold (\<lambda>(serverId, tools). count_names tools) toolsByServer []
      in map fst (filter (\<lambda>(name, count). count > 1) nameCount))"

definition conflict_message :: "string list \<Rightarrow> string" where
  "conflict_message conflicts =
     ''Conflits de noms d'' @ [CHR 0x27] @ ''outils d'' @ [CHR 0xE9] @ ''tect'' @ [CHR 0xE9] @ ''s (strat''
     @ [CHR 0xE9] @ ''gie '' @ CHR 0x22 # ''none'' @ CHR 0x22 # '') : '' @ join_with '', '' conflicts @ ''. ''
     @ ''Utilisez la strat'' @ [CHR 0xE9] @ ''gie '' @ CHR 0x22 # ''prefix'' @ CHR 0x22
     # '' pour r'' @ [CHR 0xE9] @ ''soudre les conflits.''"

text \<open>The name under which a tool is exposed, and the loop that enters the tools in the map.\<close>

definition exposed_name :: "namespace_strategy \<Rightarrow> string \<Rightarrow> string \<Rightarrow> string" where
  "exposed_name strategy serverId toolName =
     (case strategy of Prefixed \<Rightarrow> applyNamespace serverId toolName | NoNamespace \<Rightarrow> toolName)"

definition enter_tools ::
  "namespace_strategy \<Rightarrow> (string, string list) jsmap \<Rightarrow> (string, tool_target) jsmap" where
  "enter_tools strategy toolsByServer =
     fold (\<lambda>(serverId, tools). fold (\<lambda>toolName.
         AList.update (exposed_name strategy serverId toolName)
           \<lparr>tt_serverId = serverId, tt_toolName = toolName\<rparr>) tools)
       toolsByServer []"

definition buildNamespaceMap ::
  "(string, string list) jsmap \<Rightarrow> namespace_strategy \<Rightarrow> string + (string, tool_target) jsmap" where
  "buildNamespaceMap toolsByServer strategy =
     (if strategy = NoNamespace
      then (let conflicts = detectConflicts toolsByServer
            in if length conflicts > 0 then Inl (conflict_message conflicts)
               else Inr (enter_tools NoNamespace toolsByServer))
      else Inr (enter_tools Prefixed toolsByServer))"

definition resolveTool ::
  "string \<Rightarrow> (string, tool_target) jsmap \<Rightarrow> namespace_strategy \<Rightarrow> tool_target option" where
  "resolveTool toolName namespaceMap strategy =
     (case map_of namespaceMap toolName of
        Some direct \<Rightarrow> Some direct
      | None \<Rightarrow> (if strategy = Prefixed then resolveNamespacedTool toolName else None))"

subsection \<open>Prefixed names\<close>

text \<open>A name decomposes into a server and a tool exactly when it is the prefixed name of that
  tool, the server's id is not empty and has no dot, and the tool's name is not empty: the
  first dot is the separator, also when the tool's name has dots.\<close>

theorem resolveNamespacedTool_iff:
  "resolveNamespacedTool name = Some \<lparr>tt_serverId = s, tt_toolName = t\<rparr> \<longleftrightarrow>
     name = applyNamespace s t \<and> s \<noteq> [] \<and> t \<noteq> [] \<and> CHR ''.'' \<notin> set s"
proof
  assume r: "resolveNamespacedTool name = Some \<lparr>tt_serverId = s, tt_toolName = t\<rparr>"
  then obtain i where i: "index_of (CHR ''.'') name = Some i" "0 < i"
    "s = take i name" "t = drop (Suc i) name" "s \<noteq> []" "t \<noteq> []"
    by (auto simp: resolveNamespacedTool_def Let_def split: option.splits if_splits)
  from index_of_Some [OF i(1)] have n: "i < length name" "name ! i = CHR ''.''" "CHR ''.'' \<notin> set (take i name)"
    by simp_all
  from id_take_nth_drop [OF n(1)] have "name = applyNamespace s t"
    by (simp only: applyNamespace_def n(2) i(3,4))
  moreover have "CHR ''.'' \<notin> set s" by (subst i(3)) (rule n(3))
  ultimately show "name = applyNamespace s t \<and> s \<noteq> [] \<and> t \<noteq> [] \<and> CHR ''.'' \<notin> set s"
    using i(5,6) by blast
next
  assume "name = applyNamespace s t \<and> s \<noteq> [] \<and> t \<noteq> [] \<and> CHR ''.'' \<notin> set s"
  then show "resolveNamespacedTool name = Some \<lparr>tt_serverId = s, tt_toolName = t\<rparr>"
    by (simp add: resolveNamespacedTool_def applyNamespace_def index_of_append_sep)
qed

lemma applyNamespace_inject:
  "CHR ''.'' \<notin> set s \<Longrightarrow> CHR ''.'' \<notin> set s' \<Longrightarrow> applyNamespace s t = applyNamespace s' t' \<longleftrightarrow> s = s' \<and> t = t'"
proof (induction s arbitrary: s')
  case Nil
  then show ?case by (cases s') (auto simp: applyNamespace_def)
next
  case (Cons x xs)
  then show ?case by (cases s') (auto simp: applyNamespace_def)
qed

subsection \<open>Conflicts\<close>

abbreviation offered_names :: "(string, string list) jsmap \<Rightarrow> string list" where
  "offered_names m \<equiv> concat (map snd m)"

abbreviation offers :: "(string, string list) jsmap \<Rightarrow> (string \<times> string) list" where
  "offers m \<equiv> concat (map (\<lambda>(s, ts). map (Pair s) ts) m)"

lemma fold_count_names: "fold (\<lambda>(s, ts). count_names ts) m c = count_names (offered_names m) c"
  by (induction m arbitrary: c) (auto simp: count_names_def)

lemma fold_offers:
  "fold (\<lambda>(s, ts). fold (f s) ts) m acc = fold (\<lambda>(s, t). f s t) (offers m) acc"
  by (induction m arbitrary: acc) (auto simp: fold_map comp_def)

lemma map_of_count_names:
  "map_of (count_names names c) n =
     (if n \<in> set names then Some ((case map_of c n of Some k \<Rightarrow> k | None \<Rightarrow> 0) + int (count_list names n))
      else map_of c n)"
  by (induction names arbitrary: c) (auto simp: count_names_def update_conv' split: option.splits)

lemma count_names_wf: "map_wf c \<Longrightarrow> map_wf (count_names names c)"
  by (induction names arbitrary: c) (auto simp: count_names_def intro: alist_map.invar_put)

lemma detectConflicts_set: "set (detectConflicts m) = {n. 1 < count_list (offered_names m) n}"
proof -
  let ?c = "count_names (offered_names m) []"
  have wf: "distinct (map fst ?c)" using count_names_wf [of "[]"] by (simp add: map_wf_def)
  have "n \<in> set (detectConflicts m) \<longleftrightarrow> (\<exists>k. map_of ?c n = Some k \<and> 1 < k)" for n
    using wf by (force simp: detectConflicts_def Let_def fold_count_names)
  moreover have "(\<exists>k. map_of ?c n = Some k \<and> 1 < k) \<longleftrightarrow> 1 < count_list (offered_names m) n" for n
    by (cases "n \<in> set (offered_names m)") (simp_all add: map_of_count_names)
  ultimately show ?thesis by blast
qed

lemma count_list_distinct: "distinct xs \<longleftrightarrow> (\<forall>x. \<not> 1 < count_list xs x)"
proof (induction xs)
  case (Cons y ys)
  have mem: "y \<in> set ys \<longleftrightarrow> 0 < count_list ys y" using count_list_0_iff [of ys y] by auto
  have "(\<forall>x. \<not> 1 < count_list (y # ys) x) \<longleftrightarrow> \<not> 0 < count_list ys y \<and> (\<forall>x. \<not> 1 < count_list ys x)"
  proof (intro iffI conjI allI)
    assume a: "\<forall>x. \<not> 1 < count_list (y # ys) x"
    from a [rule_format, of y] show "\<not> 0 < count_list ys y" by simp
    show "\<not> 1 < count_list ys x" for x
      using a [rule_format, of x] by (cases "x = y") simp_all
  next
    fix x assume a: "\<not> 0 < count_list ys y \<and> (\<forall>x. \<not> 1 < count_list ys x)"
    then show "\<not> 1 < count_list (y # ys) x" by (cases "x = y") simp_all
  qed
  with Cons mem show ?case by simp
qed simp

lemma detectConflicts_Nil: "detectConflicts m = [] \<longleftrightarrow> distinct (offered_names m)"
  using detectConflicts_set [of m] count_list_distinct [of "offered_names m"] by force

subsection \<open>The map and its lookup\<close>

lemma map_of_enter:
  "map_of (fold (\<lambda>(s, t). AList.update (f s t) (g s t)) es acc) k =
     (case find (\<lambda>(s, t). f s t = k) (rev es) of Some (s, t) \<Rightarrow> Some (g s t) | None \<Rightarrow> map_of acc k)"
proof (induction es arbitrary: acc rule: rev_induct)
  case (snoc e es)
  then show ?case by (cases e) (auto simp: update_conv' split: option.splits)
qed simp

lemma enter_tools_find:
  "map_of (enter_tools strategy m) k =
     (case find (\<lambda>(s, t). exposed_name strategy s t = k) (rev (offers m)) of
        Some (s, t) \<Rightarrow> Some \<lparr>tt_serverId = s, tt_toolName = t\<rparr> | None \<Rightarrow> None)"
  unfolding enter_tools_def fold_offers
  using map_of_enter [of "exposed_name strategy" "\<lambda>s t. \<lparr>tt_serverId = s, tt_toolName = t\<rparr>" "offers m" "[]" k]
  by (auto split: option.splits)

lemma exposed_name_unique:
  assumes "strategy = Prefixed \<Longrightarrow> \<forall>(s, ts) \<in> set m. CHR ''.'' \<notin> set s"
    and "strategy = NoNamespace \<Longrightarrow> distinct (offered_names m)"
    and "(s, t) \<in> set (offers m)" "(s', t') \<in> set (offers m)"
    and "exposed_name strategy s t = exposed_name strategy s' t'"
  shows "s = s' \<and> t = t'"
proof (cases strategy)
  case Prefixed
  with assms(1,3,4) have "CHR ''.'' \<notin> set s" "CHR ''.'' \<notin> set s'" by auto
  with assms(5) Prefixed show ?thesis by (simp add: exposed_name_def applyNamespace_inject)
next
  case NoNamespace
  have names: "offered_names m = map snd (offers m)"
    by (induction m) (auto simp: comp_def)
  from assms(2) NoNamespace have d: "distinct (map snd (offers m))" by (simp add: names)
  from assms(5) NoNamespace have "snd (s, t) = snd (s', t')" by (simp add: exposed_name_def)
  from inj_onD [OF distinct_map [THEN iffD1, OF d, THEN conjunct2] this assms(3,4)] show ?thesis by simp
qed

text \<open>When the map of names is built, every tool of every server is reached under its exposed
  name: \<open>resolveTool\<close> gives back the server that offers it and its own name there.  With the
  \<open>none\<close> strategy this rests on the absence of conflicts alone, with \<open>prefix\<close> on server ids
  without dots.\<close>

theorem resolveTool_exposed:
  assumes "buildNamespaceMap m strategy = Inr namespaceMap"
    and "strategy = Prefixed \<Longrightarrow> \<forall>(s, ts) \<in> set m. CHR ''.'' \<notin> set s"
    and "(s, ts) \<in> set m" "t \<in> set ts"
  shows "resolveTool (exposed_name strategy s t) namespaceMap strategy =
    Some \<lparr>tt_serverId = s, tt_toolName = t\<rparr>"
proof -
  have nm: "namespaceMap = enter_tools strategy m"
    and nc: "strategy = NoNamespace \<Longrightarrow> distinct (offered_names m)"
    using assms(1) by (cases strategy;
        auto simp: buildNamespaceMap_def Let_def detectConflicts_Nil [symmetric] split: if_splits)+
  have st: "(s, t) \<in> set (offers m)" using assms(3,4) by force
  let ?P = "\<lambda>(s', t'). exposed_name strategy s' t' = exposed_name strategy s t"
  have "find ?P (rev (offers m)) = Some (s, t)"
  proof (cases "find ?P (rev (offers m))")
    case None
    then have "\<not> (\<exists>p. p \<in> set (offers m) \<and> ?P p)" by (simp add: find_None_iff)
    with st show ?thesis by blast
  next
    case (Some p)
    obtain s' t' where p: "p = (s', t')" by (cases p)
    from find_SomeD [OF Some] have "p \<in> set (offers m)" "?P p" by simp_all
    with exposed_name_unique [OF assms(2) nc _ st, where s = s' and t = t'] p Some show ?thesis by simp
  qed
  then show ?thesis by (simp add: resolveTool_def nm enter_tools_find)
qed

definition two_servers :: "(string, string list) jsmap" where
  "two_servers = [(''crm'', [''get'', ''v2.list'']), (''db'', [''get''])]"

theorem resolveTool_exposed_witness:
  "\<exists>nm. buildNamespaceMap two_servers Prefixed = Inr nm \<and>
     resolveTool ''crm.v2.list'' nm Prefixed = Some \<lparr>tt_serverId = ''crm'', tt_toolName = ''v2.list''\<rparr>"
proof -
  have b: "buildNamespaceMap two_servers Prefixed = Inr (enter_tools Prefixed two_servers)"
    by (simp add: buildNamespaceMap_def)
  have h: "\<forall>(s, ts) \<in> set two_servers. CHR ''.'' \<notin> set s"
    "(''crm'', [''get'', ''v2.list'']) \<in> set two_servers" "''v2.list'' \<in> set [''get'', ''v2.list'']"
    by (simp_all add: two_servers_def)
  have e: "exposed_name Prefixed ''crm'' ''v2.list'' = ''crm.v2.list''"
    by (simp add: exposed_name_def applyNamespace_def)
  have r: "resolveTool (exposed_name Prefixed ''crm'' ''v2.list'') (enter_tools Prefixed two_servers) Prefixed =
      Some \<lparr>tt_serverId = ''crm'', tt_toolName = ''v2.list''\<rparr>"
    by (rule resolveTool_exposed [OF b _ h(2,3)]) (rule h(1))
  show ?thesis
    by (intro exI [of _ "enter_tools Prefixed two_servers"] conjI b r [unfolded e])
qed

text \<open>With the \<open>none\<close> strategy the construction fails exactly when some name is offered more
  than once, by two servers or twice by one.\<close>

theorem buildNamespaceMap_none_error:
  "(\<exists>message. buildNamespaceMap m NoNamespace = Inl message) \<longleftrightarrow> \<not> distinct (offered_names m)"
  by (auto simp: buildNamespaceMap_def Let_def detectConflicts_Nil [symmetric])

end
