(* ===== verification/Registry.thy ===== *)
theory Registry
  imports Circuit_Breaker Namespace Json
begin

section \<open>Servers, replicas and their health (src/src/router/registry.ts, src/src/proxy/mcp-client.ts)\<close>

text \<open>
  The registry of the upstream servers.  A replica is its URL, its health, the number of
  requests its client has in flight and its circuit breaker; the breaker object that a
  \<open>ReplicaInfo\<close> and its client share in the code is the one field \<open>rp_breaker\<close>, and a client is
  named by its server and the replica's place.  \<open>forward_start\<close> and \<open>forward_end\<close> are the
  two halves of \<open>McpClient.forward\<close> around the request to the upstream, whose result is an
  argument of the second.  The operations that await a request (\<open>refreshServer\<close>, the health
  checks) take its outcome as an argument.  Metrics and log lines are left out.
\<close>

subsection \<open>Data\<close>

record tool_annotations =
  an_readOnlyHint :: "bool option"
  an_idempotentHint :: "bool option"
  an_destructiveHint :: "bool option"
  an_openWorldHint :: "bool option"

definition no_annotations :: tool_annotations where
  "no_annotations = \<lparr>an_readOnlyHint = None, an_idempotentHint = None, an_destructiveHint = None,
     an_openWorldHint = None\<rparr>"

record tool_metadata =
  tm_name :: string
  tm_description :: "string option"
  tm_inputSchema :: "json option"
  tm_annotations :: "tool_annotations option"

datatype transport_kind = Http | Stdio

record server_config =
  sc_id :: string
  sc_url :: string
  sc_replicas :: "string list option"
  sc_transport :: "transport_kind option"

record health_check_config =
  hc_enabled :: bool
  hc_interval_seconds :: int
  hc_timeout_ms :: int
  hc_unhealthy_threshold :: int
  hc_healthy_threshold :: int

record backend_health =
  bh_serverId :: string
  bh_healthy :: bool
  bh_latencyMs :: int
  bh_lastChecked :: timestamp
  bh_consecutiveFailures :: int
  bh_consecutiveSuccesses :: int

record replica_info =
  rp_url :: string
  rp_activeConnections :: int
  rp_health :: backend_health
  rp_breaker :: "breaker option"

record server_info =
  si_config :: server_config
  si_tools :: "tool_metadata list"
  si_health :: backend_health
  si_annotations :: "(string, tool_annotations) jsmap"
  si_replicas :: "replica_info list"

record registry_config =
  rc_strategy :: namespace_strategy
  rc_health :: health_check_config
  rc_breaker :: "breaker_config option"

text \<open>\<open>rg_clients\<close> has the ids under which the map of clients has one (the primary replica's).\<close>

record registry =
  rg_servers :: "(string, server_info) jsmap"
  rg_namespaceMap :: "(string, tool_target) jsmap"
  rg_clients :: "string list"

subsection \<open>McpClient.forward\<close>

text \<open>
  The breaker is asked first; a rejected request throws and does not count as a connection.
  Once admitted the request counts until its end, when the breaker is told the result.
\<close>

definition forward_start :: "breaker_config \<Rightarrow> timestamp \<Rightarrow> replica_info \<Rightarrow> bool \<times> replica_info" where
  "forward_start cfg now r =
     (case rp_breaker r of
        None \<Rightarrow> (True, r\<lparr>rp_activeConnections := rp_activeConnections r + 1\<rparr>)
      | Some b \<Rightarrow>
          (let (ok, b') = canExecute cfg now b; r' = r\<lparr>rp_breaker := Some b'\<rparr>
           in if \<not> ok then (False, r')
              else (True, r'\<lparr>rp_activeConnections := rp_activeConnections r' + 1\<rparr>)))"

definition forward_end :: "breaker_config \<Rightarrow> timestamp \<Rightarrow> bool \<Rightarrow> replica_info \<Rightarrow> replica_info" where
  "forward_end cfg now success r =
     (let r' = r\<lparr>rp_breaker := map_option (\<lambda>b. if success then onSuccess cfg b else onFailure cfg now b)
                   (rp_breaker r)\<rparr>
      in r'\<lparr>rp_activeConnections := rp_activeConnections r' - 1\<rparr>)"

subsection \<open>Registration\<close>

definition initial_health :: "string \<Rightarrow> bool \<Rightarrow> backend_health" where
  "initial_health serverId healthy = \<lparr>bh_serverId = serverId, bh_healthy = healthy, bh_latencyMs = 0,
     bh_lastChecked = 0, bh_consecutiveFailures = 0, bh_consecutiveSuccesses = 0\<rparr>"

definition make_breaker :: "breaker_config option \<Rightarrow> breaker option" where
  "make_breaker cfg =
     (case cfg of Some c \<Rightarrow> (if cb_enabled c then Some new_breaker else None) | None \<Rightarrow> None)"

definition build_replicas :: "registry_config \<Rightarrow> server_config \<Rightarrow> replica_info list" where
  "build_replicas cfg sc =
     (let allUrls = sc_url sc # (case sc_replicas sc of Some us \<Rightarrow> us | None \<Rightarrow> [])
      in map (\<lambda>(idx, url). \<lparr>rp_url = url, rp_activeConnections = 0,
                rp_health = initial_health (sc_id sc @ CHR '':'' # show_nat idx) True,
                rp_breaker = make_breaker (rc_breaker cfg)\<rparr>)
             (enumerate 0 allUrls))"

definition new_server_info :: "registry_config \<Rightarrow> server_config \<Rightarrow> server_info" where
  "new_server_info cfg sc = \<lparr>si_config = sc, si_tools = [], si_health = initial_health (sc_id sc) False,
     si_annotations = [], si_replicas = build_replicas cfg sc\<rparr>"

definition new_registry :: "registry_config \<Rightarrow> server_config list \<Rightarrow> string list \<Rightarrow> registry" where
  "new_registry cfg servers clients =
     \<lparr>rg_servers = fold (\<lambda>sc. AList.update (sc_id sc) (new_server_info cfg sc)) servers [],
      rg_namespaceMap = [], rg_clients = clients\<rparr>"

definition update_server :: "string \<Rightarrow> (server_info \<Rightarrow> server_info) \<Rightarrow> registry \<Rightarrow> registry" where
  "update_server serverId f reg =
     (case map_of (rg_servers reg) serverId of
        None \<Rightarrow> reg
      | Some info \<Rightarrow> reg\<lparr>rg_servers := AList.update serverId (f info) (rg_servers reg)\<rparr>)"

definition set_replica :: "nat \<Rightarrow> replica_info \<Rightarrow> server_info \<Rightarrow> server_info" where
  "set_replica idx r info = info\<lparr>si_replicas := (si_replicas info)[idx := r]\<rparr>"

text \<open>
  A failed rebuild (a conflict under the \<open>none\<close> strategy) is logged and the former map stays.
\<close>

definition rebuildNamespaceMap :: "registry_config \<Rightarrow> registry \<Rightarrow> registry" where
  "rebuildNamespaceMap cfg reg =
     (let toolsByServer = map (\<lambda>(serverId, info). (serverId, map tm_name (si_tools info)))
            (filter (\<lambda>(serverId, info). bh_healthy (si_health info)) (rg_servers reg))
      in case buildNamespaceMap toolsByServer (rc_strategy cfg) of
           Inl message \<Rightarrow> reg
         | Inr m \<Rightarrow> reg\<lparr>rg_namespaceMap := m\<rparr>)"

subsection \<open>refreshServer\<close>

text \<open>What a \<open>tools/list\<close> request comes back with, by the cases \<open>refreshServer\<close> tells apart.\<close>

datatype list_reply =
    ReplyThrew
  | ReplyStreamOrEmpty
  | ReplyError
  | ReplyTools "tool_metadata list option"

definition annotation_map :: "tool_metadata list \<Rightarrow> (string, tool_annotations) jsmap" where
  "annotation_map tools =
     fold (\<lambda>t. if tm_name t \<noteq> [] then AList.update (tm_name t)
             (case tm_annotations t of Some a \<Rightarrow> a | None \<Rightarrow> no_annotations) else id) tools []"

definition mark_unhealthy :: "timestamp \<Rightarrow> server_info \<Rightarrow> server_info" where
  "mark_unhealthy now info =
     info\<lparr>si_health := (si_health info)\<lparr>bh_healthy := False, bh_lastChecked := now\<rparr>\<rparr>"

definition mark_healthy :: "timestamp \<Rightarrow> backend_health \<Rightarrow> backend_health" where
  "mark_healthy now h = h\<lparr>bh_healthy := True, bh_lastChecked := now, bh_consecutiveFailures := 0,
     bh_consecutiveSuccesses := 1\<rparr>"

definition apply_reply :: "timestamp \<Rightarrow> list_reply \<Rightarrow> server_info \<Rightarrow> server_info" where
  "apply_reply now reply info =
     (case reply of
        ReplyThrew \<Rightarrow> mark_unhealthy now info
      | ReplyStreamOrEmpty \<Rightarrow> mark_unhealthy now info
      | ReplyError \<Rightarrow> mark_unhealthy now info
      | ReplyTools ts \<Rightarrow>
          (let tools = (case ts of Some l \<Rightarrow> l | None \<Rightarrow> []);
               info' = info\<lparr>si_tools := tools, si_health := mark_healthy now (si_health info),
                           si_annotations := annotation_map tools\<rparr>
           in case si_replicas info' of
                [] \<Rightarrow> info'
              | r # rs \<Rightarrow> info'\<lparr>si_replicas := r\<lparr>rp_health := mark_healthy now (rp_health r)\<rparr> # rs\<rparr>))"

definition breaker_cfg :: "registry_config \<Rightarrow> breaker_config" where
  "breaker_cfg cfg = (case rc_breaker cfg of Some c \<Rightarrow> c | None \<Rightarrow> DEFAULT_CONFIG)"

text \<open>
  The request goes through the primary replica's client: its breaker may reject it, which
  throws, and is told the result otherwise.
\<close>

definition refresh_info ::
  "registry_config \<Rightarrow> timestamp \<Rightarrow> timestamp \<Rightarrow> list_reply \<Rightarrow> server_info \<Rightarrow> server_info" where
  "refresh_info cfg started now reply info =
     (case si_replicas info of
        [] \<Rightarrow> apply_reply now reply info
      | r # rs \<Rightarrow>
          (let (ok, r') = forward_start (breaker_cfg cfg) started r
           in if \<not> ok then mark_unhealthy now (info\<lparr>si_replicas := r' # rs\<rparr>)
              else apply_reply now reply
                (info\<lparr>si_replicas := forward_end (breaker_cfg cfg) now (reply \<noteq> ReplyThrew) r' # rs\<rparr>)))"

definition refreshServer ::
  "registry_config \<Rightarrow> timestamp \<Rightarrow> timestamp \<Rightarrow> list_reply \<Rightarrow> string \<Rightarrow> registry \<Rightarrow> registry" where
  "refreshServer cfg started now reply serverId reg =
     (if serverId \<notin> set (rg_clients reg) \<or> \<not> map_has (rg_servers reg) serverId then reg
      else update_server serverId (refresh_info cfg started now reply) reg)"

definition initialize_registry ::
  "registry_config \<Rightarrow> timestamp \<Rightarrow> timestamp \<Rightarrow> (string \<Rightarrow> list_reply) \<Rightarrow> registry \<Rightarrow> registry" where
  "initialize_registry cfg started now reply reg =
     rebuildNamespaceMap cfg
       (fold (\<lambda>serverId. refreshServer cfg started now (reply serverId) serverId) (map_keys (rg_servers reg)) reg)"

definition addServer ::
  "registry_config \<Rightarrow> timestamp \<Rightarrow> timestamp \<Rightarrow> list_reply \<Rightarrow> server_config \<Rightarrow> registry \<Rightarrow> string + registry" where
  "addServer cfg started now reply sc reg =
     (if map_has (rg_servers reg) (sc_id sc)
      then Inl (''Server '' @ CHR 0x22 # sc_id sc @ CHR 0x22 # '' already registered'')
      else (let reg1 = reg\<lparr>rg_clients := List.insert (sc_id sc) (rg_clients reg),
                           rg_servers := AList.update (sc_id sc) (new_server_info cfg sc) (rg_servers reg)\<rparr>
            in Inr (rebuildNamespaceMap cfg (refreshServer cfg started now reply (sc_id sc) reg1))))"

definition removeServer :: "registry_config \<Rightarrow> string \<Rightarrow> registry \<Rightarrow> bool \<times> registry" where
  "removeServer cfg serverId reg =
     (if \<not> map_has (rg_servers reg) serverId then (False, reg)
      else (True, rebuildNamespaceMap cfg
              (reg\<lparr>rg_servers := AList.delete serverId (rg_servers reg),
                   rg_clients := removeAll serverId (rg_clients reg)\<rparr>)))"

definition updateAnnotations :: "registry_config \<Rightarrow> string \<Rightarrow> tool_metadata list \<Rightarrow> registry \<Rightarrow> registry" where
  "updateAnnotations cfg serverId tools reg =
     (if \<not> map_has (rg_servers reg) serverId then reg
      else rebuildNamespaceMap cfg
        (update_server serverId (\<lambda>info. info\<lparr>si_tools := tools, si_annotations := annotation_map tools\<rparr>) reg))"

definition getAnnotations :: "string \<Rightarrow> string \<Rightarrow> registry \<Rightarrow> tool_annotations" where
  "getAnnotations serverId toolName reg =
     (case map_of (rg_servers reg) serverId of
        None \<Rightarrow> no_annotations
      | Some info \<Rightarrow> (case map_of (si_annotations info) toolName of Some a \<Rightarrow> a | None \<Rightarrow> no_annotations))"

subsection \<open>Health checks\<close>

text \<open>
  One probe of a replica.  A stdio server is probed through its client, hence through its
  breaker, an HTTP one by \<open>fetch\<close>; \<open>answered\<close> is whether that promise resolved.
\<close>

definition probe_ok :: "health_check_config \<Rightarrow> int \<Rightarrow> timestamp \<Rightarrow> backend_health \<Rightarrow> backend_health" where
  "probe_ok hc latencyMs now h =
     (let successes = bh_consecutiveSuccesses h + 1;
          wasUnhealthy = (\<not> bh_healthy h);
          nowHealthy = (if wasUnhealthy then successes \<ge> hc_healthy_threshold hc else True)
      in h\<lparr>bh_healthy := nowHealthy, bh_latencyMs := latencyMs, bh_lastChecked := now,
           bh_consecutiveFailures := 0, bh_consecutiveSuccesses := successes\<rparr>)"

definition probe_failed :: "health_check_config \<Rightarrow> int \<Rightarrow> timestamp \<Rightarrow> backend_health \<Rightarrow> backend_health" where
  "probe_failed hc latencyMs now h =
     (let failures = bh_consecutiveFailures h + 1;
          isUnhealthy = (failures \<ge> hc_unhealthy_threshold hc)
      in h\<lparr>bh_healthy := \<not> isUnhealthy, bh_latencyMs := latencyMs, bh_lastChecked := now,
           bh_consecutiveFailures := failures, bh_consecutiveSuccesses := 0\<rparr>)"

definition checkReplicaHealth ::
  "registry_config \<Rightarrow> transport_kind option \<Rightarrow> bool \<Rightarrow> timestamp \<Rightarrow> timestamp \<Rightarrow> replica_info \<Rightarrow> replica_info" where
  "checkReplicaHealth cfg transport answered startTime now r =
     (let hc = rc_health cfg; latencyMs = now - startTime
      in if transport = Some Stdio
         then (let (ok, r1) = forward_start (breaker_cfg cfg) startTime r
               in if \<not> ok then r1\<lparr>rp_health := probe_failed hc latencyMs now (rp_health r1)\<rparr>
                  else (let r2 = forward_end (breaker_cfg cfg) now answered r1
                        in r2\<lparr>rp_health := (if answered then probe_ok else probe_failed) hc latencyMs now
                                 (rp_health r2)\<rparr>))
         else r\<lparr>rp_health := (if answered then probe_ok else probe_failed) hc latencyMs now (rp_health r)\<rparr>)"

definition replica_available :: "replica_info \<Rightarrow> bool" where
  "replica_available r =
     (if \<not> bh_healthy (rp_health r) then False
      else case rp_breaker r of
             Some b \<Rightarrow> bi_state (getState b) \<noteq> Open
           | None \<Rightarrow> True)"

definition checkServerHealth ::
  "registry_config \<Rightarrow> (nat \<Rightarrow> bool) \<Rightarrow> timestamp \<Rightarrow> timestamp \<Rightarrow> server_info \<Rightarrow> server_info" where
  "checkServerHealth cfg answered startTime now info =
     (let replicas = map (\<lambda>(idx, r). checkReplicaHealth cfg (sc_transport (si_config info)) (answered idx)
                            startTime now r) (enumerate 0 (si_replicas info));
          anyHealthy = list_ex replica_available replicas
      in info\<lparr>si_replicas := replicas,
              si_health := (if bh_healthy (si_health info) \<noteq> anyHealthy
                then (si_health info)\<lparr>bh_healthy := anyHealthy, bh_lastChecked := now\<rparr>
                else (si_health info)\<lparr>bh_lastChecked := now\<rparr>)\<rparr>)"

definition runHealthChecks ::
  "registry_config \<Rightarrow> (string \<Rightarrow> nat \<Rightarrow> bool) \<Rightarrow> timestamp \<Rightarrow> timestamp \<Rightarrow> registry \<Rightarrow> registry" where
  "runHealthChecks cfg answered startTime now reg =
     rebuildNamespaceMap cfg
       (fold (\<lambda>serverId. update_server serverId (checkServerHealth cfg (answered serverId) startTime now))
          (map_keys (rg_servers reg)) reg)"

subsection \<open>Queries and resets\<close>

definition getHealthyReplicas :: "string \<Rightarrow> registry \<Rightarrow> (nat \<times> replica_info) list" where
  "getHealthyReplicas serverId reg =
     (case map_of (rg_servers reg) serverId of
        None \<Rightarrow> []
      | Some info \<Rightarrow> filter (\<lambda>(idx, r). replica_available r) (enumerate 0 (si_replicas info)))"

definition resetCircuitBreaker :: "string \<Rightarrow> registry \<Rightarrow> bool \<times> registry" where
  "resetCircuitBreaker serverId reg =
     (case map_of (rg_servers reg) serverId of
        None \<Rightarrow> (False, reg)
      | Some info \<Rightarrow>
          (list_ex (\<lambda>r. rp_breaker r \<noteq> None) (si_replicas info),
           update_server serverId
             (\<lambda>i. i\<lparr>si_replicas := map (\<lambda>r. r\<lparr>rp_breaker := map_option breaker_reset (rp_breaker r)\<rparr>) (si_replicas i)\<rparr>) reg))"

definition resetReplicaCircuitBreaker :: "string \<Rightarrow> nat \<Rightarrow> registry \<Rightarrow> bool \<times> registry" where
  "resetReplicaCircuitBreaker serverId replicaIdx reg =
     (case map_of (rg_servers reg) serverId of
        None \<Rightarrow> (False, reg)
      | Some info \<Rightarrow>
          (if replicaIdx < length (si_replicas info)
           then (let r = si_replicas info ! replicaIdx
                 in case rp_breaker r of
                      None \<Rightarrow> (False, reg)
                    | Some b \<Rightarrow> (True, update_server serverId
                        (set_replica replicaIdx (r\<lparr>rp_breaker := Some (breaker_reset b)\<rparr>)) reg))
           else (False, reg)))"

record circuit_breaker_state =
  cbs_server_id :: string
  cbs_replica_index :: nat
  cbs_replica_url :: string
  cbs_info :: breaker_info

definition getCircuitBreakerStates :: "registry \<Rightarrow> circuit_breaker_state list" where
  "getCircuitBreakerStates reg =
     concat (map (\<lambda>(serverId, info). concat (map (\<lambda>(i, r).
         case rp_breaker r of
           None \<Rightarrow> []
         | Some b \<Rightarrow> [\<lparr>cbs_server_id = serverId, cbs_replica_index = i, cbs_replica_url = rp_url r,
                       cbs_info = getState b\<rparr>]) (enumerate 0 (si_replicas info)))) (rg_servers reg))"

definition getHealthStatus :: "registry \<Rightarrow> backend_health list" where
  "getHealthStatus reg = map (\<lambda>(serverId, info). si_health info) (rg_servers reg)"

subsection \<open>Health over successive probes\<close>

definition probe_run :: "health_check_config \<Rightarrow> (bool \<times> int \<times> timestamp) list \<Rightarrow> backend_health \<Rightarrow> backend_health" where
  "probe_run hc probes h =
     fold (\<lambda>(answered, latency, now). (if answered then probe_ok else probe_failed) hc latency now) probes h"

lemma probe_run_append [simp]: "probe_run hc (ps @ qs) h = probe_run hc qs (probe_run hc ps h)"
  by (simp add: probe_run_def)

lemma probe_run_single [simp]:
  "probe_run hc [(answered, latency, now)] h = (if answered then probe_ok else probe_failed) hc latency now h"
  by (simp add: probe_run_def)

lemma probe_run_Nil [simp]: "probe_run hc [] h = h"
  by (simp add: probe_run_def)

lemma failed_run:
  assumes "\<forall>p \<in> set ps. \<not> fst p"
  shows "bh_consecutiveFailures (probe_run hc ps h) = bh_consecutiveFailures h + int (length ps) \<and>
    (ps \<noteq> [] \<longrightarrow> (bh_healthy (probe_run hc ps h) \<longleftrightarrow>
        bh_consecutiveFailures h + int (length ps) < hc_unhealthy_threshold hc))"
  using assms
proof (induction ps rule: rev_induct)
  case (snoc p ps)
  then show ?case by (cases p) (auto simp: probe_failed_def Let_def)
qed simp

lemma answered_run:
  assumes "\<forall>p \<in> set ps. fst p"
  shows "bh_consecutiveSuccesses (probe_run hc ps h) = bh_consecutiveSuccesses h + int (length ps) \<and>
    (ps \<noteq> [] \<longrightarrow> bh_consecutiveFailures (probe_run hc ps h) = 0 \<and> (bh_healthy (probe_run hc ps h) \<longleftrightarrow>
        bh_healthy h \<or> bh_consecutiveSuccesses h + int (length ps) \<ge> hc_healthy_threshold hc))"
  using assms
proof (induction ps rule: rev_induct)
  case (snoc p ps)
  then show ?case by (cases p; cases "ps = []") (auto simp: probe_ok_def Let_def)
qed simp

text \<open>Health follows the thresholds: after a row of failed probes that follows an answered one a
  replica is healthy exactly while the row is shorter than the unhealthy threshold, and after
  a row of answered probes that follows a failed one, exactly when that failure had not reached
  the unhealthy threshold or the row has reached the healthy one.\<close>

theorem replica_health_thresholds:
  assumes "ps \<noteq> []" "\<forall>p \<in> set ps. fst p = answered"
  shows "bh_healthy (probe_run hc ps (probe_run hc [(\<not> answered, l, t)] h)) \<longleftrightarrow>
    (if answered
     then bh_consecutiveFailures h + 1 < hc_unhealthy_threshold hc \<or> int (length ps) \<ge> hc_healthy_threshold hc
     else int (length ps) < hc_unhealthy_threshold hc)"
proof (cases answered)
  case True
  with assms answered_run [of ps hc "probe_failed hc l t h"] show ?thesis
    by (auto simp: probe_failed_def Let_def not_le)
next
  case False
  with assms failed_run [of ps hc "probe_ok hc l t h"] show ?thesis
    by (simp add: probe_ok_def Let_def)
qed

definition strict_health :: health_check_config where
  "strict_health = \<lparr>hc_enabled = True, hc_interval_seconds = 30, hc_timeout_ms = 5000,
     hc_unhealthy_threshold = 3, hc_healthy_threshold = 2\<rparr>"

theorem replica_health_thresholds_witness:
  "\<not> bh_healthy (probe_run strict_health [(False, 5, 2), (False, 5, 3), (False, 5, 4)]
       (probe_run strict_health [(True, 1, 1)] (initial_health ''db:0'' True)))"
proof -
  have h: "[(False, 5, 2), (False, 5, 3), (False, 5, 4)] \<noteq> []"
    "\<forall>p \<in> set [(False, 5 :: int, 2 :: int), (False, 5, 3), (False, 5, 4)]. fst p = False"
    by simp_all
  show ?thesis
    using replica_health_thresholds [OF h, of strict_health 1 1 "initial_health ''db:0'' True"]
    by (simp add: strict_health_def)
qed

text \<open>A failed probe can bring a replica back: while an unhealthy replica still lacks answered
  probes to be trusted again, one answered probe clears its failure count, and the failed probe
  after it marks it healthy, with an unhealthy threshold of two or more.\<close>

theorem failed_probe_marks_healthy:
  assumes "\<not> bh_healthy h" "bh_consecutiveSuccesses h + 1 < hc_healthy_threshold hc"
    and "1 < hc_unhealthy_threshold hc"
  shows "\<not> bh_healthy (probe_run hc [(True, l, t)] h) \<and>
    bh_healthy (probe_run hc [(True, l, t), (False, l', t')] h)"
  using assms by (simp add: probe_run_def probe_ok_def probe_failed_def Let_def)

theorem failed_probe_marks_healthy_witness:
  "bh_healthy (probe_run strict_health [(True, 5, 2), (False, 5, 3)] (initial_health ''db:0'' False))"
proof -
  have h: "\<not> bh_healthy (initial_health ''db:0'' False)"
    "bh_consecutiveSuccesses (initial_health ''db:0'' False) + 1 < hc_healthy_threshold strict_health"
    "1 < hc_unhealthy_threshold strict_health"
    by (simp_all add: initial_health_def strict_health_def)
  show ?thesis using failed_probe_marks_healthy [OF h] by blast
qed

end
