(* ===== verification/Json_Rpc.thy ===== *)
theory Json_Rpc
  imports Json
begin

section \<open>JSON-RPC messages (src/src/proxy/json-rpc.ts)\<close>

text \<open>
  A message is the object that \<open>JSON.parse\<close> returned: the interfaces of the source are not
  enforced at run time beyond what \<open>isValidJsonRpc\<close> looks at.  The responses the gateway
  builds are a datatype of their own, with \<open>response_json\<close> as the object they are.
\<close>

definition PARSE_ERROR :: int where "PARSE_ERROR = -32700"
definition INVALID_REQUEST :: int where "INVALID_REQUEST = -32600"
definition METHOD_NOT_FOUND :: int where "METHOD_NOT_FOUND = -32601"
definition INVALID_PARAMS :: int where "INVALID_PARAMS = -32602"
definition INTERNAL_ERROR :: int where "INTERNAL_ERROR = -32603"

definition MAX_BATCH_SIZE :: nat where "MAX_BATCH_SIZE = 100"

datatype batch_entry = Message jobject | InvalidEntry json

subsection \<open>Validation\<close>

fun is_string :: "json \<Rightarrow> bool" where
  "is_string (JStr s) = True"
| "is_string _ = False"

text \<open>\<open>typeof value === 'object'\<close>: an array has none of the members the test looks at.\<close>

fun isValidJsonRpc :: "json \<Rightarrow> bool" where
  "isValidJsonRpc (JObj obj) \<longleftrightarrow>
     obj_get obj ''jsonrpc'' = JStr ''2.0'' \<and>
     (is_string (obj_get obj ''method'') \<or> map_has obj ''result'' \<or> map_has obj ''error'')"
| "isValidJsonRpc _ \<longleftrightarrow> False"

definition isJsonRpcRequest :: "jobject \<Rightarrow> bool" where
  "isJsonRpcRequest msg = is_string (obj_get msg ''method'')"

fun as_message :: "json \<Rightarrow> jobject" where
  "as_message (JObj obj) = obj"
| "as_message _ = []"

definition parseJsonRpc :: "json \<Rightarrow> (jobject + jobject list) option" where
  "parseJsonRpc body =
     (case body of
        JArr items \<Rightarrow>
          (if items = [] \<or> length items > MAX_BATCH_SIZE then None
           else if list_all isValidJsonRpc items then Some (Inr (map as_message items)) else None)
      | _ \<Rightarrow> (if isValidJsonRpc body then Some (Inl (as_message body)) else None))"

definition entry_id :: "json \<Rightarrow> json" where
  "entry_id item =
     (case item of
        JObj obj \<Rightarrow> (case obj_get obj ''id'' of JStr s \<Rightarrow> JStr s | JNum n \<Rightarrow> JNum n | _ \<Rightarrow> JNull)
      | _ \<Rightarrow> JNull)"

definition batch_entry_of :: "json \<Rightarrow> batch_entry" where
  "batch_entry_of item = (if isValidJsonRpc item then Message (as_message item) else InvalidEntry (entry_id item))"

definition parseJsonRpcBatchPartial :: "json \<Rightarrow> batch_entry list option" where
  "parseJsonRpcBatchPartial body =
     (case body of
        JArr items \<Rightarrow>
          (if items = [] \<or> length items > MAX_BATCH_SIZE then None else Some (map batch_entry_of items))
      | _ \<Rightarrow> None)"

text \<open>
  The test that tells the placeholders from the messages looks only at the member
  \<open>invalid\<close>, which a message may have too.
\<close>

definition isInvalidBatchEntry :: "batch_entry \<Rightarrow> bool" where
  "isInvalidBatchEntry e =
     (case e of InvalidEntry i \<Rightarrow> True | Message msg \<Rightarrow> obj_get msg ''invalid'' = JBool True)"

definition batch_entry_id :: "batch_entry \<Rightarrow> json" where
  "batch_entry_id e = (case e of InvalidEntry i \<Rightarrow> i | Message msg \<Rightarrow> obj_get msg ''id'')"

subsection \<open>Responses\<close>

datatype rpc_response =
    RpcResult (resp_id: json) json
  | RpcError (resp_id: json) int string "json option"

definition nullish :: "json \<Rightarrow> json \<Rightarrow> json" where
  "nullish v d = (if v = JUndef \<or> v = JNull then d else v)"

definition buildJsonRpcResult :: "json \<Rightarrow> json \<Rightarrow> rpc_response" where
  "buildJsonRpcResult i result = RpcResult (nullish i JNull) result"

definition buildJsonRpcError :: "json \<Rightarrow> int \<Rightarrow> string \<Rightarrow> json option \<Rightarrow> rpc_response" where
  "buildJsonRpcError i code message data = RpcError (nullish i JNull) code message data"

fun response_json :: "rpc_response \<Rightarrow> json" where
  "response_json (RpcResult i result) =
     JObj [(''jsonrpc'', JStr ''2.0''), (''id'', i), (''result'', result)]"
| "response_json (RpcError i code message data) =
     JObj [(''jsonrpc'', JStr ''2.0''), (''id'', i),
           (''error'', JObj ([(''code'', JNum code), (''message'', JStr message)] @
              (case data of None \<Rightarrow> [] | Some d \<Rightarrow> [(''data'', d)])))]"

subsection \<open>Parameters of a call\<close>

text \<open>\<open>params[k]\<close>: every other value that passes for parameters has no such member.\<close>

definition param :: "jobject \<Rightarrow> string \<Rightarrow> json" where
  "param msg k = (case obj_get msg ''params'' of JObj ps \<Rightarrow> obj_get ps k | _ \<Rightarrow> JUndef)"

definition extractToolName :: "jobject \<Rightarrow> string option" where
  "extractToolName msg =
     (if \<not> truthy (obj_get msg ''params'') then None
      else case param msg ''name'' of JStr name \<Rightarrow> Some name | _ \<Rightarrow> None)"

definition extractToolArgs :: "jobject \<Rightarrow> jobject" where
  "extractToolArgs msg =
     (if \<not> truthy (obj_get msg ''params'') then []
      else case param msg ''arguments'' of JObj args \<Rightarrow> args | _ \<Rightarrow> [])"

subsection \<open>Lemmas\<close>

lemma isValidJsonRpc_obj: "isValidJsonRpc v \<Longrightarrow> v = JObj (as_message v)"
  by (cases v) auto

lemma parseJsonRpcBatchPartial_length:
  "parseJsonRpcBatchPartial (JArr items) = Some es \<Longrightarrow>
   length es = length items \<and> 0 < length es \<and> length es \<le> MAX_BATCH_SIZE"
  by (auto simp: parseJsonRpcBatchPartial_def split: if_splits)

lemma strict_batch_is_partial:
  "parseJsonRpc (JArr items) = Some (Inr msgs) \<Longrightarrow>
   parseJsonRpcBatchPartial (JArr items) = Some (map Message msgs)"
  by (auto simp: parseJsonRpc_def parseJsonRpcBatchPartial_def batch_entry_of_def list_all_iff split: if_splits)

lemma built_response_valid: "isValidJsonRpc (response_json r)"
  by (cases r) (simp_all add: obj_get_def)

lemma built_response_id [simp]:
  "resp_id (buildJsonRpcResult i v) = nullish i JNull" "resp_id (buildJsonRpcError i c m d) = nullish i JNull"
  by (simp_all add: buildJsonRpcResult_def buildJsonRpcError_def)

end
