(* ===== verification/Mcp_Client.thy ===== *)
theory Mcp_Client
  imports Registry Json_Rpc
begin

section \<open>The HTTP client of an upstream server (src/src/proxy/mcp-client.ts)\<close>

text \<open>
  \<open>doForward\<close> is \<open>_doForward\<close> with the outcome of \<open>fetch\<close> as an argument: a failure (the
  timeout is one) or a reply with its status, its headers under lower-case names and its text.
  \<open>parse\<close> is \<open>JSON.parse\<close>, \<open>None\<close> when it throws.  \<open>mcp_forward\<close> is \<open>forward\<close>, the request
  inside the accounting of the replica that \<open>Registry\<close> defines.
\<close>

record mcp_client =
  mc_server_id :: string
  mc_headers :: "(string \<times> string) list option"
  mc_timeout_ms :: "int option"
  mc_sessionId :: "string option"

record upstream_options =
  uo_sessionId :: "string option"
  uo_body :: jobject
  uo_extraHeaders :: "(string \<times> string) list option"
  uo_timeoutMs :: "int option"

text \<open>\<open>ur_body\<close> is \<open>JUndef\<close> for a stream, \<open>ur_raw\<close> the response object of a stream.\<close>

record upstream_response =
  ur_body :: json
  ur_status :: nat
  ur_headers :: "(string, string) jsmap"
  ur_isStream :: bool

datatype fetch_outcome = FetchFails string | FetchReply nat "(string, string) jsmap" string

definition DEFAULT_REQUEST_TIMEOUT_MS :: int where "DEFAULT_REQUEST_TIMEOUT_MS = 30000"

definition effective_timeout :: "mcp_client \<Rightarrow> upstream_options \<Rightarrow> int" where
  "effective_timeout c opts =
     (case uo_timeoutMs opts of Some t \<Rightarrow> t
      | None \<Rightarrow> (case mc_timeout_ms c of Some t \<Rightarrow> t | None \<Rightarrow> DEFAULT_REQUEST_TIMEOUT_MS))"

definition assign_all :: "(string \<times> 'v) list \<Rightarrow> (string \<times> 'v) list \<Rightarrow> (string \<times> 'v) list" where
  "assign_all source target = fold (\<lambda>(k, v). obj_assign k v) source target"

definition session_header :: "string option \<Rightarrow> (string \<times> string) list \<Rightarrow> (string \<times> string) list" where
  "session_header s headers =
     (case s of Some i \<Rightarrow> (if i = [] then headers else obj_assign ''Mcp-Session-Id'' i headers) | None \<Rightarrow> headers)"

definition forward_headers :: "mcp_client \<Rightarrow> upstream_options \<Rightarrow> (string \<times> string) list" where
  "forward_headers c opts =
     (let h0 = [(''Content-Type'', ''application/json''), (''Accept'', ''application/json, text/event-stream'')];
          h1 = (case mc_headers c of Some hs \<Rightarrow> assign_all hs h0 | None \<Rightarrow> h0);
          h2 = session_header (case uo_sessionId opts of Some i \<Rightarrow> Some i | None \<Rightarrow> mc_sessionId c) h1
      in case uo_extraHeaders opts of Some hs \<Rightarrow> assign_all hs h2 | None \<Rightarrow> h2)"

definition isJsonRpcNotification :: "jobject \<Rightarrow> bool" where
  "isJsonRpcNotification body \<longleftrightarrow> obj_get body ''jsonrpc'' = JStr ''2.0'' \<and> is_string (obj_get body ''method'') \<and>
     obj_get body ''id'' = JUndef \<and> obj_get body ''result'' = JUndef \<and> obj_get body ''error'' = JUndef"

definition capture_session :: "(string, string) jsmap \<Rightarrow> mcp_client \<Rightarrow> mcp_client" where
  "capture_session headers c =
     (case map_of headers ''mcp-session-id'' of
        Some i \<Rightarrow> (if i = [] then c else c\<lparr>mc_sessionId := Some i\<rparr>)
      | None \<Rightarrow> c)"

definition doForward ::
  "(string \<Rightarrow> json option) \<Rightarrow> upstream_options \<Rightarrow> fetch_outcome \<Rightarrow> mcp_client \<Rightarrow>
   (string + upstream_response) \<times> mcp_client" where
  "doForward parse opts outcome c =
     (case outcome of
        FetchFails e \<Rightarrow> (Inl e, c)
      | FetchReply status headers text \<Rightarrow>
          (let c' = capture_session headers c;
               contentType = (case map_of headers ''content-type'' of Some t \<Rightarrow> t | None \<Rightarrow> []);
               reply = (\<lambda>body stream. \<lparr>ur_body = body, ur_status = status, ur_headers = headers, ur_isStream = stream\<rparr>)
           in if js_includes contentType ''text/event-stream'' then (Inr (reply JUndef True), c')
              else if trim text = [] then (Inr (reply JNull False), c')
              else case parse text of
                Some body \<Rightarrow> (Inr (reply body False), c')
              | None \<Rightarrow>
                  (if isJsonRpcNotification (uo_body opts) \<and> 200 \<le> status \<and> status < 300
                   then (Inr (reply JNull False), c')
                   else (Inl (''Le serveur en amont '' @ CHR 0x22 # mc_server_id c @ [CHR 0x22] @ '' a retourn'' @ e_acute @ '' une r'' @ e_acute @
                          ''ponse non-JSON (HTTP '' @ show_nat status @ '')''), c'))))"

definition mcp_forward ::
  "breaker_config \<Rightarrow> (string \<Rightarrow> json option) \<Rightarrow> timestamp \<Rightarrow> timestamp \<Rightarrow> upstream_options \<Rightarrow> fetch_outcome \<Rightarrow>
   mcp_client \<times> replica_info \<Rightarrow> (string + upstream_response) \<times> mcp_client \<times> replica_info" where
  "mcp_forward cfg parse now later opts outcome cr =
     (case cr of (c, r) \<Rightarrow>
       (case forward_start cfg now r of
          (False, r1) \<Rightarrow>
            (Inl (''Circuit breaker open for server '' @ CHR 0x22 # mc_server_id c @ [CHR 0x22] @
                  '' - request rejected to prevent cascade''), c, r1)
        | (True, r1) \<Rightarrow>
            (case doForward parse opts outcome c of (res, c1) \<Rightarrow> (res, c1, forward_end cfg later (\<not> isl res) r1))))"

text \<open>The stream of notifications: the reply is handed through, and no session is captured.\<close>

definition sse_headers :: "mcp_client \<Rightarrow> (string \<times> string) list option \<Rightarrow> (string \<times> string) list" where
  "sse_headers c extra =
     (let h1 = (case mc_headers c of Some hs \<Rightarrow> assign_all hs [(''Accept'', ''text/event-stream'')]
                | None \<Rightarrow> [(''Accept'', ''text/event-stream'')]);
          h2 = session_header (mc_sessionId c) h1
      in case extra of Some hs \<Rightarrow> assign_all hs h2 | None \<Rightarrow> h2)"

subsection \<open>Lemmas\<close>

lemma map_of_assign_all_other: "k \<notin> fst ` set hs \<Longrightarrow> map_of (assign_all hs h) k = map_of h k"
  by (induction hs arbitrary: h) (auto simp: assign_all_def map_of_obj_assign)

lemma capture_session_Some:
  "map_of headers ''mcp-session-id'' = Some i \<Longrightarrow> i \<noteq> [] \<Longrightarrow> mc_sessionId (capture_session headers c) = Some i"
  by (simp add: capture_session_def)

lemma doForward_session:
  "mc_sessionId (snd (doForward parse opts (FetchReply status headers text) c)) = mc_sessionId (capture_session headers c)"
  by (simp add: doForward_def Let_def split: option.split)

text \<open>The client of a server is shared by all callers, and so is the session it remembers: after a
  reply that carries a session identifier, a later request of a caller without a session is sent
  under that identifier.\<close>

theorem session_is_shared:
  assumes "map_of headers ''mcp-session-id'' = Some i" "i \<noteq> []"
    and "uo_sessionId other = None"
    and "\<forall>hs. uo_extraHeaders other = Some hs \<longrightarrow> ''Mcp-Session-Id'' \<notin> fst ` set hs"
    and "c' = snd (doForward parse request (FetchReply status headers text) c)"
  shows "map_of (forward_headers c' other) ''Mcp-Session-Id'' = Some i"
proof -
  have "mc_sessionId c' = Some i"
    using doForward_session capture_session_Some [OF assms(1,2)] by (simp add: assms(5))
  then show ?thesis
    using assms(2-4)
    by (auto simp: forward_headers_def session_header_def Let_def map_of_assign_all_other map_of_obj_assign
        split: option.split)
qed

theorem session_is_shared_witness:
  "map_of (forward_headers
      (snd (doForward (\<lambda>t. Some JNull) \<lparr>uo_sessionId = None, uo_body = [], uo_extraHeaders = None, uo_timeoutMs = None\<rparr>
         (FetchReply 200 [(''mcp-session-id'', ''alice-session'')] ''null'')
         \<lparr>mc_server_id = ''s'', mc_headers = None, mc_timeout_ms = None, mc_sessionId = None\<rparr>))
      \<lparr>uo_sessionId = None, uo_body = [], uo_extraHeaders = Some [(''X-Conduit-Trace-Id'', ''bob'')], uo_timeoutMs = None\<rparr>)
    ''Mcp-Session-Id'' = Some ''alice-session''"
  by (rule session_is_shared [OF _ _ _ _ refl]) simp_all

text \<open>A reply with an error status and a JSON body is a success for the circuit breaker.\<close>

lemma error_status_is_success:
  assumes "forward_start cfg now r = (True, r1)" "parse text = Some body" "trim text \<noteq> []"
    and "map_of headers ''content-type'' = Some ''application/json''"
  shows "snd (snd (mcp_forward cfg parse now later opts (FetchReply 503 headers text) (c, r))) = forward_end cfg later True r1"
  using assms by (simp add: mcp_forward_def doForward_def Let_def)

end
