(* ===== verification/Identity_Store.thy ===== *)
theory Identity_Store
  imports Json
begin

section \<open>The store of connected accounts (src/src/identity/store.ts)\<close>

text \<open>
  The two SQL tables as lists of rows in the order of insertion.  A statement is the list
  operation it is; an insertion with a key that exists fails as the primary key demands, and
  the transaction around the insertions of an account then leaves the tables as they were.
  The UUIDs an operation draws are arguments.  \<open>newest\<close> is \<open>ORDER BY ... DESC LIMIT 1\<close>, the
  first of the rows with the greatest time.  Times are the milliseconds the ISO texts of the
  source stand for.
\<close>

fun newest :: "('r \<Rightarrow> timestamp) \<Rightarrow> 'r list \<Rightarrow> 'r option" where
  "newest t [] = None"
| "newest t (r # rs) =
     (case newest t rs of Some r' \<Rightarrow> if t r < t r' then Some r' else Some r | None \<Rightarrow> Some r)"

lemma newest_in: "newest t rs = Some r \<Longrightarrow> r \<in> set rs"
  by (induction rs arbitrary: r) (auto split: option.splits if_splits)

lemma newest_None [simp]: "newest t rs = None \<longleftrightarrow> rs = []"
  by (induction rs) (auto split: option.splits)

lemma newest_max: "newest t rs = Some r \<Longrightarrow> r' \<in> set rs \<Longrightarrow> t r' \<le> t r"
proof (induction rs arbitrary: r r')
  case (Cons x xs)
  show ?case
  proof (cases "newest t xs")
    case None
    with Cons.prems show ?thesis by simp
  next
    case (Some y)
    then have "t r' \<le> t y" if "r' \<in> set xs" using Cons.IH that by blast
    with Cons.prems Some show ?thesis by (auto split: if_splits)
  qed
qed simp

subsection \<open>Data\<close>

datatype binding = BindClient | BindTenant | BindWorkspace | BindClientOrWorkspace

record account_row =
  ar_id :: string
  ar_workspace_id :: string
  ar_provider :: string
  ar_client_id :: "string option"
  ar_tenant_id :: "string option"
  ar_label :: "string option"
  ar_token_type :: string
  ar_access_token_secret_id :: string
  ar_refresh_token_secret_id :: "string option"
  ar_metadata :: "jobject option"
  ar_created_at :: timestamp
  ar_updated_at :: timestamp
  ar_revoked_at :: "timestamp option"

record resolved_account =
  ra_row :: account_row
  ra_access_token :: string
  ra_refresh_token :: "string option"

record identity_store =
  is_secrets :: "(string, string) jsmap"
  is_accounts :: "account_row list"

record create_account_input =
  ci_workspace_id :: string
  ci_provider :: string
  ci_client_id :: "string option"
  ci_tenant_id :: "string option"
  ci_label :: "string option"
  ci_access_token :: string
  ci_refresh_token :: "string option"
  ci_token_type :: "string option"
  ci_metadata :: "jobject option"
  ci_replace_existing :: bool

record account_query =
  aq_workspace_id :: string
  aq_provider :: string
  aq_client_id :: string
  aq_tenant_id :: string
  aq_binding :: binding

record account_filters =
  af_workspace_id :: "string option"
  af_provider :: "string option"
  af_client_id :: "string option"
  af_tenant_id :: "string option"
  af_include_revoked :: bool

subsection \<open>Operations\<close>

definition trimmed :: "string option \<Rightarrow> string option" where
  "trimmed v = (case v of Some s \<Rightarrow> if trim s = [] then None else Some (trim s) | None \<Rightarrow> None)"

definition coalesce :: "string option \<Rightarrow> string" where
  "coalesce v = (case v of Some s \<Rightarrow> s | None \<Rightarrow> [])"

definition filter_matches :: "string option \<Rightarrow> string option \<Rightarrow> bool" where
  "filter_matches f v \<longleftrightarrow> coalesce f = [] \<or> v = f"

fun order_newest :: "('r \<Rightarrow> timestamp) \<Rightarrow> 'r \<Rightarrow> 'r list \<Rightarrow> 'r list" where
  "order_newest t r [] = [r]"
| "order_newest t r (r' # rs) = (if t r' > t r then r' # order_newest t r rs else r # r' # rs)"

definition listConnectedAccounts :: "account_filters \<Rightarrow> identity_store \<Rightarrow> account_row list" where
  "listConnectedAccounts f st =
     foldr (order_newest ar_created_at)
       (filter (\<lambda>r. (af_include_revoked f \<or> ar_revoked_at r = None) \<and>
          filter_matches (af_workspace_id f) (Some (ar_workspace_id r)) \<and>
          filter_matches (af_provider f) (Some (ar_provider r)) \<and>
          filter_matches (af_client_id f) (ar_client_id r) \<and>
          filter_matches (af_tenant_id f) (ar_tenant_id r)) (is_accounts st)) []"

definition getConnectedAccount :: "string \<Rightarrow> identity_store \<Rightarrow> account_row option" where
  "getConnectedAccount i st = find (\<lambda>r. ar_id r = i) (is_accounts st)"

definition revoke_matching :: "timestamp \<Rightarrow> string \<Rightarrow> string \<Rightarrow> string option \<Rightarrow> string option \<Rightarrow> account_row \<Rightarrow> account_row" where
  "revoke_matching now ws provider client tenant r =
     (if ar_workspace_id r = ws \<and> ar_provider r = provider \<and>
         coalesce (ar_client_id r) = coalesce client \<and> coalesce (ar_tenant_id r) = coalesce tenant \<and>
         ar_revoked_at r = None
      then r\<lparr>ar_revoked_at := Some now, ar_updated_at := now\<rparr> else r)"

text \<open>\<open>uuids\<close> are the ids of the account, of the access token and of the refresh token.\<close>

definition given_refresh :: "create_account_input \<Rightarrow> string option" where
  "given_refresh input = (case ci_refresh_token input of Some t \<Rightarrow> if t = [] then None else Some t | None \<Rightarrow> None)"

definition new_secrets :: "string \<times> string \<times> string \<Rightarrow> create_account_input \<Rightarrow> (string \<times> string) list" where
  "new_secrets uuids input = (case uuids of (accountId, accessId, refreshId) \<Rightarrow>
     (accessId, ci_access_token input) # (case given_refresh input of Some t \<Rightarrow> [(refreshId, t)] | None \<Rightarrow> []))"

definition new_account :: "timestamp \<Rightarrow> string \<times> string \<times> string \<Rightarrow> create_account_input \<Rightarrow> account_row" where
  "new_account now uuids input = (case uuids of (accountId, accessId, refreshId) \<Rightarrow>
     \<lparr>ar_id = accountId, ar_workspace_id = trim (ci_workspace_id input), ar_provider = trim (ci_provider input),
      ar_client_id = trimmed (ci_client_id input), ar_tenant_id = trimmed (ci_tenant_id input),
      ar_label = trimmed (ci_label input),
      ar_token_type = (case trimmed (ci_token_type input) of Some t \<Rightarrow> t | None \<Rightarrow> ''Bearer''),
      ar_access_token_secret_id = accessId,
      ar_refresh_token_secret_id = map_option (\<lambda>t. refreshId) (given_refresh input),
      ar_metadata = ci_metadata input, ar_created_at = now, ar_updated_at = now, ar_revoked_at = None\<rparr>)"

definition replaced_accounts :: "timestamp \<Rightarrow> create_account_input \<Rightarrow> account_row \<Rightarrow> account_row list \<Rightarrow> account_row list" where
  "replaced_accounts now input row rows =
     (if ci_replace_existing input
      then map (revoke_matching now (ar_workspace_id row) (ar_provider row) (ar_client_id row) (ar_tenant_id row)) rows
      else rows)"

definition createConnectedAccount ::
  "timestamp \<Rightarrow> string \<times> string \<times> string \<Rightarrow> create_account_input \<Rightarrow> identity_store \<Rightarrow>
   (string + account_row) \<times> identity_store" where
  "createConnectedAccount now uuids input st =
     (let row = new_account now uuids input
      in if ar_workspace_id row = [] then (Inl ''workspace_id is required'', st)
         else if ar_provider row = [] then (Inl ''provider is required'', st)
         else if ci_access_token input = [] then (Inl ''access_token is required'', st)
         else (let accounts = replaced_accounts now input row (is_accounts st);
                   secrets = is_secrets st @ new_secrets uuids input
               in if \<not> distinct (map fst secrets) \<or> ar_id row \<in> ar_id ` set accounts
                  then (Inl ''UNIQUE constraint failed'', st)
                  else (Inr row, \<lparr>is_secrets = secrets, is_accounts = accounts @ [row]\<rparr>)))"

definition revoke_row :: "timestamp \<Rightarrow> string \<Rightarrow> account_row \<Rightarrow> account_row" where
  "revoke_row now i r =
     (if ar_id r = i \<and> ar_revoked_at r = None then r\<lparr>ar_revoked_at := Some now, ar_updated_at := now\<rparr> else r)"

definition revokeConnectedAccount :: "timestamp \<Rightarrow> string \<Rightarrow> identity_store \<Rightarrow> account_row option \<times> identity_store" where
  "revokeConnectedAccount now i st =
     (let st' = st\<lparr>is_accounts := map (revoke_row now i) (is_accounts st)\<rparr>
      in (getConnectedAccount i st', st'))"

definition findOne :: "string \<Rightarrow> string \<Rightarrow> string option \<Rightarrow> string option \<Rightarrow> identity_store \<Rightarrow> account_row option" where
  "findOne ws provider client tenant st =
     newest ar_updated_at
       (filter (\<lambda>r. ar_workspace_id r = ws \<and> ar_provider r = provider \<and> ar_client_id r = client \<and>
          ar_tenant_id r = tenant \<and> ar_revoked_at r = None) (is_accounts st))"

definition resolveAccountRow :: "account_query \<Rightarrow> identity_store \<Rightarrow> account_row option" where
  "resolveAccountRow q st =
     (case aq_binding q of
        BindClient \<Rightarrow> findOne (aq_workspace_id q) (aq_provider q) (Some (aq_client_id q)) None st
      | BindTenant \<Rightarrow> findOne (aq_workspace_id q) (aq_provider q) None (Some (aq_tenant_id q)) st
      | BindWorkspace \<Rightarrow> findOne (aq_workspace_id q) (aq_provider q) None None st
      | BindClientOrWorkspace \<Rightarrow>
          (case findOne (aq_workspace_id q) (aq_provider q) (Some (aq_client_id q)) None st of
             Some r \<Rightarrow> Some r
           | None \<Rightarrow> findOne (aq_workspace_id q) (aq_provider q) None None st))"

definition readSecret :: "string \<Rightarrow> identity_store \<Rightarrow> string option" where
  "readSecret i st = map_of (is_secrets st) i"

definition store_resolveConnectedAccount :: "account_query \<Rightarrow> identity_store \<Rightarrow> string + resolved_account option" where
  "store_resolveConnectedAccount q st =
     (case resolveAccountRow q st of
        None \<Rightarrow> Inr None
      | Some row \<Rightarrow>
          (case readSecret (ar_access_token_secret_id row) st of
             None \<Rightarrow> Inl (''Missing access token secret for account '' @ CHR 0x22 # ar_id row @ [CHR 0x22])
           | Some accessToken \<Rightarrow>
               Inr (Some \<lparr>ra_row = row, ra_access_token = accessToken,
                  ra_refresh_token = (case ar_refresh_token_secret_id row of
                     Some i \<Rightarrow> (case readSecret i st of Some t \<Rightarrow> if t = [] then None else Some t | None \<Rightarrow> None)
                   | None \<Rightarrow> None)\<rparr>)))"

subsection \<open>The invariant of the tables\<close>

text \<open>
  Primary keys are unique, every secret an account refers to exists, and the owner columns
  are never the empty string.
\<close>

definition account_refs_ok :: "identity_store \<Rightarrow> account_row \<Rightarrow> bool" where
  "account_refs_ok st r \<longleftrightarrow> map_has (is_secrets st) (ar_access_token_secret_id r) \<and>
     (\<forall>i. ar_refresh_token_secret_id r = Some i \<longrightarrow> map_has (is_secrets st) i) \<and>
     ar_client_id r \<noteq> Some [] \<and> ar_tenant_id r \<noteq> Some []"

definition identity_ok :: "identity_store \<Rightarrow> bool" where
  "identity_ok st \<longleftrightarrow> map_wf (is_secrets st) \<and> distinct (map ar_id (is_accounts st)) \<and>
     (\<forall>r \<in> set (is_accounts st). account_refs_ok st r)"

lemma trimmed_nonempty [simp]: "trimmed v \<noteq> Some []"
  by (auto simp: trimmed_def split: option.splits)

lemma coalesce_inject: "a \<noteq> Some [] \<Longrightarrow> b \<noteq> Some [] \<Longrightarrow> coalesce a = coalesce b \<longleftrightarrow> a = b"
  by (auto simp: coalesce_def split: option.splits)

lemma revoke_matching_simps [simp]:
  "ar_id (revoke_matching now ws p c t r) = ar_id r"
  "ar_access_token_secret_id (revoke_matching now ws p c t r) = ar_access_token_secret_id r"
  "ar_refresh_token_secret_id (revoke_matching now ws p c t r) = ar_refresh_token_secret_id r"
  "ar_client_id (revoke_matching now ws p c t r) = ar_client_id r"
  "ar_tenant_id (revoke_matching now ws p c t r) = ar_tenant_id r"
  "ar_workspace_id (revoke_matching now ws p c t r) = ar_workspace_id r"
  "ar_provider (revoke_matching now ws p c t r) = ar_provider r"
  by (simp_all add: revoke_matching_def)

lemma refs_ok_mono:
  "account_refs_ok st r \<Longrightarrow> dom (map_of (is_secrets st)) \<subseteq> dom (map_of (is_secrets st')) \<Longrightarrow>
   ar_access_token_secret_id r' = ar_access_token_secret_id r \<Longrightarrow>
   ar_refresh_token_secret_id r' = ar_refresh_token_secret_id r \<Longrightarrow>
   ar_client_id r' = ar_client_id r \<Longrightarrow> ar_tenant_id r' = ar_tenant_id r \<Longrightarrow> account_refs_ok st' r'"
  unfolding account_refs_ok_def by (metis domIff subsetD)

lemma map_of_snoc_dom: "dom (map_of m) \<subseteq> dom (map_of (m @ m'))"
  by (auto simp: map_add_Some_iff)

lemma newest_replaced:
  assumes "\<forall>r' \<in> set rs. P r' \<longrightarrow> r' = r" "r \<in> set rs" "P r"
  shows "newest t (filter P rs) = Some r"
proof -
  have ne: "filter P rs \<noteq> []" using assms(2,3) by (auto simp: filter_empty_conv)
  then obtain x where x: "newest t (filter P rs) = Some x" by (metis newest_None not_None_eq)
  then have "x = r" using assms(1) newest_in [OF x] by simp
  with x show ?thesis by simp
qed

lemma identity_okD:
  assumes "identity_ok st"
  shows "map_wf (is_secrets st)" and "distinct (map ar_id (is_accounts st))"
    and "r \<in> set (is_accounts st) \<Longrightarrow> account_refs_ok st r"
  using assms by (simp_all add: identity_ok_def)

lemma replaced_ids: "map ar_id (replaced_accounts now input row rows) = map ar_id rows"
  by (simp add: replaced_accounts_def)

lemma create_eq:
  assumes "createConnectedAccount now uuids input st = (Inr row, st')"
  shows "row = new_account now uuids input"
    and "is_secrets st' = is_secrets st @ new_secrets uuids input"
    and "distinct (map fst (is_secrets st'))"
    and "is_accounts st' = replaced_accounts now input row (is_accounts st) @ [row]"
    and "ar_id row \<notin> ar_id ` set (is_accounts st)"
proof -
  have ids: "ar_id ` set (replaced_accounts now input r rs) = ar_id ` set rs" for r rs
    by (metis list.set_map replaced_ids)
  show "row = new_account now uuids input"
    "is_secrets st' = is_secrets st @ new_secrets uuids input"
    "distinct (map fst (is_secrets st'))"
    "is_accounts st' = replaced_accounts now input row (is_accounts st) @ [row]"
    "ar_id row \<notin> ar_id ` set (is_accounts st)"
    using assms by (auto simp: createConnectedAccount_def Let_def ids split: if_splits)
qed

lemma new_account_simps:
  "ar_client_id (new_account now uuids input) = trimmed (ci_client_id input)"
  "ar_tenant_id (new_account now uuids input) = trimmed (ci_tenant_id input)"
  "ar_revoked_at (new_account now uuids input) = None"
  by (simp_all add: new_account_def split: prod.split)

lemma new_account_refs:
  assumes "distinct (map fst (ss @ new_secrets uuids input))" "is_secrets st = ss @ new_secrets uuids input"
  shows "account_refs_ok st (new_account now uuids input)"
    and "readSecret (ar_access_token_secret_id (new_account now uuids input)) st = Some (ci_access_token input)"
proof -
  obtain a i j where u: "uuids = (a, i, j)" by (metis prod.exhaust)
  have i: "(i, ci_access_token input) \<in> set (is_secrets st)" by (simp add: assms(2) new_secrets_def u)
  have wf: "distinct (map fst (is_secrets st))" using assms by simp
  have j: "given_refresh input = Some t \<Longrightarrow> (j, t) \<in> set (is_secrets st)" for t
    by (simp add: assms(2) new_secrets_def u)
  show "readSecret (ar_access_token_secret_id (new_account now uuids input)) st = Some (ci_access_token input)"
    using map_of_is_SomeI [OF wf i] by (simp add: readSecret_def new_account_def u)
  show "account_refs_ok st (new_account now uuids input)"
    using map_of_is_SomeI [OF wf i] map_of_is_SomeI [OF wf j]
    by (auto simp: account_refs_ok_def new_account_def u)
qed

lemma create_ok:
  assumes inv: "identity_ok st" and c: "createConnectedAccount now uuids input st = (Inr row, st')"
  shows "identity_ok st'"
proof -
  note sh = create_eq [OF c]
  have dom: "dom (map_of (is_secrets st)) \<subseteq> dom (map_of (is_secrets st'))"
    unfolding sh(2) by (rule map_of_snoc_dom)
  define rows where "rows = replaced_accounts now input row (is_accounts st)"
  have rows: "is_accounts st' = rows @ [row]" using sh(4) by (simp add: rows_def)
  have ids: "map ar_id rows = map ar_id (is_accounts st)" by (simp add: rows_def replaced_ids)
  have "ar_id ` set rows = ar_id ` set (is_accounts st)" using ids by (metis list.set_map)
  with ids identity_okD(2) [OF inv] sh(5) have "distinct (map ar_id (is_accounts st'))"
    by (simp add: rows)
  moreover have "account_refs_ok st' r" if "r \<in> set rows" for r
    using that refs_ok_mono [OF identity_okD(3) [OF inv] dom] by (auto simp: rows_def replaced_accounts_def split: if_splits)
  moreover have "account_refs_ok st' row"
    using new_account_refs(1) [of "is_secrets st"] sh(1,2,3) by simp
  ultimately show ?thesis using sh(3) by (auto simp: identity_ok_def rows map_wf_def)
qed

lemma create_fails_unchanged:
  "createConnectedAccount now uuids input st = (Inl e, st') \<Longrightarrow> st' = st"
  by (auto simp: createConnectedAccount_def Let_def split: if_splits prod.splits)

lemma revoke_ok: "identity_ok st \<Longrightarrow> identity_ok (snd (revokeConnectedAccount now i st))"
proof -
  assume inv: "identity_ok st"
  let ?st = "st\<lparr>is_accounts := map (revoke_row now i) (is_accounts st)\<rparr>"
  have row: "ar_id (revoke_row now i r) = ar_id r" "account_refs_ok ?st (revoke_row now i r) = account_refs_ok st r" for r
    by (simp_all add: revoke_row_def account_refs_ok_def)
  have ids: "map ar_id (map (revoke_row now i) (is_accounts st)) = map ar_id (is_accounts st)" by (simp add: row(1))
  have "\<forall>r \<in> set (is_accounts ?st). account_refs_ok ?st r" using identity_okD(3) [OF inv] row(2) by simp
  then show ?thesis
    using identity_okD(1,2) [OF inv] ids by (simp add: revokeConnectedAccount_def Let_def identity_ok_def del: map_map)
qed

datatype identity_call =
    CreateAccount timestamp "string \<times> string \<times> string" create_account_input
  | RevokeAccount timestamp string

fun identity_step :: "identity_call \<Rightarrow> identity_store \<Rightarrow> identity_store" where
  "identity_step (CreateAccount now uuids input) st = snd (createConnectedAccount now uuids input st)"
| "identity_step (RevokeAccount now i) st = snd (revokeConnectedAccount now i st)"

definition empty_identity :: identity_store where
  "empty_identity = \<lparr>is_secrets = [], is_accounts = []\<rparr>"

lemma identity_step_ok: "identity_ok st \<Longrightarrow> identity_ok (identity_step c st)"
proof (cases c)
  case (CreateAccount now uuids input)
  assume inv: "identity_ok st"
  obtain r st' where r: "createConnectedAccount now uuids input st = (r, st')" by fastforce
  show ?thesis
  proof (cases r)
    case (Inl e)
    with r show ?thesis using inv create_fails_unchanged [of now uuids input st e st'] CreateAccount by simp
  next
    case (Inr row)
    with r show ?thesis using create_ok [OF inv, of now uuids input row st'] CreateAccount by simp
  qed
qed (simp add: revoke_ok)

text \<open>After any sequence of creations and revocations the tables are consistent: keys are unique
  and every live or revoked account has its secrets, so that resolving an account never fails.\<close>

theorem identity_tables_consistent:
  "identity_ok (fold identity_step calls empty_identity) \<and>
   (\<exists>res. store_resolveConnectedAccount q (fold identity_step calls empty_identity) = Inr res)"
proof -
  have "identity_ok (fold identity_step calls st)" if "identity_ok st" for st
    using that by (induction calls arbitrary: st) (simp_all add: identity_step_ok)
  then have ok: "identity_ok (fold identity_step calls empty_identity)"
    by (simp add: identity_ok_def empty_identity_def map_wf_def)
  let ?st = "fold identity_step calls empty_identity"
  have "map_has (is_secrets ?st) (ar_access_token_secret_id r)" if "resolveAccountRow q ?st = Some r" for r
  proof -
    have "r \<in> set (is_accounts ?st)"
      using that by (auto simp: resolveAccountRow_def findOne_def dest!: newest_in split: binding.splits option.splits)
    then show ?thesis using identity_okD(3) [OF ok] by (simp add: account_refs_ok_def)
  qed
  then show ?thesis
    using ok by (auto simp: store_resolveConnectedAccount_def readSecret_def split: option.split)
qed

text \<open>An account that replaces the others of its owner is the one that its owner resolves, with
  the token it was created with.\<close>

theorem connected_account_roundtrip:
  assumes "identity_ok st" "ci_replace_existing input"
    and "createConnectedAccount now uuids input st = (Inr row, st')"
    and "ar_tenant_id row = None" "ar_client_id row = Some c"
  shows "map_option ra_access_token (projr (store_resolveConnectedAccount
      \<lparr>aq_workspace_id = ar_workspace_id row, aq_provider = ar_provider row, aq_client_id = c, aq_tenant_id = t,
       aq_binding = BindClientOrWorkspace\<rparr> st')) = Some (ci_access_token input)"
proof -
  note sh = create_eq [OF assms(3)]
  have others: "r = row" if "r \<in> set (is_accounts st')" "ar_workspace_id r = ar_workspace_id row"
    "ar_provider r = ar_provider row" "ar_client_id r = ar_client_id row" "ar_tenant_id r = ar_tenant_id row"
    "ar_revoked_at r = None" for r
  proof (rule ccontr)
    assume "r \<noteq> row"
    with that(1) sh(4) assms(2) obtain r0 where r0: "r0 \<in> set (is_accounts st)"
      "r = revoke_matching now (ar_workspace_id row) (ar_provider row) (ar_client_id row) (ar_tenant_id row) r0"
      by (auto simp: replaced_accounts_def)
    with that show False by (auto simp: revoke_matching_def split: if_splits)
  qed
  let ?P = "\<lambda>r. ar_workspace_id r = ar_workspace_id row \<and> ar_provider r = ar_provider row \<and>
    ar_client_id r = Some c \<and> ar_tenant_id r = None \<and> ar_revoked_at r = None"
  have "newest ar_updated_at (filter ?P (is_accounts st')) = Some row"
    by (rule newest_replaced) (use others sh(1,4) assms(4,5) new_account_simps(3) in auto)
  then show ?thesis using new_account_refs(2) [of "is_secrets st" uuids input st' now] sh(1,2,3)
    by (simp add: store_resolveConnectedAccount_def resolveAccountRow_def findOne_def)
qed

definition account_input :: "string \<Rightarrow> create_account_input" where
  "account_input token = \<lparr>ci_workspace_id = ''w'', ci_provider = ''github'', ci_client_id = Some ''alice'',
     ci_tenant_id = None, ci_label = None, ci_access_token = token, ci_refresh_token = None, ci_token_type = None,
     ci_metadata = None, ci_replace_existing = True\<rparr>"

definition identity_example :: identity_store where
  "identity_example = snd (createConnectedAccount 1 (''a1'', ''s1'', ''r1'') (account_input ''old'') empty_identity)"

theorem connected_account_roundtrip_witness:
  "map_option ra_access_token (projr (store_resolveConnectedAccount
      \<lparr>aq_workspace_id = ''w'', aq_provider = ''github'', aq_client_id = ''alice'', aq_tenant_id = ''t'',
       aq_binding = BindClientOrWorkspace\<rparr>
      (snd (createConnectedAccount 1 (''a2'', ''s2'', ''r2'') (account_input ''new'') identity_example)))) = Some ''new''"
proof -
  let ?c = "createConnectedAccount 1 (''a2'', ''s2'', ''r2'') (account_input ''new'') identity_example"
  have ok: "identity_ok identity_example"
    using identity_step_ok [of empty_identity "CreateAccount 1 (''a1'', ''s1'', ''r1'') (account_input ''old'')"]
    by (simp add: identity_example_def identity_ok_def empty_identity_def map_wf_def)
  have r: "\<not> isl (fst ?c) \<and> ar_tenant_id (projr (fst ?c)) = None \<and> ar_client_id (projr (fst ?c)) = Some ''alice'' \<and>
      ar_workspace_id (projr (fst ?c)) = ''w'' \<and> ar_provider (projr (fst ?c)) = ''github''"
    by code_simp
  then have c: "?c = (Inr (projr (fst ?c)), snd ?c)" by (cases ?c) (auto simp: sum.collapse)
  show ?thesis
    using connected_account_roundtrip [OF ok _ c, of "''alice''" "''t''"] r by (simp add: account_input_def)
qed

end
