(* ===== verification/Cache_Policy.thy ===== *)
theory Cache_Policy
  imports Registry
begin

section \<open>What is cached and for how long (src/src/cache/cache-policy.ts)\<close>

text \<open>
  The decision of the cache for one call of a tool from its annotations and the server's
  configuration.  The overrides are a plain object: a tool with the name of a member that
  objects inherit finds that member, whose \<open>ttl\<close>, \<open>invalidates\<close> and \<open>ignore_args\<close> are
  undefined.
\<close>

record tool_override_config =
  to_ttl :: "int option"
  to_ignore_args :: "string list option"
  to_invalidates :: "string list option"

record server_cache_config =
  scc_default_ttl :: int
  scc_overrides :: "(string, tool_override_config) jsmap option"

record cache_policy_decision =
  cpd_shouldCache :: bool
  cpd_ttl :: "int option"
  cpd_isDestructive :: bool
  cpd_invalidates :: "string list"
  cpd_ignoreArgs :: "string list"

definition ttl_readOnly :: int where "ttl_readOnly = 5 * 60"
definition ttl_idempotent :: int where "ttl_idempotent = 2 * 60"
definition ttl_openWorld :: int where "ttl_openWorld = 30"

definition inherited_override :: tool_override_config where
  "inherited_override = \<lparr>to_ttl = None, to_ignore_args = None, to_invalidates = None\<rparr>"

definition lookup_override :: "server_cache_config \<Rightarrow> string \<Rightarrow> tool_override_config option" where
  "lookup_override cfg toolName =
     (case scc_overrides cfg of
        None \<Rightarrow> None
      | Some overrides \<Rightarrow>
          (case map_of overrides toolName of
             Some ov \<Rightarrow> Some ov
           | None \<Rightarrow> (if toolName \<in> set object_members then Some inherited_override else None)))"

definition applyConfigOverride :: "tool_override_config \<Rightarrow> int \<Rightarrow> cache_policy_decision" where
  "applyConfigOverride override serverDefaultTtl =
     (let ttl = (case to_ttl override of Some t \<Rightarrow> t | None \<Rightarrow> serverDefaultTtl);
          shouldCache = (ttl > 0);
          invalidates = (case to_invalidates override of Some l \<Rightarrow> l | None \<Rightarrow> []);
          ignoreArgs = (case to_ignore_args override of Some l \<Rightarrow> l | None \<Rightarrow> [])
      in if shouldCache
         then \<lparr>cpd_shouldCache = True, cpd_ttl = Some ttl, cpd_isDestructive = False,
               cpd_invalidates = invalidates, cpd_ignoreArgs = ignoreArgs\<rparr>
         else \<lparr>cpd_shouldCache = False, cpd_ttl = None, cpd_isDestructive = length invalidates > 0,
               cpd_invalidates = invalidates, cpd_ignoreArgs = ignoreArgs\<rparr>)"

definition cache_for :: "int \<Rightarrow> cache_policy_decision" where
  "cache_for ttl = \<lparr>cpd_shouldCache = True, cpd_ttl = Some ttl, cpd_isDestructive = False,
     cpd_invalidates = [], cpd_ignoreArgs = []\<rparr>"

definition no_cache :: "bool \<Rightarrow> cache_policy_decision" where
  "no_cache destructive = \<lparr>cpd_shouldCache = False, cpd_ttl = None, cpd_isDestructive = destructive,
     cpd_invalidates = [], cpd_ignoreArgs = []\<rparr>"

definition decideCachePolicy :: "string \<Rightarrow> tool_annotations \<Rightarrow> server_cache_config \<Rightarrow> cache_policy_decision" where
  "decideCachePolicy toolName annotations cfg =
     (case lookup_override cfg toolName of
        Some override \<Rightarrow> applyConfigOverride override (scc_default_ttl cfg)
      | None \<Rightarrow>
          (if an_destructiveHint annotations = Some True then no_cache True
           else if an_readOnlyHint annotations = Some True
           then cache_for (if scc_default_ttl cfg > 0 then scc_default_ttl cfg else ttl_readOnly)
           else if an_idempotentHint annotations = Some True
           then cache_for (min (if scc_default_ttl cfg > 0 then scc_default_ttl cfg else ttl_idempotent) ttl_idempotent)
           else if an_openWorldHint annotations = Some True then cache_for ttl_openWorld
           else no_cache False))"

text \<open>A call is cached exactly when the configuration gives the tool a positive life time, or
  gives it none and the tool is not annotated as destructive but as read-only, idempotent or
  open-world; what is cached has a positive life time and is not treated as destructive, and
  without annotations and configuration nothing is cached.\<close>

theorem decideCachePolicy_caches_iff:
  "(cpd_shouldCache (decideCachePolicy toolName annotations cfg) \<longleftrightarrow>
     (case lookup_override cfg toolName of
        Some ov \<Rightarrow> 0 < (case to_ttl ov of Some t \<Rightarrow> t | None \<Rightarrow> scc_default_ttl cfg)
      | None \<Rightarrow> an_destructiveHint annotations \<noteq> Some True \<and>
          Some True \<in> {an_readOnlyHint annotations, an_idempotentHint annotations, an_openWorldHint annotations})) \<and>
   (case cpd_ttl (decideCachePolicy toolName annotations cfg) of
      Some ttl \<Rightarrow> cpd_shouldCache (decideCachePolicy toolName annotations cfg) \<and> 0 < ttl \<and>
        \<not> cpd_isDestructive (decideCachePolicy toolName annotations cfg)
    | None \<Rightarrow> \<not> cpd_shouldCache (decideCachePolicy toolName annotations cfg))"
  by (cases "lookup_override cfg toolName")
     (auto simp: decideCachePolicy_def applyConfigOverride_def cache_for_def no_cache_def Let_def
        ttl_readOnly_def ttl_idempotent_def ttl_openWorld_def)

lemma inherited_name_is_cached:
  assumes "scc_overrides cfg = Some overrides" "map_of overrides ''constructor'' = None" "0 < scc_default_ttl cfg"
  shows "cpd_shouldCache (decideCachePolicy ''constructor'' annotations cfg)"
  using assms by (simp add: decideCachePolicy_def lookup_override_def object_members_def
      inherited_override_def applyConfigOverride_def Let_def)

end
