(* ===== verification/Identity.thy ===== *)
theory Identity
  imports Identity_Store Registry Cache_Policy
begin

section \<open>Workspaces and upstream identity (src/src/identity/runtime.ts)\<close>

text \<open>
  The workspace of a tenant, the check that tells in advance whether a server's connected
  account can be resolved, and the headers that carry an identity upstream.  \<open>b64url\<close> is the
  encoding of a text in base64url.  An error is an \<open>UpstreamIdentityError\<close> or the error of
  the store; the pipeline turns the latter into the former.
\<close>

subsection \<open>Configuration\<close>

datatype forward_mode = ModeNone | ModeBearer | ModeClaimsHeader

record forward_identity_config =
  fi_mode :: "forward_mode option"
  fi_header_name :: "string option"

record connected_account_config =
  cc_provider :: string
  cc_binding :: "binding option"
  cc_required :: "bool option"
  cc_headers :: "(string \<times> string) list option"

record upstream_auth_config =
  ua_connected_account :: "connected_account_config option"
  ua_forward_identity :: "forward_identity_config option"

text \<open>The parts of \<open>ServerConfig\<close> beyond those the registry reads.\<close>

record gateway_server = server_config +
  gs_cache :: server_cache_config
  gs_upstream_auth :: "upstream_auth_config option"
  gs_forward_authorization :: "bool option"

record workspace_config =
  wc_id :: string
  wc_label :: "string option"
  wc_tenant_ids :: "string list option"

record identity_config =
  id_enabled :: bool
  id_default_workspace_id :: "string option"
  id_workspaces :: "workspace_config list option"

datatype workspace_source = SourceMapping | SourceDefault | SourceTenant

record resolved_workspace =
  rw_id :: string
  rw_label :: string
  rw_source :: workspace_source
  rw_tenant_ids :: "string list"

record principal =
  pr_client_id :: string
  pr_tenant_id :: string
  pr_auth_header :: "string option"
  pr_claims :: "jobject option"

record identity_runtime =
  ir_config :: "identity_config option"
  ir_store :: "identity_store option"

definition opt_list :: "'a list option \<Rightarrow> 'a list" where
  "opt_list v = (case v of Some xs \<Rightarrow> xs | None \<Rightarrow> [])"

definition default_to :: "'a \<Rightarrow> 'a option \<Rightarrow> 'a" where
  "default_to d v = (case v of Some x \<Rightarrow> x | None \<Rightarrow> d)"

definition identity_enabled :: "identity_runtime \<Rightarrow> bool" where
  "identity_enabled rt \<longleftrightarrow>
     (case ir_config rt of Some c \<Rightarrow> id_enabled c | None \<Rightarrow> False) \<and> ir_store rt \<noteq> None"

subsection \<open>Workspaces\<close>

definition resolveWorkspace :: "identity_config option \<Rightarrow> string \<Rightarrow> resolved_workspace" where
  "resolveWorkspace config tenantId =
     (case find (\<lambda>w. tenantId \<in> set (opt_list (wc_tenant_ids w)))
             (case config of Some c \<Rightarrow> opt_list (id_workspaces c) | None \<Rightarrow> []) of
        Some w \<Rightarrow> \<lparr>rw_id = wc_id w, rw_label = default_to (wc_id w) (wc_label w), rw_source = SourceMapping,
                   rw_tenant_ids = opt_list (wc_tenant_ids w)\<rparr>
      | None \<Rightarrow>
          (case (case config of Some c \<Rightarrow> id_default_workspace_id c | None \<Rightarrow> None) of
             Some d \<Rightarrow>
               (if d \<noteq> [] then \<lparr>rw_id = d, rw_label = d, rw_source = SourceDefault, rw_tenant_ids = []\<rparr>
                else (let t = (if tenantId = [] then ''default'' else tenantId)
                      in \<lparr>rw_id = t, rw_label = t, rw_source = SourceTenant,
                          rw_tenant_ids = (if tenantId = [] then [] else [tenantId])\<rparr>))
           | None \<Rightarrow> (let t = (if tenantId = [] then ''default'' else tenantId)
                      in \<lparr>rw_id = t, rw_label = t, rw_source = SourceTenant,
                          rw_tenant_ids = (if tenantId = [] then [] else [tenantId])\<rparr>)))"

subsection \<open>Templates\<close>

definition is_word :: "char \<Rightarrow> bool" where
  "is_word c = (let n = (of_char c :: nat)
     in (48 \<le> n \<and> n \<le> 57) \<or> (65 \<le> n \<and> n \<le> 90) \<or> (97 \<le> n \<and> n \<le> 122) \<or> n = 95)"

text \<open>The pattern of two opening braces, word characters and two closing braces at the front.\<close>

definition template_at :: "string \<Rightarrow> (string \<times> string) option" where
  "template_at s =
     (if starts_with s ''{{''
      then (let w = takeWhile is_word (drop 2 s); r = dropWhile is_word (drop 2 s)
            in if w \<noteq> [] \<and> starts_with r ''}}'' then Some (w, drop 2 r) else None)
      else None)"

lemma template_at_shorter: "template_at s = Some (w, r) \<Longrightarrow> length r < length s"
proof -
  assume t: "template_at s = Some (w, r)"
  then have pre: "prefix ''{{'' s" and r: "r = drop 2 (dropWhile is_word (drop 2 s))"
    by (auto simp: template_at_def Let_def split: if_splits)
  have "length s \<ge> 2" using prefix_length_le [OF pre] by simp
  moreover have "length (dropWhile is_word (drop 2 s)) \<le> length (drop 2 s)" by (rule length_dropWhile_le)
  ultimately show ?thesis by (simp add: r)
qed

function interpolate :: "(string \<Rightarrow> string) \<Rightarrow> string \<Rightarrow> string" where
  "interpolate value [] = []"
| "interpolate value (c # cs) =
     (case template_at (c # cs) of
        Some (key, rest) \<Rightarrow> value key @ interpolate value rest
      | None \<Rightarrow> c # interpolate value cs)"
  by pat_completeness auto

termination interpolate
  by (relation "measure (length \<circ> snd)") (auto dest: template_at_shorter)

text \<open>
  \<open>values[key] ?? ''\<close>: a name that no value has is empty, unless it is one of the members
  every object inherits.
\<close>

definition interpolateTemplate :: "string \<Rightarrow> (string \<times> string) list \<Rightarrow> string" where
  "interpolateTemplate tmpl vals =
     interpolate (\<lambda>key. case map_of vals key of Some v \<Rightarrow> v
        | None \<Rightarrow> (if key \<in> set object_members then js_string (JBuiltin key) else [])) tmpl"

definition buildTemplateValues ::
  "principal \<Rightarrow> resolved_workspace \<Rightarrow> resolved_account \<Rightarrow> (string \<times> string) list" where
  "buildTemplateValues p ws acc =
     [(''access_token'', ra_access_token acc), (''token_type'', ar_token_type (ra_row acc)),
      (''account_id'', ar_id (ra_row acc)), (''workspace_id'', rw_id ws), (''tenant_id'', pr_tenant_id p),
      (''client_id'', pr_client_id p), (''provider'', ar_provider (ra_row acc))] @
     (case ra_refresh_token acc of Some t \<Rightarrow> if t = [] then [] else [(''refresh_token'', t)] | None \<Rightarrow> [])"

subsection \<open>Connected accounts of a request\<close>

definition quote :: "string \<Rightarrow> string" where
  "quote s = CHR 0x22 # s @ [CHR 0x22]"

definition transport_name :: "transport_kind option \<Rightarrow> string" where
  "transport_name t = (case t of Some Stdio \<Rightarrow> ''stdio'' | _ \<Rightarrow> ''http'')"

definition account_query_of :: "connected_account_config \<Rightarrow> resolved_workspace \<Rightarrow> principal \<Rightarrow> account_query" where
  "account_query_of req ws p = \<lparr>aq_workspace_id = rw_id ws, aq_provider = cc_provider req,
     aq_client_id = pr_client_id p, aq_tenant_id = pr_tenant_id p,
     aq_binding = default_to BindClientOrWorkspace (cc_binding req)\<rparr>"

definition account_requirement :: "'z gateway_server_scheme \<Rightarrow> connected_account_config option" where
  "account_requirement server =
     (case gs_upstream_auth server of Some a \<Rightarrow> ua_connected_account a | None \<Rightarrow> None)"

definition resolveConnectedAccount ::
  "identity_runtime \<Rightarrow> 'z gateway_server_scheme \<Rightarrow> principal \<Rightarrow> resolved_workspace \<Rightarrow> string + resolved_account option" where
  "resolveConnectedAccount rt server p ws =
     (case account_requirement server of
        None \<Rightarrow> Inr None
      | Some req \<Rightarrow>
          (if default_to Http (sc_transport server) \<noteq> Http
           then Inl (''Server '' @ quote (sc_id server) @ '' uses '' @ transport_name (sc_transport server) @
                     '' transport and cannot resolve per-request connected accounts'')
           else if \<not> identity_enabled rt
           then Inl (''Identity plane is disabled but server '' @ quote (sc_id server) @ '' requires provider '' @
                     quote (cc_provider req))
           else case ir_store rt of
             None \<Rightarrow> Inr None
           | Some store \<Rightarrow>
               (case store_resolveConnectedAccount (account_query_of req ws p) store of
                  Inl e \<Rightarrow> Inl e
                | Inr (Some acc) \<Rightarrow> Inr (Some acc)
                | Inr None \<Rightarrow>
                    (if cc_required req \<noteq> Some False
                     then Inl (''No connected account for provider '' @ quote (cc_provider req) @
                               '' in workspace '' @ quote (rw_id ws))
                     else Inr None))))"

subsection \<open>Headers to the upstream\<close>

definition forward_identity_of :: "'z gateway_server_scheme \<Rightarrow> forward_identity_config option" where
  "forward_identity_of server =
     (case gs_upstream_auth server of Some a \<Rightarrow> ua_forward_identity a | None \<Rightarrow> None)"

definition forward_mode_of :: "'z gateway_server_scheme \<Rightarrow> forward_mode" where
  "forward_mode_of server = (case forward_identity_of server of Some f \<Rightarrow> default_to ModeNone (fi_mode f) | None \<Rightarrow> ModeNone)"

definition claims_payload :: "principal \<Rightarrow> resolved_workspace \<Rightarrow> json" where
  "claims_payload p ws =
     JObj ([(''client_id'', JStr (pr_client_id p)), (''tenant_id'', JStr (pr_tenant_id p)),
            (''workspace_id'', JStr (rw_id ws))] @
           (case pr_claims p of Some c \<Rightarrow> [(''claims'', JObj c)] | None \<Rightarrow> []))"

definition claims_header_name :: "forward_identity_config \<Rightarrow> string" where
  "claims_header_name f =
     (case fi_header_name f of
        Some n \<Rightarrow> (if trim n = [] then ''X-Conduit-Identity'' else trim n)
      | None \<Rightarrow> ''X-Conduit-Identity'')"

definition identity_headers :: "(string \<Rightarrow> string) \<Rightarrow> 'z gateway_server_scheme \<Rightarrow> principal \<Rightarrow> resolved_workspace \<Rightarrow> (string \<times> string) list" where
  "identity_headers b64url server p ws =
     (case forward_identity_of server of
        None \<Rightarrow> []
      | Some f \<Rightarrow>
          (case default_to ModeNone (fi_mode f) of
             ModeNone \<Rightarrow> []
           | ModeBearer \<Rightarrow>
               (case pr_auth_header p of
                  Some h \<Rightarrow> (if h = [] then [] else [(''Authorization'', h)])
                | None \<Rightarrow> [])
           | ModeClaimsHeader \<Rightarrow>
               obj_assign (claims_header_name f)
                 (b64url (case stringify (claims_payload p ws) of Some t \<Rightarrow> t | None \<Rightarrow> [])) []))"

definition default_header_templates :: "(string \<times> string) list" where
  "default_header_templates = [(''Authorization'', ''{{token_type}} {{access_token}}'')]"

definition account_headers :: "'z gateway_server_scheme \<Rightarrow> principal \<Rightarrow> resolved_workspace \<Rightarrow> resolved_account \<Rightarrow>
    (string \<times> string) list \<Rightarrow> (string \<times> string) list" where
  "account_headers server p ws acc headers =
     fold (\<lambda>(name, tmpl). obj_assign name (interpolateTemplate tmpl (buildTemplateValues p ws acc)))
       (case account_requirement server of
          Some req \<Rightarrow> default_to default_header_templates (cc_headers req)
        | None \<Rightarrow> default_header_templates) headers"

record upstream_auth =
  up_workspace :: resolved_workspace
  up_headers :: "(string \<times> string) list"
  up_connected_account :: "account_row option"

definition resolveUpstreamHeaders ::
  "(string \<Rightarrow> string) \<Rightarrow> identity_runtime \<Rightarrow> 'z gateway_server_scheme \<Rightarrow> principal \<Rightarrow> string + upstream_auth" where
  "resolveUpstreamHeaders b64url rt server p =
     (let ws = resolveWorkspace (ir_config rt) (pr_tenant_id p);
          headers = identity_headers b64url server p ws
      in case resolveConnectedAccount rt server p ws of
           Inl e \<Rightarrow> Inl e
         | Inr None \<Rightarrow> Inr \<lparr>up_workspace = ws, up_headers = headers, up_connected_account = None\<rparr>
         | Inr (Some acc) \<Rightarrow>
             Inr \<lparr>up_workspace = ws, up_headers = account_headers server p ws acc headers,
                  up_connected_account = Some (ra_row acc)\<rparr>)"

subsection \<open>Preflight\<close>

datatype preflight_status =
    StatusNone | Ready | OptionalUnresolved | MissingConnectedAccount | IdentityDisabled
  | PrincipalRequired | UnsupportedTransport

record server_preflight =
  sp_server_id :: string
  sp_status :: preflight_status
  sp_ready :: bool
  sp_blocking :: bool
  sp_forward_mode :: forward_mode
  sp_workspace :: "resolved_workspace option"
  sp_account :: "account_row option"

text \<open>The store's error for a missing secret is thrown by the preflight too.\<close>

definition getServerPreflight ::
  "identity_runtime \<Rightarrow> 'z gateway_server_scheme \<Rightarrow> principal option \<Rightarrow> string + server_preflight" where
  "getServerPreflight rt server p =
     (let base = (\<lambda>status ready blocking ws acc. \<lparr>sp_server_id = sc_id server, sp_status = status, sp_ready = ready,
            sp_blocking = blocking, sp_forward_mode = forward_mode_of server, sp_workspace = ws, sp_account = acc\<rparr>)
      in case account_requirement server of
           None \<Rightarrow> Inr (base StatusNone True False None None)
         | Some req \<Rightarrow>
             (let required = (cc_required req \<noteq> Some False)
              in if default_to Http (sc_transport server) \<noteq> Http
                 then Inr (base UnsupportedTransport (\<not> required) required None None)
                 else if \<not> identity_enabled rt then Inr (base IdentityDisabled (\<not> required) required None None)
                 else case p of
                   None \<Rightarrow> Inr (base PrincipalRequired (\<not> required) required None None)
                 | Some q \<Rightarrow>
                     (let ws = resolveWorkspace (ir_config rt) (pr_tenant_id q)
                      in case (case ir_store rt of Some st \<Rightarrow> store_resolveConnectedAccount (account_query_of req ws q) st
                                 | None \<Rightarrow> Inr None) of
                           Inl e \<Rightarrow> Inl e
                         | Inr None \<Rightarrow>
                             Inr (base (if required then MissingConnectedAccount else OptionalUnresolved)
                                   (\<not> required) required (Some ws) None)
                         | Inr (Some acc) \<Rightarrow> Inr (base Ready True False (Some ws) (Some (ra_row acc))))))"

definition getProfilePreflight ::
  "identity_runtime \<Rightarrow> 'z gateway_server_scheme list \<Rightarrow> principal option \<Rightarrow> string + (bool \<times> nat \<times> server_preflight list)" where
  "getProfilePreflight rt servers p =
     (let reqs = map (\<lambda>s. getServerPreflight rt s p) servers
      in case find isl reqs of
           Some r \<Rightarrow> Inl (projl r)
         | None \<Rightarrow>
             (let requirements = map projr reqs
              in Inr (list_all (\<lambda>r. \<not> sp_blocking r) requirements, length (filter sp_blocking requirements), requirements)))"

subsection \<open>Whose account a request uses\<close>

lemma findOneD:
  "findOne ws provider client tenant st = Some r \<Longrightarrow> r \<in> set (is_accounts st) \<and> ar_workspace_id r = ws \<and>
   ar_provider r = provider \<and> ar_client_id r = client \<and> ar_tenant_id r = tenant \<and> ar_revoked_at r = None"
  by (auto simp: findOne_def dest!: newest_in)

lemma store_resolveD:
  "store_resolveConnectedAccount q st = Inr (Some acc) \<Longrightarrow> resolveAccountRow q st = Some (ra_row acc)"
  by (auto simp: store_resolveConnectedAccount_def split: option.splits)

lemma resolveAccountRowD:
  assumes "resolveAccountRow q st = Some r"
  shows "r \<in> set (is_accounts st) \<and> ar_revoked_at r = None \<and> ar_workspace_id r = aq_workspace_id q \<and>
    ar_provider r = aq_provider q \<and>
    ar_client_id r \<in> (case aq_binding q of BindClient \<Rightarrow> {Some (aq_client_id q)}
       | BindClientOrWorkspace \<Rightarrow> {Some (aq_client_id q), None} | _ \<Rightarrow> {None}) \<and>
    ar_tenant_id r \<in> (case aq_binding q of BindTenant \<Rightarrow> {Some (aq_tenant_id q)} | _ \<Rightarrow> {None})"
  using assms by (auto simp: resolveAccountRow_def split: binding.splits option.splits dest!: findOneD)

lemma request_accountD:
  assumes "resolveConnectedAccount rt server p ws = Inr (Some acc)"
  obtains req st where "account_requirement server = Some req" "ir_store rt = Some st"
    "identity_enabled rt" "default_to Http (sc_transport server) = Http"
    "store_resolveConnectedAccount (account_query_of req ws p) st = Inr (Some acc)"
  using assms by (auto simp: resolveConnectedAccount_def split: option.splits if_splits sum.splits)

text \<open>C9. The account whose token goes upstream is a live account of the provider in the workspace
  of the caller's tenant, and it is the caller's own, the tenant's or the workspace's as the
  binding of the server says, never that of another client or tenant.\<close>

theorem upstream_account_isolation:
  assumes "resolveUpstreamHeaders b64url rt server p = Inr up" "up_connected_account up = Some row"
  shows "\<exists>req st. account_requirement server = Some req \<and> ir_store rt = Some st \<and> row \<in> set (is_accounts st) \<and>
    ar_revoked_at row = None \<and> ar_provider row = cc_provider req \<and>
    ar_workspace_id row = rw_id (resolveWorkspace (ir_config rt) (pr_tenant_id p)) \<and>
    (ar_client_id row, ar_tenant_id row) \<in>
      (case default_to BindClientOrWorkspace (cc_binding req) of
         BindClient \<Rightarrow> {(Some (pr_client_id p), None)}
       | BindTenant \<Rightarrow> {(None, Some (pr_tenant_id p))}
       | BindWorkspace \<Rightarrow> {(None, None)}
       | BindClientOrWorkspace \<Rightarrow> {(Some (pr_client_id p), None), (None, None)})"
proof -
  let ?ws = "resolveWorkspace (ir_config rt) (pr_tenant_id p)"
  obtain acc where acc: "resolveConnectedAccount rt server p ?ws = Inr (Some acc)" and row: "row = ra_row acc"
    using assms by (auto simp: resolveUpstreamHeaders_def Let_def split: sum.splits option.splits)
  obtain req st where r: "account_requirement server = Some req" "ir_store rt = Some st"
    and q: "store_resolveConnectedAccount (account_query_of req ?ws p) st = Inr (Some acc)"
    using request_accountD [OF acc] by metis
  note d = resolveAccountRowD [OF store_resolveD [OF q]]
  show ?thesis
    using r d by (auto simp: row account_query_of_def split: binding.splits)
qed

subsection \<open>The preflight against the request\<close>

lemma resolve_total: "identity_ok st \<Longrightarrow> \<exists>res. store_resolveConnectedAccount q st = Inr res"
proof -
  assume ok: "identity_ok st"
  have "map_has (is_secrets st) (ar_access_token_secret_id r)" if "resolveAccountRow q st = Some r" for r
    using identity_okD(3) [OF ok] resolveAccountRowD [OF that] by (simp add: account_refs_ok_def)
  then show ?thesis by (auto simp: store_resolveConnectedAccount_def readSecret_def split: option.split)
qed

text \<open>C12. On consistent tables a request to the upstream is refused for want of an identity exactly
  when the preflight of its server reports a missing account, the wrong transport or a disabled
  identity plane; what the preflight calls blocking is always refused.\<close>

theorem preflight_agrees:
  assumes "\<forall>st. ir_store rt = Some st \<longrightarrow> identity_ok st"
    and "getServerPreflight rt server (Some p) = Inr pf"
  shows "(isl (resolveUpstreamHeaders b64url rt server p) \<longleftrightarrow>
      sp_status pf \<in> {MissingConnectedAccount, UnsupportedTransport, IdentityDisabled}) \<and>
    (sp_blocking pf \<longrightarrow> isl (resolveUpstreamHeaders b64url rt server p))"
proof (cases "account_requirement server")
  case None
  with assms(2) show ?thesis
    by (auto simp: getServerPreflight_def resolveUpstreamHeaders_def resolveConnectedAccount_def Let_def)
next
  case (Some req)
  let ?ws = "resolveWorkspace (ir_config rt) (pr_tenant_id p)"
  show ?thesis
  proof (cases "default_to Http (sc_transport server) = Http \<and> identity_enabled rt")
    case False
    with Some assms(2) show ?thesis
      by (auto simp: getServerPreflight_def resolveUpstreamHeaders_def resolveConnectedAccount_def Let_def split: if_splits)
  next
    case True
    then obtain st where st: "ir_store rt = Some st" by (auto simp: identity_enabled_def)
    obtain res where res: "store_resolveConnectedAccount (account_query_of req ?ws p) st = Inr res"
      using resolve_total assms(1) st by blast
    from True Some assms(2) st res show ?thesis
      by (cases res) (auto simp: getServerPreflight_def resolveUpstreamHeaders_def resolveConnectedAccount_def Let_def)
  qed
qed

text \<open>
  An optional account is no obstacle for the preflight when the identity plane is disabled, or
  the transport has no headers; the request is refused all the same.
\<close>

lemma optional_account_refused:
  assumes "account_requirement server = Some req" "cc_required req = Some False" "\<not> identity_enabled rt"
  shows "map_option sp_ready (case getServerPreflight rt server (Some p) of Inr pf \<Rightarrow> Some pf | _ \<Rightarrow> None) = Some True"
    and "isl (resolveUpstreamHeaders b64url rt server p)"
  using assms
  by (auto simp: getServerPreflight_def resolveUpstreamHeaders_def resolveConnectedAccount_def Let_def)

subsection \<open>An example\<close>

definition example_identity :: identity_runtime where
  "example_identity = \<lparr>ir_config = Some \<lparr>id_enabled = True, id_default_workspace_id = Some ''w'', id_workspaces = None\<rparr>,
     ir_store = Some identity_example\<rparr>"

definition github_server :: gateway_server where
  "github_server = \<lparr>sc_id = ''gh'', sc_url = ''http://gh'', sc_replicas = None, sc_transport = None,
     gs_cache = \<lparr>scc_default_ttl = 60, scc_overrides = None\<rparr>,
     gs_upstream_auth = Some \<lparr>ua_connected_account = Some \<lparr>cc_provider = ''github'', cc_binding = Some BindClient,
        cc_required = None, cc_headers = None\<rparr>, ua_forward_identity = None\<rparr>,
     gs_forward_authorization = None\<rparr>"

definition client_of :: "string \<Rightarrow> principal" where
  "client_of c = \<lparr>pr_client_id = c, pr_tenant_id = ''default'', pr_auth_header = None, pr_claims = None\<rparr>"

definition example_up :: upstream_auth where
  "example_up = projr (resolveUpstreamHeaders id example_identity github_server (client_of ''alice''))"

lemma example_up_facts:
  "resolveUpstreamHeaders id example_identity github_server (client_of ''alice'') = Inr example_up"
  "up_headers example_up = [(''Authorization'', ''Bearer old'')]"
  "map_option ar_id (up_connected_account example_up) = Some ''a1''"
proof -
  have "\<not> isl (resolveUpstreamHeaders id example_identity github_server (client_of ''alice''))" by code_simp
  then show "resolveUpstreamHeaders id example_identity github_server (client_of ''alice'') = Inr example_up"
    unfolding example_up_def by (simp add: sum.collapse)
qed code_simp+

theorem upstream_account_isolation_witness:
  "\<exists>row. up_connected_account example_up = Some row \<and> ar_client_id row = Some ''alice'' \<and> ar_workspace_id row = ''w''"
proof -
  obtain row where row: "up_connected_account example_up = Some row" using example_up_facts(3) by blast
  have req: "account_requirement github_server = Some \<lparr>cc_provider = ''github'', cc_binding = Some BindClient,
      cc_required = None, cc_headers = None\<rparr>"
    by (simp add: account_requirement_def github_server_def)
  show ?thesis
    using upstream_account_isolation [OF example_up_facts(1) row] row
    by (auto simp: req default_to_def client_of_def resolveWorkspace_def example_identity_def opt_list_def)
qed

definition example_preflight :: "string \<Rightarrow> server_preflight" where
  "example_preflight c = projr (getServerPreflight example_identity github_server (Some (client_of c)))"

theorem preflight_agrees_witness:
  "sp_status (example_preflight ''bob'') = MissingConnectedAccount \<and>
   isl (resolveUpstreamHeaders id example_identity github_server (client_of ''bob'')) \<and>
   sp_status (example_preflight ''alice'') = Ready \<and>
   \<not> isl (resolveUpstreamHeaders id example_identity github_server (client_of ''alice''))"
proof -
  have ok: "\<forall>st. ir_store example_identity = Some st \<longrightarrow> identity_ok st"
    using identity_step_ok [of empty_identity "CreateAccount 1 (''a1'', ''s1'', ''r1'') (account_input ''old'')"]
    by (simp add: example_identity_def identity_example_def identity_ok_def empty_identity_def map_wf_def)
  have p: "getServerPreflight example_identity github_server (Some (client_of c)) = Inr (example_preflight c)"
    if "\<not> isl (getServerPreflight example_identity github_server (Some (client_of c)))" for c
    using that unfolding example_preflight_def by (simp add: sum.collapse)
  have bob: "\<not> isl (getServerPreflight example_identity github_server (Some (client_of ''bob'')))"
    "sp_status (example_preflight ''bob'') = MissingConnectedAccount" by code_simp+
  have alice: "\<not> isl (getServerPreflight example_identity github_server (Some (client_of ''alice'')))"
    "sp_status (example_preflight ''alice'') = Ready" by code_simp+
  show ?thesis
    using preflight_agrees [OF ok p [OF bob(1)], of id] preflight_agrees [OF ok p [OF alice(1)], of id] bob(2) alice(2)
    by simp
qed

end
