(* ===== verification/Profiles.thy ===== *)
theory Profiles
  imports Identity
begin

section \<open>Connect profiles (src/src/connect/profile-target.ts, connect/export.ts)\<close>

text \<open>
  A profile names a selection of the configured servers and is served under a target id of
  its own.  The requests to such a target see the servers of the profile only; the pipeline
  uses \<open>extractProfileIdFromTarget\<close> and \<open>resolveConnectProfile\<close>, whose \<open>Inl\<close> is the error
  it throws for a profile that is not there.
\<close>

definition PROFILE_TARGET_PREFIX :: string where "PROFILE_TARGET_PREFIX = ''__conduit_profile__:''"

definition buildProfileTargetId :: "string \<Rightarrow> string" where
  "buildProfileTargetId profileId = PROFILE_TARGET_PREFIX @ profileId"

definition isProfileTargetId :: "string \<Rightarrow> bool" where
  "isProfileTargetId v = starts_with v PROFILE_TARGET_PREFIX"

definition extractProfileIdFromTarget :: "string \<Rightarrow> string option" where
  "extractProfileIdFromTarget v =
     (if \<not> isProfileTargetId v then None else Some (drop (length PROFILE_TARGET_PREFIX) v))"

record connect_profile_config =
  pf_id :: string
  pf_label :: "string option"
  pf_description :: "string option"
  pf_server_ids :: "string list"

record connect_profile =
  cp_id :: string
  cp_label :: string
  cp_description :: string
  cp_servers :: "gateway_server list"

definition is_alnum :: "char \<Rightarrow> bool" where
  "is_alnum c \<longleftrightarrow> is_word c \<and> c \<noteq> CHR ''_''"

definition upper_char :: "char \<Rightarrow> char" where
  "upper_char c = (let n = (of_char c :: nat) in if 97 \<le> n \<and> n \<le> 122 then char_of (n - 32) else c)"

text \<open>The parts between the runs of other characters; the empty ones are dropped in \<open>titleCaseId\<close>.\<close>

fun alnum_parts :: "string \<Rightarrow> string \<Rightarrow> string list" where
  "alnum_parts part [] = [part]"
| "alnum_parts part (c # cs) = (if is_alnum c then alnum_parts (part @ [c]) cs else part # alnum_parts [] cs)"

definition title_part :: "string \<Rightarrow> string" where
  "title_part p = (case p of [] \<Rightarrow> [] | c # cs \<Rightarrow> upper_char c # cs)"

definition titleCaseId :: "string \<Rightarrow> string" where
  "titleCaseId v =
     (let t = join_with '' '' (map title_part (filter (\<lambda>p. p \<noteq> []) (alnum_parts [] v)))
      in if t = [] then v else t)"

definition find_server :: "gateway_server list \<Rightarrow> string \<Rightarrow> gateway_server option" where
  "find_server servers serverId = find (\<lambda>s. sc_id s = serverId) servers"

definition configured_profile :: "gateway_server list \<Rightarrow> connect_profile_config \<Rightarrow> connect_profile" where
  "configured_profile servers p = \<lparr>cp_id = pf_id p, cp_label = default_to (titleCaseId (pf_id p)) (pf_label p),
     cp_description = default_to (''Selected Conduit servers for profile '' @ quote (pf_id p) @ ''.'') (pf_description p),
     cp_servers = List.map_filter (find_server servers) (pf_server_ids p)\<rparr>"

definition resolveAllConnectProfiles ::
  "gateway_server list \<Rightarrow> connect_profile_config list option \<Rightarrow> connect_profile list" where
  "resolveAllConnectProfiles servers profiles =
     \<lparr>cp_id = ''default'', cp_label = ''Default'',
      cp_description = ''All configured upstream MCP servers exposed through this Conduit gateway.'',
      cp_servers = servers\<rparr> # map (configured_profile servers) (opt_list profiles)"

definition resolveConnectProfile ::
  "gateway_server list \<Rightarrow> connect_profile_config list option \<Rightarrow> string \<Rightarrow> string + connect_profile" where
  "resolveConnectProfile servers profiles profileId =
     (case find (\<lambda>p. cp_id p = profileId) (resolveAllConnectProfiles servers profiles) of
        None \<Rightarrow> Inl (''Unknown connect profile '' @ quote profileId)
      | Some p \<Rightarrow> Inr p)"

subsection \<open>Lemmas\<close>

lemma extract_profile_target: "extractProfileIdFromTarget (buildProfileTargetId p) = Some p"
  by (simp add: extractProfileIdFromTarget_def isProfileTargetId_def buildProfileTargetId_def)

lemma extract_profile_iff: "extractProfileIdFromTarget v = Some p \<longleftrightarrow> v = buildProfileTargetId p"
  by (auto simp: extractProfileIdFromTarget_def isProfileTargetId_def buildProfileTargetId_def prefix_def)

lemma find_server_Some: "find_server servers i = Some s \<Longrightarrow> s \<in> set servers \<and> sc_id s = i"
  by (auto simp: find_server_def find_Some_iff)

lemma find_in: "find P xs = Some x \<Longrightarrow> x \<in> set xs \<and> P x"
  by (auto simp: find_Some_iff)

lemma profile_servers_configured:
  "p \<in> set (resolveAllConnectProfiles servers profiles) \<Longrightarrow> set (cp_servers p) \<subseteq> set servers"
proof -
  have m: "set (List.map_filter (find_server servers) ids) \<subseteq> set servers" for ids
    using find_server_Some by (fastforce simp: map_filter_def)
  show "p \<in> set (resolveAllConnectProfiles servers profiles) \<Longrightarrow> set (cp_servers p) \<subseteq> set servers"
    by (auto simp: resolveAllConnectProfiles_def configured_profile_def dest!: subsetD [OF m])
qed

lemma resolved_profile:
  assumes "resolveConnectProfile servers profiles p = Inr pr"
  shows "cp_id pr = p" "set (cp_servers pr) \<subseteq> set servers"
proof -
  from assms have "find (\<lambda>q. cp_id q = p) (resolveAllConnectProfiles servers profiles) = Some pr"
    by (simp add: resolveConnectProfile_def split: option.splits)
  from find_in [OF this] show "cp_id pr = p" "set (cp_servers pr) \<subseteq> set servers"
    using profile_servers_configured by blast+
qed

text \<open>The built-in profile is found before one that is configured under its name.\<close>

lemma default_profile_servers:
  "\<exists>pr. resolveConnectProfile servers profiles ''default'' = Inr pr \<and> cp_servers pr = servers"
  by (simp add: resolveConnectProfile_def resolveAllConnectProfiles_def)

end
