(* ===== verification/Inflight.thy ===== *)
theory Inflight
  imports Json
begin

section \<open>Deduplication of requests in flight (src/src/cache/inflight.ts)\<close>

text \<open>
  \<open>InflightTracker.deduplicate\<close> lets the first caller of a key start the upstream request and
  every other caller of that key wait for its result.  A promise is the number of the flight
  it stands for; \<open>deduplicate\<close> is the synchronous part of the method up to its first
  \<open>await\<close>, and \<open>settle\<close> is what happens when the flight ends, with a result or an error:
  the \<open>finally\<close> handler removes the entry and all callers that wait receive it.
\<close>

record inflight_entry =
  ie_promise :: nat
  ie_startedAt :: timestamp
  ie_coalesced :: int

record waiting_call =
  wc_caller :: nat
  wc_key :: string
  wc_promise :: nat
  wc_wasCoalesced :: bool

text \<open>What a flight ends with: the error its factory throws, or the result of the tool.\<close>

datatype flight_error = IdentityFailure string | RpcFailure json json | OtherFailure string

type_synonym outcome = "flight_error + json"

text \<open>
  The tracker with the flights that run, the callers that wait, what they have received, and
  the number of the next flight.
\<close>

record tracker =
  tk_inflight :: "(string, inflight_entry) jsmap"
  tk_running :: "(nat \<times> string) list"
  tk_waiting :: "waiting_call list"
  tk_received :: "(waiting_call \<times> outcome) list"
  tk_next :: nat

definition new_tracker :: tracker where
  "new_tracker = \<lparr>tk_inflight = [], tk_running = [], tk_waiting = [], tk_received = [], tk_next = 0\<rparr>"

text \<open>\<open>sync_throw\<close>: the factory throws before it returns a promise, and nothing is registered.\<close>

definition deduplicate :: "timestamp \<Rightarrow> nat \<Rightarrow> string \<Rightarrow> bool \<Rightarrow> tracker \<Rightarrow> tracker" where
  "deduplicate now caller key sync_throw t =
     (case map_of (tk_inflight t) key of
        Some existing \<Rightarrow>
          t\<lparr>tk_inflight := AList.update key (existing\<lparr>ie_coalesced := ie_coalesced existing + 1\<rparr>) (tk_inflight t),
            tk_waiting := tk_waiting t @ [\<lparr>wc_caller = caller, wc_key = key, wc_promise = ie_promise existing,
                                         wc_wasCoalesced = True\<rparr>]\<rparr>
      | None \<Rightarrow>
          (if sync_throw then t
           else t\<lparr>tk_inflight := AList.update key \<lparr>ie_promise = tk_next t, ie_startedAt = now, ie_coalesced = 0\<rparr>
                      (tk_inflight t),
                  tk_running := tk_running t @ [(tk_next t, key)],
                  tk_waiting := tk_waiting t @ [\<lparr>wc_caller = caller, wc_key = key, wc_promise = tk_next t,
                                               wc_wasCoalesced = False\<rparr>],
                  tk_next := tk_next t + 1\<rparr>))"

definition settle :: "nat \<times> string \<Rightarrow> outcome \<Rightarrow> tracker \<Rightarrow> tracker" where
  "settle flight result t =
     t\<lparr>tk_inflight := AList.delete (snd flight) (tk_inflight t),
       tk_running := removeAll flight (tk_running t),
       tk_waiting := filter (\<lambda>w. wc_promise w \<noteq> fst flight) (tk_waiting t),
       tk_received := tk_received t @
         map (\<lambda>w. (w, result)) (filter (\<lambda>w. wc_promise w = fst flight) (tk_waiting t))\<rparr>"

definition tracker_has :: "string \<Rightarrow> tracker \<Rightarrow> bool" where
  "tracker_has key t = map_has (tk_inflight t) key"

definition getInflightSnapshot :: "tracker \<Rightarrow> (string \<times> timestamp \<times> int) list" where
  "getInflightSnapshot t = map (\<lambda>(key, e). (key, ie_startedAt e, ie_coalesced e)) (tk_inflight t)"

inductive tracker_reachable :: "tracker \<Rightarrow> bool" where
  new: "tracker_reachable new_tracker"
| call: "tracker_reachable t \<Longrightarrow> tracker_reachable (deduplicate now caller key sync_throw t)"
| settle: "tracker_reachable t \<Longrightarrow> flight \<in> set (tk_running t) \<Longrightarrow> tracker_reachable (settle flight result t)"

definition tracker_invar :: "tracker \<Rightarrow> bool" where
  "tracker_invar t \<longleftrightarrow>
     (\<forall>k p. (p, k) \<in> set (tk_running t) \<longleftrightarrow> map_option ie_promise (map_of (tk_inflight t) k) = Some p) \<and>
     (\<forall>w \<in> set (tk_waiting t). (wc_promise w, wc_key w) \<in> set (tk_running t)) \<and>
     (\<forall>p k. (p, k) \<in> set (tk_running t) \<longrightarrow> p < tk_next t) \<and>
     inj_on fst (set (tk_running t))"

lemma tracker_invarD:
  assumes "tracker_invar t"
  shows "(p, k) \<in> set (tk_running t) \<longleftrightarrow> map_option ie_promise (map_of (tk_inflight t) k) = Some p"
    and "w \<in> set (tk_waiting t) \<Longrightarrow> (wc_promise w, wc_key w) \<in> set (tk_running t)"
    and "(p, k) \<in> set (tk_running t) \<Longrightarrow> p < tk_next t"
    and "inj_on fst (set (tk_running t))"
  using assms unfolding tracker_invar_def by blast+

lemma tracker_invarI:
  assumes "\<And>k p. (p, k) \<in> set (tk_running t) \<longleftrightarrow> map_option ie_promise (map_of (tk_inflight t) k) = Some p"
    and "\<And>w. w \<in> set (tk_waiting t) \<Longrightarrow> (wc_promise w, wc_key w) \<in> set (tk_running t)"
    and "\<And>p k. (p, k) \<in> set (tk_running t) \<Longrightarrow> p < tk_next t"
    and "inj_on fst (set (tk_running t))"
  shows "tracker_invar t"
  using assms unfolding tracker_invar_def by blast

lemma deduplicate_invar:
  assumes "tracker_invar t"
  shows "tracker_invar (deduplicate now caller key sync_throw t)"
proof (cases "map_of (tk_inflight t) key")
  case (Some e)
  note inv = tracker_invarD [OF assms]
  have here: "(ie_promise e, key) \<in> set (tk_running t)" using inv(1) Some by simp
  let ?t = "deduplicate now caller key sync_throw t"
  have fields: "tk_running ?t = tk_running t" "tk_next ?t = tk_next t"
    "map_option ie_promise (map_of (tk_inflight ?t) k) = map_option ie_promise (map_of (tk_inflight t) k)"
    "w \<in> set (tk_waiting ?t) \<Longrightarrow> w \<in> set (tk_waiting t) \<or> wc_promise w = ie_promise e \<and> wc_key w = key" for k w
    using Some by (auto simp: deduplicate_def update_conv')
  show ?thesis
  proof (rule tracker_invarI)
    show "(p, k) \<in> set (tk_running ?t) \<longleftrightarrow> map_option ie_promise (map_of (tk_inflight ?t) k) = Some p" for k p
      unfolding fields by (rule inv(1))
    show "(wc_promise w, wc_key w) \<in> set (tk_running ?t)" if "w \<in> set (tk_waiting ?t)" for w
      using fields(4) [OF that] inv(2) [of w] here by (auto simp only: fields(1))
  qed (simp_all only: fields inv(3,4))
next
  case None
  note inv = tracker_invarD [OF assms]
  let ?t = "deduplicate now caller key False t" and ?n = "tk_next t"
  have free: "(p, key) \<notin> set (tk_running t)" for p using inv(1) [of p key] None by simp
  have fresh: "(?n, k) \<notin> set (tk_running t)" for k using inv(3) [of ?n k] by blast
  have fields: "set (tk_running ?t) = insert (?n, key) (set (tk_running t))" "tk_next ?t = ?n + 1"
    "map_option ie_promise (map_of (tk_inflight ?t) k) =
       (if k = key then Some ?n else map_option ie_promise (map_of (tk_inflight t) k))"
    "w \<in> set (tk_waiting ?t) \<Longrightarrow> w \<in> set (tk_waiting t) \<or> wc_promise w = ?n \<and> wc_key w = key" for k w
    using None by (auto simp: deduplicate_def update_conv')
  have "tracker_invar ?t"
  proof (rule tracker_invarI)
    show "(p, k) \<in> set (tk_running ?t) \<longleftrightarrow> map_option ie_promise (map_of (tk_inflight ?t) k) = Some p" for k p
      unfolding fields using inv(1) [of p k] free [of p] by auto
    show "(wc_promise w, wc_key w) \<in> set (tk_running ?t)" if "w \<in> set (tk_waiting ?t)" for w
      using fields(4) [OF that] inv(2) [of w] unfolding fields(1) by auto
    show "p < tk_next ?t" if "(p, k) \<in> set (tk_running ?t)" for p k
      using that inv(3) [of p k] unfolding fields by auto
    show "inj_on fst (set (tk_running ?t))"
      unfolding fields using inv(4) fresh by (auto simp: inj_on_def)
  qed
  then show ?thesis using None assms by (cases sync_throw) (simp_all add: deduplicate_def)
qed

lemma settle_invar:
  assumes "tracker_invar t" "flight \<in> set (tk_running t)"
  shows "tracker_invar (settle flight result t)"
proof -
  note inv = tracker_invarD [OF assms(1)]
  obtain p k where f: "flight = (p, k)" by (cases flight)
  have pk: "(p, k) \<in> set (tk_running t)" using assms(2) f by simp
  have same: "p' = p" if "(p', k) \<in> set (tk_running t)" for p'
    using inv(1) [of p' k] inv(1) [of p k] pk that by auto
  have uniq: "k' = k" if "(p, k') \<in> set (tk_running t)" for k'
    using inj_onD [OF inv(4), of "(p, k')" "(p, k)"] that pk by simp
  let ?t = "settle flight result t"
  have fields: "set (tk_running ?t) = set (tk_running t) - {(p, k)}" "tk_next ?t = tk_next t"
    "map_of (tk_inflight ?t) k' = (if k' = k then None else map_of (tk_inflight t) k')"
    "w \<in> set (tk_waiting ?t) \<longleftrightarrow> w \<in> set (tk_waiting t) \<and> wc_promise w \<noteq> p" for k' w
    by (auto simp: settle_def f delete_conv')
  show ?thesis
  proof (rule tracker_invarI)
    show "(p', k') \<in> set (tk_running ?t) \<longleftrightarrow> map_option ie_promise (map_of (tk_inflight ?t) k') = Some p'" for k' p'
      unfolding fields using inv(1) [of p' k'] same [of p'] by auto
    show "(wc_promise w, wc_key w) \<in> set (tk_running ?t)" if "w \<in> set (tk_waiting ?t)" for w
      using that inv(2) [of w] unfolding fields by auto
    show "p' < tk_next ?t" if "(p', k') \<in> set (tk_running ?t)" for p' k'
      using that inv(3) [of p' k'] unfolding fields by auto
    show "inj_on fst (set (tk_running ?t))"
      unfolding fields by (rule inj_on_subset [OF inv(4)]) auto
  qed
qed

lemma tracker_reachable_invar: "tracker_reachable t \<Longrightarrow> tracker_invar t"
proof (induction rule: tracker_reachable.induct)
  case new show ?case by (simp add: tracker_invar_def new_tracker_def)
next
  case (call t now caller key sync_throw) then show ?case by (intro deduplicate_invar)
next
  case (settle t flight result) then show ?case by (intro settle_invar)
qed

text \<open>C18. At any time at most one upstream request runs for a key, every caller that waits for a
  key waits for the request that runs for that key, and when that request ends each of its
  callers receives its outcome and none of them waits any longer.\<close>

theorem inflight_single_flight:
  assumes "tracker_reachable t"
  shows "(\<forall>p q k. (p, k) \<in> set (tk_running t) \<and> (q, k) \<in> set (tk_running t) \<longrightarrow> p = q) \<and>
    (\<forall>w \<in> set (tk_waiting t). (wc_promise w, wc_key w) \<in> set (tk_running t) \<and>
      (w, result) \<in> set (tk_received (settle (wc_promise w, wc_key w) result t)) \<and>
      w \<notin> set (tk_waiting (settle (wc_promise w, wc_key w) result t)))"
proof -
  note inv = tracker_invarD [OF tracker_reachable_invar [OF assms]]
  have "p = q" if "(p, k) \<in> set (tk_running t)" "(q, k) \<in> set (tk_running t)" for p q k
    using inv(1) [of p k] inv(1) [of q k] that by auto
  moreover have "(w, result) \<in> set (tk_received (settle (wc_promise w, wc_key w) result t))"
    "w \<notin> set (tk_waiting (settle (wc_promise w, wc_key w) result t))" if "w \<in> set (tk_waiting t)" for w
    using that by (simp_all add: settle_def)
  ultimately show ?thesis using inv(2) by blast
qed

definition shared_flight :: tracker where
  "shared_flight = deduplicate 12 2 ''k'' False (deduplicate 11 1 ''k'' False new_tracker)"

theorem inflight_single_flight_witness:
  "tk_running shared_flight = [(0, ''k'')] \<and> length (tk_waiting shared_flight) = 2 \<and>
   list_all (\<lambda>w. (w, Inl (OtherFailure ''timeout'')) \<in>
      set (tk_received (settle (wc_promise w, wc_key w) (Inl (OtherFailure ''timeout'')) shared_flight))) (tk_waiting shared_flight)"
proof -
  have r: "tracker_reachable shared_flight"
    unfolding shared_flight_def by (intro tracker_reachable.call tracker_reachable.new)
  have n: "tk_running shared_flight = [(0, ''k'')]" "length (tk_waiting shared_flight) = 2"
    by (simp_all add: shared_flight_def deduplicate_def new_tracker_def)
  show ?thesis using n inflight_single_flight [OF r, of "Inl (OtherFailure ''timeout'')"] by (auto simp: list_all_iff)
qed

end
