(* ===== verification/Cache_Key.thy ===== *)
theory Cache_Key
  imports Json_Canonical
begin

section \<open>Cache keys (src/src/cache/cache-key.ts)\<close>

text \<open>
  The key of a call is the digest of the canonical text of the server, the tool, the
  arguments that count, and the tenant and the group when there are any.  The digest is the
  parameter \<open>sha256\<close>, and reading the payload of a JWT (base64, UTF-8, \<open>JSON.parse\<close>) the
  parameter \<open>payload_of\<close>, \<open>None\<close> where it throws.
\<close>

record cache_key_options =
  cko_serverId :: string
  cko_toolName :: string
  cko_args :: jobject
  cko_tenantId :: "string option"
  cko_groupId :: "string option"
  cko_ignoreArgs :: "string list option"

definition filterArgs :: "jobject \<Rightarrow> string list \<Rightarrow> jobject" where
  "filterArgs args ignoreArgs =
     fold (\<lambda>(key, value) filtered.
         if key \<in> set ignoreArgs then filtered
         else if value = JUndef then filtered
         else obj_assign key value filtered) args []"

definition cache_entries :: "cache_key_options \<Rightarrow> jobject" where
  "cache_entries opts =
     (let ignoreArgs = (case cko_ignoreArgs opts of Some l \<Rightarrow> l | None \<Rightarrow> []);
          filteredArgs = filterArgs (cko_args opts) ignoreArgs
      in [(''server_id'', JStr (cko_serverId opts)), (''tool_name'', JStr (cko_toolName opts)),
          (''args'', JObj filteredArgs)]
         @ (case cko_tenantId opts of Some t \<Rightarrow> [(''tenant_id'', JStr t)] | None \<Rightarrow> [])
         @ (case cko_groupId opts of Some g \<Rightarrow> [(''group_id'', JStr g)] | None \<Rightarrow> []))"

definition cache_components :: "cache_key_options \<Rightarrow> json" where
  "cache_components opts = JObj (cache_entries opts)"

definition generateCacheKey :: "(string \<Rightarrow> string) \<Rightarrow> cache_key_options \<Rightarrow> string option" where
  "generateCacheKey sha256 opts = map_option sha256 (deterministicStringify (cache_components opts))"

subsection \<open>The tenant of a request\<close>

text \<open>\<open>/^Bearer\s+(.+)$/i\<close>: the white space is taken greedily, the token has no line break.\<close>

definition bearerMatch :: "string \<Rightarrow> string option" where
  "bearerMatch h =
     (let rest = drop 6 h; ws = takeWhile is_space rest; after = dropWhile is_space rest;
          token = (if after \<noteq> [] then after else drop (length ws - 1) ws)
      in if to_lower (take 6 h) = ''bearer'' \<and> ws \<noteq> [] \<and> (after \<noteq> [] \<or> 2 \<le> length ws) \<and>
            CHR 0x0A \<notin> set token \<and> CHR 0x0D \<notin> set token
         then Some token else None)"

definition extractJwtClaim :: "(string \<Rightarrow> json option) \<Rightarrow> string \<Rightarrow> string option" where
  "extractJwtClaim payload_of token =
     (let parts = split_on (CHR ''.'') token
      in if length parts \<noteq> 3 then None
         else (let payloadPart = parts ! 1
               in if payloadPart = [] then None
                  else case payload_of payloadPart of
                    Some (JObj payload) \<Rightarrow>
                      (case obj_get payload ''tenant_id'' of
                         JStr t \<Rightarrow> Some t
                       | _ \<Rightarrow> (case obj_get payload ''sub'' of JStr s \<Rightarrow> Some s | _ \<Rightarrow> None))
                  | _ \<Rightarrow> None))"

definition hashOpaqueBearerToken :: "(string \<Rightarrow> string) \<Rightarrow> string \<Rightarrow> string" where
  "hashOpaqueBearerToken sha256 token = ''bearer:'' @ sha256 token"

definition extractTenantId ::
  "(string \<Rightarrow> string) \<Rightarrow> (string \<Rightarrow> json option) \<Rightarrow> string option \<Rightarrow> string option" where
  "extractTenantId sha256 payload_of headerValue =
     (case headerValue of
        None \<Rightarrow> None
      | Some h \<Rightarrow>
          (if h = [] then None
           else case bearerMatch h of
             Some token \<Rightarrow>
               (case extractJwtClaim payload_of token of
                  Some c \<Rightarrow> Some c
                | None \<Rightarrow> Some (hashOpaqueBearerToken sha256 token))
           | None \<Rightarrow> Some h))"

subsection \<open>What a key depends on\<close>

lemma filterArgs_build:
  "filterArgs args ignoreArgs = obj_build (filter (\<lambda>(k, v). k \<notin> set ignoreArgs \<and> v \<noteq> JUndef) args)"
proof -
  have "fold (\<lambda>(key, value) filtered. if key \<in> set ignoreArgs then filtered
         else if value = JUndef then filtered else obj_assign key value filtered) args acc =
      fold (\<lambda>(k, v). obj_assign k v) (filter (\<lambda>(k, v). k \<notin> set ignoreArgs \<and> v \<noteq> JUndef) args) acc" for acc
  proof (induction args arbitrary: acc)
    case (Cons e args)
    then show ?case by (cases e; cases "snd e = JUndef"; cases "fst e \<in> set ignoreArgs") auto
  qed simp
  then show ?thesis by (simp add: filterArgs_def obj_build_def)
qed

lemma filterArgs_ok: "json_ok (JObj args) \<Longrightarrow> json_ok (JObj (filterArgs args ignoreArgs))"
  using set_obj_build [of "filter (\<lambda>(k, v). k \<notin> set ignoreArgs \<and> v \<noteq> JUndef) args"]
  by (force simp: filterArgs_build distinct_obj_build)

text \<open>The arguments that count.\<close>

definition counted_args :: "cache_key_options \<Rightarrow> jobject" where
  "counted_args opts = filterArgs (cko_args opts) (case cko_ignoreArgs opts of Some l \<Rightarrow> l | None \<Rightarrow> [])"

lemma cache_components_ok:
  assumes "json_ok (JObj (cko_args opts))"
  shows "json_ok (cache_components opts)"
  using filterArgs_ok [OF assms]
  by (cases "cko_tenantId opts"; cases "cko_groupId opts") (simp_all add: cache_components_def cache_entries_def Let_def)

lemma cache_entries_distinct: "distinct (map fst (cache_entries opts))"
  by (simp add: cache_entries_def Let_def split: option.split)

lemma cache_entries_lookup:
  "map_of (cache_entries opts) k =
     (if k = ''server_id'' then Some (JStr (cko_serverId opts))
      else if k = ''tool_name'' then Some (JStr (cko_toolName opts))
      else if k = ''args'' then Some (JObj (counted_args opts))
      else if k = ''tenant_id'' then map_option JStr (cko_tenantId opts)
      else if k = ''group_id'' then map_option JStr (cko_groupId opts) else None)"
  by (cases "cko_tenantId opts"; cases "cko_groupId opts") (simp_all add: cache_entries_def counted_args_def Let_def)

lemma components_eqv_iff:
  "json_eqv (cache_components a) (cache_components b) \<longleftrightarrow>
     cko_serverId a = cko_serverId b \<and> cko_toolName a = cko_toolName b \<and>
     cko_tenantId a = cko_tenantId b \<and> cko_groupId a = cko_groupId b \<and>
     json_eqv (JObj (counted_args a)) (JObj (counted_args b))"
  (is "?eqv \<longleftrightarrow> ?fields")
proof -
  have opt: "rel_option json_eqv (map_option JStr x) (map_option JStr y) \<longleftrightarrow> x = y" for x y
    by (cases x; cases y) auto
  have "?eqv \<longleftrightarrow> (\<forall>k. rel_option json_eqv (map_of (cache_entries a) k) (map_of (cache_entries b) k))"
    unfolding cache_components_def by (rule json_eqv_obj_iff [OF cache_entries_distinct cache_entries_distinct])
  also have "\<dots> \<longleftrightarrow> ?fields"
  proof
    assume r: "\<forall>k. rel_option json_eqv (map_of (cache_entries a) k) (map_of (cache_entries b) k)"
    show ?fields
      using r [rule_format, of "''server_id''"] r [rule_format, of "''tool_name''"] r [rule_format, of "''args''"]
        r [rule_format, of "''tenant_id''"] r [rule_format, of "''group_id''"]
      by (simp add: cache_entries_lookup opt)
  next
    assume ?fields
    then show "\<forall>k. rel_option json_eqv (map_of (cache_entries a) k) (map_of (cache_entries b) k)"
      by (simp add: cache_entries_lookup opt)
  qed
  finally show ?thesis .
qed

lemma cache_key_eq_iff:
  assumes "json_ok (JObj (cko_args a))" "json_ok (JObj (cko_args b))"
    and "inj_on sha256 {t. Some t \<in> {deterministicStringify (cache_components a), deterministicStringify (cache_components b)}}"
  shows "generateCacheKey sha256 a = generateCacheKey sha256 b \<longleftrightarrow>
     cko_serverId a = cko_serverId b \<and> cko_toolName a = cko_toolName b \<and>
     cko_tenantId a = cko_tenantId b \<and> cko_groupId a = cko_groupId b \<and>
     json_eqv (JObj (counted_args a)) (JObj (counted_args b))"
proof -
  let ?t = "\<lambda>o'. deterministicStringify (cache_components o')"
  have "generateCacheKey sha256 a = generateCacheKey sha256 b \<longleftrightarrow> ?t a = ?t b"
  proof (cases "?t a"; cases "?t b")
    fix s t assume "?t a = Some s" "?t b = Some t"
    with assms(3) show ?thesis by (auto simp: generateCacheKey_def dest: inj_onD)
  qed (simp_all add: generateCacheKey_def)
  also have "\<dots> \<longleftrightarrow> json_eqv (cache_components a) (cache_components b)"
    using assms(1,2) by (intro deterministicStringify_eq_iff cache_components_ok)
  finally show ?thesis unfolding components_eqv_iff .
qed

text \<open>C19. Two calls have the same cache key exactly when they are for the same server, the same tool,
  the same tenant and group, and the arguments that count differ at most in the order of keys, at
  any depth; so no entry is shared between tenants or between different arguments, and no entry is
  missed because of a different order.  Arguments without a \<open>__proto__\<close> key, and no collision of the
  digest on the two texts.\<close>

theorem generateCacheKey_eq_iff:
  assumes "json_ok (JObj (cko_args a))" "json_ok (JObj (cko_args b))"
    and "inj_on sha256 {t. Some t \<in> {deterministicStringify (cache_components a), deterministicStringify (cache_components b)}}"
  shows "generateCacheKey sha256 a = generateCacheKey sha256 b \<longleftrightarrow>
     cko_serverId a = cko_serverId b \<and> cko_toolName a = cko_toolName b \<and>
     cko_tenantId a = cko_tenantId b \<and> cko_groupId a = cko_groupId b \<and>
     json_eqv (JObj (counted_args a)) (JObj (counted_args b))"
  by (rule cache_key_eq_iff [OF assms])

definition key_example :: "jobject \<Rightarrow> cache_key_options" where
  "key_example args = \<lparr>cko_serverId = ''crm'', cko_toolName = ''get'', cko_args = args, cko_tenantId = Some ''t1'',
     cko_groupId = None, cko_ignoreArgs = Some [''request_id'']\<rparr>"

theorem generateCacheKey_eq_iff_witness:
  "generateCacheKey id (key_example [(''b'', JNum 1), (''a'', JNull), (''request_id'', JNum 7)]) =
   generateCacheKey id (key_example [(''a'', JNull), (''b'', JNum 1)]) \<and>
   generateCacheKey id (key_example [(''a'', JNull)]) \<noteq> generateCacheKey id (key_example [(''a'', JNum 0)])"
proof -
  have ok: "json_ok (JObj (cko_args (key_example [(''b'', JNum 1), (''a'', JNull), (''request_id'', JNum 7)])))"
    "json_ok (JObj (cko_args (key_example [(''a'', JNull), (''b'', JNum 1)])))"
    "json_ok (JObj (cko_args (key_example [(''a'', JNull)])))" "json_ok (JObj (cko_args (key_example [(''a'', JNum 0)])))"
    by (simp_all add: key_example_def)
  have c: "counted_args (key_example [(''b'', JNum 1), (''a'', JNull), (''request_id'', JNum 7)]) = [(''b'', JNum 1), (''a'', JNull)]"
    "counted_args (key_example [(''a'', JNull), (''b'', JNum 1)]) = [(''a'', JNull), (''b'', JNum 1)]"
    "counted_args (key_example [(''a'', JNull)]) = [(''a'', JNull)]"
    "counted_args (key_example [(''a'', JNum 0)]) = [(''a'', JNum 0)]"
    by code_simp+
  have e: "json_eqv (JObj [(''b'', JNum 1), (''a'', JNull)]) (JObj [(''a'', JNull), (''b'', JNum 1)])"
    "\<not> json_eqv (JObj [(''a'', JNull)]) (JObj [(''a'', JNum 0)])"
    by (subst json_eqv_obj_iff; auto)+
  show ?thesis
    using generateCacheKey_eq_iff [OF ok(1,2) inj_on_id] generateCacheKey_eq_iff [OF ok(3,4) inj_on_id] c e
    by (simp add: key_example_def)
qed

text \<open>The key of a call whose arguments have an own property \<open>__proto__\<close>, as parsing JSON can
  create, is the key of the call without it: the two requests share a cache entry although the
  property is part of what is forwarded.\<close>

theorem generateCacheKey_ignores_proto:
  "generateCacheKey sha256 (opts\<lparr>cko_args := (''__proto__'', v) # args\<rparr>) =
   generateCacheKey sha256 (opts\<lparr>cko_args := args\<rparr>)"
  by (simp add: generateCacheKey_def cache_components_def cache_entries_def filterArgs_def Let_def)

end
