(* ===== verification/Plugins.thy ===== *)
theory Plugins
  imports Json_Rpc
begin

section \<open>Requests, results and plugins (src/src/plugins/registry.ts)\<close>

text \<open>
  The context a request arrives with and the result the core returns
  (\<open>proxy/transport.ts\<close>), and the registry of plugins.  A callback is third-party code: it has
  the type \<open>'s callback\<close>, over the state \<open>'s\<close> the plugins keep, and throws, returns nothing,
  or returns a response that ends the request.  It may change the context it is given; its
  \<open>pc_message\<close> is the message object of the pipeline, which a callback may change in place.
\<close>

record request_context =
  rx_traceId :: string
  rx_authHeader :: "string option"
  rx_groupHeader :: "string option"
  rx_sessionId :: "string option"
  rx_rawHeaders :: "(string, string) jsmap"

record core_result =
  res_body :: json
  res_cacheStatus :: "string option"
  res_upstreamSessionId :: "string option"
  res_isStream :: bool
  res_retryAfter :: "int option"

definition body_result :: "json \<Rightarrow> core_result" where
  "body_result b = \<lparr>res_body = b, res_cacheStatus = None, res_upstreamSessionId = None, res_isStream = False,
     res_retryAfter = None\<rparr>"

definition error_result :: "json \<Rightarrow> int \<Rightarrow> string \<Rightarrow> json option \<Rightarrow> core_result" where
  "error_result i code message data = body_result (response_json (buildJsonRpcError i code message data))"

datatype hook_name = BeforeRequest | AfterAuth | BeforeCache | AfterUpstream | BeforeResponse

record plugin_context =
  pc_serverId :: string
  pc_method :: string
  pc_toolName :: "string option"
  pc_clientId :: string
  pc_traceId :: string
  pc_message :: jobject
  pc_extraHeaders :: "(string, string) jsmap"
  pc_metadata :: jobject

datatype callback_outcome = Throws | Continues | Responds core_result

type_synonym 's callback = "plugin_context \<Rightarrow> 's \<Rightarrow> callback_outcome \<times> plugin_context \<times> 's"

record 's plugin =
  pl_name :: string
  pl_hooks :: "(hook_name \<times> 's callback option) list"
  pl_initialize :: "('s \<Rightarrow> bool \<times> 's) option"
  pl_shutdown :: "('s \<Rightarrow> bool \<times> 's) option"

record 's plugin_registry =
  pg_hooks :: "(hook_name, (string \<times> 's callback) list) jsmap"
  pg_plugins :: "'s plugin list"

definition empty_plugins :: "'s plugin_registry" where
  "empty_plugins = \<lparr>pg_hooks = [], pg_plugins = []\<rparr>"

definition add_hook :: "string \<Rightarrow> hook_name \<times> 's callback option \<Rightarrow> (hook_name, (string \<times> 's callback) list) jsmap \<Rightarrow>
    (hook_name, (string \<times> 's callback) list) jsmap" where
  "add_hook plugin h m =
     (case snd h of
        None \<Rightarrow> m
      | Some cb \<Rightarrow> AList.update (fst h) ((case map_of m (fst h) of Some hs \<Rightarrow> hs | None \<Rightarrow> []) @ [(plugin, cb)]) m)"

definition register_plugin :: "'s plugin \<Rightarrow> 's plugin_registry \<Rightarrow> 's plugin_registry" where
  "register_plugin p reg =
     reg\<lparr>pg_plugins := pg_plugins reg @ [p], pg_hooks := fold (add_hook (pl_name p)) (pl_hooks p) (pg_hooks reg)\<rparr>"

text \<open>The hooks of a point run in order; one that throws is skipped, one that responds is the last.\<close>

fun run_callbacks ::
  "(string \<times> 's callback) list \<Rightarrow> plugin_context \<Rightarrow> 's \<Rightarrow> core_result option \<times> plugin_context \<times> 's" where
  "run_callbacks [] ctx s = (None, ctx, s)"
| "run_callbacks ((name, cb) # cbs) ctx s =
     (case cb ctx s of
        (Responds r, ctx', s') \<Rightarrow> (Some r, ctx', s')
      | (_, ctx', s') \<Rightarrow> run_callbacks cbs ctx' s')"

definition runHook ::
  "'s plugin_registry \<Rightarrow> hook_name \<Rightarrow> plugin_context \<Rightarrow> 's \<Rightarrow> core_result option \<times> plugin_context \<times> 's" where
  "runHook reg name ctx s =
     (case map_of (pg_hooks reg) name of
        None \<Rightarrow> (None, ctx, s)
      | Some cbs \<Rightarrow> run_callbacks cbs ctx s)"

definition initializeAll :: "'s plugin_registry \<Rightarrow> 's \<Rightarrow> 's" where
  "initializeAll reg s = fold (\<lambda>p s. case pl_initialize p of Some f \<Rightarrow> snd (f s) | None \<Rightarrow> s) (pg_plugins reg) s"

definition shutdownAll :: "'s plugin_registry \<Rightarrow> 's \<Rightarrow> 's" where
  "shutdownAll reg s = fold (\<lambda>p s. case pl_shutdown p of Some f \<Rightarrow> snd (f s) | None \<Rightarrow> s) (pg_plugins reg) s"

definition getPluginNames :: "'s plugin_registry \<Rightarrow> string list" where
  "getPluginNames reg = map pl_name (pg_plugins reg)"

subsection \<open>Lemmas\<close>

text \<open>The hooks of a point are those of the registered plugins, in the order of registration.\<close>

definition hooks_of :: "hook_name \<Rightarrow> 's plugin \<Rightarrow> (string \<times> 's callback) list" where
  "hooks_of name p = List.map_filter
     (\<lambda>h. if fst h = name then map_option (Pair (pl_name p)) (snd h) else None) (pl_hooks p)"

definition hook_list :: "(hook_name, (string \<times> 's callback) list) jsmap \<Rightarrow> hook_name \<Rightarrow> (string \<times> 's callback) list" where
  "hook_list m name = (case map_of m name of Some hs \<Rightarrow> hs | None \<Rightarrow> [])"

lemma hook_list_add:
  "hook_list (add_hook plugin h m) name =
     hook_list m name @ (if fst h = name then (case snd h of Some cb \<Rightarrow> [(plugin, cb)] | None \<Rightarrow> []) else [])"
  by (auto simp: hook_list_def add_hook_def update_conv' split: option.split)

lemma hook_list_fold:
  "hook_list (fold (add_hook plugin) hs m) name =
     hook_list m name @ List.map_filter (\<lambda>h. if fst h = name then map_option (Pair plugin) (snd h) else None) hs"
  by (induction hs arbitrary: m) (auto simp: hook_list_add map_filter_simps split: option.split)

lemma registered_hooks:
  "hook_list (pg_hooks (fold register_plugin ps empty_plugins)) name = concat (map (hooks_of name) ps)"
proof -
  have "hook_list (pg_hooks (fold register_plugin ps reg)) name =
      hook_list (pg_hooks reg) name @ concat (map (hooks_of name) ps)" for reg
    by (induction ps arbitrary: reg) (simp_all add: register_plugin_def hook_list_fold hooks_of_def)
  then show ?thesis by (simp add: empty_plugins_def hook_list_def)
qed

lemma runHook_hook_list: "runHook reg name ctx s = run_callbacks (hook_list (pg_hooks reg) name) ctx s"
  by (simp add: runHook_def hook_list_def split: option.split)

text \<open>A hook point runs the callbacks of the plugins in the order in which they were registered:
  a callback that throws, wherever it stands, changes nothing for the others but what it did to
  the shared context, and the first response ends the request, so that no later callback runs.\<close>

theorem hooks_run_in_order:
  "runHook (fold register_plugin ps empty_plugins) name ctx s =
   run_callbacks (concat (map (hooks_of name) ps)) ctx s \<and>
   run_callbacks (before @ (n, \<lambda>c t. (Throws, c, t)) # after) ctx s = run_callbacks (before @ after) ctx s \<and>
   (case run_callbacks before ctx s of
      (Some r, ctx', s') \<Rightarrow> run_callbacks (before @ after) ctx s = (Some r, ctx', s')
    | (None, ctx', s') \<Rightarrow> run_callbacks (before @ after) ctx s = run_callbacks after ctx' s')"
proof -
  have split: "run_callbacks (before @ after) ctx s =
      (case run_callbacks before ctx s of
         (Some r, ctx', s') \<Rightarrow> (Some r, ctx', s')
       | (None, ctx', s') \<Rightarrow> run_callbacks after ctx' s')" for before after ctx s
    by (induction before ctx s rule: run_callbacks.induct) (auto split: prod.split callback_outcome.split option.split)
  show ?thesis
    by (auto simp: runHook_hook_list registered_hooks split split: prod.split option.split)
qed

end
