(* ===== verification/Governance_Store.thy ===== *)
theory Governance_Store
  imports Identity_Store
begin

section \<open>Approval requests and the audit log (src/src/governance/store.ts)\<close>

text \<open>
  The two tables as lists of rows in the order of insertion, and the statements over them.
  Every public operation on approvals first marks the pending rows whose time has come as
  expired.  The UUID of a new row is an argument; times are milliseconds.
\<close>

datatype approval_status = Pending | Approved | Refused | Expired
datatype approval_source = FromGuardrail | FromGovernance
datatype audit_outcome = AuditSuccess | AuditDenied | AuditPending | AuditError

record approval_row =
  ap_id :: string
  ap_created_at :: timestamp
  ap_updated_at :: timestamp
  ap_expires_at :: timestamp
  ap_status :: approval_status
  ap_source :: approval_source
  ap_workspace_id :: string
  ap_requester :: string
  ap_approver :: "string option"
  ap_server_id :: string
  ap_tool_name :: string
  ap_rule_name :: "string option"
  ap_reason :: string
  ap_trace_id :: "string option"
  ap_fingerprint :: string
  ap_tool_args :: jobject
  ap_note :: "string option"

record approval_input =
  ai_source :: approval_source
  ai_workspace_id :: string
  ai_requester :: string
  ai_server_id :: string
  ai_tool_name :: string
  ai_rule_name :: "string option"
  ai_reason :: string
  ai_trace_id :: "string option"
  ai_fingerprint :: string
  ai_tool_args :: jobject
  ai_expires_at :: timestamp

record audit_event =
  ev_id :: nat
  ev_timestamp :: timestamp
  ev_workspace_id :: "string option"
  ev_actor :: "string option"
  ev_action :: string
  ev_resource_type :: string
  ev_resource_id :: "string option"
  ev_outcome :: audit_outcome
  ev_details :: jobject

record grant_query =
  gq_approval_id :: string
  gq_workspace_id :: string
  gq_requester :: string
  gq_server_id :: string
  gq_tool_name :: string
  gq_fingerprint :: string

record approval_filters =
  lf_workspace_id :: "string option"
  lf_status :: "approval_status option"
  lf_requester :: "string option"
  lf_approver :: "string option"
  lf_source :: "approval_source option"
  lf_limit :: "nat option"
  lf_offset :: "nat option"

record governance_store =
  gv_approvals :: "approval_row list"
  gv_audit :: "audit_event list"

subsection \<open>Operations\<close>

definition expire_row :: "timestamp \<Rightarrow> approval_row \<Rightarrow> approval_row" where
  "expire_row now r =
     (if ap_status r = Pending \<and> ap_expires_at r \<le> now
      then r\<lparr>ap_status := Expired, ap_updated_at := now\<rparr> else r)"

definition pruneExpired :: "timestamp \<Rightarrow> governance_store \<Rightarrow> governance_store" where
  "pruneExpired now st = st\<lparr>gv_approvals := map (expire_row now) (gv_approvals st)\<rparr>"

definition getApprovalRequest :: "timestamp \<Rightarrow> string \<Rightarrow> governance_store \<Rightarrow> approval_row option \<times> governance_store" where
  "getApprovalRequest now i st =
     (let st' = pruneExpired now st in (find (\<lambda>r. ap_id r = i) (gv_approvals st'), st'))"

definition same_request :: "approval_input \<Rightarrow> approval_row \<Rightarrow> bool" where
  "same_request input r \<longleftrightarrow> ap_workspace_id r = ai_workspace_id input \<and> ap_requester r = ai_requester input \<and>
     ap_server_id r = ai_server_id input \<and> ap_tool_name r = ai_tool_name input \<and>
     ap_fingerprint r = ai_fingerprint input"

definition new_approval :: "timestamp \<Rightarrow> string \<Rightarrow> approval_input \<Rightarrow> approval_row" where
  "new_approval now uuid input = \<lparr>ap_id = uuid, ap_created_at = now, ap_updated_at = now,
     ap_expires_at = ai_expires_at input, ap_status = Pending, ap_source = ai_source input,
     ap_workspace_id = ai_workspace_id input, ap_requester = ai_requester input, ap_approver = None,
     ap_server_id = ai_server_id input, ap_tool_name = ai_tool_name input, ap_rule_name = ai_rule_name input,
     ap_reason = ai_reason input, ap_trace_id = ai_trace_id input, ap_fingerprint = ai_fingerprint input,
     ap_tool_args = ai_tool_args input, ap_note = None\<rparr>"

definition createOrReuse ::
  "timestamp \<Rightarrow> string \<Rightarrow> approval_input \<Rightarrow> governance_store \<Rightarrow> (string + approval_row) \<times> governance_store" where
  "createOrReuse now uuid input st =
     (let st1 = pruneExpired now st
      in case newest ap_created_at (filter (\<lambda>r. same_request input r \<and> ap_status r = Pending \<and> ap_expires_at r > now)
                 (gv_approvals st1)) of
           Some existing \<Rightarrow> (Inr existing, st1)
         | None \<Rightarrow>
             (if uuid \<in> ap_id ` set (gv_approvals st1) then (Inl ''UNIQUE constraint failed'', st1)
              else (let (row, st2) = getApprovalRequest now uuid
                          (st1\<lparr>gv_approvals := gv_approvals st1 @ [new_approval now uuid input]\<rparr>)
                    in case row of Some r \<Rightarrow> (Inr r, st2) | None \<Rightarrow> (Inl ''undefined'', st2))))"

definition opt_eq :: "'a option \<Rightarrow> 'a option \<Rightarrow> bool" where
  "opt_eq f v \<longleftrightarrow> f = None \<or> v = f"

definition str_filter :: "string option \<Rightarrow> string option \<Rightarrow> bool" where
  "str_filter f v \<longleftrightarrow> f = None \<or> f = Some [] \<or> v = f"

definition listApprovalRequests :: "timestamp \<Rightarrow> approval_filters \<Rightarrow> governance_store \<Rightarrow> approval_row list \<times> governance_store" where
  "listApprovalRequests now f st =
     (let st' = pruneExpired now st;
          rows = foldr (order_newest ap_created_at)
            (filter (\<lambda>r. str_filter (lf_workspace_id f) (Some (ap_workspace_id r)) \<and>
               opt_eq (lf_status f) (Some (ap_status r)) \<and>
               str_filter (lf_requester f) (Some (ap_requester r)) \<and>
               str_filter (lf_approver f) (ap_approver r) \<and>
               opt_eq (lf_source f) (Some (ap_source r))) (gv_approvals st')) []
      in (take (case lf_limit f of Some n \<Rightarrow> n | None \<Rightarrow> 100)
            (drop (case lf_offset f of Some n \<Rightarrow> n | None \<Rightarrow> 0) rows), st'))"

definition decide_row ::
  "timestamp \<Rightarrow> string \<Rightarrow> approval_status \<Rightarrow> string \<Rightarrow> string option \<Rightarrow> approval_row \<Rightarrow> approval_row" where
  "decide_row now i status approver note r =
     (if ap_id r = i
      then r\<lparr>ap_status := status, ap_approver := Some approver, ap_note := note, ap_updated_at := now\<rparr> else r)"

definition decideRequest ::
  "timestamp \<Rightarrow> string \<Rightarrow> approval_status \<Rightarrow> string \<Rightarrow> string option \<Rightarrow> governance_store \<Rightarrow>
   approval_row option \<times> governance_store" where
  "decideRequest now i status approver note st =
     (case getApprovalRequest now i (pruneExpired now st) of
        (None, st1) \<Rightarrow> (None, st1)
      | (Some existing, st1) \<Rightarrow>
          (if ap_status existing \<noteq> Pending then (None, st1)
           else getApprovalRequest now i
             (st1\<lparr>gv_approvals := map (decide_row now i status approver note) (gv_approvals st1)\<rparr>)))"

definition approveRequest ::
  "timestamp \<Rightarrow> string \<Rightarrow> string \<Rightarrow> string option \<Rightarrow> governance_store \<Rightarrow> approval_row option \<times> governance_store" where
  "approveRequest now i approver note st = decideRequest now i Approved approver note st"

definition rejectRequest ::
  "timestamp \<Rightarrow> string \<Rightarrow> string \<Rightarrow> string option \<Rightarrow> governance_store \<Rightarrow> approval_row option \<times> governance_store" where
  "rejectRequest now i approver note st = decideRequest now i Refused approver note st"

definition store_verifyApprovalGrant ::
  "timestamp \<Rightarrow> grant_query \<Rightarrow> governance_store \<Rightarrow> approval_row option \<times> governance_store" where
  "store_verifyApprovalGrant now q st =
     (let st' = pruneExpired now st
      in (find (\<lambda>r. ap_id r = gq_approval_id q \<and> ap_status r = Approved \<and> ap_workspace_id r = gq_workspace_id q \<and>
             ap_requester r = gq_requester q \<and> ap_server_id r = gq_server_id q \<and> ap_tool_name r = gq_tool_name q \<and>
             ap_fingerprint r = gq_fingerprint q \<and> ap_expires_at r > now) (gv_approvals st'), st'))"

definition insertAuditEvent ::
  "timestamp \<Rightarrow> string option \<Rightarrow> string option \<Rightarrow> string \<Rightarrow> string \<Rightarrow> string option \<Rightarrow> audit_outcome \<Rightarrow> jobject \<Rightarrow>
   governance_store \<Rightarrow> governance_store" where
  "insertAuditEvent now ws actor action resource_type resource_id outc details st =
     st\<lparr>gv_audit := gv_audit st @ [\<lparr>ev_id = length (gv_audit st) + 1, ev_timestamp = now, ev_workspace_id = ws,
        ev_actor = actor, ev_action = action, ev_resource_type = resource_type, ev_resource_id = resource_id,
        ev_outcome = outc, ev_details = details\<rparr>]\<rparr>"

definition empty_governance :: governance_store where
  "empty_governance = \<lparr>gv_approvals = [], gv_audit = []\<rparr>"

subsection \<open>What the operations do to a row\<close>

text \<open>
  \<open>row_step\<close>: a row stays, expires, or is decided by someone; what it was requested for
  never changes.
\<close>

definition same_subject :: "approval_row \<Rightarrow> approval_row \<Rightarrow> bool" where
  "same_subject r r' \<longleftrightarrow> ap_id r' = ap_id r \<and> ap_workspace_id r' = ap_workspace_id r \<and> ap_requester r' = ap_requester r \<and>
     ap_server_id r' = ap_server_id r \<and> ap_tool_name r' = ap_tool_name r \<and> ap_fingerprint r' = ap_fingerprint r \<and>
     ap_expires_at r' = ap_expires_at r"

lemma same_subject_refl [simp]: "same_subject r r"
  by (simp add: same_subject_def)

lemma same_subject_trans: "same_subject a b \<Longrightarrow> same_subject b c \<Longrightarrow> same_subject a c"
  by (simp add: same_subject_def)

lemma expire_row_subject [simp]: "same_subject r (expire_row now r)"
  by (simp add: expire_row_def same_subject_def)

lemma decide_row_subject [simp]: "same_subject r (decide_row now i s a n r)"
  by (simp add: decide_row_def same_subject_def)

lemma expire_row_simps [simp]:
  "ap_id (expire_row now r) = ap_id r" "ap_expires_at (expire_row now r) = ap_expires_at r"
  "ap_workspace_id (expire_row now r) = ap_workspace_id r" "ap_requester (expire_row now r) = ap_requester r"
  "ap_server_id (expire_row now r) = ap_server_id r" "ap_tool_name (expire_row now r) = ap_tool_name r"
  "ap_fingerprint (expire_row now r) = ap_fingerprint r" "ap_approver (expire_row now r) = ap_approver r"
  "same_request input (expire_row now r) = same_request input r"
  by (simp_all add: expire_row_def same_request_def)

lemma expire_row_status:
  "ap_status (expire_row now r) = (if ap_status r = Pending \<and> ap_expires_at r \<le> now then Expired else ap_status r)"
  by (simp add: expire_row_def)

lemma expire_row_decided [simp]: "ap_status r \<noteq> Pending \<Longrightarrow> expire_row now r = r"
  by (simp add: expire_row_def)

lemma expire_row_idem [simp]: "expire_row now (expire_row now r) = expire_row now r"
  by (simp add: expire_row_def)

lemma gv_approvals_prune [simp]: "gv_approvals (pruneExpired now st) = map (expire_row now) (gv_approvals st)"
  by (simp add: pruneExpired_def)

lemma prune_ids: "map ap_id (map (expire_row now) rs) = map ap_id rs"
  by simp

end
