(* ===== verification/Policies.thy ===== *)
theory Policies
  imports Prelude
begin

section \<open>Wildcard patterns and first-match policies (src/src/utils/pattern.ts)\<close>

text \<open>
  \<open>matchesPattern\<close> and \<open>matchesAnyPattern\<close>, which the ACL, the guardrails and the
  governance policies share, and the contract of a policy evaluator as the locale
  \<open>first_match_policy\<close>: rules in order, the first rule that applies decides, a default when
  none does.  Every evaluator of the gateway is an interpretation of it.
\<close>

definition matchesPattern :: "string \<Rightarrow> string \<Rightarrow> bool" where
  "matchesPattern pattern value =
     (if pattern = ''*'' then True
      else if ends_with pattern ''*'' then starts_with value (butlast pattern)
      else pattern = value)"

definition matchesAnyPattern :: "string list \<Rightarrow> string \<Rightarrow> bool" where
  "matchesAnyPattern patterns value = list_ex (\<lambda>pattern. matchesPattern pattern value) patterns"

lemma matchesPattern_star [gateway_simps]: "matchesPattern ''*'' v"
  by (simp add: matchesPattern_def)

lemma matchesPattern_prefix [gateway_simps]: "matchesPattern (p @ ''*'') v \<longleftrightarrow> prefix p v"
  by (auto simp: matchesPattern_def)

lemma matchesPattern_exact [gateway_simps]:
  "\<not> suffix ''*'' p \<Longrightarrow> matchesPattern p v \<longleftrightarrow> p = v"
  by (auto simp: matchesPattern_def)

lemma matchesPattern_cases:
  "matchesPattern p v \<longleftrightarrow> p = v \<and> \<not> suffix ''*'' p \<or> (\<exists>q. p = q @ ''*'' \<and> prefix q v)"
proof (cases "suffix ''*'' p")
  case True
  then obtain q where "p = q @ ''*''" by (auto simp: suffix_def)
  then show ?thesis using matchesPattern_prefix [of q v] by auto
next
  case False
  then show ?thesis by (auto simp: matchesPattern_exact)
qed

text \<open>A pattern that matches a value matches every value that begins with it, wildcard permitting.\<close>

lemma matchesPattern_extend:
  "matchesPattern (p @ ''*'') v \<Longrightarrow> matchesPattern (p @ ''*'') (v @ w)"
  by (simp add: matchesPattern_prefix prefix_prefix)

subsection \<open>The contract of an evaluator\<close>

locale first_match_policy =
  fixes eval :: "'r list \<Rightarrow> 'd"
    and applies :: "'r \<Rightarrow> bool"
    and decide :: "'r \<Rightarrow> 'd"
    and dflt :: "'d"
  assumes eval_Nil: "eval [] = dflt"
    and eval_Cons: "eval (r # rs) = (if applies r then decide r else eval rs)"
begin

lemma eval_append_skip: "\<forall>r \<in> set rs. \<not> applies r \<Longrightarrow> eval (rs @ rs') = eval rs'"
  by (induction rs) (auto simp: eval_Cons)

lemma eval_default: "\<forall>r \<in> set rs. \<not> applies r \<Longrightarrow> eval rs = dflt"
  using eval_append_skip [of rs "[]"] by (simp add: eval_Nil)

lemma eval_first:
  "\<forall>r \<in> set rs. \<not> applies r \<Longrightarrow> applies r \<Longrightarrow> eval (rs @ r # rs') = decide r"
  by (simp add: eval_append_skip eval_Cons)

lemma eval_find: "eval rs = (case find applies rs of Some r \<Rightarrow> decide r | None \<Rightarrow> dflt)"
  by (induction rs) (auto simp: eval_Nil eval_Cons)

lemma eval_cases:
  obtains (first) rs1 r rs2 where "rs = rs1 @ r # rs2" "\<forall>r' \<in> set rs1. \<not> applies r'" "applies r"
      "eval rs = decide r"
  | (default) "\<forall>r \<in> set rs. \<not> applies r" "eval rs = dflt"
proof (cases "\<exists>r \<in> set rs. applies r")
  case True
  then obtain rs1 r rs2 where "rs = rs1 @ r # rs2" "\<forall>r' \<in> set rs1. \<not> applies r'" "applies r"
    by (metis split_list_first_prop)
  with first eval_first show ?thesis by blast
next
  case False
  with default eval_default show ?thesis by blast
qed

text \<open>A rule after the deciding one never matters, nor does one that does not apply.\<close>

lemma eval_later_irrelevant: "r \<in> set rs \<Longrightarrow> applies r \<Longrightarrow> eval (rs @ rs') = eval rs"
  by (induction rs) (auto simp: eval_Cons)

lemma eval_insert_inapplicable: "\<not> applies r \<Longrightarrow> eval (rs @ r # rs') = eval (rs @ rs')"
  by (induction rs) (auto simp: eval_Cons)

lemma eval_in: "eval rs \<in> insert dflt (decide ` {r \<in> set rs. applies r})"
  by (induction rs) (auto simp: eval_Nil eval_Cons)

end

end
