(* ===== verification/Limiter.thy ===== *)
theory Limiter
  imports Rate_Backend
begin

section \<open>The sliding-window limiter (src/src/rate-limit/limiter.ts)\<close>

text \<open>
  One \<open>Map\<close> from storage keys (key and window) to the times of the admitted requests, in
  ascending order.  \<open>getValid\<close> drops the times that have left the window, \<open>consume\<close>
  admits while fewer than the limit are left, \<open>evictIfFull\<close> bounds the number of buckets.
  All reads of the clock in one call see the same time \<open>now\<close>.  The lemmas first show what
  each operation does to one bucket (\<open>bucket\<close>, \<open>bucket_consume\<close>), then that over any run of
  calls the admitted requests respect the limit in every window.
\<close>

type_synonym limiter_store = "(string, timestamp list) jsmap"

definition storageKey :: "string \<Rightarrow> int \<Rightarrow> string" where
  "storageKey key window_ms = key @ CHR '':'' # show_int window_ms"

definition getValid ::
  "timestamp \<Rightarrow> string \<Rightarrow> int \<Rightarrow> limiter_store \<Rightarrow> timestamp list \<times> limiter_store" where
  "getValid now key window_ms store =
     (let sk = storageKey key window_ms; cutoff = now - window_ms
      in case map_of store sk of
           None \<Rightarrow> ([], store)
         | Some all_ts \<Rightarrow>
             (let valid = filter (\<lambda>t. t \<ge> cutoff) all_ts
              in (valid,
                  if length valid = 0 then AList.delete sk store
                  else if length valid \<noteq> length all_ts then AList.update sk valid store
                  else store)))"

fun evict_to :: "nat \<Rightarrow> limiter_store \<Rightarrow> limiter_store" where
  "evict_to target [] = []"
| "evict_to target (e # es) = (if length (e # es) > target then evict_to target es else e # es)"

definition evictIfFull :: "nat \<Rightarrow> limiter_store \<Rightarrow> limiter_store" where
  "evictIfFull maxBuckets store =
     (if length store < maxBuckets then store else evict_to (9 * maxBuckets div 10) store)"

definition retry_seconds :: "int \<Rightarrow> int" where
  "retry_seconds retryMs = max 1 (ceil_div retryMs 1000)"

definition window_reset :: "timestamp \<Rightarrow> int \<Rightarrow> timestamp list \<Rightarrow> timestamp" where
  "window_reset now window_ms valid =
     (case valid of [] \<Rightarrow> now + window_ms | oldestTs # _ \<Rightarrow> oldestTs + window_ms)"

definition limiter_check ::
  "timestamp \<Rightarrow> string \<Rightarrow> int \<Rightarrow> int \<Rightarrow> limiter_store \<Rightarrow> rate_limit_result \<times> limiter_store" where
  "limiter_check now key limit window_ms store =
     (let (valid, store') = getValid now key window_ms store;
          count = int (length valid);
          allowed = (count < limit);
          remaining = max 0 (limit - count);
          reset_at = window_reset now window_ms valid
      in (\<lparr>rl_allowed = allowed, rl_remaining = remaining, rl_limit = limit, rl_reset_at = reset_at,
           rl_retry_after = (if \<not> allowed then Some (retry_seconds (reset_at - now)) else None)\<rparr>, store'))"

definition limiter_consume ::
  "nat \<Rightarrow> timestamp \<Rightarrow> string \<Rightarrow> int \<Rightarrow> int \<Rightarrow> limiter_store \<Rightarrow> rate_limit_result \<times> limiter_store" where
  "limiter_consume maxBuckets now key limit window_ms store =
     (let (valid, store1) = getValid now key window_ms store;
          count = int (length valid)
      in if count \<ge> limit
         then (let reset_at = window_reset now window_ms valid
               in (\<lparr>rl_allowed = False, rl_remaining = 0, rl_limit = limit, rl_reset_at = reset_at,
                    rl_retry_after = Some (retry_seconds (reset_at - now))\<rparr>, store1))
         else (let valid' = valid @ [now];
                   sk = storageKey key window_ms;
                   store2 = (if \<not> map_has store1 sk then evictIfFull maxBuckets store1 else store1)
               in (\<lparr>rl_allowed = True, rl_remaining = limit - int (length valid'), rl_limit = limit,
                    rl_reset_at = now + window_ms, rl_retry_after = None\<rparr>,
                   AList.update sk valid' store2)))"

definition limiter_getUsage ::
  "timestamp \<Rightarrow> string \<Rightarrow> int \<Rightarrow> limiter_store \<Rightarrow> (int \<times> timestamp) \<times> limiter_store" where
  "limiter_getUsage now key window_ms store =
     (let (valid, store') = getValid now key window_ms store
      in ((int (length valid), (case valid of [] \<Rightarrow> now | t # _ \<Rightarrow> t)), store'))"

definition limiter_reset :: "string \<Rightarrow> limiter_store \<Rightarrow> limiter_store" where
  "limiter_reset key store =
     fold (\<lambda>sk st. if starts_with sk (key @ '':'') then AList.delete sk st else st) (map_keys store) store"

definition limiter_resetAll :: "limiter_store \<Rightarrow> limiter_store" where
  "limiter_resetAll store = []"

subsection \<open>Keys and buckets\<close>

lemma colon_not_in_int: "CHR '':'' \<notin> set (show_int n)"
proof -
  have "CHR '':'' \<notin> set (show_nat k)" for k
    using show_nat_digits [of "CHR '':''" k] by (auto simp: is_digit_def)
  then show ?thesis by (simp add: show_int_def)
qed

text \<open>The buckets of different keys or windows are different.\<close>

lemma storageKey_inject [simp]:
  "storageKey key w = storageKey key' w' \<longleftrightarrow> key = key' \<and> w = w'"
  using last_sep_unique [OF colon_not_in_int colon_not_in_int, of key w key' w']
  by (auto simp: storageKey_def)

definition bucket :: "limiter_store \<Rightarrow> string \<Rightarrow> timestamp list" where
  "bucket store sk = (case map_of store sk of Some ts \<Rightarrow> ts | None \<Rightarrow> [])"

definition window_times :: "timestamp \<Rightarrow> int \<Rightarrow> timestamp list \<Rightarrow> timestamp list" where
  "window_times now w ts = filter (\<lambda>t. t \<ge> now - w) ts"

definition bucket_consume :: "timestamp \<Rightarrow> int \<Rightarrow> int \<Rightarrow> timestamp list \<Rightarrow> bool \<times> timestamp list" where
  "bucket_consume now limit w ts =
     (let valid = window_times now w ts
      in if int (length valid) \<ge> limit then (False, valid) else (True, valid @ [now]))"

lemma filter_full: "length (filter P xs) = length xs \<Longrightarrow> filter P xs = xs"
  by (simp add: filter_id_conv) (metis length_filter_less linorder_neq_iff)

lemma getValid_fst [simp]: "fst (getValid now key w store) = window_times now w (bucket store (storageKey key w))"
  by (simp add: getValid_def Let_def bucket_def window_times_def split: option.split)

lemma getValid_snd:
  "bucket (snd (getValid now key w store)) sk =
     (if sk = storageKey key w then window_times now w (bucket store sk) else bucket store sk)"
proof (cases "map_of store (storageKey key w)")
  case (Some ts)
  let ?v = "filter (\<lambda>t. now - w \<le> t) ts"
  have "?v = ts" if "length ?v = length ts" using filter_full [OF that] .
  with Some show ?thesis
    by (cases "?v = []"; cases "length ?v = length ts")
       (simp_all add: getValid_def Let_def bucket_def window_times_def update_conv' delete_conv')
qed (simp add: getValid_def Let_def bucket_def window_times_def)

lemma getValid_length: "length (snd (getValid now key w store)) \<le> length store"
proof (cases "map_of store (storageKey key w)")
  case (Some ts)
  then have "length (map fst (AList.update (storageKey key w) v store)) = length (map fst store)" for v
    by (subst update_keys_old) simp_all
  with Some show ?thesis by (simp add: getValid_def Let_def length_delete_le)
qed (simp add: getValid_def Let_def)

lemma evict_to_length: "length (evict_to n es) = min n (length es)"
  by (induction n es rule: evict_to.induct) auto

text \<open>The number of buckets never exceeds the cap, whatever keys the requests bring.\<close>

theorem limiter_bucket_cap:
  assumes "1 \<le> maxBuckets" "length store \<le> maxBuckets"
  shows "length (snd (limiter_consume maxBuckets now key limit w store)) \<le> maxBuckets"
proof -
  let ?sk = "storageKey key w" and ?st = "snd (getValid now key w store)"
  have le: "length ?st \<le> maxBuckets" using getValid_length [of now key w store] assms by simp
  have up: "length (AList.update ?sk v st) = (if map_has st ?sk then length st else Suc (length st))" for v st
  proof (cases "map_of st ?sk")
    case None
    then show ?thesis by (simp add: update_keys_new)
  next
    case (Some x)
    then have "length (map fst (AList.update ?sk v st)) = length (map fst st)"
      by (subst update_keys_old) simp_all
    with Some show ?thesis by simp
  qed
  have keep: "map_of (evict_to n es) k = None" if "map_of es k = None" for n es k
    using that by (induction n es rule: evict_to.induct) (auto split: if_splits)
  have "9 * maxBuckets div 10 < maxBuckets" using assms(1) by simp
  then have "Suc (length (evictIfFull maxBuckets ?st)) \<le> maxBuckets"
    by (auto simp: evictIfFull_def evict_to_length)
  moreover have "map_of (evictIfFull maxBuckets ?st) ?sk = None" if "map_of ?st ?sk = None"
    using that by (simp add: evictIfFull_def keep)
  ultimately show ?thesis
    using le by (auto simp: limiter_consume_def Let_def up case_prod_unfold)
qed

theorem limiter_bucket_cap_witness:
  "length (snd (limiter_consume 3 70000 ''client:d'' 5 60000
     [(''a:1'', [1]), (''b:1'', [2]), (''c:1'', [3])])) \<le> 3"
  by (rule limiter_bucket_cap) simp_all

subsection \<open>One call, one bucket\<close>

lemma consume_allowed:
  "rl_allowed (fst (limiter_consume M now key limit w st)) =
     fst (bucket_consume now limit w (bucket st (storageKey key w)))"
  by (auto simp: limiter_consume_def bucket_consume_def Let_def case_prod_unfold)

lemma bucket_update [simp]: "bucket (AList.update sk v st) sk' = (if sk' = sk then v else bucket st sk')"
  by (simp add: bucket_def update_conv')

lemma consume_bucket:
  assumes "map_has (snd (getValid now key w st)) (storageKey key w) \<or> length (snd (getValid now key w st)) < M"
  shows "bucket (snd (limiter_consume M now key limit w st)) sk =
    (if sk = storageKey key w then snd (bucket_consume now limit w (bucket st sk)) else bucket st sk)"
  using assms
  by (auto simp: limiter_consume_def bucket_consume_def Let_def case_prod_unfold getValid_snd evictIfFull_def)

lemma getValid_keys:
  "set (map fst (snd (getValid now key w st))) \<subseteq> set (map fst st)"
  "map_wf st \<Longrightarrow> map_wf (snd (getValid now key w st))"
proof -
  have sub: "set (map fst (AList.delete (storageKey key w) st)) \<subseteq> set (map fst st)"
    unfolding delete_keys by simp
  show "set (map fst (snd (getValid now key w st))) \<subseteq> set (map fst st)"
  proof (cases "map_of st (storageKey key w)")
    case (Some ts)
    then have "map fst (AList.update (storageKey key w) v st) = map fst st" for v
      by (intro update_keys_old) simp
    then have "set (map fst (AList.update (storageKey key w) v st)) \<subseteq> set (map fst st)" for v
      by (simp only: order.refl)
    with Some sub show ?thesis by (simp only: getValid_def Let_def option.case snd_conv split: if_split) simp
  qed (simp add: getValid_def Let_def)
  show "map_wf st \<Longrightarrow> map_wf (snd (getValid now key w st))"
    by (simp add: getValid_def Let_def alist_map.invar_del alist_map.invar_put split: option.split)
qed

text \<open>As long as the storage keys in use fit under the cap, no bucket is evicted.\<close>

lemma consume_no_eviction:
  assumes "map_wf st" "set (map fst st) \<subseteq> K" "storageKey key w \<in> K" "finite K" "card K \<le> M"
  shows "bucket (snd (limiter_consume M now key limit w st)) sk =
      (if sk = storageKey key w then snd (bucket_consume now limit w (bucket st sk)) else bucket st sk)"
    and "map_wf (snd (limiter_consume M now key limit w st))"
    and "set (map fst (snd (limiter_consume M now key limit w st))) \<subseteq> K"
proof -
  let ?g = "snd (getValid now key w st)" and ?sk = "storageKey key w"
  have wf: "map_wf ?g" using assms(1) by (rule getValid_keys(2))
  have sub: "set (map fst ?g) \<subseteq> K" using getValid_keys(1) [of now key w st] assms(2) by (rule order.trans)
  have room: "map_has ?g ?sk \<or> length ?g < M"
  proof (cases "map_has ?g ?sk")
    case False
    then have "?sk \<notin> set (map fst ?g)" by (simp add: map_of_eq_None_iff)
    with sub have "set (map fst ?g) \<subseteq> K - {?sk}" by blast
    then have "card (set (map fst ?g)) \<le> card (K - {?sk})" using assms(4) by (intro card_mono) auto
    moreover have "card (set (map fst ?g)) = length ?g"
      using distinct_card [of "map fst ?g"] wf by (simp add: map_wf_def)
    moreover have "card (K - {?sk}) < card K" using assms(3,4) by (intro card_Diff1_less)
    ultimately show ?thesis using assms(5) by simp
  qed simp
  then show "bucket (snd (limiter_consume M now key limit w st)) sk =
      (if sk = ?sk then snd (bucket_consume now limit w (bucket st sk)) else bucket st sk)"
    by (rule consume_bucket)
  have st': "snd (limiter_consume M now key limit w st) = ?g \<or>
      (\<exists>v. snd (limiter_consume M now key limit w st) = AList.update ?sk v ?g)"
    using room by (auto simp: limiter_consume_def Let_def case_prod_unfold evictIfFull_def)
  then show "map_wf (snd (limiter_consume M now key limit w st))"
    using wf alist_map.invar_put [of ?g ?sk] by auto
  have "set (map fst (AList.update ?sk v ?g)) \<subseteq> K" for v
    using sub assms(3) by (subst alist_map.set_keys) (auto simp: update_conv' dom_map_of_conv_image_fst)
  with st' show "set (map fst (snd (limiter_consume M now key limit w st))) \<subseteq> K"
  proof (elim disjE exE)
    assume "snd (limiter_consume M now key limit w st) = ?g"
    then show ?thesis using sub by (simp only:)
  next
    fix v assume "\<And>v. set (map fst (AList.update ?sk v ?g)) \<subseteq> K"
      "snd (limiter_consume M now key limit w st) = AList.update ?sk v ?g"
    then show ?thesis by (simp only:)
  qed
qed

subsection \<open>Runs of calls\<close>

record limiter_call =
  lc_now :: timestamp
  lc_key :: string
  lc_limit :: int
  lc_window :: int

fun limiter_run :: "nat \<Rightarrow> limiter_call list \<Rightarrow> limiter_store \<Rightarrow> bool list" where
  "limiter_run M [] st = []"
| "limiter_run M (c # cs) st =
     (let (r, st') = limiter_consume M (lc_now c) (lc_key c) (lc_limit c) (lc_window c) st
      in rl_allowed r # limiter_run M cs st')"

fun admitted_times :: "string \<Rightarrow> int \<Rightarrow> limiter_call list \<Rightarrow> bool list \<Rightarrow> timestamp list" where
  "admitted_times key w (c # cs) (a # as) =
     (if a \<and> lc_key c = key \<and> lc_window c = w then [lc_now c] else []) @ admitted_times key w cs as"
| "admitted_times key w _ _ = []"

definition in_window :: "timestamp \<Rightarrow> int \<Rightarrow> timestamp list \<Rightarrow> timestamp list" where
  "in_window t w ts = filter (\<lambda>s. t - w \<le> s \<and> s \<le> t) ts"

lemma window_bound_snoc:
  assumes "\<forall>t. int (length (in_window t w H)) \<le> L"
    and "\<forall>s \<in> set H. s \<le> now" "int (length (window_times now w H)) < L"
  shows "int (length (in_window t w (H @ [now]))) \<le> L"
proof (cases "now \<le> t")
  case True
  have "length (in_window t w H) \<le> length (window_times now w H)"
    using True assms(2) unfolding in_window_def window_times_def
    by (induction H) (auto intro: le_SucI)
  with assms(3) show ?thesis by (simp add: in_window_def)
next
  case False
  with assms(1) show ?thesis by (simp add: in_window_def)
qed

lemma window_times_window_times:
  "c \<le> now - w \<Longrightarrow> window_times now w (filter (\<lambda>s. c \<le> s) H) = window_times now w H"
  by (auto simp: window_times_def intro: filter_cong)

lemma limiter_run_window:
  assumes "map_wf st" "set (map fst st) \<subseteq> K" "finite K" "card K \<le> M" "0 \<le> w"
    and "\<forall>c \<in> set cs. storageKey (lc_key c) (lc_window c) \<in> K \<and> start \<le> lc_now c"
    and "\<forall>c \<in> set cs. lc_key c = key \<and> lc_window c = w \<longrightarrow> lc_limit c \<le> L"
    and "sorted (map lc_now cs)"
    and "bucket st (storageKey key w) = filter (\<lambda>s. start - w \<le> s) H"
    and "\<forall>s \<in> set H. s \<le> start" "\<forall>t. int (length (in_window t w H)) \<le> L"
  shows "\<forall>t. int (length (in_window t w (H @ admitted_times key w cs (limiter_run M cs st)))) \<le> L"
  using assms
proof (induction cs arbitrary: st H start)
  case (Cons c cs)
  let ?now = "lc_now c" and ?sk = "storageKey (lc_key c) (lc_window c)"
  let ?r = "limiter_consume M ?now (lc_key c) (lc_limit c) (lc_window c) st"
  have K: "?sk \<in> K" and start: "start \<le> ?now" using Cons.prems(6) by auto
  note step = consume_no_eviction [OF Cons.prems(1,2) K Cons.prems(3,4),
      where now = ?now and limit = "lc_limit c"]
  have later: "\<forall>c' \<in> set cs. storageKey (lc_key c') (lc_window c') \<in> K \<and> ?now \<le> lc_now c'"
    using Cons.prems(6,8) by auto
  show ?case
  proof (cases "lc_key c = key \<and> lc_window c = w")
    case False
    then have "bucket (snd ?r) (storageKey key w) = filter (\<lambda>s. start - w \<le> s) H"
      using step(1) [of "storageKey key w"] Cons.prems(9) by auto
    with Cons.IH [OF step(2,3) Cons.prems(3-5), of start H] Cons.prems False show ?thesis
      by (auto simp: Let_def case_prod_unfold)
  next
    case True
    let ?v = "window_times ?now w H"
    have valid: "window_times ?now w (bucket st ?sk) = ?v"
      using True Cons.prems(9) start by (simp add: window_times_window_times)
    have bc: "bucket_consume ?now (lc_limit c) w (bucket st ?sk) =
        (if int (length ?v) \<ge> lc_limit c then (False, ?v) else (True, ?v @ [?now]))"
      by (simp add: bucket_consume_def valid)
    have b': "bucket (snd ?r) (storageKey key w) = snd (bucket_consume ?now (lc_limit c) w (bucket st ?sk))"
      using step(1) [of "storageKey key w"] True by simp
    have al: "rl_allowed (fst ?r) = fst (bucket_consume ?now (lc_limit c) w (bucket st ?sk))"
      using consume_allowed [of M ?now "lc_key c" "lc_limit c" "lc_window c" st] True by simp
    let ?H = "if int (length ?v) \<ge> lc_limit c then H else H @ [?now]"
    have "bucket (snd ?r) (storageKey key w) = filter (\<lambda>s. ?now - w \<le> s) ?H"
      using b' bc Cons.prems(5) by (simp add: window_times_def)
    moreover have "\<forall>s \<in> set ?H. s \<le> ?now" using Cons.prems(10) start by auto
    moreover have "\<forall>t. int (length (in_window t w ?H)) \<le> L"
    proof (cases "int (length ?v) \<ge> lc_limit c")
      case True
      with Cons.prems(11) show ?thesis by simp
    next
      case less: False
      have "\<forall>s \<in> set H. s \<le> ?now" using Cons.prems(10) start by auto
      moreover have "int (length ?v) < L" using less True Cons.prems(7) by auto
      ultimately have "int (length (in_window t w (H @ [?now]))) \<le> L" for t
        by (rule window_bound_snoc [OF Cons.prems(11)])
      with less show ?thesis by simp
    qed
    ultimately have "\<forall>t. int (length (in_window t w (?H @ admitted_times key w cs (limiter_run M cs (snd ?r))))) \<le> L"
      using Cons.IH [OF step(2,3) Cons.prems(3-5), of ?now ?H] Cons.prems(7,8) later by simp
    with True al bc show ?thesis
      by (auto simp: Let_def case_prod_unfold split: if_splits)
  qed
qed simp

text \<open>C15. The limit holds in every window: over any run of calls with a clock that does not go
  back and whose keys fit under the bucket cap, the requests admitted for one key and window
  within any period of the window's length never exceed the largest limit asked for, wherever
  the period starts and whatever other keys and windows are used in between.\<close>

theorem limiter_window_safety:
  assumes "sorted (map lc_now cs)" "0 \<le> w" "0 \<le> L"
    and "\<forall>c \<in> set cs. lc_key c = key \<and> lc_window c = w \<longrightarrow> lc_limit c \<le> L"
    and "card ((\<lambda>c. storageKey (lc_key c) (lc_window c)) ` set cs) \<le> M"
  shows "int (length (in_window t w (admitted_times key w cs (limiter_run M cs [])))) \<le> L"
proof (cases cs)
  case (Cons c cs')
  have first: "\<forall>c' \<in> set cs. lc_now c \<le> lc_now c'" using assms(1) Cons by auto
  have "\<forall>t. int (length (in_window t w ([] @ admitted_times key w cs (limiter_run M cs [])))) \<le> L"
    by (rule limiter_run_window [where K = "(\<lambda>c. storageKey (lc_key c) (lc_window c)) ` set cs" and start = "lc_now c"])
       (use assms first in \<open>simp_all add: bucket_def in_window_def\<close>)
  then show ?thesis by simp
qed (use assms(3) in \<open>simp add: in_window_def\<close>)

abbreviation client_call :: "timestamp \<Rightarrow> string \<Rightarrow> int \<Rightarrow> limiter_call" where
  "client_call now key w \<equiv> \<lparr>lc_now = now, lc_key = key, lc_limit = 2, lc_window = w\<rparr>"

theorem limiter_window_safety_witness:
  "limiter_run 10 [client_call 0 ''a'' 1000, client_call 900 ''a'' 1000, client_call 950 ''a'' 60000,
      client_call 1000 ''a'' 1000, client_call 1001 ''a'' 1000] [] = [True, True, True, False, True] \<and>
   length (in_window 1500 1000 (admitted_times ''a'' 1000
     [client_call 0 ''a'' 1000, client_call 900 ''a'' 1000, client_call 950 ''a'' 60000,
      client_call 1000 ''a'' 1000, client_call 1001 ''a'' 1000]
     (limiter_run 10 [client_call 0 ''a'' 1000, client_call 900 ''a'' 1000, client_call 950 ''a'' 60000,
      client_call 1000 ''a'' 1000, client_call 1001 ''a'' 1000] []))) \<le> 2"
proof -
  let ?cs = "[client_call 0 ''a'' 1000, client_call 900 ''a'' 1000, client_call 950 ''a'' 60000,
      client_call 1000 ''a'' 1000, client_call 1001 ''a'' 1000]"
  have run: "limiter_run 10 ?cs [] = [True, True, True, False, True]" by code_simp
  have "card ((\<lambda>c. storageKey (lc_key c) (lc_window c)) ` set ?cs) \<le> length ?cs"
  proof -
    have "card ((\<lambda>c. storageKey (lc_key c) (lc_window c)) ` set ?cs) \<le> card (set ?cs)"
      by (rule card_image_le) (rule finite_set)
    also have "\<dots> \<le> length ?cs" by (rule card_length)
    finally show ?thesis .
  qed
  then have k: "card ((\<lambda>c. storageKey (lc_key c) (lc_window c)) ` set ?cs) \<le> 10"
    by (rule order.trans) simp
  have h: "sorted (map lc_now ?cs)" "0 \<le> (1000 :: int)" "0 \<le> (2 :: int)"
    "\<forall>c \<in> set ?cs. lc_key c = ''a'' \<and> lc_window c = 1000 \<longrightarrow> lc_limit c \<le> 2"
    by simp_all
  show ?thesis using run limiter_window_safety [OF h k, of 1500] by simp
qed

subsection \<open>The backend\<close>

definition memory_backend :: "nat \<Rightarrow> limiter_store backend_ops" where
  "memory_backend maxBuckets = \<lparr>be_consume = limiter_consume maxBuckets, be_check = limiter_check,
     be_reset = limiter_reset, be_resetAll = limiter_resetAll\<rparr>"

lemma check_allowed:
  "rl_allowed (fst (limiter_check now key limit w st)) \<longleftrightarrow>
     int (length (window_times now w (bucket st (storageKey key w)))) < limit"
  by (simp add: limiter_check_def Let_def case_prod_unfold)

lemma window_times_idem [simp]: "window_times now w (window_times now w ts) = window_times now w ts"
  by (simp add: window_times_def)

interpretation memory: isolated_backend "memory_backend maxBuckets" for maxBuckets
proof (unfold_locales, goal_cases)
  case (1 now key limit w s)
  show ?case by (simp add: memory_backend_def check_allowed consume_allowed bucket_consume_def Let_def)
next
  case (2 limit now key w s)
  then show ?case by (simp add: memory_backend_def limiter_check_def Let_def case_prod_unfold)
next
  case (3 limit now key w s)
  then show ?case by (auto simp: memory_backend_def limiter_consume_def Let_def case_prod_unfold)
next
  case (4 now key' limit' w' key limit w s)
  have "snd (limiter_check now key limit w s) = snd (getValid now key w s)"
    by (simp add: limiter_check_def Let_def case_prod_unfold)
  then show ?case by (simp add: memory_backend_def check_allowed getValid_snd)
qed

text \<open>A refused request is refused until its window has passed: when nothing else is consumed
  in between, the same request is admitted exactly from the first instant after the time
  \<open>reset_at\<close> that the refusal named, for a bucket that holds no more than the limit.\<close>

theorem refused_until_reset:
  assumes "\<not> rl_allowed (fst (limiter_consume M now key limit w st))" "1 \<le> limit"
    and "int (length (bucket st (storageKey key w))) \<le> limit"
    and "sorted (bucket st (storageKey key w))" "now \<le> later"
  shows "rl_allowed (fst (limiter_consume M later key limit w (snd (limiter_consume M now key limit w st)))) \<longleftrightarrow>
    rl_reset_at (fst (limiter_consume M now key limit w st)) < later"
proof -
  let ?ts = "bucket st (storageKey key w)"
  have len: "int (length (window_times now w ?ts)) \<ge> limit"
    using assms(1) by (auto simp: consume_allowed bucket_consume_def Let_def split: if_splits)
  have "length (window_times now w ?ts) \<le> length ?ts" by (simp add: window_times_def)
  with len assms(3) have same: "length (window_times now w ?ts) = length ?ts" and n: "int (length ?ts) = limit"
    by linarith+
  from same have full: "window_times now w ?ts = ?ts" unfolding window_times_def by (rule filter_full)
  obtain t ts where t: "?ts = t # ts" using n assms(2) by (cases ?ts) auto
  have st': "snd (limiter_consume M now key limit w st) = snd (getValid now key w st)"
    and reset: "rl_reset_at (fst (limiter_consume M now key limit w st)) = t + w"
    using len full t by (simp_all add: limiter_consume_def Let_def case_prod_unfold window_reset_def)
  have "rl_allowed (fst (limiter_consume M later key limit w (snd (getValid now key w st)))) \<longleftrightarrow>
      int (length (window_times later w ?ts)) < limit"
    by (simp add: consume_allowed bucket_consume_def Let_def getValid_snd full)
  also have "\<dots> \<longleftrightarrow> t + w < later"
  proof
    assume less: "int (length (window_times later w ?ts)) < limit"
    show "t + w < later"
    proof (rule ccontr)
      assume "\<not> t + w < later"
      then have "\<forall>s \<in> set ?ts. s \<ge> later - w" using assms(4) t by auto
      then have "window_times later w ?ts = ?ts" by (simp add: window_times_def)
      with less n show False by simp
    qed
  next
    assume "t + w < later"
    then have "window_times later w ?ts = window_times later w ts" by (simp add: t window_times_def)
    moreover have "length (window_times later w ts) \<le> length ts" by (simp add: window_times_def)
    ultimately show "int (length (window_times later w ?ts)) < limit" using n t by simp
  qed
  finally show ?thesis by (simp only: st' reset)
qed

theorem refused_until_reset_witness:
  "\<not> rl_allowed (fst (limiter_consume 5 61000 ''a'' 2 60000 (snd (limiter_consume 5 5000 ''a'' 2 60000 [(''a:60000'', [1000, 2000])])))) \<and>
   rl_allowed (fst (limiter_consume 5 61001 ''a'' 2 60000 (snd (limiter_consume 5 5000 ''a'' 2 60000 [(''a:60000'', [1000, 2000])]))))"
proof -
  let ?st = "[(''a:60000'', [1000, 2000])] :: limiter_store"
  have h: "\<not> rl_allowed (fst (limiter_consume 5 5000 ''a'' 2 60000 ?st))"
    and r: "rl_reset_at (fst (limiter_consume 5 5000 ''a'' 2 60000 ?st)) = 61000"
    by code_simp+
  have b: "bucket ?st (storageKey ''a'' 60000) = [1000, 2000]" by code_simp
  have h2: "1 \<le> (2::int)" "int (length (bucket ?st (storageKey ''a'' 60000))) \<le> 2"
    "sorted (bucket ?st (storageKey ''a'' 60000))" unfolding b by simp_all
  from refused_until_reset [OF h h2, of 61000] refused_until_reset [OF h h2, of 61001] r
  show ?thesis by simp
qed

end
