(* ===== verification/Rate_Limiter.thy ===== *)
theory Rate_Limiter
  imports Limiter Redis_Limiter
begin

section \<open>Hierarchical limits and the request queue (src/src/rate-limit/rate-limiter.ts, queue.ts)\<close>

text \<open>
  The checks that a configuration gives for a client, a server and a tool, their evaluation
  over any backend, and the queue in which a refused request waits for capacity.  A waiting
  promise is a number; what the queue resolves and rejects is returned.
\<close>

record tool_rate_limit_config =
  tr_requests_per_minute :: "int option"
  tr_requests_per_hour :: "int option"
  tr_requests_per_day :: "int option"

record server_rate_limit_override =
  so_server :: string
  so_limits :: tool_rate_limit_config
  so_per_tool :: "(string, tool_rate_limit_config) jsmap option"

record queue_config =
  qc_enabled :: bool
  qc_max_wait_ms :: int
  qc_max_queue_size :: int

record rate_limit_config =
  rcf_global :: "tool_rate_limit_config option"
  rcf_per_client :: "tool_rate_limit_config option"
  rcf_overrides :: "server_rate_limit_override list option"
  rcf_queue :: "queue_config option"

text \<open>\<open>None\<close> in \<open>cr_remaining\<close> and \<open>cr_limit\<close> is \<open>Infinity\<close>; \<open>cr_blocked\<close> is the check that refused.\<close>

record rate_limit_check_result =
  cr_allowed :: bool
  cr_remaining :: "int option"
  cr_limit :: "int option"
  cr_reset_at :: timestamp
  cr_retry_after :: "int option"
  cr_blocked :: "rate_limit_check option"

definition "MS_PER_MINUTE = (60000 :: int)"
definition "MS_PER_HOUR = (3600000 :: int)"
definition "MS_PER_DAY = (86400000 :: int)"

subsection \<open>The checks\<close>

definition optional_check :: "int option \<Rightarrow> string \<Rightarrow> int \<Rightarrow> string \<Rightarrow> rate_limit_check list" where
  "optional_check limit key window_ms label =
     (case limit of None \<Rightarrow> []
      | Some l \<Rightarrow> [\<lparr>ck_key = key, ck_limit = l, ck_window_ms = window_ms, ck_label = label\<rparr>])"

definition buildChecks :: "string \<Rightarrow> tool_rate_limit_config \<Rightarrow> string \<Rightarrow> rate_limit_check list" where
  "buildChecks key config labelPrefix =
     optional_check (tr_requests_per_minute config) key MS_PER_MINUTE (labelPrefix @ ''/minute'')
     @ optional_check (tr_requests_per_hour config) key MS_PER_HOUR (labelPrefix @ ''/heure'')
     @ optional_check (tr_requests_per_day config) key MS_PER_DAY (labelPrefix @ ''/jour'')"

definition getClientChecks :: "rate_limit_config \<Rightarrow> string \<Rightarrow> rate_limit_check list" where
  "getClientChecks cfg clientId =
     (case rcf_global cfg of None \<Rightarrow> [] | Some g \<Rightarrow> buildChecks ''global'' g ''global'')
     @ (case rcf_per_client cfg of None \<Rightarrow> [] | Some c \<Rightarrow> buildChecks (''client:'' @ clientId) c ''client'')"

definition getServerChecks :: "rate_limit_config \<Rightarrow> string \<Rightarrow> string \<Rightarrow> string \<Rightarrow> rate_limit_check list" where
  "getServerChecks cfg clientId serverId toolName =
     (case rcf_overrides cfg of
        None \<Rightarrow> []
      | Some overrides \<Rightarrow>
          (case find (\<lambda>ov. so_server ov = serverId) overrides of
             None \<Rightarrow> []
           | Some ov \<Rightarrow>
               buildChecks (''server:'' @ serverId) (so_limits ov) ''server''
               @ (if toolName \<noteq> []
                  then (case so_per_tool ov of
                          None \<Rightarrow> []
                        | Some per_tool \<Rightarrow>
                            (case map_of per_tool toolName of
                               None \<Rightarrow> []
                             | Some toolConfig \<Rightarrow>
                                 buildChecks (''server:'' @ serverId @ '':tool:'' @ toolName) toolConfig ''tool''))
                  else [])
               @ (if toolName \<noteq> []
                  then buildChecks (''client:'' @ clientId @ '':server:'' @ serverId @ '':tool:'' @ toolName)
                         (so_limits ov) ''client-server-tool''
                  else [])))"

definition getChecks :: "rate_limit_config \<Rightarrow> string \<Rightarrow> string \<Rightarrow> string \<Rightarrow> rate_limit_check list" where
  "getChecks cfg clientId serverId toolName =
     getClientChecks cfg clientId @ getServerChecks cfg clientId serverId toolName"

subsection \<open>Evaluation\<close>

definition unlimited_result :: "timestamp \<Rightarrow> rate_limit_check_result" where
  "unlimited_result now = \<lparr>cr_allowed = True, cr_remaining = None, cr_limit = None,
     cr_reset_at = now + MS_PER_MINUTE, cr_retry_after = None, cr_blocked = None\<rparr>"

definition of_result :: "rate_limit_result \<Rightarrow> rate_limit_check option \<Rightarrow> rate_limit_check_result" where
  "of_result r blocked = \<lparr>cr_allowed = rl_allowed r, cr_remaining = Some (rl_remaining r),
     cr_limit = Some (rl_limit r), cr_reset_at = rl_reset_at r, cr_retry_after = rl_retry_after r,
     cr_blocked = blocked\<rparr>"

fun most_restrictive ::
  "'s backend_ops \<Rightarrow> timestamp \<Rightarrow> rate_limit_check list \<Rightarrow> rate_limit_result option \<Rightarrow> 's
     \<Rightarrow> rate_limit_result option \<times> 's" where
  "most_restrictive be now [] best s = (best, s)"
| "most_restrictive be now (c # cs) best s =
     (let (r, s') = be_check be now (ck_key c) (ck_limit c) (ck_window_ms c) s
      in most_restrictive be now cs
           (case best of None \<Rightarrow> Some (r\<lparr>rl_allowed := True\<rparr>)
            | Some b \<Rightarrow> (if rl_remaining r < rl_remaining b then Some (r\<lparr>rl_allowed := True\<rparr>) else Some b)) s')"

definition evaluateChecks ::
  "'s backend_ops \<Rightarrow> timestamp \<Rightarrow> rate_limit_check list \<Rightarrow> bool \<Rightarrow> 's \<Rightarrow> rate_limit_check_result \<times> 's" where
  "evaluateChecks be now checks consume s =
     (if length checks = 0 then (unlimited_result now, s)
      else case run_checks be consume now checks s of
        (Some (check, result), s') \<Rightarrow> (of_result result (Some check), s')
      | (None, s') \<Rightarrow>
          (case most_restrictive be now checks None s' of
             (Some r, s'') \<Rightarrow> (of_result r None, s'')
           | (None, s'') \<Rightarrow> (unlimited_result now, s'')))"

definition consumeClientLimits ::
  "'s backend_ops \<Rightarrow> timestamp \<Rightarrow> rate_limit_config \<Rightarrow> string \<Rightarrow> 's \<Rightarrow> rate_limit_check_result \<times> 's" where
  "consumeClientLimits be now cfg clientId s = evaluateChecks be now (getClientChecks cfg clientId) True s"

definition consumeServerLimits ::
  "'s backend_ops \<Rightarrow> timestamp \<Rightarrow> rate_limit_config \<Rightarrow> string \<Rightarrow> string \<Rightarrow> string \<Rightarrow> 's \<Rightarrow> rate_limit_check_result \<times> 's" where
  "consumeServerLimits be now cfg clientId serverId toolName s =
     evaluateChecks be now (getServerChecks cfg clientId serverId toolName) True s"

text \<open>
  \<open>consumeWithQueue\<close>: the wait in the queue is the argument \<open>await\<close>, which gives the state of
  the backend when the queue resolves the request and the time then, or \<open>None\<close> when it rejects it;
  \<open>queueable\<close> says whether there is a queue and the backend is the memory limiter.
\<close>

definition consumeWithQueue ::
  "'s backend_ops \<Rightarrow> bool \<Rightarrow> timestamp \<Rightarrow> (rate_limit_check \<Rightarrow> 's \<Rightarrow> ('s \<times> timestamp) option)
     \<Rightarrow> rate_limit_check list \<Rightarrow> 's \<Rightarrow> rate_limit_check_result \<times> 's" where
  "consumeWithQueue be queueable now await checks s =
     (let (preview, s1) = evaluateChecks be now checks False s
      in if cr_allowed preview then evaluateChecks be now checks True s1
         else case cr_blocked preview of
           None \<Rightarrow> evaluateChecks be now checks True s1
         | Some blocking \<Rightarrow>
             (if \<not> queueable \<or> ck_key blocking = [] then evaluateChecks be now checks True s1
              else case await blocking s1 of
                Some (s2, now2) \<Rightarrow>
                  evaluateChecks be now2 (filter (\<lambda>c. ck_key c \<noteq> ck_key blocking) checks) True s2
              | None \<Rightarrow> (preview, s1)))"

definition resetClient :: "'s backend_ops \<Rightarrow> string \<Rightarrow> 's \<Rightarrow> 's" where
  "resetClient be clientId s = be_reset be ''global'' (be_reset be (''client:'' @ clientId) s)"

record client_quota =
  cq_label :: string
  cq_remaining :: int
  cq_limit :: int
  cq_reset_at :: timestamp

fun getClientQuota ::
  "'s backend_ops \<Rightarrow> timestamp \<Rightarrow> rate_limit_check list \<Rightarrow> 's \<Rightarrow> client_quota list \<times> 's" where
  "getClientQuota be now [] s = ([], s)"
| "getClientQuota be now (c # cs) s =
     (let (r, s1) = be_check be now (ck_key c) (ck_limit c) (ck_window_ms c) s;
          (qs, s2) = getClientQuota be now cs s1
      in (\<lparr>cq_label = ck_label c, cq_remaining = rl_remaining r, cq_limit = ck_limit c,
           cq_reset_at = rl_reset_at r\<rparr> # qs, s2))"

definition getAllBuckets :: "limiter_store \<Rightarrow> (string \<times> nat \<times> timestamp) list" where
  "getAllBuckets store = map (\<lambda>(k, ts). (k, length ts, case ts of t # _ \<Rightarrow> t | [] \<Rightarrow> 0)) store"

subsection \<open>The queue\<close>

record queue_entry =
  qe_id :: nat
  qe_deadline :: timestamp

record queue_key_state =
  qk_entries :: "queue_entry list"
  qk_limit :: int
  qk_window_ms :: int

type_synonym queues = "(string, queue_key_state) jsmap"

datatype queue_error = QueueDisabled | QueueFull

definition enqueue ::
  "queue_config \<Rightarrow> timestamp \<Rightarrow> nat \<Rightarrow> string \<Rightarrow> int \<Rightarrow> int \<Rightarrow> queues \<Rightarrow> queue_error + queues" where
  "enqueue cfg now ident key limit window_ms queues =
     (if \<not> qc_enabled cfg then Inl QueueDisabled
      else (let currentEntries = (case map_of queues key of Some ks \<Rightarrow> qk_entries ks | None \<Rightarrow> [])
            in if int (length currentEntries) \<ge> qc_max_queue_size cfg then Inl QueueFull
               else (let entry = \<lparr>qe_id = ident, qe_deadline = now + qc_max_wait_ms cfg\<rparr>
                     in case map_of queues key of
                          Some ks \<Rightarrow> Inr (AList.update key (ks\<lparr>qk_entries := qk_entries ks @ [entry]\<rparr>) queues)
                        | None \<Rightarrow> Inr (AList.update key \<lparr>qk_entries = [entry], qk_limit = limit,
                                        qk_window_ms = window_ms\<rparr> queues))))"

text \<open>Entries are served from the front as long as the limiter has capacity.\<close>

fun serve_entries ::
  "nat \<Rightarrow> timestamp \<Rightarrow> string \<Rightarrow> int \<Rightarrow> int \<Rightarrow> queue_entry list \<Rightarrow> limiter_store
     \<Rightarrow> queue_entry list \<times> queue_entry list \<times> limiter_store" where
  "serve_entries M now key limit w [] st = ([], [], st)"
| "serve_entries M now key limit w (e # es) st =
     (let (r, st1) = limiter_check now key limit w st
      in if \<not> rl_allowed r then ([], e # es, st1)
         else (let (_, st2) = limiter_consume M now key limit w st1;
                   (served, left, st3) = serve_entries M now key limit w es st2
               in (e # served, left, st3)))"

definition process_key ::
  "nat \<Rightarrow> timestamp \<Rightarrow> string \<times> queue_key_state \<Rightarrow> limiter_store
     \<Rightarrow> nat list \<times> nat list \<times> (string, queue_key_state) jsmap \<times> limiter_store" where
  "process_key M now k st =
     (case k of (key, ks) \<Rightarrow>
       (if qk_entries ks = [] then ([], [], [], st)
        else (let expired = filter (\<lambda>e. now \<ge> qe_deadline e) (qk_entries ks);
                  waiting = filter (\<lambda>e. \<not> now \<ge> qe_deadline e) (qk_entries ks);
                  (served, left, st') = serve_entries M now key (qk_limit ks) (qk_window_ms ks) waiting st
              in (map qe_id served, map qe_id expired,
                  if left = [] then [] else [(key, ks\<lparr>qk_entries := left\<rparr>)], st'))))"

text \<open>The polling step over all keys: resolved and rejected promises, the queues left.\<close>

fun processAllPendingRequests ::
  "nat \<Rightarrow> timestamp \<Rightarrow> queues \<Rightarrow> limiter_store \<Rightarrow> nat list \<times> nat list \<times> queues \<times> limiter_store" where
  "processAllPendingRequests M now [] st = ([], [], [], st)"
| "processAllPendingRequests M now (k # ks) st =
     (let (served, expired, q, st1) = process_key M now k st;
          (served', expired', q', st2) = processAllPendingRequests M now ks st1
      in (served @ served', expired @ expired', q @ q', st2))"

definition pendingCount :: "queues \<Rightarrow> nat" where
  "pendingCount queues = sum_list (map (\<lambda>(key, ks). length (qk_entries ks)) queues)"

text \<open>\<open>stop\<close> rejects every waiting request.\<close>

definition stop_queue :: "queues \<Rightarrow> nat list \<times> queues" where
  "stop_queue queues = (concat (map (\<lambda>(key, ks). map qe_id (qk_entries ks)) queues), [])"

subsection \<open>What a list of checks consumes\<close>

abbreviation check_sk :: "rate_limit_check \<Rightarrow> string" where
  "check_sk c \<equiv> storageKey (ck_key c) (ck_window_ms c)"

definition has_capacity :: "timestamp \<Rightarrow> limiter_store \<Rightarrow> rate_limit_check \<Rightarrow> bool" where
  "has_capacity now st c \<longleftrightarrow>
     int (length (window_times now (ck_window_ms c) (bucket st (check_sk c)))) < ck_limit c"

lemma has_capacity_bucket:
  "bucket st (check_sk c) = bucket st' (check_sk c) \<Longrightarrow> has_capacity now st c = has_capacity now st' c"
  by (simp add: has_capacity_def)

text \<open>Up to the first check without capacity each check consumes one; no other bucket changes.\<close>

lemma run_checks_memory:
  assumes "map_wf st" "set (map fst st) \<subseteq> K" "check_sk ` set cs \<subseteq> K" "finite K" "card K \<le> M"
    and "distinct (map check_sk cs)"
  shows "map_option fst (fst (run_checks (memory_backend M) True now cs st)) =
      find (\<lambda>c. \<not> has_capacity now st c) cs \<and>
    (\<forall>c \<in> set (takeWhile (has_capacity now st) cs).
      bucket (snd (run_checks (memory_backend M) True now cs st)) (check_sk c) =
        window_times now (ck_window_ms c) (bucket st (check_sk c)) @ [now]) \<and>
    (\<forall>sk. sk \<notin> check_sk ` set cs \<longrightarrow>
      bucket (snd (run_checks (memory_backend M) True now cs st)) sk = bucket st sk) \<and>
    (\<forall>c \<in> set (dropWhile (has_capacity now st) cs).
      window_times now (ck_window_ms c) (bucket (snd (run_checks (memory_backend M) True now cs st)) (check_sk c)) =
      window_times now (ck_window_ms c) (bucket st (check_sk c)))"
  using assms
proof (induction cs arbitrary: st)
  case (Cons c cs)
  let ?r = "limiter_consume M now (ck_key c) (ck_limit c) (ck_window_ms c) st"
  have K: "check_sk c \<in> K" using Cons.prems(3) by simp
  note step = consume_no_eviction [OF Cons.prems(1,2) K Cons.prems(4,5), where now = now and limit = "ck_limit c"]
  have al: "rl_allowed (fst ?r) = has_capacity now st c"
    by (simp add: consume_allowed bucket_consume_def Let_def has_capacity_def)
  have run: "run_checks (memory_backend M) True now (c # cs) st =
      (if has_capacity now st c then run_checks (memory_backend M) True now cs (snd ?r) else (Some (c, fst ?r), snd ?r))"
    using al by (simp add: run_check_def memory_backend_def Let_def case_prod_unfold)
  show ?case
  proof (cases "has_capacity now st c")
    case False
    then have "snd (bucket_consume now (ck_limit c) (ck_window_ms c) (bucket st (check_sk c))) =
        window_times now (ck_window_ms c) (bucket st (check_sk c))"
      by (simp add: bucket_consume_def Let_def has_capacity_def)
    then have b: "bucket (snd ?r) sk = (if sk = check_sk c then window_times now (ck_window_ms c) (bucket st sk)
        else bucket st sk)" for sk
      using step(1) [of sk] by simp
    have run': "run_checks (memory_backend M) True now (c # cs) st = (Some (c, fst ?r), snd ?r)"
      using False by (simp only: run if_False)
    have "window_times now (ck_window_ms c') (bucket (snd ?r) (check_sk c')) =
        window_times now (ck_window_ms c') (bucket st (check_sk c'))" for c'
      by (cases "check_sk c' = check_sk c") (simp_all add: b)
    moreover have "bucket (snd ?r) sk = bucket st sk" if "sk \<notin> check_sk ` set (c # cs)" for sk
      using that b by simp
    ultimately show ?thesis unfolding run' using False by simp
  next
    case True
    then have b: "bucket (snd ?r) sk = (if sk = check_sk c then window_times now (ck_window_ms c) (bucket st sk) @ [now]
        else bucket st sk)" for sk
      using step(1) [of sk] by (simp add: bucket_consume_def Let_def has_capacity_def)
    have ne: "check_sk c' \<noteq> check_sk c" if "c' \<in> set cs" for c'
    proof
      assume eq: "check_sk c' = check_sk c"
      have "check_sk c' \<in> check_sk ` set cs" using that by (rule imageI)
      moreover have "check_sk c \<notin> check_sk ` set cs" using Cons.prems(6) by (simp del: storageKey_inject)
      ultimately show False unfolding eq by blast
    qed
    have others: "bucket (snd ?r) (check_sk c') = bucket st (check_sk c')" if "c' \<in> set cs" for c'
      using ne [OF that] by (simp only: b if_False)
    then have same: "has_capacity now (snd ?r) c' = has_capacity now st c'" if "c' \<in> set cs" for c'
      using that by (intro has_capacity_bucket) simp
    have find: "find (\<lambda>c. \<not> has_capacity now (snd ?r) c) cs = find (\<lambda>c. \<not> has_capacity now st c) cs"
      by (rule find_cong) (simp_all add: same)
    have tw: "takeWhile (has_capacity now (snd ?r)) cs = takeWhile (has_capacity now st) cs"
      by (rule takeWhile_cong) (simp_all add: same)
    have dw: "dropWhile (has_capacity now (snd ?r)) cs = dropWhile (has_capacity now st) cs"
      by (rule dropWhile_cong) (simp_all add: same)
    have sub: "check_sk ` set cs \<subseteq> K" using Cons.prems(3) by (simp del: storageKey_inject)
    have d: "distinct (map check_sk cs)" using Cons.prems(6) by (simp del: storageKey_inject)
    note ih = Cons.IH [OF step(2,3) sub Cons.prems(4,5) d, unfolded find tw dw]
    have notin: "check_sk c \<notin> check_sk ` set cs" using Cons.prems(6) by (simp del: storageKey_inject)
    have tws: "c' \<in> set cs" if "c' \<in> set (takeWhile (has_capacity now st) cs)" for c'
      using that by (rule set_takeWhileD [THEN conjunct1])
    have dws: "c' \<in> set cs" if "c' \<in> set (dropWhile (has_capacity now st) cs)" for c'
      using that by (rule set_dropWhileD)
    let ?res = "run_checks (memory_backend M) True now cs (snd ?r)"
    have run': "run_checks (memory_backend M) True now (c # cs) st = ?res" by (simp only: run True if_True)
    have own: "bucket (snd ?res) (check_sk c) = window_times now (ck_window_ms c) (bucket st (check_sk c)) @ [now]"
      using ih notin b by simp
    show ?thesis unfolding run'
    proof (intro conjI ballI allI impI)
      show "map_option fst (fst ?res) = find (\<lambda>c. \<not> has_capacity now st c) (c # cs)"
        using ih True by simp
    next
      fix c' assume "c' \<in> set (takeWhile (has_capacity now st) (c # cs))"
      then consider "c' = c" | "c' \<in> set (takeWhile (has_capacity now st) cs)" using True by auto
      then show "bucket (snd ?res) (check_sk c') =
          window_times now (ck_window_ms c') (bucket st (check_sk c')) @ [now]"
      proof cases
        case 2
        with ih have "bucket (snd ?res) (check_sk c') =
            window_times now (ck_window_ms c') (bucket (snd ?r) (check_sk c')) @ [now]" by blast
        then show ?thesis by (simp only: others [OF tws [OF 2]])
      qed (use own in simp)
    next
      fix sk assume sk: "sk \<notin> check_sk ` set (c # cs)"
      with ih have "bucket (snd ?res) sk = bucket (snd ?r) sk" by simp
      with sk b show "bucket (snd ?res) sk = bucket st sk" by simp
    next
      fix c' assume "c' \<in> set (dropWhile (has_capacity now st) (c # cs))"
      then have c': "c' \<in> set (dropWhile (has_capacity now st) cs)" using True by simp
      with ih have "window_times now (ck_window_ms c') (bucket (snd ?res) (check_sk c')) =
          window_times now (ck_window_ms c') (bucket (snd ?r) (check_sk c'))" by blast
      then show "window_times now (ck_window_ms c') (bucket (snd ?res) (check_sk c')) =
          window_times now (ck_window_ms c') (bucket st (check_sk c'))"
        by (simp only: others [OF dws [OF c']])
    qed
  qed
qed simp

lemma check_snd: "snd (limiter_check now key limit w st) = snd (getValid now key w st)"
  by (simp add: limiter_check_def Let_def case_prod_unfold)

lemma check_keeps_valid:
  "window_times now (ck_window_ms c) (bucket (snd (limiter_check now key limit w st)) (check_sk c)) =
   window_times now (ck_window_ms c) (bucket st (check_sk c))"
  by (auto simp: check_snd getValid_snd)

lemma most_restrictive_memory:
  "window_times now (ck_window_ms c) (bucket (snd (most_restrictive (memory_backend M) now cs best st)) (check_sk c)) =
   window_times now (ck_window_ms c) (bucket st (check_sk c))"
  by (induction cs arbitrary: best st)
     (simp_all add: memory_backend_def Let_def case_prod_unfold check_keeps_valid)

lemma most_restrictive_allowed:
  "cs \<noteq> [] \<or> best \<noteq> None \<Longrightarrow> (\<forall>b. best = Some b \<longrightarrow> rl_allowed b) \<Longrightarrow>
   \<exists>r. fst (most_restrictive be now cs best st) = Some r \<and> rl_allowed r"
proof (induction cs arbitrary: best st)
  case (Cons c cs)
  show ?case
    by (auto simp: Let_def case_prod_unfold intro!: Cons.IH split: option.splits) (use Cons.prems in blast)+
qed auto

lemma evaluateChecks_cases:
  assumes "cs \<noteq> []"
  obtains (blocked) c r s' where "run_checks be consume now cs s = (Some (c, r), s')"
      "evaluateChecks be now cs consume s = (of_result r (Some c), s')"
    | (passed) s' r where "run_checks be consume now cs s = (None, s')" "rl_allowed r"
      "evaluateChecks be now cs consume s = (of_result r None, snd (most_restrictive be now cs None s'))"
proof (cases "run_checks be consume now cs s")
  case (Pair o' s')
  show ?thesis
  proof (cases o')
    case None
    obtain r where "fst (most_restrictive be now cs None s') = Some r" "rl_allowed r"
      using most_restrictive_allowed [of cs None be now s'] assms by auto
    with passed [of s' r] Pair None assms show ?thesis
      by (cases "most_restrictive be now cs None s'") (auto simp: evaluateChecks_def)
  next
    case (Some p)
    with blocked [of "fst p" "snd p" s'] Pair assms show ?thesis
      by (auto simp: evaluateChecks_def case_prod_unfold)
  qed
qed

text \<open>Consuming a list of limits lets the request pass exactly when every limit of the list has
  capacity, names the first one without as the blocking limit otherwise, and takes one request
  from each limit before that one and none from it or from those after it.\<close>

theorem evaluateChecks_consume:
  assumes "map_wf st" "card (set (map fst st) \<union> check_sk ` set cs) \<le> M" "distinct (map check_sk cs)"
    and "\<forall>c \<in> set cs. 0 \<le> ck_window_ms c" "cs \<noteq> []"
  shows "cr_allowed (fst (evaluateChecks (memory_backend M) now cs True st)) = list_all (has_capacity now st) cs \<and>
    cr_blocked (fst (evaluateChecks (memory_backend M) now cs True st)) = find (\<lambda>c. \<not> has_capacity now st c) cs \<and>
    list_all (\<lambda>c. window_times now (ck_window_ms c)
        (bucket (snd (evaluateChecks (memory_backend M) now cs True st)) (check_sk c)) =
      window_times now (ck_window_ms c) (bucket st (check_sk c))
        @ (if c \<in> set (takeWhile (has_capacity now st) cs) then [now] else [])) cs"
proof -
  let ?be = "memory_backend M" and ?K = "set (map fst st) \<union> check_sk ` set cs"
  note rc = run_checks_memory [OF assms(1), of ?K cs M now, OF Un_upper1 Un_upper2 _ assms(2,3)]
  have first: "map_option fst (fst (run_checks ?be True now cs st)) = find (\<lambda>c. \<not> has_capacity now st c) cs"
    using rc by simp
  let ?mid = "snd (run_checks ?be True now cs st)"
  have mid: "window_times now (ck_window_ms c) (bucket ?mid (check_sk c)) =
      window_times now (ck_window_ms c) (bucket st (check_sk c))
        @ (if c \<in> set (takeWhile (has_capacity now st) cs) then [now] else [])" if c: "c \<in> set cs" for c
  proof (cases "c \<in> set (takeWhile (has_capacity now st) cs)")
    case True
    with rc have "bucket ?mid (check_sk c) = window_times now (ck_window_ms c) (bucket st (check_sk c)) @ [now]"
      by simp
    with True c assms(4) show ?thesis by (simp add: window_times_def)
  next
    case False
    then have "c \<in> set (dropWhile (has_capacity now st) cs)"
      using c takeWhile_dropWhile_id [of "has_capacity now st" cs] by (metis Un_iff set_append)
    with rc False show ?thesis by simp
  qed
  have final: "window_times now (ck_window_ms c) (bucket (snd (evaluateChecks ?be now cs True st)) (check_sk c)) =
      window_times now (ck_window_ms c) (bucket ?mid (check_sk c))" for c
    by (rule evaluateChecks_cases [OF assms(5), of ?be True now st]) (simp_all add: most_restrictive_memory)
  have blocked: "\<not> rl_allowed r" if "fst (run_checks ?be True now cs st) = Some (c, r)" for c r
    using memory.blocked_in [OF that] by simp
  have "(cr_allowed (fst (evaluateChecks ?be now cs True st)) \<longleftrightarrow> fst (run_checks ?be True now cs st) = None) \<and>
    cr_blocked (fst (evaluateChecks ?be now cs True st)) = map_option fst (fst (run_checks ?be True now cs st))"
  proof (rule evaluateChecks_cases [OF assms(5), of ?be True now st], goal_cases)
    case (1 c r s')
    with blocked [of c r] show ?case by (simp add: of_result_def)
  next
    case (2 s' r)
    then show ?case by (simp add: of_result_def)
  qed
  moreover have "fst (run_checks ?be True now cs st) = None \<longleftrightarrow> find (\<lambda>c. \<not> has_capacity now st c) cs = None"
    unfolding first [symmetric] by simp
  moreover have "find (\<lambda>c. \<not> has_capacity now st c) cs = None \<longleftrightarrow> list_all (has_capacity now st) cs"
    by (auto simp: find_None_iff list_all_iff)
  moreover have "list_all (\<lambda>c. window_times now (ck_window_ms c)
        (bucket (snd (evaluateChecks ?be now cs True st)) (check_sk c)) =
      window_times now (ck_window_ms c) (bucket st (check_sk c))
        @ (if c \<in> set (takeWhile (has_capacity now st) cs) then [now] else [])) cs"
    unfolding list_all_iff final by (intro ballI mid)
  ultimately show ?thesis by (simp only: first simp_thms)
qed

definition example_limits :: rate_limit_config where
  "example_limits = \<lparr>rcf_global = Some \<lparr>tr_requests_per_minute = Some 2, tr_requests_per_hour = None, tr_requests_per_day = None\<rparr>,
     rcf_per_client = Some \<lparr>tr_requests_per_minute = Some 1, tr_requests_per_hour = Some 10, tr_requests_per_day = None\<rparr>,
     rcf_overrides = None, rcf_queue = None\<rparr>"

definition example_store :: limiter_store where
  "example_store = [(''global:60000'', [1000]), (''client:a:60000'', [1000]), (''client:a:3600000'', [1000])]"

theorem evaluateChecks_consume_witness:
  "map_option ck_label (cr_blocked (fst (evaluateChecks (memory_backend 100) 2000 (getChecks example_limits ''a'' ''s'' ''t'') True
      example_store))) = Some ''client/minute''"
proof -
  let ?cs = "getChecks example_limits ''a'' ''s'' ''t''"
  have sks: "map check_sk ?cs = [''global:60000'', ''client:a:60000'', ''client:a:3600000'']"
    and b: "map_option ck_label (find (\<lambda>c. \<not> has_capacity 2000 example_store c) ?cs) = Some ''client/minute''"
    by code_simp+
  have h1: "map_wf example_store" by (simp add: map_wf_def example_store_def)
  have len: "length ?cs = 3" "length example_store = 3" by code_simp+
  have "set (map fst example_store) \<union> check_sk ` set ?cs = set (map fst example_store @ map check_sk ?cs)"
    by (simp only: set_append set_map)
  then have h2: "card (set (map fst example_store) \<union> check_sk ` set ?cs) \<le> 100"
    using card_length [of "map fst example_store @ map check_sk ?cs"] len
    by (simp only: length_append length_map)
  have h3: "distinct (map check_sk ?cs)" unfolding sks by simp
  have h4: "\<forall>c \<in> set ?cs. 0 \<le> ck_window_ms c" "?cs \<noteq> []"
    by (simp_all add: getChecks_def getClientChecks_def getServerChecks_def example_limits_def buildChecks_def
        optional_check_def MS_PER_MINUTE_def MS_PER_HOUR_def MS_PER_DAY_def)
  from evaluateChecks_consume [OF h1 h2 h3 h4, of 2000] b show ?thesis by simp
qed

subsection \<open>Waiting requests\<close>

text \<open>A polling step serves the waiting requests of a key in their order, as many of them as the
  window has room for and not one more.\<close>

theorem serve_entries_fifo:
  assumes "map_wf st" "card (insert (storageKey key w) (set (map fst st))) \<le> M" "0 \<le> w"
  shows "fst (serve_entries M now key limit w es st) @ fst (snd (serve_entries M now key limit w es st)) = es \<and>
    int (length (fst (serve_entries M now key limit w es st))) =
      min (int (length es)) (max 0 (limit - int (length (window_times now w (bucket st (storageKey key w))))))"
proof -
  let ?sk = "storageKey key w"
  define K where "K = insert ?sk (set (map fst st))"
  have K: "?sk \<in> K" "finite K" "card K \<le> M" using assms(2) by (simp_all add: K_def)
  have "fst (serve_entries M now key limit w es s) @ fst (snd (serve_entries M now key limit w es s)) = es \<and>
    int (length (fst (serve_entries M now key limit w es s))) =
      min (int (length es)) (max 0 (limit - int (length (window_times now w (bucket s ?sk)))))"
    if "map_wf s" "set (map fst s) \<subseteq> K" for s
    using that
  proof (induction es arbitrary: s)
    case (Cons e es)
    let ?c = "snd (limiter_check now key limit w s)"
    let ?s = "snd (limiter_consume M now key limit w ?c)"
    have c: "map_wf ?c" "set (map fst ?c) \<subseteq> K"
      using getValid_keys [where st = s and now = now and key = key and w = w] Cons.prems by (auto simp: check_snd)
    note step = consume_no_eviction [OF c K, where now = now and limit = limit]
    have valid: "window_times now w (bucket ?c ?sk) = window_times now w (bucket s ?sk)"
      by (simp add: check_snd getValid_snd)
    show ?case
    proof (cases "int (length (window_times now w (bucket s ?sk))) < limit")
      case True
      then have "bucket ?s ?sk = window_times now w (bucket s ?sk) @ [now]"
        using step(1) [of ?sk] by (simp add: bucket_consume_def Let_def valid)
      then have more: "window_times now w (bucket ?s ?sk) = window_times now w (bucket s ?sk) @ [now]"
        using assms(3) by (simp add: window_times_def)
      from Cons.IH [OF step(2,3)] True more show ?thesis
        by (auto simp: Let_def case_prod_unfold check_allowed)
    next
      case False
      then show ?thesis by (simp add: Let_def case_prod_unfold check_allowed)
    qed
  qed simp
  then show ?thesis using assms(1) by (auto simp: K_def)
qed

theorem serve_entries_fifo_witness:
  "map qe_id (fst (serve_entries 10 3000 ''k'' 3 1000
     [\<lparr>qe_id = 1, qe_deadline = 9000\<rparr>, \<lparr>qe_id = 2, qe_deadline = 9000\<rparr>, \<lparr>qe_id = 3, qe_deadline = 9000\<rparr>]
     [(''k:1000'', [1500, 2500])])) = [1, 2] \<and>
   length (fst (serve_entries 10 3000 ''k'' 3 1000
     [\<lparr>qe_id = 1, qe_deadline = 9000\<rparr>, \<lparr>qe_id = 2, qe_deadline = 9000\<rparr>, \<lparr>qe_id = 3, qe_deadline = 9000\<rparr>]
     [(''k:1000'', [1500, 2500])])) = 2"
proof -
  let ?st = "[(''k:1000'', [1500, 2500])] :: limiter_store"
  let ?es = "[\<lparr>qe_id = 1, qe_deadline = 9000\<rparr>, \<lparr>qe_id = 2, qe_deadline = 9000\<rparr>, \<lparr>qe_id = 3, qe_deadline = 9000\<rparr>]"
  have sk: "storageKey ''k'' 1000 = ''k:1000''" by code_simp
  have h: "map_wf ?st" "card (insert (storageKey ''k'' 1000) (set (map fst ?st))) \<le> 10" "0 \<le> (1000::int)"
    by (simp_all add: map_wf_def sk)
  have v: "length (window_times 3000 1000 (bucket ?st (storageKey ''k'' 1000))) = 1" by code_simp
  have r: "map qe_id (fst (serve_entries 10 3000 ''k'' 3 1000 ?es ?st)) = [1, 2]" by code_simp
  from serve_entries_fifo [OF h, of 3000 3 ?es] v have "length (fst (serve_entries 10 3000 ''k'' 3 1000 ?es ?st)) = 2"
    by simp
  with r show ?thesis by blast
qed

text \<open>A request that came through the queue is not counted by the other limits of the key that
  blocked it: after the wait, the buckets of all other windows of that key are as the wait left
  them, up to times that have expired, although the request is let through.\<close>

theorem queued_request_skips_windows:
  assumes "\<not> cr_allowed (fst (evaluateChecks (memory_backend M) now checks False st))"
    and "cr_blocked (fst (evaluateChecks (memory_backend M) now checks False st)) = Some blocking"
    and "ck_key blocking \<noteq> []"
    and "await blocking (snd (evaluateChecks (memory_backend M) now checks False st)) = Some (st2, now2)"
    and "map_wf st2" "card (set (map fst st2) \<union> check_sk ` set checks) \<le> M" "distinct (map check_sk checks)"
    and "ck_key c = ck_key blocking"
  shows "window_times now2 (ck_window_ms c)
      (bucket (snd (consumeWithQueue (memory_backend M) True now await checks st)) (check_sk c)) =
    window_times now2 (ck_window_ms c) (bucket st2 (check_sk c))"
proof -
  let ?be = "memory_backend M" and ?rest = "filter (\<lambda>c. ck_key c \<noteq> ck_key blocking) checks"
  let ?K = "set (map fst st2) \<union> check_sk ` set checks"
  have run: "consumeWithQueue ?be True now await checks st = evaluateChecks ?be now2 ?rest True st2"
    using assms(1-4) by (simp add: consumeWithQueue_def Let_def case_prod_unfold)
  have d: "distinct (map check_sk ?rest)" using assms(7) by (rule distinct_map_filter)
  have sub: "check_sk ` set ?rest \<subseteq> ?K" by auto
  have out: "check_sk c \<notin> check_sk ` set ?rest" using assms(8) by auto
  from run_checks_memory [OF assms(5) Un_upper1 sub _ assms(6) d, of now2] out
  have mid: "bucket (snd (run_checks ?be True now2 ?rest st2)) (check_sk c) = bucket st2 (check_sk c)"
    by simp
  show ?thesis
  proof (cases "?rest = []")
    case True
    then show ?thesis by (simp only: run) (simp add: evaluateChecks_def)
  next
    case False
    then show ?thesis unfolding run
      by (rule evaluateChecks_cases [of ?rest ?be True now2 st2])
         (use mid in \<open>simp_all add: most_restrictive_memory\<close>)
  qed
qed

definition hourly_limits :: rate_limit_config where
  "hourly_limits = \<lparr>rcf_global = None,
     rcf_per_client = Some \<lparr>tr_requests_per_minute = Some 1, tr_requests_per_hour = Some 10, tr_requests_per_day = None\<rparr>,
     rcf_overrides = None, rcf_queue = None\<rparr>"

definition polled_store :: limiter_store where
  "polled_store = [(''client:a:60000'', [61001]), (''client:a:3600000'', [1000])]"

theorem queued_request_skips_windows_witness:
  "window_times 61001 3600000 (bucket (snd (consumeWithQueue (memory_backend 100) True 2000
      (\<lambda>_ _. Some (polled_store, 61001)) (getChecks hourly_limits ''a'' ''s'' ''t'') example_store))
        (storageKey ''client:a'' 3600000)) = [1000]"
proof -
  let ?cs = "getChecks hourly_limits ''a'' ''s'' ''t''"
  let ?e = "evaluateChecks (memory_backend 100) 2000 ?cs False example_store"
  let ?blocking = "?cs ! 0" and ?hour = "?cs ! 1"
  have cs: "?cs = [\<lparr>ck_key = ''client:a'', ck_limit = 1, ck_window_ms = 60000, ck_label = ''client/minute''\<rparr>,
      \<lparr>ck_key = ''client:a'', ck_limit = 10, ck_window_ms = 3600000, ck_label = ''client/heure''\<rparr>]"
    by (simp add: getChecks_def getClientChecks_def getServerChecks_def hourly_limits_def buildChecks_def
        optional_check_def MS_PER_MINUTE_def MS_PER_HOUR_def)
  let ?rc = "run_check (memory_backend 100) False 2000 ?blocking example_store"
  have nb: "\<not> rl_allowed (fst ?rc)" unfolding cs by (simp only: nth_Cons_0) code_simp
  have split_cs: "?cs = ?blocking # tl ?cs" by (simp add: cs)
  have "run_checks (memory_backend 100) False 2000 (?blocking # tl ?cs) example_store = (Some (?blocking, fst ?rc), snd ?rc)"
    using nb by (simp only: run_checks.simps Let_def case_prod_unfold simp_thms if_True)
  then have "?e = (of_result (fst ?rc) (Some ?blocking), snd ?rc)"
    unfolding split_cs [symmetric] by (simp add: evaluateChecks_def cs)
  with nb have h1: "\<not> cr_allowed (fst ?e)" "cr_blocked (fst ?e) = Some ?blocking"
    by (simp_all add: of_result_def)
  have h2: "ck_key ?blocking \<noteq> []" by (simp add: cs)
  have sks: "map check_sk ?cs = [''client:a:60000'', ''client:a:3600000'']" by code_simp
  have wf: "map_wf polled_store" by (simp add: map_wf_def polled_store_def)
  have "set (map fst polled_store) \<union> check_sk ` set ?cs = set (map fst polled_store @ map check_sk ?cs)"
    by (simp only: set_append set_map)
  moreover have "length polled_store = 2" "length ?cs = 2" by (simp_all add: polled_store_def cs)
  ultimately have k: "card (set (map fst polled_store) \<union> check_sk ` set ?cs) \<le> 100"
    using card_length [of "map fst polled_store @ map check_sk ?cs"] by (simp only: length_append length_map)
  have d: "distinct (map check_sk ?cs)" unfolding sks by simp
  have same: "ck_key ?hour = ck_key ?blocking" by (simp add: cs)
  have b: "window_times 61001 3600000 (bucket polled_store (storageKey ''client:a'' 3600000)) = [1000]" by code_simp
  have hour: "ck_window_ms ?hour = 3600000" "check_sk ?hour = storageKey ''client:a'' 3600000" by (simp_all add: cs)
  have w: "(\<lambda>_ _. Some (polled_store, 61001 :: timestamp)) ?blocking (snd ?e) = Some (polled_store, 61001)"
    by simp
  show ?thesis
    using queued_request_skips_windows [OF h1 h2 w wf k d same] unfolding hour(2) unfolding hour(1) b .
qed

subsection \<open>Resetting a client\<close>

lemma map_of_reset:
  "map_of (limiter_reset key st) sk = (if starts_with sk (key @ '':'') then None else map_of st sk)"
proof -
  have "map_of (fold (\<lambda>k t. if P k then AList.delete k t else t) ks t) sk =
      (if P sk \<and> sk \<in> set ks then None else map_of t sk)" for P ks and t :: limiter_store
    by (induction ks arbitrary: t) (auto simp: delete_conv')
  moreover have "map_of st sk = None" if "sk \<notin> set (map fst st)"
    using that by (simp add: map_of_eq_None_iff)
  ultimately show ?thesis by (auto simp: limiter_reset_def)
qed

text \<open>Resetting a client clears exactly the buckets whose storage key starts with the client's key
  or with the global one: all its windows, servers and tools, the limit all clients share, and
  the buckets of every other client whose id continues this one's after a colon.\<close>

theorem resetClient_memory:
  "map_of (resetClient (memory_backend M) clientId st) sk =
     (if starts_with sk (''client:'' @ clientId @ '':'') \<or> starts_with sk ''global:'' then None else map_of st sk)"
  by (simp add: resetClient_def memory_backend_def map_of_reset)

lemma resetClient_other_client:
  "map_of (resetClient (memory_backend M) a st) (storageKey (''client:'' @ a @ '':'' @ b) w) = None"
  by (simp add: resetClient_def memory_backend_def map_of_reset storageKey_def)

end
