(* ===== verification/Governance.thy ===== *)
theory Governance
  imports Governance_Store Identity Policies Rate_Limiter
begin

section \<open>Governance (src/src/governance/runtime.ts)\<close>

text \<open>
  Roles of a client in a workspace, the first-match policies on tools and on the registry, the
  quota of a workspace over a rate-limit backend, and the queue of approvals.  \<open>sha\<close> is the
  hexadecimal SHA-256 of a text.  An operation that throws returns \<open>Inl\<close>.
\<close>

datatype workspace_role = Owner | Admin | Approver | Operator | Developer | Viewer

record role_binding =
  rb_workspace_id :: string
  rb_role :: workspace_role
  rb_clients :: "string list"

datatype tool_effect = EffectAllow | EffectDeny | EffectRequireApproval

record tool_policy =
  gp_name :: string
  gp_workspace_ids :: "string list option"
  gp_roles :: "workspace_role list option"
  gp_clients :: "string list option"
  gp_servers :: "string list option"
  gp_tools :: "string list option"
  gp_effect :: tool_effect
  gp_reason :: "string option"

record registry_policy =
  gy_name :: string
  gy_workspace_ids :: "string list option"
  gy_roles :: "workspace_role list option"
  gy_clients :: "string list option"
  gy_server_names :: "string list option"
  gy_package_types :: "string list option"
  gy_install_modes :: "string list option"
  gy_allow :: bool
  gy_reason :: "string option"

record approvals_config =
  ac_ttl_seconds :: "int option"
  ac_required_roles :: "workspace_role list option"
  ac_allow_self_approval :: "bool option"

record governance_config =
  gc_enabled :: bool
  gc_registry_default_allow :: "bool option"
  gc_role_bindings :: "role_binding list option"
  gc_tool_policies :: "tool_policy list option"
  gc_registry_policies :: "registry_policy list option"
  gc_quota_default :: "tool_rate_limit_config option"
  gc_quota_workspaces :: "(string \<times> tool_rate_limit_config) list option"
  gc_approvals :: "approvals_config option"

definition WORKSPACE_ROLES :: "workspace_role list" where
  "WORKSPACE_ROLES = [Owner, Admin, Approver, Operator, Developer, Viewer]"

definition DEFAULT_APPROVER_ROLES :: "workspace_role list" where
  "DEFAULT_APPROVER_ROLES = [Owner, Admin, Approver]"

definition DEFAULT_APPROVAL_TTL_SECONDS :: int where "DEFAULT_APPROVAL_TTL_SECONDS = 3600"

definition governance_enabled :: "governance_config option \<Rightarrow> governance_store option \<Rightarrow> bool" where
  "governance_enabled config store \<longleftrightarrow> (case config of Some c \<Rightarrow> gc_enabled c | None \<Rightarrow> False) \<and> store \<noteq> None"

definition config_list :: "('c \<Rightarrow> 'a list option) \<Rightarrow> 'c option \<Rightarrow> 'a list" where
  "config_list f config = (case config of Some c \<Rightarrow> opt_list (f c) | None \<Rightarrow> [])"

subsection \<open>Roles\<close>

definition listRoleBindings :: "governance_config option \<Rightarrow> string option \<Rightarrow> role_binding list" where
  "listRoleBindings config ws =
     filter (\<lambda>b. ws = None \<or> ws = Some [] \<or> ws = Some (rb_workspace_id b)) (config_list gc_role_bindings config)"

definition granted_roles :: "governance_config option \<Rightarrow> string \<Rightarrow> string \<Rightarrow> workspace_role set" where
  "granted_roles config ws client =
     rb_role ` set (filter (\<lambda>b. rb_workspace_id b = ws \<and> list_ex (\<lambda>p. matchesAnyPattern [p] client) (rb_clients b))
       (config_list gc_role_bindings config))"

text \<open>The set of roles in the order of \<open>WORKSPACE_ROLES\<close>.\<close>

definition getRolesForClient :: "governance_config option \<Rightarrow> string \<Rightarrow> string \<Rightarrow> workspace_role list" where
  "getRolesForClient config ws client = filter (\<lambda>r. r \<in> granted_roles config ws client) WORKSPACE_ROLES"

subsection \<open>Policies\<close>

text \<open>A list that is absent or empty does not restrict.\<close>

definition unrestricted_or :: "'a list option \<Rightarrow> ('a list \<Rightarrow> bool) \<Rightarrow> bool" where
  "unrestricted_or v test \<longleftrightarrow> (case v of Some xs \<Rightarrow> xs = [] \<or> test xs | None \<Rightarrow> True)"

record tool_subject =
  ts_workspace :: string
  ts_client_id :: string
  ts_roles :: "workspace_role list"
  ts_server_id :: string
  ts_tool_name :: string

definition matchesToolPolicy :: "tool_policy \<Rightarrow> tool_subject \<Rightarrow> bool" where
  "matchesToolPolicy p s \<longleftrightarrow>
     unrestricted_or (gp_workspace_ids p) (\<lambda>ps. matchesAnyPattern ps (ts_workspace s)) \<and>
     unrestricted_or (gp_roles p) (list_ex (\<lambda>r. r \<in> set (ts_roles s))) \<and>
     unrestricted_or (gp_clients p) (\<lambda>ps. matchesAnyPattern ps (ts_client_id s)) \<and>
     unrestricted_or (gp_servers p) (\<lambda>ps. matchesAnyPattern ps (ts_server_id s)) \<and>
     unrestricted_or (gp_tools p) (\<lambda>ps. matchesAnyPattern ps (ts_tool_name s))"

record tool_policy_decision =
  td_effect :: tool_effect
  td_policy_name :: string
  td_reason :: string

definition evaluateToolPolicy :: "governance_config option \<Rightarrow> tool_subject \<Rightarrow> tool_policy_decision" where
  "evaluateToolPolicy config s =
     (case find (\<lambda>p. matchesToolPolicy p s) (config_list gc_tool_policies config) of
        Some p \<Rightarrow> \<lparr>td_effect = gp_effect p, td_policy_name = gp_name p,
           td_reason = default_to (''Governance policy '' @ quote (gp_name p) @ '' matched'') (gp_reason p)\<rparr>
      | None \<Rightarrow> \<lparr>td_effect = EffectAllow, td_policy_name = [], td_reason = ''No governance tool policy matched''\<rparr>)"

definition canViewTool :: "governance_config option \<Rightarrow> tool_subject \<Rightarrow> bool" where
  "canViewTool config s \<longleftrightarrow> td_effect (evaluateToolPolicy config s) \<noteq> EffectDeny"

record registry_subject =
  rs_workspace_id :: string
  rs_client_id :: "string option"
  rs_roles :: "workspace_role list"
  rs_server_name :: string
  rs_package_types :: "string list"
  rs_install_mode :: "string option"

definition matchesRegistryPolicy :: "registry_policy \<Rightarrow> registry_subject \<Rightarrow> bool" where
  "matchesRegistryPolicy p s \<longleftrightarrow>
     unrestricted_or (gy_workspace_ids p) (\<lambda>ps. matchesAnyPattern ps (rs_workspace_id s)) \<and>
     unrestricted_or (gy_roles p) (list_ex (\<lambda>r. r \<in> set (rs_roles s))) \<and>
     unrestricted_or (gy_clients p) (\<lambda>ps. case rs_client_id s of Some c \<Rightarrow> c \<noteq> [] \<and> matchesAnyPattern ps c | None \<Rightarrow> False) \<and>
     unrestricted_or (gy_server_names p) (\<lambda>ps. matchesAnyPattern ps (rs_server_name s)) \<and>
     unrestricted_or (gy_package_types p)
       (\<lambda>ts. list_ex (\<lambda>t. to_lower t \<in> set (map to_lower ts)) (rs_package_types s)) \<and>
     unrestricted_or (gy_install_modes p) (\<lambda>ms. case rs_install_mode s of Some m \<Rightarrow> m \<noteq> [] \<and> m \<in> set ms | None \<Rightarrow> False)"

record registry_decision =
  rd_allowed :: bool
  rd_policy_name :: string
  rd_reason :: string

definition evaluateRegistryPolicy :: "governance_config option \<Rightarrow> registry_subject \<Rightarrow> registry_decision" where
  "evaluateRegistryPolicy config s =
     (case find (\<lambda>p. matchesRegistryPolicy p s) (config_list gc_registry_policies config) of
        Some p \<Rightarrow> \<lparr>rd_allowed = gy_allow p, rd_policy_name = gy_name p,
           rd_reason = default_to (''Registry policy '' @ quote (gy_name p) @ '' matched'') (gy_reason p)\<rparr>
      | None \<Rightarrow> \<lparr>rd_allowed = (case config of Some c \<Rightarrow> default_to True (gc_registry_default_allow c) | None \<Rightarrow> True),
           rd_policy_name = [], rd_reason = ''No governance registry policy matched''\<rparr>)"

subsection \<open>Quota of a workspace\<close>

definition pickQuotaConfig :: "string \<Rightarrow> governance_config option \<Rightarrow> tool_rate_limit_config option" where
  "pickQuotaConfig ws config =
     (case config of
        None \<Rightarrow> None
      | Some c \<Rightarrow>
          (case find (\<lambda>q. fst q = ws) (opt_list (gc_quota_workspaces c)) of
             Some q \<Rightarrow> Some (snd q)
           | None \<Rightarrow> gc_quota_default c))"

definition buildQuotaChecks :: "string \<Rightarrow> tool_rate_limit_config \<Rightarrow> rate_limit_check list" where
  "buildQuotaChecks key config =
     optional_check (tr_requests_per_minute config) key 60000 ''workspace/minute''
     @ optional_check (tr_requests_per_hour config) key 3600000 ''workspace/hour''
     @ optional_check (tr_requests_per_day config) key 86400000 ''workspace/day''"

text \<open>\<open>None\<close> in \<open>qd_remaining\<close> and \<open>qd_limit\<close> is \<open>Infinity\<close>.\<close>

record quota_decision =
  qd_allowed :: bool
  qd_remaining :: "int option"
  qd_limit :: "int option"
  qd_reset_at :: timestamp
  qd_retry_after :: "int option"
  qd_blocked_by :: "string option"

fun tightest_quota :: "'s backend_ops \<Rightarrow> timestamp \<Rightarrow> rate_limit_check list \<Rightarrow> quota_decision \<Rightarrow> 's \<Rightarrow> quota_decision \<times> 's" where
  "tightest_quota be now [] d s = (d, s)"
| "tightest_quota be now (c # cs) d s =
     (let (r, s') = be_check be now (ck_key c) (ck_limit c) (ck_window_ms c) s;
          lower = (case qd_remaining d of None \<Rightarrow> True | Some n \<Rightarrow> rl_remaining r < n)
      in tightest_quota be now cs
           (if lower then d\<lparr>qd_remaining := Some (rl_remaining r), qd_limit := Some (ck_limit c),
                           qd_reset_at := rl_reset_at r\<rparr> else d) s')"

definition free_quota :: "timestamp \<Rightarrow> quota_decision" where
  "free_quota now = \<lparr>qd_allowed = True, qd_remaining = None, qd_limit = None, qd_reset_at = now + 60000,
     qd_retry_after = None, qd_blocked_by = None\<rparr>"

definition consumeWorkspaceQuota ::
  "'s backend_ops \<Rightarrow> timestamp \<Rightarrow> governance_config option \<Rightarrow> string \<Rightarrow> 's \<Rightarrow> quota_decision \<times> 's" where
  "consumeWorkspaceQuota be now config ws s =
     (case pickQuotaConfig ws config of
        None \<Rightarrow> (free_quota now, s)
      | Some qc \<Rightarrow>
          (let checks = buildQuotaChecks (''workspace:'' @ ws) qc
           in case run_checks be True now checks s of
                (Some (c, r), s') \<Rightarrow>
                  (\<lparr>qd_allowed = False, qd_remaining = Some (rl_remaining r), qd_limit = Some (ck_limit c),
                    qd_reset_at = rl_reset_at r, qd_retry_after = rl_retry_after r, qd_blocked_by = Some (ck_label c)\<rparr>, s')
              | (None, s') \<Rightarrow> tightest_quota be now checks (free_quota now) s'))"

subsection \<open>Approvals\<close>

definition buildRequestFingerprint :: "(string \<Rightarrow> string) \<Rightarrow> string \<Rightarrow> string \<Rightarrow> jobject \<Rightarrow> string" where
  "buildRequestFingerprint sha serverId toolName toolArgs =
     sha (serverId @ CHR 0x0A # toolName @ CHR 0x0A #
          (case deterministicStringify (JObj toolArgs) of Some t \<Rightarrow> t | None \<Rightarrow> []))"

definition approval_option :: "(approvals_config \<Rightarrow> 'a option) \<Rightarrow> 'a \<Rightarrow> governance_config option \<Rightarrow> 'a" where
  "approval_option f d config =
     (case config of Some c \<Rightarrow> (case gc_approvals c of Some a \<Rightarrow> default_to d (f a) | None \<Rightarrow> d) | None \<Rightarrow> d)"

definition source_name :: "approval_source \<Rightarrow> string" where
  "source_name s = (case s of FromGuardrail \<Rightarrow> ''guardrail'' | FromGovernance \<Rightarrow> ''governance'')"

definition status_name :: "approval_status \<Rightarrow> string" where
  "status_name s = (case s of Pending \<Rightarrow> ''pending'' | Approved \<Rightarrow> ''approved'' | Refused \<Rightarrow> ''rejected''
     | Expired \<Rightarrow> ''expired'')"

text \<open>The given expiry is the one the runtime puts in place of the caller's.\<close>

definition createApprovalRequest ::
  "timestamp \<Rightarrow> string \<Rightarrow> governance_config option \<Rightarrow> approval_input \<Rightarrow> governance_store option \<Rightarrow>
   (string + approval_row) \<times> governance_store option" where
  "createApprovalRequest now uuid config input store =
     (case store of
        None \<Rightarrow> (Inl ''Governance store is disabled'', store)
      | Some st \<Rightarrow>
          (let ttl = approval_option ac_ttl_seconds DEFAULT_APPROVAL_TTL_SECONDS config
           in case createOrReuse now uuid (input\<lparr>ai_expires_at := now + ttl * 1000\<rparr>) st of
                (Inl e, st1) \<Rightarrow> (Inl e, Some st1)
              | (Inr row, st1) \<Rightarrow>
                  (Inr row, Some (insertAuditEvent now (Some (ai_workspace_id input)) (Some (ai_requester input))
                     ''approval_requested'' ''approval_request'' (Some (ap_id row)) AuditPending
                     [(''source'', JStr (source_name (ai_source input))), (''server_id'', JStr (ai_server_id input)),
                      (''tool_name'', JStr (ai_tool_name input)),
                      (''rule_name'', case ai_rule_name input of Some r \<Rightarrow> JStr r | None \<Rightarrow> JUndef)] st1))))"

definition verifyApprovalGrant ::
  "(string \<Rightarrow> string) \<Rightarrow> timestamp \<Rightarrow> string \<Rightarrow> string \<Rightarrow> string \<Rightarrow> string \<Rightarrow> string \<Rightarrow> jobject \<Rightarrow> governance_store option \<Rightarrow>
   approval_row option \<times> governance_store option" where
  "verifyApprovalGrant sha now approvalId ws requester serverId toolName toolArgs store =
     (case store of
        None \<Rightarrow> (None, None)
      | Some st \<Rightarrow>
          (let (r, st') = store_verifyApprovalGrant now \<lparr>gq_approval_id = approvalId, gq_workspace_id = ws,
                 gq_requester = requester, gq_server_id = serverId, gq_tool_name = toolName,
                 gq_fingerprint = buildRequestFingerprint sha serverId toolName toolArgs\<rparr> st
           in (r, Some st')))"

definition may_decide :: "governance_config option \<Rightarrow> string \<Rightarrow> string \<Rightarrow> bool" where
  "may_decide config ws approver \<longleftrightarrow>
     list_ex (\<lambda>r. r \<in> set (getRolesForClient config ws approver))
       (approval_option ac_required_roles DEFAULT_APPROVER_ROLES config)"

text \<open>\<open>authenticated\<close> is the client of the request where the gateway knows it.\<close>

definition decideApproval ::
  "timestamp \<Rightarrow> governance_config option \<Rightarrow> string \<Rightarrow> string \<Rightarrow> bool \<Rightarrow> string option \<Rightarrow> string option \<Rightarrow>
   governance_store option \<Rightarrow> (string + approval_row) \<times> governance_store option" where
  "decideApproval now config approvalId approver approve note authenticated store =
     (case store of
        None \<Rightarrow> (Inl ''Governance store is disabled'', None)
      | Some st \<Rightarrow>
          (case getApprovalRequest now approvalId st of
             (None, st1) \<Rightarrow> (Inl (''Approval request '' @ quote approvalId @ '' not found''), Some st1)
           | (Some existing, st1) \<Rightarrow>
               (if ap_status existing \<noteq> Pending
                then (Inl (''Approval request '' @ quote approvalId @ '' is already '' @ status_name (ap_status existing)), Some st1)
                else if authenticated \<noteq> None \<and> authenticated \<noteq> Some approver
                then (Inl (''Approver impersonation: authenticated client '' @ quote (default_to [] authenticated) @
                           '' cannot decide as '' @ quote approver), Some st1)
                else if \<not> may_decide config (ap_workspace_id existing) approver
                then (Inl (''Client '' @ quote approver @ '' cannot decide approvals in workspace '' @
                           quote (ap_workspace_id existing)), Some st1)
                else if \<not> approval_option ac_allow_self_approval False config \<and> ap_requester existing = approver
                then (Inl ''Self approval is not allowed'', Some st1)
                else case (if approve then approveRequest now approvalId approver note st1
                           else rejectRequest now approvalId approver note st1) of
                  (None, st2) \<Rightarrow> (Inl (''Approval request '' @ quote approvalId @ '' could not be updated''), Some st2)
                | (Some row, st2) \<Rightarrow>
                    (Inr row, Some (insertAuditEvent now (Some (ap_workspace_id row)) (Some approver)
                       (if approve then ''approval_approved'' else ''approval_rejected'') ''approval_request''
                       (Some (ap_id row)) AuditSuccess
                       [(''requester_client_id'', JStr (ap_requester row)), (''server_id'', JStr (ap_server_id row)),
                        (''tool_name'', JStr (ap_tool_name row)),
                        (''note'', case note of Some n \<Rightarrow> JStr n | None \<Rightarrow> JUndef)] st2)))))"

definition audit ::
  "timestamp \<Rightarrow> string option \<Rightarrow> string option \<Rightarrow> string \<Rightarrow> string \<Rightarrow> string option \<Rightarrow> audit_outcome \<Rightarrow> jobject \<Rightarrow>
   governance_store option \<Rightarrow> governance_store option" where
  "audit now ws actor action resource_type resource_id outc details store =
     map_option (insertAuditEvent now ws actor action resource_type resource_id outc details) store"

subsection \<open>Policies as first-match policies\<close>

interpretation tool_policies: first_match_policy
  "\<lambda>ps. td_effect (evaluateToolPolicy (Some (c\<lparr>gc_tool_policies := Some ps\<rparr>)) s)"
  "\<lambda>p. matchesToolPolicy p s" gp_effect EffectAllow
  for c s
  by unfold_locales (auto simp: evaluateToolPolicy_def config_list_def opt_list_def)

interpretation registry_policies: first_match_policy
  "\<lambda>ps. rd_allowed (evaluateRegistryPolicy (Some (c\<lparr>gc_registry_policies := Some ps\<rparr>)) s)"
  "\<lambda>p. matchesRegistryPolicy p s" gy_allow "default_to True (gc_registry_default_allow c)"
  for c s
  by unfold_locales (auto simp: evaluateRegistryPolicy_def config_list_def opt_list_def split: option.split)

lemma set_WORKSPACE_ROLES: "r \<in> set WORKSPACE_ROLES"
  by (cases r) (simp_all add: WORKSPACE_ROLES_def)

lemma set_getRolesForClient: "set (getRolesForClient config ws client) = granted_roles config ws client"
  by (auto simp: getRolesForClient_def set_WORKSPACE_ROLES)

subsection \<open>The life of approval requests\<close>

datatype governance_call =
    RequestApproval timestamp string approval_input
  | DecideApproval timestamp string string bool "string option" "string option"
  | VerifyGrant timestamp grant_query
  | ListApprovals timestamp approval_filters

definition keep_store :: "governance_store \<Rightarrow> 'a \<times> governance_store option \<Rightarrow> governance_store" where
  "keep_store st r = (case snd r of Some st' \<Rightarrow> st' | None \<Rightarrow> st)"

fun governance_step :: "governance_config option \<Rightarrow> governance_call \<Rightarrow> governance_store \<Rightarrow> governance_store" where
  "governance_step config (RequestApproval now uuid input) st =
     keep_store st (createApprovalRequest now uuid config input (Some st))"
| "governance_step config (DecideApproval now i approver approve note auth) st =
     keep_store st (decideApproval now config i approver approve note auth (Some st))"
| "governance_step config (VerifyGrant now q) st = snd (store_verifyApprovalGrant now q st)"
| "governance_step config (ListApprovals now f) st = snd (listApprovalRequests now f st)"

definition governance_run :: "governance_config option \<Rightarrow> governance_call list \<Rightarrow> governance_store" where
  "governance_run config calls = fold (governance_step config) calls empty_governance"

text \<open>An approved row names an approver who was entitled to approve it.\<close>

definition approved_ok :: "governance_config option \<Rightarrow> approval_row \<Rightarrow> bool" where
  "approved_ok config r \<longleftrightarrow>
     (case ap_approver r of
        Some a \<Rightarrow> may_decide config (ap_workspace_id r) a \<and>
          (approval_option ac_allow_self_approval False config \<or> ap_requester r \<noteq> a)
      | None \<Rightarrow> False)"

definition request_key :: "approval_row \<Rightarrow> string list" where
  "request_key r = [ap_workspace_id r, ap_requester r, ap_server_id r, ap_tool_name r, ap_fingerprint r]"

definition approvals_ok :: "governance_config option \<Rightarrow> approval_row list \<Rightarrow> bool" where
  "approvals_ok config rows \<longleftrightarrow> distinct (map ap_id rows) \<and>
     (\<forall>r \<in> set rows. ap_status r = Approved \<longrightarrow> approved_ok config r) \<and>
     (\<forall>r \<in> set rows. \<forall>r' \<in> set rows. ap_status r = Pending \<and> ap_status r' = Pending \<and> request_key r = request_key r' \<longrightarrow> r = r')"

lemma approvals_okD:
  assumes "approvals_ok config rows"
  shows "distinct (map ap_id rows)"
    and "r \<in> set rows \<Longrightarrow> ap_status r = Approved \<Longrightarrow> approved_ok config r"
    and "r \<in> set rows \<Longrightarrow> r' \<in> set rows \<Longrightarrow> ap_status r = Pending \<Longrightarrow> ap_status r' = Pending \<Longrightarrow>
      request_key r = request_key r' \<Longrightarrow> r = r'"
  using assms unfolding approvals_ok_def by blast+

lemma approvals_ok_map:
  assumes ok: "approvals_ok config rows"
    and f: "\<And>r. r \<in> set rows \<Longrightarrow> ap_id (f r) = ap_id r"
      "\<And>r. r \<in> set rows \<Longrightarrow> ap_status (f r) = Pending \<Longrightarrow> f r = r"
      "\<And>r. r \<in> set rows \<Longrightarrow> ap_status (f r) = Approved \<Longrightarrow> approved_ok config (f r)"
  shows "approvals_ok config (map f rows)"
proof -
  have "map ap_id (map f rows) = map ap_id rows" using f(1) by simp
  then have "distinct (map ap_id (map f rows))" using approvals_okD(1) [OF ok] by metis
  moreover have "f r = f r'" if "r \<in> set rows" "r' \<in> set rows" "ap_status (f r) = Pending" "ap_status (f r') = Pending"
    "request_key (f r) = request_key (f r')" for r r'
    using that approvals_okD(3) [OF ok, of r r'] f(2) by metis
  ultimately show ?thesis using f(3) unfolding approvals_ok_def by auto
qed

lemma prune_approvals_ok: "approvals_ok config rows \<Longrightarrow> approvals_ok config (map (expire_row now) rows)"
  by (rule approvals_ok_map) (auto simp: expire_row_def approvals_okD split: if_splits)

lemma find_row: "find (\<lambda>r. ap_id r = i) rows = Some r \<Longrightarrow> r \<in> set rows \<and> ap_id r = i"
  by (rule find_SomeD)

lemma getApprovalRequest_simps:
  "gv_approvals (snd (getApprovalRequest now i st)) = map (expire_row now) (gv_approvals st)"
  "fst (getApprovalRequest now i st) = find (\<lambda>r. ap_id r = i) (map (expire_row now) (gv_approvals st))"
  by (simp_all add: getApprovalRequest_def Let_def)

lemma insertAuditEvent_approvals [simp]:
  "gv_approvals (insertAuditEvent now ws a act rt ri oc d st) = gv_approvals st"
  by (simp add: insertAuditEvent_def)

text \<open>The rows after a request: as they were, or with one new pending row for a request that had none.\<close>

lemma createOrReuse_rows:
  assumes "createOrReuse now uuid input st = (res, st')"
  shows "gv_approvals st' = map (expire_row now) (gv_approvals st) \<or>
    (gv_approvals st' = map (expire_row now) (gv_approvals st @ [new_approval now uuid input]) \<and>
     uuid \<notin> ap_id ` set (gv_approvals st) \<and>
     (\<forall>r \<in> set (map (expire_row now) (gv_approvals st)). same_request input r \<longrightarrow> ap_status r \<noteq> Pending))"
proof (cases "newest ap_created_at (filter (\<lambda>r. same_request input r \<and> ap_status r = Pending \<and> ap_expires_at r > now)
                 (map (expire_row now) (gv_approvals st)))")
  case (Some r)
  with assms show ?thesis by (auto simp: createOrReuse_def Let_def)
next
  case None
  then have no: "\<forall>r \<in> set (map (expire_row now) (gv_approvals st)).
      same_request input r \<longrightarrow> ap_status r = Pending \<longrightarrow> \<not> ap_expires_at r > now"
    by (auto simp: filter_empty_conv)
  have live: "ap_expires_at r > now" if "r \<in> set (map (expire_row now) (gv_approvals st))" "ap_status r = Pending" for r
    using that by (auto simp: expire_row_def split: if_splits)
  have fresh: "\<forall>r \<in> set (map (expire_row now) (gv_approvals st)). same_request input r \<longrightarrow> ap_status r \<noteq> Pending"
    using no live by blast
  have ids: "ap_id ` set (map (expire_row now) (gv_approvals st)) = ap_id ` set (gv_approvals st)"
    by (simp add: image_image)
  show ?thesis
  proof (cases "uuid \<in> ap_id ` set (gv_approvals st)")
    case True
    with None ids assms have "st' = pruneExpired now st" by (auto simp: createOrReuse_def Let_def)
    then show ?thesis by simp
  next
    case False
    let ?st2 = "(pruneExpired now st)\<lparr>gv_approvals := gv_approvals (pruneExpired now st) @ [new_approval now uuid input]\<rparr>"
    from False None ids assms have "st' = snd (getApprovalRequest now uuid ?st2)"
      by (auto simp: createOrReuse_def Let_def split: prod.splits option.splits)
    then have "gv_approvals st' = map (expire_row now) (gv_approvals st @ [new_approval now uuid input])"
      by (simp add: getApprovalRequest_simps)
    with False fresh show ?thesis by blast
  qed
qed

lemma new_row_ok:
  assumes "approvals_ok config rows" "uuid \<notin> ap_id ` set rows"
    and "\<forall>r \<in> set (map (expire_row now) rows). same_request input r \<longrightarrow> ap_status r \<noteq> Pending"
  shows "approvals_ok config (map (expire_row now) (rows @ [new_approval now uuid input]))"
proof -
  let ?n = "new_approval now uuid input" and ?rows = "map (expire_row now) rows"
  have pruned: "approvals_ok config ?rows" by (rule prune_approvals_ok [OF assms(1)])
  have key: "request_key r = request_key ?n \<Longrightarrow> same_request input r" for r
    by (simp add: request_key_def new_approval_def same_request_def)
  have "ap_id ?n = uuid" "ap_status ?n = Pending" by (simp_all add: new_approval_def)
  note n = this
  have no: "ap_status r \<noteq> Pending" if "r \<in> set ?rows" "request_key r = request_key ?n" for r
    using assms(3) key that by blast
  have ids: "set (map ap_id ?rows) = ap_id ` set rows" by (simp add: image_image)
  have "distinct (map ap_id (?rows @ [?n]))"
    using approvals_okD(1) [OF pruned] assms(2) n(1) ids by (simp del: map_map)
  moreover have "approved_ok config r" if "r \<in> set (?rows @ [?n])" "ap_status r = Approved" for r
    using that approvals_okD(2) [OF pruned] n(2) by auto
  moreover have "r = r'" if "r \<in> set (?rows @ [?n])" "r' \<in> set (?rows @ [?n])" "ap_status r = Pending"
    "ap_status r' = Pending" "request_key r = request_key r'" for r r'
  proof (cases "r = ?n \<or> r' = ?n")
    case True
    with that no [of r] no [of r'] show ?thesis by (metis Un_iff insertE list.set(1,2) set_append empty_iff)
  next
    case False
    with that approvals_okD(3) [OF pruned, of r r'] show ?thesis by simp
  qed
  ultimately have "approvals_ok config (?rows @ [?n])" unfolding approvals_ok_def by blast
  then have "approvals_ok config (map (expire_row now) (?rows @ [?n]))" by (rule prune_approvals_ok)
  then show ?thesis by (simp add: comp_def)
qed

lemma request_ok:
  "approvals_ok config (gv_approvals st) \<Longrightarrow>
   approvals_ok config (gv_approvals (keep_store st (createApprovalRequest now uuid config input (Some st))))"
proof -
  assume ok: "approvals_ok config (gv_approvals st)"
  let ?in = "input\<lparr>ai_expires_at := now + approval_option ac_ttl_seconds DEFAULT_APPROVAL_TTL_SECONDS config * 1000\<rparr>"
  obtain res st' where c: "createOrReuse now uuid ?in st = (res, st')" by fastforce
  have "gv_approvals (keep_store st (createApprovalRequest now uuid config input (Some st))) = gv_approvals st'"
    using c by (cases res) (simp_all add: createApprovalRequest_def Let_def keep_store_def)
  then show ?thesis
    using createOrReuse_rows [OF c] prune_approvals_ok [OF ok] new_row_ok [OF ok] by auto
qed

lemma distinct_ids_unique: "distinct (map f xs) \<Longrightarrow> x \<in> set xs \<Longrightarrow> y \<in> set xs \<Longrightarrow> f x = f y \<Longrightarrow> x = y"
  by (simp add: distinct_map inj_on_def)

lemma pruned_twice [simp]: "map (expire_row now) (map (expire_row now) rows) = map (expire_row now) rows"
  by simp

lemma decideRequest_rows:
  assumes "decideRequest now i status approver note st = (res, st')"
  shows "gv_approvals st' = map (expire_row now) (gv_approvals st) \<or>
    (\<exists>r \<in> set (map (expire_row now) (gv_approvals st)). ap_id r = i \<and> ap_status r = Pending \<and>
       gv_approvals st' = map (expire_row now) (map (decide_row now i status approver note) (map (expire_row now) (gv_approvals st))))"
  using assms
  by (auto simp: decideRequest_def getApprovalRequest_def Let_def simp del: map_map dest!: find_row split: option.splits if_splits prod.splits)

lemma decide_rows_ok:
  assumes ok: "approvals_ok config rows" and r: "r \<in> set rows" "ap_id r = i"
    and status: "status = Refused \<or> status = Approved \<and> may_decide config (ap_workspace_id r) approver \<and>
      (approval_option ac_allow_self_approval False config \<or> ap_requester r \<noteq> approver)"
  shows "approvals_ok config (map (decide_row now i status approver note) rows)"
proof (rule approvals_ok_map [OF ok])
  fix x assume x: "x \<in> set rows"
  show "ap_id (decide_row now i status approver note x) = ap_id x" by (simp add: decide_row_def)
  show "decide_row now i status approver note x = x" if "ap_status (decide_row now i status approver note x) = Pending"
    using that status by (auto simp: decide_row_def split: if_splits)
  show "approved_ok config (decide_row now i status approver note x)"
    if "ap_status (decide_row now i status approver note x) = Approved"
  proof (cases "ap_id x = i")
    case True
    then have "x = r" using distinct_ids_unique [OF approvals_okD(1) [OF ok] x r(1)] r(2) by simp
    with that True status show ?thesis by (auto simp: decide_row_def approved_ok_def)
  next
    case False
    with that show ?thesis using approvals_okD(2) [OF ok x] by (simp add: decide_row_def)
  qed
qed

text \<open>What \<open>decideApproval\<close> has checked when it reaches the store.\<close>

lemma decideApproval_cases:
  assumes "decideApproval now config i approver approve note auth (Some st) = (res, Some st')"
  obtains (kept) "gv_approvals st' = map (expire_row now) (gv_approvals st)"
  | (decided) r where "r \<in> set (map (expire_row now) (gv_approvals st))" "ap_id r = i" "ap_status r = Pending"
      "may_decide config (ap_workspace_id r) approver"
      "approval_option ac_allow_self_approval False config \<or> ap_requester r \<noteq> approver"
      "auth = None \<or> auth = Some approver"
      "gv_approvals st' = map (expire_row now) (map (decide_row now i (if approve then Approved else Refused) approver note)
         (map (expire_row now) (gv_approvals st)))"
proof -
  obtain ex st1 where g: "getApprovalRequest now i st = (ex, st1)" by fastforce
  then have rows1: "gv_approvals st1 = map (expire_row now) (gv_approvals st)"
    using getApprovalRequest_simps(1) [of now i st] by simp
  have ex: "ex = find (\<lambda>r. ap_id r = i) (map (expire_row now) (gv_approvals st))"
    using g getApprovalRequest_simps(2) [of now i st] by simp
  show thesis
  proof (cases "ex = None \<or> ap_status (the ex) \<noteq> Pending \<or> auth \<noteq> None \<and> auth \<noteq> Some approver \<or>
      \<not> may_decide config (ap_workspace_id (the ex)) approver \<or>
      \<not> approval_option ac_allow_self_approval False config \<and> ap_requester (the ex) = approver")
    case True
    then have "st' = st1" using assms g by (auto simp: decideApproval_def split: option.splits if_splits)
    then show thesis using kept rows1 by simp
  next
    case False
    then obtain r where r: "ex = Some r" by (cases ex) auto
    let ?s = "if approve then Approved else Refused"
    obtain row st2 where d: "decideRequest now i ?s approver note st1 = (row, st2)" by fastforce
    have "gv_approvals st' = gv_approvals st2"
      using assms g False r d
      by (auto simp: decideApproval_def approveRequest_def rejectRequest_def split: option.splits if_splits)
    moreover have "gv_approvals st2 = map (expire_row now) (gv_approvals st) \<or>
        gv_approvals st2 = map (expire_row now) (map (decide_row now i ?s approver note) (map (expire_row now) (gv_approvals st)))"
      using decideRequest_rows [OF d] unfolding rows1 pruned_twice by blast
    moreover have "r \<in> set (map (expire_row now) (gv_approvals st))" "ap_id r = i"
      using find_row [OF ex [unfolded r, symmetric]] by auto
    ultimately show thesis using kept decided [of r] False r by auto
  qed
qed

lemma decideApproval_some: "\<exists>res st'. decideApproval now config i approver approve note auth (Some st) = (res, Some st')"
  by (auto simp: decideApproval_def split: option.split prod.split)

lemma governance_step_ok:
  assumes ok: "approvals_ok config (gv_approvals st)"
  shows "approvals_ok config (gv_approvals (governance_step config c st))"
proof (cases c)
  case (RequestApproval now uuid input)
  then show ?thesis using request_ok [OF ok] by simp
next
  case (DecideApproval now i approver approve nt auth)
  obtain res st' where d: "decideApproval now config i approver approve nt auth (Some st) = (res, Some st')"
    using decideApproval_some by blast
  have st': "governance_step config c st = st'" using d DecideApproval by (simp add: keep_store_def)
  show ?thesis
    using d
  proof (cases rule: decideApproval_cases)
    case kept
    then show ?thesis using st' prune_approvals_ok [OF ok] by simp
  next
    case (decided r)
    have "approvals_ok config (map (decide_row now i (if approve then Approved else Refused) approver nt)
        (map (expire_row now) (gv_approvals st)))"
      by (rule decide_rows_ok [OF prune_approvals_ok [OF ok] decided(1,2)]) (use decided(4,5) in simp)
    then show ?thesis unfolding st' decided(7) by (rule prune_approvals_ok)
  qed
next
  case (VerifyGrant now q)
  then show ?thesis using prune_approvals_ok [OF ok] by (simp add: store_verifyApprovalGrant_def Let_def)
next
  case (ListApprovals now f)
  then show ?thesis using prune_approvals_ok [OF ok] by (simp add: listApprovalRequests_def Let_def)
qed

lemma governance_run_ok: "approvals_ok config (gv_approvals (governance_run config calls))"
proof -
  have "approvals_ok config (gv_approvals (fold (governance_step config) calls st))"
    if "approvals_ok config (gv_approvals st)" for st
    using that by (induction calls arbitrary: st) (simp_all add: governance_step_ok)
  from this [of empty_governance] show ?thesis
    by (simp add: governance_run_def empty_governance_def approvals_ok_def)
qed

text \<open>C10. After any history of requests, decisions and listings, a grant that is verified for a call
  was made for exactly this workspace, client, server, tool and fingerprint of the arguments, has
  not expired, and was approved by a client with a role that may approve in that workspace, who
  is not the requester unless the configuration allows it.\<close>

theorem approval_grant_needs_approver:
  assumes "fst (verifyApprovalGrant sha now i ws client server tool args (Some (governance_run config calls))) = Some row"
  shows "ap_id row = i \<and> ap_workspace_id row = ws \<and> ap_requester row = client \<and> ap_server_id row = server \<and>
    ap_tool_name row = tool \<and> ap_fingerprint row = buildRequestFingerprint sha server tool args \<and>
    now < ap_expires_at row \<and>
    (\<exists>approver. ap_approver row = Some approver \<and> may_decide config ws approver \<and>
       (approval_option ac_allow_self_approval False config \<or> client \<noteq> approver))"
proof -
  let ?st = "governance_run config calls"
  have ok: "approvals_ok config (map (expire_row now) (gv_approvals ?st))"
    by (rule prune_approvals_ok [OF governance_run_ok])
  from assms have f: "row \<in> set (map (expire_row now) (gv_approvals ?st))" "ap_status row = Approved"
    "ap_id row = i" "ap_workspace_id row = ws" "ap_requester row = client" "ap_server_id row = server"
    "ap_tool_name row = tool" "ap_fingerprint row = buildRequestFingerprint sha server tool args" "now < ap_expires_at row"
    by (auto simp: verifyApprovalGrant_def store_verifyApprovalGrant_def Let_def simp del: set_map dest!: find_SomeD)
  with approvals_okD(2) [OF ok f(1,2)] show ?thesis by (auto simp: approved_ok_def split: option.splits)
qed

text \<open>C11. Nothing that happens later changes a request that was decided or has expired.\<close>

theorem approval_decisions_final:
  assumes "r \<in> set (gv_approvals (governance_run config calls))" "ap_status r \<noteq> Pending"
  shows "r \<in> set (gv_approvals (governance_run config (calls @ later)))"
proof -
  have step: "r \<in> set (gv_approvals (governance_step config c st))"
    if ok: "approvals_ok config (gv_approvals st)" and r: "r \<in> set (gv_approvals st)" for c st
  proof -
    have p: "r \<in> set (map (expire_row now) (gv_approvals st))" for now
      using r assms(2) by (metis expire_row_decided image_eqI list.set_map)
    show ?thesis
    proof (cases c)
      case (RequestApproval now uuid input)
      let ?in = "input\<lparr>ai_expires_at := now + approval_option ac_ttl_seconds DEFAULT_APPROVAL_TTL_SECONDS config * 1000\<rparr>"
      obtain res st' where c: "createOrReuse now uuid ?in st = (res, st')" by fastforce
      have "gv_approvals (governance_step config (RequestApproval now uuid input) st) = gv_approvals st'"
        using c by (cases res) (simp_all add: createApprovalRequest_def Let_def keep_store_def)
      moreover have "r \<in> set (gv_approvals st')" using createOrReuse_rows [OF c] p [of now] by auto
      ultimately show ?thesis using RequestApproval by simp
    next
      case (DecideApproval now i approver approve nt auth)
      obtain res st' where d: "decideApproval now config i approver approve nt auth (Some st) = (res, Some st')"
        using decideApproval_some by blast
      have st': "governance_step config c st = st'" using d DecideApproval by (simp add: keep_store_def)
      show ?thesis
        using d
      proof (cases rule: decideApproval_cases)
        case kept
        then show ?thesis using st' p by simp
      next
        case (decided x)
        have "ap_id r \<noteq> i"
          using distinct_ids_unique [OF approvals_okD(1) [OF prune_approvals_ok [OF ok]] p [of now] decided(1)]
            decided(2,3) assms(2) by auto
        then have "expire_row now (decide_row now i (if approve then Approved else Refused) approver nt r) = r"
          using assms(2) by (simp add: decide_row_def)
        then show ?thesis using st' decided(7) p [of now] by (metis image_eqI list.set_map)
      qed
    next
      case (VerifyGrant now q)
      then show ?thesis using p by (simp add: store_verifyApprovalGrant_def Let_def)
    next
      case (ListApprovals now f)
      then show ?thesis using p by (simp add: listApprovalRequests_def Let_def)
    qed
  qed
  have run: "r \<in> set (gv_approvals (fold (governance_step config) later st))"
    if "approvals_ok config (gv_approvals st)" "r \<in> set (gv_approvals st)" for st
    using that by (induction later arbitrary: st) (simp_all add: governance_step_ok step)
  show ?thesis
    using run [OF governance_run_ok assms(1)] by (simp add: governance_run_def)
qed

text \<open>
  A grant does not depend on an argument named \<open>__proto__\<close>, which the fingerprint does not see.
\<close>

lemma deepSort_skip_proto: "deepSort (JObj ((''__proto__'', v) # args)) = deepSort (JObj args)"
proof -
  have "obj_build (sort_key fst xs) = obj_build (sort_key fst (filter (\<lambda>e. fst e \<noteq> ''__proto__'') xs))"
    for xs :: "(string \<times> json) list"
    using obj_build_skip_proto [of "sort_key fst xs"] by (simp add: filter_sort)
  from this [of "map (map_prod id deepSort) ((''__proto__'', v) # args)"] this [of "map (map_prod id deepSort) args"]
  show ?thesis by simp
qed

lemma fingerprint_ignores_proto:
  "buildRequestFingerprint sha server tool ((''__proto__'', v) # args) = buildRequestFingerprint sha server tool args"
  unfolding buildRequestFingerprint_def deterministicStringify_def deepSort_skip_proto ..

subsection \<open>An example\<close>

definition governance_example :: "governance_config option" where
  "governance_example = Some \<lparr>gc_enabled = True, gc_registry_default_allow = None,
     gc_role_bindings = Some [\<lparr>rb_workspace_id = ''w'', rb_role = Approver, rb_clients = [''boss'']\<rparr>],
     gc_tool_policies = Some [\<lparr>gp_name = ''p'', gp_workspace_ids = None, gp_roles = None, gp_clients = None,
       gp_servers = None, gp_tools = Some [''delete_*''], gp_effect = EffectRequireApproval, gp_reason = None\<rparr>],
     gc_registry_policies = None, gc_quota_default = None, gc_quota_workspaces = None, gc_approvals = None\<rparr>"

definition approval_example :: "governance_call list" where
  "approval_example =
     [RequestApproval 0 ''u1'' \<lparr>ai_source = FromGovernance, ai_workspace_id = ''w'', ai_requester = ''alice'',
        ai_server_id = ''s'', ai_tool_name = ''delete_x'', ai_rule_name = None, ai_reason = [], ai_trace_id = None,
        ai_fingerprint = buildRequestFingerprint id ''s'' ''delete_x'' [], ai_tool_args = [], ai_expires_at = 0\<rparr>,
      DecideApproval 5 ''u1'' ''boss'' True None None]"

definition approval_grant :: "timestamp \<Rightarrow> approval_row option" where
  "approval_grant now = fst (verifyApprovalGrant id now ''u1'' ''w'' ''alice'' ''s'' ''delete_x'' []
     (Some (governance_run governance_example approval_example)))"

theorem approval_grant_needs_approver_witness:
  "\<exists>row. approval_grant 10 = Some row \<and> ap_approver row = Some ''boss'' \<and> 10 < ap_expires_at row"
proof -
  have "approval_grant 10 \<noteq> None \<and> ap_approver (the (approval_grant 10)) = Some ''boss''" by code_simp
  then obtain row where row: "approval_grant 10 = Some row" "ap_approver row = Some ''boss''" by auto
  show ?thesis
    using approval_grant_needs_approver [OF row(1) [unfolded approval_grant_def]] row by auto
qed

theorem approval_decisions_final_witness:
  "\<exists>row. row \<in> set (gv_approvals (governance_run governance_example approval_example)) \<and> ap_status row = Approved \<and>
     row \<in> set (gv_approvals (governance_run governance_example
        (approval_example @ [DecideApproval 7 ''u1'' ''boss'' False None None])))"
proof -
  let ?rows = "gv_approvals (governance_run governance_example approval_example)"
  have "?rows \<noteq> [] \<and> ap_status (hd ?rows) = Approved" by code_simp
  then have "hd ?rows \<in> set ?rows" "ap_status (hd ?rows) = Approved" by auto
  then show ?thesis using approval_decisions_final [of "hd ?rows" governance_example approval_example] by auto
qed

end
