(* ===== verification/Guardrails.thy ===== *)
theory Guardrails
  imports Policies Json
begin

section \<open>Guardrails (src/src/guardrails)\<close>

text \<open>
  The rules that inspect the arguments of a tool call: \<open>resolveField\<close> follows a dot path,
  \<open>compareValue\<close> has the eleven operators, \<open>evaluateGuardrails\<close> takes the first rule whose
  client, server and tool scopes and conditions all hold, a bypass rule deciding before its
  tool scope is looked at.  The regular-expression engine is the parameter \<open>regex\<close>
  (\<open>None\<close> where \<open>new RegExp\<close> throws).  Members that objects and arrays inherit from their
  prototypes are listed in \<open>object_members\<close> and \<open>array_members\<close>.
\<close>

datatype condition_operator =
  Op_eq | Op_neq | Op_gt | Op_gte | Op_lt | Op_lte | Op_contains | Op_not_contains
  | Op_matches | Op_exists | Op_not_exists

datatype guardrail_action = Block | Alert | RequireApproval | Transform

text \<open>\<open>'allow' | GuardrailAction\<close>, the action of a decision.\<close>

datatype decision_action = Allow | Act guardrail_action

datatype guardrail_severity = Low | Medium | High | Critical

record guardrail_condition =
  cond_field :: string
  cond_operator :: condition_operator
  cond_value :: json

record guardrail_rule =
  gr_name :: string
  gr_tools :: "string list option"
  gr_clients :: "string list option"
  gr_servers :: "string list option"
  gr_bypass :: bool
  gr_conditions :: "guardrail_condition list option"
  gr_action :: guardrail_action
  gr_message :: "string option"
  gr_severity :: "guardrail_severity option"
  gr_webhook :: "string option"

record guardrails_config =
  gr_enabled :: bool
  gr_default_allow :: bool
  gr_rules :: "guardrail_rule list"

record guardrail_decision =
  grd_action :: decision_action
  grd_rule_name :: string
  grd_reason :: string
  grd_severity :: "guardrail_severity option"
  grd_webhook :: "string option"

record guardrail_context =
  ctx_clientId :: string
  ctx_serverId :: string
  ctx_toolName :: string
  ctx_toolArgs :: jobject

subsection \<open>Fields of the arguments\<close>

definition array_members :: "string list" where
  "array_members = [''at'', ''concat'', ''copyWithin'', ''fill'', ''find'', ''findIndex'', ''findLast'',
     ''findLastIndex'', ''lastIndexOf'', ''pop'', ''push'', ''reverse'', ''shift'', ''unshift'', ''slice'',
     ''sort'', ''splice'', ''includes'', ''indexOf'', ''join'', ''keys'', ''entries'', ''values'',
     ''forEach'', ''filter'', ''flat'', ''flatMap'', ''map'', ''every'', ''some'', ''reduce'',
     ''reduceRight'', ''toReversed'', ''toSorted'', ''toSpliced'', ''with'']"

definition array_member :: "json list \<Rightarrow> string \<Rightarrow> json" where
  "array_member xs k =
     (if k = ''length'' then JNum (int (length xs))
      else case array_index k of
        Some i \<Rightarrow> (if i < length xs then xs ! i else JUndef)
      | None \<Rightarrow> inherited (array_members @ object_members) k)"

fun resolve_parts :: "json \<Rightarrow> string list \<Rightarrow> json" where
  "resolve_parts current [] = current"
| "resolve_parts (JObj ps) (part # parts) = resolve_parts (object_member ps part) parts"
| "resolve_parts (JArr xs) (part # parts) = resolve_parts (array_member xs part) parts"
| "resolve_parts current (part # parts) = JUndef"

definition resolveField :: "jobject \<Rightarrow> string \<Rightarrow> json" where
  "resolveField obj fieldPath = resolve_parts (JObj obj) (split_on (CHR ''.'') fieldPath)"

subsection \<open>Conditions\<close>

definition numeric_test :: "(int \<Rightarrow> int \<Rightarrow> bool) \<Rightarrow> json \<Rightarrow> json \<Rightarrow> bool" where
  "numeric_test test actual expected =
     (case (actual, expected) of (JNum a, JNum e) \<Rightarrow> test a e | _ \<Rightarrow> False)"

fun compareValue ::
  "(string \<Rightarrow> string \<Rightarrow> bool option) \<Rightarrow> json \<Rightarrow> condition_operator \<Rightarrow> json \<Rightarrow> bool" where
  "compareValue regex actual Op_eq expected = strict_eq actual expected"
| "compareValue regex actual Op_neq expected = (\<not> strict_eq actual expected)"
| "compareValue regex actual Op_gt expected = numeric_test (>) actual expected"
| "compareValue regex actual Op_gte expected = numeric_test (\<ge>) actual expected"
| "compareValue regex actual Op_lt expected = numeric_test (<) actual expected"
| "compareValue regex actual Op_lte expected = numeric_test (\<le>) actual expected"
| "compareValue regex actual Op_contains expected =
     (case (actual, expected) of
        (JStr a, JStr e) \<Rightarrow> js_includes a e
      | (JArr xs, _) \<Rightarrow> list_ex (\<lambda>x. strict_eq x expected) xs
      | _ \<Rightarrow> False)"
| "compareValue regex actual Op_not_contains expected =
     (case (actual, expected) of
        (JStr a, JStr e) \<Rightarrow> \<not> js_includes a e
      | (JArr xs, _) \<Rightarrow> \<not> list_ex (\<lambda>x. strict_eq x expected) xs
      | _ \<Rightarrow> True)"
| "compareValue regex actual Op_matches expected =
     (case (actual, expected) of
        (JStr a, JStr e) \<Rightarrow> (case regex e a of Some b \<Rightarrow> b | None \<Rightarrow> False)
      | _ \<Rightarrow> False)"
| "compareValue regex actual _ expected = False"

definition evaluateCondition ::
  "(string \<Rightarrow> string \<Rightarrow> bool option) \<Rightarrow> guardrail_condition \<Rightarrow> jobject \<Rightarrow> bool" where
  "evaluateCondition regex condition args =
     (let actual = resolveField args (cond_field condition)
      in if cond_operator condition = Op_exists then actual \<noteq> JUndef
         else if cond_operator condition = Op_not_exists then actual = JUndef
         else if actual = JUndef then False
         else compareValue regex actual (cond_operator condition) (cond_value condition))"

subsection \<open>Rules\<close>

text \<open>A scope that is absent or empty does not restrict.\<close>

definition in_scope :: "string list option \<Rightarrow> string \<Rightarrow> bool" where
  "in_scope scope value =
     (case scope of None \<Rightarrow> True
      | Some patterns \<Rightarrow> (if length patterns > 0 then matchesAnyPattern patterns value else True))"

definition conditions_hold ::
  "(string \<Rightarrow> string \<Rightarrow> bool option) \<Rightarrow> guardrail_condition list option \<Rightarrow> jobject \<Rightarrow> bool" where
  "conditions_hold regex conditions args =
     (case conditions of None \<Rightarrow> True
      | Some cs \<Rightarrow> (if length cs > 0 then list_all (\<lambda>c. evaluateCondition regex c args) cs else True))"

fun evaluateGuardrails ::
  "(string \<Rightarrow> string \<Rightarrow> bool option) \<Rightarrow> guardrail_context \<Rightarrow> guardrail_rule list \<Rightarrow> bool \<Rightarrow> guardrail_decision" where
  "evaluateGuardrails regex ctx [] allowed =
     \<lparr>grd_action = (if allowed then Allow else Act Block), grd_rule_name = [],
      grd_reason =
        (if allowed
         then ''Aucune r'' @ [CHR 0xE8] @ ''gle guardrail d'' @ [CHR 0xE9] @ ''clench'' @ [CHR 0xE9]
              @ ''e, action par d'' @ [CHR 0xE9] @ ''faut : autoriser''
         else ''Aucune r'' @ [CHR 0xE8] @ ''gle guardrail d'' @ [CHR 0xE9] @ ''clench'' @ [CHR 0xE9]
              @ ''e, action par d'' @ [CHR 0xE9] @ ''faut : bloquer''),
      grd_severity = None, grd_webhook = None\<rparr>"
| "evaluateGuardrails regex ctx (rule # rules) allowed =
     (if \<not> in_scope (gr_clients rule) (ctx_clientId ctx) then evaluateGuardrails regex ctx rules allowed
      else if \<not> in_scope (gr_servers rule) (ctx_serverId ctx) then evaluateGuardrails regex ctx rules allowed
      else if gr_bypass rule
      then \<lparr>grd_action = Allow, grd_rule_name = gr_name rule,
            grd_reason = ''Bypass par la r'' @ [CHR 0xE8] @ ''gle '' @ CHR 0x22 # gr_name rule @ [CHR 0x22]
              @ '' pour le client '' @ CHR 0x22 # ctx_clientId ctx @ [CHR 0x22],
            grd_severity = None, grd_webhook = None\<rparr>
      else if \<not> in_scope (gr_tools rule) (ctx_toolName ctx) then evaluateGuardrails regex ctx rules allowed
      else if \<not> conditions_hold regex (gr_conditions rule) (ctx_toolArgs ctx)
      then evaluateGuardrails regex ctx rules allowed
      else \<lparr>grd_action = Act (gr_action rule), grd_rule_name = gr_name rule,
            grd_reason =
              (case gr_message rule of Some m \<Rightarrow> m
               | None \<Rightarrow> ''R'' @ [CHR 0xE8] @ ''gle '' @ CHR 0x22 # gr_name rule @ [CHR 0x22] @ '' d'' @ [CHR 0xE9]
                   @ ''clench'' @ [CHR 0xE9] @ ''e sur l'' @ [CHR 0x27] @ ''outil ''
                   @ CHR 0x22 # ctx_toolName ctx @ [CHR 0x22]),
            grd_severity = gr_severity rule, grd_webhook = gr_webhook rule\<rparr>)"

subsection \<open>Which rule decides\<close>

definition guardrail_applies ::
  "(string \<Rightarrow> string \<Rightarrow> bool option) \<Rightarrow> guardrail_context \<Rightarrow> guardrail_rule \<Rightarrow> bool" where
  "guardrail_applies regex ctx rule \<longleftrightarrow>
     in_scope (gr_clients rule) (ctx_clientId ctx) \<and> in_scope (gr_servers rule) (ctx_serverId ctx) \<and>
     (gr_bypass rule \<or>
      in_scope (gr_tools rule) (ctx_toolName ctx) \<and> conditions_hold regex (gr_conditions rule) (ctx_toolArgs ctx))"

definition rule_action :: "guardrail_rule \<Rightarrow> decision_action" where
  "rule_action rule = (if gr_bypass rule then Allow else Act (gr_action rule))"

interpretation guardrails: first_match_policy
  "\<lambda>rules. grd_action (evaluateGuardrails regex ctx rules allowed)"
  "guardrail_applies regex ctx" rule_action "if allowed then Allow else Act Block"
  for regex ctx allowed
  by unfold_locales (auto simp: guardrail_applies_def rule_action_def)

text \<open>A guardrail blocks a call exactly when the first rule whose scopes and conditions the call
  meets is a blocking rule that is not a bypass, or when no rule applies and the default is to
  block; a bypass rule for the client and the server lets the call pass whatever its tools and
  conditions say.\<close>

theorem evaluateGuardrails_blocks_iff:
  "grd_action (evaluateGuardrails regex ctx rules allowed) = Act Block \<longleftrightarrow>
     (case find (guardrail_applies regex ctx) rules of
        Some rule \<Rightarrow> \<not> gr_bypass rule \<and> gr_action rule = Block \<and>
          in_scope (gr_tools rule) (ctx_toolName ctx) \<and>
          conditions_hold regex (gr_conditions rule) (ctx_toolArgs ctx)
      | None \<Rightarrow> \<not> allowed)"
proof -
  have "guardrail_applies regex ctx rule" if "find (guardrail_applies regex ctx) rules = Some rule" for rule
    using that by (auto simp: find_Some_iff)
  then show ?thesis
    by (auto simp: guardrails.eval_find rule_action_def guardrail_applies_def split: option.splits)
qed

text \<open>A condition on a field the arguments do not have never holds, whatever its operator and
  reference value, except for the operator that asks for the absence: a rule with a condition on
  an absent field does not apply.\<close>

theorem missing_field_condition:
  assumes "resolveField args (cond_field condition) = JUndef"
  shows "evaluateCondition regex condition args \<longleftrightarrow> cond_operator condition = Op_not_exists"
  using assms by (auto simp: evaluateCondition_def)

theorem missing_field_condition_witness:
  "resolveField [(''options'', JObj [(''limit'', JNum 5)])] ''options.size'' = JUndef \<and>
   \<not> evaluateCondition (\<lambda>_ _. None) \<lparr>cond_field = ''options.size'', cond_operator = Op_neq, cond_value = JNum 1\<rparr>
      [(''options'', JObj [(''limit'', JNum 5)])]"
proof -
  have h: "resolveField [(''options'', JObj [(''limit'', JNum 5)])] (cond_field
      \<lparr>cond_field = ''options.size'', cond_operator = Op_neq, cond_value = JNum 1\<rparr>) = JUndef"
    by code_simp
  show ?thesis using h missing_field_condition [OF h, of "\<lambda>_ _. None"] by simp
qed

end
