(* ===== verification/Acl.thy ===== *)
theory Acl
  imports Policies
begin

section \<open>Access control lists (src/src/auth/acl.ts, types.ts)\<close>

text \<open>
  The policies, the decision and \<open>evaluateAcl\<close> with its order of checks: the first policy
  that names the client decides, inside it the deny rules come before the allow rules, and a
  client that a policy names is refused what the policy does not allow.  The theory
  interprets \<open>first_match_policy\<close>; the lemmas give the exact set of calls that are allowed,
  and that more deny rules never allow more.
\<close>

record acl_rule =
  rule_server :: string
  rule_tools :: "string list"

record acl_policy =
  acl_name :: string
  acl_clients :: "string list"
  acl_allow :: "acl_rule list option"
  acl_deny :: "acl_rule list option"

datatype acl_action = AclAllow | AclDeny

record acl_decision =
  acl_allowed :: bool
  acl_policy_name :: string
  acl_reason :: string

record acl_config =
  acl_enabled :: bool
  acl_default_action :: acl_action
  acl_policies :: "acl_policy list"

definition clientMatchesPolicy :: "string \<Rightarrow> string list \<Rightarrow> bool" where
  "clientMatchesPolicy clientId clients = list_ex (\<lambda>pattern. matchesPattern pattern clientId) clients"

definition toolMatchesRule :: "string \<Rightarrow> string list \<Rightarrow> bool" where
  "toolMatchesRule toolName toolPatterns = list_ex (\<lambda>pattern. matchesPattern pattern toolName) toolPatterns"

definition serverMatchesRule :: "string \<Rightarrow> string \<Rightarrow> bool" where
  "serverMatchesRule serverId serverPattern = matchesPattern serverPattern serverId"

definition quoted :: "string \<Rightarrow> string" where
  "quoted s = CHR 0x22 # s @ [CHR 0x22]"

definition rule_matches :: "string \<Rightarrow> string \<Rightarrow> acl_rule \<Rightarrow> bool" where
  "rule_matches serverId toolName rule \<longleftrightarrow>
     serverMatchesRule serverId (rule_server rule) \<and> toolMatchesRule toolName (rule_tools rule)"

text \<open>The loops over \<open>policy.deny\<close> and \<open>policy.allow\<close>, absent lists being skipped.\<close>

definition some_rule_matches :: "string \<Rightarrow> string \<Rightarrow> acl_rule list option \<Rightarrow> bool" where
  "some_rule_matches serverId toolName rules =
     (case rules of None \<Rightarrow> False | Some rs \<Rightarrow> list_ex (rule_matches serverId toolName) rs)"

fun evaluateAcl :: "string \<Rightarrow> string \<Rightarrow> string \<Rightarrow> acl_policy list \<Rightarrow> acl_action \<Rightarrow> acl_decision" where
  "evaluateAcl clientId serverId toolName [] defaultAction =
     (if defaultAction = AclAllow
      then \<lparr>acl_allowed = True, acl_policy_name = [],
            acl_reason = ''Aucune politique trouv'' @ [CHR 0xE9] @ ''e, action par d'' @ [CHR 0xE9]
                         @ ''faut : autoriser''\<rparr>
      else \<lparr>acl_allowed = False, acl_policy_name = [],
            acl_reason = ''Aucune politique trouv'' @ [CHR 0xE9] @ ''e, action par d'' @ [CHR 0xE9]
                         @ ''faut : refuser''\<rparr>)"
| "evaluateAcl clientId serverId toolName (policy # policies) defaultAction =
     (if \<not> clientMatchesPolicy clientId (acl_clients policy)
      then evaluateAcl clientId serverId toolName policies defaultAction
      else if some_rule_matches serverId toolName (acl_deny policy)
      then \<lparr>acl_allowed = False, acl_policy_name = acl_name policy,
            acl_reason = ''Refus'' @ [CHR 0xE9] @ '' par la politique '' @ quoted (acl_name policy)
                         @ '' : outil '' @ quoted toolName @ '' sur '' @ quoted serverId\<rparr>
      else if some_rule_matches serverId toolName (acl_allow policy)
      then \<lparr>acl_allowed = True, acl_policy_name = acl_name policy,
            acl_reason = ''Autoris'' @ [CHR 0xE9] @ '' par la politique '' @ quoted (acl_name policy)
                         @ '' : outil '' @ quoted toolName @ '' sur '' @ quoted serverId\<rparr>
      else \<lparr>acl_allowed = False, acl_policy_name = acl_name policy,
            acl_reason = ''Aucune r'' @ [CHR 0xE8] @ ''gle dans '' @ quoted (acl_name policy)
                         @ '' pour l'' @ [CHR 0x27] @ ''outil '' @ quoted toolName @ '' sur '' @ quoted serverId\<rparr>)"

text \<open>\<open>filterToolsList\<close> over any record of tools, of which it reads the name.\<close>

definition filterToolsList ::
  "('t \<Rightarrow> string) \<Rightarrow> string \<Rightarrow> string \<Rightarrow> 't list \<Rightarrow> acl_policy list \<Rightarrow> acl_action \<Rightarrow> 't list" where
  "filterToolsList tool_name clientId serverId tools policies defaultAction =
     filter (\<lambda>tool. acl_allowed (evaluateAcl clientId serverId (tool_name tool) policies defaultAction)) tools"

subsection \<open>The decision of one policy, and the interpretation\<close>

definition policy_allows :: "string \<Rightarrow> string \<Rightarrow> acl_policy \<Rightarrow> bool" where
  "policy_allows serverId toolName policy \<longleftrightarrow>
     \<not> some_rule_matches serverId toolName (acl_deny policy) \<and>
     some_rule_matches serverId toolName (acl_allow policy)"

interpretation acl: first_match_policy
  "\<lambda>policies. acl_allowed (evaluateAcl clientId serverId toolName policies defaultAction)"
  "\<lambda>policy. clientMatchesPolicy clientId (acl_clients policy)"
  "policy_allows serverId toolName"
  "defaultAction = AclAllow"
  for clientId serverId toolName defaultAction
  by unfold_locales (auto simp: policy_allows_def)

lemma some_rule_matches_simps [gateway_simps]:
  "some_rule_matches s t None = False"
  "some_rule_matches s t (Some rs) \<longleftrightarrow> (\<exists>r \<in> set rs. rule_matches s t r)"
  by (simp_all add: some_rule_matches_def list_ex_iff)

text \<open>A call is allowed exactly when the first policy that names the client has an allow rule
  for the server and the tool and no deny rule for them, or no policy names the client and the
  default action is to allow.\<close>

theorem evaluateAcl_allowed_iff:
  "acl_allowed (evaluateAcl clientId serverId toolName policies defaultAction) \<longleftrightarrow>
     (case find (\<lambda>p. clientMatchesPolicy clientId (acl_clients p)) policies of
        Some p \<Rightarrow> \<not> some_rule_matches serverId toolName (acl_deny p)
                  \<and> some_rule_matches serverId toolName (acl_allow p)
      | None \<Rightarrow> defaultAction = AclAllow)"
  by (simp only: acl.eval_find policy_allows_def)

subsection \<open>Deny rules only remove\<close>

definition add_deny :: "acl_rule list \<Rightarrow> acl_policy \<Rightarrow> acl_policy" where
  "add_deny rules policy =
     policy\<lparr>acl_deny := Some (rules @ (case acl_deny policy of None \<Rightarrow> [] | Some rs \<Rightarrow> rs))\<rparr>"

lemma policy_allows_add_deny: "policy_allows s t (add_deny rules p) \<Longrightarrow> policy_allows s t p"
  by (cases "acl_deny p") (auto simp: policy_allows_def add_deny_def gateway_simps)

text \<open>Adding deny rules to any of the policies never allows a call that was refused, and a call
  that one of the added rules names is refused when its policy is the one that decides.\<close>

theorem evaluateAcl_deny_antimono:
  assumes "acl_allowed (evaluateAcl clientId serverId toolName (map (\<lambda>p. add_deny (extra p) p) policies) defaultAction)"
  shows "acl_allowed (evaluateAcl clientId serverId toolName policies defaultAction) \<and>
    (\<forall>p. find (\<lambda>p. clientMatchesPolicy clientId (acl_clients p)) policies = Some p \<longrightarrow>
      \<not> list_ex (rule_matches serverId toolName) (extra p))"
  using assms
proof (induction policies)
  case (Cons p ps)
  have "clientMatchesPolicy clientId (acl_clients (add_deny (extra p) p)) =
        clientMatchesPolicy clientId (acl_clients p)"
    by (simp add: add_deny_def)
  with Cons show ?case
    using policy_allows_add_deny [of serverId toolName "extra p" p]
    by (auto simp: acl.eval_Cons policy_allows_def add_deny_def some_rule_matches_def list_ex_iff
        split: if_splits)
qed simp

definition acl_example :: "acl_policy list" where
  "acl_example =
     [\<lparr>acl_name = ''support'', acl_clients = [''agent-*''],
       acl_allow = Some [\<lparr>rule_server = ''crm'', rule_tools = [''get_*'', ''delete_lead'']\<rparr>],
       acl_deny = None\<rparr>]"

definition acl_example_extra :: "acl_policy \<Rightarrow> acl_rule list" where
  "acl_example_extra p = [\<lparr>rule_server = ''*'', rule_tools = [''delete_*'']\<rparr>]"

theorem evaluateAcl_deny_antimono_witness:
  "acl_allowed (evaluateAcl ''agent-7'' ''crm'' ''get_contact''
      (map (\<lambda>p. add_deny (acl_example_extra p) p) acl_example) AclDeny) \<and>
   acl_allowed (evaluateAcl ''agent-7'' ''crm'' ''get_contact'' acl_example AclDeny)"
proof -
  have h: "acl_allowed (evaluateAcl ''agent-7'' ''crm'' ''get_contact''
      (map (\<lambda>p. add_deny (acl_example_extra p) p) acl_example) AclDeny)"
    by code_simp
  show ?thesis using h evaluateAcl_deny_antimono [OF h] by blast
qed

end
