(* ===== verification/Router.thy ===== *)
theory Router
  imports Registry
begin

section \<open>Routing and load balancing (src/src/router/router.ts)\<close>

text \<open>
  \<open>selectReplica\<close> chooses a replica among those the registry calls healthy, by round robin
  with one counter per server or by the fewest connections; \<open>resolveToolCall\<close> goes from an
  exposed name to a server, its tool and a client, which is the index of a replica here.
  The second half composes the router with the registry and the clients into the step
  relation \<open>gateway_step\<close>: requests select a client, start and end, health checks run, the
  clock is free.
\<close>

datatype load_balancing = RoundRobin | LeastConnections

record router_config =
  ro_registry :: registry_config
  ro_load_balancing :: "load_balancing option"

type_synonym counters = "(string, nat) jsmap"

text \<open>The loop of the least-connections strategy: a replica is taken over only by one with strictly fewer.\<close>

fun least_connections :: "nat \<times> replica_info \<Rightarrow> (nat \<times> replica_info) list \<Rightarrow> nat \<times> replica_info" where
  "least_connections selected [] = selected"
| "least_connections selected (r # rs) =
     (if rp_activeConnections (snd r) < rp_activeConnections (snd selected)
      then least_connections r rs else least_connections selected rs)"

definition selectReplica ::
  "router_config \<Rightarrow> registry \<Rightarrow> string \<Rightarrow> counters \<Rightarrow> nat option \<times> counters" where
  "selectReplica cfg reg serverId counters =
     (let healthyReplicas = getHealthyReplicas serverId reg
      in if length healthyReplicas = 0 then (None, counters)
         else if (case ro_load_balancing cfg of Some s \<Rightarrow> s | None \<Rightarrow> RoundRobin) = LeastConnections
         then (Some (fst (least_connections (hd healthyReplicas) healthyReplicas)), counters)
         else (let counter = (case map_of counters serverId of Some c \<Rightarrow> c | None \<Rightarrow> 0);
                   idx = counter mod length healthyReplicas
               in (Some (fst (healthyReplicas ! idx)), AList.update serverId (counter + 1) counters)))"

record routed_request =
  rr_serverId :: string
  rr_toolName :: string
  rr_client :: nat

definition resolveToolName :: "router_config \<Rightarrow> registry \<Rightarrow> string \<Rightarrow> tool_target option" where
  "resolveToolName cfg reg toolName =
     resolveTool toolName (rg_namespaceMap reg) (rc_strategy (ro_registry cfg))"

definition resolveToolCall ::
  "router_config \<Rightarrow> registry \<Rightarrow> string \<Rightarrow> counters \<Rightarrow> routed_request option \<times> counters" where
  "resolveToolCall cfg reg toolName counters =
     (case resolveTool toolName (rg_namespaceMap reg) (rc_strategy (ro_registry cfg)) of
        None \<Rightarrow> (None, counters)
      | Some resolved \<Rightarrow>
          (case selectReplica cfg reg (tt_serverId resolved) counters of
             (None, counters') \<Rightarrow> (None, counters')
           | (Some client, counters') \<Rightarrow>
               (Some \<lparr>rr_serverId = tt_serverId resolved, rr_toolName = tt_toolName resolved,
                      rr_client = client\<rparr>, counters')))"

definition getClientForServer ::
  "router_config \<Rightarrow> registry \<Rightarrow> string \<Rightarrow> counters \<Rightarrow> nat option \<times> counters" where
  "getClientForServer cfg reg serverId counters =
     (if \<not> map_has (rg_servers reg) serverId then (None, counters)
      else selectReplica cfg reg serverId counters)"

record aggregated_tool =
  ag_namespacedName :: string
  ag_serverId :: string
  ag_toolName :: string
  ag_toolDef :: tool_metadata

definition getAggregatedToolsWithServerIds :: "registry \<Rightarrow> aggregated_tool list" where
  "getAggregatedToolsWithServerIds reg =
     concat (map (\<lambda>(name, target).
       case map_of (rg_servers reg) (tt_serverId target) of
         None \<Rightarrow> []
       | Some info \<Rightarrow>
           (if \<not> bh_healthy (si_health info) then []
            else case find (\<lambda>t. tm_name t = tt_toolName target) (si_tools info) of
                   None \<Rightarrow> []
                 | Some toolDef \<Rightarrow> [\<lparr>ag_namespacedName = name, ag_serverId = tt_serverId target,
                                   ag_toolName = tt_toolName target, ag_toolDef = toolDef\<rparr>]))
       (rg_namespaceMap reg))"

definition aggregated_tools :: "registry \<Rightarrow> tool_metadata list" where
  "aggregated_tools reg =
     map (\<lambda>a. (ag_toolDef a)\<lparr>tm_name := ag_namespacedName a\<rparr>) (getAggregatedToolsWithServerIds reg)"

subsection \<open>Which replica is selected\<close>

lemma least_connections_props:
  "least_connections s rs \<in> insert s (set rs) \<and>
   (\<forall>r \<in> insert s (set rs). rp_activeConnections (snd (least_connections s rs)) \<le> rp_activeConnections (snd r))"
  by (induction s rs rule: least_connections.induct) force+

lemma getHealthyReplicas_iff:
  "(i, r) \<in> set (getHealthyReplicas serverId reg) \<longleftrightarrow>
     (\<exists>info. map_of (rg_servers reg) serverId = Some info \<and> i < length (si_replicas info) \<and>
        r = si_replicas info ! i \<and> replica_available r)"
  by (cases "map_of (rg_servers reg) serverId") (auto simp: getHealthyReplicas_def in_set_enumerate_eq)

lemma getHealthyReplicas_distinct: "distinct (map fst (getHealthyReplicas serverId reg))"
proof -
  have "distinct (map fst (filter P (enumerate 0 xs)))" for P and xs :: "replica_info list"
    by (rule distinct_map_filter) simp
  then show ?thesis by (simp add: getHealthyReplicas_def split: option.split)
qed

lemma selectReplica_in:
  assumes "fst (selectReplica cfg reg serverId counters) = Some i"
  shows "\<exists>r. (i, r) \<in> set (getHealthyReplicas serverId reg)"
proof -
  let ?hs = "getHealthyReplicas serverId reg"
  from assms have ne: "?hs \<noteq> []" by (auto simp: selectReplica_def Let_def)
  have "\<exists>p \<in> set ?hs. i = fst p"
  proof (cases "(case ro_load_balancing cfg of Some s \<Rightarrow> s | None \<Rightarrow> RoundRobin) = LeastConnections")
    case True
    with assms ne have "i = fst (least_connections (hd ?hs) ?hs)"
      by (simp add: selectReplica_def Let_def)
    with least_connections_props [of "hd ?hs" ?hs] ne show ?thesis by auto
  next
    case False
    with assms ne obtain c where "i = fst (?hs ! (c mod length ?hs))"
      by (auto simp: selectReplica_def Let_def)
    with ne show ?thesis by (intro bexI [of _ "?hs ! (c mod length ?hs)"]) auto
  qed
  then show ?thesis by force
qed

text \<open>A replica that is selected is registered, healthy, and its circuit is not open; none is
  selected exactly when the server has no such replica.\<close>

theorem selectReplica_available:
  "case fst (selectReplica cfg reg serverId counters) of
     Some i \<Rightarrow> (\<exists>info. map_of (rg_servers reg) serverId = Some info \<and> i < length (si_replicas info) \<and>
        replica_available (si_replicas info ! i))
   | None \<Rightarrow> (\<nexists>i r. (i, r) \<in> set (getHealthyReplicas serverId reg))"
proof (cases "fst (selectReplica cfg reg serverId counters)")
  case None
  then have "getHealthyReplicas serverId reg = []" by (auto simp: selectReplica_def Let_def split: if_splits)
  with None show ?thesis by simp
next
  case (Some i)
  with selectReplica_in [OF Some] show ?thesis by (auto simp: getHealthyReplicas_iff)
qed

text \<open>The least-connections strategy selects a replica with the fewest active connections.\<close>

theorem least_connections_minimal:
  assumes "ro_load_balancing cfg = Some LeastConnections"
    and "fst (selectReplica cfg reg serverId counters) = Some i"
    and "(j, r) \<in> set (getHealthyReplicas serverId reg)"
  shows "\<exists>s. (i, s) \<in> set (getHealthyReplicas serverId reg) \<and> rp_activeConnections s \<le> rp_activeConnections r"
proof -
  let ?hs = "getHealthyReplicas serverId reg"
  let ?s = "least_connections (hd ?hs) ?hs"
  from assms(3) have ne: "?hs \<noteq> []" by auto
  with assms(1,2) have i: "i = fst ?s" by (simp add: selectReplica_def Let_def)
  from least_connections_props [of "hd ?hs" ?hs] ne have "?s \<in> set ?hs"
    by (metis hd_in_set insert_absorb)
  moreover from least_connections_props [of "hd ?hs" ?hs] assms(3)
  have "rp_activeConnections (snd ?s) \<le> rp_activeConnections r" by force
  ultimately show ?thesis using i by (metis prod.collapse)
qed

subsection \<open>Round robin\<close>

fun select_many :: "router_config \<Rightarrow> registry \<Rightarrow> string \<Rightarrow> nat \<Rightarrow> counters \<Rightarrow> nat option list" where
  "select_many cfg reg serverId 0 counters = []"
| "select_many cfg reg serverId (Suc n) counters =
     (let (c, counters') = selectReplica cfg reg serverId counters
      in c # select_many cfg reg serverId n counters')"

lemma select_many_round_robin:
  assumes "ro_load_balancing cfg \<noteq> Some LeastConnections" "getHealthyReplicas serverId reg \<noteq> []"
  shows "select_many cfg reg serverId n counters =
    map (\<lambda>k. Some (fst (getHealthyReplicas serverId reg !
        (((case map_of counters serverId of Some c \<Rightarrow> c | None \<Rightarrow> 0) + k) mod length (getHealthyReplicas serverId reg)))))
      [0..<n]"
proof (induction n arbitrary: counters)
  case (Suc n)
  have rr: "(case ro_load_balancing cfg of Some s \<Rightarrow> s | None \<Rightarrow> RoundRobin) \<noteq> LeastConnections"
    using assms(1) by (cases "ro_load_balancing cfg") auto
  have "[0..<Suc n] = 0 # map Suc [0..<n]"
    by (simp only: map_Suc_upt upt_conv_Cons)
  with Suc assms(2) rr show ?case
    by (simp add: selectReplica_def Let_def update_conv' comp_def del: upt_Suc)
qed simp

lemma mset_rotate_eq [simp]: "mset (rotate n xs) = mset xs"
proof (induction n)
  case (Suc n)
  have "mset (rotate1 ys) = mset ys" for ys :: "'a list" by (cases ys) auto
  with Suc show ?case by simp
qed simp

text \<open>Round robin is fair: as many selections in a row as a server has available replicas,
  from whatever value of the counter, select each of them exactly once.\<close>

theorem round_robin_fair:
  assumes "ro_load_balancing cfg \<noteq> Some LeastConnections"
  shows "mset (select_many cfg reg serverId (length (getHealthyReplicas serverId reg)) counters) =
    mset (map (\<lambda>(i, r). Some i) (getHealthyReplicas serverId reg))"
proof (cases "getHealthyReplicas serverId reg = []")
  case False
  let ?hs = "getHealthyReplicas serverId reg"
  let ?c = "case map_of counters serverId of Some c \<Rightarrow> c | None \<Rightarrow> 0"
  have "select_many cfg reg serverId (length ?hs) counters = map (\<lambda>(i, r). Some i) (rotate ?c ?hs)"
    unfolding select_many_round_robin [OF assms False]
    by (rule nth_equalityI) (auto simp: nth_rotate case_prod_unfold)
  then show ?thesis by (simp only: mset_map) simp
qed simp

definition one_server_registry :: "registry_config \<Rightarrow> registry" where
  "one_server_registry cfg =
     new_registry cfg [\<lparr>sc_id = ''db'', sc_url = ''http://a'', sc_replicas = Some [''http://b''], sc_transport = None\<rparr>]
       [''db'']"

definition example_registry_config :: registry_config where
  "example_registry_config = \<lparr>rc_strategy = Prefixed, rc_health = strict_health, rc_breaker = Some DEFAULT_CONFIG\<rparr>"

theorem round_robin_fair_witness:
  "select_many \<lparr>ro_registry = example_registry_config, ro_load_balancing = None\<rparr>
     (one_server_registry example_registry_config) ''db'' 2 [(''db'', 7)] = [Some 1, Some 0] \<and>
   mset (select_many \<lparr>ro_registry = example_registry_config, ro_load_balancing = None\<rparr>
     (one_server_registry example_registry_config) ''db'' 2 [(''db'', 7)]) = {#Some 0, Some 1#}"
proof -
  have h: "ro_load_balancing \<lparr>ro_registry = example_registry_config, ro_load_balancing = None\<rparr> \<noteq> Some LeastConnections"
    by simp
  have n: "length (getHealthyReplicas ''db'' (one_server_registry example_registry_config)) = 2"
    "map (\<lambda>(i, r). Some i) (getHealthyReplicas ''db'' (one_server_registry example_registry_config)) = [Some 0, Some 1]"
    "select_many \<lparr>ro_registry = example_registry_config, ro_load_balancing = None\<rparr>
     (one_server_registry example_registry_config) ''db'' 2 [(''db'', 7)] = [Some 1, Some 0]"
    by code_simp+
  from round_robin_fair [OF h, of "one_server_registry example_registry_config" "''db''" "[(''db'', 7)]"] n
  show ?thesis by (metis mset.simps add_mset_add_single union_commute)
qed

subsection \<open>The gateway as a transition system\<close>

text \<open>
  \<open>gs_selected\<close> has the clients that requests have selected and not called yet,
  \<open>gs_running\<close> the calls in progress.  Requests, health checks and passed-through tool
  lists interleave freely; adding, removing, refreshing and resetting a server are actions of
  the administrator and are not steps.
\<close>

record gateway_state =
  gs_registry :: registry
  gs_counters :: counters
  gs_selected :: "(string \<times> nat) list"
  gs_running :: "(string \<times> nat) list"

definition on_replica :: "string \<Rightarrow> nat \<Rightarrow> (replica_info \<Rightarrow> replica_info) \<Rightarrow> registry \<Rightarrow> registry" where
  "on_replica s i f = update_server s (\<lambda>info. set_replica i (f (si_replicas info ! i)) info)"

inductive gateway_step :: "router_config \<Rightarrow> gateway_state \<Rightarrow> gateway_state \<Rightarrow> bool" for cfg where
  select: "selectReplica cfg (gs_registry g) s (gs_counters g) = (Some i, c) \<Longrightarrow>
     gateway_step cfg g (g\<lparr>gs_counters := c, gs_selected := (s, i) # gs_selected g\<rparr>)"
| start: "(s, i) \<in> set (gs_selected g) \<Longrightarrow> map_of (rg_servers (gs_registry g)) s = Some info \<Longrightarrow>
     forward_start (breaker_cfg (ro_registry cfg)) now (si_replicas info ! i) = (ok, r) \<Longrightarrow>
     gateway_step cfg g (g\<lparr>gs_registry := on_replica s i (\<lambda>_. r) (gs_registry g),
        gs_selected := remove1 (s, i) (gs_selected g),
        gs_running := (if ok then [(s, i)] else []) @ gs_running g\<rparr>)"
| finish: "(s, i) \<in> set (gs_running g) \<Longrightarrow>
     gateway_step cfg g (g\<lparr>gs_registry :=
          on_replica s i (forward_end (breaker_cfg (ro_registry cfg)) now success) (gs_registry g),
        gs_running := remove1 (s, i) (gs_running g)\<rparr>)"
| health: "gateway_step cfg g (g\<lparr>gs_registry :=
        runHealthChecks (ro_registry cfg) answered startTime now (gs_registry g)\<rparr>)"
| list_tools: "gateway_step cfg g (g\<lparr>gs_registry := updateAnnotations (ro_registry cfg) s tools (gs_registry g)\<rparr>)"

inductive_cases gateway_stepE [elim]: "gateway_step cfg g g'"

definition info_open :: "nat \<Rightarrow> server_info \<Rightarrow> bool" where
  "info_open i info \<longleftrightarrow> sc_transport (si_config info) \<noteq> Some Stdio \<and> i < length (si_replicas info) \<and>
     (\<exists>b. rp_breaker (si_replicas info ! i) = Some b \<and> br_state b = Open)"

definition open_at :: "string \<Rightarrow> nat \<Rightarrow> registry \<Rightarrow> bool" where
  "open_at s i reg \<longleftrightarrow> (\<exists>info. map_of (rg_servers reg) s = Some info \<and> info_open i info)"

lemma rebuild_servers [simp]: "rg_servers (rebuildNamespaceMap cfg reg) = rg_servers reg"
  by (auto simp: rebuildNamespaceMap_def Let_def split: sum.split)

lemma open_at_rebuild [simp]: "open_at s i (rebuildNamespaceMap cfg reg) = open_at s i reg"
  by (simp add: open_at_def)

lemma open_at_update:
  assumes "open_at s i reg" "\<And>info. s' = s \<Longrightarrow> info_open i info \<Longrightarrow> info_open i (f info)"
  shows "open_at s i (update_server s' f reg)"
  using assms by (auto simp: open_at_def update_server_def update_conv' split: option.split)

lemma open_at_fold:
  assumes "\<And>k reg. open_at s i reg \<Longrightarrow> open_at s i (f k reg)"
  shows "open_at s i reg \<Longrightarrow> open_at s i (fold f ks reg)"
  using assms by (induction ks arbitrary: reg) auto

lemma open_at_on_replica:
  assumes "open_at s i reg"
    and "\<And>r b. rp_breaker r = Some b \<Longrightarrow> br_state b = Open \<Longrightarrow> (s', j) = (s, i) \<Longrightarrow>
      \<exists>b'. rp_breaker (f r) = Some b' \<and> br_state b' = Open"
  shows "open_at s i (on_replica s' j f reg)"
  unfolding on_replica_def
proof (rule open_at_update [OF assms(1)])
  fix info assume s: "s' = s" and o: "info_open i info"
  show "info_open i (set_replica j (f (si_replicas info ! j)) info)"
    using o assms(2) s by (cases "i = j") (auto simp: info_open_def set_replica_def)
qed

lemma forward_end_open:
  "rp_breaker r = Some b \<Longrightarrow> br_state b = Open \<Longrightarrow>
    \<exists>b'. rp_breaker (forward_end cfg now success r) = Some b' \<and> br_state b' = Open"
  by (simp add: forward_end_def onSuccess_def onFailure_def Let_def)

lemma open_at_health:
  assumes "open_at s i reg"
  shows "open_at s i (runHealthChecks cfg answered startTime now reg)"
proof -
  have "info_open i (checkServerHealth cfg a startTime now info)" if "info_open i info" for a info
    using that by (auto simp: info_open_def checkServerHealth_def checkReplicaHealth_def Let_def nth_enumerate_eq)
  then show ?thesis
    unfolding runHealthChecks_def open_at_rebuild by (intro open_at_fold open_at_update assms)
qed

lemma open_at_not_selected:
  assumes "open_at s i reg"
  shows "fst (selectReplica cfg reg s c) \<noteq> Some i"
proof
  assume "fst (selectReplica cfg reg s c) = Some i"
  with selectReplica_in [OF this] assms show False
    by (auto simp: getHealthyReplicas_iff open_at_def info_open_def replica_available_def getState_def split: if_splits)
qed

text \<open>The circuit of an HTTP replica that has opened never leaves the open state by itself:
  through any interleaving of requests, late results, health checks and tool lists, and whatever
  time passes, no request selects the replica any more, so its breaker is never asked and never
  gets to the half-open state.\<close>

theorem open_http_circuit_is_never_probed:
  assumes "open_at s i (gs_registry g)" "(s, i) \<notin> set (gs_selected g)"
    and "(gateway_step cfg)\<^sup>*\<^sup>* g g'"
  shows "open_at s i (gs_registry g') \<and> (s, i) \<notin> set (gs_selected g')"
  using assms(3,1,2)
proof (induction rule: rtranclp_induct)
  case (step g1 g2)
  then have o: "open_at s i (gs_registry g1)" and n: "(s, i) \<notin> set (gs_selected g1)" by auto
  from step.hyps(2) show ?case
  proof cases
    case (select s' j c)
    with o n open_at_not_selected [OF o, of cfg "gs_counters g1"] show ?thesis by auto
  next
    case (start s' j info now ok r)
    with n have "(s', j) \<noteq> (s, i)" by auto
    with o n start show ?thesis
      by (auto intro!: open_at_on_replica dest: in_set_remove1 [THEN iffD1, rotated] notin_set_remove1)
  next
    case (finish s' j now success)
    with o n show ?thesis by (auto intro!: open_at_on_replica forward_end_open)
  next
    case (health answered startTime now)
    with o n show ?thesis by (auto intro: open_at_health)
  next
    case (list_tools s' tools)
    with o n show ?thesis
      by (auto simp: updateAnnotations_def info_open_def intro: open_at_update)
  qed
qed simp

definition tripped_gateway :: gateway_state where
  "tripped_gateway =
     \<lparr>gs_registry = on_replica ''db'' 1
        ((^^) (forward_end DEFAULT_CONFIG 1000 False) 5) (one_server_registry example_registry_config),
      gs_counters = [], gs_selected = [], gs_running = []\<rparr>"

theorem open_http_circuit_is_never_probed_witness:
  "open_at ''db'' 1 (runHealthChecks example_registry_config (\<lambda>_ _. True) 9000000 9000010
     (gs_registry tripped_gateway))"
proof -
  let ?cfg = "\<lparr>ro_registry = example_registry_config, ro_load_balancing = None\<rparr>"
  have "map_of (rg_servers (gs_registry tripped_gateway)) ''db'' \<noteq> None \<and>
     (case map_of (rg_servers (gs_registry tripped_gateway)) ''db'' of
        Some info \<Rightarrow> sc_transport (si_config info) \<noteq> Some Stdio \<and> 1 < length (si_replicas info) \<and>
          (case rp_breaker (si_replicas info ! 1) of Some b \<Rightarrow> br_state b = Open | None \<Rightarrow> False))"
    by code_simp
  then have o: "open_at ''db'' 1 (gs_registry tripped_gateway)"
    by (auto simp: open_at_def info_open_def split: option.splits)
  have n: "(''db'', 1) \<notin> set (gs_selected tripped_gateway)" by (simp add: tripped_gateway_def)
  note step = r_into_rtranclp [of "gateway_step ?cfg", OF gateway_step.health [of ?cfg tripped_gateway "\<lambda>_ _. True" 9000000 9000010]]
  show ?thesis using open_http_circuit_is_never_probed [OF o n step] by simp
qed

theorem least_connections_minimal_witness:
  "\<exists>s. (0, s) \<in> set (getHealthyReplicas ''db'' (one_server_registry example_registry_config)) \<and>
     rp_activeConnections s \<le> 0"
proof -
  let ?cfg = "\<lparr>ro_registry = example_registry_config, ro_load_balancing = Some LeastConnections\<rparr>"
  let ?reg = "one_server_registry example_registry_config"
  let ?r = "getHealthyReplicas ''db'' ?reg ! 1"
  have h1: "ro_load_balancing ?cfg = Some LeastConnections" by simp
  have h2: "fst (selectReplica ?cfg ?reg ''db'' []) = Some 0" by code_simp
  have "length (getHealthyReplicas ''db'' ?reg) = 2" by code_simp
  then have "?r \<in> set (getHealthyReplicas ''db'' ?reg)" by (intro nth_mem) simp
  then have h3: "(fst ?r, snd ?r) \<in> set (getHealthyReplicas ''db'' ?reg)" by simp
  have "rp_activeConnections (snd ?r) = 0" by code_simp
  with least_connections_minimal [OF h1 h2 h3] show ?thesis by simp
qed

end
