(* ===== verification/Pipeline_Types.thy ===== *)
theory Pipeline_Types
  imports Profiles Redis_Cache Inflight Cache_Policy Cache_Key Plugins Mcp_Client Authenticator Governance Guardrails Acl Router
begin

section \<open>Configuration, state and observations of the request pipeline\<close>

text \<open>
  What \<open>RequestPipeline\<close> (\<open>src/src/gateway/pipeline.ts\<close>) is built from.  \<open>gateway\<close> has the
  configuration (\<open>gw_\<close> fields) and the third-party code the components rest on (\<open>en_\<close> fields);
  \<open>pipeline_state\<close> has the state of every component a request can change.  Log entries,
  counters and webhooks are the list \<open>ps_events\<close>, in order; a log entry leaves out the size of the
  response and the arguments.  \<open>log_context\<close> is \<open>RequestLogContext\<close>.
\<close>

subsection \<open>Configuration and environment\<close>

record gateway_config =
  gw_servers :: "gateway_server list"
  gw_router :: router_config
  gw_cache_enabled :: bool
  gw_tenant_isolation :: bool
  gw_tenant_header :: string
  gw_auth :: "auth_config option"
  gw_acl :: "acl_config option"
  gw_rate_limits :: "(bool \<times> rate_limit_config) option"
  gw_guardrails :: "guardrails_config option"
  gw_governance :: "governance_config option"
  gw_identity :: "identity_config option"
  gw_profiles :: "connect_profile_config list option"

text \<open>\<open>en_limiter\<close> is \<open>None\<close> where the pipeline was built without a rate limiter.\<close>

record ('c, 'r, 'b, 'q, 'j, 'p) gateway = gateway_config +
  en_lru :: "'c lru_ops"
  en_kv :: "'r kv_ops"
  en_decode :: "string \<Rightarrow> cache_entry option"
  en_l2_multiplier :: int
  en_limiter :: "'b backend_ops option"
  en_quota :: "'q backend_ops"
  en_plugins :: "'p plugin_registry option"
  en_fetch_jwks :: "string \<Rightarrow> string + 'j"
  en_verify :: "string \<Rightarrow> 'j \<Rightarrow> verify_options \<Rightarrow> string + jobject"
  en_sha256 :: "string \<Rightarrow> string"
  en_b64url :: "string \<Rightarrow> string"
  en_payload :: "string \<Rightarrow> json option"
  en_regex :: "string \<Rightarrow> string \<Rightarrow> bool option"

subsection \<open>Observations\<close>

record log_context =
  lc_traceId :: string
  lc_clientId :: string
  lc_serverId :: string
  lc_method :: string
  lc_toolName :: "string option"

record log_outcome =
  lo_status :: string
  lo_cacheStatus :: "string option"
  lo_error :: "(json \<times> json) option"
  lo_guardrail :: "(string \<times> string) option"

record webhook_payload =
  wp_event :: string
  wp_rule_name :: string
  wp_severity :: string
  wp_client_id :: string
  wp_server_id :: string
  wp_tool_name :: string
  wp_tool_args :: jobject
  wp_message :: string
  wp_timestamp :: timestamp
  wp_trace_id :: string

datatype event =
    Logged log_context log_outcome
  | Counted string "(string \<times> string) list"
  | CacheEntries nat
  | WebhookSent string webhook_payload

definition MAX_LABEL_LENGTH :: nat where "MAX_LABEL_LENGTH = 64"

definition label_char :: "char \<Rightarrow> char" where
  "label_char c = (if is_alnum c \<or> c \<in> set ''._/:-'' then c else CHR ''_'')"

definition sanitizeMetricLabel :: "string \<Rightarrow> string" where
  "sanitizeMetricLabel v =
     (if length v = 0 then ''_empty''
      else (let stripped = map label_char v
            in if length stripped > MAX_LABEL_LENGTH then take MAX_LABEL_LENGTH stripped @ ''_trunc'' else stripped))"

subsection \<open>State\<close>

record ('c, 'r, 'b, 'q, 'j, 'p) pipeline_state =
  ps_registry :: registry
  ps_counters :: counters
  ps_jwks :: "'j jwks_cache"
  ps_l1 :: "'c cache_store"
  ps_l2 :: "'r l2_cache option"
  ps_inflight :: tracker
  ps_limits :: 'b
  ps_quota :: 'q
  ps_governance :: "governance_store option"
  ps_identity :: "identity_store option"
  ps_plugins :: 'p
  ps_events :: "event list"

definition emit :: "event \<Rightarrow> ('c, 'r, 'b, 'q, 'j, 'p) pipeline_state \<Rightarrow> ('c, 'r, 'b, 'q, 'j, 'p) pipeline_state" where
  "emit e s = s\<lparr>ps_events := ps_events s @ [e]\<rparr>"

definition emit_when :: "bool \<Rightarrow> event \<Rightarrow> ('c, 'r, 'b, 'q, 'j, 'p) pipeline_state \<Rightarrow>
    ('c, 'r, 'b, 'q, 'j, 'p) pipeline_state" where
  "emit_when b e s = (if b then emit e s else s)"

definition log_success :: "log_context \<Rightarrow> string \<Rightarrow> string \<Rightarrow> event" where
  "log_success lc status cacheStatus =
     Logged lc \<lparr>lo_status = status, lo_cacheStatus = Some cacheStatus, lo_error = None, lo_guardrail = None\<rparr>"

definition log_failure :: "log_context \<Rightarrow> string option \<Rightarrow> json \<Rightarrow> json \<Rightarrow> (string \<times> string) option \<Rightarrow> event" where
  "log_failure lc cacheStatus code message guardrail =
     Logged lc \<lparr>lo_status = ''error'', lo_cacheStatus = cacheStatus, lo_error = Some (code, message), lo_guardrail = guardrail\<rparr>"

definition log_error :: "log_context \<Rightarrow> int \<Rightarrow> string \<Rightarrow> event" where
  "log_error lc code message = log_failure lc None (JNum code) (JStr message) None"

subsection \<open>Requests\<close>

text \<open>
  \<open>rq_caller\<close> tells the calls of the deduplication apart, \<open>rq_uuid\<close> is the random id an approval
  request created on the way gets.
\<close>

record request =
  rq_serverId :: string
  rq_message :: jobject
  rq_context :: request_context
  rq_caller :: nat
  rq_uuid :: string

record upstream_call =
  uc_server :: gateway_server
  uc_replica :: nat
  uc_options :: upstream_options

text \<open>The state of a tool call between its resolution and its answer.\<close>

record tool_call =
  tc_request :: request
  tc_principal :: principal
  tc_ctx :: plugin_context
  tc_toolName :: string
  tc_args :: jobject
  tc_direct :: "nat option"
  tc_resolved :: "routed_request option"
  tc_server :: string
  tc_tool :: string
  tc_workspace :: resolved_workspace
  tc_roles :: "workspace_role list"
  tc_log :: log_context

record cached_call = tool_call +
  kc_config :: gateway_server
  kc_policy :: cache_policy_decision
  kc_key :: string

text \<open>
  How a request ends (\<open>Ended\<close> the result the handler returns, \<open>Thrown\<close> the message of the error
  it throws), and what a request that has reached the backend waits for: \<open>Forwarded\<close> a reply of
  its own, \<open>InFlight\<close> the call of its key, which it made itself in the case of \<open>Some\<close>.
\<close>

datatype purpose = ForSkip tool_call | ForList request principal log_context | ForPass request log_context

datatype waiting = Forwarded upstream_call purpose | InFlight "upstream_call option" cached_call

datatype progress = Ended core_result | Thrown string | Waiting waiting

type_synonym 's stage = "'s \<Rightarrow> progress option \<times> 's"

definition before :: "('s \<Rightarrow> 'a option \<times> 's) \<Rightarrow> ('s \<Rightarrow> 'a \<times> 's) \<Rightarrow> 's \<Rightarrow> 'a \<times> 's" where
  "before stage rest s = (case stage s of (Some r, s') \<Rightarrow> (r, s') | (None, s') \<Rightarrow> rest s')"

definition method_text :: "jobject \<Rightarrow> string \<Rightarrow> string" where
  "method_text msg d = (case obj_get msg ''method'' of JStr m \<Rightarrow> m | v \<Rightarrow> if v = JUndef \<or> v = JNull then d else js_string v)"

definition message_id :: "plugin_context \<Rightarrow> json" where
  "message_id ctx = obj_get (pc_message ctx) ''id''"

definition buildPluginContext :: "request \<Rightarrow> string \<Rightarrow> plugin_context" where
  "buildPluginContext rq clientId = \<lparr>pc_serverId = rq_serverId rq, pc_method = method_text (rq_message rq) [],
     pc_toolName = None, pc_clientId = clientId, pc_traceId = rx_traceId (rq_context rq), pc_message = rq_message rq,
     pc_extraHeaders = [], pc_metadata = []\<rparr>"

definition run_hook ::
  "('c, 'r, 'b, 'q, 'j, 'p) gateway \<Rightarrow> hook_name \<Rightarrow> plugin_context \<Rightarrow> ('c, 'r, 'b, 'q, 'j, 'p) pipeline_state \<Rightarrow>
   core_result option \<times> plugin_context \<times> ('c, 'r, 'b, 'q, 'j, 'p) pipeline_state" where
  "run_hook gw name ctx s =
     (case en_plugins gw of
        None \<Rightarrow> (None, ctx, s)
      | Some reg \<Rightarrow> (case runHook reg name ctx (ps_plugins s) of (r, ctx', p) \<Rightarrow> (r, ctx', s\<lparr>ps_plugins := p\<rparr>)))"

text \<open>A member of a value, as optional chaining reads it.\<close>

definition member :: "json \<Rightarrow> string \<Rightarrow> json" where
  "member v k = (case v of JObj ps \<Rightarrow> obj_get ps k | _ \<Rightarrow> JUndef)"

text \<open>The properties spread from a value into an object literal.\<close>

definition spread :: "json \<Rightarrow> jobject" where
  "spread v = (case v of JObj ps \<Rightarrow> ps
     | JArr xs \<Rightarrow> map (\<lambda>(i, x). (show_nat i, x)) (enumerate 0 xs)
     | JStr t \<Rightarrow> map (\<lambda>(i, c). (show_nat i, JStr [c])) (enumerate 0 t)
     | _ \<Rightarrow> [])"

definition buildForwardMessage :: "jobject \<Rightarrow> string \<Rightarrow> jobject" where
  "buildForwardMessage message actualToolName =
     (if \<not> truthy (obj_get message ''params'') then message
      else if param message ''name'' = JStr actualToolName then message
      else obj_insert ''params'' (JObj (obj_insert ''name'' (JStr actualToolName) (spread (obj_get message ''params'')))) message)"

lemma forward_message_name:
  assumes "truthy (obj_get message ''params'')"
  shows "param (buildForwardMessage message t) ''name'' = JStr t"
  using assms by (auto simp: param_def buildForwardMessage_def obj_get_def)

end
