(* ===== verification/Pipeline.thy ===== *)
theory Pipeline
  imports Pipeline_Types
begin

section \<open>The request pipeline (src/src/gateway/pipeline.ts)\<close>

text \<open>
  A request is handled in two parts.  \<open>begin_request\<close> runs from its arrival to its answer or to
  the point where it waits for the backend (\<open>Waiting\<close>); \<open>settle_call\<close> and \<open>answer_waiting\<close> run
  from the reply to the answer.  The steps of the handler are stages (\<open>before\<close>): a stage that
  yields a result ends the request.  The message is \<open>pc_message\<close> of the plugin context, the one
  object the pipeline and the plugins share.  The awaits before the call of the backend
  (authentication, rate limits, the second-level cache) are not points of interleaving here.
\<close>

definition GOVERNANCE_DENIED_CODE :: int where "GOVERNANCE_DENIED_CODE = -32010"
definition APPROVAL_REQUIRED_CODE :: int where "APPROVAL_REQUIRED_CODE = -32011"
definition GOVERNANCE_QUOTA_CODE :: int where "GOVERNANCE_QUOTA_CODE = -32012"
definition APPROVAL_HEADER :: string where "APPROVAL_HEADER = ''x-conduit-approval-id''"
definition PROFILE_PROTOCOL_VERSION :: string where "PROFILE_PROTOCOL_VERSION = ''2024-11-05''"
definition PROFILE_SERVER_VERSION :: string where "PROFILE_SERVER_VERSION = ''1.1.0''"

definition request_error :: "plugin_context \<Rightarrow> int \<Rightarrow> string \<Rightarrow> json option \<Rightarrow> progress" where
  "request_error ctx code message data = Ended (error_result (message_id ctx) code message data)"

definition thrown :: "log_context \<Rightarrow> string \<Rightarrow> ('c, 'r, 'b, 'q, 'j, 'p) pipeline_state \<Rightarrow> progress \<times> ('c, 'r, 'b, 'q, 'j, 'p) pipeline_state" where
  "thrown lc e s = (Thrown e, emit (log_error lc INTERNAL_ERROR e) s)"

definition non_empty :: "string option \<Rightarrow> string option" where
  "non_empty v = (if v = Some [] then None else v)"

subsection \<open>Authentication\<close>

definition authenticate_request ::
  "('c, 'r, 'b, 'q, 'j, 'p) gateway \<Rightarrow> request \<Rightarrow> ('c, 'r, 'b, 'q, 'j, 'p) pipeline_state \<Rightarrow> auth_result \<times> ('c, 'r, 'b, 'q, 'j, 'p) pipeline_state" where
  "authenticate_request gw rq s =
     (case gw_auth gw of
        None \<Rightarrow> (Authenticated ''anonymous'' ''default'' None, s)
      | Some config \<Rightarrow>
          (case authenticate (en_fetch_jwks gw) (en_verify gw) (rx_rawHeaders (rq_context rq)) config (ps_jwks s) of
             (r, jwks) \<Rightarrow> (r, s\<lparr>ps_jwks := jwks\<rparr>)))"

definition principal_of :: "request \<Rightarrow> string \<Rightarrow> string \<Rightarrow> jobject option \<Rightarrow> principal" where
  "principal_of rq clientId tenantId claims = \<lparr>pr_client_id = clientId, pr_tenant_id = tenantId,
     pr_auth_header = non_empty (rx_authHeader (rq_context rq)), pr_claims = claims\<rparr>"

subsection \<open>The target of a tool call\<close>

text \<open>The profile a request is for, with the ids of its servers.\<close>

definition request_profile :: "('c, 'r, 'b, 'q, 'j, 'p) gateway \<Rightarrow> string \<Rightarrow> string + (string \<times> string list) option" where
  "request_profile gw serverId =
     (case non_empty (extractProfileIdFromTarget serverId) of
        None \<Rightarrow> Inr None
      | Some profileId \<Rightarrow>
          (case resolveConnectProfile (gw_servers gw) (gw_profiles gw) profileId of
             Inl e \<Rightarrow> Inl e
           | Inr p \<Rightarrow> Inr (Some (profileId, map sc_id (cp_servers p)))))"

definition direct_tool :: "tool_target option \<Rightarrow> string \<Rightarrow> string \<Rightarrow> string" where
  "direct_tool named serverId toolName =
     (case named of Some t \<Rightarrow> (if tt_serverId t = serverId then tt_toolName t else toolName) | None \<Rightarrow> toolName)"

definition resolve_call ::
  "('c, 'r, 'b, 'q, 'j, 'p) gateway \<Rightarrow> request \<Rightarrow> principal \<Rightarrow> plugin_context \<Rightarrow> log_context \<Rightarrow> bool \<Rightarrow> ('c, 'r, 'b, 'q, 'j, 'p) pipeline_state \<Rightarrow> tool_call \<times> ('c, 'r, 'b, 'q, 'j, 'p) pipeline_state" where
  "resolve_call gw rq p ctx lc profiled s =
     (let reg = ps_registry s; router = gw_router gw; serverId = rq_serverId rq;
          toolName = default_to [] (extractToolName (pc_message ctx));
          toolArgs = extractToolArgs (pc_message ctx);
          (directClient, c1) =
            (if profiled then (None, ps_counters s) else getClientForServer router reg serverId (ps_counters s));
          (resolvedCall, c2) =
            (if directClient \<noteq> None then (None, c1) else resolveToolCall router reg toolName c1);
          ws = resolveWorkspace (gw_identity gw) (pr_tenant_id p)
      in (\<lparr>tc_request = rq, tc_principal = p, tc_ctx = ctx, tc_toolName = toolName, tc_args = toolArgs,
           tc_direct = directClient, tc_resolved = resolvedCall,
           tc_server = (if directClient \<noteq> None then serverId
                        else case resolvedCall of Some r \<Rightarrow> rr_serverId r | None \<Rightarrow> serverId),
           tc_tool = (if directClient \<noteq> None then direct_tool (resolveToolName router reg toolName) serverId toolName
                      else case resolvedCall of Some r \<Rightarrow> rr_toolName r | None \<Rightarrow> toolName),
           tc_workspace = ws,
           tc_roles = getRolesForClient (gw_governance gw) (rw_id ws) (pr_client_id p),
           tc_log = lc\<lparr>lc_toolName := Some toolName\<rparr>\<rparr>,
          s\<lparr>ps_counters := c2\<rparr>))"

abbreviation tc_client :: "tool_call \<Rightarrow> string" where
  "tc_client c \<equiv> pr_client_id (tc_principal c)"

definition call_error :: "tool_call \<Rightarrow> int \<Rightarrow> string \<Rightarrow> json option \<Rightarrow> progress" where
  "call_error c code message data = request_error (tc_ctx c) code message data"

definition profile_stage :: "(string \<times> string list) option \<Rightarrow> tool_call \<Rightarrow> ('c, 'r, 'b, 'q, 'j, 'p) pipeline_state stage" where
  "profile_stage profile c s =
     (case profile of
        None \<Rightarrow> (None, s)
      | Some (profileId, servers) \<Rightarrow>
          (if tc_server c \<notin> set servers
           then (Some (call_error c METHOD_NOT_FOUND
                   (''Outil introuvable dans le profil '' @ quote profileId @ '' : '' @ tc_toolName c) None), s)
           else (None, s)))"

subsection \<open>Access control\<close>

definition acl_stage :: "('c, 'r, 'b, 'q, 'j, 'p) gateway \<Rightarrow> tool_call \<Rightarrow> ('c, 'r, 'b, 'q, 'j, 'p) pipeline_state stage" where
  "acl_stage gw c s =
     (case gw_acl gw of
        None \<Rightarrow> (None, s)
      | Some acl \<Rightarrow>
          (let decision = evaluateAcl (tc_client c) (tc_server c) (tc_tool c) (acl_policies acl) (acl_default_action acl)
           in if \<not> acl_enabled acl \<or> acl_allowed decision then (None, s)
              else (Some (call_error c (-32000) (''Access denied: client '' @ apostrophe @ tc_client c @ apostrophe @
                        '' is not allowed to call '' @ apostrophe @ tc_tool c @ apostrophe @ '' on server '' @
                        apostrophe @ tc_server c @ apostrophe) None),
                    emit (log_error (tc_log c) (-32000) (''Access denied: '' @ acl_reason decision))
                      (emit (Counted ''aclDenialsTotal'' [(''client'', sanitizeMetricLabel (tc_client c)),
                         (''server'', sanitizeMetricLabel (tc_server c)), (''tool'', sanitizeMetricLabel (tc_tool c))]) s))))"

subsection \<open>Approvals\<close>

definition mark_of :: "bool \<Rightarrow> string \<Rightarrow> (string \<times> string) option" where
  "mark_of markGuardrail ruleName = (if markGuardrail then Some (ruleName, ''require_approval'') else None)"

definition buildApprovalErrorData :: "approval_row \<Rightarrow> json" where
  "buildApprovalErrorData r = JObj [(''approval_request_id'', JStr (ap_id r)), (''status'', JStr (status_name (ap_status r))),
     (''workspace_id'', JStr (ap_workspace_id r)), (''approval_header'', JStr ''X-Conduit-Approval-Id''),
     (''expires_at'', JNum (ap_expires_at r))]"

definition approval_input_of ::
  "('c, 'r, 'b, 'q, 'j, 'p) gateway \<Rightarrow> tool_call \<Rightarrow> approval_source \<Rightarrow> string \<Rightarrow> string \<Rightarrow> approval_input" where
  "approval_input_of gw c source ruleName reason = \<lparr>ai_source = source, ai_workspace_id = rw_id (tc_workspace c),
     ai_requester = tc_client c, ai_server_id = tc_server c, ai_tool_name = tc_tool c, ai_rule_name = Some ruleName,
     ai_reason = reason, ai_trace_id = Some (rx_traceId (rq_context (tc_request c))),
     ai_fingerprint = buildRequestFingerprint (en_sha256 gw) (tc_server c) (tc_tool c) (tc_args c),
     ai_tool_args = tc_args c, ai_expires_at = 0\<rparr>"

definition enforceApprovalRequirement ::
  "('c, 'r, 'b, 'q, 'j, 'p) gateway \<Rightarrow> timestamp \<Rightarrow> tool_call \<Rightarrow> approval_source \<Rightarrow> string \<Rightarrow> string \<Rightarrow> bool \<Rightarrow> ('c, 'r, 'b, 'q, 'j, 'p) pipeline_state stage" where
  "enforceApprovalRequirement gw now c source ruleName reason markGuardrail s =
     (case non_empty (map_of (rx_rawHeaders (rq_context (tc_request c))) APPROVAL_HEADER) of
        Some approvalId \<Rightarrow>
          (case verifyApprovalGrant (en_sha256 gw) now approvalId (rw_id (tc_workspace c)) (tc_client c)
                  (tc_server c) (tc_tool c) (tc_args c) (ps_governance s) of
             (Some approved, store) \<Rightarrow> (None, s\<lparr>ps_governance := store\<rparr>)
           | (None, store) \<Rightarrow>
               (let reply = ''Approval token is invalid, expired, or does not match this request''
                in (Some (call_error c APPROVAL_REQUIRED_CODE reply
                          (Some (JObj [(''workspace_id'', JStr (rw_id (tc_workspace c))),
                                       (''approval_header'', JStr ''X-Conduit-Approval-Id'')]))),
                    emit (log_failure (tc_log c) None (JNum APPROVAL_REQUIRED_CODE) (JStr reply) (mark_of markGuardrail ruleName))
                      (s\<lparr>ps_governance := store\<rparr>))))
      | None \<Rightarrow>
          (case createApprovalRequest now (rq_uuid (tc_request c)) (gw_governance gw)
                  (approval_input_of gw c source ruleName reason) (ps_governance s) of
             (Inl e, store) \<Rightarrow>
               (case thrown (tc_log c) e (s\<lparr>ps_governance := store\<rparr>) of (r, s') \<Rightarrow> (Some r, s'))
           | (Inr approval, store) \<Rightarrow>
               (Some (call_error c APPROVAL_REQUIRED_CODE reason (Some (buildApprovalErrorData approval))),
                emit (log_failure (tc_log c) None (JNum APPROVAL_REQUIRED_CODE) (JStr reason) (mark_of markGuardrail ruleName))
                  (s\<lparr>ps_governance := store\<rparr>))))"

subsection \<open>Governance\<close>

definition subject_of :: "tool_call \<Rightarrow> tool_subject" where
  "subject_of c = \<lparr>ts_workspace = rw_id (tc_workspace c), ts_client_id = tc_client c, ts_roles = tc_roles c,
     ts_server_id = tc_server c, ts_tool_name = tc_tool c\<rparr>"

definition call_audit ::
  "timestamp \<Rightarrow> tool_call \<Rightarrow> string \<Rightarrow> string \<Rightarrow> string \<Rightarrow> jobject \<Rightarrow> ('c, 'r, 'b, 'q, 'j, 'p) pipeline_state \<Rightarrow> ('c, 'r, 'b, 'q, 'j, 'p) pipeline_state" where
  "call_audit now c action resource_type resource_id details s =
     s\<lparr>ps_governance := audit now (Some (rw_id (tc_workspace c))) (Some (tc_client c)) action resource_type
         (Some resource_id) AuditDenied
         (details @ [(''trace_id'', JStr (rx_traceId (rq_context (tc_request c))))]) (ps_governance s)\<rparr>"

definition quota_stage :: "('c, 'r, 'b, 'q, 'j, 'p) gateway \<Rightarrow> timestamp \<Rightarrow> tool_call \<Rightarrow> ('c, 'r, 'b, 'q, 'j, 'p) pipeline_state stage" where
  "quota_stage gw now c s =
     (case consumeWorkspaceQuota (en_quota gw) now (gw_governance gw) (rw_id (tc_workspace c)) (ps_quota s) of
        (q, qs) \<Rightarrow>
          (let s1 = s\<lparr>ps_quota := qs\<rparr>; ws = rw_id (tc_workspace c);
               retryAfter = default_to 60 (qd_retry_after q);
               reply = ''Workspace quota exceeded: '' @ default_to ''workspace'' (qd_blocked_by q)
           in if qd_allowed q then (None, s1)
              else (Some (Ended ((error_result (message_id (tc_ctx c)) GOVERNANCE_QUOTA_CODE reply
                       (Some (JObj [(''workspace_id'', JStr ws), (''retry_after'', JNum retryAfter)])))
                         \<lparr>res_retryAfter := Some retryAfter\<rparr>)),
                    emit (log_error (tc_log c) GOVERNANCE_QUOTA_CODE reply)
                      (call_audit now c ''workspace_quota_blocked'' ''workspace_quota'' ws
                         [(''blocked_by'', case qd_blocked_by q of Some b \<Rightarrow> JStr b | None \<Rightarrow> JUndef)] s1))))"

definition role_name :: "workspace_role \<Rightarrow> string" where
  "role_name r = (case r of Owner \<Rightarrow> ''owner'' | Admin \<Rightarrow> ''admin'' | Approver \<Rightarrow> ''approver''
     | Operator \<Rightarrow> ''operator'' | Developer \<Rightarrow> ''developer'' | Viewer \<Rightarrow> ''viewer'')"

definition governance_denied :: "timestamp \<Rightarrow> tool_call \<Rightarrow> tool_policy_decision \<Rightarrow> ('c, 'r, 'b, 'q, 'j, 'p) pipeline_state stage" where
  "governance_denied now c d s =
     (Some (call_error c GOVERNANCE_DENIED_CODE (td_reason d)
        (Some (JObj [(''workspace_id'', JStr (rw_id (tc_workspace c))), (''policy_name'', JStr (td_policy_name d)),
           (''roles'', JArr (map (\<lambda>r. JStr (role_name r)) (tc_roles c)))]))),
      emit (log_error (tc_log c) GOVERNANCE_DENIED_CODE (td_reason d))
        (call_audit now c ''tool_policy_denied'' ''tool_call'' (tc_server c @ CHR '':'' # tc_tool c)
           [(''policy_name'', JStr (td_policy_name d))] s))"

text \<open>A stage followed by another.\<close>

definition then_stage :: "'s stage \<Rightarrow> 's stage \<Rightarrow> 's stage" where
  "then_stage f g s = (case f s of (Some r, s') \<Rightarrow> (Some r, s') | (None, s') \<Rightarrow> g s')"

definition governance_stage :: "('c, 'r, 'b, 'q, 'j, 'p) gateway \<Rightarrow> timestamp \<Rightarrow> tool_call \<Rightarrow> ('c, 'r, 'b, 'q, 'j, 'p) pipeline_state stage" where
  "governance_stage gw now c s =
     (if \<not> governance_enabled (gw_governance gw) (ps_governance s) then (None, s)
      else (let d = evaluateToolPolicy (gw_governance gw) (subject_of c)
            in case td_effect d of
                 EffectDeny \<Rightarrow> governance_denied now c d s
               | EffectRequireApproval \<Rightarrow>
                   then_stage (enforceApprovalRequirement gw now c FromGovernance
                       (if td_policy_name d = [] then ''governance'' else td_policy_name d) (td_reason d) False)
                     (quota_stage gw now c) s
               | EffectAllow \<Rightarrow> quota_stage gw now c s))"

subsection \<open>Guardrails\<close>

definition severity_name :: "guardrail_severity option \<Rightarrow> string" where
  "severity_name v = (case v of Some Low \<Rightarrow> ''low'' | Some High \<Rightarrow> ''high'' | Some Critical \<Rightarrow> ''critical''
     | _ \<Rightarrow> ''medium'')"

definition guardrail_context_of :: "tool_call \<Rightarrow> guardrail_context" where
  "guardrail_context_of c = \<lparr>ctx_clientId = tc_client c, ctx_serverId = tc_server c, ctx_toolName = tc_tool c,
     ctx_toolArgs = tc_args c\<rparr>"

definition guardrail_count :: "guardrail_decision \<Rightarrow> string \<Rightarrow> tool_call \<Rightarrow> event" where
  "guardrail_count d action c = Counted ''guardrailActionsTotal'' [(''rule'', sanitizeMetricLabel (grd_rule_name d)),
     (''action'', action), (''tool'', sanitizeMetricLabel (tc_tool c))]"

definition guardrail_webhook :: "timestamp \<Rightarrow> guardrail_decision \<Rightarrow> string \<Rightarrow> tool_call \<Rightarrow> ('c, 'r, 'b, 'q, 'j, 'p) pipeline_state \<Rightarrow> ('c, 'r, 'b, 'q, 'j, 'p) pipeline_state" where
  "guardrail_webhook now d kind c s =
     (case non_empty (grd_webhook d) of
        None \<Rightarrow> s
      | Some url \<Rightarrow>
          emit (WebhookSent url \<lparr>wp_event = kind, wp_rule_name = grd_rule_name d, wp_severity = severity_name (grd_severity d),
            wp_client_id = tc_client c, wp_server_id = tc_server c, wp_tool_name = tc_tool c, wp_tool_args = tc_args c,
            wp_message = grd_reason d, wp_timestamp = now, wp_trace_id = rx_traceId (rq_context (tc_request c))\<rparr>) s)"

definition guardrail_blocked :: "timestamp \<Rightarrow> tool_call \<Rightarrow> guardrail_decision \<Rightarrow> ('c, 'r, 'b, 'q, 'j, 'p) pipeline_state stage" where
  "guardrail_blocked now c d s =
     (Some (call_error c (-32000) (grd_reason d) None),
      guardrail_webhook now d ''guardrail_block'' c
        (emit (log_failure (tc_log c) None (JNum (-32000)) (JStr (''Guardrail blocked: '' @ grd_reason d))
                 (Some (grd_rule_name d, ''block'')))
          (emit (guardrail_count d ''block'' c) s)))"

definition guardrail_stage :: "('c, 'r, 'b, 'q, 'j, 'p) gateway \<Rightarrow> timestamp \<Rightarrow> tool_call \<Rightarrow> ('c, 'r, 'b, 'q, 'j, 'p) pipeline_state stage" where
  "guardrail_stage gw now c s =
     (case gw_guardrails gw of
        None \<Rightarrow> (None, s)
      | Some config \<Rightarrow>
          (if \<not> gr_enabled config then (None, s)
           else (let d = evaluateGuardrails (en_regex gw) (guardrail_context_of c) (gr_rules config) (gr_default_allow config)
                 in case grd_action d of
                      Act Block \<Rightarrow> guardrail_blocked now c d s
                    | Act RequireApproval \<Rightarrow>
                        enforceApprovalRequirement gw now c FromGuardrail
                          (if grd_rule_name d = [] then ''guardrail'' else grd_rule_name d) (grd_reason d) True
                          (emit (guardrail_count d ''require_approval'' c) s)
                    | Act Alert \<Rightarrow>
                        (None, guardrail_webhook now d ''guardrail_alert'' c (emit (guardrail_count d ''alert'' c) s))
                    | _ \<Rightarrow> (None, s))))"

subsection \<open>Rate limits\<close>

definition limit_message :: "string \<Rightarrow> int \<Rightarrow> string" where
  "limit_message blockedBy retryAfter =
     ''Rate limit exceeded: '' @ blockedBy @ ''. Retry after '' @ show_int retryAfter @ '' seconds''"

text \<open>
  The answer to a refused request; \<open>dflt\<close> stands for the limit where the limiter names none,
  \<open>server\<close> labels the counter, and the bypass path writes no log entry (\<open>logged\<close>).
\<close>

definition limit_refused ::
  "string \<Rightarrow> string \<Rightarrow> bool \<Rightarrow> tool_call \<Rightarrow> rate_limit_check_result \<Rightarrow> ('c, 'r, 'b, 'q, 'j, 'p) pipeline_state \<Rightarrow> progress option \<times> ('c, 'r, 'b, 'q, 'j, 'p) pipeline_state" where
  "limit_refused dflt server logged c r s =
     (let blockedBy = (case cr_blocked r of Some ck \<Rightarrow> ck_label ck | None \<Rightarrow> dflt);
          retryAfter = default_to 60 (cr_retry_after r)
      in (Some (Ended ((error_result (message_id (tc_ctx c)) (-32000) (limit_message blockedBy retryAfter) None)
                 \<lparr>res_retryAfter := Some retryAfter\<rparr>)),
          emit_when logged (log_error (tc_log c) (-32000) (''Rate limit exceeded: '' @ blockedBy))
            (emit (Counted ''rateLimitRejectionsTotal'' [(''client'', sanitizeMetricLabel (tc_client c)),
               (''server'', sanitizeMetricLabel server), (''limit_type'', blockedBy)]) s)))"

definition active_limits :: "('c, 'r, 'b, 'q, 'j, 'p) gateway \<Rightarrow> ('b backend_ops \<times> rate_limit_config) option" where
  "active_limits gw =
     (case gw_rate_limits gw of
        None \<Rightarrow> None
      | Some (enabled, config) \<Rightarrow> (if enabled then map_option (\<lambda>be. (be, config)) (en_limiter gw) else None))"

definition client_limit_stage :: "('c, 'r, 'b, 'q, 'j, 'p) gateway \<Rightarrow> timestamp \<Rightarrow> tool_call \<Rightarrow> ('c, 'r, 'b, 'q, 'j, 'p) pipeline_state stage" where
  "client_limit_stage gw now c s =
     (case active_limits gw of
        None \<Rightarrow> (None, s)
      | Some (be, config) \<Rightarrow>
          (case consumeClientLimits be now config (tc_client c) (ps_limits s) of (r, b) \<Rightarrow>
             (if cr_allowed r then (None, s\<lparr>ps_limits := b\<rparr>)
              else limit_refused ''client'' (rq_serverId (tc_request c)) True c r (s\<lparr>ps_limits := b\<rparr>))))"

definition server_limit_stage :: "('c, 'r, 'b, 'q, 'j, 'p) gateway \<Rightarrow> timestamp \<Rightarrow> bool \<Rightarrow> tool_call \<Rightarrow> ('c, 'r, 'b, 'q, 'j, 'p) pipeline_state stage" where
  "server_limit_stage gw now logged c s =
     (case active_limits gw of
        None \<Rightarrow> (None, s)
      | Some (be, config) \<Rightarrow>
          (case consumeServerLimits be now config (tc_client c) (tc_server c) (tc_tool c) (ps_limits s) of (r, b) \<Rightarrow>
             (if cr_allowed r then (None, s\<lparr>ps_limits := b\<rparr>)
              else limit_refused ''server'' (tc_server c) logged c r (s\<lparr>ps_limits := b\<rparr>))))"

subsection \<open>The call of the backend\<close>

definition buildExtraHeaders ::
  "('c, 'r, 'b, 'q, 'j, 'p) gateway \<Rightarrow> identity_store option \<Rightarrow> request_context \<Rightarrow> gateway_server \<Rightarrow> principal \<Rightarrow> string + (string \<times> string) list" where
  "buildExtraHeaders gw store rx sc p =
     (let h0 = [(''X-Conduit-Trace-Id'', rx_traceId rx)];
          h1 = (case non_empty (rx_groupHeader rx) of Some g \<Rightarrow> obj_insert ''X-Conduit-Group'' g h0 | None \<Rightarrow> h0)
      in case resolveUpstreamHeaders (en_b64url gw) \<lparr>ir_config = gw_identity gw, ir_store = store\<rparr> sc p of
           Inl e \<Rightarrow> Inl e
         | Inr up \<Rightarrow>
             (let h2 = assign_all (up_headers up) h1
              in case non_empty (rx_authHeader rx) of
                   Some a \<Rightarrow>
                     (if gs_upstream_auth sc = None \<and> gs_forward_authorization sc = Some True \<and> map_of h2 ''Authorization'' = None
                      then Inr (obj_insert ''Authorization'' a h2) else Inr h2)
                 | None \<Rightarrow> Inr h2))"

definition replica_at :: "registry \<Rightarrow> string \<Rightarrow> nat \<Rightarrow> replica_info option" where
  "replica_at reg serverId i =
     (case map_of (rg_servers reg) serverId of
        Some info \<Rightarrow> (if i < length (si_replicas info) then Some (si_replicas info ! i) else None)
      | None \<Rightarrow> None)"

text \<open>The client of a replica takes the request or refuses it (\<open>McpClient.forward\<close>).\<close>

definition admit :: "('c, 'r, 'b, 'q, 'j, 'p) gateway \<Rightarrow> timestamp \<Rightarrow> string \<Rightarrow> nat \<Rightarrow> ('c, 'r, 'b, 'q, 'j, 'p) pipeline_state \<Rightarrow> bool \<times> ('c, 'r, 'b, 'q, 'j, 'p) pipeline_state" where
  "admit gw now serverId i s =
     (case replica_at (ps_registry s) serverId i of
        None \<Rightarrow> (False, s)
      | Some r \<Rightarrow>
          (case forward_start (breaker_cfg (ro_registry (gw_router gw))) now r of
             (ok, r') \<Rightarrow> (ok, s\<lparr>ps_registry := on_replica serverId i (\<lambda>_. r') (ps_registry s)\<rparr>)))"

text \<open>\<open>passthroughToServer\<close> up to the point where it waits for the reply.\<close>

definition start_upstream ::
  "('c, 'r, 'b, 'q, 'j, 'p) gateway \<Rightarrow> timestamp \<Rightarrow> request_context \<Rightarrow> principal \<Rightarrow> gateway_server \<Rightarrow> nat \<Rightarrow> jobject \<Rightarrow> ('c, 'r, 'b, 'q, 'j, 'p) pipeline_state \<Rightarrow>
   (flight_error + upstream_call) \<times> ('c, 'r, 'b, 'q, 'j, 'p) pipeline_state" where
  "start_upstream gw now rx p sc i message s =
     (case buildExtraHeaders gw (ps_identity s) rx sc p of
        Inl e \<Rightarrow> (Inl (IdentityFailure e), s)
      | Inr headers \<Rightarrow>
          (case admit gw now (sc_id sc) i s of
             (True, s') \<Rightarrow>
               (Inr \<lparr>uc_server = sc, uc_replica = i,
                     uc_options = \<lparr>uo_sessionId = rx_sessionId rx, uo_body = message, uo_extraHeaders = Some headers,
                                   uo_timeoutMs = None\<rparr>\<rparr>, s')
           | (False, s') \<Rightarrow>
               (Inl (OtherFailure (''Circuit breaker open for server '' @ quote (sc_id sc) @
                       '' - request rejected to prevent cascade'')), s')))"

text \<open>The end of the request on the replica it went to.\<close>

definition end_upstream :: "('c, 'r, 'b, 'q, 'j, 'p) gateway \<Rightarrow> timestamp \<Rightarrow> upstream_call \<Rightarrow> bool \<Rightarrow> ('c, 'r, 'b, 'q, 'j, 'p) pipeline_state \<Rightarrow> ('c, 'r, 'b, 'q, 'j, 'p) pipeline_state" where
  "end_upstream gw later u success s =
     s\<lparr>ps_registry := on_replica (sc_id (uc_server u)) (uc_replica u)
         (forward_end (breaker_cfg (ro_registry (gw_router gw))) later success) (ps_registry s)\<rparr>"

definition core_of_response :: "upstream_response \<Rightarrow> core_result" where
  "core_of_response r = (body_result (if ur_isStream r then JNull else ur_body r))
     \<lparr>res_isStream := ur_isStream r, res_upstreamSessionId := map_of (ur_headers r) ''mcp-session-id''\<rparr>"

definition count_upstream_error :: "gateway_server \<Rightarrow> event" where
  "count_upstream_error sc = Counted ''errorsTotal'' [(''server'', sanitizeMetricLabel (sc_id sc)), (''type'', ''upstream_error'')]"

subsection \<open>Tool calls that are not cached\<close>

definition requests_total :: "tool_call \<Rightarrow> string \<Rightarrow> event" where
  "requests_total c cacheStatus = Counted ''requestsTotal'' [(''server'', sanitizeMetricLabel (tc_server c)),
     (''method'', ''tools/call''), (''tool'', sanitizeMetricLabel (tc_tool c)), (''status'', ''success''),
     (''cache_status'', cacheStatus)]"

definition record_skip :: "('c, 'r, 'b, 'q, 'j, 'p) pipeline_state \<Rightarrow> ('c, 'r, 'b, 'q, 'j, 'p) pipeline_state" where
  "record_skip s = s\<lparr>ps_l1 := recordSkip (ps_l1 s)\<rparr>"

definition skip_failed :: "tool_call \<Rightarrow> gateway_server \<Rightarrow> flight_error \<Rightarrow> ('c, 'r, 'b, 'q, 'j, 'p) pipeline_state \<Rightarrow> progress \<times> ('c, 'r, 'b, 'q, 'j, 'p) pipeline_state" where
  "skip_failed c sc e s =
     (let s1 = emit (count_upstream_error sc) s
      in case e of
           IdentityFailure m \<Rightarrow> (call_error c (-32000) m None, emit (log_error (tc_log c) (-32000) m) s1)
         | OtherFailure m \<Rightarrow> thrown (tc_log c) m s1
         | RpcFailure code m \<Rightarrow> thrown (tc_log c) (js_string m) s1)"

definition skip_call ::
  "('c, 'r, 'b, 'q, 'j, 'p) gateway \<Rightarrow> timestamp \<Rightarrow> tool_call \<Rightarrow> gateway_server \<Rightarrow> nat \<Rightarrow> ('c, 'r, 'b, 'q, 'j, 'p) pipeline_state \<Rightarrow> progress \<times> ('c, 'r, 'b, 'q, 'j, 'p) pipeline_state" where
  "skip_call gw now c sc i s =
     before (server_limit_stage gw now False c)
       (\<lambda>s1. case start_upstream gw now (rq_context (tc_request c)) (tc_principal c) sc i
                    (buildForwardMessage (pc_message (tc_ctx c)) (tc_tool c)) s1 of
               (Inl e, s2) \<Rightarrow> skip_failed c sc e s2
             | (Inr call, s2) \<Rightarrow> (Waiting (Forwarded call (ForSkip c)), s2))
       (emit (requests_total c ''SKIP'') (record_skip s))"

definition with_status :: "core_result \<Rightarrow> string \<Rightarrow> core_result" where
  "with_status r status = r\<lparr>res_cacheStatus := Some status\<rparr>"

definition skip_reply :: "tool_call \<Rightarrow> gateway_server \<Rightarrow> string + upstream_response \<Rightarrow> ('c, 'r, 'b, 'q, 'j, 'p) pipeline_state \<Rightarrow> progress \<times> ('c, 'r, 'b, 'q, 'j, 'p) pipeline_state" where
  "skip_reply c sc reply s =
     (case reply of
        Inl m \<Rightarrow> skip_failed c sc (OtherFailure m) s
      | Inr r \<Rightarrow>
          (let result = core_of_response r; err = member (res_body result) ''error''
           in if res_isStream result
              then (Ended (with_status result ''BYPASS''), emit (log_success (tc_log c) ''success'' ''BYPASS'') s)
              else (Ended (with_status result ''SKIP''),
                    emit (if truthy err
                          then log_failure (tc_log c) (Some ''SKIP'') (nullish (member err ''code'') (JNum (-32603)))
                                 (member err ''message'') None
                          else log_success (tc_log c) ''success'' ''SKIP'') s)))"

subsection \<open>Tool calls that are cached\<close>

definition auth_active :: "('c, 'r, 'b, 'q, 'j, 'p) gateway \<Rightarrow> bool" where
  "auth_active gw \<longleftrightarrow> (case gw_auth gw of Some a \<Rightarrow> au_method a \<noteq> MethodNone | None \<Rightarrow> False)"

definition cache_tenant :: "('c, 'r, 'b, 'q, 'j, 'p) gateway \<Rightarrow> tool_call \<Rightarrow> string option" where
  "cache_tenant gw c =
     (if \<not> gw_tenant_isolation gw then None
      else (let tenantHeader = to_lower (gw_tenant_header gw); rx = rq_context (tc_request c);
                tenantId = pr_tenant_id (tc_principal c)
            in if tenantHeader = ''authorization''
               then Some (if auth_active gw then tenantId
                          else default_to tenantId (extractTenantId (en_sha256 gw) (en_payload gw) (rx_authHeader rx)))
               else if auth_active gw then Some tenantId
               else Some (default_to tenantId (map_of (rx_rawHeaders rx) tenantHeader))))"

definition key_options :: "('c, 'r, 'b, 'q, 'j, 'p) gateway \<Rightarrow> tool_call \<Rightarrow> cache_policy_decision \<Rightarrow> cache_key_options" where
  "key_options gw c policy = \<lparr>cko_serverId = tc_server c, cko_toolName = tc_tool c, cko_args = tc_args c,
     cko_tenantId = cache_tenant gw c, cko_groupId = rx_groupHeader (rq_context (tc_request c)),
     cko_ignoreArgs = Some (cpd_ignoreArgs policy)\<rparr>"

text \<open>The key of an object always exists (\<open>cache_key_exists\<close> below).\<close>

definition call_key :: "('c, 'r, 'b, 'q, 'j, 'p) gateway \<Rightarrow> tool_call \<Rightarrow> cache_policy_decision \<Rightarrow> string" where
  "call_key gw c policy = default_to [] (generateCacheKey (en_sha256 gw) (key_options gw c policy))"

definition cache_entries_event :: "('c, 'r, 'b, 'q, 'j, 'p) gateway \<Rightarrow> ('c, 'r, 'b, 'q, 'j, 'p) pipeline_state \<Rightarrow> event" where
  "cache_entries_event gw s = CacheEntries (length (lru_keys (en_lru gw) (cs_cache (ps_l1 s))))"

definition rpc_result :: "plugin_context \<Rightarrow> json \<Rightarrow> json" where
  "rpc_result ctx v = response_json (buildJsonRpcResult (message_id ctx) v)"

definition cache_hit :: "('c, 'r, 'b, 'q, 'j, 'p) gateway \<Rightarrow> cached_call \<Rightarrow> cache_entry \<Rightarrow> ('c, 'r, 'b, 'q, 'j, 'p) pipeline_state \<Rightarrow> progress option \<times> ('c, 'r, 'b, 'q, 'j, 'p) pipeline_state" where
  "cache_hit gw c e s =
     (Some (Ended (with_status (body_result (rpc_result (tc_ctx c) (ce_result e))) ''HIT'')),
      emit (log_success (tc_log c) ''cache_hit'' ''HIT'') (emit (cache_entries_event gw s) s))"

text \<open>The first-level cache, then the second level; what the latter holds is kept in the former.\<close>

definition cache_stage :: "('c, 'r, 'b, 'q, 'j, 'p) gateway \<Rightarrow> timestamp \<Rightarrow> cached_call \<Rightarrow> ('c, 'r, 'b, 'q, 'j, 'p) pipeline_state stage" where
  "cache_stage gw now c s =
     (case store_get (en_lru gw) now (kc_key c) (ps_l1 s) of
        (Some e, l1) \<Rightarrow> cache_hit gw c e (s\<lparr>ps_l1 := l1\<rparr>)
      | (None, l1) \<Rightarrow>
          (case ps_l2 s of
             None \<Rightarrow> (None, s\<lparr>ps_l1 := l1\<rparr>)
           | Some l2 \<Rightarrow>
               (case l2_get (en_kv gw) (en_decode gw) now (kc_key c) l2 of
                  (None, l2') \<Rightarrow> (None, s\<lparr>ps_l1 := l1, ps_l2 := Some l2'\<rparr>)
                | (Some e, l2') \<Rightarrow>
                    cache_hit gw c e (s\<lparr>ps_l1 := store_set (en_lru gw) (kc_key c) e l1, ps_l2 := Some l2'\<rparr>))))"

definition store_result :: "('c, 'r, 'b, 'q, 'j, 'p) gateway \<Rightarrow> timestamp \<Rightarrow> cached_call \<Rightarrow> json \<Rightarrow> ('c, 'r, 'b, 'q, 'j, 'p) pipeline_state \<Rightarrow> ('c, 'r, 'b, 'q, 'j, 'p) pipeline_state" where
  "store_result gw later c v s =
     (let entry = \<lparr>ce_result = v, ce_createdAt = later,
                   ce_ttl = default_to (scc_default_ttl (gs_cache (kc_config c))) (cpd_ttl (kc_policy c)),
                   ce_toolName = tc_tool c, ce_serverId = tc_server c\<rparr>;
          s1 = s\<lparr>ps_l1 := store_set (en_lru gw) (kc_key c) entry (ps_l1 s)\<rparr>;
          s2 = emit (cache_entries_event gw s1) s1
      in s2\<lparr>ps_l2 := map_option (l2_set (en_kv gw) later (kc_key c) entry (ce_ttl entry * en_l2_multiplier gw)) (ps_l2 s2)\<rparr>)"

definition is_tool_error :: "json \<Rightarrow> bool" where
  "is_tool_error v \<longleftrightarrow> member v ''isError'' = JBool True"

definition tool_error_answer :: "cached_call \<Rightarrow> plugin_context \<Rightarrow> json \<Rightarrow> ('c, 'r, 'b, 'q, 'j, 'p) pipeline_state \<Rightarrow> progress \<times> ('c, 'r, 'b, 'q, 'j, 'p) pipeline_state" where
  "tool_error_answer c ctx v s =
     (Ended (with_status (body_result (rpc_result ctx v)) ''SKIP_ERROR''),
      emit (log_failure (tc_log c) (Some ''SKIP_ERROR'') (JNum (-32000)) (JStr ''tool returned isError=true'') None)
        (emit (requests_total (tool_call.truncate c) ''SKIP_ERROR'') (record_skip s)))"

definition rpc_failure :: "plugin_context \<Rightarrow> json \<Rightarrow> json \<Rightarrow> core_result" where
  "rpc_failure ctx code message = body_result (JObj [(''jsonrpc'', JStr ''2.0''), (''id'', nullish (message_id ctx) JNull),
     (''error'', JObj [(''code'', code), (''message'', message)])])"

definition flight_failed :: "cached_call \<Rightarrow> flight_error \<Rightarrow> ('c, 'r, 'b, 'q, 'j, 'p) pipeline_state \<Rightarrow> progress \<times> ('c, 'r, 'b, 'q, 'j, 'p) pipeline_state" where
  "flight_failed c e s =
     (case e of
        IdentityFailure m \<Rightarrow>
          (request_error (tc_ctx c) (-32000) m None, emit (log_error (tc_log c) (-32000) m) s)
      | RpcFailure code m \<Rightarrow> (Ended (rpc_failure (tc_ctx c) code m), emit (log_failure (tc_log c) None code m None) s)
      | OtherFailure m \<Rightarrow> thrown (tc_log c) m s)"

definition fresh_answer :: "('c, 'r, 'b, 'q, 'j, 'p) gateway \<Rightarrow> timestamp \<Rightarrow> cached_call \<Rightarrow> plugin_context \<Rightarrow> json \<Rightarrow> ('c, 'r, 'b, 'q, 'j, 'p) pipeline_state \<Rightarrow> progress \<times> ('c, 'r, 'b, 'q, 'j, 'p) pipeline_state" where
  "fresh_answer gw later c ctx v s =
     (let s1 = emit (log_success (tc_log c) ''success'' ''MISS'') (store_result gw later c v s);
          body = rpc_result ctx v
      in case run_hook gw BeforeResponse ctx s1 of
           (Some r, _, s2) \<Rightarrow> (Ended r, s2)
         | (None, _, s2) \<Rightarrow> (Ended (with_status (body_result body) ''MISS''), s2))"

definition count_coalesced :: "cached_call \<Rightarrow> event" where
  "count_coalesced c = Counted ''dedupCoalescedTotal'' [(''server'', sanitizeMetricLabel (tc_server c)),
     (''tool'', sanitizeMetricLabel (tc_tool c))]"

text \<open>From the outcome of the deduplicated call to the answer of one of its callers.\<close>

definition answer_cached ::
  "('c, 'r, 'b, 'q, 'j, 'p) gateway \<Rightarrow> timestamp \<Rightarrow> cached_call \<Rightarrow> outcome \<Rightarrow> bool \<Rightarrow> ('c, 'r, 'b, 'q, 'j, 'p) pipeline_state \<Rightarrow> progress \<times> ('c, 'r, 'b, 'q, 'j, 'p) pipeline_state" where
  "answer_cached gw later c result wasCoalesced s =
     (case result of
        Inl e \<Rightarrow> flight_failed c e s
      | Inr v \<Rightarrow>
          (case run_hook gw AfterUpstream (tc_ctx c) (emit_when wasCoalesced (count_coalesced c) s) of
             (Some r, _, s1) \<Rightarrow> (Ended r, s1)
           | (None, ctx, s1) \<Rightarrow>
               (if is_tool_error v then tool_error_answer c ctx v s1 else fresh_answer gw later c ctx v s1)))"

text \<open>What the deduplicated call makes of the reply of the backend.\<close>

definition outcome_of :: "string + upstream_response \<Rightarrow> outcome" where
  "outcome_of reply =
     (case reply of
        Inl m \<Rightarrow> Inl (OtherFailure m)
      | Inr r \<Rightarrow>
          (let body = res_body (core_of_response r); err = member body ''error''
           in if truthy err
              then Inl (RpcFailure (nullish (member err ''code'') (JNum INTERNAL_ERROR))
                          (nullish (member err ''message'') (JStr ''Upstream error'')))
              else Inr (nullish (member body ''result'') (JObj []))))"

definition launch_flight :: "('c, 'r, 'b, 'q, 'j, 'p) gateway \<Rightarrow> timestamp \<Rightarrow> cached_call \<Rightarrow> nat \<Rightarrow> ('c, 'r, 'b, 'q, 'j, 'p) pipeline_state \<Rightarrow> progress \<times> ('c, 'r, 'b, 'q, 'j, 'p) pipeline_state" where
  "launch_flight gw now c i s =
     (let caller = rq_caller (tc_request c); t = ps_inflight s; t' = deduplicate now caller (kc_key c) False t
      in if tracker_has (kc_key c) t then (Waiting (InFlight None c), s\<lparr>ps_inflight := t'\<rparr>)
         else case start_upstream gw now (rq_context (tc_request c)) (tc_principal c) (kc_config c) i
                     (buildForwardMessage (pc_message (tc_ctx c)) (tc_tool c)) s of
           (Inr call, s1) \<Rightarrow> (Waiting (InFlight (Some call) c), s1\<lparr>ps_inflight := t'\<rparr>)
         | (Inl e, s1) \<Rightarrow>
             answer_cached gw now c (Inl e) False
               (emit (count_upstream_error (kc_config c)) (s1\<lparr>ps_inflight := settle (tk_next t, kc_key c) (Inl e) t'\<rparr>)))"

definition cacheable_call ::
  "('c, 'r, 'b, 'q, 'j, 'p) gateway \<Rightarrow> timestamp \<Rightarrow> tool_call \<Rightarrow> gateway_server \<Rightarrow> cache_policy_decision \<Rightarrow> nat \<Rightarrow> ('c, 'r, 'b, 'q, 'j, 'p) pipeline_state \<Rightarrow> progress \<times> ('c, 'r, 'b, 'q, 'j, 'p) pipeline_state" where
  "cacheable_call gw now c sc policy i s =
     (case run_hook gw BeforeCache ((tc_ctx c)\<lparr>pc_toolName := Some (tc_tool c)\<rparr>) s of
        (Some r, _, s1) \<Rightarrow> (Ended r, s1)
      | (None, ctx, s1) \<Rightarrow>
          (let k = tool_call.extend (c\<lparr>tc_ctx := ctx\<rparr>)
                     (cached_call.fields sc policy (call_key gw c policy))
           in before (cache_stage gw now k)
                (before (server_limit_stage gw now True (tool_call.truncate k)) (launch_flight gw now k i)) s1))"

subsection \<open>tools/call\<close>

definition target_replica :: "tool_call \<Rightarrow> nat option" where
  "target_replica c = (case tc_direct c of Some i \<Rightarrow> Some i | None \<Rightarrow> map_option rr_client (tc_resolved c))"

definition invalidate_tool :: "('c, 'r, 'b, 'q, 'j, 'p) gateway \<Rightarrow> timestamp \<Rightarrow> string \<Rightarrow> string \<Rightarrow> ('c, 'r, 'b, 'q, 'j, 'p) pipeline_state \<Rightarrow> ('c, 'r, 'b, 'q, 'j, 'p) pipeline_state" where
  "invalidate_tool gw now serverId toolName s =
     s\<lparr>ps_l1 := snd (deleteByTool (en_lru gw) toolName serverId (ps_l1 s)),
       ps_l2 := map_option (\<lambda>l2. snd (l2_deleteByTool (en_kv gw) (en_decode gw) now toolName serverId l2)) (ps_l2 s)\<rparr>"

definition invalidate :: "('c, 'r, 'b, 'q, 'j, 'p) gateway \<Rightarrow> timestamp \<Rightarrow> string \<Rightarrow> cache_policy_decision \<Rightarrow> ('c, 'r, 'b, 'q, 'j, 'p) pipeline_state \<Rightarrow> ('c, 'r, 'b, 'q, 'j, 'p) pipeline_state" where
  "invalidate gw now serverId policy s =
     (if cpd_isDestructive policy \<and> length (cpd_invalidates policy) > 0
      then fold (invalidate_tool gw now serverId) (cpd_invalidates policy) s else s)"

definition call_backend :: "('c, 'r, 'b, 'q, 'j, 'p) gateway \<Rightarrow> timestamp \<Rightarrow> tool_call \<Rightarrow> ('c, 'r, 'b, 'q, 'j, 'p) pipeline_state \<Rightarrow> progress \<times> ('c, 'r, 'b, 'q, 'j, 'p) pipeline_state" where
  "call_backend gw now c s =
     (case target_replica c of
        None \<Rightarrow>
          (let m = ''Outil introuvable : '' @ tc_toolName c
           in (call_error c METHOD_NOT_FOUND m None, emit (log_error (tc_log c) METHOD_NOT_FOUND m) s))
      | Some i \<Rightarrow>
          (let c' = c\<lparr>tc_log := (tc_log c)\<lparr>lc_serverId := tc_server c\<rparr>\<rparr>
           in case find_server (gw_servers gw) (tc_server c) of
                None \<Rightarrow>
                  (call_error c' INTERNAL_ERROR (''Configuration manquante pour : '' @ tc_server c) None,
                   emit (log_failure (tc_log c') None (JNum INTERNAL_ERROR) JUndef None) s)
              | Some sc \<Rightarrow>
                  (let policy = decideCachePolicy (tc_tool c) (getAnnotations (tc_server c) (tc_tool c) (ps_registry s)) (gs_cache sc);
                       s1 = invalidate gw now (tc_server c) policy s
                   in if \<not> cpd_shouldCache policy \<or> \<not> gw_cache_enabled gw then skip_call gw now c' sc i s1
                      else cacheable_call gw now c' sc policy i s1)))"

text \<open>The checks a call passes before it may touch the backend or the cache.\<close>

definition checks :: "('c, 'r, 'b, 'q, 'j, 'p) gateway \<Rightarrow> timestamp \<Rightarrow> tool_call \<Rightarrow> ('c, 'r, 'b, 'q, 'j, 'p) pipeline_state stage" where
  "checks gw now c =
     then_stage (acl_stage gw c) (then_stage (governance_stage gw now c)
       (then_stage (guardrail_stage gw now c) (client_limit_stage gw now c)))"

definition handleToolCall ::
  "('c, 'r, 'b, 'q, 'j, 'p) gateway \<Rightarrow> timestamp \<Rightarrow> request \<Rightarrow> principal \<Rightarrow> plugin_context \<Rightarrow> log_context \<Rightarrow> ('c, 'r, 'b, 'q, 'j, 'p) pipeline_state \<Rightarrow> progress \<times> ('c, 'r, 'b, 'q, 'j, 'p) pipeline_state" where
  "handleToolCall gw now rq p ctx lc s =
     (case request_profile gw (rq_serverId rq) of
        Inl e \<Rightarrow> thrown lc e s
      | Inr profile \<Rightarrow>
          (case resolve_call gw rq p ctx lc (profile \<noteq> None) s of
             (c, s1) \<Rightarrow> before (profile_stage profile c) (before (checks gw now c) (call_backend gw now c)) s1))"

subsection \<open>tools/list\<close>

text \<open>
  Tools at the type \<open>ToolMetadata\<close>.  The entries of a reply are taken at that type: one whose name
  is not a string is read as the text of its name.
\<close>

definition hint :: "json \<Rightarrow> string \<Rightarrow> bool option" where
  "hint v k = (case member v k of JBool b \<Rightarrow> Some b | _ \<Rightarrow> None)"

definition tool_name_of :: "json \<Rightarrow> string" where
  "tool_name_of t = (case member t ''name'' of JStr n \<Rightarrow> n | v \<Rightarrow> js_string v)"

definition tool_metadata_of :: "json \<Rightarrow> tool_metadata" where
  "tool_metadata_of t = \<lparr>tm_name = tool_name_of t,
     tm_description = (case member t ''description'' of JStr d \<Rightarrow> Some d | _ \<Rightarrow> None),
     tm_inputSchema = (if member t ''inputSchema'' = JUndef then None else Some (member t ''inputSchema'')),
     tm_annotations = (case member t ''annotations'' of
         JObj a \<Rightarrow> Some \<lparr>an_readOnlyHint = hint (JObj a) ''readOnlyHint'', an_idempotentHint = hint (JObj a) ''idempotentHint'',
                         an_destructiveHint = hint (JObj a) ''destructiveHint'', an_openWorldHint = hint (JObj a) ''openWorldHint''\<rparr>
       | _ \<Rightarrow> None)\<rparr>"

definition optional_member :: "string \<Rightarrow> json option \<Rightarrow> jobject" where
  "optional_member k v = (case v of Some x \<Rightarrow> [(k, x)] | None \<Rightarrow> [])"

definition annotations_json :: "tool_annotations \<Rightarrow> json" where
  "annotations_json a = JObj (optional_member ''readOnlyHint'' (map_option JBool (an_readOnlyHint a))
     @ optional_member ''idempotentHint'' (map_option JBool (an_idempotentHint a))
     @ optional_member ''destructiveHint'' (map_option JBool (an_destructiveHint a))
     @ optional_member ''openWorldHint'' (map_option JBool (an_openWorldHint a)))"

definition tool_json :: "tool_metadata \<Rightarrow> json" where
  "tool_json t = JObj ((''name'', JStr (tm_name t)) # optional_member ''description'' (map_option JStr (tm_description t))
     @ optional_member ''inputSchema'' (tm_inputSchema t)
     @ optional_member ''annotations'' (map_option annotations_json (tm_annotations t)))"

definition acl_permits :: "('c, 'r, 'b, 'q, 'j, 'p) gateway \<Rightarrow> string \<Rightarrow> string \<Rightarrow> string \<Rightarrow> bool" where
  "acl_permits gw clientId serverId toolName \<longleftrightarrow>
     (case gw_acl gw of
        None \<Rightarrow> True
      | Some acl \<Rightarrow> acl_enabled acl \<longrightarrow>
          acl_allowed (evaluateAcl clientId serverId toolName (acl_policies acl) (acl_default_action acl)))"

definition list_subject :: "('c, 'r, 'b, 'q, 'j, 'p) gateway \<Rightarrow> principal \<Rightarrow> string \<Rightarrow> string \<Rightarrow> tool_subject" where
  "list_subject gw p serverId toolName =
     (let ws = rw_id (resolveWorkspace (gw_identity gw) (pr_tenant_id p))
      in \<lparr>ts_workspace = ws, ts_client_id = pr_client_id p,
          ts_roles = getRolesForClient (gw_governance gw) ws (pr_client_id p),
          ts_server_id = serverId, ts_tool_name = toolName\<rparr>)"

definition governance_shows :: "('c, 'r, 'b, 'q, 'j, 'p) gateway \<Rightarrow> governance_store option \<Rightarrow> principal \<Rightarrow> string \<Rightarrow> string \<Rightarrow> bool" where
  "governance_shows gw store p serverId toolName \<longleftrightarrow>
     (governance_enabled (gw_governance gw) store \<longrightarrow>
       canViewTool (gw_governance gw) (list_subject gw p serverId toolName))"

definition list_tools_of :: "json \<Rightarrow> json list option" where
  "list_tools_of body = (case member (member body ''result'') ''tools'' of JArr tools \<Rightarrow> Some tools | _ \<Rightarrow> None)"

definition filter_reply_tools :: "('c, 'r, 'b, 'q, 'j, 'p) gateway \<Rightarrow> governance_store option \<Rightarrow> principal \<Rightarrow> string \<Rightarrow> json list \<Rightarrow> json list" where
  "filter_reply_tools gw store p serverId tools =
     (let allowed = (case gw_acl gw of
            Some acl \<Rightarrow> (if acl_enabled acl
              then filterToolsList tool_name_of (pr_client_id p) serverId tools (acl_policies acl) (acl_default_action acl)
              else tools)
          | None \<Rightarrow> tools)
      in if governance_enabled (gw_governance gw) store
         then filter (\<lambda>t. canViewTool (gw_governance gw) (list_subject gw p serverId (tool_name_of t))) allowed
         else allowed)"

definition replace_tools :: "json list \<Rightarrow> json \<Rightarrow> json" where
  "replace_tools tools body =
     JObj (obj_insert ''result'' (JObj (obj_insert ''tools'' (JArr tools) (spread (member body ''result'')))) (spread body))"

definition list_reply_body ::
  "('c, 'r, 'b, 'q, 'j, 'p) gateway \<Rightarrow> principal \<Rightarrow> string \<Rightarrow> json \<Rightarrow> ('c, 'r, 'b, 'q, 'j, 'p) pipeline_state \<Rightarrow> json \<times> ('c, 'r, 'b, 'q, 'j, 'p) pipeline_state" where
  "list_reply_body gw p serverId body s =
     (case list_tools_of body of
        None \<Rightarrow> (body, s)
      | Some tools \<Rightarrow>
          (replace_tools (filter_reply_tools gw (ps_governance s) p serverId tools) body,
           s\<lparr>ps_registry := updateAnnotations (ro_registry (gw_router gw)) serverId (map tool_metadata_of tools) (ps_registry s)\<rparr>))"

definition answer_list ::
  "('c, 'r, 'b, 'q, 'j, 'p) gateway \<Rightarrow> request \<Rightarrow> principal \<Rightarrow> log_context \<Rightarrow> string + upstream_response \<Rightarrow> ('c, 'r, 'b, 'q, 'j, 'p) pipeline_state \<Rightarrow> progress \<times> ('c, 'r, 'b, 'q, 'j, 'p) pipeline_state" where
  "answer_list gw rq p lc reply s =
     (case reply of
        Inl m \<Rightarrow> thrown lc m s
      | Inr r \<Rightarrow>
          (case list_reply_body gw p (rq_serverId rq) (res_body (core_of_response r)) s of
             (body, s1) \<Rightarrow>
               (Ended (with_status (body_result body) ''BYPASS''), emit (log_success lc ''success'' ''BYPASS'') s1)))"

definition visible :: "('c, 'r, 'b, 'q, 'j, 'p) gateway \<Rightarrow> governance_store option \<Rightarrow> principal \<Rightarrow> aggregated_tool \<Rightarrow> bool" where
  "visible gw store p a \<longleftrightarrow> acl_permits gw (pr_client_id p) (ag_serverId a) (ag_toolName a) \<and>
     governance_shows gw store p (ag_serverId a) (ag_toolName a)"

definition aggregated_list ::
  "('c, 'r, 'b, 'q, 'j, 'p) gateway \<Rightarrow> governance_store option \<Rightarrow> principal \<Rightarrow> (string \<times> string list) option \<Rightarrow> registry \<Rightarrow> tool_metadata list" where
  "aggregated_list gw store p profile reg =
     map (\<lambda>a. (ag_toolDef a)\<lparr>tm_name := ag_namespacedName a\<rparr>)
       (filter (visible gw store p)
         (filter (\<lambda>a. case profile of Some (_, servers) \<Rightarrow> ag_serverId a \<in> set servers | None \<Rightarrow> True)
           (getAggregatedToolsWithServerIds reg)))"

definition list_failed :: "plugin_context \<Rightarrow> log_context \<Rightarrow> flight_error \<Rightarrow> ('c, 'r, 'b, 'q, 'j, 'p) pipeline_state \<Rightarrow> progress \<times> ('c, 'r, 'b, 'q, 'j, 'p) pipeline_state" where
  "list_failed ctx lc e s =
     (case e of
        IdentityFailure m \<Rightarrow> (request_error ctx (-32000) m None, s)
      | OtherFailure m \<Rightarrow> thrown lc m s
      | RpcFailure code m \<Rightarrow> thrown lc (js_string m) s)"

definition handleToolsList ::
  "('c, 'r, 'b, 'q, 'j, 'p) gateway \<Rightarrow> timestamp \<Rightarrow> request \<Rightarrow> principal \<Rightarrow> plugin_context \<Rightarrow> log_context \<Rightarrow> ('c, 'r, 'b, 'q, 'j, 'p) pipeline_state \<Rightarrow> progress \<times> ('c, 'r, 'b, 'q, 'j, 'p) pipeline_state" where
  "handleToolsList gw now rq p ctx lc s =
     (case request_profile gw (rq_serverId rq) of
        Inl e \<Rightarrow> thrown lc e s
      | Inr profile \<Rightarrow>
          (case getClientForServer (gw_router gw) (ps_registry s) (rq_serverId rq) (ps_counters s) of
             (client, counters) \<Rightarrow>
               (let s1 = s\<lparr>ps_counters := counters\<rparr>
                in case (client, profile) of
                     (Some i, None) \<Rightarrow>
                       (case find_server (gw_servers gw) (rq_serverId rq) of
                          None \<Rightarrow> (request_error ctx INTERNAL_ERROR (''Configuration manquante pour : '' @ rq_serverId rq) None, s1)
                        | Some sc \<Rightarrow>
                            (case start_upstream gw now (rq_context rq) p sc i (pc_message ctx) s1 of
                               (Inl e, s2) \<Rightarrow> list_failed ctx lc e s2
                             | (Inr call, s2) \<Rightarrow> (Waiting (Forwarded call (ForList rq p lc)), s2)))
                   | _ \<Rightarrow>
                       (Ended (with_status (body_result (rpc_result ctx (JObj [(''tools'',
                            JArr (map tool_json (aggregated_list gw (ps_governance s1) p profile (ps_registry s1))))]))) ''BYPASS''),
                        emit (log_success lc ''success'' ''BYPASS'') s1))))"

subsection \<open>Every other method\<close>

definition handleProfilePassthrough ::
  "('c, 'r, 'b, 'q, 'j, 'p) gateway \<Rightarrow> request \<Rightarrow> plugin_context \<Rightarrow> log_context \<Rightarrow> string \<Rightarrow> ('c, 'r, 'b, 'q, 'j, 'p) pipeline_state \<Rightarrow> progress \<times> ('c, 'r, 'b, 'q, 'j, 'p) pipeline_state" where
  "handleProfilePassthrough gw rq ctx lc profileId s =
     (let mth = obj_get (pc_message ctx) ''method''; ok = log_success lc ''success'' ''BYPASS''
      in if mth = JStr ''initialize''
         then (case resolveConnectProfile (gw_servers gw) (gw_profiles gw) profileId of
                 Inl e \<Rightarrow> thrown lc e s
               | Inr profile \<Rightarrow>
                   (Ended ((with_status (body_result (rpc_result ctx (JObj [
                        (''protocolVersion'', JStr PROFILE_PROTOCOL_VERSION),
                        (''capabilities'', JObj [(''tools'', JObj [(''listChanged'', JBool False)])]),
                        (''serverInfo'', JObj [(''name'', JStr (''conduit-profile-'' @ cp_id profile)),
                           (''title'', JStr (''Conduit '' @ cp_label profile)), (''version'', JStr PROFILE_SERVER_VERSION)])])))
                       ''BYPASS'')\<lparr>res_upstreamSessionId := Some (''conduit-profile-'' @ cp_id profile)\<rparr>), emit ok s))
         else if mth = JStr ''notifications/initialized''
         then (Ended (with_status (body_result (rpc_result ctx (JObj [(''acknowledged'', JBool True)]))) ''BYPASS''), emit ok s)
         else (request_error ctx METHOD_NOT_FOUND (''La m'' @ e_acute @ ''thode '' @ method_text (pc_message ctx) ''unknown'' @ '' n'' @
                 apostrophe @ ''est pas prise en charge sur /mcp/profile/'' @ profileId) None,
               emit (log_failure lc None (JNum METHOD_NOT_FOUND) JUndef None) s))"

definition pass_failed :: "plugin_context \<Rightarrow> log_context \<Rightarrow> flight_error \<Rightarrow> ('c, 'r, 'b, 'q, 'j, 'p) pipeline_state \<Rightarrow> progress \<times> ('c, 'r, 'b, 'q, 'j, 'p) pipeline_state" where
  "pass_failed ctx lc e s =
     (case e of
        IdentityFailure m \<Rightarrow> (request_error ctx (-32000) m None, emit (log_error lc (-32000) m) s)
      | OtherFailure m \<Rightarrow> thrown lc m s
      | RpcFailure code m \<Rightarrow> thrown lc (js_string m) s)"

definition answer_pass :: "log_context \<Rightarrow> string + upstream_response \<Rightarrow> ('c, 'r, 'b, 'q, 'j, 'p) pipeline_state \<Rightarrow> progress \<times> ('c, 'r, 'b, 'q, 'j, 'p) pipeline_state" where
  "answer_pass lc reply s =
     (case reply of
        Inl m \<Rightarrow> thrown lc m s
      | Inr r \<Rightarrow> (Ended (with_status (core_of_response r) ''BYPASS''), emit (log_success lc ''success'' ''BYPASS'') s))"

definition handlePassthrough ::
  "('c, 'r, 'b, 'q, 'j, 'p) gateway \<Rightarrow> timestamp \<Rightarrow> request \<Rightarrow> principal \<Rightarrow> plugin_context \<Rightarrow> log_context \<Rightarrow> ('c, 'r, 'b, 'q, 'j, 'p) pipeline_state \<Rightarrow> progress \<times> ('c, 'r, 'b, 'q, 'j, 'p) pipeline_state" where
  "handlePassthrough gw now rq p ctx lc s =
     (case non_empty (extractProfileIdFromTarget (rq_serverId rq)) of
        Some profileId \<Rightarrow> handleProfilePassthrough gw rq ctx lc profileId s
      | None \<Rightarrow>
          (case getClientForServer (gw_router gw) (ps_registry s) (rq_serverId rq) (ps_counters s) of
             (None, counters) \<Rightarrow>
               (request_error ctx INTERNAL_ERROR (''Serveur indisponible : '' @ rq_serverId rq) None,
                emit (log_failure lc None (JNum INTERNAL_ERROR) JUndef None) (s\<lparr>ps_counters := counters\<rparr>))
           | (Some i, counters) \<Rightarrow>
               (case find_server (gw_servers gw) (rq_serverId rq) of
                  None \<Rightarrow>
                    (request_error ctx INTERNAL_ERROR (''Configuration manquante pour : '' @ rq_serverId rq) None,
                     emit (log_failure lc None (JNum INTERNAL_ERROR) JUndef None) (s\<lparr>ps_counters := counters\<rparr>))
                | Some sc \<Rightarrow>
                    (case start_upstream gw now (rq_context rq) p sc i (pc_message ctx) (s\<lparr>ps_counters := counters\<rparr>) of
                       (Inl e, s1) \<Rightarrow> pass_failed ctx lc e s1
                     | (Inr call, s1) \<Rightarrow> (Waiting (Forwarded call (ForPass rq lc)), s1)))))"

subsection \<open>The handler\<close>

definition log_context_of :: "request \<Rightarrow> string \<Rightarrow> log_context" where
  "log_context_of rq clientId = \<lparr>lc_traceId = rx_traceId (rq_context rq), lc_clientId = clientId,
     lc_serverId = rq_serverId rq, lc_method = method_text (rq_message rq) ''unknown'', lc_toolName = None\<rparr>"

definition dispatch ::
  "('c, 'r, 'b, 'q, 'j, 'p) gateway \<Rightarrow> timestamp \<Rightarrow> request \<Rightarrow> principal \<Rightarrow> plugin_context \<Rightarrow> ('c, 'r, 'b, 'q, 'j, 'p) pipeline_state \<Rightarrow> progress \<times> ('c, 'r, 'b, 'q, 'j, 'p) pipeline_state" where
  "dispatch gw now rq p ctx s =
     (let mth = obj_get (rq_message rq) ''method''; lc = log_context_of rq (pr_client_id p)
      in if mth = JStr ''tools/call'' then handleToolCall gw now rq p ctx lc s
         else if mth = JStr ''tools/list'' then handleToolsList gw now rq p ctx lc s
         else handlePassthrough gw now rq p ctx lc s)"

definition begin_request :: "('c, 'r, 'b, 'q, 'j, 'p) gateway \<Rightarrow> timestamp \<Rightarrow> request \<Rightarrow> ('c, 'r, 'b, 'q, 'j, 'p) pipeline_state \<Rightarrow> progress \<times> ('c, 'r, 'b, 'q, 'j, 'p) pipeline_state" where
  "begin_request gw now rq s =
     (case run_hook gw BeforeRequest (buildPluginContext rq ''anonymous'') s of
        (Some r, _, s1) \<Rightarrow> (Ended r, s1)
      | (None, ctx, s1) \<Rightarrow>
          (case authenticate_request gw rq s1 of
             (Rejected reason, s2) \<Rightarrow>
               (request_error ctx (-32000) (''Authentication failed: '' @ reason) None,
                emit (Counted ''authFailuresTotal'' [(''reason'', reason)]) s2)
           | (Authenticated clientId tenantId claims, s2) \<Rightarrow>
               (case run_hook gw AfterAuth (ctx\<lparr>pc_clientId := clientId\<rparr>) s2 of
                  (Some r, _, s3) \<Rightarrow> (Ended r, s3)
                | (None, ctx', s3) \<Rightarrow> dispatch gw now rq (principal_of rq clientId tenantId claims) ctx' s3)))"

text \<open>
  The reply of the backend.  A forwarded request is answered at once; the callers of a
  deduplicated call are answered one after another, each with the outcome it received.
\<close>

definition answer_forwarded ::
  "('c, 'r, 'b, 'q, 'j, 'p) gateway \<Rightarrow> timestamp \<Rightarrow> upstream_call \<Rightarrow> purpose \<Rightarrow> string + upstream_response \<Rightarrow> ('c, 'r, 'b, 'q, 'j, 'p) pipeline_state \<Rightarrow> progress \<times> ('c, 'r, 'b, 'q, 'j, 'p) pipeline_state" where
  "answer_forwarded gw later u why reply s =
     (let s1 = end_upstream gw later u (\<not> isl reply) s
      in case why of
           ForSkip c \<Rightarrow> skip_reply c (uc_server u) reply s1
         | ForList rq p lc \<Rightarrow> answer_list gw rq p lc reply s1
         | ForPass rq lc \<Rightarrow> answer_pass lc reply s1)"

definition settle_call ::
  "('c, 'r, 'b, 'q, 'j, 'p) gateway \<Rightarrow> timestamp \<Rightarrow> upstream_call \<Rightarrow> nat \<times> string \<Rightarrow> string + upstream_response \<Rightarrow> ('c, 'r, 'b, 'q, 'j, 'p) pipeline_state \<Rightarrow> ('c, 'r, 'b, 'q, 'j, 'p) pipeline_state" where
  "settle_call gw later u flight reply s =
     (let s1 = emit_when (isl reply) (count_upstream_error (uc_server u)) (end_upstream gw later u (\<not> isl reply) s)
      in s1\<lparr>ps_inflight := settle flight (outcome_of reply) (ps_inflight s1)\<rparr>)"

text \<open>One request from its arrival to its answer, with no other in between.\<close>

definition handle ::
  "('c, 'r, 'b, 'q, 'j, 'p) gateway \<Rightarrow> timestamp \<Rightarrow> timestamp \<Rightarrow> request \<Rightarrow> (upstream_call \<Rightarrow> string + upstream_response) \<Rightarrow> ('c, 'r, 'b, 'q, 'j, 'p) pipeline_state \<Rightarrow> progress \<times> ('c, 'r, 'b, 'q, 'j, 'p) pipeline_state" where
  "handle gw now later rq backend s =
     (case begin_request gw now rq s of
        (Waiting (Forwarded u why), s1) \<Rightarrow> answer_forwarded gw later u why (backend u) s1
      | (Waiting (InFlight (Some u) c), s1) \<Rightarrow>
          answer_cached gw later c (outcome_of (backend u)) False
            (settle_call gw later u (tk_next (ps_inflight s), kc_key c) (backend u) s1)
      | r \<Rightarrow> r)"

end
