(* ===== verification/Pipeline_Example.thy ===== *)
theory Pipeline_Example
  imports Pipeline Limiter
begin

section \<open>A gateway with one backend\<close>

text \<open>
  The instance the witnesses use: the third-party code is that of the instances of the
  components (the two-entry LRU cache, the timed key-value store, the memory limiter), clients
  authenticate with a key, and the client \<open>alice\<close> may call every tool of \<open>crm\<close> but those that
  delete.  \<open>get\<close> is annotated as read-only, so that its results are cached.
\<close>

type_synonym demo_gateway = "(two_entries, timed_db, limiter_store, limiter_store, unit, unit) gateway"
type_synonym demo_state = "(two_entries, timed_db, limiter_store, limiter_store, unit, unit) pipeline_state"

definition crm_server :: gateway_server where
  "crm_server = \<lparr>sc_id = ''crm'', sc_url = ''http://crm'', sc_replicas = None, sc_transport = None,
     gs_cache = \<lparr>scc_default_ttl = 60, scc_overrides = None\<rparr>, gs_upstream_auth = None, gs_forward_authorization = None\<rparr>"

definition demo_acl :: acl_config where
  "demo_acl = \<lparr>acl_enabled = True, acl_default_action = AclDeny, acl_policies =
     [\<lparr>acl_name = ''staff'', acl_clients = [''alice''],
       acl_allow = Some [\<lparr>rule_server = ''crm'', rule_tools = [''*'']\<rparr>],
       acl_deny = Some [\<lparr>rule_server = ''*'', rule_tools = [''delete_*'']\<rparr>]\<rparr>]\<rparr>"

definition demo_auth :: auth_config where
  "demo_auth = \<lparr>au_method = MethodApiKey, au_jwks_url = None, au_issuer = None, au_audience = None,
     au_tenant_claim = None, au_client_claim = None,
     au_api_keys = Some [\<lparr>ak_key = ''k1'', ak_client_id = ''alice'', ak_tenant_id = ''t1''\<rparr>,
                         \<lparr>ak_key = ''k2'', ak_client_id = ''bob'', ak_tenant_id = ''t2''\<rparr>],
     au_algorithms = None\<rparr>"

definition demo_limits :: rate_limit_config where
  "demo_limits = \<lparr>rcf_global = None,
     rcf_per_client = Some \<lparr>tr_requests_per_minute = Some 2, tr_requests_per_hour = None, tr_requests_per_day = None\<rparr>,
     rcf_overrides = None, rcf_queue = None\<rparr>"

definition demo_router :: router_config where
  "demo_router = \<lparr>ro_registry = \<lparr>rc_strategy = NoNamespace, rc_health = \<lparr>hc_enabled = False, hc_interval_seconds = 30,
     hc_timeout_ms = 5000, hc_unhealthy_threshold = 3, hc_healthy_threshold = 1\<rparr>, rc_breaker = None\<rparr>,
     ro_load_balancing = None\<rparr>"

definition demo_gateway :: demo_gateway where
  "demo_gateway = \<lparr>gw_servers = [crm_server], gw_router = demo_router, gw_cache_enabled = True,
     gw_tenant_isolation = True, gw_tenant_header = ''X-Tenant'', gw_auth = Some demo_auth, gw_acl = Some demo_acl,
     gw_rate_limits = Some (True, demo_limits), gw_guardrails = None, gw_governance = None, gw_identity = None,
     gw_profiles = None, en_lru = two_lru, en_kv = timed_kv, en_decode = (\<lambda>_. None), en_l2_multiplier = 3,
     en_limiter = Some (memory_backend 100), en_quota = memory_backend 100, en_plugins = None,
     en_fetch_jwks = (\<lambda>_. Inl ''offline''), en_verify = (\<lambda>_ _ _. Inl ''offline''), en_sha256 = (\<lambda>t. t),
     en_b64url = (\<lambda>t. t), en_payload = (\<lambda>_. None), en_regex = (\<lambda>_ _. None)\<rparr>"

definition crm_tools :: "tool_metadata list" where
  "crm_tools = [\<lparr>tm_name = ''get'', tm_description = None, tm_inputSchema = None,
       tm_annotations = Some (no_annotations\<lparr>an_readOnlyHint := Some True\<rparr>)\<rparr>,
     \<lparr>tm_name = ''delete_all'', tm_description = None, tm_inputSchema = None, tm_annotations = None\<rparr>]"

definition demo_state :: demo_state where
  "demo_state = \<lparr>ps_registry = updateAnnotations (ro_registry demo_router) ''crm'' crm_tools
       (new_registry (ro_registry demo_router) [server_config.truncate crm_server] [''crm'']),
     ps_counters = [], ps_jwks = [], ps_l1 = new_cache_store [] 64, ps_l2 = None, ps_inflight = new_tracker,
     ps_limits = [], ps_quota = [], ps_governance = None, ps_identity = None, ps_plugins = (), ps_events = []\<rparr>"

definition demo_request :: "string \<Rightarrow> string \<Rightarrow> nat \<Rightarrow> request" where
  "demo_request key tool caller = \<lparr>rq_serverId = ''crm'',
     rq_message = [(''jsonrpc'', JStr ''2.0''), (''id'', JNum 7), (''method'', JStr ''tools/call''),
       (''params'', JObj [(''name'', JStr tool), (''arguments'', JObj [(''q'', JStr ''x'')])])],
     rq_context = \<lparr>rx_traceId = ''t'', rx_authHeader = None, rx_groupHeader = None, rx_sessionId = None,
       rx_rawHeaders = [(''x-api-key'', key)]\<rparr>,
     rq_caller = caller, rq_uuid = ''u1''\<rparr>"

definition demo_reply :: "json \<Rightarrow> string + upstream_response" where
  "demo_reply v = Inr \<lparr>ur_body = JObj [(''jsonrpc'', JStr ''2.0''), (''id'', JNum 7), (''result'', v)], ur_status = 200,
     ur_headers = [], ur_isStream = False\<rparr>"

text \<open>The answer a call of \<open>alice\<close> gets, first from the backend and then from the cache.\<close>

definition demo_first :: "progress \<times> demo_state" where
  "demo_first = handle demo_gateway 1000 1010 (demo_request ''k1'' ''get'' 1) (\<lambda>_. demo_reply (JObj [(''n'', JNum 1)])) demo_state"

definition status_of :: "progress \<Rightarrow> string option" where
  "status_of r = (case r of Ended a \<Rightarrow> res_cacheStatus a | _ \<Rightarrow> None)"

end
