(* ===== verification/Pipeline_Safety.thy ===== *)
theory Pipeline_Safety
  imports Pipeline_Example
begin

section \<open>What a request passes before it reaches the cache or a backend\<close>

text \<open>
  The stages of a tool call only ever decide or record.  The first group of lemmas says what
  each leaves alone (\<open>core\<close>: the registry, both caches and the calls in flight), the second
  what a stage that lets the call pass has checked.
\<close>

subsection \<open>What the stages leave alone\<close>

definition core :: "('c, 'r, 'b, 'q, 'j, 'p) pipeline_state \<Rightarrow>
    registry \<times> 'c cache_store \<times> 'r l2_cache option \<times> tracker" where
  "core s = (ps_registry s, ps_l1 s, ps_l2 s, ps_inflight s)"

lemma emit_simps [simp]:
  "ps_registry (emit e s) = ps_registry s" "ps_counters (emit e s) = ps_counters s" "ps_jwks (emit e s) = ps_jwks s"
  "ps_l1 (emit e s) = ps_l1 s" "ps_l2 (emit e s) = ps_l2 s" "ps_inflight (emit e s) = ps_inflight s"
  "ps_limits (emit e s) = ps_limits s" "ps_quota (emit e s) = ps_quota s" "ps_governance (emit e s) = ps_governance s"
  "ps_identity (emit e s) = ps_identity s" "ps_plugins (emit e s) = ps_plugins s" "ps_events (emit e s) = ps_events s @ [e]"
  by (simp_all add: emit_def)

lemma core_emit [simp]: "core (emit e s) = core s" "core (emit_when b e s) = core s"
  by (simp_all add: core_def emit_when_def)

lemma core_update [simp]:
  "core (s\<lparr>ps_counters := a\<rparr>) = core s" "core (s\<lparr>ps_jwks := j\<rparr>) = core s" "core (s\<lparr>ps_limits := l\<rparr>) = core s"
  "core (s\<lparr>ps_quota := q\<rparr>) = core s" "core (s\<lparr>ps_governance := g\<rparr>) = core s" "core (s\<lparr>ps_plugins := p\<rparr>) = core s"
  by (simp_all add: core_def)

lemma before_cases:
  obtains r where "fst (f s) = Some r" "before f g s = (r, snd (f s))"
  | "fst (f s) = None" "before f g s = g (snd (f s))"
  by (cases "f s"; cases "fst (f s)") (auto simp: before_def)

lemma then_stage_cases:
  obtains r where "fst (f s) = Some r" "then_stage f g s = (Some r, snd (f s))"
  | "fst (f s) = None" "then_stage f g s = g (snd (f s))"
  by (cases "f s"; cases "fst (f s)") (auto simp: then_stage_def)

text \<open>The answers a stage gives end the request: none of them waits for a backend.\<close>

definition ends :: "progress \<Rightarrow> bool" where
  "ends r \<longleftrightarrow> (\<forall>w. r \<noteq> Waiting w)"

lemma ends_simps [simp]: "ends (Ended r)" "ends (Thrown e)" "\<not> ends (Waiting w)"
  "ends (request_error ctx code m d)" "ends (call_error c code m d)"
  by (simp_all add: ends_def request_error_def call_error_def)

lemma thrown_simps [simp]: "fst (thrown lc e s) = Thrown e" "core (snd (thrown lc e s)) = core s"
  "ps_governance (snd (thrown lc e s)) = ps_governance s"
  by (simp_all add: thrown_def)

text \<open>A stage that leaves the core alone and never answers by waiting.\<close>

definition quiet :: "('c, 'r, 'b, 'q, 'j, 'p) pipeline_state stage \<Rightarrow> bool" where
  "quiet f \<longleftrightarrow> (\<forall>s. core (snd (f s)) = core s \<and> (\<forall>r. fst (f s) = Some r \<longrightarrow> ends r))"

lemma quietD: "quiet f \<Longrightarrow> core (snd (f s)) = core s" "quiet f \<Longrightarrow> fst (f s) = Some r \<Longrightarrow> ends r"
  by (simp_all add: quiet_def)

lemma quiet_then: "quiet f \<Longrightarrow> quiet g \<Longrightarrow> quiet (then_stage f g)"
  unfolding quiet_def
proof (intro allI)
  fix s assume f: "\<forall>s. core (snd (f s)) = core s \<and> (\<forall>r. fst (f s) = Some r \<longrightarrow> ends r)"
    and g: "\<forall>s. core (snd (g s)) = core s \<and> (\<forall>r. fst (g s) = Some r \<longrightarrow> ends r)"
  show "core (snd (then_stage f g s)) = core s \<and> (\<forall>r. fst (then_stage f g s) = Some r \<longrightarrow> ends r)"
    by (rule then_stage_cases [of f s g]) (use f g in auto)
qed

named_theorems quiet

lemma quiet_acl [quiet]: "quiet (acl_stage gw c)"
  by (auto simp: quiet_def acl_stage_def Let_def split: option.split)

lemma quiet_approval [quiet]: "quiet (enforceApprovalRequirement gw now c src rl rsn m)"
  by (auto simp: quiet_def enforceApprovalRequirement_def Let_def thrown_def split: option.split prod.split sum.split)

lemma quiet_quota [quiet]: "quiet (quota_stage gw now c)"
  by (auto simp: quiet_def quota_stage_def call_audit_def Let_def split: prod.split)

lemma quiet_denied [quiet]: "quiet (governance_denied now c d)"
  by (auto simp: quiet_def governance_denied_def call_audit_def)

lemma quiet_governance [quiet]: "quiet (governance_stage gw now c)"
  by (auto simp: quiet_def [of "governance_stage gw now c"] governance_stage_def Let_def
      quietD(1) [OF quiet_quota] quietD(1) [OF quiet_denied] quietD(1) [OF quiet_then [OF quiet_approval quiet_quota]]
      dest: quietD(2) [OF quiet_quota] quietD(2) [OF quiet_denied] quietD(2) [OF quiet_then [OF quiet_approval quiet_quota]]
      split: tool_effect.split)

lemma core_webhook [simp]: "core (guardrail_webhook now d k c s) = core s"
  "ps_limits (guardrail_webhook now d k c s) = ps_limits s" "ps_governance (guardrail_webhook now d k c s) = ps_governance s"
  by (simp_all add: guardrail_webhook_def split: option.split)

lemma quiet_guardrail [quiet]: "quiet (guardrail_stage gw now c)"
  by (auto simp: quiet_def [of "guardrail_stage gw now c"] guardrail_stage_def guardrail_blocked_def Let_def
      quietD(1) [OF quiet_approval] dest: quietD(2) [OF quiet_approval]
      split: option.split decision_action.split guardrail_action.split)

lemma limit_refused_simps [simp]:
  "core (snd (limit_refused d srv lg c res s)) = core s" "ps_limits (snd (limit_refused d srv lg c res s)) = ps_limits s"
  "fst (limit_refused d srv lg c res s) \<noteq> None" "fst (limit_refused d srv lg c res s) = Some r \<Longrightarrow> ends r"
  by (auto simp: limit_refused_def Let_def emit_when_def)

lemma quiet_client_limit [quiet]: "quiet (client_limit_stage gw now c)"
  by (simp add: quiet_def client_limit_stage_def split: option.split prod.split)

lemma quiet_server_limit [quiet]: "quiet (server_limit_stage gw now lg c)"
  by (simp add: quiet_def server_limit_stage_def split: option.split prod.split)

lemma quiet_profile [quiet]: "quiet (profile_stage profile c)"
  by (auto simp: quiet_def profile_stage_def split: option.split)

lemma quiet_checks [quiet]: "quiet (checks gw now c)"
  unfolding checks_def by (intro quiet_then quiet)

lemma core_hook [simp]: "core (snd (snd (run_hook gw name ctx s))) = core s"
  by (simp add: run_hook_def split: option.split prod.split)

lemma core_resolve [simp]: "core (snd (resolve_call gw rq p ctx lc pr s)) = core s"
  by (simp add: resolve_call_def Let_def case_prod_unfold)

lemma core_authenticate [simp]: "core (snd (authenticate_request gw rq s)) = core s"
  by (simp add: authenticate_request_def split: option.split prod.split)

subsection \<open>What a call that passes has been checked for\<close>

definition governance_effect ::
  "('c, 'r, 'b, 'q, 'j, 'p) gateway \<Rightarrow> governance_store option \<Rightarrow> tool_call \<Rightarrow> tool_effect" where
  "governance_effect gw store c =
     (if governance_enabled (gw_governance gw) store
      then td_effect (evaluateToolPolicy (gw_governance gw) (subject_of c)) else EffectAllow)"

definition guardrail_effect :: "('c, 'r, 'b, 'q, 'j, 'p) gateway \<Rightarrow> tool_call \<Rightarrow> decision_action" where
  "guardrail_effect gw c =
     (case gw_guardrails gw of
        None \<Rightarrow> Allow
      | Some config \<Rightarrow>
          (if gr_enabled config
           then grd_action (evaluateGuardrails (en_regex gw) (guardrail_context_of c) (gr_rules config) (gr_default_allow config))
           else Allow))"

definition approval_given ::
  "('c, 'r, 'b, 'q, 'j, 'p) gateway \<Rightarrow> timestamp \<Rightarrow> governance_store option \<Rightarrow> tool_call \<Rightarrow> bool" where
  "approval_given gw now store c \<longleftrightarrow>
     (case non_empty (map_of (rx_rawHeaders (rq_context (tc_request c))) APPROVAL_HEADER) of
        None \<Rightarrow> False
      | Some approvalId \<Rightarrow>
          fst (verifyApprovalGrant (en_sha256 gw) now approvalId (rw_id (tc_workspace c)) (tc_client c)
                 (tc_server c) (tc_tool c) (tc_args c) store) \<noteq> None)"

definition call_permitted ::
  "('c, 'r, 'b, 'q, 'j, 'p) gateway \<Rightarrow> timestamp \<Rightarrow> governance_store option \<Rightarrow> tool_call \<Rightarrow> bool" where
  "call_permitted gw now store c \<longleftrightarrow>
     acl_permits gw (tc_client c) (tc_server c) (tc_tool c) \<and>
     governance_effect gw store c \<noteq> EffectDeny \<and> guardrail_effect gw c \<noteq> Act Block \<and>
     (governance_effect gw store c = EffectRequireApproval \<or> guardrail_effect gw c = Act RequireApproval \<longrightarrow>
        approval_given gw now store c)"

lemma effect_updates [simp]:
  "governance_effect gw store (c\<lparr>tc_log := l\<rparr>) = governance_effect gw store c"
  "governance_effect gw store (c\<lparr>tc_ctx := x\<rparr>) = governance_effect gw store c"
  "guardrail_effect gw (c\<lparr>tc_log := l\<rparr>) = guardrail_effect gw c"
  "guardrail_effect gw (c\<lparr>tc_ctx := x\<rparr>) = guardrail_effect gw c"
  "approval_given gw now store (c\<lparr>tc_log := l\<rparr>) = approval_given gw now store c"
  "approval_given gw now store (c\<lparr>tc_ctx := x\<rparr>) = approval_given gw now store c"
  by (simp_all add: governance_effect_def guardrail_effect_def approval_given_def subject_of_def
      guardrail_context_of_def split: option.split)

lemma permitted_updates [simp]:
  "call_permitted gw now store (c\<lparr>tc_log := l\<rparr>) = call_permitted gw now store c"
  "call_permitted gw now store (c\<lparr>tc_ctx := x\<rparr>) = call_permitted gw now store c"
  by (simp_all add: call_permitted_def)

lemma acl_stage_None: "fst (acl_stage gw c s) = None \<longleftrightarrow> acl_permits gw (tc_client c) (tc_server c) (tc_tool c)"
  by (auto simp: acl_stage_def acl_permits_def Let_def split: option.split)

lemma acl_stage_keeps [simp]: "ps_governance (snd (acl_stage gw c s)) = ps_governance s"
  "ps_limits (snd (acl_stage gw c s)) = ps_limits s"
  by (simp_all add: acl_stage_def Let_def split: option.split)

lemma approval_None: "fst (enforceApprovalRequirement gw now c src rl rsn m s) = None \<longleftrightarrow> approval_given gw now (ps_governance s) c"
  by (auto simp: enforceApprovalRequirement_def approval_given_def Let_def thrown_def split: option.split prod.split sum.split)

lemma approval_limits [simp]: "ps_limits (snd (enforceApprovalRequirement gw now c src rl rsn m s)) = ps_limits s"
  by (auto simp: enforceApprovalRequirement_def Let_def thrown_def split: option.split prod.split sum.split)

lemma verify_twice:
  "fst (verifyApprovalGrant sha now a ws cl sv tn args (snd (verifyApprovalGrant sha now a ws cl sv tn args store))) =
   fst (verifyApprovalGrant sha now a ws cl sv tn args store)"
  by (cases store) (simp_all add: verifyApprovalGrant_def store_verifyApprovalGrant_def pruneExpired_def Let_def o_def)

lemma verify_some: "snd (verifyApprovalGrant sha now a ws cl sv tn args store) = None \<longleftrightarrow> store = None"
  by (cases store) (simp_all add: verifyApprovalGrant_def Let_def case_prod_unfold)

lemma approval_pass_store:
  assumes "fst (enforceApprovalRequirement gw now c src rl rsn m s) = None"
  shows "approval_given gw now (ps_governance (snd (enforceApprovalRequirement gw now c src rl rsn m s))) c"
proof -
  from assms have a: "approval_given gw now (ps_governance s) c" by (simp add: approval_None)
  then obtain i where i: "non_empty (map_of (rx_rawHeaders (rq_context (tc_request c))) APPROVAL_HEADER) = Some i"
    by (auto simp: approval_given_def split: option.splits)
  define v where "v = verifyApprovalGrant (en_sha256 gw) now i (rw_id (tc_workspace c)) (tc_client c) (tc_server c)
      (tc_tool c) (tc_args c) (ps_governance s)"
  from a i obtain r where r: "fst v = Some r" by (auto simp: approval_given_def v_def)
  have "ps_governance (snd (enforceApprovalRequirement gw now c src rl rsn m s)) = snd v"
    using i r by (cases v) (simp add: enforceApprovalRequirement_def v_def)
  moreover have "fst (verifyApprovalGrant (en_sha256 gw) now i (rw_id (tc_workspace c)) (tc_client c) (tc_server c)
      (tc_tool c) (tc_args c) (snd v)) = Some r"
    using r by (simp add: v_def verify_twice)
  ultimately show ?thesis using i by (simp add: approval_given_def)
qed

lemma quota_pass [simp]: "fst (quota_stage gw now c s) = None \<Longrightarrow> ps_governance (snd (quota_stage gw now c s)) = ps_governance s"
  by (auto simp: quota_stage_def Let_def split: prod.splits if_splits)

lemma quota_limits [simp]: "ps_limits (snd (quota_stage gw now c s)) = ps_limits s"
  by (auto simp: quota_stage_def Let_def call_audit_def split: prod.split)

lemma governance_pass:
  assumes "fst (governance_stage gw now c s) = None"
  shows "governance_effect gw (ps_governance s) c \<noteq> EffectDeny"
    and "governance_effect gw (ps_governance s) c = EffectRequireApproval \<Longrightarrow> approval_given gw now (ps_governance s) c"
    and "approval_given gw now (ps_governance (snd (governance_stage gw now c s))) c \<Longrightarrow> approval_given gw now (ps_governance s) c"
proof -
  let ?s = "snd (governance_stage gw now c s)"
  have "governance_effect gw (ps_governance s) c \<noteq> EffectDeny \<and>
    (governance_effect gw (ps_governance s) c = EffectRequireApproval \<longrightarrow> approval_given gw now (ps_governance s) c) \<and>
    (approval_given gw now (ps_governance ?s) c \<longrightarrow> approval_given gw now (ps_governance s) c)"
  proof (cases "governance_effect gw (ps_governance s) c")
    case EffectAllow
    with assms have "ps_governance ?s = ps_governance s"
      by (auto simp: governance_stage_def governance_effect_def Let_def split: if_splits)
    with EffectAllow show ?thesis by simp
  next
    case EffectDeny
    with assms show ?thesis
      by (auto simp: governance_stage_def governance_effect_def governance_denied_def Let_def split: if_splits)
  next
    case EffectRequireApproval
    let ?e = "enforceApprovalRequirement gw now c FromGovernance
      (if td_policy_name (evaluateToolPolicy (gw_governance gw) (subject_of c)) = [] then ''governance''
       else td_policy_name (evaluateToolPolicy (gw_governance gw) (subject_of c)))
      (td_reason (evaluateToolPolicy (gw_governance gw) (subject_of c))) False"
    from EffectRequireApproval have g: "governance_stage gw now c s = then_stage ?e (quota_stage gw now c) s"
      by (auto simp: governance_stage_def governance_effect_def Let_def split: if_splits)
    with assms have "fst (?e s) = None"
      by (cases "?e s"; cases "fst (?e s)") (auto simp: then_stage_def)
    then have "approval_given gw now (ps_governance s) c" by (simp add: approval_None)
    with EffectRequireApproval show ?thesis by simp
  qed
  then show "governance_effect gw (ps_governance s) c \<noteq> EffectDeny"
    "governance_effect gw (ps_governance s) c = EffectRequireApproval \<Longrightarrow> approval_given gw now (ps_governance s) c"
    "approval_given gw now (ps_governance ?s) c \<Longrightarrow> approval_given gw now (ps_governance s) c"
    by blast+
qed

lemma governance_limits [simp]: "ps_limits (snd (governance_stage gw now c s)) = ps_limits s"
  by (auto simp: governance_stage_def governance_denied_def call_audit_def then_stage_def Let_def
      split: tool_effect.split prod.split option.split) (metis approval_limits quota_limits snd_conv)+

lemma guardrail_pass:
  assumes "fst (guardrail_stage gw now c s) = None"
  shows "guardrail_effect gw c \<noteq> Act Block"
    and "guardrail_effect gw c = Act RequireApproval \<Longrightarrow> approval_given gw now (ps_governance s) c"
  using assms
  by (auto simp: guardrail_stage_def guardrail_effect_def guardrail_blocked_def Let_def approval_None
      split: option.splits if_splits)

lemma guardrail_limits [simp]: "ps_limits (snd (guardrail_stage gw now c s)) = ps_limits s"
  by (auto simp: guardrail_stage_def guardrail_blocked_def Let_def
      split: option.split decision_action.split guardrail_action.split)

lemma checks_cases:
  obtains (passed) "call_permitted gw now (ps_governance s) c"
  | (refused) r where "fst (checks gw now c s) = Some r" "ps_limits (snd (checks gw now c s)) = ps_limits s"
proof -
  let ?a = "acl_stage gw c" and ?g = "governance_stage gw now c" and ?d = "guardrail_stage gw now c"
    and ?l = "client_limit_stage gw now c"
  show thesis
  proof (cases rule: then_stage_cases [of ?a s "then_stage ?g (then_stage ?d ?l)"])
    case (1 r)
    with refused show thesis by (simp add: checks_def)
  next
    case a: 2
    define s1 where "s1 = snd (?a s)"
    have s1: "ps_governance s1 = ps_governance s" "ps_limits s1 = ps_limits s" by (simp_all add: s1_def)
    show thesis
    proof (cases rule: then_stage_cases [of ?g s1 "then_stage ?d ?l"])
      case (1 r)
      with a s1 refused show thesis by (simp add: checks_def s1_def)
    next
      case g: 2
      define s2 where "s2 = snd (?g s1)"
      show thesis
      proof (cases rule: then_stage_cases [of ?d s2 ?l])
        case (1 r)
        with a g s1 refused show thesis by (simp add: checks_def s1_def s2_def)
      next
        case d: 2
        have "call_permitted gw now (ps_governance s) c"
          using a(1) governance_pass [OF g(1)] guardrail_pass [OF d(1)]
          unfolding call_permitted_def acl_stage_None s1 s2_def by blast
        with passed show thesis .
      qed
    qed
  qed
qed

lemma checks_None: "fst (checks gw now c s) = None \<Longrightarrow> call_permitted gw now (ps_governance s) c"
  by (rule checks_cases [of gw now s c]) simp_all

subsection \<open>The call a request waits with\<close>

definition waiting_call :: "waiting \<Rightarrow> tool_call option" where
  "waiting_call w = (case w of Forwarded u (ForSkip c) \<Rightarrow> Some c | InFlight u c \<Rightarrow> Some (tool_call.truncate c) | _ \<Rightarrow> None)"

definition waiting_upstream :: "waiting \<Rightarrow> upstream_call option" where
  "waiting_upstream w = (case w of Forwarded u _ \<Rightarrow> Some u | InFlight u _ \<Rightarrow> u)"

lemma waiting_simps [simp]:
  "waiting_call (Forwarded u (ForSkip c)) = Some c" "waiting_call (InFlight v k) = Some (tool_call.truncate k)"
  "waiting_upstream (Forwarded u p) = Some u" "waiting_upstream (InFlight v k) = v"
  by (simp_all add: waiting_call_def waiting_upstream_def)

lemma truncate_extend [simp]: "tool_call.truncate (tool_call.extend c m) = c"
  by (cases c) (simp add: tool_call.defs)

lemma kc_extend [simp]:
  "kc_config (tool_call.extend c (cached_call.fields sc p k)) = sc"
  "kc_policy (tool_call.extend c (cached_call.fields sc p k)) = p"
  "kc_key (tool_call.extend c (cached_call.fields sc p k)) = k"
  by (simp_all add: tool_call.defs cached_call.defs)

lemma tc_extend [simp]:
  "tc_request (tool_call.extend c m) = tc_request c" "tc_principal (tool_call.extend c m) = tc_principal c"
  "tc_ctx (tool_call.extend c m) = tc_ctx c" "tc_toolName (tool_call.extend c m) = tc_toolName c"
  "tc_args (tool_call.extend c m) = tc_args c" "tc_server (tool_call.extend c m) = tc_server c"
  "tc_tool (tool_call.extend c m) = tc_tool c" "tc_log (tool_call.extend c m) = tc_log c"
  by (cases c; simp add: tool_call.defs)+

lemma core_fields: "core s = core s' \<longleftrightarrow> ps_registry s = ps_registry s' \<and> ps_l1 s = ps_l1 s' \<and> ps_l2 s = ps_l2 s' \<and>
    ps_inflight s = ps_inflight s'"
  by (simp add: core_def)

lemma start_upstream_Inr:
  assumes "start_upstream gw now rx p sc i msg s = (Inr u, s')"
  shows "uc_server u = sc" "uc_replica u = i" "uo_body (uc_options u) = msg"
    "buildExtraHeaders gw (ps_identity s) rx sc p = Inr (opt_list (uo_extraHeaders (uc_options u)))"
  using assms by (auto simp: start_upstream_def opt_list_def split: sum.splits prod.splits bool.splits)

text \<open>The ways a stage-by-stage part of the handler comes to wait.\<close>

lemma before_quiet_waits:
  assumes "quiet f" "before f g s = (Waiting w, s')"
  shows "g (snd (f s)) = (Waiting w, s')"
  using assms(2) by (cases rule: before_cases [of f s g]) (auto dest!: quietD(2) [OF assms(1)])

lemma skip_call_waits:
  assumes "skip_call gw now c sc i s = (Waiting w, s')"
  shows "\<exists>u. w = Forwarded u (ForSkip c) \<and> uc_server u = sc \<and> uc_replica u = i \<and>
    uo_body (uc_options u) = buildForwardMessage (pc_message (tc_ctx c)) (tc_tool c)"
  using before_quiet_waits [OF quiet_server_limit assms [unfolded skip_call_def]]
  by (auto simp: skip_failed_def Let_def thrown_def call_error_def request_error_def
      split: prod.splits sum.splits flight_error.splits dest: start_upstream_Inr)

lemma answer_cached_ends: "ends (fst (answer_cached gw later c res co s))"
  by (simp add: answer_cached_def flight_failed_def tool_error_answer_def fresh_answer_def Let_def
      split: sum.split flight_error.split prod.split option.split)

lemma launch_flight_waits:
  assumes "launch_flight gw now c i s = (Waiting w, s')"
  shows "\<exists>v. w = InFlight v c \<and> (\<forall>u. v = Some u \<longrightarrow> uc_server u = kc_config c \<and> uc_replica u = i \<and>
    uo_body (uc_options u) = buildForwardMessage (pc_message (tc_ctx c)) (tc_tool c))"
proof -
  have "fst (answer_cached gw now c res co s0) \<noteq> Waiting w" for res co s0
    using answer_cached_ends [of gw now c res co s0] by (auto simp: ends_def)
  with assms show ?thesis
    by (auto simp: launch_flight_def Let_def split: if_splits prod.splits sum.splits dest: start_upstream_Inr)
      (metis fst_conv)
qed

lemma cache_stage_ends: "fst (cache_stage gw now c s) = Some r \<Longrightarrow> ends r"
  by (auto simp: cache_stage_def cache_hit_def split: prod.splits option.splits)

lemma cacheable_call_waits:
  assumes "cacheable_call gw now c sc policy i s = (Waiting w, s')"
  shows "\<exists>v x. w = InFlight v (tool_call.extend (c\<lparr>tc_ctx := x\<rparr>) (cached_call.fields sc policy (call_key gw c policy))) \<and>
    (\<forall>u. v = Some u \<longrightarrow> uc_server u = sc \<and> uc_replica u = i \<and>
       uo_body (uc_options u) = buildForwardMessage (pc_message x) (tc_tool c))"
proof -
  obtain h x s1 where h: "run_hook gw BeforeCache ((tc_ctx c)\<lparr>pc_toolName := Some (tc_tool c)\<rparr>) s = (h, x, s1)"
    by (metis prod_cases3)
  let ?k = "tool_call.extend (c\<lparr>tc_ctx := x\<rparr>) (cached_call.fields sc policy (call_key gw c policy))"
  let ?l = "before (server_limit_stage gw now True (tool_call.truncate ?k)) (launch_flight gw now ?k i)"
  from assms h have b: "before (cache_stage gw now ?k) ?l s1 = (Waiting w, s')"
    by (cases h) (simp_all add: cacheable_call_def Let_def)
  have "?l (snd (cache_stage gw now ?k s1)) = (Waiting w, s')"
    using b by (cases rule: before_cases [of "cache_stage gw now ?k" s1 ?l]) (auto dest: cache_stage_ends)
  then have "launch_flight gw now ?k i (snd (server_limit_stage gw now True (tool_call.truncate ?k)
      (snd (cache_stage gw now ?k s1)))) = (Waiting w, s')"
    by (rule before_quiet_waits [OF quiet_server_limit])
  from launch_flight_waits [OF this] obtain v where v: "w = InFlight v ?k"
    "\<forall>u. v = Some u \<longrightarrow> uc_server u = kc_config ?k \<and> uc_replica u = i \<and>
       uo_body (uc_options u) = buildForwardMessage (pc_message (tc_ctx ?k)) (tc_tool ?k)" by blast
  then show ?thesis by (intro exI [of _ v] exI [of _ x]) simp
qed

text \<open>The invalidation a destructive call triggers leaves the registry and the calls in flight alone.\<close>

lemma call_backend_waits:
  assumes "call_backend gw now c s = (Waiting w, s')"
  shows "\<exists>c' l x. waiting_call w = Some c' \<and> c' = c\<lparr>tc_log := l, tc_ctx := x\<rparr> \<and>
    (\<forall>u. waiting_upstream w = Some u \<longrightarrow> sc_id (uc_server u) = tc_server c \<and> Some (uc_replica u) = target_replica c \<and>
       uo_body (uc_options u) = buildForwardMessage (pc_message x) (tc_tool c))"
proof -
  let ?c = "c\<lparr>tc_log := (tc_log c)\<lparr>lc_serverId := tc_server c\<rparr>\<rparr>"
  from assms obtain i where i: "target_replica c = Some i"
    by (auto simp: call_backend_def Let_def call_error_def request_error_def split: option.splits)
  from assms i obtain sc where sc: "find_server (gw_servers gw) (tc_server c) = Some sc"
    by (auto simp: call_backend_def Let_def call_error_def request_error_def split: option.splits)
  define policy where "policy = decideCachePolicy (tc_tool c) (getAnnotations (tc_server c) (tc_tool c) (ps_registry s)) (gs_cache sc)"
  define s1 where "s1 = invalidate gw now (tc_server c) policy s"
  have id: "sc_id sc = tc_server c" using find_server_Some [OF sc] by simp
  show ?thesis
  proof (cases "\<not> cpd_shouldCache policy \<or> \<not> gw_cache_enabled gw")
    case True
    with assms i sc have "skip_call gw now ?c sc i s1 = (Waiting w, s')"
      by (simp add: call_backend_def Let_def policy_def s1_def)
    from skip_call_waits [OF this] obtain u where u: "w = Forwarded u (ForSkip ?c)" "uc_server u = sc" "uc_replica u = i"
      "uo_body (uc_options u) = buildForwardMessage (pc_message (tc_ctx ?c)) (tc_tool ?c)" by blast
    show ?thesis
      by (rule exI [of _ ?c], rule exI [of _ "tc_log ?c"], rule exI [of _ "tc_ctx c"]) (use u id i in simp)
  next
    case False
    with assms i sc have "cacheable_call gw now ?c sc policy i s1 = (Waiting w, s')"
      by (simp add: call_backend_def Let_def policy_def s1_def)
    from cacheable_call_waits [OF this] obtain v x where
      "w = InFlight v (tool_call.extend (?c\<lparr>tc_ctx := x\<rparr>) (cached_call.fields sc policy (call_key gw ?c policy)))"
      "\<forall>u. v = Some u \<longrightarrow> uc_server u = sc \<and> uc_replica u = i \<and>
         uo_body (uc_options u) = buildForwardMessage (pc_message x) (tc_tool ?c)" by blast
    then show ?thesis
      by (intro exI [of _ "?c\<lparr>tc_ctx := x\<rparr>"] exI [of _ "tc_log ?c"] exI [of _ x]) (simp add: id i)
  qed
qed

subsection \<open>A request from its arrival\<close>

lemma resolve_call_simps [simp]:
  "tc_request (fst (resolve_call gw rq p ctx lc pr s)) = rq" "tc_principal (fst (resolve_call gw rq p ctx lc pr s)) = p"
  "tc_ctx (fst (resolve_call gw rq p ctx lc pr s)) = ctx"
  "ps_governance (snd (resolve_call gw rq p ctx lc pr s)) = ps_governance s"
  "ps_limits (snd (resolve_call gw rq p ctx lc pr s)) = ps_limits s"
  by (simp_all add: resolve_call_def Let_def case_prod_unfold)

lemma profile_stage_state [simp]: "snd (profile_stage profile c s) = s"
  by (simp add: profile_stage_def split: option.split)

lemma profile_stage_ends: "fst (profile_stage profile c s) = Some r \<Longrightarrow> ends r"
  using quietD(2) [OF quiet_profile] by blast

text \<open>A tool call either ends with an answer of the checks, or goes on as a call that is permitted.\<close>

lemma tool_call_cases:
  obtains (refused) "ends (fst (handleToolCall gw now rq p ctx lc s))" "core (snd (handleToolCall gw now rq p ctx lc s)) = core s"
  | (passed) profile c s1 where "request_profile gw (rq_serverId rq) = Inr profile"
      "c = fst (resolve_call gw rq p ctx lc (profile \<noteq> None) s)" "call_permitted gw now (ps_governance s) c"
      "core s1 = core s" "handleToolCall gw now rq p ctx lc s = call_backend gw now c s1"
      "case profile of None \<Rightarrow> True | Some (_, servers) \<Rightarrow> tc_server c \<in> set servers"
proof (cases "request_profile gw (rq_serverId rq)")
  case (Inl e)
  with refused show thesis by (simp add: handleToolCall_def)
next
  case profile: (Inr profile)
  obtain c s0 where c: "resolve_call gw rq p ctx lc (profile \<noteq> None) s = (c, s0)" by fastforce
  have s0: "ps_governance s0 = ps_governance s" "core s0 = core s"
    using resolve_call_simps(4) [of gw rq p ctx lc "profile \<noteq> None" s]
      core_resolve [of gw rq p ctx lc "profile \<noteq> None" s] unfolding c by (simp_all only: snd_conv)
  let ?b = "before (checks gw now c) (call_backend gw now c)"
  from profile c have h: "handleToolCall gw now rq p ctx lc s = before (profile_stage profile c) ?b s0"
    by (simp add: handleToolCall_def)
  show thesis
  proof (cases rule: before_cases [of "profile_stage profile c" s0 ?b])
    case (1 r)
    with h s0 profile_stage_ends refused show thesis by force
  next
    case p: 2
    have pr: "case profile of None \<Rightarrow> True | Some (_, servers) \<Rightarrow> tc_server c \<in> set servers"
      using p(1) by (auto simp: profile_stage_def split: option.splits if_splits)
    show thesis
    proof (cases rule: before_cases [of "checks gw now c" s0 "call_backend gw now c"])
      case (1 r)
      with h p s0 quietD [OF quiet_checks] refused show thesis by (metis fst_conv profile_stage_state snd_conv)
    next
      case 2
      show thesis
      proof (rule passed)
        show "call_permitted gw now (ps_governance s) c" using checks_None [OF 2(1)] s0 by simp
        show "core (snd (checks gw now c s0)) = core s" using quietD(1) [OF quiet_checks] s0 by metis
      qed (use profile c h p 2 pr in auto)
    qed
  qed
qed

lemma hook_keeps [simp]:
  "ps_governance (snd (snd (run_hook gw name ctx s))) = ps_governance s"
  "ps_jwks (snd (snd (run_hook gw name ctx s))) = ps_jwks s"
  "ps_limits (snd (snd (run_hook gw name ctx s))) = ps_limits s"
  by (simp_all add: run_hook_def split: option.split prod.split)

lemma authenticate_keeps [simp]:
  "ps_governance (snd (authenticate_request gw rq s)) = ps_governance s"
  "ps_limits (snd (authenticate_request gw rq s)) = ps_limits s"
  by (simp_all add: authenticate_request_def split: option.split prod.split)

lemma authenticate_jwks: "ps_jwks s = ps_jwks s' \<Longrightarrow> fst (authenticate_request gw rq s) = fst (authenticate_request gw rq s')"
  by (simp add: authenticate_request_def split: option.split prod.split)

text \<open>What is left of a request once it is authenticated.\<close>

lemma begin_cases:
  obtains (ended) "ends (fst (begin_request gw now rq s))" "core (snd (begin_request gw now rq s)) = core s"
    "ps_limits (snd (begin_request gw now rq s)) = ps_limits s"
  | (dispatched) cl tn claims ctx s1 where "fst (authenticate_request gw rq s) = Authenticated cl tn claims"
    "begin_request gw now rq s = dispatch gw now rq (principal_of rq cl tn claims) ctx s1"
    "core s1 = core s" "ps_governance s1 = ps_governance s" "ps_limits s1 = ps_limits s"
proof -
  obtain h x s1 where h: "run_hook gw BeforeRequest (buildPluginContext rq ''anonymous'') s = (h, x, s1)" by (metis prod_cases3)
  have k1: "core s1 = core s" "ps_governance s1 = ps_governance s" "ps_limits s1 = ps_limits s" "ps_jwks s1 = ps_jwks s"
    using core_hook hook_keeps by (metis h snd_conv)+
  obtain r s2 where r: "authenticate_request gw rq s1 = (r, s2)" by fastforce
  have k2: "core s2 = core s" "ps_governance s2 = ps_governance s" "ps_limits s2 = ps_limits s"
    using core_authenticate [of gw rq s1] authenticate_keeps [of gw rq s1] k1 r by simp_all
  have a: "fst (authenticate_request gw rq s) = r" using authenticate_jwks [OF k1(4), of gw rq] r by simp
  show thesis
  proof (cases h)
    case (Some v)
    with h k1 ended show thesis by (simp add: begin_request_def)
  next
    case None
    show thesis
    proof (cases r)
      case (Rejected e)
      with h None r k2 ended show thesis by (simp add: begin_request_def)
    next
      case (Authenticated cl tn claims)
      obtain h' x' s3 where h': "run_hook gw AfterAuth (x\<lparr>pc_clientId := cl\<rparr>) s2 = (h', x', s3)" by (metis prod_cases3)
      have k3: "core s3 = core s" "ps_governance s3 = ps_governance s" "ps_limits s3 = ps_limits s"
        using core_hook hook_keeps k2 by (metis h' snd_conv)+
      show thesis
      proof (cases h')
        case (Some v)
        with h None r Authenticated h' k3 ended show thesis by (simp add: begin_request_def)
      next
        case n: None
        show thesis
          by (rule dispatched [OF _ _ k3])
            (use a h None r Authenticated h' n in \<open>auto simp: begin_request_def\<close>)
      qed
    qed
  qed
qed


definition waiting_of :: "progress \<Rightarrow> waiting option" where
  "waiting_of r = (case r of Waiting w \<Rightarrow> Some w | _ \<Rightarrow> None)"

definition demo_begin :: "progress \<times> demo_state" where
  "demo_begin = begin_request demo_gateway 1000 (demo_request ''k1'' ''get'' 1) demo_state"

lemma demo_begin_waits: "waiting_of (fst demo_begin) \<noteq> None"
  by code_simp


subsection \<open>Calls that are refused\<close>

text \<open>Without plugins the call a request makes is determined by the request and the state.\<close>

definition requested_call ::
  "('c, 'r, 'b, 'q, 'j, 'p) gateway \<Rightarrow> request \<Rightarrow> ('c, 'r, 'b, 'q, 'j, 'p) pipeline_state \<Rightarrow> tool_call option" where
  "requested_call gw rq s =
     (case fst (authenticate_request gw rq s) of
        Rejected e \<Rightarrow> None
      | Authenticated cl tn claims \<Rightarrow>
          (case request_profile gw (rq_serverId rq) of
             Inl e \<Rightarrow> None
           | Inr profile \<Rightarrow>
               Some (fst (resolve_call gw rq (principal_of rq cl tn claims)
                 ((buildPluginContext rq ''anonymous'')\<lparr>pc_clientId := cl\<rparr>) (log_context_of rq cl) (profile \<noteq> None) s))))"

lemma tool_call_refused:
  assumes "\<And>profile. request_profile gw (rq_serverId rq) = Inr profile \<Longrightarrow>
    \<not> call_permitted gw now (ps_governance s) (fst (resolve_call gw rq p ctx lc (profile \<noteq> None) s))"
  shows "ends (fst (handleToolCall gw now rq p ctx lc s)) \<and> core (snd (handleToolCall gw now rq p ctx lc s)) = core s \<and>
    ps_limits (snd (handleToolCall gw now rq p ctx lc s)) = ps_limits s"
proof (cases "request_profile gw (rq_serverId rq)")
  case (Inl e)
  then show ?thesis by (simp add: handleToolCall_def thrown_def)
next
  case profile: (Inr profile)
  obtain c s0 where c: "resolve_call gw rq p ctx lc (profile \<noteq> None) s = (c, s0)" by fastforce
  have s0: "ps_governance s0 = ps_governance s" "core s0 = core s" "ps_limits s0 = ps_limits s"
    using resolve_call_simps(4,5) [of gw rq p ctx lc "profile \<noteq> None" s]
      core_resolve [of gw rq p ctx lc "profile \<noteq> None" s] unfolding c by (simp_all only: snd_conv)
  have np: "\<not> call_permitted gw now (ps_governance s0) c" 
    using assms [OF profile] unfolding c s0(1) fst_conv .
  let ?b = "before (checks gw now c) (call_backend gw now c)"
  from profile c have h: "handleToolCall gw now rq p ctx lc s = before (profile_stage profile c) ?b s0"
    by (simp add: handleToolCall_def)
  show ?thesis
  proof (cases rule: before_cases [of "profile_stage profile c" s0 ?b])
    case (1 r)
    with h s0 profile_stage_ends show ?thesis by force
  next
    case p: 2
    obtain r where r: "fst (checks gw now c s0) = Some r" "ps_limits (snd (checks gw now c s0)) = ps_limits s0"
      using np by (cases rule: checks_cases [of gw now s0 c]) auto
    then have "?b s0 = (r, snd (checks gw now c s0))"
      by (cases "checks gw now c s0") (simp add: before_def)
    with h p r s0 quietD [OF quiet_checks] show ?thesis by (metis fst_conv profile_stage_state snd_conv)
  qed
qed


definition demo_refused :: "progress \<times> demo_state" where
  "demo_refused = begin_request demo_gateway 1000 (demo_request ''k1'' ''delete_all'' 1) demo_state"


end
