(* ===== verification/Pipeline_Cache.thy ===== *)
theory Pipeline_Cache
  imports Pipeline_Safety Json_Canonical
begin

section \<open>What the pipeline caches, and for whom\<close>

text \<open>
  The answers the pipeline keeps and replays: which results are stored, under which key and for
  which tenant, and what a replayed answer spares.  Then the headers that go upstream.
\<close>

subsection \<open>The key of a call\<close>

lemma stringify_obj: "stringify (JObj ps) \<noteq> None" by simp

lemma deepSort_obj: "\<exists>qs. deepSort (JObj ps) = JObj qs" by simp

text \<open>The digest of a call exists: its components are an object.\<close>

lemma cache_key_exists: "\<exists>t. deterministicStringify (cache_components opts) = Some t \<and>
    generateCacheKey sha opts = Some (sha t)"
proof -
  obtain qs where "deepSort (cache_components opts) = JObj qs"
    using deepSort_obj unfolding cache_components_def by blast
  then have "deterministicStringify (cache_components opts) \<noteq> None"
    unfolding deterministicStringify_def by (simp only: stringify_obj not_False_eq_True)
  then show ?thesis by (auto simp: generateCacheKey_def)
qed

lemma call_key_eq: "call_key gw c policy = call_key gw c' policy' \<longleftrightarrow>
    generateCacheKey (en_sha256 gw) (key_options gw c policy) = generateCacheKey (en_sha256 gw) (key_options gw c' policy')"
  using cache_key_exists [of "key_options gw c policy" "en_sha256 gw"] cache_key_exists [of "key_options gw c' policy'" "en_sha256 gw"]
  by (auto simp: call_key_def default_to_def)

lemma key_options_simps [simp]:
  "cko_serverId (key_options gw c policy) = tc_server c" "cko_toolName (key_options gw c policy) = tc_tool c"
  "cko_args (key_options gw c policy) = tc_args c" "cko_tenantId (key_options gw c policy) = cache_tenant gw c"
  by (simp_all add: key_options_def)

text \<open>The text whose digest is the key.\<close>

definition key_text :: "('c, 'r, 'b, 'q, 'j, 'p) gateway \<Rightarrow> tool_call \<Rightarrow> cache_policy_decision \<Rightarrow> string" where
  "key_text gw c policy = default_to [] (deterministicStringify (cache_components (key_options gw c policy)))"


text \<open>
  The key says nothing of the client within a tenant: an answer that was fetched with the account
  one client has connected is replayed to every other client of the tenant.
\<close>

lemma cache_key_ignores_client:
  assumes "pr_tenant_id p = pr_tenant_id (tc_principal c)"
  shows "call_key gw (c\<lparr>tc_principal := p\<rparr>) policy = call_key gw c policy"
  using assms by (simp add: call_key_def key_options_def cache_tenant_def)

definition demo_call :: "string \<Rightarrow> string \<Rightarrow> tool_call" where
  "demo_call client tenant =
     fst (resolve_call demo_gateway (demo_request ''k1'' ''get'' 1)
       \<lparr>pr_client_id = client, pr_tenant_id = tenant, pr_auth_header = None, pr_claims = None\<rparr>
       (buildPluginContext (demo_request ''k1'' ''get'' 1) client) (log_context_of (demo_request ''k1'' ''get'' 1) client)
       False demo_state)"

lemma demo_call_simps:
  "pr_tenant_id (tc_principal (demo_call cl tn)) = tn"
  "tc_args (demo_call cl tn) = [(''q'', JStr ''x'')]"
  by (simp_all add: demo_call_def resolve_call_def Let_def case_prod_unfold buildPluginContext_def demo_request_def
      extractToolArgs_def param_def obj_get_def truthy_def)


subsection \<open>Which results are cached\<close>

abbreviation cached ::
  "('c, 'r, 'b, 'q, 'j, 'p) gateway \<Rightarrow> ('c, 'r, 'b, 'q, 'j, 'p) pipeline_state \<Rightarrow> string \<Rightarrow> cache_entry option" where
  "cached gw s \<equiv> content (en_lru gw) (ps_l1 s)"

lemma recordSkip_content [simp]: "content ops (recordSkip st) = content ops st"
  by (simp add: recordSkip_def)

lemma record_skip_simps [simp]:
  "cached gw (record_skip s) = cached gw s" "ps_l2 (record_skip s) = ps_l2 s" "ps_inflight (record_skip s) = ps_inflight s"
  "ps_registry (record_skip s) = ps_registry s" "ps_limits (record_skip s) = ps_limits s"
  by (simp_all add: record_skip_def)

lemma emit_when_simps [simp]:
  "ps_l1 (emit_when b e s) = ps_l1 s" "ps_l2 (emit_when b e s) = ps_l2 s" "ps_registry (emit_when b e s) = ps_registry s"
  "ps_inflight (emit_when b e s) = ps_inflight s" "ps_limits (emit_when b e s) = ps_limits s"
  by (simp_all add: emit_when_def)

lemma hook_core [simp]:
  "ps_l1 (snd (snd (run_hook gw name ctx s))) = ps_l1 s" "ps_l2 (snd (snd (run_hook gw name ctx s))) = ps_l2 s"
  "ps_registry (snd (snd (run_hook gw name ctx s))) = ps_registry s"
  "ps_inflight (snd (snd (run_hook gw name ctx s))) = ps_inflight s"
  using core_hook [of gw name ctx s, unfolded core_fields] by simp_all

text \<open>The entry a call stores.\<close>

definition entry_of :: "timestamp \<Rightarrow> cached_call \<Rightarrow> json \<Rightarrow> cache_entry" where
  "entry_of later c v = \<lparr>ce_result = v, ce_createdAt = later,
     ce_ttl = default_to (scc_default_ttl (gs_cache (kc_config c))) (cpd_ttl (kc_policy c)),
     ce_toolName = tc_tool c, ce_serverId = tc_server c\<rparr>"

lemma store_result_simps [simp]:
  "ps_l1 (store_result gw later c v s) = store_set (en_lru gw) (kc_key c) (entry_of later c v) (ps_l1 s)"
  "ps_registry (store_result gw later c v s) = ps_registry s" "ps_inflight (store_result gw later c v s) = ps_inflight s"
  by (simp_all add: store_result_def entry_of_def Let_def)

lemma content_store_set:
  assumes "lru_ok ops"
  shows "content ops (store_set ops k e st) k = (if entry_bytes e > cs_maxEntryBytes st then content ops st k else Some e)"
    and "k' \<noteq> k \<Longrightarrow> content ops (store_set ops k e st) k' \<in> {content ops st k', None}"
  using lru_set_okD(1,2) [OF assms, where k = k and e = e and c = "cs_cache st"]
  by (auto simp: store_set_def case_prod_unfold Let_def)

lemma fresh_answer_l1: "ps_l1 (snd (fresh_answer gw later c ctx v s)) =
    store_set (en_lru gw) (kc_key c) (entry_of later c v) (ps_l1 s)"
proof -
  let ?s = "emit (log_success (tc_log c) ''success'' ''MISS'') (store_result gw later c v s)"
  obtain h x s2 where h: "run_hook gw BeforeResponse ctx ?s = (h, x, s2)" by (metis prod_cases3)
  then have "ps_l1 s2 = ps_l1 ?s" using hook_core(1) [of gw BeforeResponse ctx ?s] by simp
  with h show ?thesis by (cases h) (simp_all add: fresh_answer_def)
qed

definition answer_value :: "progress \<Rightarrow> core_result option" where
  "answer_value r = (case r of Ended a \<Rightarrow> Some a | _ \<Rightarrow> None)"


text \<open>The call of the demo that waits for its backend.\<close>

definition demo_cached_call :: cached_call where
  "demo_cached_call = tool_call.extend (demo_call ''alice'' ''t1'')
     (cached_call.fields crm_server (cache_for 60) (call_key demo_gateway (demo_call ''alice'' ''t1'') (cache_for 60)))"

lemma demo_gateway_lru: "lru_ok (en_lru demo_gateway)" "en_plugins demo_gateway = None" "en_lru demo_gateway = two_lru"
  by (simp_all add: demo_gateway_def two_lru_ok)

lemma demo_state_l1 [simp]: "ps_l1 demo_state = new_cache_store [] 64" "ps_l2 demo_state = None"
  by (simp_all add: demo_state_def)

definition demo_tool_error :: json where
  "demo_tool_error = JObj [(''isError'', JBool True)]"


subsection \<open>Answers from the cache\<close>

lemma store_get_hit:
  assumes "lru_ok ops" "content ops st key = Some e" "now - ce_createdAt e \<le> ce_ttl e * 1000"
  shows "fst (store_get ops now key st) = Some e" "content ops (snd (store_get ops now key st)) = content ops st"
  using assms lru_okD(1,2) [OF assms(1), of key "cs_cache st"]
  by (simp_all add: store_get_def case_prod_unfold Let_def)

lemma cache_stage_hit:
  assumes "lru_ok (en_lru gw)" "cached gw s (kc_key c) = Some e" "now - ce_createdAt e \<le> ce_ttl e * 1000"
  shows "fst (cache_stage gw now c s) = Some (Ended (with_status (body_result (rpc_result (tc_ctx c) (ce_result e))) ''HIT''))"
    and "ps_limits (snd (cache_stage gw now c s)) = ps_limits s" "ps_registry (snd (cache_stage gw now c s)) = ps_registry s"
    and "ps_inflight (snd (cache_stage gw now c s)) = ps_inflight s" "cached gw (snd (cache_stage gw now c s)) = cached gw s"
  using store_get_hit [OF assms]
  by (auto simp: cache_stage_def cache_hit_def split: prod.splits option.splits)

lemma rpc_result_toolName [simp]: "rpc_result (ctx\<lparr>pc_toolName := t\<rparr>) v = rpc_result ctx v"
  by (simp add: rpc_result_def message_id_def)

lemma cacheable_call_hit:
  assumes "lru_ok (en_lru gw)" "en_plugins gw = None"
    and "cached gw s (call_key gw c policy) = Some e" "now - ce_createdAt e \<le> ce_ttl e * 1000"
  shows "fst (cacheable_call gw now c sc policy i s) =
      Ended (with_status (body_result (rpc_result (tc_ctx c) (ce_result e))) ''HIT'')"
    and "ps_limits (snd (cacheable_call gw now c sc policy i s)) = ps_limits s"
    and "ps_registry (snd (cacheable_call gw now c sc policy i s)) = ps_registry s"
    and "ps_inflight (snd (cacheable_call gw now c sc policy i s)) = ps_inflight s"
proof -
  let ?k = "tool_call.extend (c\<lparr>tc_ctx := (tc_ctx c)\<lparr>pc_toolName := Some (tc_tool c)\<rparr>\<rparr>)
    (cached_call.fields sc policy (call_key gw c policy))"
  have b: "cacheable_call gw now c sc policy i s =
      before (cache_stage gw now ?k) (before (server_limit_stage gw now True (tool_call.truncate ?k)) (launch_flight gw now ?k i)) s"
    using assms(2) by (simp add: cacheable_call_def run_hook_def Let_def)
  have h: "cached gw s (kc_key ?k) = Some e" using assms(3) by simp
  note st = cache_stage_hit [OF assms(1) h assms(4)]
  then show "fst (cacheable_call gw now c sc policy i s) =
      Ended (with_status (body_result (rpc_result (tc_ctx c) (ce_result e))) ''HIT'')"
    "ps_limits (snd (cacheable_call gw now c sc policy i s)) = ps_limits s"
    "ps_registry (snd (cacheable_call gw now c sc policy i s)) = ps_registry s"
    "ps_inflight (snd (cacheable_call gw now c sc policy i s)) = ps_inflight s"
    unfolding b before_def by (simp_all split: prod.split option.split add: prod_eq_iff)
qed



subsection \<open>The headers that go upstream\<close>

lemma no_upstream_auth:
  assumes "gs_upstream_auth sc = None"
  shows "\<exists>up. resolveUpstreamHeaders b64 rt sc p = Inr up \<and> up_headers up = []"
  using assms by (simp add: resolveUpstreamHeaders_def resolveConnectedAccount_def account_requirement_def
      identity_headers_def forward_identity_of_def forward_mode_of_def default_to_def Let_def)

text \<open>C8. To a backend without an upstream identity and without \<open>forward_authorization\<close> the gateway sends
  nothing of what the client authenticated with: the only headers it adds are the trace id and the
  group.\<close>

theorem authorization_stays_at_the_gateway:
  assumes "gs_upstream_auth sc = None" "gs_forward_authorization sc \<noteq> Some True"
  shows "\<exists>headers. buildExtraHeaders gw store rx sc p = Inr headers \<and>
    set (map fst headers) \<subseteq> {''X-Conduit-Trace-Id'', ''X-Conduit-Group''} \<and> map_of headers ''Authorization'' = None"
proof -
  obtain up where up: "resolveUpstreamHeaders (en_b64url gw) \<lparr>ir_config = gw_identity gw, ir_store = store\<rparr> sc p = Inr up"
    "up_headers up = []" using no_upstream_auth [OF assms(1)] by blast
  let ?h0 = "[(''X-Conduit-Trace-Id'', rx_traceId rx)]"
  let ?h = "case non_empty (rx_groupHeader rx) of Some g \<Rightarrow> obj_insert ''X-Conduit-Group'' g ?h0 | None \<Rightarrow> ?h0"
  have b: "buildExtraHeaders gw store rx sc p = Inr ?h"
    using up assms by (simp add: buildExtraHeaders_def Let_def assign_all_def split: option.split)
  have k: "set (map fst ?h) \<subseteq> {''X-Conduit-Trace-Id'', ''X-Conduit-Group''}"
    by (cases "non_empty (rx_groupHeader rx)") (auto dest!: subsetD [OF set_obj_insert])
  then have "''Authorization'' \<notin> set (map fst ?h)" by blast
  then have "map_of ?h ''Authorization'' = None" by (simp only: map_of_eq_None_iff set_map simp_thms)
  with b k show ?thesis by blast
qed

theorem authorization_stays_at_the_gateway_witness:
  "\<exists>headers. buildExtraHeaders demo_gateway None \<lparr>rx_traceId = ''t'', rx_authHeader = Some ''Bearer k1'', rx_groupHeader = Some ''g'',
      rx_sessionId = None, rx_rawHeaders = []\<rparr> crm_server
      \<lparr>pr_client_id = ''alice'', pr_tenant_id = ''t1'', pr_auth_header = Some ''Bearer k1'', pr_claims = None\<rparr> = Inr headers \<and>
     map_of headers ''Authorization'' = None"
proof -
  have c: "gs_upstream_auth crm_server = None" "gs_forward_authorization crm_server \<noteq> Some True" by (simp_all add: crm_server_def)
  show ?thesis using authorization_stays_at_the_gateway [OF c] by blast
qed

subsection \<open>What the pipeline does not do\<close>

text \<open>A backend that answers a cached call with a stream: the result is the empty object, and is cached as such.\<close>

lemma streamed_result_is_empty: "ur_isStream r \<Longrightarrow> outcome_of (Inr r) = Inr (JObj []) \<and> \<not> is_tool_error (JObj [])"
  by (simp add: outcome_of_def core_of_response_def body_result_def member_def nullish_def is_tool_error_def obj_get_def
      truthy_def Let_def)

text \<open>A backend that answers the list of its tools with a stream: the client is answered \<open>null\<close>.\<close>

lemma streamed_list_is_null:
  "ur_isStream r \<Longrightarrow> fst (answer_list gw rq p lc (Inr r) s) = Ended (with_status (body_result JNull) ''BYPASS'')"
  by (simp add: answer_list_def core_of_response_def body_result_def list_reply_body_def list_tools_of_def member_def)

text \<open>
  A destructive call invalidates before it runs and not when it is done: a result that a reader
  stored in between stays.
\<close>

lemma destructive_reply_keeps_cache: "cached gw (snd (skip_reply c sc reply s)) = cached gw s"
  by (simp add: skip_reply_def skip_failed_def thrown_def Let_def split: sum.split)

text \<open>A server without a healthy replica: the call goes to whatever other server has a tool of that name.\<close>

lemma down_server_call_goes_elsewhere:
  assumes "fst (getClientForServer (gw_router gw) (ps_registry s) (rq_serverId rq) (ps_counters s)) = None"
    and "extractToolName (pc_message ctx) = Some t"
    and "fst (resolveToolCall (gw_router gw) (ps_registry s) t
      (snd (getClientForServer (gw_router gw) (ps_registry s) (rq_serverId rq) (ps_counters s)))) = Some r"
  shows "tc_server (fst (resolve_call gw rq p ctx lc False s)) = rr_serverId r"
  using assms by (simp add: resolve_call_def Let_def case_prod_unfold default_to_def)

end
