(* ===== verification/Pipeline_Runs.thy ===== *)
theory Pipeline_Runs
  imports Pipeline_Cache
begin

section \<open>Many requests at once\<close>

text \<open>
  Requests interleave at the point where they wait for a backend.  A configuration is the state
  with the requests that wait; a step is the arrival of a request, the reply to one that was
  forwarded, the reply to a deduplicated call, the answer to one of the callers of such a call,
  or an operation of the administrator on the first-level cache that stores nothing.  Changes to
  the set of servers and health checks are not steps here (\<open>Router\<close> has the latter).
\<close>

type_synonym ('c, 'r, 'b, 'q, 'j, 'p) configuration = "('c, 'r, 'b, 'q, 'j, 'p) pipeline_state \<times> waiting list"

definition add_waiting :: "progress \<Rightarrow> waiting list \<Rightarrow> waiting list" where
  "add_waiting r ws = (case r of Waiting w \<Rightarrow> w # ws | _ \<Rightarrow> ws)"

definition stores :: "store_call \<Rightarrow> bool" where
  "stores call = (case call of CallSet k e \<Rightarrow> True | _ \<Rightarrow> False)"

inductive pipeline_step ::
  "('c, 'r, 'b, 'q, 'j, 'p) gateway \<Rightarrow> ('c, 'r, 'b, 'q, 'j, 'p) configuration \<Rightarrow> ('c, 'r, 'b, 'q, 'j, 'p) configuration \<Rightarrow> bool"
  for gw where
  arrive: "begin_request gw now rq s = (r, s') \<Longrightarrow> pipeline_step gw (s, ws) (s', add_waiting r ws)"
| reply: "Forwarded u why \<in> set ws \<Longrightarrow> answer_forwarded gw later u why rep s = (r, s') \<Longrightarrow>
    pipeline_step gw (s, ws) (s', remove1 (Forwarded u why) ws)"
| settled: "InFlight (Some u) c \<in> set ws \<Longrightarrow> map_of (tk_inflight (ps_inflight s)) (kc_key c) = Some e \<Longrightarrow>
    pipeline_step gw (s, ws) (settle_call gw later u (ie_promise e, kc_key c) rep s,
      InFlight None c # remove1 (InFlight (Some u) c) ws)"
| resume: "InFlight None c \<in> set ws \<Longrightarrow> (wc, res) \<in> set (tk_received (ps_inflight s)) \<Longrightarrow>
    wc_caller wc = rq_caller (tc_request c) \<Longrightarrow> wc_key wc = kc_key c \<Longrightarrow>
    answer_cached gw later c res (wc_wasCoalesced wc) s = (r, s') \<Longrightarrow>
    pipeline_step gw (s, ws) (s', remove1 (InFlight None c) ws)"
| purge: "\<not> stores call \<Longrightarrow> pipeline_step gw (s, ws) (s\<lparr>ps_l1 := store_step (en_lru gw) call (ps_l1 s)\<rparr>, ws)"

inductive_cases pipeline_stepE [elim]: "pipeline_step gw g g'"

inductive pipeline_run ::
  "('c, 'r, 'b, 'q, 'j, 'p) gateway \<Rightarrow> ('c, 'r, 'b, 'q, 'j, 'p) configuration \<Rightarrow> ('c, 'r, 'b, 'q, 'j, 'p) configuration \<Rightarrow> bool"
  for gw g0 where
  start: "pipeline_run gw g0 g0"
| further: "pipeline_run gw g0 g \<Longrightarrow> pipeline_step gw g g' \<Longrightarrow> pipeline_run gw g0 g'"

subsection \<open>The connections of a replica\<close>

definition conns :: "registry \<Rightarrow> string \<Rightarrow> nat \<Rightarrow> int option" where
  "conns reg srv i = map_option rp_activeConnections (replica_at reg srv i)"

definition calls_to :: "string \<Rightarrow> nat \<Rightarrow> waiting \<Rightarrow> int" where
  "calls_to srv i w =
     (case waiting_upstream w of
        Some u \<Rightarrow> (if sc_id (uc_server u) = srv \<and> uc_replica u = i then 1 else 0)
      | None \<Rightarrow> 0)"

definition load :: "waiting list \<Rightarrow> string \<Rightarrow> nat \<Rightarrow> int" where
  "load ws srv i = sum_list (map (calls_to srv i) ws)"

lemma update_server_lookup: "map_of (rg_servers (update_server srv f reg)) srv' =
    (if srv' = srv then map_option f (map_of (rg_servers reg) srv) else map_of (rg_servers reg) srv')"
  by (simp add: update_server_def update_conv' split: option.split)

lemma replica_at_on_replica: "replica_at (on_replica srv i f reg) srv' j =
    (if srv' = srv \<and> j = i then map_option f (replica_at reg srv i) else replica_at reg srv' j)"
  by (auto simp: replica_at_def on_replica_def update_server_lookup set_replica_def split: option.split)

lemma replica_at_annotations: "replica_at (updateAnnotations cfg srv tools reg) srv' i = replica_at reg srv' i"
  by (auto simp: replica_at_def updateAnnotations_def rebuildNamespaceMap_def Let_def update_server_lookup
      split: option.split sum.split)

lemma forward_start_conns: "rp_activeConnections (snd (forward_start cfg now r)) =
    rp_activeConnections r + (if fst (forward_start cfg now r) then 1 else 0)"
  by (simp add: forward_start_def Let_def split: option.split prod.split)

lemma forward_end_conns: "rp_activeConnections (forward_end cfg now ok r) = rp_activeConnections r - 1"
  by (simp add: forward_end_def Let_def)

text \<open>What a part of the handler does to the connections: one more where it comes to wait for a backend.\<close>

definition accounted ::
  "('c, 'r, 'b, 'q, 'j, 'p) pipeline_state \<Rightarrow> progress \<times> ('c, 'r, 'b, 'q, 'j, 'p) pipeline_state \<Rightarrow> bool" where
  "accounted s p \<longleftrightarrow> (\<forall>srv i. conns (ps_registry (snd p)) srv i =
     map_option (\<lambda>n. n + load (add_waiting (fst p) []) srv i) (conns (ps_registry s) srv i))"

lemma load_simps [simp]: "load [] srv i = 0" "load (w # ws) srv i = calls_to srv i w + load ws srv i"
  by (simp_all add: load_def)

lemma ends_waiting [simp]: "ends r \<Longrightarrow> add_waiting r ws = ws"
  by (cases r) (auto simp: add_waiting_def ends_def)

lemma map_option_same [simp]: "map_option (\<lambda>n. n) v = v"
  by (cases v) simp_all

lemma accounted_ends: "ends r \<Longrightarrow> ps_registry s' = ps_registry s \<Longrightarrow> accounted s (r, s')"
  by (simp add: accounted_def)

lemma accounted_from: "accounted s1 p \<Longrightarrow> ps_registry s1 = ps_registry s \<Longrightarrow> accounted s p"
  by (simp add: accounted_def)

lemma accounted_before:
  assumes "\<And>r. fst (f s) = Some r \<Longrightarrow> ends r" "ps_registry (snd (f s)) = ps_registry s"
    and "\<And>s1. accounted s1 (g s1)"
  shows "accounted s (before f g s)"
proof (cases rule: before_cases [of f s g])
  case (1 r)
  with assms(1,2) show ?thesis by (simp add: accounted_ends)
next
  case 2
  with assms(2,3) show ?thesis by (metis accounted_from)
qed

lemma quiet_registry: "quiet f \<Longrightarrow> ps_registry (snd (f s)) = ps_registry s"
  using quietD(1) core_fields by blast

lemma admit_conns:
  "conns (ps_registry (snd (admit gw now srv i s))) srv' j =
   map_option (\<lambda>n. n + (if fst (admit gw now srv i s) \<and> srv' = srv \<and> j = i then 1 else 0)) (conns (ps_registry s) srv' j)"
proof (cases "replica_at (ps_registry s) srv i")
  case None
  then show ?thesis by (simp add: admit_def)
next
  case (Some r)
  obtain ok r' where f: "forward_start (breaker_cfg (ro_registry (gw_router gw))) now r = (ok, r')" by fastforce
  with forward_start_conns [of "breaker_cfg (ro_registry (gw_router gw))" now r]
  have "rp_activeConnections r' = rp_activeConnections r + (if ok then 1 else 0)" by simp
  with Some f show ?thesis by (simp add: admit_def conns_def replica_at_on_replica)
qed

lemma start_upstream_conns:
  assumes "start_upstream gw now rx p sc i msg s = (res, s')"
  shows "conns (ps_registry s') srv j =
    map_option (\<lambda>n. n + (if \<not> isl res \<and> srv = sc_id sc \<and> j = i then 1 else 0)) (conns (ps_registry s) srv j)"
proof (cases "buildExtraHeaders gw (ps_identity s) rx sc p")
  case (Inl e)
  with assms show ?thesis by (auto simp: start_upstream_def)
next
  case (Inr hs)
  obtain ok s1 where a: "admit gw now (sc_id sc) i s = (ok, s1)" by fastforce
  with Inr assms have "s' = s1 \<and> isl res = (\<not> ok)"
    by (cases ok) (auto simp: start_upstream_def)
  with admit_conns [of gw now "sc_id sc" i s srv j] a show ?thesis by simp
qed

text \<open>A call that was started is accounted for by the request that waits with it, one that failed by nothing.\<close>

lemma started_accounted:
  assumes "start_upstream gw now rx p sc i msg s = (Inr u, s1)" "waiting_upstream w = Some u"
    and "ps_registry s2 = ps_registry s1"
  shows "accounted s (Waiting w, s2)"
  using start_upstream_conns [OF assms(1)] start_upstream_Inr(1,2) [OF assms(1)] assms(2,3)
  by (auto simp: accounted_def add_waiting_def calls_to_def intro!: option.map_cong)

lemma failed_accounted:
  assumes "start_upstream gw now rx p sc i msg s = (Inl e, s1)" "ends r" "ps_registry s2 = ps_registry s1"
  shows "accounted s (r, s2)"
  using start_upstream_conns [OF assms(1)] assms(2,3) by (simp add: accounted_def)

subsection \<open>Each part of the handler accounts for its connections\<close>

lemma thrown_registry [simp]: "ps_registry (snd (thrown lc e s)) = ps_registry s"
  by (simp add: thrown_def)

lemma thrown_ends [simp]: "ends (fst (thrown lc e s))"
  by simp

lemma accounted_simple: "ends (fst p) \<Longrightarrow> ps_registry (snd p) = ps_registry s \<Longrightarrow> accounted s p"
  by (cases p) (simp add: accounted_ends)

lemma skip_failed_quiet: "ends (fst (skip_failed c sc e s)) \<and> core (snd (skip_failed c sc e s)) = core s"
  by (simp add: skip_failed_def Let_def thrown_def split: flight_error.split)

lemma list_failed_quiet: "ends (fst (list_failed ctx lc e s)) \<and> core (snd (list_failed ctx lc e s)) = core s"
  by (simp add: list_failed_def thrown_def split: flight_error.split)

lemma pass_failed_quiet: "ends (fst (pass_failed ctx lc e s)) \<and> core (snd (pass_failed ctx lc e s)) = core s"
  by (simp add: pass_failed_def thrown_def split: flight_error.split)

text \<open>The shape the three methods share: start the call, fail or wait with it.\<close>

lemma forward_accounted:
  assumes "\<And>e s1. ends (fst (failed e s1)) \<and> core (snd (failed e s1)) = core s1"
  shows "accounted s (case start_upstream gw now rx p sc i msg s of
      (Inl e, s1) \<Rightarrow> failed e s1 | (Inr u, s1) \<Rightarrow> (Waiting (Forwarded u why), s1))"
proof -
  obtain res s1 where r: "start_upstream gw now rx p sc i msg s = (res, s1)" by fastforce
  show ?thesis
  proof (cases res)
    case (Inl e)
    have k: "ends (fst (failed e s1))" "ps_registry (snd (failed e s1)) = ps_registry s1"
      using assms [of e s1] core_fields by blast+
    from failed_accounted [OF r [unfolded Inl] k] show ?thesis using r Inl by simp
  next
    case (Inr u)
    with started_accounted [OF r [unfolded Inr]] r show ?thesis by simp
  qed
qed

lemma skip_call_accounted: "accounted s (skip_call gw now c sc i s)"
  unfolding skip_call_def
  by (rule accounted_from [of "emit (requests_total c ''SKIP'') (record_skip s)"])
    (intro accounted_before forward_accounted skip_failed_quiet quiet_registry quiet, rule quietD(2) [OF quiet_server_limit], simp_all)

lemma answer_cached_registry: "ps_registry (snd (answer_cached gw later c res co s)) = ps_registry s"
proof (cases res)
  case (Inr v)
  let ?s = "emit_when co (count_coalesced c) s"
  obtain h x s1 where h: "run_hook gw AfterUpstream (tc_ctx c) ?s = (h, x, s1)" by (metis prod_cases3)
  then have s1: "ps_registry s1 = ps_registry s" using hook_core(3) [of gw AfterUpstream "tc_ctx c" ?s] by simp
  let ?t = "emit (log_success (tc_log c) ''success'' ''MISS'') (store_result gw later c v s1)"
  obtain h' x' s2 where h': "run_hook gw BeforeResponse x ?t = (h', x', s2)" by (metis prod_cases3)
  then have "ps_registry s2 = ps_registry s1" using hook_core(3) [of gw BeforeResponse x ?t] by simp
  with Inr h h' s1 show ?thesis
    by (cases h; cases h') (simp_all add: answer_cached_def tool_error_answer_def fresh_answer_def Let_def)
qed (simp add: answer_cached_def flight_failed_def thrown_def split: flight_error.split)

lemma launch_flight_accounted: "accounted s (launch_flight gw now c i s)"
proof (cases "tracker_has (kc_key c) (ps_inflight s)")
  case True
  then show ?thesis by (simp add: launch_flight_def Let_def accounted_def add_waiting_def calls_to_def)
next
  case False
  let ?msg = "buildForwardMessage (pc_message (tc_ctx c)) (tc_tool c)" and ?t = "ps_inflight s"
  let ?t' = "deduplicate now (rq_caller (tc_request c)) (kc_key c) False ?t"
  obtain res s1 where r: "start_upstream gw now (rq_context (tc_request c)) (tc_principal c) (kc_config c) i ?msg s = (res, s1)"
    by fastforce
  show ?thesis
  proof (cases res)
    case (Inl e)
    let ?s2 = "emit (count_upstream_error (kc_config c)) (s1\<lparr>ps_inflight := settle (tk_next ?t, kc_key c) (Inl e) ?t'\<rparr>)"
    have "accounted s (fst (answer_cached gw now c (Inl e) False ?s2), snd (answer_cached gw now c (Inl e) False ?s2))"
      by (rule failed_accounted [OF r [unfolded Inl]]) (simp_all add: answer_cached_ends answer_cached_registry)
    with Inl False r show ?thesis by (simp add: launch_flight_def Let_def)
  next
    case (Inr u)
    have "accounted s (Waiting (InFlight (Some u) c), s1\<lparr>ps_inflight := ?t'\<rparr>)"
      by (rule started_accounted [OF r [unfolded Inr]]) simp_all
    with Inr False r show ?thesis by (simp add: launch_flight_def Let_def)
  qed
qed

lemma cache_stage_registry: "ps_registry (snd (cache_stage gw now c s)) = ps_registry s"
  by (simp add: cache_stage_def cache_hit_def split: prod.split option.split)

lemma cacheable_call_accounted: "accounted s (cacheable_call gw now c sc policy i s)"
proof -
  obtain h x s1 where h: "run_hook gw BeforeCache ((tc_ctx c)\<lparr>pc_toolName := Some (tc_tool c)\<rparr>) s = (h, x, s1)"
    by (metis prod_cases3)
  then have s1: "ps_registry s1 = ps_registry s"
    using hook_core(3) [of gw BeforeCache "(tc_ctx c)\<lparr>pc_toolName := Some (tc_tool c)\<rparr>" s] by simp
  let ?k = "tool_call.extend (c\<lparr>tc_ctx := x\<rparr>) (cached_call.fields sc policy (call_key gw c policy))"
  have "accounted s1 (before (cache_stage gw now ?k)
      (before (server_limit_stage gw now True (tool_call.truncate ?k)) (launch_flight gw now ?k i)) s1)"
    by (intro accounted_before launch_flight_accounted quiet_registry quiet cache_stage_registry)
      (erule cache_stage_ends, erule quietD(2) [OF quiet_server_limit])
  from accounted_from [OF this s1] h s1 show ?thesis
    by (cases h) (simp_all add: cacheable_call_def Let_def accounted_ends)
qed

lemma invalidate_keeps [simp]:
  "ps_registry (invalidate gw now srv policy s) = ps_registry s" "ps_inflight (invalidate gw now srv policy s) = ps_inflight s"
proof -
  have "ps_registry (fold (invalidate_tool gw now srv) ts s) = ps_registry s \<and>
    ps_inflight (fold (invalidate_tool gw now srv) ts s) = ps_inflight s" for ts
    by (induction ts arbitrary: s) (simp_all add: invalidate_tool_def)
  then show "ps_registry (invalidate gw now srv policy s) = ps_registry s"
    "ps_inflight (invalidate gw now srv policy s) = ps_inflight s"
    by (simp_all add: invalidate_def)
qed

lemma call_backend_accounted: "accounted s (call_backend gw now c s)"
  by (auto simp: call_backend_def Let_def intro!: accounted_simple
      accounted_from [OF skip_call_accounted] accounted_from [OF cacheable_call_accounted] split: option.split)

lemma tool_call_accounted: "accounted s (handleToolCall gw now rq p ctx lc s)"
proof (cases rule: tool_call_cases [of gw now rq p ctx lc s])
  case refused
  then show ?thesis by (intro accounted_simple) (simp_all add: core_fields)
next
  case (passed profile c s1)
  have "ps_registry s1 = ps_registry s" using passed(4) core_fields by blast
  with accounted_from [OF call_backend_accounted] show ?thesis unfolding passed(5) by blast
qed

lemma tools_list_accounted: "accounted s (handleToolsList gw now rq p ctx lc s)"
proof -
  obtain client counters where c: "getClientForServer (gw_router gw) (ps_registry s) (rq_serverId rq) (ps_counters s) = (client, counters)"
    by fastforce
  have f: "accounted s (case start_upstream gw now (rq_context rq) p sc i (pc_message ctx) (s\<lparr>ps_counters := counters\<rparr>) of
      (Inl e, s1) \<Rightarrow> list_failed ctx lc e s1 | (Inr u, s1) \<Rightarrow> (Waiting (Forwarded u (ForList rq p lc)), s1))" for sc i
    by (rule accounted_from [OF forward_accounted [OF list_failed_quiet]]) simp
  show ?thesis
  proof (cases "request_profile gw (rq_serverId rq)")
    case (Inl e)
    then show ?thesis by (simp add: handleToolsList_def accounted_simple)
  next
    case (Inr profile)
    with c f show ?thesis
      by (cases client; cases profile; cases "find_server (gw_servers gw) (rq_serverId rq)")
        (simp_all add: handleToolsList_def Let_def accounted_simple)
  qed
qed

lemma profile_passthrough_quiet: "ends (fst (handleProfilePassthrough gw rq ctx lc pid s)) \<and>
    ps_registry (snd (handleProfilePassthrough gw rq ctx lc pid s)) = ps_registry s"
  by (simp add: handleProfilePassthrough_def Let_def split: sum.split)

lemma passthrough_accounted: "accounted s (handlePassthrough gw now rq p ctx lc s)"
proof -
  obtain client counters where c: "getClientForServer (gw_router gw) (ps_registry s) (rq_serverId rq) (ps_counters s) = (client, counters)"
    by fastforce
  have f: "accounted s (case start_upstream gw now (rq_context rq) p sc i (pc_message ctx) (s\<lparr>ps_counters := counters\<rparr>) of
      (Inl e, s1) \<Rightarrow> pass_failed ctx lc e s1 | (Inr u, s1) \<Rightarrow> (Waiting (Forwarded u (ForPass rq lc)), s1))" for sc i
    by (rule accounted_from [OF forward_accounted [OF pass_failed_quiet]]) simp
  show ?thesis
  proof (cases "non_empty (extractProfileIdFromTarget (rq_serverId rq))")
    case (Some pid)
    with profile_passthrough_quiet [of gw rq ctx lc pid s] show ?thesis by (simp add: handlePassthrough_def accounted_simple)
  next
    case None
    with c f show ?thesis
      by (cases client; cases "find_server (gw_servers gw) (rq_serverId rq)")
        (simp_all add: handlePassthrough_def Let_def accounted_simple)
  qed
qed

lemma begin_accounted: "accounted s (begin_request gw now rq s)"
proof (cases rule: begin_cases [of gw now rq s])
  case ended
  then show ?thesis by (intro accounted_simple) (simp_all add: core_fields)
next
  case (dispatched cl tn claims ctx s1)
  have r: "ps_registry s1 = ps_registry s" using dispatched(3) core_fields by blast
  show ?thesis
    unfolding dispatched(2) dispatch_def Let_def
    using accounted_from [OF tool_call_accounted r] accounted_from [OF tools_list_accounted r]
      accounted_from [OF passthrough_accounted r] by simp
qed

lemma answer_list_conns: "conns (ps_registry (snd (answer_list gw rq p lc rep s))) = conns (ps_registry s)"
  by (intro ext) (simp add: answer_list_def list_reply_body_def conns_def replica_at_annotations split: sum.split option.split)

lemma end_upstream_conns: "conns (ps_registry (end_upstream gw later u ok s)) srv i =
    map_option (\<lambda>n. n - (if sc_id (uc_server u) = srv \<and> uc_replica u = i then 1 else 0)) (conns (ps_registry s) srv i)"
  by (auto simp: end_upstream_def conns_def replica_at_on_replica option.map_comp o_def forward_end_conns
      intro: option.map_cong)

lemma calls_to_simps:
  "calls_to srv i (Forwarded u why) = (if sc_id (uc_server u) = srv \<and> uc_replica u = i then 1 else 0)"
  "calls_to srv i (InFlight (Some u) c) = (if sc_id (uc_server u) = srv \<and> uc_replica u = i then 1 else 0)"
  "calls_to srv i (InFlight None c) = 0"
  by (simp_all add: calls_to_def)

lemma answer_forwarded_conns: "conns (ps_registry (snd (answer_forwarded gw later u why rep s))) srv i =
    map_option (\<lambda>n. n - calls_to srv i (Forwarded u why)) (conns (ps_registry s) srv i)"
proof -
  have skip: "ps_registry (snd (skip_reply c sc rep s1)) = ps_registry s1" for c sc s1
    by (simp add: skip_reply_def skip_failed_def thrown_def Let_def split: sum.split)
  have pass: "ps_registry (snd (answer_pass lc rep s1)) = ps_registry s1" for lc s1
    by (simp add: answer_pass_def thrown_def split: sum.split)
  show ?thesis
    by (cases why) (simp_all add: answer_forwarded_def Let_def skip pass answer_list_conns end_upstream_conns calls_to_simps)
qed

lemma settle_conns: "conns (ps_registry (settle_call gw later u flight rep s)) srv i =
    map_option (\<lambda>n. n - calls_to srv i (InFlight (Some u) c)) (conns (ps_registry s) srv i)"
  by (simp add: settle_call_def Let_def end_upstream_conns calls_to_simps)

lemma load_remove: "w \<in> set ws \<Longrightarrow> load (remove1 w ws) srv i = load ws srv i - calls_to srv i w"
  by (induction ws) auto

lemma load_add: "load (add_waiting r ws) srv i = load (add_waiting r []) srv i + load ws srv i"
  by (cases r) (simp_all add: add_waiting_def)

definition balanced :: "('c, 'r, 'b, 'q, 'j, 'p) configuration \<Rightarrow> bool" where
  "balanced g \<longleftrightarrow> (\<forall>srv i n. conns (ps_registry (fst g)) srv i = Some n \<longrightarrow> n = load (snd g) srv i)"

lemma balanced_step:
  assumes "pipeline_step gw g g'" "balanced g"
  shows "balanced g'"
  using assms(1)
proof cases
  case (arrive now rq s r s' ws)
  then show ?thesis
    using begin_accounted [of s gw now rq] assms(2)
    by (auto simp: accounted_def balanced_def load_add [of r ws])
next
  case (reply u why ws later rep s r s')
  then show ?thesis
    using answer_forwarded_conns [of gw later u why rep s] assms(2)
    by (auto simp: balanced_def load_remove [OF reply(3)])
next
  case (settled u c ws s e later rep)
  then show ?thesis
    using settle_conns [of gw later u "(ie_promise e, kc_key c)" rep s _ _ c] assms(2)
    by (auto simp: balanced_def load_remove [OF settled(3)] calls_to_simps(3))
next
  case (resume c ws wc res s later r s')
  then show ?thesis
    using answer_cached_registry [of gw later c res "wc_wasCoalesced wc" s] assms(2)
    by (auto simp: balanced_def load_remove [OF resume(3)] calls_to_simps(3))
next
  case (purge call s ws)
  then show ?thesis using assms(2) by (simp add: balanced_def)
qed

text \<open>C3. However requests, replies and answers interleave, the connections a replica counts, which the
  least-connections strategy and the dashboard read, are the calls that wait for a reply from it: no
  path through the pipeline, whether it fails or not, leaks a connection or ends one twice.\<close>

theorem connections_are_the_waiting_calls:
  assumes "pipeline_run gw (s0, []) (s, ws)"
    and "\<And>srv i r. replica_at (ps_registry s0) srv i = Some r \<Longrightarrow> rp_activeConnections r = 0"
    and "replica_at (ps_registry s) srv i = Some r"
  shows "rp_activeConnections r = int (length (filter (\<lambda>w. case waiting_upstream w of
      Some u \<Rightarrow> sc_id (uc_server u) = srv \<and> uc_replica u = i | None \<Rightarrow> False) ws))"
proof -
  have "balanced (s0, [])" using assms(2) by (auto simp: balanced_def conns_def)
  with assms(1) have b: "balanced (s, ws)"
    by (induction "(s, ws)" arbitrary: s ws rule: pipeline_run.induct) (use balanced_step in \<open>auto\<close>)
  have l: "load vs srv i = int (length (filter (\<lambda>w. case waiting_upstream w of
      Some u \<Rightarrow> sc_id (uc_server u) = srv \<and> uc_replica u = i | None \<Rightarrow> False) vs))" for vs
    by (induction vs) (auto simp: calls_to_def split: option.split)
  from b assms(3) have "rp_activeConnections r = load ws srv i" by (simp add: balanced_def conns_def)
  with l show ?thesis by simp
qed

lemma idle_registry:
  assumes "list_all (\<lambda>(srv, info). list_all (\<lambda>r. rp_activeConnections r = 0) (si_replicas info)) (rg_servers reg)"
    and "replica_at reg srv i = Some r"
  shows "rp_activeConnections r = 0"
proof -
  from assms(2) obtain info where i: "map_of (rg_servers reg) srv = Some info" "i < length (si_replicas info)"
    "r = si_replicas info ! i" by (auto simp: replica_at_def split: option.splits if_splits)
  with assms(1) show ?thesis by (force simp: list_all_iff dest!: map_of_SomeD)
qed

definition demo_run :: "demo_state \<times> waiting list" where
  "demo_run = (snd demo_begin, add_waiting (fst demo_begin) [])"

lemma demo_run: "pipeline_run demo_gateway (demo_state, []) demo_run"
  unfolding demo_run_def
  by (rule pipeline_run.further [OF pipeline_run.start pipeline_step.arrive]) (simp add: demo_begin_def)

theorem connections_are_the_waiting_calls_witness:
  "map_option rp_activeConnections (replica_at (ps_registry (fst demo_run)) ''crm'' 0) = Some 1 \<and>
   length (filter (\<lambda>w. case waiting_upstream w of
      Some u \<Rightarrow> sc_id (uc_server u) = ''crm'' \<and> uc_replica u = 0 | None \<Rightarrow> False) (snd demo_run)) = 1"
proof -
  have n: "map_option rp_activeConnections (replica_at (ps_registry (fst demo_run)) ''crm'' 0) = Some 1" by code_simp
  then obtain r where r: "replica_at (ps_registry (fst demo_run)) ''crm'' 0 = Some r" "rp_activeConnections r = 1" by auto
  have z: "list_all (\<lambda>(srv, info). list_all (\<lambda>r. rp_activeConnections r = 0) (si_replicas info)) (rg_servers (ps_registry demo_state))"
    by code_simp
  have run: "pipeline_run demo_gateway (demo_state, []) (fst demo_run, snd demo_run)" using demo_run by simp
  from connections_are_the_waiting_calls [OF run idle_registry [OF z] r(1)] r(2) n show ?thesis by simp
qed

subsection \<open>What the first-level cache holds\<close>

text \<open>An entry that belongs under its key: a result of a call with this key that is no tool error.\<close>

definition entry_good :: "('c, 'r, 'b, 'q, 'j, 'p) gateway \<Rightarrow> string \<Rightarrow> cache_entry \<Rightarrow> bool" where
  "entry_good gw k e \<longleftrightarrow> (\<exists>c policy. k = call_key gw c policy \<and> ce_serverId e = tc_server c \<and> ce_toolName e = tc_tool c) \<and>
     \<not> is_tool_error (ce_result e)"

text \<open>The first-level cache changes by operations of the store, and what they store is good.\<close>

definition evolves ::
  "('c, 'r, 'b, 'q, 'j, 'p) gateway \<Rightarrow> ('c, 'r, 'b, 'q, 'j, 'p) pipeline_state \<Rightarrow> ('c, 'r, 'b, 'q, 'j, 'p) pipeline_state \<Rightarrow> bool" where
  "evolves gw s s' \<longleftrightarrow> (ps_l2 s = None \<longrightarrow> ps_l2 s' = None \<and>
     (\<exists>calls. ps_l1 s' = store_run (en_lru gw) calls (ps_l1 s) \<and> (\<forall>k e. CallSet k e \<in> set calls \<longrightarrow> entry_good gw k e)))"

lemma evolves_refl: "ps_l1 s' = ps_l1 s \<Longrightarrow> ps_l2 s' = ps_l2 s \<Longrightarrow> evolves gw s s'"
  by (auto simp: evolves_def store_run_def intro!: exI [of _ "[]"])

lemma evolves_core: "core s' = core s \<Longrightarrow> evolves gw s s'"
  by (rule evolves_refl) (simp_all add: core_fields)

lemma evolves_trans: "evolves gw s s1 \<Longrightarrow> evolves gw s1 s2 \<Longrightarrow> evolves gw s s2"
  unfolding evolves_def
proof (intro impI, elim impE conjE exE, assumption, assumption)
  fix calls calls'
  assume "ps_l1 s1 = store_run (en_lru gw) calls (ps_l1 s)" "ps_l1 s2 = store_run (en_lru gw) calls' (ps_l1 s1)"
    "\<forall>k e. CallSet k e \<in> set calls \<longrightarrow> entry_good gw k e" "\<forall>k e. CallSet k e \<in> set calls' \<longrightarrow> entry_good gw k e"
    "ps_l2 s2 = None"
  then show "ps_l2 s2 = None \<and> (\<exists>calls. ps_l1 s2 = store_run (en_lru gw) calls (ps_l1 s) \<and>
      (\<forall>k e. CallSet k e \<in> set calls \<longrightarrow> entry_good gw k e))"
    by (intro conjI exI [of _ "calls @ calls'"]) (auto simp: store_run_def)
qed

lemma evolves_step:
  assumes "ps_l1 s' = store_step (en_lru gw) call (ps_l1 s)" "ps_l2 s = None \<Longrightarrow> ps_l2 s' = None"
    and "\<And>k e. call = CallSet k e \<Longrightarrow> entry_good gw k e"
  shows "evolves gw s s'"
  using assms by (auto simp: evolves_def store_run_def intro!: exI [of _ "[call]"])

lemma evolves_before:
  assumes "evolves gw s (snd (f s))" "\<And>s1. evolves gw s1 (snd (g s1))"
  shows "evolves gw s (snd (before f g s))"
proof (cases rule: before_cases [of f s g])
  case (1 r)
  with assms(1) show ?thesis by simp
next
  case 2
  then show ?thesis using evolves_trans [OF assms(1) assms(2)] by simp
qed

lemma evolves_quiet: "quiet f \<Longrightarrow> evolves gw s (snd (f s))"
  by (rule evolves_core, erule quietD(1))

text \<open>What such operations leave in the cache.\<close>

lemma store_get_content:
  assumes "lru_ok ops" "store_ok ops st"
  shows "content ops (snd (store_get ops now key st)) \<subseteq>\<^sub>m content ops st"
proof -
  let ?s = "st\<lparr>cs_cache := snd (lru_get ops key (cs_cache st))\<rparr>"
  have ok: "store_ok ops ?s"
    by (rule store_okI) (simp_all add: store_okD [OF assms(2)] lru_okD [OF assms(1)])
  have c: "content ops ?s = content ops st" by (simp add: lru_okD [OF assms(1)])
  from store_delete_removes [OF assms(1), of key] ok
  have d: "content ops (snd (store_delete ops key ?s)) = (content ops st)(key := None)"
    unfolding removes_key_def c [symmetric] by blast
  show ?thesis
    by (auto simp: store_get_def case_prod_unfold Let_def d map_le_def dom_def lru_okD [OF assms(1)] split: option.split)
qed

lemma map_le_Some: "m \<subseteq>\<^sub>m m' \<Longrightarrow> m k = Some v \<Longrightarrow> m' k = Some v"
  by (metis domI map_le_def)

lemma store_step_content:
  assumes "lru_ok ops" "store_ok ops st" "content ops (store_step ops call st) k = Some e"
  shows "content ops st k = Some e \<or> call = CallSet k e"
proof (cases call)
  case (CallGet now key)
  with assms(3) show ?thesis by (auto intro: map_le_Some [OF store_get_content [OF assms(1,2)]])
next
  case (CallSet key entry)
  with assms(3) content_store_set(1) [OF assms(1), where k = key and e = entry and st = st]
    content_store_set(2) [OF assms(1), where k = key and k' = k and e = entry and st = st] show ?thesis
    by (cases "k = key") (auto split: if_splits)
next
  case (CallDelete key)
  with assms store_delete_removes [OF assms(1), of key] show ?thesis by (auto simp: removes_key_def split: if_splits)
next
  case (CallDeleteByPrefix p)
  with assms removes_fold [OF store_delete_removes [OF assms(1)] assms(2)] show ?thesis
    by (auto simp: deleteByPrefix_def Let_def split: if_splits)
next
  case CallClear
  with assms show ?thesis by (simp add: store_clear_def case_prod_unfold Let_def lru_okD(6))
next
  case CallRecordSkip
  with assms(3) show ?thesis by simp
next
  case (CallDeleteByServer srv)
  with assms(3) deleteByServer_spec [OF assms(1,2), of srv] show ?thesis by (auto split: if_splits)
next
  case (CallDeleteByTool t srv)
  with assms(3) deleteByTool_spec [OF assms(1,2), of t srv] show ?thesis by (auto split: if_splits)
qed

lemma store_run_content:
  assumes "lru_ok ops" "store_ok ops st" "content ops (store_run ops calls st) k = Some e"
  shows "content ops st k = Some e \<or> CallSet k e \<in> set calls"
  using assms(2,3)
proof (induction calls arbitrary: st)
  case (Cons call calls)
  have "content ops (store_step ops call st) k = Some e \<or> CallSet k e \<in> set calls"
    using Cons.IH [OF store_step_ok [OF assms(1) Cons.prems(1), of call]] Cons.prems(2) by (simp add: store_run_def)
  then show ?case using store_step_content [OF assms(1) Cons.prems(1)] by auto
qed (simp add: store_run_def)

subsection \<open>Each part of the handler stores good entries only\<close>

text \<open>The key a waiting caller stores its result under is the key of its call.\<close>

definition key_good :: "('c, 'r, 'b, 'q, 'j, 'p) gateway \<Rightarrow> cached_call \<Rightarrow> bool" where
  "key_good gw c \<longleftrightarrow> kc_key c = call_key gw (tool_call.truncate c) (kc_policy c)"

definition waiting_good :: "('c, 'r, 'b, 'q, 'j, 'p) gateway \<Rightarrow> waiting \<Rightarrow> bool" where
  "waiting_good gw w = (case w of InFlight v c \<Rightarrow> key_good gw c | _ \<Rightarrow> True)"

lemma truncate_simps [simp]:
  "tc_server (tool_call.truncate c) = tc_server c" "tc_tool (tool_call.truncate c) = tc_tool c"
  by (cases c; simp add: tool_call.defs)+

lemma entry_of_good: "key_good gw c \<Longrightarrow> \<not> is_tool_error v \<Longrightarrow> entry_good gw (kc_key c) (entry_of later c v)"
  unfolding entry_good_def key_good_def
  by (auto simp: entry_of_def intro!: exI [of _ "tool_call.truncate c"] exI [of _ "kc_policy c"])

lemma call_key_ctx [simp]: "call_key gw (c\<lparr>tc_ctx := x\<rparr>) policy = call_key gw c policy"
  by (simp add: call_key_def key_options_def cache_tenant_def)

lemma key_good_extend: "key_good gw (tool_call.extend (c\<lparr>tc_ctx := x\<rparr>) (cached_call.fields sc policy (call_key gw c policy)))"
  by (simp add: key_good_def)

lemma evolves_set: "ps_l1 s' = store_set (en_lru gw) k e (ps_l1 s) \<Longrightarrow> (ps_l2 s = None \<Longrightarrow> ps_l2 s' = None) \<Longrightarrow>
    entry_good gw k e \<Longrightarrow> evolves gw s s'"
  by (rule evolves_step [of _ _ "CallSet k e"]) auto

lemma evolves_skip: "ps_l1 s' = recordSkip (ps_l1 s) \<Longrightarrow> ps_l2 s' = ps_l2 s \<Longrightarrow> evolves gw s s'"
  by (rule evolves_step [of _ _ CallRecordSkip]) auto

lemma fresh_answer_l2: "ps_l2 s = None \<Longrightarrow> ps_l2 (snd (fresh_answer gw later c ctx v s)) = None"
proof -
  assume n: "ps_l2 s = None"
  let ?s = "emit (log_success (tc_log c) ''success'' ''MISS'') (store_result gw later c v s)"
  obtain h x s2 where h: "run_hook gw BeforeResponse ctx ?s = (h, x, s2)" by (metis prod_cases3)
  then have "ps_l2 s2 = ps_l2 ?s" using hook_core(2) [of gw BeforeResponse ctx ?s] by simp
  with n h show ?thesis by (cases h) (simp_all add: fresh_answer_def store_result_def Let_def)
qed

lemma answer_cached_evolves:
  assumes "key_good gw c"
  shows "evolves gw s (snd (answer_cached gw later c res co s))"
proof (cases res)
  case (Inl e)
  then show ?thesis
    by (intro evolves_core) (simp add: answer_cached_def flight_failed_def split: flight_error.split)
next
  case (Inr v)
  let ?s = "emit_when co (count_coalesced c) s"
  obtain h x s1 where h: "run_hook gw AfterUpstream (tc_ctx c) ?s = (h, x, s1)" by (metis prod_cases3)
  then have s1: "core s1 = core s" using core_hook [of gw AfterUpstream "tc_ctx c" ?s] by simp
  have e: "evolves gw s1 (snd (tool_error_answer c x v s1))"
    by (rule evolves_skip) (simp_all add: tool_error_answer_def record_skip_def)
  have f: "\<not> is_tool_error v \<Longrightarrow> evolves gw s1 (snd (fresh_answer gw later c x v s1))"
    by (rule evolves_set [OF fresh_answer_l1 fresh_answer_l2 entry_of_good [OF assms]])
  from Inr h e f show ?thesis
    using evolves_trans [OF evolves_core [OF s1]] evolves_core [OF s1]
    by (cases h) (auto simp: answer_cached_def)
qed

lemma start_upstream_core:
  "ps_l1 (snd (start_upstream gw now rx p sc i msg s)) = ps_l1 s" "ps_l2 (snd (start_upstream gw now rx p sc i msg s)) = ps_l2 s"
  by (auto simp: start_upstream_def admit_def split: sum.split option.split prod.split bool.split)

lemma start_caches: "start_upstream gw now rx p sc i msg s = (res, s') \<Longrightarrow> ps_l1 s' = ps_l1 s \<and> ps_l2 s' = ps_l2 s"
  using start_upstream_core [of gw now rx p sc i msg s] by simp

lemma launch_flight_evolves:
  assumes "key_good gw c"
  shows "evolves gw s (snd (launch_flight gw now c i s))"
proof (cases "tracker_has (kc_key c) (ps_inflight s)")
  case True
  then show ?thesis by (intro evolves_refl) (simp_all add: launch_flight_def Let_def)
next
  case False
  let ?msg = "buildForwardMessage (pc_message (tc_ctx c)) (tc_tool c)"
  obtain res s1 where r: "start_upstream gw now (rq_context (tc_request c)) (tc_principal c) (kc_config c) i ?msg s = (res, s1)"
    by fastforce
  then have s1: "ps_l1 s1 = ps_l1 s" "ps_l2 s1 = ps_l2 s"
    using start_upstream_core [of gw now "rq_context (tc_request c)" "tc_principal c" "kc_config c" i ?msg s] by simp_all
  show ?thesis
  proof (cases res)
    case (Inl e)
    have "evolves gw s (snd (answer_cached gw now c (Inl e) False s2))" if "ps_l1 s2 = ps_l1 s" "ps_l2 s2 = ps_l2 s" for s2
      using evolves_trans [OF evolves_refl [OF that] answer_cached_evolves [OF assms]] .
    with Inl False r s1 show ?thesis by (simp add: launch_flight_def Let_def)
  next
    case (Inr u)
    with False r s1 show ?thesis by (intro evolves_refl) (simp_all add: launch_flight_def Let_def)
  qed
qed

lemma cache_stage_evolves: "evolves gw s (snd (cache_stage gw now c s))"
proof (cases "ps_l2 s")
  case None
  show ?thesis
    by (rule evolves_step [of _ _ "CallGet now (kc_key c)"])
      (auto simp: cache_stage_def cache_hit_def None split: prod.splits option.splits)
qed (simp add: evolves_def)

lemma cacheable_call_evolves: "evolves gw s (snd (cacheable_call gw now c sc policy i s))"
proof -
  obtain h x s1 where h: "run_hook gw BeforeCache ((tc_ctx c)\<lparr>pc_toolName := Some (tc_tool c)\<rparr>) s = (h, x, s1)"
    by (metis prod_cases3)
  then have s1: "evolves gw s s1"
    using core_hook [of gw BeforeCache "(tc_ctx c)\<lparr>pc_toolName := Some (tc_tool c)\<rparr>" s] by (intro evolves_core) simp
  let ?k = "tool_call.extend (c\<lparr>tc_ctx := x\<rparr>) (cached_call.fields sc policy (call_key gw c policy))"
  have "evolves gw s1 (snd (before (cache_stage gw now ?k)
      (before (server_limit_stage gw now True (tool_call.truncate ?k)) (launch_flight gw now ?k i)) s1))"
    by (intro evolves_before cache_stage_evolves evolves_quiet quiet launch_flight_evolves key_good_extend)
  from evolves_trans [OF s1 this] h s1 show ?thesis
    by (cases h) (simp_all add: cacheable_call_def Let_def)
qed

lemma failed_caches [simp]:
  "ps_l1 (snd (skip_failed c sc e s)) = ps_l1 s" "ps_l2 (snd (skip_failed c sc e s)) = ps_l2 s"
  "ps_l1 (snd (list_failed ctx lc e s)) = ps_l1 s" "ps_l2 (snd (list_failed ctx lc e s)) = ps_l2 s"
  "ps_l1 (snd (pass_failed ctx lc e s)) = ps_l1 s" "ps_l2 (snd (pass_failed ctx lc e s)) = ps_l2 s"
  using skip_failed_quiet [of c sc e s] list_failed_quiet [of ctx lc e s] pass_failed_quiet [of ctx lc e s]
  by (simp_all add: core_fields)

lemma skip_call_evolves: "evolves gw s (snd (skip_call gw now c sc i s))"
proof -
  have b: "evolves gw s1 (snd (case start_upstream gw now rx p sc i msg s1 of
      (Inl e, s2) \<Rightarrow> skip_failed c sc e s2 | (Inr u, s2) \<Rightarrow> (Waiting (Forwarded u (ForSkip c)), s2)))" for s1 rx p msg
    using start_upstream_core [of gw now rx p sc i msg s1]
    by (intro evolves_refl) (auto split: prod.split sum.split)
  have r: "evolves gw s (emit (requests_total c ''SKIP'') (record_skip s))"
    by (rule evolves_skip) (simp_all add: record_skip_def)
  show ?thesis
    unfolding skip_call_def
    by (rule evolves_trans [OF r], rule evolves_before, rule evolves_quiet [OF quiet_server_limit], rule b)
qed

lemma invalidate_evolves: "evolves gw s (invalidate gw now srv policy s)"
proof -
  have "evolves gw s (fold (invalidate_tool gw now srv) ts s)" for ts
  proof (induction ts arbitrary: s)
    case (Cons t ts)
    have "evolves gw s (invalidate_tool gw now srv t s)"
      by (rule evolves_step [of _ _ "CallDeleteByTool t srv"]) (simp_all add: invalidate_tool_def)
    from evolves_trans [OF this Cons.IH] show ?case by simp
  qed (simp add: evolves_refl)
  then show ?thesis by (simp add: invalidate_def evolves_refl)
qed

lemma call_backend_evolves: "evolves gw s (snd (call_backend gw now c s))"
  using evolves_trans [OF invalidate_evolves skip_call_evolves] evolves_trans [OF invalidate_evolves cacheable_call_evolves]
  by (auto simp: call_backend_def Let_def intro: evolves_refl split: option.split)

lemma begin_evolves: "evolves gw s (snd (begin_request gw now rq s))"
proof (cases rule: begin_cases [of gw now rq s])
  case ended
  then show ?thesis by (intro evolves_core)
next
  case (dispatched cl tn claims ctx s1)
  let ?p = "principal_of rq cl tn claims" and ?lc = "log_context_of rq cl"
  have call: "evolves gw s1 (snd (handleToolCall gw now rq ?p ctx ?lc s1))"
  proof (cases rule: tool_call_cases [of gw now rq ?p ctx ?lc s1])
    case refused
    then show ?thesis by (intro evolves_core)
  next
    case (passed profile c s2)
    show ?thesis unfolding passed(5) by (rule evolves_trans [OF evolves_core [OF passed(4)] call_backend_evolves])
  qed
  have list: "evolves gw s1 (snd (handleToolsList gw now rq ?p ctx ?lc s1))"
    by (intro evolves_refl)
      (auto simp: handleToolsList_def thrown_def Let_def dest!: start_caches split: sum.split option.split prod.split)
  have prof: "evolves gw s1 (snd (handleProfilePassthrough gw rq ctx ?lc pid s1))" for pid
    by (intro evolves_refl) (simp_all add: handleProfilePassthrough_def thrown_def Let_def split: sum.split)
  have pass: "evolves gw s1 (snd (handlePassthrough gw now rq ?p ctx ?lc s1))"
  proof (cases "non_empty (extractProfileIdFromTarget (rq_serverId rq))")
    case (Some pid)
    with prof show ?thesis by (simp add: handlePassthrough_def)
  next
    case None
    then show ?thesis
      by (intro evolves_refl)
        (auto simp: handlePassthrough_def Let_def dest!: start_caches split: sum.split option.split prod.split)
  qed
  have "evolves gw s1 (snd (dispatch gw now rq ?p ctx s1))"
    using call list pass by (simp add: dispatch_def Let_def principal_of_def)
  with evolves_trans [OF evolves_core [OF dispatched(3)]] dispatched(2) show ?thesis by simp
qed

lemma end_upstream_caches [simp]: "ps_l1 (end_upstream gw later u ok s) = ps_l1 s" "ps_l2 (end_upstream gw later u ok s) = ps_l2 s"
  "ps_inflight (end_upstream gw later u ok s) = ps_inflight s"
  by (simp_all add: end_upstream_def)

lemma answer_forwarded_evolves: "evolves gw s (snd (answer_forwarded gw later u why rep s))"
  by (intro evolves_refl; cases why)
    (auto simp: answer_forwarded_def Let_def skip_reply_def answer_list_def answer_pass_def list_reply_body_def thrown_def
      split: sum.split option.split)

lemma settle_evolves: "evolves gw s (settle_call gw later u flight rep s)"
  by (intro evolves_refl) (simp_all add: settle_call_def Let_def)

text \<open>A tool call that waits, waits with its own key.\<close>

lemma call_backend_waiting_good:
  assumes "call_backend gw now c s = (Waiting w, s')"
  shows "waiting_good gw w"
  using assms
  by (auto simp: call_backend_def Let_def waiting_good_def call_error_def request_error_def key_good_extend
      split: option.splits if_splits dest!: skip_call_waits cacheable_call_waits)

lemma failed_not_waiting:
  "list_failed ctx lc e s \<noteq> (Waiting w, s')" "pass_failed ctx lc e s \<noteq> (Waiting w, s')"
  "handleProfilePassthrough gw rq ctx lc pid s \<noteq> (Waiting w, s')" "thrown lc m s \<noteq> (Waiting w, s')"
  using list_failed_quiet [of ctx lc e s] pass_failed_quiet [of ctx lc e s] profile_passthrough_quiet [of gw rq ctx lc pid s]
  by (auto simp: thrown_def)

lemma list_waits: "handleToolsList gw now rq p ctx lc s = (Waiting w, s') \<Longrightarrow> \<exists>u why. w = Forwarded u why"
  by (auto simp: handleToolsList_def Let_def failed_not_waiting request_error_def split: sum.splits option.splits prod.splits)

lemma passthrough_waits: "handlePassthrough gw now rq p ctx lc s = (Waiting w, s') \<Longrightarrow> \<exists>u why. w = Forwarded u why"
  by (auto simp: handlePassthrough_def Let_def failed_not_waiting request_error_def split: sum.splits option.splits prod.splits)

lemma begin_waiting_good:
  assumes "begin_request gw now rq s = (Waiting w, s')"
  shows "waiting_good gw w"
proof (cases rule: begin_cases [of gw now rq s])
  case ended
  with assms show ?thesis by simp
next
  case (dispatched cl tn claims ctx s1)
  let ?p = "principal_of rq cl tn claims" and ?lc = "log_context_of rq cl"
  have call: "waiting_good gw w" if h: "handleToolCall gw now rq ?p ctx ?lc s1 = (Waiting w, s')"
  proof (cases rule: tool_call_cases [of gw now rq ?p ctx ?lc s1])
    case refused
    with h show ?thesis by simp
  next
    case (passed profile c s2)
    with h show ?thesis by (intro call_backend_waiting_good) simp
  qed
  from assms dispatched(2) call show ?thesis
    by (auto simp: dispatch_def Let_def principal_of_def waiting_good_def
        dest!: list_waits passthrough_waits split: if_splits)
qed

text \<open>C4. However requests interleave, and however often entries are evicted, expire or are purged, every
  entry of the first-level cache is a result that is no tool error, under the key of a call of the
  tool and the server the entry names, and the indexes that invalidation uses are exact.  Without a
  second-level cache, whose entries come from outside.\<close>

theorem cache_holds_good_results:
  assumes "lru_ok (en_lru gw)" "pipeline_run gw (s0, []) (s, ws)"
    and "ps_l2 s0 = None" "ps_l1 s0 = new_cache_store c kb" "lru_map (en_lru gw) c = Map.empty"
  shows "store_ok (en_lru gw) (ps_l1 s) \<and> (\<forall>k e. cached gw s k = Some e \<longrightarrow> entry_good gw k e)"
proof -
  have "evolves gw s0 (fst g) \<and> (\<forall>w \<in> set (snd g). waiting_good gw w)" if "pipeline_run gw (s0, []) g" for g
    using that
  proof (induction rule: pipeline_run.induct)
    case start
    show ?case by (simp add: evolves_refl)
  next
    case (further g g')
    then have e: "evolves gw s0 (fst g)" and w: "\<forall>w \<in> set (snd g). waiting_good gw w" by simp_all
    from further(2) have "evolves gw (fst g) (fst g') \<and> (\<forall>w \<in> set (snd g'). waiting_good gw w)"
    proof cases
      case (arrive now rq s r s' ws)
      then show ?thesis
        using begin_evolves [of gw s now rq] begin_waiting_good [of gw now rq s] w
        by (cases r) (auto simp: add_waiting_def)
    next
      case (reply u why ws later rep s r s')
      then show ?thesis
        using answer_forwarded_evolves [of gw s later u why rep] w by (auto dest: notin_set_remove1)
    next
      case (settled u c ws s e later rep)
      then show ?thesis
        using settle_evolves [of gw s later u "(ie_promise e, kc_key c)" rep] w
        by (auto simp: waiting_good_def dest: notin_set_remove1)
    next
      case (resume c ws wc res s later r s')
      then have "key_good gw c" using w by (auto simp: waiting_good_def)
      from answer_cached_evolves [OF this, of s later res "wc_wasCoalesced wc"] resume w show ?thesis
        by (auto dest: notin_set_remove1)
    next
      case (purge call s ws)
      then show ?thesis
        using w by (auto simp: stores_def intro!: evolves_step [of _ _ call] split: store_call.splits)
    qed
    with evolves_trans [OF e] show ?case by blast
  qed
  from this [OF assms(2)] assms(3) obtain calls where calls: "ps_l1 s = store_run (en_lru gw) calls (ps_l1 s0)"
    "\<forall>k e. CallSet k e \<in> set calls \<longrightarrow> entry_good gw k e" by (auto simp: evolves_def)
  have ok: "store_ok (en_lru gw) (ps_l1 s0)" unfolding assms(4) by (rule store_ok_new [OF assms(5)])
  have "cached gw s0 k = None" for k by (simp add: assms(4,5) new_cache_store_def)
  with store_run_content [OF assms(1) ok, of calls] calls store_run_ok [OF assms(1) ok, of calls] show ?thesis by fastforce
qed

text \<open>The run of the demo goes on: the backend replies, and the caller is answered.\<close>

definition demo_flight :: "(upstream_call \<times> cached_call) option" where
  "demo_flight = (case snd demo_run of [InFlight (Some u) c] \<Rightarrow> Some (u, c) | _ \<Rightarrow> None)"

definition demo_settled :: "upstream_call \<Rightarrow> cached_call \<Rightarrow> demo_state" where
  "demo_settled u c = settle_call demo_gateway 1010 u (0, kc_key c) (demo_reply (JObj [])) (fst demo_run)"

definition demo_flight_ok :: bool where
  "demo_flight_ok = (case demo_flight of None \<Rightarrow> False
     | Some (u, c) \<Rightarrow>
        map_option ie_promise (map_of (tk_inflight (ps_inflight (fst demo_run))) (kc_key c)) = Some 0 \<and>
        map (\<lambda>(wc, res). (wc_caller wc, wc_key wc, res)) (tk_received (ps_inflight (demo_settled u c))) =
          [(rq_caller (tc_request c), kc_key c, Inr (JObj []))] \<and>
        entry_bytes (entry_of 1010 c (JObj [])) \<le> cs_maxEntryBytes (ps_l1 (demo_settled u c)))"

lemma demo_flight_ok: "demo_flight_ok"
  by code_simp

theorem cache_holds_good_results_witness:
  "\<exists>s ws k e. pipeline_run demo_gateway (demo_state, []) (s, ws) \<and> cached demo_gateway s k = Some e \<and>
     entry_good demo_gateway k e \<and> store_ok (en_lru demo_gateway) (ps_l1 s)"
proof -
  from demo_flight_ok obtain u c where f: "demo_flight = Some (u, c)" by (auto simp: demo_flight_ok_def split: option.splits)
  then have ws: "snd demo_run = [InFlight (Some u) c]"
    by (auto simp: demo_flight_def split: list.splits waiting.splits option.splits)
  have ok: "map_option ie_promise (map_of (tk_inflight (ps_inflight (fst demo_run))) (kc_key c)) = Some 0"
    "map (\<lambda>(wc, res). (wc_caller wc, wc_key wc, res)) (tk_received (ps_inflight (demo_settled u c))) =
       [(rq_caller (tc_request c), kc_key c, Inr (JObj []))]"
    "entry_bytes (entry_of 1010 c (JObj [])) \<le> cs_maxEntryBytes (ps_l1 (demo_settled u c))"
    using demo_flight_ok unfolding demo_flight_ok_def f by simp_all
  from ok(1) obtain e where e: "map_of (tk_inflight (ps_inflight (fst demo_run))) (kc_key c) = Some e" "ie_promise e = 0"
    by auto
  from ok(2) obtain wc where wc: "tk_received (ps_inflight (demo_settled u c)) = [(wc, Inr (JObj []))]"
    "wc_caller wc = rq_caller (tc_request c)" "wc_key wc = kc_key c" by auto
  have "pipeline_step demo_gateway (fst demo_run, snd demo_run)
      (settle_call demo_gateway 1010 u (ie_promise e, kc_key c) (demo_reply (JObj [])) (fst demo_run),
       InFlight None c # remove1 (InFlight (Some u) c) (snd demo_run))"
    by (rule pipeline_step.settled) (simp_all add: ws e)
  then have "pipeline_step demo_gateway demo_run (demo_settled u c, [InFlight None c])"
    unfolding prod.collapse by (simp add: ws e demo_settled_def)
  with demo_run have r1: "pipeline_run demo_gateway (demo_state, []) (demo_settled u c, [InFlight None c])"
    by (rule pipeline_run.further)
  define a where "a = answer_cached demo_gateway 1010 c (Inr (JObj [])) (wc_wasCoalesced wc) (demo_settled u c)"
  have "pipeline_step demo_gateway (demo_settled u c, [InFlight None c]) (snd a, remove1 (InFlight None c) [InFlight None c])"
    by (rule pipeline_step.resume [where wc = wc and res = "Inr (JObj [])" and later = 1010 and r = "fst a"])
      (simp_all add: wc a_def)
  with r1 have r2: "pipeline_run demo_gateway (demo_state, []) (snd a, [])"
    using pipeline_run.further by fastforce
  have n: "\<not> is_tool_error (JObj [])" by (simp add: is_tool_error_def member_def obj_get_def)
  have k: "cached demo_gateway (snd a) (kc_key c) = Some (entry_of 1010 c (JObj []))"
    using n ok(3) by (simp add: a_def answer_cached_def run_hook_def demo_gateway_lru(2) fresh_answer_l1
        content_store_set(1) [OF demo_gateway_lru(1)])
  have m: "lru_map (en_lru demo_gateway) [] = Map.empty" by (simp add: demo_gateway_lru(3) two_lru_def)
  from cache_holds_good_results [OF demo_gateway_lru(1) r2 demo_state_l1(2) demo_state_l1(1) m] r2 k show ?thesis by blast
qed

end
