(* ===== verification/Transport.thy ===== *)
theory Transport
  imports Pipeline_Runs Trace
begin

section \<open>The HTTP endpoints (src/src/proxy/transport.ts)\<close>

text \<open>
  A POST carries one message or a batch to a target; the body is read in chunks under a limit.
  \<open>parse\<close> is the decoding of the bytes and \<open>JSON.parse\<close>; header names are in lower case, as the
  Headers object iterates over them.  The messages of a batch start in their order and are
  answered together; \<open>fresh\<close> is the UUID drawn for a trace, \<open>ids\<close> those drawn for the messages.
  A GET opens the stream of notifications of a server.
\<close>

definition MAX_REQUEST_BODY_BYTES :: int where "MAX_REQUEST_BODY_BYTES = 10 * 1024 * 1024"

record http_request =
  hq_headers :: "(string, string) jsmap"
  hq_body :: "string list option"

datatype http_payload = PayloadJson json | PayloadStream | PayloadEmpty

record http_response =
  hp_status :: nat
  hp_headers :: "(string \<times> string) list"
  hp_payload :: http_payload

definition json_response :: "nat \<Rightarrow> (string \<times> string) list \<Rightarrow> json \<Rightarrow> http_response" where
  "json_response status headers body = \<lparr>hp_status = status, hp_headers = headers, hp_payload = PayloadJson body\<rparr>"

definition rpc_refusal :: "nat \<Rightarrow> (string \<times> string) list \<Rightarrow> int \<Rightarrow> string \<Rightarrow> http_response" where
  "rpc_refusal status headers code message =
     json_response status headers (response_json (buildJsonRpcError JNull code message None))"

definition trace_header :: "string \<Rightarrow> string \<times> string" where
  "trace_header traceId = (''X-Conduit-Trace-Id'', traceId)"

definition isNotificationMessage :: "jobject \<Rightarrow> bool" where
  "isNotificationMessage msg \<longleftrightarrow> obj_get msg ''method'' \<noteq> JUndef \<and> obj_get msg ''id'' = JUndef \<and>
     obj_get msg ''result'' = JUndef \<and> obj_get msg ''error'' = JUndef"

subsection \<open>The target of a request\<close>

datatype endpoint = ServerEndpoint string | ProfileEndpoint string | DefaultEndpoint

definition post_target :: "gateway_server list \<Rightarrow> connect_profile_config list option \<Rightarrow> endpoint \<Rightarrow> http_response + string" where
  "post_target servers profiles endpoint =
     (case endpoint of
        ServerEndpoint serverId \<Rightarrow>
          (if serverId \<in> set (map sc_id servers) then Inr serverId
           else Inl (rpc_refusal 404 [] METHOD_NOT_FOUND (''Serveur inconnu : '' @ serverId)))
      | ProfileEndpoint profileId \<Rightarrow>
          (case resolveConnectProfile servers profiles profileId of
             Inr p \<Rightarrow> Inr (buildProfileTargetId profileId)
           | Inl e \<Rightarrow> Inl (rpc_refusal 404 [] METHOD_NOT_FOUND (''Profil inconnu : '' @ profileId)))
      | DefaultEndpoint \<Rightarrow>
          (case servers of
             [] \<Rightarrow> Inl (rpc_refusal 503 [] INTERNAL_ERROR (''Aucun serveur configur'' @ [CHR 0xE9]))
           | sc # rest \<Rightarrow> Inr (sc_id sc)))"

subsection \<open>The body\<close>

text \<open>\<open>parseInt(s, 10)\<close>; \<open>None\<close> is \<open>NaN\<close>, which is not greater than any limit.\<close>

definition parseInt :: "string \<Rightarrow> int option" where
  "parseInt s =
     (let t = dropWhile is_space s;
          neg = (t \<noteq> [] \<and> hd t = CHR ''-'');
          u = (if t \<noteq> [] \<and> (hd t = CHR ''-'' \<or> hd t = CHR ''+'') then drop 1 t else t);
          ds = takeWhile is_digit u
      in if ds = [] then None else Some (if neg then - int (parse_nat 0 ds) else int (parse_nat 0 ds)))"

definition declared_too_large :: "(string, string) jsmap \<Rightarrow> bool" where
  "declared_too_large headers =
     (case map_of headers ''content-length'' of
        Some v \<Rightarrow> (case parseInt v of Some n \<Rightarrow> n > MAX_REQUEST_BODY_BYTES | None \<Rightarrow> False)
      | None \<Rightarrow> False)"

text \<open>The limit is tested before a chunk is kept.\<close>

fun read_chunks :: "int \<Rightarrow> string \<Rightarrow> string list \<Rightarrow> string option" where
  "read_chunks seen acc [] = Some acc"
| "read_chunks seen acc (chunk # chunks) =
     (let seen' = seen + int (length chunk)
      in if seen' > MAX_REQUEST_BODY_BYTES then None else read_chunks seen' (acc @ chunk) chunks)"

definition read_body :: "(string \<Rightarrow> json option) \<Rightarrow> string \<Rightarrow> string list option \<Rightarrow> http_response + json" where
  "read_body parse traceId body =
     (case body of
        None \<Rightarrow> Inr (JObj [])
      | Some chunks \<Rightarrow>
          (case read_chunks 0 [] chunks of
             None \<Rightarrow> Inl (rpc_refusal 413 [trace_header traceId] INVALID_REQUEST ''Request body too large'')
           | Some bytes \<Rightarrow>
               (case parse bytes of
                  None \<Rightarrow> Inl (rpc_refusal 400 [trace_header traceId] PARSE_ERROR ''JSON parse error'')
                | Some v \<Rightarrow> Inr v)))"

datatype parsed = Batch "batch_entry list" | Single jobject

definition parse_message :: "string \<Rightarrow> json \<Rightarrow> http_response + parsed" where
  "parse_message traceId rawBody =
     (case rawBody of
        JArr items \<Rightarrow>
          (if items = [] \<or> length items > MAX_BATCH_SIZE
           then Inl (rpc_refusal 400 [trace_header traceId] INVALID_REQUEST
                  (if items = [] then ''Empty JSON-RPC batch'' else ''JSON-RPC batch exceeds maximum size (100)''))
           else case parseJsonRpcBatchPartial rawBody of
                  None \<Rightarrow> Inl (rpc_refusal 400 [trace_header traceId] INVALID_REQUEST ''Message JSON-RPC invalide'')
                | Some entries \<Rightarrow> Inr (Batch entries))
      | _ \<Rightarrow>
          (if isValidJsonRpc rawBody then Inr (Single (as_message rawBody))
           else Inl (rpc_refusal 400 [trace_header traceId] INVALID_REQUEST ''Message JSON-RPC invalide'')))"

definition buildRequestContext :: "(string, string) jsmap \<Rightarrow> string \<Rightarrow> request_context" where
  "buildRequestContext headers traceId =
     \<lparr>rx_traceId = traceId, rx_authHeader = map_of headers ''authorization'',
      rx_groupHeader = map_of headers ''x-conduit-group'', rx_sessionId = map_of headers ''mcp-session-id'',
      rx_rawHeaders = headers\<rparr>"

definition receive ::
  "(string \<Rightarrow> json option) \<Rightarrow> string \<Rightarrow> http_request \<Rightarrow> http_response + parsed \<times> request_context" where
  "receive parse fresh http =
     (let traceId = resolveTraceId fresh (hq_headers http)
      in if declared_too_large (hq_headers http)
         then Inl (rpc_refusal 413 [trace_header traceId] INVALID_REQUEST ''Request body too large'')
         else case read_body parse traceId (hq_body http) of
           Inl e \<Rightarrow> Inl e
         | Inr rawBody \<Rightarrow>
             (case parse_message traceId rawBody of
                Inl e \<Rightarrow> Inl e
              | Inr p \<Rightarrow> Inr (p, buildRequestContext (hq_headers http) traceId)))"

subsection \<open>The messages in the pipeline\<close>

definition request_of :: "string \<Rightarrow> request_context \<Rightarrow> nat \<times> string \<Rightarrow> jobject \<Rightarrow> request" where
  "request_of serverId ctx i msg =
     \<lparr>rq_serverId = serverId, rq_message = msg, rq_context = ctx, rq_caller = fst i, rq_uuid = snd i\<rparr>"

text \<open>An entry that is invalid draws no identifiers and does not reach the pipeline.\<close>

fun start_entries ::
  "('c, 'r, 'b, 'q, 'j, 'p) gateway \<Rightarrow> timestamp \<Rightarrow> string \<Rightarrow> request_context \<Rightarrow> (nat \<Rightarrow> nat \<times> string) \<Rightarrow> nat \<Rightarrow>
   batch_entry list \<Rightarrow> ('c, 'r, 'b, 'q, 'j, 'p) pipeline_state \<Rightarrow>
   progress option list \<times> ('c, 'r, 'b, 'q, 'j, 'p) pipeline_state" where
  "start_entries gw now serverId ctx ids n [] s = ([], s)"
| "start_entries gw now serverId ctx ids n (e # es) s =
     (if isInvalidBatchEntry e
      then (let (rs, s') = start_entries gw now serverId ctx ids n es s in (None # rs, s'))
      else (case e of
         InvalidEntry i \<Rightarrow> ([], s)
       | Message msg \<Rightarrow>
           (let (r, s1) = begin_request gw now (request_of serverId ctx (ids n) msg) s;
                (rs, s2) = start_entries gw now serverId ctx ids (Suc n) es s1
            in (Some r # rs, s2))))"

datatype exchange =
    Answered http_response
  | Running parsed request_context "progress option list"

definition post_mcp ::
  "('c, 'r, 'b, 'q, 'j, 'p) gateway \<Rightarrow> (string \<Rightarrow> json option) \<Rightarrow> timestamp \<Rightarrow> string \<Rightarrow> (nat \<Rightarrow> nat \<times> string) \<Rightarrow>
   endpoint \<Rightarrow> http_request \<Rightarrow> ('c, 'r, 'b, 'q, 'j, 'p) pipeline_state \<Rightarrow>
   exchange \<times> ('c, 'r, 'b, 'q, 'j, 'p) pipeline_state" where
  "post_mcp gw parse now fresh ids endpoint http s =
     (case post_target (gw_servers gw) (gw_profiles gw) endpoint of
        Inl refusal \<Rightarrow> (Answered refusal, s)
      | Inr serverId \<Rightarrow>
          (case receive parse fresh http of
             Inl refusal \<Rightarrow> (Answered refusal, s)
           | Inr (Batch es, ctx) \<Rightarrow>
               (let (rs, s') = start_entries gw now serverId ctx ids 0 es s in (Running (Batch es) ctx rs, s'))
           | Inr (Single msg, ctx) \<Rightarrow>
               (let (r, s') = begin_request gw now (request_of serverId ctx (ids 0) msg) s
                in (Running (Single msg) ctx [Some r], s'))))"

text \<open>A message that waited has been answered.\<close>

definition message_answered :: "nat \<Rightarrow> progress \<Rightarrow> exchange \<Rightarrow> exchange" where
  "message_answered i r ex = (case ex of Running p ctx rs \<Rightarrow> Running p ctx (rs[i := Some r]) | Answered h \<Rightarrow> Answered h)"

subsection \<open>The response\<close>

definition result_headers :: "string \<Rightarrow> string \<Rightarrow> core_result \<Rightarrow> (string \<times> string) list" where
  "result_headers serverId traceId r =
     [trace_header traceId, (''X-Conduit-Server-Id'', serverId)] @
     (case non_empty (res_cacheStatus r) of Some v \<Rightarrow> [(''X-Conduit-Cache-Status'', v)] | None \<Rightarrow> []) @
     (case non_empty (res_upstreamSessionId r) of Some v \<Rightarrow> [(''Mcp-Session-Id'', v)] | None \<Rightarrow> []) @
     (case res_retryAfter r of Some n \<Rightarrow> [(''Retry-After'', show_int n)] | None \<Rightarrow> [])"

definition single_response :: "string \<Rightarrow> string \<Rightarrow> jobject \<Rightarrow> progress \<Rightarrow> http_response option" where
  "single_response serverId traceId msg r =
     (case r of
        Waiting w \<Rightarrow> None
      | Thrown e \<Rightarrow>
          Some (json_response 500 [trace_header traceId]
            (response_json (buildJsonRpcError (nullish (obj_get msg ''id'') JNull) INTERNAL_ERROR e None)))
      | Ended result \<Rightarrow>
          (let headers = result_headers serverId traceId result
           in if res_isStream result
              then Some \<lparr>hp_status = 200,
                     hp_headers = headers @ [(''Cache-Control'', ''no-cache''), (''Connection'', ''keep-alive'')],
                     hp_payload = PayloadStream\<rparr>
              else if res_body result = JNull \<and> isNotificationMessage msg
              then Some \<lparr>hp_status = 202, hp_headers = headers, hp_payload = PayloadEmpty\<rparr>
              else Some (json_response 200 headers (res_body result))))"

definition entry_answer :: "batch_entry \<Rightarrow> progress option \<Rightarrow> json option" where
  "entry_answer e r =
     (if isInvalidBatchEntry e
      then Some (response_json (buildJsonRpcError (batch_entry_id e) INVALID_REQUEST
             ''Invalid JSON-RPC message in batch entry'' None))
      else case r of
        Some (Ended result) \<Rightarrow> Some (res_body result)
      | Some (Thrown e') \<Rightarrow>
          Some (response_json (buildJsonRpcError (nullish (batch_entry_id e) JNull) INTERNAL_ERROR e' None))
      | _ \<Rightarrow> None)"

definition batch_response :: "string \<Rightarrow> string \<Rightarrow> batch_entry list \<Rightarrow> progress option list \<Rightarrow> http_response option" where
  "batch_response serverId traceId es rs =
     map_option (\<lambda>answers. json_response 200 [trace_header traceId, (''X-Conduit-Server-Id'', serverId)] (JArr answers))
       (those (map2 entry_answer es rs))"

definition finish :: "string \<Rightarrow> exchange \<Rightarrow> http_response option" where
  "finish serverId ex =
     (case ex of
        Answered h \<Rightarrow> Some h
      | Running (Batch es) ctx rs \<Rightarrow> batch_response serverId (rx_traceId ctx) es rs
      | Running (Single msg) ctx rs \<Rightarrow>
          (case rs of Some r # rest \<Rightarrow> single_response serverId (rx_traceId ctx) msg r | _ \<Rightarrow> None))"

subsection \<open>The stream of notifications\<close>

definition stream_headers :: "gateway_server \<Rightarrow> string \<Rightarrow> (string, string) jsmap \<Rightarrow> (string \<times> string) list" where
  "stream_headers sc traceId headers =
     trace_header traceId #
     (if gs_forward_authorization sc = Some True \<and> gs_upstream_auth sc = None
      then (case non_empty (map_of headers ''authorization'') of Some a \<Rightarrow> [(''Authorization'', a)] | None \<Rightarrow> [])
      else [])"

text \<open>
  \<open>connect\<close> is the GET request to the upstream with the headers given: it fails, or answers
  with its status, of which 200 to 299 are good.  What was sent is returned beside the answer.
\<close>

definition get_stream ::
  "gateway_server list \<Rightarrow> (string \<Rightarrow> mcp_client option) \<Rightarrow> string \<Rightarrow> string \<Rightarrow> (string, string) jsmap \<Rightarrow>
   ((string \<times> string) list \<Rightarrow> nat option) \<Rightarrow> http_response \<times> (string \<times> string) list option" where
  "get_stream servers clients fresh serverId headers connect =
     (case find (\<lambda>sc. sc_id sc = serverId) servers of
        None \<Rightarrow> (json_response 404 [] (JObj [(''error'', JStr (''Serveur inconnu : '' @ serverId))]), None)
      | Some sc \<Rightarrow>
          (let traceId = resolveTraceId fresh headers
           in case clients serverId of
                None \<Rightarrow> (json_response 503 [] (JObj [(''error'', JStr (''Client non disponible pour : '' @ serverId))]), None)
              | Some c \<Rightarrow>
                  (let sent = sse_headers c (Some (stream_headers sc traceId headers))
                   in (case connect sent of
                         None \<Rightarrow> json_response 500 [] (JObj [(''error'', JStr ''Erreur interne du flux SSE'')])
                       | Some status \<Rightarrow>
                           (if status < 200 \<or> 300 \<le> status
                            then json_response 502 [] (JObj [(''error'',
                                   JStr (''Erreur lors de l'' @ apostrophe @ ''ouverture du flux SSE''))])
                            else \<lparr>hp_status = 200, hp_headers = [trace_header traceId,
                                   (''Cache-Control'', ''no-cache''), (''Connection'', ''keep-alive'')],
                                   hp_payload = PayloadStream\<rparr>), Some sent))))"

definition get_profile :: "gateway_server list \<Rightarrow> connect_profile_config list option \<Rightarrow> string \<Rightarrow> http_response" where
  "get_profile servers profiles profileId =
     (case resolveConnectProfile servers profiles profileId of
        Inl e \<Rightarrow> json_response 404 [] (JObj [(''error'', JStr (''Profil inconnu : '' @ profileId))])
      | Inr p \<Rightarrow> json_response 405 [] (JObj [(''error'',
          JStr ''Profile endpoints use streamable HTTP over POST. Use POST /mcp/profile/:profileId.'')]))"

subsection \<open>Lemmas\<close>

lemma read_chunks_eq:
  "seen \<le> MAX_REQUEST_BODY_BYTES \<Longrightarrow>
   read_chunks seen acc chunks = (if seen + int (length (concat chunks)) > MAX_REQUEST_BODY_BYTES then None
     else Some (acc @ concat chunks))"
  by (induction chunks arbitrary: seen acc) (auto simp: Let_def)

lemma rpc_refusal_simps [simp]:
  "hp_status (rpc_refusal n hs c m) = n" "hp_status (json_response n hs b) = n"
  "hp_headers (json_response n hs b) = hs" "hp_payload (json_response n hs b) = PayloadJson b"
  by (simp_all add: rpc_refusal_def json_response_def)

lemma read_body_eq:
  "read_body parse traceId (Some chunks) =
     (if int (length (concat chunks)) > MAX_REQUEST_BODY_BYTES
      then Inl (rpc_refusal 413 [trace_header traceId] INVALID_REQUEST ''Request body too large'')
      else case parse (concat chunks) of
        None \<Rightarrow> Inl (rpc_refusal 400 [trace_header traceId] PARSE_ERROR ''JSON parse error'')
      | Some v \<Rightarrow> Inr v)"
  by (simp add: read_body_def read_chunks_eq MAX_REQUEST_BODY_BYTES_def)

lemma parse_message_status: "parse_message traceId v = Inl resp \<Longrightarrow> hp_status resp = 400"
  by (auto simp: parse_message_def split: json.splits if_splits option.splits)

lemma receive_batch:
  assumes "\<not> declared_too_large (hq_headers http)" "hq_body http = Some chunks"
    and "int (length (concat chunks)) \<le> MAX_REQUEST_BODY_BYTES" "parse (concat chunks) = Some (JArr items)"
    and "items \<noteq> []" "length items \<le> MAX_BATCH_SIZE"
  shows "receive parse fresh http = Inr (Batch (map batch_entry_of items),
     buildRequestContext (hq_headers http) (resolveTraceId fresh (hq_headers http)))"
  using assms by (simp add: receive_def read_body_eq parse_message_def parseJsonRpcBatchPartial_def Let_def)

text \<open>The entries that start, and those that do not.\<close>

lemma start_entries_length: "length (fst (start_entries gw now srv ctx ids n es s)) = length es"
proof (induction es arbitrary: n s)
  case (Cons e es)
  then show ?case by (cases e) (simp_all add: isInvalidBatchEntry_def case_prod_unfold Let_def)
qed simp

lemma start_entries_none:
  "i < length es \<Longrightarrow> fst (start_entries gw now srv ctx ids n es s) ! i = None \<longleftrightarrow> isInvalidBatchEntry (es ! i)"
proof (induction es arbitrary: i n s)
  case (Cons e es)
  then show ?case
    by (cases e; cases i) (auto simp: isInvalidBatchEntry_def case_prod_unfold Let_def)
qed simp

lemma start_entries_filter:
  "start_entries gw now srv ctx ids n (filter (\<lambda>e. \<not> isInvalidBatchEntry e) es) s =
   (filter (\<lambda>r. r \<noteq> None) (fst (start_entries gw now srv ctx ids n es s)), snd (start_entries gw now srv ctx ids n es s))"
proof (induction es arbitrary: n s)
  case (Cons e es)
  then show ?case
    by (cases e) (auto simp: isInvalidBatchEntry_def case_prod_unfold Let_def)
qed simp

lemma those_map2_nth:
  "those (map2 f xs ys) = Some zs \<Longrightarrow> length ys = length xs \<Longrightarrow>
   length zs = length xs \<and> (\<forall>i < length xs. f (xs ! i) (ys ! i) = Some (zs ! i))"
proof (induction xs arbitrary: ys zs)
  case (Cons x xs)
  from Cons.prems(2) obtain y ys' where ys: "ys = y # ys'" by (cases ys) auto
  with Cons.prems obtain z zs' where "zs = z # zs'" "f x y = Some z" "those (map2 f xs ys') = Some zs'"
    by (auto split: option.splits)
  with Cons.IH [of ys' zs'] Cons.prems(2) ys show ?case by (auto simp: nth_Cons split: nat.split)
qed simp

definition running :: "exchange \<Rightarrow> waiting list" where
  "running ex = (case ex of
     Answered h \<Rightarrow> [] | Running p ctx rs \<Rightarrow> concat (map (\<lambda>r. case r of Some (Waiting w) \<Rightarrow> [w] | _ \<Rightarrow> []) rs))"

lemma add_waiting_eq: "add_waiting r ws = (case r of Waiting w \<Rightarrow> [w] | _ \<Rightarrow> []) @ ws"
  by (simp add: add_waiting_def split: progress.split)

lemma start_entries_run:
  "pipeline_run gw g0 (s, ws) \<Longrightarrow> start_entries gw now srv ctx ids n es s = (rs, s') \<Longrightarrow>
   pipeline_run gw g0 (s', rev (running (Running p ctx rs)) @ ws)"
proof (induction es arbitrary: n s ws rs)
  case Nil
  then show ?case by (simp add: running_def)
next
  case (Cons e es)
  show ?case
  proof (cases "isInvalidBatchEntry e")
    case True
    with Cons.prems obtain rs' where "start_entries gw now srv ctx ids n es s = (rs', s')" "rs = None # rs'"
      by (auto split: prod.splits)
    with Cons.IH [OF Cons.prems(1)] show ?thesis by (simp add: running_def)
  next
    case False
    then obtain msg where e: "e = Message msg" by (cases e) (auto simp: isInvalidBatchEntry_def)
    obtain r s1 where b: "begin_request gw now (request_of srv ctx (ids n) msg) s = (r, s1)" by force
    with Cons.prems False e obtain rs' where rs: "start_entries gw now srv ctx ids (Suc n) es s1 = (rs', s')"
      "rs = Some r # rs'" by (auto split: prod.splits)
    have "pipeline_run gw g0 (s1, add_waiting r ws)"
      by (rule pipeline_run.further [OF Cons.prems(1) pipeline_step.arrive [OF b]])
    from Cons.IH [OF this rs(1)] rs(2) show ?thesis
      by (cases r) (simp_all add: running_def add_waiting_eq)
  qed
qed

text \<open>
  The notifications of a batch are answered too: a notification the upstream accepts, which has
  no answer, leaves \<open>null\<close> in the array, where JSON-RPC wants no element.
\<close>

lemma batch_notification_is_null:
  "\<not> isInvalidBatchEntry e \<Longrightarrow> entry_answer e (Some (Ended (body_result JNull))) = Some JNull"
  by (simp add: entry_answer_def body_result_def)

text \<open>
  A valid message with a member \<open>invalid\<close> that is true is taken for a malformed one in a batch.
\<close>

lemma message_marked_invalid:
  "obj_get msg ''invalid'' = JBool True \<Longrightarrow> entry_answer (Message msg) r =
     Some (response_json (buildJsonRpcError (obj_get msg ''id'') INVALID_REQUEST
       ''Invalid JSON-RPC message in batch entry'' None))"
  by (simp add: entry_answer_def isInvalidBatchEntry_def batch_entry_id_def)

subsection \<open>Properties\<close>

text \<open>The limit on the body holds whatever the headers declare: a request is refused with status 413
  exactly when its Content-Length announces more than the limit or its chunks together exceed it;
  a refused request leaves the gateway as it was.\<close>

theorem oversized_bodies_are_refused:
  assumes "srv \<in> set (map sc_id (gw_servers gw))"
  shows "((\<exists>resp. fst (post_mcp gw parse now fresh ids (ServerEndpoint srv) http s) = Answered resp \<and> hp_status resp = 413) \<longleftrightarrow>
      declared_too_large (hq_headers http) \<or>
      (\<exists>chunks. hq_body http = Some chunks \<and> int (length (concat chunks)) > MAX_REQUEST_BODY_BYTES)) \<and>
    (\<forall>resp. fst (post_mcp gw parse now fresh ids (ServerEndpoint srv) http s) = Answered resp \<longrightarrow>
      snd (post_mcp gw parse now fresh ids (ServerEndpoint srv) http s) = s)"
proof -
  have r: "(\<exists>resp. receive parse fresh http = Inl resp \<and> hp_status resp = 413) \<longleftrightarrow>
      declared_too_large (hq_headers http) \<or>
      (\<exists>chunks. hq_body http = Some chunks \<and> int (length (concat chunks)) > MAX_REQUEST_BODY_BYTES)"
    by (cases "hq_body http")
      (auto simp: receive_def Let_def read_body_eq read_body_def [of _ _ None]
        split: sum.splits option.splits dest: parse_message_status)
  with assms show ?thesis
    by (cases "receive parse fresh http") (auto simp: post_mcp_def post_target_def split: prod.splits parsed.splits)
qed

definition large_request :: http_request where
  "large_request = \<lparr>hq_headers = [(''content-length'', ''99999999'')], hq_body = Some [''x'']\<rparr>"

theorem oversized_bodies_are_refused_witness:
  "\<exists>resp. fst (post_mcp demo_gateway (\<lambda>t. None) 0 ''t'' (\<lambda>n. (n, ''u'')) (ServerEndpoint ''crm'') large_request demo_state) =
     Answered resp \<and> hp_status resp = 413"
proof -
  have "''crm'' \<in> set (map sc_id (gw_servers demo_gateway))" by (simp add: demo_gateway_def crm_server_def)
  moreover have "declared_too_large (hq_headers large_request)"
    by (simp add: declared_too_large_def large_request_def parseInt_def MAX_REQUEST_BODY_BYTES_def is_digit_def is_space_def)
  ultimately show ?thesis using oversized_bodies_are_refused by blast
qed

text \<open>A malformed entry of a batch changes nothing for the others: the pipeline is left in the state,
  and the others get the answers, of the batch without it; the response is an array with one
  element per entry in their order, which for a malformed entry is the Invalid Request error under
  its own id.\<close>

theorem malformed_entries_are_inert:
  assumes "srv \<in> set (map sc_id (gw_servers gw))" "\<not> declared_too_large (hq_headers http)"
    and "hq_body http = Some chunks" "int (length (concat chunks)) \<le> MAX_REQUEST_BODY_BYTES"
    and "parse (concat chunks) = Some (JArr items)" "items \<noteq> []" "length items \<le> MAX_BATCH_SIZE"
  shows "\<exists>ctx rs s'. post_mcp gw parse now fresh ids (ServerEndpoint srv) http s =
      (Running (Batch (map batch_entry_of items)) ctx rs, s') \<and>
    start_entries gw now srv ctx ids 0 (filter (\<lambda>e. \<not> isInvalidBatchEntry e) (map batch_entry_of items)) s =
      (filter (\<lambda>r. r \<noteq> None) rs, s') \<and>
    (\<forall>rs' resp. length rs' = length items \<and>
       finish srv (Running (Batch (map batch_entry_of items)) ctx rs') = Some resp \<longrightarrow>
       (\<exists>answers. hp_status resp = 200 \<and> hp_payload resp = PayloadJson (JArr answers) \<and> length answers = length items \<and>
          (\<forall>i < length items. \<not> isValidJsonRpc (items ! i) \<longrightarrow>
             answers ! i = response_json (buildJsonRpcError (entry_id (items ! i)) INVALID_REQUEST
               ''Invalid JSON-RPC message in batch entry'' None))))"
proof -
  let ?es = "map batch_entry_of items" and ?ctx = "buildRequestContext (hq_headers http) (resolveTraceId fresh (hq_headers http))"
  let ?p = "start_entries gw now srv ?ctx ids 0 ?es s"
  have post: "post_mcp gw parse now fresh ids (ServerEndpoint srv) http s = (Running (Batch ?es) ?ctx (fst ?p), snd ?p)"
    using assms(1) receive_batch [where parse = parse and fresh = fresh, OF assms(2-7)] by (simp add: post_mcp_def post_target_def case_prod_unfold Let_def)
  have fin: "\<exists>answers. hp_status resp = 200 \<and> hp_payload resp = PayloadJson (JArr answers) \<and> length answers = length items \<and>
      (\<forall>i < length items. \<not> isValidJsonRpc (items ! i) \<longrightarrow>
         answers ! i = response_json (buildJsonRpcError (entry_id (items ! i)) INVALID_REQUEST
           ''Invalid JSON-RPC message in batch entry'' None))"
    if l: "length rs' = length items" and f: "finish srv (Running (Batch ?es) ?ctx rs') = Some resp" for rs' resp
  proof -
    from f obtain answers where a: "those (map2 entry_answer ?es rs') = Some answers"
      "resp = json_response 200 [trace_header (rx_traceId ?ctx), (''X-Conduit-Server-Id'', srv)] (JArr answers)"
      by (auto simp: finish_def batch_response_def)
    from those_map2_nth [OF a(1)] l
    have n: "length answers = length items" "\<forall>i < length items. entry_answer (?es ! i) (rs' ! i) = Some (answers ! i)" by simp_all
    then have "answers ! i = response_json (buildJsonRpcError (entry_id (items ! i)) INVALID_REQUEST
           ''Invalid JSON-RPC message in batch entry'' None)" if "i < length items" "\<not> isValidJsonRpc (items ! i)" for i
      using that by (force simp: entry_answer_def isInvalidBatchEntry_def batch_entry_of_def batch_entry_id_def)
    with a(2) n(1) show ?thesis by simp
  qed
  show ?thesis using post fin start_entries_filter [of gw now srv ?ctx ids 0 ?es s] by blast
qed

definition mixed_batch :: "json list" where
  "mixed_batch = [JObj [(''id'', JNum 4)], JObj (rq_message (demo_request ''k1'' ''get'' 1))]"

definition batch_request :: http_request where
  "batch_request = \<lparr>hq_headers = [(''x-api-key'', ''k1'')], hq_body = Some [''[]'']\<rparr>"

theorem malformed_entries_are_inert_witness:
  "\<exists>ctx rs s'. post_mcp demo_gateway (\<lambda>t. Some (JArr mixed_batch)) 1000 ''t'' (\<lambda>n. (n, ''u'')) (ServerEndpoint ''crm'')
      batch_request demo_state = (Running (Batch (map batch_entry_of mixed_batch)) ctx rs, s')"
proof -
  have h: "''crm'' \<in> set (map sc_id (gw_servers demo_gateway))" "\<not> declared_too_large (hq_headers batch_request)"
    "hq_body batch_request = Some [''[]'']" "int (length (concat [''[]''])) \<le> MAX_REQUEST_BODY_BYTES"
    "(\<lambda>t. Some (JArr mixed_batch)) (concat [''[]'']) = Some (JArr mixed_batch)"
    "mixed_batch \<noteq> []" "length mixed_batch \<le> MAX_BATCH_SIZE"
    by (simp_all add: demo_gateway_def crm_server_def batch_request_def declared_too_large_def mixed_batch_def
        MAX_REQUEST_BODY_BYTES_def MAX_BATCH_SIZE_def)
  from malformed_entries_are_inert [OF h] show ?thesis by blast
qed


text \<open>The stream of notifications is not guarded: it is opened for any request that names a server
  with a client, whether it authenticates or not, and it is requested from the upstream under the
  session that the client object shares between all its users.\<close>

theorem notification_stream_is_open:
  assumes "find (\<lambda>sc. sc_id sc = srv) servers = Some sc" "clients srv = Some c"
    and "gs_forward_authorization sc \<noteq> Some True"
  shows "\<exists>sent. snd (get_stream servers clients fresh srv headers connect) = Some sent \<and>
    (\<forall>id. mc_sessionId c = Some id \<and> id \<noteq> [] \<longrightarrow> map_of sent ''Mcp-Session-Id'' = Some id) \<and>
    (hp_payload (fst (get_stream servers clients fresh srv headers connect)) = PayloadStream \<longleftrightarrow>
      (\<exists>status. connect sent = Some status \<and> 200 \<le> status \<and> status < 300))"
proof -
  let ?x = "[trace_header (resolveTraceId fresh headers)]"
  have g: "stream_headers sc (resolveTraceId fresh headers) headers = ?x" using assms(3) by (simp add: stream_headers_def)
  have m: "map_of (sse_headers c (Some ?x)) ''Mcp-Session-Id'' = Some id" if "mc_sessionId c = Some id" "id \<noteq> []" for id
    using that by (simp add: sse_headers_def session_header_def assign_all_def trace_header_def map_of_obj_assign Let_def)
  show ?thesis using assms g m
    by (auto simp: get_stream_def Let_def json_response_def split: option.split)
qed

theorem notification_stream_is_open_witness:
  "\<exists>sent. snd (get_stream [crm_server] (\<lambda>i. Some \<lparr>mc_server_id = ''crm'', mc_headers = None, mc_timeout_ms = None,
     mc_sessionId = Some ''alice-session''\<rparr>) ''t'' ''crm'' [] (\<lambda>h. Some 200)) = Some sent \<and>
     map_of sent ''Mcp-Session-Id'' = Some ''alice-session''"
proof -
  let ?c = "\<lparr>mc_server_id = ''crm'', mc_headers = None, mc_timeout_ms = None, mc_sessionId = Some ''alice-session''\<rparr>"
  have h: "find (\<lambda>sc. sc_id sc = ''crm'') [crm_server] = Some crm_server" "(\<lambda>i. Some ?c) ''crm'' = Some ?c"
    "gs_forward_authorization crm_server \<noteq> Some True" by (simp_all add: crm_server_def)
  from notification_stream_is_open [where clients = "\<lambda>i. Some ?c" and fresh = "''t''" and headers = "[]" and connect = "\<lambda>h. Some 200", OF h] show ?thesis by auto
qed

end
