(* ===== verification/Stdio_Client.thy ===== *)
theory Stdio_Client
  imports Mcp_Client
begin

section \<open>Clients of child processes (src/src/proxy/stdio-mcp-client.ts)\<close>

text \<open>
  A stdio client starts its process when it is first needed, writes one JSON message per line and
  matches the lines it reads with the requests that wait, by their id.  The state is that of the
  object, with every promise numbered: \<open>sd_calls ! p\<close> is the id that the closures of promise \<open>p\<close>
  keep, \<open>sd_timers\<close> the promises whose timer runs, \<open>sd_settled\<close> what promises were settled with,
  of which only the first counts, and \<open>sd_spawned\<close> the number of processes started.  The events
  of the process, the timers and the failures of a write arrive in any order; \<open>parse\<close> is
  \<open>JSON.parse\<close>.  The command to run is an argument of the object, managed or not.
\<close>

definition FAST_FAILURE_THRESHOLD_MS :: int where "FAST_FAILURE_THRESHOLD_MS = 2000"
definition RESPAWN_BACKOFF_BASE_MS :: int where "RESPAWN_BACKOFF_BASE_MS = 250"
definition MAX_RESPAWN_BACKOFF_MS :: int where "MAX_RESPAWN_BACKOFF_MS = 30000"
definition MAX_CONSECUTIVE_FAST_FAILURES :: nat where "MAX_CONSECUTIVE_FAST_FAILURES = 10"

record stdio_client =
  sd_serverId :: string
  sd_command :: "string option"
  sd_timeout_ms :: "int option"
  sd_process :: "nat option"
  sd_spawned :: nat
  sd_stopped :: bool
  sd_lastSpawnAt :: timestamp
  sd_consecutiveFastFailures :: nat
  sd_nextRespawnAllowedAt :: timestamp
  sd_stdoutBuffer :: string
  sd_sessionId :: "string option"
  sd_nextId :: int
  sd_pending :: "(json, nat) jsmap"
  sd_calls :: "json list"
  sd_timers :: "nat list"
  sd_settled :: "(nat \<times> (string + json)) list"

definition new_stdio_client :: "string \<Rightarrow> string option \<Rightarrow> int option \<Rightarrow> stdio_client" where
  "new_stdio_client serverId command timeout_ms = \<lparr>sd_serverId = serverId, sd_command = command,
     sd_timeout_ms = timeout_ms, sd_process = None, sd_spawned = 0, sd_stopped = False, sd_lastSpawnAt = 0,
     sd_consecutiveFastFailures = 0, sd_nextRespawnAllowedAt = 0, sd_stdoutBuffer = [], sd_sessionId = None,
     sd_nextId = 1, sd_pending = [], sd_calls = [], sd_timers = [], sd_settled = []\<rparr>"

subsection \<open>Promises\<close>

definition settle_promise :: "nat \<Rightarrow> string + json \<Rightarrow> stdio_client \<Rightarrow> stdio_client" where
  "settle_promise p r c = (if p \<in> set (map fst (sd_settled c)) then c else c\<lparr>sd_settled := sd_settled c @ [(p, r)]\<rparr>)"

definition clear_timer :: "nat \<Rightarrow> stdio_client \<Rightarrow> stdio_client" where
  "clear_timer p c = c\<lparr>sd_timers := removeAll p (sd_timers c)\<rparr>"

definition drop_pending :: "json \<Rightarrow> stdio_client \<Rightarrow> stdio_client" where
  "drop_pending i c = c\<lparr>sd_pending := AList.delete i (sd_pending c)\<rparr>"

definition rejectAllPending :: "string \<Rightarrow> stdio_client \<Rightarrow> stdio_client" where
  "rejectAllPending error c =
     fold (\<lambda>(i, p) c. drop_pending i (settle_promise p (Inl error) (clear_timer p c))) (sd_pending c) c"

subsection \<open>The process\<close>

definition recordExit :: "timestamp \<Rightarrow> bool \<Rightarrow> stdio_client \<Rightarrow> stdio_client" where
  "recordExit now wasExternalSignal c =
     (if wasExternalSignal then c\<lparr>sd_consecutiveFastFailures := 0, sd_nextRespawnAllowedAt := 0\<rparr>
      else if now - sd_lastSpawnAt c < FAST_FAILURE_THRESHOLD_MS
      then (let n = sd_consecutiveFastFailures c + 1
            in c\<lparr>sd_consecutiveFastFailures := n,
                 sd_nextRespawnAllowedAt := now + min (RESPAWN_BACKOFF_BASE_MS * 2 ^ (n - 1)) MAX_RESPAWN_BACKOFF_MS\<rparr>)
      else c\<lparr>sd_consecutiveFastFailures := 0, sd_nextRespawnAllowedAt := 0\<rparr>)"

definition resetRespawnBudget :: "stdio_client \<Rightarrow> stdio_client" where
  "resetRespawnBudget c = c\<lparr>sd_consecutiveFastFailures := 0, sd_nextRespawnAllowedAt := 0\<rparr>"

definition quoted_server :: "stdio_client \<Rightarrow> string" where
  "quoted_server c = CHR 0x22 # sd_serverId c @ [CHR 0x22]"

definition ensureProcess :: "timestamp \<Rightarrow> stdio_client \<Rightarrow> (string + nat) \<times> stdio_client" where
  "ensureProcess now c =
     (case sd_process c of
        Some proc \<Rightarrow> (Inr proc, c)
      | None \<Rightarrow>
          (if sd_stopped c then (Inl (''Stdio client for '' @ quoted_server c @ '' has been shut down''), c)
           else if MAX_CONSECUTIVE_FAST_FAILURES \<le> sd_consecutiveFastFailures c
           then (Inl (''Stdio process '' @ quoted_server c @ '' failed to start '' @
                      show_nat (sd_consecutiveFastFailures c) @ '' times in a row - refusing to respawn. '' @
                      ''Reset the circuit breaker once the underlying issue is fixed.''), c)
           else if now < sd_nextRespawnAllowedAt c
           then (Inl (''Stdio process '' @ quoted_server c @ '' is in respawn cooldown ('' @
                      show_int (sd_nextRespawnAllowedAt c - now) @ ''ms remaining after '' @
                      show_nat (sd_consecutiveFastFailures c) @ '' fast failure'' @
                      (if sd_consecutiveFastFailures c = 1 then [] else ''s'') @ '')''), c)
           else if sd_command c = None \<or> sd_command c = Some []
           then (Inl (''No command configured for stdio server '' @ quoted_server c), c)
           else (Inr (sd_spawned c),
                 c\<lparr>sd_process := Some (sd_spawned c), sd_spawned := sd_spawned c + 1, sd_stdoutBuffer := [],
                   sd_lastSpawnAt := now\<rparr>)))"

definition on_exit :: "timestamp \<Rightarrow> string \<Rightarrow> bool \<Rightarrow> stdio_client \<Rightarrow> stdio_client" where
  "on_exit now status wasExternalSignal c =
     rejectAllPending (''Stdio process '' @ quoted_server c @ '' exited unexpectedly '' @ status)
       (recordExit now wasExternalSignal (c\<lparr>sd_process := None\<rparr>))"

definition on_error :: "timestamp \<Rightarrow> string \<Rightarrow> stdio_client \<Rightarrow> stdio_client" where
  "on_error now message c =
     rejectAllPending (''Stdio process '' @ quoted_server c @ '' failed: '' @ message)
       (recordExit now False (c\<lparr>sd_process := None\<rparr>))"

text \<open>The process is sent a signal; that it ends is an event of its own.\<close>

definition shutdown :: "stdio_client \<Rightarrow> stdio_client" where
  "shutdown c = rejectAllPending (''Stdio client for '' @ quoted_server c @ '' has been shut down'') (c\<lparr>sd_stopped := True\<rparr>)"

subsection \<open>Requests\<close>

definition isMcpNotification :: "jobject \<Rightarrow> bool" where
  "isMcpNotification body \<longleftrightarrow> isJsonRpcNotification body \<and>
     (case obj_get body ''method'' of JStr m \<Rightarrow> prefix ''notifications/'' m | _ \<Rightarrow> False)"

datatype stdio_answer = Failed string | Accepted | Promised nat json

definition request_id :: "jobject \<Rightarrow> stdio_client \<Rightarrow> json \<times> stdio_client" where
  "request_id message c =
     (case obj_get message ''id'' of
        JStr s \<Rightarrow> (JStr s, c)
      | JNum n \<Rightarrow> (JNum n, c)
      | _ \<Rightarrow> (JNum (sd_nextId c), c\<lparr>sd_nextId := sd_nextId c + 1\<rparr>))"

text \<open>\<open>Promised p outgoing\<close>: the message that is written and the promise of its reply.\<close>

definition stdio_doForward :: "timestamp \<Rightarrow> jobject \<Rightarrow> stdio_client \<Rightarrow> stdio_answer \<times> stdio_client" where
  "stdio_doForward now message c =
     (case ensureProcess now c of
        (Inl e, c1) \<Rightarrow> (Failed e, c1)
      | (Inr proc, c1) \<Rightarrow>
          (if isMcpNotification message then (Accepted, c1)
           else (let (i, c2) = request_id message c1; p = length (sd_calls c2)
                 in (Promised p (JObj (obj_insert ''id'' i message)),
                     c2\<lparr>sd_calls := sd_calls c2 @ [i], sd_timers := sd_timers c2 @ [p],
                        sd_pending := AList.update i p (sd_pending c2)\<rparr>))))"

definition timer_fires :: "nat \<Rightarrow> stdio_client \<Rightarrow> stdio_client" where
  "timer_fires p c =
     (if p \<in> set (sd_timers c)
      then settle_promise p (Inl (''Stdio request timeout for server '' @ quoted_server c))
             (drop_pending (sd_calls c ! p) (clear_timer p c))
      else c)"

definition write_fails :: "nat \<Rightarrow> string \<Rightarrow> stdio_client \<Rightarrow> stdio_client" where
  "write_fails p error c =
     (if p < length (sd_calls c)
      then settle_promise p (Inl error) (drop_pending (sd_calls c ! p) (clear_timer p c)) else c)"

subsection \<open>Replies\<close>

text \<open>
  Reading \<open>id\<close> of what a line parses to throws for \<open>null\<close>, which is no property access that
  returns; nothing catches it in the handler of the data, and the process of the gateway ends
  (src/src/index.ts exits on an uncaught exception): the result is \<open>None\<close>.
\<close>

definition reply_id :: "json \<Rightarrow> json" where
  "reply_id v = (case v of JObj ps \<Rightarrow> obj_get ps ''id'' | _ \<Rightarrow> JUndef)"

definition capture_reply_session :: "json \<Rightarrow> stdio_client \<Rightarrow> stdio_client" where
  "capture_reply_session v c =
     (case v of
        JObj ps \<Rightarrow> (case obj_get ps ''sessionId'' of JStr s \<Rightarrow> c\<lparr>sd_sessionId := Some s\<rparr> | _ \<Rightarrow> c)
      | _ \<Rightarrow> c)"

definition process_line :: "(string \<Rightarrow> json option) \<Rightarrow> string \<Rightarrow> stdio_client \<Rightarrow> stdio_client option" where
  "process_line parse line c =
     (if line = [] then Some c
      else case parse line of
        None \<Rightarrow> Some c
      | Some v \<Rightarrow>
          (if v = JNull then None
           else if reply_id v = JUndef \<or> reply_id v = JNull then Some c
           else case map_of (sd_pending c) (reply_id v) of
             None \<Rightarrow> Some c
           | Some p \<Rightarrow>
               Some (settle_promise p (Inr v) (capture_reply_session v (drop_pending (reply_id v) (clear_timer p c))))))"

text \<open>The loop over the complete lines of the buffer; what is left of it is the second component.\<close>

function drain_lines :: "(string \<Rightarrow> json option) \<Rightarrow> string \<Rightarrow> stdio_client \<Rightarrow> (stdio_client \<times> string) option" where
  "drain_lines parse buffer c =
     (case index_of (CHR 0x0A) buffer of
        None \<Rightarrow> Some (c, buffer)
      | Some i \<Rightarrow>
          (case process_line parse (trim (take i buffer)) c of
             None \<Rightarrow> None
           | Some c' \<Rightarrow> drain_lines parse (drop (i + 1) buffer) c'))"
  by pat_completeness auto

termination drain_lines
  by (relation "measure (\<lambda>(parse, buffer, c). length buffer)") (auto dest!: index_of_Some)

declare drain_lines.simps [simp del]

definition on_stdout :: "(string \<Rightarrow> json option) \<Rightarrow> string \<Rightarrow> stdio_client \<Rightarrow> stdio_client option" where
  "on_stdout parse chunk c =
     map_option (\<lambda>(c', rest). c'\<lparr>sd_stdoutBuffer := rest\<rparr>) (drain_lines parse (sd_stdoutBuffer c @ chunk) c)"

subsection \<open>Events\<close>

datatype stdio_event =
    Forward timestamp jobject
  | Stdout string
  | ProcessExit timestamp string bool
  | ProcessError timestamp string
  | TimerFires nat
  | WriteFails nat string
  | Shutdown
  | ResetBudget

fun stdio_step :: "(string \<Rightarrow> json option) \<Rightarrow> stdio_event \<Rightarrow> stdio_client \<Rightarrow> stdio_client option" where
  "stdio_step parse (Forward now message) c = Some (snd (stdio_doForward now message c))"
| "stdio_step parse (Stdout chunk) c = on_stdout parse chunk c"
| "stdio_step parse (ProcessExit now status signal) c = Some (on_exit now status signal c)"
| "stdio_step parse (ProcessError now message) c = Some (on_error now message c)"
| "stdio_step parse (TimerFires p) c = Some (timer_fires p c)"
| "stdio_step parse (WriteFails p e) c = Some (write_fails p e c)"
| "stdio_step parse Shutdown c = Some (shutdown c)"
| "stdio_step parse ResetBudget c = Some (resetRespawnBudget c)"

fun stdio_run :: "(string \<Rightarrow> json option) \<Rightarrow> stdio_event list \<Rightarrow> stdio_client \<Rightarrow> stdio_client option" where
  "stdio_run parse [] c = Some c"
| "stdio_run parse (e # es) c = (case stdio_step parse e c of None \<Rightarrow> None | Some c' \<Rightarrow> stdio_run parse es c')"

subsection \<open>Every request is settled once\<close>

definition stdio_ok :: "stdio_client \<Rightarrow> bool" where
  "stdio_ok c \<longleftrightarrow> distinct (sd_timers c) \<and> distinct (map fst (sd_settled c)) \<and>
     set (sd_timers c) \<inter> set (map fst (sd_settled c)) = {} \<and>
     set (sd_timers c) \<union> set (map fst (sd_settled c)) = {..<length (sd_calls c)} \<and>
     map_wf (sd_pending c) \<and>
     (\<forall>i p. (i, p) \<in> set (sd_pending c) \<longrightarrow> p \<in> set (sd_timers c) \<and> sd_calls c ! p = i) \<and>
     (\<forall>p v. (p, Inr v) \<in> set (sd_settled c) \<longrightarrow> reply_id v = sd_calls c ! p)"

definition close_call :: "nat \<Rightarrow> string + json \<Rightarrow> stdio_client \<Rightarrow> stdio_client" where
  "close_call p r c = settle_promise p r (drop_pending (sd_calls c ! p) (clear_timer p c))"

lemma close_call_fields [simp]:
  "sd_calls (close_call p r c) = sd_calls c" "sd_timers (close_call p r c) = removeAll p (sd_timers c)"
  "sd_pending (close_call p r c) = AList.delete (sd_calls c ! p) (sd_pending c)"
  "sd_process (close_call p r c) = sd_process c" "sd_spawned (close_call p r c) = sd_spawned c"
  "sd_consecutiveFastFailures (close_call p r c) = sd_consecutiveFastFailures c"
  "sd_settled (close_call p r c) =
     (if p \<in> set (map fst (sd_settled c)) then sd_settled c else sd_settled c @ [(p, r)])"
  by (simp_all add: close_call_def settle_promise_def drop_pending_def clear_timer_def)

lemma stdio_ok_close:
  assumes ok: "stdio_ok c" and p: "p < length (sd_calls c)" and r: "\<And>v. r = Inr v \<Longrightarrow> reply_id v = sd_calls c ! p"
  shows "stdio_ok (close_call p r c)"
proof -
  let ?T = "set (sd_timers c)" and ?S = "set (map fst (sd_settled c))"
  have o: "distinct (sd_timers c)" "distinct (map fst (sd_settled c))" "?T \<inter> ?S = {}" "?T \<union> ?S = {..<length (sd_calls c)}"
    "map_wf (sd_pending c)" "\<And>i p. (i, p) \<in> set (sd_pending c) \<Longrightarrow> p \<in> ?T \<and> sd_calls c ! p = i"
    "\<And>p v. (p, Inr v) \<in> set (sd_settled c) \<Longrightarrow> reply_id v = sd_calls c ! p"
    using ok unfolding stdio_ok_def by blast+
  have s: "set (map fst (sd_settled (close_call p r c))) = insert p ?S" by auto
  show ?thesis
    unfolding stdio_ok_def
  proof (intro conjI allI impI)
    show "distinct (sd_timers (close_call p r c))" using o(1) by (simp add: distinct_removeAll)
    show "distinct (map fst (sd_settled (close_call p r c)))" using o(2) by simp
    show "set (sd_timers (close_call p r c)) \<inter> set (map fst (sd_settled (close_call p r c))) = {}"
      unfolding s using o(3) by auto
    show "set (sd_timers (close_call p r c)) \<union> set (map fst (sd_settled (close_call p r c))) =
        {..<length (sd_calls (close_call p r c))}"
      unfolding s using o(4) p by auto
    show "map_wf (sd_pending (close_call p r c))" using o(5) by (simp add: map_wf_def distinct_delete)
  next
    fix i q assume "(i, q) \<in> set (sd_pending (close_call p r c))"
    then have "(i, q) \<in> set (sd_pending c)" "i \<noteq> sd_calls c ! p" by (auto simp: AList.delete_eq)
    with o(6) show "q \<in> set (sd_timers (close_call p r c))" "sd_calls (close_call p r c) ! q = i" by auto
  next
    fix q v assume "(q, Inr v) \<in> set (sd_settled (close_call p r c))"
    with o(7) r show "reply_id v = sd_calls (close_call p r c) ! q" by (auto split: if_splits)
  qed
qed

lemma rejectAll_close:
  "\<forall>(i, p) \<in> set (sd_pending c). sd_calls c ! p = i \<Longrightarrow>
   rejectAllPending e c = fold (\<lambda>(i, p). close_call p (Inl e)) (sd_pending c) c"
proof -
  have "fold (\<lambda>(i, p) c. drop_pending i (settle_promise p (Inl e) (clear_timer p c))) ps d =
      fold (\<lambda>(i, p). close_call p (Inl e)) ps d"
    if "\<forall>(i, p) \<in> set ps. sd_calls d ! p = i" for ps :: "(json \<times> nat) list" and d
    using that
  proof (induction ps arbitrary: d)
    case (Cons ip ps)
    then obtain i p where ip: "ip = (i, p)" "sd_calls d ! p = i" by (cases ip) auto
    then have "drop_pending i (settle_promise p (Inl e) (clear_timer p d)) = close_call p (Inl e) d"
      by (simp add: close_call_def drop_pending_def settle_promise_def clear_timer_def)
    with Cons ip show ?case by auto
  qed simp
  then show "\<forall>(i, p) \<in> set (sd_pending c). sd_calls c ! p = i \<Longrightarrow>
   rejectAllPending e c = fold (\<lambda>(i, p). close_call p (Inl e)) (sd_pending c) c"
    by (simp add: rejectAllPending_def)
qed

lemma stdio_ok_reject_list:
  "stdio_ok c \<Longrightarrow> \<forall>(i, p) \<in> set ps. p < length (sd_calls c) \<Longrightarrow>
   stdio_ok (fold (\<lambda>(i, p). close_call p (Inl e)) ps c)"
proof (induction ps arbitrary: c)
  case (Cons ip ps)
  obtain i p where ip: "ip = (i, p)" by force
  with Cons.prems have "stdio_ok (close_call p (Inl e) c)" by (intro stdio_ok_close) auto
  from Cons.IH [OF this] Cons.prems(2) ip show ?case by simp
qed simp

lemma stdio_ok_pending:
  "stdio_ok c \<Longrightarrow> (i, p) \<in> set (sd_pending c) \<Longrightarrow> p \<in> set (sd_timers c) \<and> p < length (sd_calls c) \<and> sd_calls c ! p = i"
  unfolding stdio_ok_def by blast

lemma stdio_ok_rejectAll:
  assumes "stdio_ok c"
  shows "stdio_ok (rejectAllPending e c)"
proof -
  have "\<forall>(i, p) \<in> set (sd_pending c). sd_calls c ! p = i" "\<forall>(i, p) \<in> set (sd_pending c). p < length (sd_calls c)"
    using stdio_ok_pending [OF assms] by blast+
  then show ?thesis using stdio_ok_reject_list [OF assms] by (simp add: rejectAll_close)
qed

text \<open>Only these fields matter to the invariant.\<close>

lemma stdio_ok_cong:
  "sd_calls c' = sd_calls c \<Longrightarrow> sd_timers c' = sd_timers c \<Longrightarrow> sd_pending c' = sd_pending c \<Longrightarrow>
   sd_settled c' = sd_settled c \<Longrightarrow> stdio_ok c' = stdio_ok c"
  by (simp add: stdio_ok_def)

lemma recordExit_fields [simp]:
  "sd_calls (recordExit now sig c) = sd_calls c" "sd_timers (recordExit now sig c) = sd_timers c"
  "sd_pending (recordExit now sig c) = sd_pending c" "sd_settled (recordExit now sig c) = sd_settled c"
  "sd_process (recordExit now sig c) = sd_process c" "sd_spawned (recordExit now sig c) = sd_spawned c"
  by (simp_all add: recordExit_def Let_def)

lemma ensureProcess_fields:
  "ensureProcess now c = (r, c') \<Longrightarrow> sd_calls c' = sd_calls c \<and> sd_timers c' = sd_timers c \<and>
   sd_pending c' = sd_pending c \<and> sd_settled c' = sd_settled c"
  by (auto simp: ensureProcess_def split: option.splits if_splits)

lemma request_id_fields [simp]:
  "sd_calls (snd (request_id m c)) = sd_calls c" "sd_timers (snd (request_id m c)) = sd_timers c"
  "sd_pending (snd (request_id m c)) = sd_pending c" "sd_settled (snd (request_id m c)) = sd_settled c"
  "sd_process (snd (request_id m c)) = sd_process c" "sd_spawned (snd (request_id m c)) = sd_spawned c"
  "sd_consecutiveFastFailures (snd (request_id m c)) = sd_consecutiveFastFailures c"
  by (simp_all add: request_id_def split: json.split)

lemma stdio_ok_register:
  assumes "stdio_ok c"
  shows "stdio_ok (c\<lparr>sd_calls := sd_calls c @ [i], sd_timers := sd_timers c @ [length (sd_calls c)],
    sd_pending := AList.update i (length (sd_calls c)) (sd_pending c)\<rparr>)"
proof -
  have old: "p < length (sd_calls c)" if "p \<in> set (sd_timers c) \<union> set (map fst (sd_settled c))" for p
    using that assms by (auto simp: stdio_ok_def)
  have "p \<in> insert (length (sd_calls c)) (set (sd_timers c)) \<and> (sd_calls c @ [i]) ! p = j"
    if "(j, p) \<in> set (AList.update i (length (sd_calls c)) (sd_pending c))" for j p
  proof (cases "j = i \<and> p = length (sd_calls c)")
    case False
    have wf: "map_wf (sd_pending c)" using assms by (simp add: stdio_ok_def)
    from that wf have "map_of (AList.update i (length (sd_calls c)) (sd_pending c)) j = Some p"
      by (simp add: map_wf_def distinct_update)
    with False have "map_of (sd_pending c) j = Some p" by (auto simp: update_conv' split: if_splits)
    then have "(j, p) \<in> set (sd_pending c)" by (rule map_of_SomeD)
    with assms old show ?thesis by (auto simp: stdio_ok_def nth_append)
  qed simp
  moreover have "map_wf (AList.update i (length (sd_calls c)) (sd_pending c))"
    using assms by (simp add: stdio_ok_def map_wf_def distinct_update)
  moreover have "reply_id v = (sd_calls c @ [i]) ! p" if "(p, Inr v) \<in> set (sd_settled c)" for p v
  proof -
    from that have "p < length (sd_calls c)" by (intro old) force
    with assms that show ?thesis by (simp add: stdio_ok_def nth_append)
  qed
  ultimately show ?thesis
    using assms by (auto simp: stdio_ok_def lessThan_Suc dest!: old)
qed

lemma stdio_ok_line:
  assumes "stdio_ok c" "process_line parse line c = Some c'"
  shows "stdio_ok c'"
proof -
  have "stdio_ok (settle_promise p (Inr v) (capture_reply_session v (drop_pending (reply_id v) (clear_timer p c))))"
    if m: "map_of (sd_pending c) (reply_id v) = Some p" for v p
  proof -
    have p: "p < length (sd_calls c)" "sd_calls c ! p = reply_id v"
      using stdio_ok_pending [OF assms(1) map_of_SomeD [OF m]] by simp_all
    have "stdio_ok (close_call p (Inr v) c)" by (rule stdio_ok_close [OF assms(1) p(1)]) (use p(2) in auto)
    also have "stdio_ok (close_call p (Inr v) c) =
        stdio_ok (settle_promise p (Inr v) (capture_reply_session v (drop_pending (reply_id v) (clear_timer p c))))"
      by (rule stdio_ok_cong) (simp_all add: close_call_def settle_promise_def capture_reply_session_def drop_pending_def
          clear_timer_def p(2) split: json.split)
    finally show ?thesis .
  qed
  with assms show ?thesis by (auto simp: process_line_def split: if_splits option.splits)
qed

lemma stdio_ok_drain: "drain_lines parse buffer c = Some (c', rest) \<Longrightarrow> stdio_ok c \<Longrightarrow> stdio_ok c'"
proof (induction parse buffer c rule: drain_lines.induct)
  case (1 parse buffer c)
  show ?case
  proof (cases "index_of (CHR 0x0A) buffer")
    case None
    with 1(2,3) show ?thesis by (simp add: drain_lines.simps [of parse buffer])
  next
    case (Some i)
    with 1(2) obtain d where d: "process_line parse (trim (take i buffer)) c = Some d"
      "drain_lines parse (drop (i + 1) buffer) d = Some (c', rest)"
      by (auto simp: drain_lines.simps [of parse buffer] split: option.splits)
    from 1(1) [OF Some d(1) d(2) stdio_ok_line [OF 1(3) d(1)]] show ?thesis .
  qed
qed

lemma stdio_ok_step: "stdio_step parse e c = Some c' \<Longrightarrow> stdio_ok c \<Longrightarrow> stdio_ok c'"
proof (cases e)
  case (Forward now message)
  assume "stdio_step parse e c = Some c'" and ok: "stdio_ok c"
  then have c': "c' = snd (stdio_doForward now message c)" by (simp add: Forward)
  obtain r c1 where e: "ensureProcess now c = (r, c1)" by force
  have ok1: "stdio_ok c1" using ensureProcess_fields [OF e] ok stdio_ok_cong [of c1 c] by simp
  have "stdio_ok (snd (request_id message c1))" using ok1 stdio_ok_cong [of "snd (request_id message c1)" c1] by simp
  from stdio_ok_register [OF this] ok1 show ?thesis
    by (simp add: c' stdio_doForward_def e Let_def case_prod_unfold split: sum.split)
next
  case (Stdout chunk)
  assume "stdio_step parse e c = Some c'" "stdio_ok c"
  then obtain d rest where "drain_lines parse (sd_stdoutBuffer c @ chunk) c = Some (d, rest)" "c' = d\<lparr>sd_stdoutBuffer := rest\<rparr>"
    by (auto simp: Stdout on_stdout_def)
  with stdio_ok_drain \<open>stdio_ok c\<close> have "stdio_ok d" by blast
  then show ?thesis using \<open>c' = _\<close> stdio_ok_cong [of c' d] by simp
next
  case (TimerFires p)
  assume "stdio_step parse e c = Some c'" and ok: "stdio_ok c"
  moreover have "p < length (sd_calls c)" if "p \<in> set (sd_timers c)" using ok that by (auto simp: stdio_ok_def)
  ultimately show ?thesis using stdio_ok_close [OF ok, of p "Inl (''Stdio request timeout for server '' @ quoted_server c)"]
    by (auto simp: TimerFires timer_fires_def close_call_def split: if_splits)
next
  case (WriteFails p err)
  assume "stdio_step parse e c = Some c'" and ok: "stdio_ok c"
  then show ?thesis using stdio_ok_close [OF ok, of p "Inl err"]
    by (auto simp: WriteFails write_fails_def close_call_def split: if_splits)
qed (auto simp: on_exit_def on_error_def shutdown_def resetRespawnBudget_def intro!: stdio_ok_rejectAll
      elim!: stdio_ok_cong [THEN iffD1, rotated -1])

lemma stdio_ok_run: "stdio_run parse es c = Some c' \<Longrightarrow> stdio_ok c \<Longrightarrow> stdio_ok c'"
  by (induction es arbitrary: c) (auto split: option.splits dest: stdio_ok_step)

lemma stdio_ok_new: "stdio_ok (new_stdio_client i cmd t)"
  by (simp add: stdio_ok_def new_stdio_client_def map_wf_def)

text \<open>C21. Whatever the process, the timers and the callers do, no caller is forgotten and none is answered
  twice: every request that was written has either its timer running or its promise settled, and
  a reply that settled a promise carries the id that was sent for it.\<close>

theorem stdio_requests_are_settled_once:
  assumes "stdio_run parse es (new_stdio_client srv cmd t) = Some c" "p < length (sd_calls c)"
  shows "(p \<in> set (sd_timers c)) \<noteq> (p \<in> set (map fst (sd_settled c))) \<and> distinct (map fst (sd_settled c)) \<and>
    (\<forall>v. (p, Inr v) \<in> set (sd_settled c) \<longrightarrow> reply_id v = sd_calls c ! p)"
  using stdio_ok_run [OF assms(1) stdio_ok_new] assms(2) by (auto simp: stdio_ok_def)

definition quiet_client :: stdio_client where
  "quiet_client = new_stdio_client ''files'' (Some ''node'') None"

definition plain_request :: "json \<Rightarrow> jobject" where
  "plain_request i = [(''jsonrpc'', JStr ''2.0''), (''id'', i), (''method'', JStr ''tools/call'')]"

theorem stdio_requests_are_settled_once_witness:
  "case stdio_run (\<lambda>t. None) [Forward 5000 (plain_request (JNum 1)), ProcessExit 5100 ''(code=1)'' False] quiet_client of
     Some c \<Rightarrow> 0 < length (sd_calls c) \<and> (0 \<in> set (sd_timers c)) \<noteq> (0 \<in> set (map fst (sd_settled c)))
   | None \<Rightarrow> False"
proof -
  let ?run = "stdio_run (\<lambda>t. None) [Forward 5000 (plain_request (JNum 1)), ProcessExit 5100 ''(code=1)'' False] quiet_client"
  have n: "case ?run of Some c \<Rightarrow> 0 < length (sd_calls c) | None \<Rightarrow> False" by code_simp
  show ?thesis
  proof (cases ?run)
    case None
    with n show ?thesis by (simp only: option.case)
  next
    case (Some c)
    with n have l: "0 < length (sd_calls c)" by (simp only: option.case)
    from stdio_requests_are_settled_once [OF Some [unfolded quiet_client_def] l] l Some show ?thesis
      by (simp only: option.case simp_thms)
  qed
qed

subsection \<open>A process that keeps crashing\<close>

text \<open>
  The events of a crash loop: every process ends by itself within two seconds of its start, and
  nobody resets the budget.
\<close>

fun crash_loop :: "(string \<Rightarrow> json option) \<Rightarrow> stdio_event list \<Rightarrow> stdio_client \<Rightarrow> bool" where
  "crash_loop parse [] c = True"
| "crash_loop parse (e # es) c =
     ((case e of
         ProcessExit now status signal \<Rightarrow> \<not> signal \<and> now - sd_lastSpawnAt c < FAST_FAILURE_THRESHOLD_MS
       | ProcessError now message \<Rightarrow> now - sd_lastSpawnAt c < FAST_FAILURE_THRESHOLD_MS
       | ResetBudget \<Rightarrow> False
       | _ \<Rightarrow> True) \<and>
      (case stdio_step parse e c of None \<Rightarrow> True | Some c' \<Rightarrow> crash_loop parse es c'))"

definition spawns_ok :: "stdio_client \<Rightarrow> bool" where
  "spawns_ok c \<longleftrightarrow> sd_spawned c \<le> MAX_CONSECUTIVE_FAST_FAILURES \<and>
     sd_spawned c \<le> sd_consecutiveFastFailures c + (if sd_process c = None then 0 else 1)"

lemma spawns_ok_cong:
  "sd_spawned c' = sd_spawned c \<Longrightarrow> sd_consecutiveFastFailures c' = sd_consecutiveFastFailures c \<Longrightarrow>
   sd_process c' = sd_process c \<Longrightarrow> spawns_ok c' = spawns_ok c"
  by (simp add: spawns_ok_def)

lemma settle_same [simp]:
  "sd_spawned (settle_promise p r c) = sd_spawned c" "sd_process (settle_promise p r c) = sd_process c"
  "sd_consecutiveFastFailures (settle_promise p r c) = sd_consecutiveFastFailures c"
  "sd_spawned (drop_pending i c) = sd_spawned c" "sd_process (drop_pending i c) = sd_process c"
  "sd_consecutiveFastFailures (drop_pending i c) = sd_consecutiveFastFailures c"
  "sd_spawned (clear_timer p c) = sd_spawned c" "sd_process (clear_timer p c) = sd_process c"
  "sd_consecutiveFastFailures (clear_timer p c) = sd_consecutiveFastFailures c"
  "sd_spawned (capture_reply_session v c) = sd_spawned c" "sd_process (capture_reply_session v c) = sd_process c"
  "sd_consecutiveFastFailures (capture_reply_session v c) = sd_consecutiveFastFailures c"
  by (simp_all add: settle_promise_def drop_pending_def clear_timer_def capture_reply_session_def split: json.split)

lemma spawns_simps [simp]:
  "spawns_ok (settle_promise p r c) = spawns_ok c" "spawns_ok (drop_pending i c) = spawns_ok c"
  "spawns_ok (clear_timer p c) = spawns_ok c" "spawns_ok (capture_reply_session v c) = spawns_ok c"
  "spawns_ok (c\<lparr>sd_stopped := b\<rparr>) = spawns_ok c" "spawns_ok (c\<lparr>sd_stdoutBuffer := t\<rparr>) = spawns_ok c"
  by (simp_all add: spawns_ok_def)

lemma spawns_rejectAll [simp]: "spawns_ok (rejectAllPending e c) = spawns_ok c"
proof -
  have "spawns_ok (fold (\<lambda>(i, p) c. drop_pending i (settle_promise p (Inl e) (clear_timer p c))) ps d) = spawns_ok d"
    for ps :: "(json \<times> nat) list" and d
  proof (induction ps arbitrary: d)
    case (Cons ip ps)
    obtain i p where "ip = (i, p)" by force
    with Cons.IH [of "drop_pending i (settle_promise p (Inl e) (clear_timer p d))"] show ?case by simp
  qed simp
  then show ?thesis by (simp add: rejectAllPending_def)
qed

lemma spawns_drain: "drain_lines parse buffer c = Some (c', rest) \<Longrightarrow> spawns_ok c' = spawns_ok c"
proof (induction parse buffer c rule: drain_lines.induct)
  case (1 parse buffer c)
  show ?case
  proof (cases "index_of (CHR 0x0A) buffer")
    case None
    with 1(2) show ?thesis by (simp add: drain_lines.simps [of parse buffer])
  next
    case (Some i)
    with 1(2) obtain d where d: "process_line parse (trim (take i buffer)) c = Some d"
      "drain_lines parse (drop (i + 1) buffer) d = Some (c', rest)"
      by (auto simp: drain_lines.simps [of parse buffer] split: option.splits)
    have "spawns_ok d = spawns_ok c"
      using d(1) by (auto simp: process_line_def split: if_splits option.splits)
    with 1(1) [OF Some d(1) d(2)] show ?thesis by simp
  qed
qed

lemma spawns_recordExit:
  "spawns_ok c \<Longrightarrow> now - sd_lastSpawnAt c < FAST_FAILURE_THRESHOLD_MS \<Longrightarrow>
   spawns_ok (recordExit now False (c\<lparr>sd_process := None\<rparr>))"
  by (auto simp: spawns_ok_def recordExit_def Let_def split: if_splits)

lemma spawns_forward: "spawns_ok c \<Longrightarrow> spawns_ok (snd (stdio_doForward now message c))"
proof -
  assume ok: "spawns_ok c"
  obtain r c1 where e: "ensureProcess now c = (r, c1)" by force
  have "spawns_ok c1"
    using e ok by (auto simp: ensureProcess_def spawns_ok_def split: option.splits if_splits)
  moreover have "spawns_ok (snd (request_id message c1)) = spawns_ok c1" by (rule spawns_ok_cong) simp_all
  ultimately show ?thesis
    by (auto simp: stdio_doForward_def e Let_def case_prod_unfold spawns_ok_def split: sum.split)
qed

lemma spawns_step:
  assumes "stdio_step parse e c = Some c'" "crash_loop parse (e # es) c" "spawns_ok c"
  shows "spawns_ok c'"
proof (cases e)
  case (Forward now message)
  with assms spawns_forward show ?thesis by auto
next
  case (Stdout chunk)
  with assms(1) obtain d rest where d: "drain_lines parse (sd_stdoutBuffer c @ chunk) c = Some (d, rest)"
    "c' = d\<lparr>sd_stdoutBuffer := rest\<rparr>" by (auto simp: on_stdout_def)
  from spawns_drain [OF d(1)] assms(3) d(2) spawns_ok_cong [of c' d] show ?thesis by simp
next
  case (TimerFires p)
  with assms show ?thesis by (auto simp: timer_fires_def)
next
  case (WriteFails p err)
  with assms show ?thesis by (auto simp: write_fails_def)
next
  case Shutdown
  with assms show ?thesis by (auto simp: shutdown_def)
qed (use assms spawns_recordExit in \<open>auto simp: on_exit_def on_error_def\<close>)

lemma spawns_run:
  "stdio_run parse es c = Some c' \<Longrightarrow> crash_loop parse es c \<Longrightarrow> spawns_ok c \<Longrightarrow> spawns_ok c'"
proof (induction es arbitrary: c)
  case (Cons e es)
  then obtain d where d: "stdio_step parse e c = Some d" "stdio_run parse es d = Some c'" by (auto split: option.splits)
  with Cons.prems(2) have "crash_loop parse es d" by simp
  with Cons.IH [OF d(2)] spawns_step [OF d(1) Cons.prems(2,3)] show ?case by blast
qed simp


text \<open>
  The budget is used up for good: nothing but \<open>resetRespawnBudget\<close> starts the process again, and no
  code calls it; resetting the circuit breaker, as the message says, does not.
\<close>

lemma exhausted_budget_is_final:
  "sd_process c = None \<Longrightarrow> 10 \<le> sd_consecutiveFastFailures c \<Longrightarrow>
   \<exists>e. stdio_doForward now message c = (Failed e, c)"
  by (auto simp: stdio_doForward_def ensureProcess_def MAX_CONSECUTIVE_FAST_FAILURES_def)

subsection \<open>Lines of the process\<close>

lemma stdio_run_single: "stdio_run parse [e] c = stdio_step parse e c"
  by (simp split: option.split)

lemma drain_one_line:
  assumes "CHR 0x0A \<notin> set line" "process_line parse (trim line) c = Some c'"
  shows "drain_lines parse (line @ [CHR 0x0A]) c = Some (c', [])"
proof -
  have i: "index_of (CHR 0x0A) (line @ [CHR 0x0A]) = Some (length line)"
    using assms(1) by (induction line) auto
  show ?thesis
    by (subst drain_lines.simps) (simp add: i assms(2) drain_lines.simps [of parse "[]"])
qed

text \<open>A line \<open>null\<close> on the output of a child process is no reply and no error: reading its id throws in
  the handler of the data, where nothing catches it, so that the gateway itself exits, whatever the
  state of the client.\<close>

theorem null_line_ends_the_gateway:
  assumes "parse ''null'' = Some JNull" "sd_stdoutBuffer c = []"
  shows "stdio_step parse (Stdout (''null'' @ [CHR 0x0A])) c = None"
proof -
  have t: "trim ''null'' = ''null''" by (simp add: trim_def is_space_def)
  have "drain_lines parse (''null'' @ [CHR 0x0A]) c = None"
    by (subst drain_lines.simps) (simp add: process_line_def t assms(1))
  with assms(2) show ?thesis by (simp add: on_stdout_def)
qed

theorem null_line_ends_the_gateway_witness:
  "stdio_step (\<lambda>t. if t = ''null'' then Some JNull else None) (Stdout (''null'' @ [CHR 0x0A])) quiet_client = None"
proof -
  have "sd_stdoutBuffer quiet_client = []" by (simp add: quiet_client_def new_stdio_client_def)
  from null_line_ends_the_gateway [of "\<lambda>t. if t = ''null'' then Some JNull else None", OF _ this] show ?thesis by simp
qed

lemma forward_promised:
  "sd_process c = Some proc \<Longrightarrow> request_id m c = (i, c) \<Longrightarrow> stdio_doForward now m c = (Promised p out, c') \<Longrightarrow>
   p = length (sd_calls c) \<and> c' = c\<lparr>sd_calls := sd_calls c @ [i], sd_timers := sd_timers c @ [p],
     sd_pending := AList.update i p (sd_pending c)\<rparr>"
  by (auto simp: stdio_doForward_def ensureProcess_def Let_def split: if_splits)

text \<open>The ids of the callers are used as they are: when two callers of one client have requests with
  the same id on their way, the reply that comes first, which is the one to the first of them,
  is delivered to the second, and the first gets nothing before its timer runs out.\<close>

theorem colliding_ids_cross_answers:
  assumes "stdio_ok c" "sd_process c = Some proc" "sd_stdoutBuffer c = []"
    and "obj_get m1 ''id'' = i" "obj_get m2 ''id'' = i" "(\<exists>n. i = JNum n) \<or> (\<exists>t. i = JStr t)"
    and "stdio_doForward now m1 c = (Promised p1 o1, c1)" "stdio_doForward later m2 c1 = (Promised p2 o2, c2)"
    and "CHR 0x0A \<notin> set line" "trim line \<noteq> []" "parse (trim line) = Some v" "reply_id v = i"
  shows "p1 \<noteq> p2 \<and> (case stdio_step parse (Stdout (line @ [CHR 0x0A])) c2 of
      None \<Rightarrow> False
    | Some c3 \<Rightarrow> (p2, Inr v) \<in> set (sd_settled c3) \<and> p1 \<notin> set (map fst (sd_settled c3)) \<and> p1 \<in> set (sd_timers c3) \<and>
        i \<notin> set (map fst (sd_pending c3)))"
proof -
  have id: "request_id m1 d = (i, d)" "request_id m2 d = (i, d)" for d
    using assms(4-6) by (auto simp: request_id_def)
  note c1 = forward_promised [OF assms(2) id(1) assms(7)]
  then have pr: "sd_process c1 = Some proc" using assms(2) by simp
  from forward_promised [OF pr id(2) assms(8)] c1
  have c2: "p2 = Suc p1" "c2 = c1\<lparr>sd_calls := sd_calls c1 @ [i], sd_timers := sd_timers c1 @ [p2],
      sd_pending := AList.update i p2 (sd_pending c1)\<rparr>" by simp_all
  have c1: "p1 = length (sd_calls c)" "c1 = c\<lparr>sd_calls := sd_calls c @ [i], sd_timers := sd_timers c @ [p1],
      sd_pending := AList.update i p1 (sd_pending c)\<rparr>" using c1 by simp_all
  have old: "q < length (sd_calls c)" if "q \<in> set (map fst (sd_settled c))" for q
    using assms(1) that unfolding stdio_ok_def by blast
  have n: "p1 \<notin> set (map fst (sd_settled c))" "p2 \<notin> set (map fst (sd_settled c))"
    using old c1(1) c2(1) by fastforce+
  have v: "v \<noteq> JNull" "i \<noteq> JUndef" "i \<noteq> JNull" using assms(6,12) by (auto simp: reply_id_def)
  let ?c3 = "settle_promise p2 (Inr v) (capture_reply_session v (drop_pending i (clear_timer p2 c2)))"
  have "map_of (sd_pending c2) i = Some p2" by (simp add: c2(2) update_conv')
  then have "process_line parse (trim line) c2 = Some ?c3"
    using assms(10-12) v by (simp add: process_line_def)
  from drain_one_line [where parse = parse, OF assms(9) this]
  have s: "stdio_step parse (Stdout (line @ [CHR 0x0A])) c2 = Some (?c3\<lparr>sd_stdoutBuffer := []\<rparr>)"
    using assms(3) by (simp add: on_stdout_def c2(2) c1(2))
  have set: "sd_settled (capture_reply_session v (drop_pending i (clear_timer p2 c2))) = sd_settled c"
    "sd_timers ?c3 = removeAll p2 (sd_timers c2)" "sd_pending ?c3 = AList.delete i (sd_pending c2)"
    by (simp_all add: settle_promise_def capture_reply_session_def drop_pending_def clear_timer_def c1(2) c2(2) split: json.split)
  have "sd_settled ?c3 = sd_settled c @ [(p2, Inr v)]"
    using n(2) set(1) by (simp add: settle_promise_def)
  moreover have "p1 \<in> set (sd_timers ?c3)" unfolding set(2) using c2(1) by (simp add: c2(2) c1(2))
  moreover have "i \<notin> set (map fst (sd_pending ?c3))" unfolding set(3) by (auto simp: AList.delete_eq)
  ultimately show ?thesis using n c2(1) unfolding s by simp
qed

theorem colliding_ids_cross_answers_witness:
  "case stdio_run (\<lambda>t. Some (JObj [(''id'', JNum 1), (''result'', JStr t)]))
      [Forward 5000 (plain_request (JNum 1)), Forward 5001 (plain_request (JNum 1)), Stdout (''first'' @ [CHR 0x0A])]
      quiet_client of
     None \<Rightarrow> False
   | Some c \<Rightarrow> (1, Inr (JObj [(''id'', JNum 1), (''result'', JStr ''first'')])) \<in> set (sd_settled c) \<and> 0 \<in> set (sd_timers c)"
proof -
  let ?m = "plain_request (JNum 1)" and ?parse = "\<lambda>t. Some (JObj [(''id'', JNum 1), (''result'', JStr t)])"
  let ?c = "snd (ensureProcess 5000 quiet_client)"
  let ?r1 = "stdio_doForward 5000 ?m ?c"
  let ?r2 = "stdio_doForward 5001 ?m (snd ?r1)"
  have ok: "stdio_ok ?c"
    using stdio_ok_new [of "''files''" "Some ''node''" None] stdio_ok_cong [of ?c quiet_client]
      ensureProcess_fields [of 5000 quiet_client] by (metis prod.collapse quiet_client_def)
  have pr: "sd_process ?c = Some 0" "sd_stdoutBuffer ?c = []"
    by (simp_all add: quiet_client_def new_stdio_client_def ensureProcess_def MAX_CONSECUTIVE_FAST_FAILURES_def)
  have i: "obj_get ?m ''id'' = JNum 1" by (simp add: plain_request_def obj_get_def)
  have f: "?r1 = (Promised 0 (JObj (obj_insert ''id'' (JNum 1) ?m)), snd ?r1)"
    "?r2 = (Promised 1 (JObj (obj_insert ''id'' (JNum 1) ?m)), snd ?r2)"
    by (code_simp, code_simp)
  have t: "trim ''first'' = ''first''" by (simp add: trim_def is_space_def)
  have h: "CHR 0x0A \<notin> set ''first''" "trim ''first'' \<noteq> []"
    "?parse (trim ''first'') = Some (JObj [(''id'', JNum 1), (''result'', JStr ''first'')])"
    "reply_id (JObj [(''id'', JNum 1), (''result'', JStr ''first'')]) = JNum 1"
    by (simp_all add: t reply_id_def obj_get_def)
  have same: "stdio_doForward 5000 ?m quiet_client = ?r1"
    by (simp add: stdio_doForward_def ensureProcess_def quiet_client_def new_stdio_client_def MAX_CONSECUTIVE_FAST_FAILURES_def)
  have n: "(\<exists>n. JNum 1 = JNum n) \<or> (\<exists>t. JNum 1 = JStr t)" by blast
  note x = colliding_ids_cross_answers [where parse = ?parse, OF ok pr i i n f h]
  have run: "stdio_run ?parse [Forward 5000 ?m, Forward 5001 ?m, Stdout (''first'' @ [CHR 0x0A])] quiet_client =
      stdio_step ?parse (Stdout (''first'' @ [CHR 0x0A])) (snd ?r2)"
    by (simp only: stdio_run.simps(2) [of _ "Forward _ _"] stdio_step.simps(1) option.case same stdio_run_single)
  show ?thesis
  proof (cases "stdio_step ?parse (Stdout (''first'' @ [CHR 0x0A])) (snd ?r2)")
    case None
    with x show ?thesis by (simp only: option.case simp_thms)
  next
    case (Some c3)
    with x show ?thesis unfolding run Some option.case by blast
  qed
qed


end
