(* ===== verification/Url_Validator.thy ===== *)
theory Url_Validator
  imports Json "HOL-Library.Word"
begin

section \<open>Targets of requests (src/src/utils/url-validator.ts)\<close>

text \<open>
  The guard against requests to private addresses.  \<open>parse_url\<close> is the constructor of \<open>URL\<close> of
  which the code reads four members (\<open>None\<close>: it throws), \<open>lookup\<close> the resolver (\<open>None\<close>: the
  lookup fails).  \<open>isIP\<close> of the platform is written out: dotted quads without leading zeros, and
  IPv6 text with at most one \<open>::\<close>, a dotted quad in the last place and a zone.
\<close>

unbundle bit_operations_syntax

record parsed_url =
  pu_protocol :: string
  pu_username :: string
  pu_password :: string
  pu_hostname :: string

subsection \<open>Address literals\<close>

definition dotted_part :: "string \<Rightarrow> bool" where
  "dotted_part p \<longleftrightarrow> p \<noteq> [] \<and> length p \<le> 3 \<and> list_all is_digit p"

definition octet_part :: "string \<Rightarrow> bool" where
  "octet_part p \<longleftrightarrow> dotted_part p \<and> (length p = 1 \<or> hd p \<noteq> CHR ''0'') \<and> parse_nat 0 p \<le> 255"

definition isIPv4 :: "string \<Rightarrow> bool" where
  "isIPv4 s \<longleftrightarrow> length (split_on (CHR ''.'') s) = 4 \<and> list_all octet_part (split_on (CHR ''.'') s)"

definition is_hex_char :: "char \<Rightarrow> bool" where
  "is_hex_char c = (let n = (of_char c :: nat) in (48 \<le> n \<and> n \<le> 57) \<or> (97 \<le> n \<and> n \<le> 102))"

definition hex_part :: "string \<Rightarrow> bool" where
  "hex_part p \<longleftrightarrow> p \<noteq> [] \<and> length p \<le> 4 \<and> list_all is_hex_char p"

text \<open>The number of groups of a side of \<open>::\<close>, a dotted quad in the last place counting for two.\<close>

fun count_groups :: "bool \<Rightarrow> string list \<Rightarrow> nat option" where
  "count_groups dotted_last [] = Some 0"
| "count_groups dotted_last [p] =
     (if hex_part p then Some 1 else if dotted_last \<and> isIPv4 p then Some 2 else None)"
| "count_groups dotted_last (p # ps) = (if hex_part p then map_option Suc (count_groups dotted_last ps) else None)"

definition side_groups :: "bool \<Rightarrow> string \<Rightarrow> nat option" where
  "side_groups dotted_last s = (if s = [] then Some 0 else count_groups dotted_last (split_on (CHR '':'') s))"

text \<open>The text before and after the first \<open>::\<close>.\<close>

fun cut_double :: "string \<Rightarrow> (string \<times> string) option" where
  "cut_double (a # b # s) =
     (if a = CHR '':'' \<and> b = CHR '':'' then Some ([], s)
      else map_option (\<lambda>(l, r). (a # l, r)) (cut_double (b # s)))"
| "cut_double _ = None"

definition zone_char :: "char \<Rightarrow> bool" where
  "zone_char c \<longleftrightarrow> is_digit c \<or> (let n = (of_char c :: nat) in (97 \<le> n \<and> n \<le> 122) \<or> (65 \<le> n \<and> n \<le> 90)) \<or>
     c \<in> set ''-.:''"

definition isIPv6 :: "string \<Rightarrow> bool" where
  "isIPv6 s =
     (let address = takeWhile (\<lambda>c. c \<noteq> CHR ''%'') s; zone = drop (length address) s
      in (zone = [] \<or> (tl zone \<noteq> [] \<and> list_all zone_char (tl zone))) \<and>
         (case cut_double (map lower_char address) of
            None \<Rightarrow> side_groups True (map lower_char address) = Some 8
          | Some (l, r) \<Rightarrow>
              (case (side_groups False l, side_groups True r) of
                 (Some m, Some n) \<Rightarrow> m + n \<le> 7
               | _ \<Rightarrow> False)))"

definition isIP :: "string \<Rightarrow> nat" where
  "isIP s = (if isIPv4 s then 4 else if isIPv6 s then 6 else 0)"

subsection \<open>Blocked addresses\<close>

text \<open>\<open>Number(part)\<close> on the parts that reach it, which are digits.\<close>

definition number_of_part :: "string \<Rightarrow> int option" where
  "number_of_part p = (if list_all is_digit p then Some (int (parse_nat 0 p)) else None)"

definition blocked_octets :: "int \<Rightarrow> int \<Rightarrow> string option" where
  "blocked_octets a b =
     (if a = 0 then Some ''Blocked private IP (current network): ''
      else if a = 10 then Some ''Blocked private IP (RFC 1918 class A): ''
      else if a = 127 then Some ''Blocked loopback IP: ''
      else if a = 169 \<and> b = 254 then Some ''Blocked link-local / metadata IP: ''
      else if a = 172 \<and> 16 \<le> b \<and> b \<le> 31 then Some ''Blocked private IP (RFC 1918 class B): ''
      else if a = 192 \<and> b = 168 then Some ''Blocked private IP (RFC 1918 class C): ''
      else if a = 100 \<and> 64 \<le> b \<and> b \<le> 127 then Some ''Blocked private IP (RFC 6598 carrier-grade NAT): ''
      else if 224 \<le> a \<and> a \<le> 239 then Some ''Blocked multicast IP: ''
      else if 240 \<le> a \<and> a \<le> 255 then Some ''Blocked reserved IP: ''
      else None)"

definition getBlockedIpv4Reason :: "string \<Rightarrow> string option" where
  "getBlockedIpv4Reason ip =
     (case map number_of_part (split_on (CHR ''.'') ip) of
        [Some a, Some b, Some c, Some d] \<Rightarrow>
          (if list_all (\<lambda>n. 0 \<le> n \<and> n \<le> 255) [a, b, c, d]
           then map_option (\<lambda>t. t @ ip) (blocked_octets a b) else Some ''Invalid IPv4 address'')
      | _ \<Rightarrow> Some ''Invalid IPv4 address'')"

definition hex_digit_value :: "char \<Rightarrow> nat" where
  "hex_digit_value c = (let n = of_char c in if n < 97 then n - 48 else n - 87)"

definition parse_hex :: "string \<Rightarrow> nat" where
  "parse_hex s = fold (\<lambda>c n. 16 * n + hex_digit_value c) s 0"

text \<open>The four octets in two groups of 16 bits.\<close>

definition groups_dotted :: "nat \<Rightarrow> nat \<Rightarrow> string" where
  "groups_dotted high low =
     show_nat (drop_bit 8 high AND 255) @ ''.'' @ show_nat (high AND 255) @ ''.'' @
     show_nat (drop_bit 8 low AND 255) @ ''.'' @ show_nat (low AND 255)"

definition hex_pair :: "string \<Rightarrow> (nat \<times> nat) option" where
  "hex_pair s =
     (case split_on (CHR '':'') s of
        [h, l] \<Rightarrow> (if hex_part h \<and> hex_part l then Some (parse_hex h, parse_hex l) else None)
      | _ \<Rightarrow> None)"

definition dotted_text :: "string \<Rightarrow> bool" where
  "dotted_text s \<longleftrightarrow> length (split_on (CHR ''.'') s) = 4 \<and> list_all dotted_part (split_on (CHR ''.'') s)"

definition extractMappedIpv4 :: "string \<Rightarrow> string option" where
  "extractMappedIpv4 lower =
     (if \<not> prefix ''::'' lower then None
      else (let rest = drop 2 lower;
                inner = (if prefix ''ffff:'' rest then drop 5 rest else rest)
            in if dotted_text inner then Some inner
               else case hex_pair inner of
                 Some (high, low) \<Rightarrow> Some (groups_dotted high low)
               | None \<Rightarrow> (case hex_pair rest of Some (high, low) \<Rightarrow> Some (groups_dotted high low) | None \<Rightarrow> None)))"

definition extractSixToFourIpv4 :: "string \<Rightarrow> string option" where
  "extractSixToFourIpv4 lower =
     (if \<not> prefix ''2002:'' lower then None
      else case split_on (CHR '':'') (drop 5 lower) of
        h # l # rest \<Rightarrow>
          (if hex_part h \<and> hex_part l then Some (groups_dotted (parse_hex h) (parse_hex l)) else None)
      | _ \<Rightarrow> None)"

definition second_in :: "string \<Rightarrow> nat \<Rightarrow> string \<Rightarrow> bool" where
  "second_in s n cs \<longleftrightarrow> n < length s \<and> s ! n \<in> set cs"

definition getBlockedIpv6Reason :: "string \<Rightarrow> string option" where
  "getBlockedIpv6Reason ip =
     (let lower = to_lower ip
      in if lower = ''::'' \<or> lower = ''0:0:0:0:0:0:0:0'' then Some (''Blocked IPv6 unspecified address: '' @ ip)
         else if lower = ''::1'' \<or> lower = ''0:0:0:0:0:0:0:1'' then Some (''Blocked IPv6 loopback address: '' @ ip)
         else case Option.bind (extractMappedIpv4 lower) getBlockedIpv4Reason of
           Some reason \<Rightarrow> Some (''Blocked IPv4-mapped IPv6 address ('' @ ip @ ''): '' @ reason)
         | None \<Rightarrow>
             (case Option.bind (extractSixToFourIpv4 lower) getBlockedIpv4Reason of
                Some reason \<Rightarrow> Some (''Blocked 6to4 wrapping a private IPv4 ('' @ ip @ ''): '' @ reason)
              | None \<Rightarrow>
                  (if prefix ''f'' lower \<and> second_in lower 1 ''cd'' then Some (''Blocked IPv6 unique local address: '' @ ip)
                   else if prefix ''fe'' lower \<and> second_in lower 2 ''89ab'' then Some (''Blocked IPv6 link-local address: '' @ ip)
                   else if prefix ''fe'' lower \<and> second_in lower 2 ''cdef''
                   then Some (''Blocked IPv6 site-local (deprecated) address: '' @ ip)
                   else if prefix ''ff'' lower then Some (''Blocked IPv6 multicast address: '' @ ip)
                   else None)))"

definition normalizeHost :: "string \<Rightarrow> string" where
  "normalizeHost h =
     (let a = (if prefix ''['' h then drop 1 h else h);
          b = (if suffix '']'' a then butlast a else a)
      in to_lower (trim b))"

definition isIpLiteral :: "string \<Rightarrow> bool" where
  "isIpLiteral h \<longleftrightarrow> isIP (normalizeHost h) \<noteq> 0"

definition getBlockedIpReason :: "string \<Rightarrow> string option" where
  "getBlockedIpReason ip =
     (let normalized = normalizeHost ip; family = isIP normalized
      in if family = 4 then getBlockedIpv4Reason normalized
         else if family = 6 then getBlockedIpv6Reason normalized else None)"

subsection \<open>URLs\<close>

definition BLOCKED_HOSTNAMES :: "string list" where
  "BLOCKED_HOSTNAMES = [''localhost'', ''metadata.google.internal'', ''metadata.google'', ''instance-data'']"

datatype url_validation = Invalid string | Valid "(string \<times> nat) list"

definition validateServerUrl :: "(string \<Rightarrow> parsed_url option) \<Rightarrow> string \<Rightarrow> bool \<Rightarrow> url_validation" where
  "validateServerUrl parse_url url allowPrivate =
     (case parse_url url of
        None \<Rightarrow> Invalid (''Invalid URL format: '' @ url)
      | Some u \<Rightarrow>
          (if pu_protocol u \<noteq> ''http:'' \<and> pu_protocol u \<noteq> ''https:''
           then (if pu_protocol u = ''stdio:'' then Valid []
                 else Invalid (''Blocked scheme '' @ CHR 0x22 # pu_protocol u @ CHR 0x22 # '' - only http: and https: allowed''))
           else if pu_username u \<noteq> [] \<or> pu_password u \<noteq> [] then Invalid ''URLs must not contain embedded credentials''
           else if allowPrivate then Valid []
           else (let host = normalizeHost (to_lower (pu_hostname u))
                 in if host \<in> set BLOCKED_HOSTNAMES \<or> suffix ''.localhost'' host
                    then Invalid (''Blocked loopback hostname: '' @ host)
                    else if isIpLiteral host
                    then (case getBlockedIpReason host of Some e \<Rightarrow> Invalid e | None \<Rightarrow> Valid [])
                    else Valid [])))"

text \<open>The loop over the addresses of a host.\<close>

fun check_addresses :: "string \<Rightarrow> (string \<times> nat) list \<Rightarrow> (string \<times> nat) list \<Rightarrow> url_validation" where
  "check_addresses host [] resolved = Valid resolved"
| "check_addresses host ((address, family) # records) resolved =
     (case getBlockedIpReason (normalizeHost address) of
        Some e \<Rightarrow> Invalid (''Hostname '' @ CHR 0x22 # host @ CHR 0x22 # '' resolves to a blocked address: '' @
                    normalizeHost address)
      | None \<Rightarrow> check_addresses host records (if family = 4 \<or> family = 6 then resolved @ [(address, family)] else resolved))"

definition validateServerUrlWithDns ::
  "(string \<Rightarrow> parsed_url option) \<Rightarrow> (string \<Rightarrow> (string \<times> nat) list option) \<Rightarrow> string \<Rightarrow> bool \<Rightarrow> url_validation" where
  "validateServerUrlWithDns parse_url lookup url allowPrivate =
     (case validateServerUrl parse_url url allowPrivate of
        Invalid e \<Rightarrow> Invalid e
      | Valid ips \<Rightarrow>
          (if allowPrivate then Valid ips
           else case parse_url url of
             None \<Rightarrow> Invalid (''Invalid URL format: '' @ url)
           | Some u \<Rightarrow>
               (let host = normalizeHost (to_lower (pu_hostname u))
                in if isIpLiteral host then Valid ips
                   else case lookup host of
                     None \<Rightarrow> Valid []
                   | Some records \<Rightarrow> check_addresses host records [])))"

subsection \<open>IPv4 against the address ranges\<close>

text \<open>An address as a word of 32 bits, its text, and the blocked ranges in CIDR notation.\<close>

definition octet :: "nat \<Rightarrow> 32 word \<Rightarrow> nat" where
  "octet k w = unat (take_bit 8 (drop_bit (8 * k) w))"

definition dotted :: "32 word \<Rightarrow> string" where
  "dotted w = show_nat (octet 3 w) @ ''.'' @ show_nat (octet 2 w) @ ''.'' @ show_nat (octet 1 w) @ ''.'' @ show_nat (octet 0 w)"

definition in_range :: "32 word \<Rightarrow> 32 word \<times> nat \<Rightarrow> bool" where
  "in_range w r \<longleftrightarrow> (case r of (net, len) \<Rightarrow> drop_bit (32 - len) w = drop_bit (32 - len) net)"

definition private_ranges :: "(32 word \<times> nat) list" where
  "private_ranges = [(0x00000000, 8), (0x0A000000, 8), (0x7F000000, 8), (0xA9FE0000, 16), (0xAC100000, 12),
     (0xC0A80000, 16), (0x64400000, 10), (0xE0000000, 4), (0xF0000000, 4)]"

definition private_address :: "32 word \<Rightarrow> bool" where
  "private_address w \<longleftrightarrow> list_ex (in_range w) private_ranges"

lemma octet_eq: "octet k w = unat w div 2 ^ (8 * k) mod 256"
  by (simp only: octet_def unsigned_take_bit_eq unat_drop_bit_eq) (simp add: take_bit_eq_mod drop_bit_eq_div)

lemma octet_less: "octet k w < 256"
  by (simp add: octet_eq)

lemma show_nat_no_sep: "\<not> is_digit c \<Longrightarrow> c \<notin> set (show_nat n)"
  using show_nat_digits by blast

lemma split_dotted:
  "split_on (CHR ''.'') (show_nat a @ ''.'' @ show_nat b @ ''.'' @ show_nat c @ ''.'' @ show_nat d) =
   [show_nat a, show_nat b, show_nat c, show_nat d]"
proof -
  have n: "CHR ''.'' \<notin> set (show_nat n)" for n by (rule show_nat_no_sep) (simp add: is_digit_def)
  show ?thesis using n by (simp add: split_on_append_sep split_on_none)
qed

lemma number_show [simp]: "number_of_part (show_nat n) = Some (int n)"
  using show_nat_digits by (auto simp: number_of_part_def list_all_iff parse_show_nat)

lemma blocked_dotted_octets:
  assumes "a < 256" "b < 256" "c < 256" "d < 256"
  shows "getBlockedIpv4Reason (show_nat a @ ''.'' @ show_nat b @ ''.'' @ show_nat c @ ''.'' @ show_nat d) \<noteq> None \<longleftrightarrow>
    blocked_octets (int a) (int b) \<noteq> None"
  using assms unfolding getBlockedIpv4Reason_def split_dotted by simp

lemma in_range_eq:
  "len \<le> 32 \<Longrightarrow> in_range w (net, len) \<longleftrightarrow> unat w div 2 ^ (32 - len) = unat net div 2 ^ (32 - len)"
  by (simp add: in_range_def word_unat_eq_iff unat_drop_bit_eq) (simp add: drop_bit_eq_div)

lemma div_eq_iff: "0 < n \<Longrightarrow> x div n = k \<longleftrightarrow> k * n \<le> x \<and> x < Suc k * n" for n x k :: nat
  using less_eq_div_iff_mult_less_eq [of n k x] less_eq_div_iff_mult_less_eq [of n "Suc k" x] by linarith

lemma range_arith:
  fixes a b :: nat
  assumes "b < 256"
  shows "256 * a + b = 43518 \<longleftrightarrow> a = 169 \<and> b = 254" "256 * a + b = 49320 \<longleftrightarrow> a = 192 \<and> b = 168"
    "(256 * a + b) div 16 = 2753 \<longleftrightarrow> a = 172 \<and> 16 \<le> b \<and> b \<le> 31"
    "(256 * a + b) div 64 = 401 \<longleftrightarrow> a = 100 \<and> 64 \<le> b \<and> b \<le> 127"
    "(256 * a + b) div 4096 = 14 \<longleftrightarrow> 224 \<le> a \<and> a \<le> 239" "(256 * a + b) div 4096 = 15 \<longleftrightarrow> 240 \<le> a \<and> a \<le> 255"
proof -
  have place: "n * a + c = n * x + y \<longleftrightarrow> a = x \<and> c = y" if "c < n" "y < n" for n c x y :: nat
  proof
    assume e: "n * a + c = n * x + y"
    then have "(n * a + c) div n = (n * x + y) div n" "(n * a + c) mod n = (n * x + y) mod n" by simp_all
    with that show "a = x \<and> c = y" by simp
  qed simp
  show "256 * a + b = 43518 \<longleftrightarrow> a = 169 \<and> b = 254" using place [of b 256 254 169] assms by simp
  show "256 * a + b = 49320 \<longleftrightarrow> a = 192 \<and> b = 168" using place [of b 256 168 192] assms by simp
  have "(256 * a + b) div 16 = 16 * a + b div 16" using div_mult_self4 [of 16 "16 * a" b] by simp
  moreover have "b div 16 < 16" using assms by (simp add: less_mult_imp_div_less)
  ultimately have "(256 * a + b) div 16 = 2753 \<longleftrightarrow> a = 172 \<and> b div 16 = 1" using place [of "b div 16" 16 1 172] by simp
  also have "b div 16 = 1 \<longleftrightarrow> 16 \<le> b \<and> b \<le> 31" by (auto simp: div_eq_iff)
  finally show "(256 * a + b) div 16 = 2753 \<longleftrightarrow> a = 172 \<and> 16 \<le> b \<and> b \<le> 31" .
  have "(256 * a + b) div 64 = 4 * a + b div 64" using div_mult_self4 [of 64 "4 * a" b] by simp
  moreover have "b div 64 < 4" using assms by (simp add: less_mult_imp_div_less)
  ultimately have "(256 * a + b) div 64 = 401 \<longleftrightarrow> a = 100 \<and> b div 64 = 1" using place [of "b div 64" 4 1 100] by simp
  also have "b div 64 = 1 \<longleftrightarrow> 64 \<le> b \<and> b \<le> 127" by (auto simp: div_eq_iff)
  finally show "(256 * a + b) div 64 = 401 \<longleftrightarrow> a = 100 \<and> 64 \<le> b \<and> b \<le> 127" .
  have e: "(256 * a + b) div 4096 = a div 16" using assms div_mult2_eq [of "256 * a + b" 256 16] by simp
  show "(256 * a + b) div 4096 = 14 \<longleftrightarrow> 224 \<le> a \<and> a \<le> 239" unfolding e by (auto simp: div_eq_iff)
  show "(256 * a + b) div 4096 = 15 \<longleftrightarrow> 240 \<le> a \<and> a \<le> 255" unfolding e by (auto simp: div_eq_iff)
qed

lemma private_iff_octets:
  "private_address w \<longleftrightarrow> blocked_octets (int (octet 3 w)) (int (octet 2 w)) \<noteq> None"
proof -
  let ?m = "unat w div 2 ^ 16"
  define a b where "a = ?m div 256" and "b = ?m mod 256"
  have "unat w < 2 ^ 32" using unsigned_less [where ?'a = nat, of w] by simp
  then have "?m < 65536" by (simp add: less_mult_imp_div_less)
  then have a: "a < 256" and b: "b < 256" by (simp_all add: a_def b_def less_mult_imp_div_less)
  have m: "?m = 256 * a + b" by (simp add: a_def b_def)
  have d: "unat w div 2 ^ 24 = ?m div 256" "unat w div 2 ^ 20 = ?m div 16" "unat w div 2 ^ 22 = ?m div 64"
    "unat w div 2 ^ 28 = ?m div 4096"
    by (simp_all only: div_mult2_eq [symmetric]) simp_all
  have q: "(256 * a + b) div 256 = a" using b by simp
  have o: "octet 3 w = a" "octet 2 w = b"
    using a b by (simp_all only: octet_eq mult_numeral_1_right) (simp_all add: a_def b_def d [simplified])
  have "private_address w \<longleftrightarrow> ?m div 256 = 0 \<or> ?m div 256 = 10 \<or> ?m div 256 = 127 \<or> ?m = 43518 \<or> ?m div 16 = 2753 \<or>
      ?m = 49320 \<or> ?m div 64 = 401 \<or> ?m div 4096 = 14 \<or> ?m div 4096 = 15"
    unfolding private_address_def private_ranges_def d [symmetric] by (simp add: in_range_eq)
  also have "\<dots> \<longleftrightarrow> blocked_octets (int a) (int b) \<noteq> None"
    unfolding m range_arith [OF b] q using a by (auto simp: blocked_octets_def)
  finally show ?thesis by (simp only: o)
qed

text \<open>C23. The test on the octets of an IPv4 address is membership in the private, loopback, link-local,
  carrier-grade, multicast and reserved ranges: it agrees with the ranges in CIDR notation on
  every address.\<close>

theorem ipv4_blocklist_is_the_ranges:
  "getBlockedIpv4Reason (dotted w) \<noteq> None \<longleftrightarrow> private_address w"
  unfolding dotted_def private_iff_octets by (rule blocked_dotted_octets) (simp_all add: octet_less)

subsection \<open>IPv4-mapped addresses\<close>

fun show_hex :: "nat \<Rightarrow> string" where
  "show_hex n = (if n < 16 then [hex_digit n] else show_hex (n div 16) @ [hex_digit (n mod 16)])"

declare show_hex.simps [simp del]

text \<open>The text of the address that embeds an IPv4 address, as the platform writes it.\<close>

definition mapped :: "32 word \<Rightarrow> string" where
  "mapped w = ''::ffff:'' @ show_hex (unat w div 65536) @ '':'' @ show_hex (unat w mod 65536)"

lemma hex_digit_of_char: "d < 16 \<Longrightarrow> of_char (hex_digit d) = (if d < 10 then 48 + d else 87 + d)"
  by (simp add: hex_digit_def take_bit_eq_mod)

lemma hex_digit_facts:
  assumes "d < 16"
  shows "is_hex_char (hex_digit d)" "hex_digit_value (hex_digit d) = d" "lower_char (hex_digit d) = hex_digit d"
    "\<not> is_space (hex_digit d)" "hex_digit d \<noteq> CHR ''.''" "hex_digit d \<noteq> CHR '':''" "hex_digit d \<noteq> CHR '']''"
    "hex_digit d \<noteq> CHR ''%''"
proof -
  note n = hex_digit_of_char [OF assms]
  show "is_hex_char (hex_digit d)" "hex_digit_value (hex_digit d) = d" using assms
    by (auto simp: is_hex_char_def hex_digit_value_def n)
  show "lower_char (hex_digit d) = hex_digit d" "\<not> is_space (hex_digit d)"
    using assms by (auto simp: lower_char_def is_space_def n Let_def)
  have ne: "hex_digit d \<noteq> c" if "of_char c \<noteq> (if d < 10 then 48 + d else 87 + d)" for c
    using that n by auto
  show "hex_digit d \<noteq> CHR ''.''" "hex_digit d \<noteq> CHR '':''" "hex_digit d \<noteq> CHR '']''" "hex_digit d \<noteq> CHR ''%''"
    using assms by (intro ne; simp)+
qed

lemma show_hex_chars: "c \<in> set (show_hex n) \<Longrightarrow> \<exists>d < 16. c = hex_digit d"
proof (induction n rule: show_hex.induct)
  case (1 n)
  show ?case
  proof (cases "n < 16")
    case True
    with 1(2) show ?thesis by (auto simp: show_hex.simps [of n])
  next
    case False
    with 1(2) have "c \<in> set (show_hex (n div 16)) \<or> c = hex_digit (n mod 16)" by (auto simp: show_hex.simps [of n])
    moreover have "n mod 16 < 16" by simp
    ultimately show ?thesis using 1(1) [OF False] by blast
  qed
qed

lemma show_hex_length: "n < 16 ^ k \<Longrightarrow> 0 < k \<Longrightarrow> length (show_hex n) \<le> k \<and> show_hex n \<noteq> []"
proof (induction n arbitrary: k rule: show_hex.induct)
  case (1 n)
  show ?case
  proof (cases "n < 16")
    case False
    then obtain j where j: "k = Suc j" "0 < j" using 1(2,3) by (cases k; cases "k - 1") auto
    with 1(2) have "n div 16 < 16 ^ j" by (simp add: less_mult_imp_div_less mult.commute)
    with 1(1) [OF False this j(2)] j(1) False show ?thesis by (simp add: show_hex.simps [of n])
  qed (use 1 in \<open>simp add: show_hex.simps [of n]\<close>)
qed

lemma parse_show_hex: "parse_hex (show_hex n) = n"
proof (induction n rule: show_hex.induct)
  case (1 n)
  then show ?case
    by (cases "n < 16") (simp_all add: show_hex.simps [of n] parse_hex_def hex_digit_facts)
qed

lemma show_hex_part: "n < 65536 \<Longrightarrow> hex_part (show_hex n)"
  using show_hex_length [of n 4] show_hex_chars [of _ n] hex_digit_facts(1)
  by (auto simp: hex_part_def list_all_iff)

lemma show_hex_no: "c \<in> {CHR ''.'', CHR '':'', CHR '']'', CHR ''%''} \<Longrightarrow> c \<notin> set (show_hex n)"
proof
  assume c: "c \<in> {CHR ''.'', CHR '':'', CHR '']'', CHR ''%''}" "c \<in> set (show_hex n)"
  from show_hex_chars [OF c(2)] obtain d where "d < 16" "c = hex_digit d" by blast
  with c(1) hex_digit_facts(5-8) [of d] show False by auto
qed

lemma mapped_groups: "unat (w :: 32 word) div 65536 < 65536" "unat (w :: 32 word) mod 65536 < 65536"
  using unsigned_less [where ?'a = nat, of w] by (simp_all add: less_mult_imp_div_less)

lemma hex_pair_show: "m < 65536 \<Longrightarrow> n < 65536 \<Longrightarrow> hex_pair (show_hex m @ '':'' @ show_hex n) = Some (m, n)"
  using show_hex_no [of "CHR '':''"] by (simp add: hex_pair_def split_on_append_sep split_on_none show_hex_part parse_show_hex)

lemma groups_dotted_word: "groups_dotted (unat w div 65536) (unat w mod 65536) = dotted w"
proof -
  have m: "n AND 255 = n mod 256" for n :: nat using take_bit_eq_mask [of 8 n] by (simp add: take_bit_eq_mod mask_eq_exp_minus_1)
  have d: "unat w div 65536 div 256 = unat w div 2 ^ 24" "unat w mod 65536 div 256 mod 256 = unat w div 256 mod 256"
    "unat w mod 65536 mod 256 = unat w mod 256"
    by (simp_all add: div_mult2_eq [symmetric] mod_mult2_eq [of "unat w" 256 256, simplified] mod_mod_cancel)
  show ?thesis by (simp add: groups_dotted_def dotted_def octet_eq m drop_bit_eq_div d)
qed

lemma extract_mapped: "extractMappedIpv4 (mapped w) = Some (dotted w)"
proof -
  let ?i = "show_hex (unat w div 65536) @ '':'' @ show_hex (unat w mod 65536)"
  have "CHR ''.'' \<notin> set ?i" using show_hex_no [of "CHR ''.''"] by simp
  then have "\<not> dotted_text ?i" by (simp add: dotted_text_def split_on_none)
  then show ?thesis
    by (simp add: extractMappedIpv4_def mapped_def Let_def hex_pair_show [OF mapped_groups, simplified] groups_dotted_word)
qed

lemma mapped_lower: "to_lower (mapped w) = mapped w"
proof -
  have "map lower_char (show_hex n) = show_hex n" for n
    using show_hex_chars [of _ n] hex_digit_facts(3) by (fastforce intro: map_idI)
  then show ?thesis by (simp add: mapped_def to_lower_def lower_char_def)
qed

lemma mapped_blocked: "getBlockedIpv6Reason (mapped w) \<noteq> None \<longleftrightarrow> private_address w"
proof -
  have s: "mapped w \<noteq> ''::''" "mapped w \<noteq> ''::1''" "mapped w \<noteq> ''0:0:0:0:0:0:0:0''" "mapped w \<noteq> ''0:0:0:0:0:0:0:1''"
    "\<not> prefix ''2002:'' (mapped w)" "\<not> prefix ''f'' (mapped w)" "\<not> prefix ''fe'' (mapped w)" "\<not> prefix ''ff'' (mapped w)"
    by (simp_all add: mapped_def)
  have "getBlockedIpv4Reason (dotted w) \<noteq> None \<longleftrightarrow> private_address w"
    unfolding dotted_def private_iff_octets by (rule blocked_dotted_octets) (simp_all add: octet_less)
  then show ?thesis
    using s by (auto simp: getBlockedIpv6Reason_def mapped_lower extract_mapped extractSixToFourIpv4_def Let_def split: option.split)
qed

subsection \<open>The guard\<close>

lemma show_nat_octet:
  assumes "n < 256"
  shows "octet_part (show_nat n)"
proof -
  have d: "\<And>d. d < 10 \<Longrightarrow> of_char (digit_char d) = 48 + d" by simp
  have z: "digit_char k \<noteq> CHR ''0''" if "0 < k" "k < 10" for k
  proof
    assume "digit_char k = CHR ''0''"
    then have "(of_char (digit_char k) :: nat) = of_char (CHR ''0'')" by simp
    with that show False by simp
  qed
  consider "n < 10" | "10 \<le> n" "n < 100" | "100 \<le> n" by linarith
  then have "length (show_nat n) \<le> 3 \<and> show_nat n \<noteq> [] \<and> (length (show_nat n) = 1 \<or> hd (show_nat n) \<noteq> CHR ''0'')"
  proof cases
    case 1
    then show ?thesis by (simp add: show_nat.simps [of n])
  next
    case 2
    then have "n div 10 < 10" "0 < n div 10" by (simp_all add: div_less_iff_less_mult div_greater_zero_iff)
    with 2 z show ?thesis by (simp add: show_nat.simps [of n] show_nat.simps [of "n div 10"])
  next
    case 3
    then have "n div 10 div 10 < 10" "0 < n div 10 div 10" "\<not> n div 10 < 10" using assms
      by (simp_all add: div_mult2_eq [symmetric] div_less_iff_less_mult div_greater_zero_iff)
    with 3 z show ?thesis
      by (simp add: show_nat.simps [of n] show_nat.simps [of "n div 10"] show_nat.simps [of "n div 10 div 10"])
  qed
  then show ?thesis using assms show_nat_digits
    by (auto simp: octet_part_def dotted_part_def list_all_iff parse_show_nat)
qed

lemma dotted_isIPv4: "isIPv4 (dotted w)"
  unfolding isIPv4_def dotted_def split_dotted by (simp add: show_nat_octet octet_less)

lemma isIPv4_no_colon: "CHR '':'' \<in> set s \<Longrightarrow> \<not> isIPv4 s"
proof
  assume c: "CHR '':'' \<in> set s" and i: "isIPv4 s"
  have "set (join_with sep ws) \<subseteq> set sep \<union> \<Union> (set ` set ws)" for sep ws
    by (induction sep ws rule: join_with.induct) auto
  from this [of "''.''" "split_on (CHR ''.'') s"]
  have "set s \<subseteq> {CHR ''.''} \<union> \<Union> (set ` set (split_on (CHR ''.'') s))" by (simp add: join_split_on)
  with c obtain p where "p \<in> set (split_on (CHR ''.'') s)" "CHR '':'' \<in> set p" by auto
  with i have "is_digit (CHR '':'')" by (auto simp: isIPv4_def octet_part_def dotted_part_def list_all_iff)
  then show False by (simp add: is_digit_def)
qed

lemma mapped_isIPv6: "isIP (mapped w) = 6"
proof -
  let ?h = "show_hex (unat w div 65536)" and ?l = "show_hex (unat w mod 65536)"
  have "\<not> isIPv4 (mapped w)" by (rule isIPv4_no_colon) (simp add: mapped_def)
  moreover have "isIPv6 (mapped w)"
  proof -
    have "CHR ''%'' \<notin> set (mapped w)" using show_hex_no [of "CHR ''%''"] by (simp add: mapped_def)
    then have t: "takeWhile (\<lambda>c. c \<noteq> CHR ''%'') (mapped w) = mapped w" by (auto simp: takeWhile_eq_all_conv)
    have low: "map lower_char (mapped w) = mapped w" using mapped_lower by (simp add: to_lower_def)
    have c: "cut_double (mapped w) = Some ([], ''ffff:'' @ ?h @ '':'' @ ?l)" by (simp add: mapped_def)
    have f: "hex_part ''ffff''" by (simp add: hex_part_def is_hex_char_def)
    have sp: "split_on (CHR '':'') (''ffff:'' @ ?h @ '':'' @ ?l) = [''ffff'', ?h, ?l]"
      using show_hex_no [of "CHR '':''"] split_on_append_sep [of "CHR '':''" "''ffff''" "?h @ '':'' @ ?l"]
      by (simp add: split_on_append_sep split_on_none)
    have "side_groups True (''ffff:'' @ ?h @ '':'' @ ?l) = Some 3"
      unfolding side_groups_def sp using f show_hex_part mapped_groups by simp
    then show ?thesis by (simp add: isIPv6_def t low c side_groups_def [of False] Let_def)
  qed
  ultimately show ?thesis by (simp add: isIP_def)
qed

text \<open>Text that the normalisation of a host leaves as it is.\<close>

lemma normalizeHost_id:
  assumes "h \<noteq> []" "CHR ''['' \<noteq> hd h" "CHR '']'' \<noteq> last h" "\<not> is_space (hd h)" "\<not> is_space (last h)" "to_lower h = h"
  shows "normalizeHost h = h"
proof -
  have "\<not> prefix ''['' h" using assms(1,2) by (cases h) auto
  moreover have "\<not> suffix '']'' h" using assms(1,3) by (auto simp: suffix_def)
  moreover have "trim h = h"
  proof -
    have "dropWhile is_space h = h" using assms(1,4) by (cases h) auto
    moreover have "dropWhile is_space (rev h) = rev h" using assms(1,5) by (cases "rev h") (auto simp: hd_rev)
    ultimately show ?thesis by (simp add: trim_def)
  qed
  ultimately show ?thesis using assms(6) by (simp add: normalizeHost_def)
qed

lemma digit_facts: "is_digit c \<Longrightarrow> \<not> is_space c \<and> lower_char c = c \<and> c \<noteq> CHR ''['' \<and> c \<noteq> CHR '']''"
  by (auto simp: is_digit_def is_space_def lower_char_def Let_def)

lemma show_nat_lower: "map lower_char (show_nat n) = show_nat n"
  using show_nat_digits digit_facts by (fastforce intro: map_idI)

lemma normalize_dotted: "normalizeHost (dotted w) = dotted w"
proof -
  have h: "is_digit (hd (dotted w))" "is_digit (last (dotted w))"
    by (auto simp: dotted_def intro: show_nat_digits [OF hd_in_set] show_nat_digits [OF last_in_set])
  show ?thesis using digit_facts [OF h(1)] digit_facts [OF h(2)]
    by (intro normalizeHost_id) (auto simp: to_lower_def show_nat_lower dotted_def lower_char_def)
qed

lemma normalize_mapped: "normalizeHost (mapped w) = mapped w"
proof -
  have n: "show_hex m \<noteq> []" for m by (simp add: show_hex.simps [of m])
  have "last (mapped w) \<in> set (show_hex (unat w mod 65536))" using n by (simp add: mapped_def)
  from show_hex_chars [OF this] obtain d where d: "d < 16" "last (mapped w) = hex_digit d" by blast
  show ?thesis
    by (rule normalizeHost_id) (use d hex_digit_facts(4,7) [of d] in \<open>auto simp: mapped_lower\<close>, simp_all add: mapped_def is_space_def)
qed

lemma blocked_literal:
  assumes "private_address w" "h \<in> {dotted w, mapped w}"
  shows "isIpLiteral h \<and> getBlockedIpReason h \<noteq> None \<and> normalizeHost h = h"
  using assms(2)
proof (elim insertE)
  assume "h = dotted w"
  then show ?thesis using assms(1) blocked_dotted_octets [OF octet_less octet_less octet_less octet_less, of 3 w 2 w 1 w 0 w]
    by (simp add: isIpLiteral_def getBlockedIpReason_def normalize_dotted isIP_def dotted_isIPv4 Let_def private_iff_octets)
      (simp add: dotted_def)
next
  assume "h = mapped w"
  then show ?thesis using assms(1) mapped_blocked [of w]
    by (simp add: isIpLiteral_def getBlockedIpReason_def normalize_mapped mapped_isIPv6 Let_def)
qed simp

lemma check_addresses_valid:
  "check_addresses host records resolved = Valid ips \<Longrightarrow>
   (\<forall>(a, f) \<in> set records. getBlockedIpReason (normalizeHost a) = None) \<and>
   set ips \<subseteq> set resolved \<union> set records"
proof (induction records arbitrary: resolved)
  case (Cons r records)
  obtain a f where r: "r = (a, f)" by force
  with Cons.prems have "getBlockedIpReason (normalizeHost a) = None" by (auto split: option.splits)
  with Cons r show ?case by (fastforce split: if_splits)
qed simp


definition public_url :: parsed_url where
  "public_url = \<lparr>pu_protocol = ''https:'', pu_username = [], pu_password = [], pu_hostname = ''mcp.example.com''\<rparr>"


text \<open>
  The 6to4 pattern wants two groups after \<open>2002\<close>: where the second group is zero the platform
  writes \<open>::\<close>, and the wrapped address, here 192.168.0.0, is not looked at.
\<close>

lemma six_to_four_network_not_blocked:
  "getBlockedIpReason ''2002:c0a8::1'' = None"
proof -
  have n: "normalizeHost ''2002:c0a8::1'' = ''2002:c0a8::1''"
    by (rule normalizeHost_id) (simp_all add: is_space_def to_lower_def lower_char_def)
  have "getBlockedIpv6Reason ''2002:c0a8::1'' = None"
    by (simp add: getBlockedIpv6Reason_def extractMappedIpv4_def extractSixToFourIpv4_def hex_part_def second_in_def
        to_lower_def lower_char_def)
  moreover have "\<not> isIPv4 ''2002:c0a8::1''" by (rule isIPv4_no_colon) simp
  ultimately show ?thesis by (simp add: getBlockedIpReason_def n isIP_def Let_def)
qed

end
