(* ===== verification/Dynamic.thy ===== *)
theory Dynamic
  imports Json
begin

section \<open>Dynamic values: reading, converting, building (JavaScript on untyped objects)\<close>

text \<open>
  What the loading of the configuration does with values it has not checked: optional
  chaining, \<open>??\<close>, comparisons with a number, \<open>Number\<close>, \<open>parseInt\<close>, the spread of a value
  into an object literal, and the walk over an array-like value.  A number is an integer, so
  that the text of a fraction, of an exponent form, of a hexadecimal literal or of \<open>Infinity\<close>
  is not one of the texts considered.  The last part is \<open>utils/yaml-safe.ts\<close> and
  \<open>utils/sanitize.ts\<close>.
\<close>

subsection \<open>Reading\<close>

definition nullish :: "json \<Rightarrow> bool" where
  "nullish v \<longleftrightarrow> v = JUndef \<or> v = JNull"

text \<open>\<open>v ?? d\<close>.\<close>

definition or_else :: "json \<Rightarrow> json \<Rightarrow> json" where
  "or_else v d = (if nullish v then d else v)"

definition is_string :: "json \<Rightarrow> bool" where
  "is_string v = (case v of JStr s \<Rightarrow> True | _ \<Rightarrow> False)"

definition is_number :: "json \<Rightarrow> bool" where
  "is_number v = (case v of JNum n \<Rightarrow> True | JNaN \<Rightarrow> True | _ \<Rightarrow> False)"

definition is_array :: "json \<Rightarrow> bool" where
  "is_array v = (case v of JArr xs \<Rightarrow> True | _ \<Rightarrow> False)"

text \<open>\<open>Boolean(v) && typeof v === 'object' && !Array.isArray(v)\<close>.\<close>

definition is_record :: "json \<Rightarrow> bool" where
  "is_record v = (case v of JObj ps \<Rightarrow> True | _ \<Rightarrow> False)"

definition list_field :: "json list \<Rightarrow> string \<Rightarrow> json" where
  "list_field xs k =
     (if k = ''length'' then JNum (int (length xs))
      else case array_index k of
             Some i \<Rightarrow> (if i < length xs then xs ! i else JUndef)
           | None \<Rightarrow> JUndef)"

text \<open>\<open>v?.k\<close>, for names \<open>k\<close> that no prototype has.\<close>

fun field :: "json \<Rightarrow> string \<Rightarrow> json" where
  "field (JObj ps) k = obj_get ps k"
| "field (JArr xs) k = list_field xs k"
| "field (JStr s) k = list_field (map (\<lambda>c. JStr [c]) s) k"
| "field v k = JUndef"

text \<open>The elements a loop \<open>for (i = 0; i < v.length; i++)\<close> reads.\<close>

fun elements :: "json \<Rightarrow> json list" where
  "elements (JArr xs) = xs"
| "elements (JStr s) = map (\<lambda>c. JStr [c]) s"
| "elements (JObj ps) =
     (case obj_get ps ''length'' of
        JNum n \<Rightarrow> map (\<lambda>i. obj_get ps (show_nat i)) [0..<nat n]
      | _ \<Rightarrow> [])"
| "elements v = []"

text \<open>The own enumerable properties: of \<open>Object.entries\<close> and of a spread.\<close>

definition indexed :: "json list \<Rightarrow> jobject" where
  "indexed xs = map (\<lambda>(i, x). (show_nat i, x)) (enumerate 0 xs)"

fun own_entries :: "json \<Rightarrow> jobject" where
  "own_entries (JObj ps) = ps"
| "own_entries (JArr xs) = indexed xs"
| "own_entries (JStr s) = indexed (map (\<lambda>c. JStr [c]) s)"
| "own_entries v = []"

text \<open>\<open>{ ...a, ...b }\<close> and \<open>Object.fromEntries\<close> define properties.\<close>

definition from_entries :: "jobject \<Rightarrow> jobject" where
  "from_entries es = fold (\<lambda>(k, v). obj_insert k v) es []"

definition spread_into :: "jobject \<Rightarrow> json \<Rightarrow> jobject" where
  "spread_into ps v = fold (\<lambda>(k, v). obj_insert k v) (own_entries v) ps"

text \<open>An object literal whose entries may be absent: \<open>...(c ? { k: v } : {})\<close>.\<close>

definition literal :: "(string \<times> json option) list \<Rightarrow> json" where
  "literal es = JObj (List.map_filter (\<lambda>(k, v). map_option (Pair k) v) es)"

definition given :: "bool \<Rightarrow> json \<Rightarrow> json option" where
  "given c v = (if c then Some v else None)"

text \<open>
  \<open>o.k = v\<close>: a type error on \<open>null\<close>, \<open>undefined\<close> and (the modules are strict) on a primitive.
  An array that is given a property becomes the object of its indices and the property.
\<close>

fun set_field :: "json \<Rightarrow> string \<Rightarrow> json \<Rightarrow> json option" where
  "set_field (JObj ps) k v = Some (JObj (obj_assign k v ps))"
| "set_field (JArr xs) k v = Some (JObj (obj_assign k v (indexed xs)))"
| "set_field _ k v = None"

subsection \<open>Conversions\<close>

definition sign_split :: "string \<Rightarrow> bool \<times> string" where
  "sign_split s =
     (case s of
        [] \<Rightarrow> (False, [])
      | c # cs \<Rightarrow> if c = CHR ''-'' then (True, cs) else if c = CHR ''+'' then (False, cs) else (False, s))"

definition signed :: "bool \<Rightarrow> nat \<Rightarrow> int" where
  "signed neg n = (if neg then - int n else int n)"

definition number_text :: "string \<Rightarrow> int option" where
  "number_text s =
     (let t = trim s
      in if t = [] then Some 0
         else case sign_split t of
                (neg, ds) \<Rightarrow>
                  if ds \<noteq> [] \<and> list_all is_digit ds then Some (signed neg (parse_nat 0 ds)) else None)"

definition to_number :: "json \<Rightarrow> int option" where
  "to_number v =
     (case v of
        JNum n \<Rightarrow> Some n
      | JNull \<Rightarrow> Some 0
      | JBool b \<Rightarrow> Some (if b then 1 else 0)
      | JStr s \<Rightarrow> number_text s
      | JArr xs \<Rightarrow> number_text (js_string v)
      | _ \<Rightarrow> None)"

text \<open>\<open>Number(v)\<close>.\<close>

definition js_number :: "json \<Rightarrow> json" where
  "js_number v = (case to_number v of Some n \<Rightarrow> JNum n | None \<Rightarrow> JNaN)"

text \<open>\<open>v < n\<close>, \<open>v <= n\<close>, \<open>v > n\<close>: false when \<open>v\<close> converts to \<open>NaN\<close>.\<close>

definition below :: "json \<Rightarrow> int \<Rightarrow> bool" where
  "below v n = (case to_number v of Some m \<Rightarrow> m < n | None \<Rightarrow> False)"

definition at_most :: "json \<Rightarrow> int \<Rightarrow> bool" where
  "at_most v n = (case to_number v of Some m \<Rightarrow> m \<le> n | None \<Rightarrow> False)"

definition above :: "json \<Rightarrow> int \<Rightarrow> bool" where
  "above v n = (case to_number v of Some m \<Rightarrow> n < m | None \<Rightarrow> False)"

definition is_integer :: "json \<Rightarrow> bool" where
  "is_integer v = (case v of JNum n \<Rightarrow> True | _ \<Rightarrow> False)"

text \<open>\<open>parseInt(s, 10)\<close>: the digits after the blanks and the sign; \<open>NaN\<close> when there is none.\<close>

definition parseInt :: "string \<Rightarrow> int option" where
  "parseInt s =
     (case sign_split (dropWhile is_space s) of
        (neg, cs) \<Rightarrow>
          (let ds = takeWhile is_digit cs
           in if ds = [] then None else Some (signed neg (parse_nat 0 ds))))"

text \<open>\<open>texts.includes(v)\<close>.\<close>

definition one_of :: "string list \<Rightarrow> json \<Rightarrow> bool" where
  "one_of ts v = (case v of JStr s \<Rightarrow> s \<in> set ts | _ \<Rightarrow> False)"

subsection \<open>utils/yaml-safe.ts, utils/sanitize.ts\<close>

definition pollution_key :: "string \<Rightarrow> bool" where
  "pollution_key k \<longleftrightarrow> k = ''__proto__'' \<or> k = ''constructor'' \<or> k = ''prototype''"

primrec stripPollutionKeys :: "json \<Rightarrow> json" where
  "stripPollutionKeys JUndef = JUndef"
| "stripPollutionKeys JNull = JNull"
| "stripPollutionKeys (JBool b) = JBool b"
| "stripPollutionKeys (JNum n) = JNum n"
| "stripPollutionKeys (JStr s) = JStr s"
| "stripPollutionKeys (JArr xs) = JArr (map stripPollutionKeys xs)"
| "stripPollutionKeys (JObj ps) =
     JObj (filter (\<lambda>(k, v). \<not> pollution_key k) (map (map_prod id stripPollutionKeys) ps))"
| "stripPollutionKeys (JBuiltin f) = JBuiltin f"
| "stripPollutionKeys JNaN = JNaN"

definition truncated_mark :: "nat \<Rightarrow> string" where
  "truncated_mark n = ''...['' @ show_nat n @ '' caracteres tronques]''"

primrec sanitizeArgs :: "nat \<Rightarrow> json \<Rightarrow> json" where
  "sanitizeArgs maxLength JUndef = JUndef"
| "sanitizeArgs maxLength JNull = JNull"
| "sanitizeArgs maxLength (JBool b) = JBool b"
| "sanitizeArgs maxLength (JNum n) = JNum n"
| "sanitizeArgs maxLength (JStr s) =
     JStr (if length s > maxLength then take maxLength s @ truncated_mark (length s - maxLength) else s)"
| "sanitizeArgs maxLength (JArr xs) = JArr (map (sanitizeArgs maxLength) xs)"
| "sanitizeArgs maxLength (JObj ps) = JObj (obj_build (map (map_prod id (sanitizeArgs maxLength)) ps))"
| "sanitizeArgs maxLength (JBuiltin f) = JBuiltin f"
| "sanitizeArgs maxLength JNaN = JNaN"

definition truncate :: "string \<Rightarrow> nat \<Rightarrow> string" where
  "truncate str maxLength = (if length str \<le> maxLength then str else take maxLength str @ ''...'')"

subsection \<open>Reading what was built\<close>

lemma map_of_absent:
  "k \<notin> fst ` set es \<Longrightarrow> map_of (List.map_filter (\<lambda>(k, v). map_option (Pair k) v) es) k = None"
  by (induction es) (auto simp: map_filter_simps split: option.splits)

lemma map_of_present:
  "distinct (map fst es) \<Longrightarrow>
     map_of (List.map_filter (\<lambda>(k, v). map_option (Pair k) v) es) k = Option.bind (map_of es k) id"
  by (induction es) (auto simp: map_filter_simps map_of_absent split: option.splits)

lemma field_literal:
  "distinct (map fst es) \<Longrightarrow>
     field (literal es) k = (case map_of es k of Some (Some v) \<Rightarrow> v | _ \<Rightarrow> JUndef)"
  by (simp add: literal_def obj_get_def map_of_present split: option.split)

end
