(* ===== verification/Config_Schema.thy ===== *)
theory Config_Schema
  imports Dynamic
begin

section \<open>The configuration: defaults and normalisation (src/src/config/schema.ts)\<close>

text \<open>
  \<open>mergeWithDefaults\<close> builds the configuration from the value of the YAML file.  Some
  sections are normalised field by field, others are taken as they are, so that a
  configuration is a dynamic value.  \<open>None\<close> is the type error of reading a property of
  \<open>null\<close>: a server entry, or the section \<open>connect\<close>, \<open>identity\<close> or \<open>governance\<close>, that is
  \<open>null\<close>.
\<close>

subsection \<open>DEFAULT_GATEWAY_CONFIG\<close>

definition strings :: "string list \<Rightarrow> json" where
  "strings ts = JArr (map JStr ts)"

definition default_gateway :: jobject where
  "default_gateway = [(''port'', JNum 8080), (''host'', JStr ''127.0.0.1'')]"

definition default_health_check :: jobject where
  "default_health_check =
     [(''enabled'', JBool True), (''interval_seconds'', JNum 30), (''timeout_ms'', JNum 5000),
      (''unhealthy_threshold'', JNum 3), (''healthy_threshold'', JNum 1)]"

definition default_l1 :: jobject where
  "default_l1 = [(''max_entries'', JNum 10000), (''max_entry_size_kb'', JNum 64)]"

definition default_tenant_isolation :: jobject where
  "default_tenant_isolation = [(''enabled'', JBool False), (''header'', JStr ''Authorization'')]"

definition default_observability :: jobject where
  "default_observability =
     [(''log_args'', JBool True), (''log_responses'', JBool False),
      (''redact_fields'',
       strings [''ssn'', ''password'', ''api_key'', ''apikey'', ''token'', ''secret'', ''authorization'',
                ''bearer'', ''private_key'', ''privatekey'']),
      (''retention_days'', JNum 30), (''db_path'', JStr ''./conduit-logs.db'')]"

definition default_metrics :: jobject where
  "default_metrics = [(''enabled'', JBool True), (''port'', JNum 9090)]"

definition default_identity :: jobject where
  "default_identity =
     [(''enabled'', JBool False), (''db_path'', JStr ''./conduit-identity.db''),
      (''default_workspace_id'', JStr ''default''), (''workspaces'', JArr [])]"

definition default_approvals :: jobject where
  "default_approvals =
     [(''enabled'', JBool True), (''ttl_seconds'', JNum 3600),
      (''required_roles'', strings [''owner'', ''admin'', ''approver'']), (''allow_self_approval'', JBool False)]"

definition default_governance :: jobject where
  "default_governance =
     [(''enabled'', JBool False), (''db_path'', JStr ''./conduit-governance.db''),
      (''registry_default_action'', JStr ''allow''), (''role_bindings'', JArr []), (''tool_policies'', JArr []),
      (''registry_policies'', JArr []), (''quotas'', JObj [(''workspaces'', JArr [])]),
      (''approvals'', JObj default_approvals)]"

subsection \<open>Small conversions the normalisers share\<close>

text \<open>\<open>String(v ?? d)\<close>.\<close>

definition text_or :: "json \<Rightarrow> string \<Rightarrow> json" where
  "text_or v d = JStr (js_string (or_else v (JStr d)))"

text \<open>\<open>v !== undefined ? { k: f(v) } : {}\<close>.\<close>

definition if_defined :: "(json \<Rightarrow> json) \<Rightarrow> json \<Rightarrow> json option" where
  "if_defined f v = given (v \<noteq> JUndef) (f v)"

definition to_text :: "json \<Rightarrow> json" where
  "to_text v = JStr (js_string v)"

text \<open>\<open>v !== false\<close>, \<open>v === true\<close>.\<close>

definition not_false :: "json \<Rightarrow> json" where
  "not_false v = JBool (v \<noteq> JBool False)"

definition is_true :: "json \<Rightarrow> json" where
  "is_true v = JBool (v = JBool True)"

text \<open>\<open>Array.isArray(v) ? v.map(f)\<close>.\<close>

definition array_map :: "(json \<Rightarrow> json) \<Rightarrow> json \<Rightarrow> json option" where
  "array_map f v = (case v of JArr xs \<Rightarrow> Some (JArr (map f xs)) | _ \<Rightarrow> None)"

text \<open>The records of an array, each normalised.\<close>

definition records_map :: "(json \<Rightarrow> json) \<Rightarrow> json \<Rightarrow> json option" where
  "records_map f v = (case v of JArr xs \<Rightarrow> Some (JArr (map f (filter is_record xs))) | _ \<Rightarrow> None)"

text \<open>A nested record, normalised.\<close>

definition record_map :: "(json \<Rightarrow> json) \<Rightarrow> json \<Rightarrow> json option" where
  "record_map f v = given (is_record v) (f v)"

definition array_or_empty :: "json option \<Rightarrow> json" where
  "array_or_empty v = (case v of Some a \<Rightarrow> a | None \<Rightarrow> JArr [])"

text \<open>\<open>Object.fromEntries(Object.entries(v).map(([k, v]) => [k, String(v)]))\<close>.\<close>

definition string_values :: "json \<Rightarrow> json" where
  "string_values v = JObj (from_entries (map (\<lambda>(k, x). (k, to_text x)) (own_entries v)))"

subsection \<open>Servers\<close>

definition normalizeUpstreamAuth :: "json \<Rightarrow> json" where
  "normalizeUpstreamAuth raw =
     literal
       [(''connected_account'',
         record_map
           (\<lambda>connected.
              literal
                [(''provider'', Some (text_or (field connected ''provider'') [])),
                 (''binding'', if_defined to_text (field connected ''binding'')),
                 (''required'', if_defined not_false (field connected ''required'')),
                 (''headers'', record_map string_values (field connected ''headers''))])
           (field raw ''connected_account'')),
        (''forward_identity'',
         record_map
           (\<lambda>forward.
              literal
                [(''mode'', if_defined to_text (field forward ''mode'')),
                 (''header_name'', if_defined to_text (field forward ''header_name''))])
           (field raw ''forward_identity''))]"

definition normalize_release :: "json \<Rightarrow> json" where
  "normalize_release item =
     literal
       [(''id'', Some (text_or (field item ''id'') [])),
        (''version'', Some (text_or (field item ''version'') [])),
        (''channel'', Some (text_or (field item ''channel'') ''stable'')),
        (''command'', Some (text_or (field item ''command'') [])),
        (''created_at'', Some (text_or (field item ''created_at'') [])),
        (''args'', array_map to_text (field item ''args'')),
        (''env'', record_map string_values (field item ''env'')),
        (''status'', if_defined to_text (field item ''status'')),
        (''notes'', if_defined to_text (field item ''notes''))]"

definition normalizeManagedRuntimeServer :: "json \<Rightarrow> json" where
  "normalizeManagedRuntimeServer raw =
     literal
       [(''enabled'', Some (not_false (field raw ''enabled''))),
        (''source_type'', Some (text_or (field raw ''source_type'') ''command'')),
        (''source_ref'', Some (text_or (field raw ''source_ref'') [])),
        (''channel'', Some (text_or (field raw ''channel'') ''stable'')),
        (''active_release_id'', Some (text_or (field raw ''active_release_id'') [])),
        (''releases'', Some (array_or_empty (records_map normalize_release (field raw ''releases'')))),
        (''last_healthy_release_id'', if_defined to_text (field raw ''last_healthy_release_id'')),
        (''last_rollout_at'', if_defined to_text (field raw ''last_rollout_at'')),
        (''sandbox'',
         record_map
           (\<lambda>sandbox.
              literal
                [(''enabled'', if_defined not_false (field sandbox ''enabled'')),
                 (''root_dir'', if_defined to_text (field sandbox ''root_dir'')),
                 (''sanitize_env'', if_defined not_false (field sandbox ''sanitize_env'')),
                 (''allow_network'', if_defined not_false (field sandbox ''allow_network''))])
           (field raw ''sandbox'')),
        (''health_gate'',
         record_map
           (\<lambda>gate.
              literal
                [(''enabled'', if_defined not_false (field gate ''enabled'')),
                 (''auto_rollback'', if_defined not_false (field gate ''auto_rollback''))])
           (field raw ''health_gate''))]"

text \<open>
  A server.  The environment of a stdio server is kept as it is, an array included; its URL
  is made from the command when the file gives none.
\<close>

definition normalizeServer :: "json \<Rightarrow> json option" where
  "normalizeServer raw =
     (if nullish raw then None
      else
        let cacheRaw = field raw ''cache'';
            ttl = field cacheRaw ''default_ttl'';
            cache = literal [(''default_ttl'', Some (if is_number ttl then ttl else JNum 0)),
                             (''overrides'', if_defined id (field cacheRaw ''overrides''))];
            stdio = field raw ''transport'' = JStr ''stdio'';
            url = js_string (or_else (field raw ''url'') (JStr []));
            command = (if stdio \<and> truthy (field raw ''command'') then Some (js_string (field raw ''command'')) else None);
            url' = (case command of
                      Some c \<Rightarrow> if url = [] \<and> c \<noteq> [] then ''stdio://'' @ c else url
                    | None \<Rightarrow> url)
        in Some (literal
             [(''id'', Some (text_or (field raw ''id'') [])),
              (''url'', Some (JStr url')),
              (''cache'', Some cache),
              (''transport'', given stdio (JStr ''stdio'')),
              (''command'', map_option JStr command),
              (''args'', if stdio then array_map to_text (field raw ''args'') else None),
              (''env'', given (stdio \<and> (is_record (field raw ''env'') \<or> is_array (field raw ''env''))) (field raw ''env'')),
              (''headers'', record_map string_values (field raw ''headers'')),
              (''timeout_ms'', if_defined js_number (field raw ''timeout_ms'')),
              (''replicas'', array_map to_text (field raw ''replicas'')),
              (''upstream_auth'', record_map normalizeUpstreamAuth (field raw ''upstream_auth'')),
              (''forward_authorization'', given (field raw ''forward_authorization'' = JBool True) (JBool True)),
              (''managed_runtime'', record_map normalizeManagedRuntimeServer (field raw ''managed_runtime''))]))"

subsection \<open>connect\<close>

definition normalizeConnectProfile :: "json \<Rightarrow> json" where
  "normalizeConnectProfile raw =
     literal
       [(''id'', Some (text_or (field raw ''id'') [])),
        (''server_ids'', Some (array_or_empty (array_map to_text (field raw ''server_ids'')))),
        (''label'', if_defined to_text (field raw ''label'')),
        (''description'', if_defined to_text (field raw ''description''))]"

definition normalizeConnectRegistry :: "json \<Rightarrow> json" where
  "normalizeConnectRegistry raw =
     literal
       [(''base_url'', if_defined to_text (field raw ''base_url'')),
        (''cache_ttl_seconds'', if_defined js_number (field raw ''cache_ttl_seconds'')),
        (''page_size'', if_defined js_number (field raw ''page_size'')),
        (''max_pages'', if_defined js_number (field raw ''max_pages'')),
        (''latest_only'', if_defined not_false (field raw ''latest_only''))]"

definition normalizeConnectManagedRuntime :: "json \<Rightarrow> json" where
  "normalizeConnectManagedRuntime raw =
     literal
       [(''enabled'', if_defined not_false (field raw ''enabled'')),
        (''root_dir'', if_defined to_text (field raw ''root_dir'')),
        (''default_channel'', if_defined to_text (field raw ''default_channel'')),
        (''sanitize_env'', if_defined not_false (field raw ''sanitize_env'')),
        (''auto_rollback'', if_defined not_false (field raw ''auto_rollback''))]"

definition normalizeConnectConfig :: "json \<Rightarrow> json option" where
  "normalizeConnectConfig raw =
     (if nullish raw then None
      else Some (literal
        [(''profiles'', records_map normalizeConnectProfile (field raw ''profiles'')),
         (''registry'', record_map normalizeConnectRegistry (field raw ''registry'')),
         (''managed_runtime'', record_map normalizeConnectManagedRuntime (field raw ''managed_runtime''))]))"

subsection \<open>identity\<close>

definition normalizeIdentityWorkspace :: "json \<Rightarrow> json" where
  "normalizeIdentityWorkspace raw =
     literal
       [(''id'', Some (text_or (field raw ''id'') [])),
        (''label'', if_defined to_text (field raw ''label'')),
        (''tenant_ids'', array_map to_text (field raw ''tenant_ids''))]"

definition normalizeIdentityConfig :: "json \<Rightarrow> json option" where
  "normalizeIdentityConfig raw =
     (if nullish raw then None
      else Some (literal
        [(''enabled'', Some (not_false (field raw ''enabled''))),
         (''workspaces'', Some (array_or_empty (records_map normalizeIdentityWorkspace (field raw ''workspaces'')))),
         (''db_path'', if_defined to_text (field raw ''db_path'')),
         (''default_workspace_id'', if_defined to_text (field raw ''default_workspace_id''))]))"

subsection \<open>governance\<close>

definition normalizeToolRateLimit :: "json \<Rightarrow> (string \<times> json option) list" where
  "normalizeToolRateLimit raw =
     [(''requests_per_minute'', if_defined js_number (field raw ''requests_per_minute'')),
      (''requests_per_hour'', if_defined js_number (field raw ''requests_per_hour'')),
      (''requests_per_day'', if_defined js_number (field raw ''requests_per_day''))]"

definition normalizeGovernanceWorkspaceQuota :: "json \<Rightarrow> json" where
  "normalizeGovernanceWorkspaceQuota raw =
     literal ((''workspace_id'', Some (text_or (field raw ''workspace_id'') [])) # normalizeToolRateLimit raw)"

definition normalizeGovernanceRoleBinding :: "json \<Rightarrow> json" where
  "normalizeGovernanceRoleBinding raw =
     literal
       [(''workspace_id'', Some (text_or (field raw ''workspace_id'') [])),
        (''role'', Some (text_or (field raw ''role'') [])),
        (''clients'', Some (array_or_empty (array_map to_text (field raw ''clients''))))]"

definition normalizeGovernanceToolPolicy :: "json \<Rightarrow> json" where
  "normalizeGovernanceToolPolicy raw =
     literal
       [(''name'', Some (text_or (field raw ''name'') [])),
        (''effect'', Some (text_or (field raw ''effect'') ''deny'')),
        (''workspace_ids'', array_map to_text (field raw ''workspace_ids'')),
        (''roles'', array_map to_text (field raw ''roles'')),
        (''clients'', array_map to_text (field raw ''clients'')),
        (''servers'', array_map to_text (field raw ''servers'')),
        (''tools'', array_map to_text (field raw ''tools'')),
        (''reason'', if_defined to_text (field raw ''reason''))]"

definition normalizeGovernanceRegistryPolicy :: "json \<Rightarrow> json" where
  "normalizeGovernanceRegistryPolicy raw =
     literal
       [(''name'', Some (text_or (field raw ''name'') [])),
        (''effect'', Some (text_or (field raw ''effect'') ''deny'')),
        (''workspace_ids'', array_map to_text (field raw ''workspace_ids'')),
        (''roles'', array_map to_text (field raw ''roles'')),
        (''clients'', array_map to_text (field raw ''clients'')),
        (''server_names'', array_map to_text (field raw ''server_names'')),
        (''package_types'', array_map to_text (field raw ''package_types'')),
        (''install_modes'', array_map to_text (field raw ''install_modes'')),
        (''reason'', if_defined to_text (field raw ''reason''))]"

definition normalize_quotas :: "json \<Rightarrow> json" where
  "normalize_quotas raw =
     literal
       [(''default'', record_map (\<lambda>d. literal (normalizeToolRateLimit d)) (field raw ''default'')),
        (''workspaces'', records_map normalizeGovernanceWorkspaceQuota (field raw ''workspaces''))]"

definition normalize_approvals :: "json \<Rightarrow> json" where
  "normalize_approvals raw =
     literal
       [(''enabled'', if_defined not_false (field raw ''enabled'')),
        (''ttl_seconds'', if_defined js_number (field raw ''ttl_seconds'')),
        (''required_roles'', array_map to_text (field raw ''required_roles'')),
        (''allow_self_approval'', if_defined is_true (field raw ''allow_self_approval''))]"

definition normalizeGovernanceConfig :: "json \<Rightarrow> json option" where
  "normalizeGovernanceConfig raw =
     (if nullish raw then None
      else
        let action = js_string (field raw ''registry_default_action'')
        in Some (literal
          [(''enabled'', Some (not_false (field raw ''enabled''))),
           (''db_path'', if_defined to_text (field raw ''db_path'')),
           (''registry_default_action'',
            given (field raw ''registry_default_action'' \<noteq> JUndef \<and> (action = ''allow'' \<or> action = ''deny'')) (JStr action)),
           (''role_bindings'', records_map normalizeGovernanceRoleBinding (field raw ''role_bindings'')),
           (''tool_policies'', records_map normalizeGovernanceToolPolicy (field raw ''tool_policies'')),
           (''registry_policies'', records_map normalizeGovernanceRegistryPolicy (field raw ''registry_policies'')),
           (''quotas'', record_map normalize_quotas (field raw ''quotas'')),
           (''approvals'', record_map normalize_approvals (field raw ''approvals''))]))"

subsection \<open>mergeWithDefaults\<close>

definition mergeObject :: "jobject \<Rightarrow> json \<Rightarrow> json" where
  "mergeObject defaults override = JObj (if truthy override then spread_into defaults override else defaults)"

definition merge_router :: "json \<Rightarrow> json" where
  "merge_router raw =
     literal
       [(''namespace_strategy'', Some (or_else (field raw ''namespace_strategy'') (JStr ''prefix''))),
        (''health_check'', Some (JObj (spread_into default_health_check (field raw ''health_check'')))),
        (''load_balancing'',
         Some (if field raw ''load_balancing'' \<noteq> JUndef then field raw ''load_balancing'' else JStr ''round-robin'')),
        (''circuit_breaker'', given (\<not> nullish (field raw ''circuit_breaker'')) (field raw ''circuit_breaker''))]"

definition merge_l2 :: "json \<Rightarrow> json" where
  "merge_l2 raw =
     literal
       [(''enabled'', Some (not_false (field raw ''enabled''))),
        (''redis_url'', Some (text_or (field raw ''redis_url'') [])),
        (''default_ttl_multiplier'', Some (js_number (or_else (field raw ''default_ttl_multiplier'') (JNum 3)))),
        (''key_prefix'', given (\<not> nullish (field raw ''key_prefix'')) (to_text (field raw ''key_prefix''))),
        (''max_entry_size_kb'',
         given (\<not> nullish (field raw ''max_entry_size_kb'')) (js_number (field raw ''max_entry_size_kb'')))]"

definition merge_cache :: "json \<Rightarrow> json" where
  "merge_cache raw =
     literal
       [(''enabled'', Some (or_else (field raw ''enabled'') (JBool True))),
        (''l1'', Some (JObj (spread_into default_l1 (field raw ''l1'')))),
        (''l2'', given (\<not> nullish (field raw ''l2'')) (merge_l2 (field raw ''l2'')))]"

definition merge_servers :: "json \<Rightarrow> json option" where
  "merge_servers raw =
     (case raw of JArr xs \<Rightarrow> map_option JArr (those (map normalizeServer xs)) | _ \<Rightarrow> Some (JArr []))"

text \<open>A section that its normaliser cannot read makes the whole merge fail.\<close>

definition merge_section :: "(json \<Rightarrow> json option) \<Rightarrow> json option \<Rightarrow> json \<Rightarrow> json option option" where
  "merge_section f dflt raw = (if raw = JUndef then Some dflt else map_option Some (f raw))"

definition mergeWithDefaults :: "json \<Rightarrow> json option" where
  "mergeWithDefaults partial =
     (case (merge_servers (field partial ''servers''),
            merge_section normalizeConnectConfig None (field partial ''connect''),
            merge_section normalizeIdentityConfig (Some (JObj default_identity)) (field partial ''identity''),
            merge_section normalizeGovernanceConfig (Some (JObj default_governance)) (field partial ''governance'')) of
        (Some servers, Some connect, Some identity, Some governance) \<Rightarrow>
          Some (literal
            [(''gateway'', Some (mergeObject default_gateway (field partial ''gateway''))),
             (''router'', Some (merge_router (field partial ''router''))),
             (''servers'', Some servers),
             (''cache'', Some (merge_cache (field partial ''cache''))),
             (''tenant_isolation'', Some (mergeObject default_tenant_isolation (field partial ''tenant_isolation''))),
             (''observability'', Some (mergeObject default_observability (field partial ''observability''))),
             (''metrics'', Some (mergeObject default_metrics (field partial ''metrics''))),
             (''auth'', if_defined id (field partial ''auth'')),
             (''acl'', if_defined id (field partial ''acl'')),
             (''rate_limits'', if_defined id (field partial ''rate_limits'')),
             (''admin'', if_defined id (field partial ''admin'')),
             (''connect'', connect),
             (''identity'', identity),
             (''governance'', governance),
             (''guardrails'', if_defined id (field partial ''guardrails''))])
      | _ \<Rightarrow> None)"

end
