(* ===== verification/Config_Validation.thy ===== *)
theory Config_Validation
  imports Config_Schema
begin

section \<open>Validation of the configuration (src/src/config/schema.ts)\<close>

text \<open>
  \<open>validateConfig\<close> returns the list of the errors of a configuration, in the order of the
  source.  \<open>None\<close> is a type error: an entry of \<open>cache.overrides\<close> of a server that is
  \<open>null\<close>, or a \<open>gateway.host\<close> that is truthy and not a string when it is looked at.  The
  parameters are what the validation asks of its environment: whether a file exists, the
  protocol of a URL that parses, and the error of a regular expression that does not.
\<close>

record validator =
  va_exists :: "string \<Rightarrow> bool"
  va_url :: "string \<Rightarrow> string option"
  va_regex_error :: "string \<Rightarrow> string option"

record config_error =
  ce_path :: string
  ce_message :: string
  ce_value :: json

definition config_error :: "string \<Rightarrow> string \<Rightarrow> json \<Rightarrow> config_error" where
  "config_error path message v = \<lparr>ce_path = path, ce_message = message, ce_value = v\<rparr>"

definition err_if :: "bool \<Rightarrow> config_error \<Rightarrow> config_error list" where
  "err_if c e = (if c then [e] else [])"

text \<open>\<open>path[i].key\<close>.\<close>

definition at_index :: "string \<Rightarrow> nat \<Rightarrow> string \<Rightarrow> string" where
  "at_index path i rest = path @ ''['' @ show_nat i @ '']'' @ rest"

text \<open>The errors of the elements of a list that are not falsy.\<close>

definition each :: "(nat \<Rightarrow> json \<Rightarrow> config_error list) \<Rightarrow> json \<Rightarrow> config_error list" where
  "each check v = concat (map (\<lambda>(i, x). if truthy x then check i x else []) (enumerate 0 (elements v)))"

text \<open>\<open>/^[a-zA-Z0-9-]+$/\<close>.\<close>

definition id_char :: "char \<Rightarrow> bool" where
  "id_char c =
     (let n = (of_char c :: nat)
      in (48 \<le> n \<and> n \<le> 57) \<or> (65 \<le> n \<and> n \<le> 90) \<or> (97 \<le> n \<and> n \<le> 122) \<or> n = 45)"

definition dashed_id :: "string \<Rightarrow> bool" where
  "dashed_id s \<longleftrightarrow> s \<noteq> [] \<and> list_all id_char s"

text \<open>\<open>!v || !regexp.test(v)\<close> fails: a truthy value whose text is such an identifier.\<close>

definition id_ok :: "json \<Rightarrow> bool" where
  "id_ok v \<longleftrightarrow> truthy v \<and> dashed_id (js_string v)"

definition port_ok :: "json \<Rightarrow> bool" where
  "port_ok v = (case v of JNum n \<Rightarrow> 1 \<le> n \<and> n \<le> 65535 | _ \<Rightarrow> False)"

text \<open>\<open>isLoopbackHost\<close>: \<open>trim\<close> on a truthy host that is not a string is a type error.\<close>

definition isLoopbackHost :: "json \<Rightarrow> bool option" where
  "isLoopbackHost host =
     (if \<not> truthy host then Some False
      else case host of
             JStr s \<Rightarrow>
               (let normalized = to_lower (trim s)
                in Some (if normalized = [] then False
                         else normalized = ''localhost'' \<or> normalized = ''127.0.0.1'' \<or> normalized = ''::1'' \<or>
                              normalized = ''[::1]'' \<or> take 4 normalized = ''127.''))
           | _ \<Rightarrow> None)"

subsection \<open>gateway, router, cache, observability, metrics\<close>

definition file_errors :: "validator \<Rightarrow> string \<Rightarrow> json \<Rightarrow> config_error list" where
  "file_errors va path file =
     (if \<not> truthy file then [config_error path ''required when TLS is enabled'' JUndef]
      else if \<not> (case file of JStr s \<Rightarrow> va_exists va s | _ \<Rightarrow> False)
        then [config_error path (''file not found: '' @ js_string file) file]
        else [])"

definition gateway_errors :: "validator \<Rightarrow> json \<Rightarrow> config_error list" where
  "gateway_errors va gateway =
     (let port = field gateway ''port''; tls = field gateway ''tls''
      in err_if (\<not> port_ok port) (config_error ''gateway.port'' ''must be between 1 and 65535'' port) @
         (if truthy (field tls ''enabled'')
          then file_errors va ''gateway.tls.cert_path'' (field tls ''cert_path'') @
               file_errors va ''gateway.tls.key_path'' (field tls ''key_path'')
          else []))"

definition router_errors :: "json \<Rightarrow> config_error list" where
  "router_errors router =
     (let hc = field router ''health_check''; cb = field router ''circuit_breaker''
      in err_if (at_most (field hc ''interval_seconds'') 0)
           (config_error ''router.health_check.interval_seconds'' ''must be greater than 0'' (field hc ''interval_seconds'')) @
         err_if (at_most (field hc ''timeout_ms'') 0)
           (config_error ''router.health_check.timeout_ms'' ''must be greater than 0'' (field hc ''timeout_ms'')) @
         err_if (below (field hc ''unhealthy_threshold'') 1)
           (config_error ''router.health_check.unhealthy_threshold'' ''must be >= 1'' (field hc ''unhealthy_threshold'')) @
         err_if (truthy (field cb ''enabled'') \<and> at_most (field cb ''failure_threshold'') 0)
           (config_error ''router.circuit_breaker.failure_threshold'' ''must be greater than 0'' (field cb ''failure_threshold'')))"

definition url_ok :: "validator \<Rightarrow> json \<Rightarrow> bool" where
  "url_ok va v \<longleftrightarrow> va_url va (js_string v) \<noteq> None"

definition cache_errors :: "validator \<Rightarrow> json \<Rightarrow> config_error list" where
  "cache_errors va cache =
     (let l1 = field cache ''l1''; l2 = field cache ''l2'';
          url = field l2 ''redis_url''; ttl = field l2 ''default_ttl_multiplier''
      in err_if (below (field l1 ''max_entries'') 1)
           (config_error ''cache.l1.max_entries'' ''must be greater than 0'' (field l1 ''max_entries'')) @
         err_if (below (field l1 ''max_entry_size_kb'') 1)
           (config_error ''cache.l1.max_entry_size_kb'' ''must be greater than 0'' (field l1 ''max_entry_size_kb'')) @
         (if truthy (field l2 ''enabled'')
          then (if \<not> truthy url then [config_error ''cache.l2.redis_url'' ''required when L2 cache is enabled'' JUndef]
                else err_if (\<not> url_ok va url) (config_error ''cache.l2.redis_url'' ''must be a valid Redis URL'' url)) @
               err_if (ttl \<noteq> JUndef \<and> below ttl 1) (config_error ''cache.l2.default_ttl_multiplier'' ''must be >= 1'' ttl)
          else []))"

definition observability_errors :: "json \<Rightarrow> config_error list" where
  "observability_errors observability =
     err_if (below (field observability ''retention_days'') 1)
       (config_error ''observability.retention_days'' ''must be >= 1'' (field observability ''retention_days''))"

definition metrics_errors :: "json \<Rightarrow> json \<Rightarrow> config_error list" where
  "metrics_errors metrics gateway =
     (let port = field metrics ''port''
      in err_if (\<not> port_ok port) (config_error ''metrics.port'' ''must be between 1 and 65535'' port) @
         err_if (truthy (field metrics ''enabled'') \<and> is_integer port \<and> strict_eq port (field gateway ''port''))
           (config_error ''metrics.port''
              (''must be different from gateway.port ('' @ js_string (field gateway ''port'') @ '')'') port))"

subsection \<open>rate_limits, auth, admin\<close>

definition limit_errors :: "string \<Rightarrow> json \<Rightarrow> config_error list" where
  "limit_errors path v = err_if (v \<noteq> JUndef \<and> at_most v 0) (config_error path ''must be greater than 0'' v)"

definition rate_limit_errors :: "validator \<Rightarrow> json \<Rightarrow> config_error list" where
  "rate_limit_errors va rl =
     (if \<not> truthy (field rl ''enabled'') then []
      else
        let url = field rl ''redis_url''; queue = field rl ''queue''; wait = field queue ''max_wait_ms''
        in limit_errors ''rate_limits.global.requests_per_minute'' (field (field rl ''global'') ''requests_per_minute'') @
           limit_errors ''rate_limits.per_client.requests_per_minute''
             (field (field rl ''per_client'') ''requests_per_minute'') @
           (if field rl ''backend'' = JStr ''redis''
            then (if \<not> truthy url
                  then [config_error ''rate_limits.redis_url'' ''required when backend is \"redis\"'' JUndef]
                  else err_if (\<not> url_ok va url) (config_error ''rate_limits.redis_url'' ''must be a valid URL'' url))
            else []) @
           err_if (wait \<noteq> JUndef \<and> below wait 0) (config_error ''rate_limits.queue.max_wait_ms'' ''must be >= 0'' wait) @
           limit_errors ''rate_limits.queue.max_queue_size'' (field queue ''max_queue_size''))"

definition auth_errors :: "json \<Rightarrow> config_error list" where
  "auth_errors auth =
     err_if (field auth ''method'' = JStr ''jwt'' \<and> \<not> truthy (field auth ''jwks_url''))
       (config_error ''auth.jwks_url'' ''required when auth method is \"jwt\"'' JUndef)"

text \<open>The conditions are evaluated from left to right: the host is looked at when there is no key.\<close>

definition admin_errors :: "json \<Rightarrow> json \<Rightarrow> config_error list option" where
  "admin_errors admin host =
     (if truthy (field admin ''key'') then Some []
      else
        case isLoopbackHost host of
          None \<Rightarrow> None
        | Some loopback \<Rightarrow>
            Some (err_if (\<not> loopback \<and> field admin ''allow_unauthenticated'' \<noteq> JBool True)
              (config_error ''admin.key''
                (''required when gateway.host is not loopback (\"'' @ js_string host @ ''\"). '' @
                 ''Set admin.key (or CONDUIT_ADMIN_KEY) to a strong secret, or set '' @
                 ''admin.allow_unauthenticated=true to acknowledge an unauthenticated admin API.'') JUndef)))"

subsection \<open>identity\<close>

definition dashed_message :: string where
  "dashed_message = ''must be alphanumeric with dashes only''"

text \<open>
  The loop over the workspaces with the ids and the tenants it has seen: \<open>tenant_ids_loop\<close> is
  the inner loop.
\<close>

fun tenant_ids_loop ::
  "nat \<Rightarrow> nat \<Rightarrow> json list \<Rightarrow> string list \<Rightarrow> config_error list \<times> string list" where
  "tenant_ids_loop i j [] claimed = ([], claimed)"
| "tenant_ids_loop i j (t # ts) claimed =
     (let path = at_index (at_index ''identity.workspaces'' i ''.tenant_ids'') j []
      in case t of
           JStr s \<Rightarrow>
             (if s = []
              then map_prod (Cons (config_error path ''must be a non-empty string'' t)) id
                     (tenant_ids_loop i (Suc j) ts claimed)
              else if s \<in> set claimed
              then map_prod
                     (Cons (config_error path (''tenant \"'' @ s @ ''\" is already mapped to another workspace'') t)) id
                     (tenant_ids_loop i (Suc j) ts claimed)
              else tenant_ids_loop i (Suc j) ts (s # claimed))
         | _ \<Rightarrow>
             map_prod (Cons (config_error path ''must be a non-empty string'' t)) id
               (tenant_ids_loop i (Suc j) ts claimed))"

definition workspace_id_errors :: "nat \<Rightarrow> json \<Rightarrow> json list \<Rightarrow> config_error list \<times> json list" where
  "workspace_id_errors i ident seen =
     (let path = at_index ''identity.workspaces'' i ''.id''
      in if \<not> id_ok ident then ([config_error path dashed_message ident], seen)
         else if list_ex (strict_eq ident) seen
         then ([config_error path (''duplicate workspace id \"'' @ js_string ident @ ''\"'') ident], seen)
         else ([], ident # seen))"

fun workspaces_loop :: "nat \<Rightarrow> json list \<Rightarrow> json list \<Rightarrow> string list \<Rightarrow> config_error list" where
  "workspaces_loop i [] seen claimed = []"
| "workspaces_loop i (w # ws) seen claimed =
     (if \<not> truthy w then workspaces_loop (Suc i) ws seen claimed
      else
        let (es, seen') = workspace_id_errors i (field w ''id'') seen;
            (ts, claimed') =
              (if truthy (field w ''tenant_ids'')
               then tenant_ids_loop i 0 (elements (field w ''tenant_ids'')) claimed else ([], claimed))
        in es @ ts @ workspaces_loop (Suc i) ws seen' claimed')"

definition string_errors :: "string \<Rightarrow> json \<Rightarrow> config_error list" where
  "string_errors path v = err_if (v \<noteq> JUndef \<and> \<not> is_string v) (config_error path ''must be a string'' v)"

definition identity_errors :: "json \<Rightarrow> config_error list" where
  "identity_errors identity =
     (if \<not> truthy (field identity ''enabled'') then []
      else
        let dflt = field identity ''default_workspace_id''
        in string_errors ''identity.db_path'' (field identity ''db_path'') @
           err_if (dflt \<noteq> JUndef \<and> \<not> dashed_id (js_string dflt))
             (config_error ''identity.default_workspace_id'' dashed_message dflt) @
           workspaces_loop 0 (elements (or_else (field identity ''workspaces'') (JArr []))) [] [])"

subsection \<open>governance\<close>

definition valid_roles :: "string list" where
  "valid_roles = [''owner'', ''admin'', ''approver'', ''operator'', ''developer'', ''viewer'']"

definition listed :: "string list \<Rightarrow> string" where
  "listed ts = join_with '', '' ts"

text \<open>\<open>!v || v.length === 0\<close>.\<close>

definition empty_list :: "json \<Rightarrow> bool" where
  "empty_list v \<longleftrightarrow> \<not> truthy v \<or> field v ''length'' = JNum 0"

definition member_errors :: "string \<Rightarrow> string list \<Rightarrow> json \<Rightarrow> config_error list" where
  "member_errors path ts v = err_if (\<not> one_of ts v) (config_error path (''must be one of: '' @ listed ts) v)"

text \<open>\<open>v?.some((role) => !validRoles.includes(role))\<close>, for a normalised value: an array or nothing.\<close>

definition role_list_errors :: "string \<Rightarrow> json \<Rightarrow> config_error list" where
  "role_list_errors path v =
     err_if (list_ex (\<lambda>r. \<not> one_of valid_roles r) (elements v))
       (config_error path (''must contain only: '' @ listed valid_roles) v)"

text \<open>
  The loop over entries that carry a name: each name once, then what \<open>check\<close> says of the
  entry.
\<close>

fun named_loop ::
  "(json \<Rightarrow> bool) \<Rightarrow> (nat \<Rightarrow> json \<Rightarrow> config_error list) \<Rightarrow> string \<Rightarrow> string \<Rightarrow> nat \<Rightarrow> json list \<Rightarrow> json list \<Rightarrow>
   config_error list" where
  "named_loop name_ok check path kind i [] seen = []"
| "named_loop name_ok check path kind i (p # ps) seen =
     (if \<not> truthy p then named_loop name_ok check path kind (Suc i) ps seen
      else
        let name = field p ''name''; here = at_index path i ''.name'';
            (es, seen') =
              (if \<not> name_ok name then ([config_error here ''must be a non-empty string'' JUndef], seen)
               else if list_ex (strict_eq name) seen
               then ([config_error here (''duplicate '' @ kind @ '' name \"'' @ js_string name @ ''\"'') name], seen)
               else ([], name # seen))
        in es @ check i p @ named_loop name_ok check path kind (Suc i) ps seen')"

definition binding_errors :: "nat \<Rightarrow> json \<Rightarrow> config_error list" where
  "binding_errors i binding =
     (let path = at_index ''governance.role_bindings'' i; ws = field binding ''workspace_id''
      in err_if (\<not> id_ok ws) (config_error (path ''.workspace_id'') dashed_message ws) @
         member_errors (path ''.role'') valid_roles (field binding ''role'') @
         err_if (empty_list (field binding ''clients''))
           (config_error (path ''.clients'') ''must be a non-empty array'' JUndef))"

definition tool_policy_errors :: "nat \<Rightarrow> json \<Rightarrow> config_error list" where
  "tool_policy_errors i policy =
     member_errors (at_index ''governance.tool_policies'' i ''.effect'') [''allow'', ''deny'', ''require_approval'']
       (field policy ''effect'') @
     role_list_errors (at_index ''governance.tool_policies'' i ''.roles'') (field policy ''roles'')"

definition registry_policy_errors :: "nat \<Rightarrow> json \<Rightarrow> config_error list" where
  "registry_policy_errors i policy =
     member_errors (at_index ''governance.registry_policies'' i ''.effect'') [''allow'', ''deny''] (field policy ''effect'') @
     role_list_errors (at_index ''governance.registry_policies'' i ''.roles'') (field policy ''roles'')"

definition quota_errors :: "string \<Rightarrow> json \<Rightarrow> config_error list" where
  "quota_errors path quota =
     concat (map (\<lambda>key. limit_errors (path @ ''.'' @ key) (field quota key))
       [''requests_per_minute'', ''requests_per_hour'', ''requests_per_day''])"

definition workspace_quota_errors :: "nat \<Rightarrow> json \<Rightarrow> config_error list" where
  "workspace_quota_errors i quota =
     err_if (\<not> id_ok (field quota ''workspace_id''))
       (config_error (at_index ''governance.quotas.workspaces'' i ''.workspace_id'') dashed_message
          (field quota ''workspace_id'')) @
     quota_errors (at_index ''governance.quotas.workspaces'' i []) quota"

definition governance_errors :: "json \<Rightarrow> config_error list" where
  "governance_errors governance =
     (if \<not> truthy (field governance ''enabled'') then []
      else
        let action = field governance ''registry_default_action'';
            quotas = field governance ''quotas'';
            approvals = field governance ''approvals'';
            items = (\<lambda>v. or_else v (JArr []))
        in string_errors ''governance.db_path'' (field governance ''db_path'') @
           err_if (action \<noteq> JUndef \<and> \<not> one_of [''allow'', ''deny''] action)
             (config_error ''governance.registry_default_action'' ''must be one of: allow, deny'' action) @
           each binding_errors (items (field governance ''role_bindings'')) @
           named_loop truthy tool_policy_errors ''governance.tool_policies'' ''policy'' 0
             (elements (items (field governance ''tool_policies''))) [] @
           named_loop truthy registry_policy_errors ''governance.registry_policies'' ''policy'' 0
             (elements (items (field governance ''registry_policies''))) [] @
           each workspace_quota_errors (items (field quotas ''workspaces'')) @
           (if truthy (field quotas ''default'')
            then quota_errors ''governance.quotas.default'' (field quotas ''default'') else []) @
           limit_errors ''governance.approvals.ttl_seconds'' (field approvals ''ttl_seconds'') @
           role_list_errors ''governance.approvals.required_roles'' (field approvals ''required_roles''))"

subsection \<open>acl, guardrails\<close>

definition acl_errors :: "json \<Rightarrow> config_error list" where
  "acl_errors acl =
     (if truthy (field acl ''enabled'') \<and> truthy (field acl ''policies'')
      then each (\<lambda>i policy. err_if (empty_list (field policy ''clients''))
                  (config_error (at_index ''acl.policies'' i ''.clients'') ''must be a non-empty array'' JUndef))
             (field acl ''policies'')
      else [])"

definition name_text :: "json \<Rightarrow> bool" where
  "name_text v \<longleftrightarrow> truthy v \<and> is_string v"

definition valid_operators :: "string list" where
  "valid_operators =
     [''eq'', ''neq'', ''gt'', ''gte'', ''lt'', ''lte'', ''contains'', ''not_contains'', ''matches'', ''exists'', ''not_exists'']"

definition condition_errors :: "validator \<Rightarrow> string \<Rightarrow> nat \<Rightarrow> json \<Rightarrow> config_error list" where
  "condition_errors va path j cond =
     (let here = at_index (path @ ''.conditions'') j; value = field cond ''value''
      in err_if (\<not> name_text (field cond ''field''))
           (config_error (here ''.field'') ''must be a non-empty string'' JUndef) @
         member_errors (here ''.operator'') valid_operators (field cond ''operator'') @
         (case value of
            JStr pattern \<Rightarrow>
              (if field cond ''operator'' = JStr ''matches''
               then (case va_regex_error va pattern of
                       Some message \<Rightarrow>
                         [config_error (here ''.value'') (''invalid regex pattern: '' @ message) value]
                     | None \<Rightarrow> [])
               else [])
          | _ \<Rightarrow> []))"

definition rule_errors :: "validator \<Rightarrow> nat \<Rightarrow> json \<Rightarrow> config_error list" where
  "rule_errors va i rule =
     member_errors (at_index ''guardrails.rules'' i ''.action'')
       [''block'', ''alert'', ''require_approval'', ''transform''] (field rule ''action'') @
     (if truthy (field rule ''conditions'')
      then each (condition_errors va (at_index ''guardrails.rules'' i [])) (field rule ''conditions'') else [])"

definition guardrail_errors :: "validator \<Rightarrow> json \<Rightarrow> config_error list" where
  "guardrail_errors va gr =
     (if truthy (field gr ''enabled'') \<and> truthy (field gr ''rules'')
      then named_loop name_text (rule_errors va) ''guardrails.rules'' ''rule'' 0 (elements (field gr ''rules'')) []
      else [])"

subsection \<open>servers\<close>

definition required :: "string \<Rightarrow> string \<Rightarrow> json \<Rightarrow> config_error list" where
  "required path message v = err_if (\<not> truthy v) (config_error path message JUndef)"

definition stdio_errors :: "(string \<Rightarrow> string) \<Rightarrow> json \<Rightarrow> config_error list" where
  "stdio_errors path server =
     (let managed = field server ''managed_runtime''; replicas = field server ''replicas''
      in required (path ''.command'') ''required when transport is \"stdio\"'' (field server ''command'') @
         err_if (truthy replicas \<and> above (field replicas ''length'') 0)
           (config_error (path ''.replicas'') ''replicas are not supported with stdio transport'' JUndef) @
         (if truthy (field managed ''enabled'')
          then required (path ''.managed_runtime.source_ref'') ''required when managed_runtime is enabled''
                 (field managed ''source_ref'') @
               required (path ''.managed_runtime.active_release_id'') ''required when managed_runtime is enabled''
                 (field managed ''active_release_id'') @
               err_if (\<not> is_array (field managed ''releases'') \<or> elements (field managed ''releases'') = [])
                 (config_error (path ''.managed_runtime.releases'')
                    ''must contain at least one release when managed_runtime is enabled'' JUndef)
          else []))"

definition http_errors :: "validator \<Rightarrow> (string \<Rightarrow> string) \<Rightarrow> json \<Rightarrow> config_error list" where
  "http_errors va path server =
     (let url = field server ''url''
      in if \<not> truthy url
         then [config_error (path ''.url'') ''must be a valid URL (got empty string)'' (JStr [])]
         else err_if (\<not> url_ok va url) (config_error (path ''.url'') ''must be a valid URL'' url))"

definition header_errors :: "(string \<Rightarrow> string) \<Rightarrow> json \<Rightarrow> config_error list" where
  "header_errors path headers =
     concat (map (\<lambda>(name, value).
         err_if (trim name = []) (config_error (path ''.headers'') ''header names must be non-empty strings'' (JStr name)) @
         err_if (\<not> is_string value) (config_error (path (''.headers.'' @ name)) ''header values must be strings'' value))
       (own_entries headers))"

text \<open>Reading \<open>ttl\<close> of an override that is \<open>null\<close> is a type error.\<close>

definition override_errors :: "(string \<Rightarrow> string) \<Rightarrow> json \<Rightarrow> config_error list option" where
  "override_errors path overrides =
     (if list_ex (\<lambda>(tool, override). nullish override) (own_entries overrides) then None
      else Some (concat (map (\<lambda>(tool, override).
             err_if (field override ''ttl'' \<noteq> JUndef \<and> below (field override ''ttl'') 0)
               (config_error (path (''.cache.overrides.'' @ tool @ ''.ttl'')) ''must be >= 0'' (field override ''ttl'')))
           (own_entries overrides))))"

definition replica_errors :: "validator \<Rightarrow> string \<Rightarrow> json \<Rightarrow> config_error list" where
  "replica_errors va path replicas =
     each (\<lambda>j url. err_if (\<not> url_ok va url) (config_error (at_index path j []) ''must be a valid URL'' url)) replicas"

definition upstream_auth_errors :: "(string \<Rightarrow> string) \<Rightarrow> json \<Rightarrow> config_error list" where
  "upstream_auth_errors path upstream =
     (let connected = field upstream ''connected_account''; forward = field upstream ''forward_identity''
      in (if truthy connected
          then err_if (\<not> name_text (field connected ''provider''))
                 (config_error (path ''.upstream_auth.connected_account.provider'') ''must be a non-empty string''
                    (field connected ''provider'')) @
               (if field connected ''binding'' \<noteq> JUndef
                then member_errors (path ''.upstream_auth.connected_account.binding'')
                       [''client'', ''tenant'', ''workspace'', ''client-or-workspace''] (field connected ''binding'')
                else [])
          else []) @
         (if truthy forward \<and> field forward ''mode'' \<noteq> JUndef
          then member_errors (path ''.upstream_auth.forward_identity.mode'')
                 [''none'', ''bearer'', ''claims-header''] (field forward ''mode'')
          else []))"

definition server_errors :: "validator \<Rightarrow> nat \<Rightarrow> json \<Rightarrow> config_error list option" where
  "server_errors va i server =
     (let path = at_index ''servers'' i; ident = field server ''id'';
          transport = or_else (field server ''transport'') (JStr ''http'');
          cache = field server ''cache''; ttl = field cache ''default_ttl'';
          overrides = field cache ''overrides''
      in map_option (\<lambda>override_part.
           (if \<not> truthy ident then [config_error (path ''.id'') ''must be non-empty'' JUndef]
            else err_if (\<not> id_ok ident) (config_error (path ''.id'') dashed_message ident)) @
           (if transport = JStr ''stdio'' then stdio_errors path server else http_errors va path server) @
           (if truthy (field server ''headers'') then header_errors path (field server ''headers'') else []) @
           err_if (transport \<noteq> JStr ''http'' \<and> transport \<noteq> JStr ''stdio'')
             (config_error (path ''.transport'') ''must be \"http\" or \"stdio\"'' transport) @
           err_if (below ttl 0)
             (config_error (path ''.cache.default_ttl'') ''must be >= 0 (use 0 to disable caching)'' ttl) @
           override_part @
           err_if (truthy (field server ''managed_runtime'') \<and> transport \<noteq> JStr ''stdio'')
             (config_error (path ''.managed_runtime'') ''managed_runtime is only supported for stdio transport'' JUndef) @
           (if truthy (field server ''replicas'')
            then replica_errors va (path ''.replicas'') (field server ''replicas'') else []) @
           upstream_auth_errors path (field server ''upstream_auth''))
         (if truthy overrides then override_errors path overrides else Some []))"

definition servers_errors :: "validator \<Rightarrow> json list \<Rightarrow> config_error list option" where
  "servers_errors va servers =
     map_option concat (those (map (\<lambda>(i, s). if truthy s then server_errors va i s else Some [])
                                 (enumerate 0 servers)))"

subsection \<open>connect\<close>

definition profile_server_errors :: "string \<Rightarrow> json list \<Rightarrow> nat \<Rightarrow> json \<Rightarrow> config_error list" where
  "profile_server_errors path known j ident =
     (case ident of
        JStr s \<Rightarrow>
          (if s = [] then [config_error (at_index path j []) ''must be a non-empty string'' ident]
           else err_if (\<not> list_ex (strict_eq ident) known)
                  (config_error (at_index path j []) (''unknown server id \"'' @ s @ ''\"'') ident))
      | _ \<Rightarrow> [config_error (at_index path j []) ''must be a non-empty string'' ident])"

definition profile_id_errors :: "nat \<Rightarrow> json \<Rightarrow> json list \<Rightarrow> config_error list \<times> json list" where
  "profile_id_errors i ident seen =
     (let here = at_index ''connect.profiles'' i ''.id''
      in if \<not> name_text ident then ([config_error here ''must be a non-empty string'' JUndef], seen)
         else if \<not> id_ok ident then ([config_error here dashed_message ident], seen)
         else if ident = JStr ''default''
         then ([config_error here ''\"default\" is reserved for the built-in profile'' ident], seen)
         else if list_ex (strict_eq ident) seen
         then ([config_error here (''duplicate connect profile \"'' @ js_string ident @ ''\"'') ident], seen)
         else ([], ident # seen))"

fun profiles_loop :: "json list \<Rightarrow> nat \<Rightarrow> json list \<Rightarrow> json list \<Rightarrow> config_error list" where
  "profiles_loop known i [] seen = []"
| "profiles_loop known i (p # ps) seen =
     (if \<not> truthy p then profiles_loop known (Suc i) ps seen
      else
        let (es, seen') = profile_id_errors i (field p ''id'') seen;
            path = at_index ''connect.profiles'' i ''.server_ids'';
            ids = field p ''server_ids''
        in es @
           (if \<not> is_array ids \<or> elements ids = []
            then [config_error path ''must be a non-empty array'' ids]
            else concat (map (\<lambda>(j, s). profile_server_errors path known j s) (enumerate 0 (elements ids)))) @
           profiles_loop known (Suc i) ps seen')"

definition range_errors :: "string \<Rightarrow> string \<Rightarrow> int \<Rightarrow> int \<Rightarrow> json \<Rightarrow> config_error list" where
  "range_errors path message lo hi v =
     err_if (v \<noteq> JUndef \<and> (\<not> is_integer v \<or> below v lo \<or> above v hi)) (config_error path message v)"

definition registry_errors :: "validator \<Rightarrow> json \<Rightarrow> config_error list" where
  "registry_errors va registry =
     (if \<not> truthy registry then []
      else
        let url = field registry ''base_url''; ttl = field registry ''cache_ttl_seconds''
        in (if url = JUndef then []
            else case va_url va (js_string url) of
                   None \<Rightarrow> [config_error ''connect.registry.base_url'' ''must be a valid absolute URL'' url]
                 | Some protocol \<Rightarrow>
                     err_if (protocol \<noteq> ''http:'' \<and> protocol \<noteq> ''https:'')
                       (config_error ''connect.registry.base_url'' ''must use http or https'' url)) @
           err_if (ttl \<noteq> JUndef \<and> below ttl 1)
             (config_error ''connect.registry.cache_ttl_seconds'' ''must be greater than 0'' ttl) @
           range_errors ''connect.registry.page_size'' ''must be an integer between 1 and 200'' 1 200
             (field registry ''page_size'') @
           range_errors ''connect.registry.max_pages'' ''must be an integer between 0 and 1000'' 0 1000
             (field registry ''max_pages''))"

definition connect_errors :: "validator \<Rightarrow> json list \<Rightarrow> json \<Rightarrow> config_error list" where
  "connect_errors va servers connect =
     (let profiles = or_else (field connect ''profiles'') (JArr [])
      in (if \<not> is_array profiles then [config_error ''connect.profiles'' ''must be an array'' profiles]
          else profiles_loop (map (\<lambda>s. field s ''id'') servers) 0 (elements profiles) []) @
         registry_errors va (field connect ''registry''))"

subsection \<open>validateConfig, formatConfigErrors\<close>

definition validateConfig :: "validator \<Rightarrow> json \<Rightarrow> config_error list option" where
  "validateConfig va config =
     (let gateway = field config ''gateway''; servers = elements (field config ''servers'')
      in case (admin_errors (field config ''admin'') (field gateway ''host''), servers_errors va servers) of
           (Some admin_part, Some servers_part) \<Rightarrow>
             Some (gateway_errors va gateway @
                   router_errors (field config ''router'') @
                   cache_errors va (field config ''cache'') @
                   observability_errors (field config ''observability'') @
                   metrics_errors (field config ''metrics'') gateway @
                   rate_limit_errors va (field config ''rate_limits'') @
                   auth_errors (field config ''auth'') @
                   admin_part @
                   identity_errors (field config ''identity'') @
                   governance_errors (field config ''governance'') @
                   acl_errors (field config ''acl'') @
                   guardrail_errors va (field config ''guardrails'') @
                   servers_part @
                   connect_errors va servers (field config ''connect''))
         | _ \<Rightarrow> None)"

definition error_line :: "config_error \<Rightarrow> string" where
  "error_line err =
     ''  x '' @ ce_path err @ '': '' @ ce_message err @
     (if ce_value err \<noteq> JUndef
      then '' (got: '' @ (case stringify (ce_value err) of Some t \<Rightarrow> t | None \<Rightarrow> ''undefined'') @ '')'' else [])"

definition formatConfigErrors :: "config_error list \<Rightarrow> string" where
  "formatConfigErrors errors =
     join_with [CHR 0x0A] (''[CONDUIT] Configuration errors:'' # map error_line errors)"

end
