(* ===== verification/Config.thy ===== *)
theory Config
  imports Config_Validation
begin

section \<open>Loading the configuration (src/src/config/loader.ts)\<close>

text \<open>
  \<open>loadConfig\<close> reads and parses the file, warns of unknown keys, merges with the defaults,
  applies the environment and exits when the result is not valid.  Parameters: the process's
  environment, \<open>path.resolve\<close>, the file system and js-yaml.
\<close>

record loader =
  ld_env :: "string \<Rightarrow> string option"
  ld_resolve :: "string \<Rightarrow> string"
  ld_read :: "string \<Rightarrow> string + string"
  ld_yaml :: "string \<Rightarrow> string + json"
  ld_validator :: validator

datatype load_result =
    Load_throws string
  | Load_type_error
  | Load_exits string
  | Loaded json

subsection \<open>Unknown keys\<close>

definition KNOWN_TOP_LEVEL_KEYS :: "string list" where
  "KNOWN_TOP_LEVEL_KEYS =
     [''gateway'', ''router'', ''servers'', ''cache'', ''auth'', ''acl'', ''rate_limits'', ''tenant_isolation'',
      ''observability'', ''metrics'', ''connect'', ''identity'', ''governance'', ''admin'', ''guardrails'',
      ''plugins'', ''discovery'']"

text \<open>
  The matrix of \<open>levenshtein\<close>, row by row.  \<open>row_cells x bs prev left\<close> fills the cells of a
  row from the one above (\<open>prev\<close>, from the column before the first cell on) and the cell to
  the left.
\<close>

fun row_cells :: "char \<Rightarrow> string \<Rightarrow> nat list \<Rightarrow> nat \<Rightarrow> nat list" where
  "row_cells x (b # bs) (diagonal # up # prev) left =
     (let cell = min (up + 1) (min (left + 1) (diagonal + (if x = b then 0 else 1)))
      in cell # row_cells x bs (up # prev) cell)"
| "row_cells x _ _ left = []"

fun lev_rows :: "nat \<Rightarrow> string \<Rightarrow> string \<Rightarrow> nat list \<Rightarrow> nat list" where
  "lev_rows i [] bs prev = prev"
| "lev_rows i (x # xs) bs prev = lev_rows (Suc i) xs bs (Suc i # row_cells x bs prev (Suc i))"

definition levenshtein :: "string \<Rightarrow> string \<Rightarrow> nat" where
  "levenshtein a b = last (lev_rows 0 a b [0..<length b + 1])"

definition findClosestKey :: "string \<Rightarrow> string list \<Rightarrow> string option" where
  "findClosestKey key known =
     map_option fst
       (fold (\<lambda>k best.
           let dist = levenshtein (to_lower key) (to_lower k)
           in if (case best of None \<Rightarrow> True | Some (_, d) \<Rightarrow> dist < d) \<and> dist \<le> 3 then Some (k, dist) else best)
         known None)"

definition warnUnknownKeys :: "json \<Rightarrow> string list" where
  "warnUnknownKeys raw =
     map (\<lambda>key. ''[Conduit] Warning: unknown config key \"'' @ key @ ''\" - it will be ignored.'' @
             (case findClosestKey key KNOWN_TOP_LEVEL_KEYS of
                Some s \<Rightarrow> if s = [] then [] else '' Did you mean \"'' @ s @ ''\"?''
              | None \<Rightarrow> []))
       (filter (\<lambda>key. key \<notin> set KNOWN_TOP_LEVEL_KEYS) (map fst (own_entries raw)))"

subsection \<open>The environment\<close>

text \<open>\<open>config.section.key = v\<close>.\<close>

definition set_in :: "string \<Rightarrow> string \<Rightarrow> json \<Rightarrow> json \<Rightarrow> json option" where
  "set_in section key v config =
     (case set_field (field config section) key v of
        None \<Rightarrow> None
      | Some updated \<Rightarrow> set_field config section updated)"

definition env_port :: "string \<Rightarrow> string \<Rightarrow> json \<Rightarrow> json option" where
  "env_port section v config =
     (case parseInt v of Some n \<Rightarrow> set_in section ''port'' (JNum n) config | None \<Rightarrow> Some config)"

definition env_admin_key :: "string \<Rightarrow> json \<Rightarrow> json option" where
  "env_admin_key v config =
     set_field config ''admin''
       (JObj (spread_into (spread_into [] (field config ''admin'')) (JObj [(''key'', JStr v)])))"

definition env_identity :: "string \<Rightarrow> json \<Rightarrow> json option" where
  "env_identity v config =
     (let identity = field config ''identity''
      in set_field config ''identity''
           (JObj [(''enabled'', JBool True),
                  (''default_workspace_id'', or_else (field identity ''default_workspace_id'') (JStr ''default'')),
                  (''workspaces'', or_else (field identity ''workspaces'') (JArr [])),
                  (''db_path'', JStr v)]))"

definition env_governance :: "string \<Rightarrow> json \<Rightarrow> json option" where
  "env_governance v config =
     (let governance = field config ''governance''
      in set_field config ''governance''
           (JObj [(''enabled'', JBool True),
                  (''registry_default_action'', or_else (field governance ''registry_default_action'') (JStr ''allow'')),
                  (''role_bindings'', or_else (field governance ''role_bindings'') (JArr [])),
                  (''tool_policies'', or_else (field governance ''tool_policies'') (JArr [])),
                  (''registry_policies'', or_else (field governance ''registry_policies'') (JArr [])),
                  (''quotas'', or_else (field governance ''quotas'') (JObj [(''workspaces'', JArr [])])),
                  (''approvals'', or_else (field governance ''approvals'') (JObj default_approvals)),
                  (''db_path'', JStr v)]))"

definition new_tls :: "string \<Rightarrow> string \<Rightarrow> json" where
  "new_tls cert key = JObj [(''enabled'', JBool False), (''cert_path'', JStr cert), (''key_path'', JStr key)]"

definition env_tls_enabled :: "string \<Rightarrow> json \<Rightarrow> json option" where
  "env_tls_enabled v config =
     (let gateway = field config ''gateway'';
          tls = (if truthy (field gateway ''tls'') then field gateway ''tls'' else new_tls [] [])
      in Option.bind (set_field tls ''enabled'' (JBool (to_lower v = ''true'')))
           (\<lambda>tls'. set_in ''gateway'' ''tls'' tls' config))"

definition env_tls_path :: "string \<Rightarrow> json \<Rightarrow> string \<Rightarrow> json \<Rightarrow> json option" where
  "env_tls_path key fresh v config =
     (let tls = field (field config ''gateway'') ''tls''
      in if \<not> truthy tls then set_in ''gateway'' ''tls'' fresh config
         else Option.bind (set_field tls key (JStr v)) (\<lambda>tls'. set_in ''gateway'' ''tls'' tls' config))"

definition env_redis_url :: "string \<Rightarrow> json \<Rightarrow> json option" where
  "env_redis_url v config =
     (if \<not> truthy (field config ''rate_limits'')
      then set_field config ''rate_limits''
             (JObj [(''enabled'', JBool True), (''backend'', JStr ''redis''), (''redis_url'', JStr v)])
      else set_in ''rate_limits'' ''redis_url'' (JStr v) config)"

definition override ::
  "(string \<Rightarrow> string option) \<Rightarrow> string \<Rightarrow> (string \<Rightarrow> json \<Rightarrow> json option) \<Rightarrow> json \<Rightarrow> json option" where
  "override env name f config = (case env name of None \<Rightarrow> Some config | Some v \<Rightarrow> f v config)"

definition env_steps :: "(string \<Rightarrow> string option) \<Rightarrow> (json \<Rightarrow> json option) list" where
  "env_steps env =
     [override env ''CONDUIT_PORT'' (env_port ''gateway''),
      override env ''CONDUIT_HOST'' (\<lambda>v. set_in ''gateway'' ''host'' (JStr v)),
      override env ''CONDUIT_DB_PATH'' (\<lambda>v. set_in ''observability'' ''db_path'' (JStr v)),
      override env ''CONDUIT_METRICS_PORT'' (env_port ''metrics''),
      override env ''CONDUIT_ADMIN_KEY'' env_admin_key,
      override env ''CONDUIT_IDENTITY_DB_PATH'' env_identity,
      override env ''CONDUIT_GOVERNANCE_DB_PATH'' env_governance,
      override env ''CONDUIT_LOG_ARGS''
        (\<lambda>v. set_in ''observability'' ''log_args'' (JBool (to_lower v \<noteq> ''false''))),
      override env ''CONDUIT_TLS_ENABLED'' env_tls_enabled,
      override env ''CONDUIT_TLS_CERT'' (\<lambda>v. env_tls_path ''cert_path'' (new_tls v []) v),
      override env ''CONDUIT_TLS_KEY'' (\<lambda>v. env_tls_path ''key_path'' (new_tls [] v) v),
      override env ''CONDUIT_REDIS_URL'' env_redis_url]"

definition applyEnvOverrides :: "(string \<Rightarrow> string option) \<Rightarrow> json \<Rightarrow> json option" where
  "applyEnvOverrides env config = fold (\<lambda>step r. Option.bind r step) (env_steps env) (Some config)"

subsection \<open>loadConfig\<close>

definition throwIfInvalid :: "validator \<Rightarrow> json \<Rightarrow> load_result" where
  "throwIfInvalid va config =
     (case validateConfig va config of
        None \<Rightarrow> Load_type_error
      | Some errors \<Rightarrow> if errors \<noteq> [] then Load_exits (formatConfigErrors errors) else Loaded config)"

definition finish_load :: "loader \<Rightarrow> json \<Rightarrow> load_result" where
  "finish_load ld raw =
     (case Option.bind (mergeWithDefaults raw) (applyEnvOverrides (ld_env ld)) of
        None \<Rightarrow> Load_type_error
      | Some config \<Rightarrow> throwIfInvalid (ld_validator ld) config)"

definition safeYamlLoad :: "loader \<Rightarrow> string \<Rightarrow> string + json" where
  "safeYamlLoad ld content = map_sum id stripPollutionKeys (ld_yaml ld content)"

text \<open>The warnings, and what becomes of the load.\<close>

definition loadConfig :: "loader \<Rightarrow> string \<Rightarrow> string list \<times> load_result" where
  "loadConfig ld configPath =
     (let path = ld_resolve ld configPath
      in case ld_read ld path of
           Inl e \<Rightarrow>
             ([], Load_throws (''Impossible de lire le fichier de configuration : '' @ path @ [CHR 0x0A] @ e))
         | Inr content \<Rightarrow>
             (case safeYamlLoad ld content of
                Inl e \<Rightarrow> ([], Load_throws (''Erreur de parsing YAML dans '' @ path @ [CHR 0x0A] @ e))
              | Inr parsed \<Rightarrow>
                  (let raw = or_else parsed (JObj [])
                   in if \<not> is_record raw \<and> \<not> is_array raw
                      then ([], Load_throws (''Le fichier de configuration doit '' @ [CHR 0xEA] @ ''tre un objet YAML valide''))
                      else (warnUnknownKeys raw, finish_load ld raw))))"

definition loadConfigFromEnv :: "loader \<Rightarrow> string list \<times> load_result" where
  "loadConfigFromEnv ld =
     (let configured = ld_env ld ''CONDUIT_CONFIG'';
          configPath = (case configured of Some p \<Rightarrow> p | None \<Rightarrow> ''conduit.config.yml'');
          path = ld_resolve ld configPath
      in if \<not> va_exists (ld_validator ld) path \<and> (configured = None \<or> configured = Some [])
         then ([''[Conduit] No config file found at '' @ path @ '' - starting with defaults. '' @
                ''Set CONDUIT_CONFIG to specify a config file.''],
               finish_load ld (JObj []))
         else loadConfig ld configPath)"

end
