(* ===== verification/Gateway.thy ===== *)
theory Gateway
  imports Config Router Cache_Store
begin

section \<open>Reloading the configuration of a running gateway (src/src/gateway/gateway.ts)\<close>

text \<open>
  \<open>ConduitGateway.reload\<close> reads the file again, merges and validates it, and applies the part
  of it that can change while the gateway runs.  The state is what reload touches: the
  configuration, which the pipeline, the governance and the identity runtimes share, the
  registry with the clients, the first-level cache, what the logger records, and the
  configuration the rate limiter was built with.  \<open>None\<close> is a type error of the merge or of
  the validation, a rejected promise.
\<close>

record 'c host_state =
  hs_config :: json
  hs_registry :: registry
  hs_cache :: "'c cache_store"
  hs_limiter :: "json option"
  hs_logger :: "json \<times> json \<times> json"

record 'c host_env =
  he_loader :: loader
  he_lru :: "'c lru_ops"
  he_registry_config :: registry_config
  he_reply :: "string \<Rightarrow> list_reply"
  he_now :: timestamp

record reload_report =
  rr_reloaded :: "string list"
  rr_skipped :: "string list"
  rr_errors :: "string list"

definition report_error :: "string \<Rightarrow> reload_report" where
  "report_error e = \<lparr>rr_reloaded = [], rr_skipped = [], rr_errors = [e]\<rparr>"

definition note_reloaded :: "bool \<Rightarrow> string \<Rightarrow> reload_report \<Rightarrow> reload_report" where
  "note_reloaded c t r = (if c then r\<lparr>rr_reloaded := rr_reloaded r @ [t]\<rparr> else r)"

definition note_skipped :: "bool \<Rightarrow> string \<Rightarrow> reload_report \<Rightarrow> reload_report" where
  "note_skipped c t r = (if c then r\<lparr>rr_skipped := rr_skipped r @ [t]\<rparr> else r)"

definition note_error :: "string \<Rightarrow> reload_report \<Rightarrow> reload_report" where
  "note_error t r = r\<lparr>rr_errors := rr_errors r @ [t]\<rparr>"

subsection \<open>The configuration as an object\<close>

text \<open>\<open>config.k = v\<close>, or \<open>delete config.k\<close> when the new value is undefined.\<close>

definition put :: "string \<Rightarrow> json \<Rightarrow> json \<Rightarrow> json" where
  "put k v config =
     (case config of
        JObj ps \<Rightarrow> JObj (if v = JUndef then AList.delete k ps else obj_assign k v ps)
      | _ \<Rightarrow> config)"

definition servers_of :: "json \<Rightarrow> json list" where
  "servers_of config = elements (field config ''servers'')"

definition id_of :: "json \<Rightarrow> string" where
  "id_of server = js_string (field server ''id'')"

definition find_server :: "string \<Rightarrow> json list \<Rightarrow> json option" where
  "find_server i servers = List.find (\<lambda>s. id_of s = i) servers"

text \<open>What the registry reads of a normalised server.\<close>

definition server_of :: "json \<Rightarrow> server_config" where
  "server_of s =
     \<lparr>sc_id = id_of s, sc_url = js_string (field s ''url''),
      sc_replicas = (case field s ''replicas'' of JArr xs \<Rightarrow> Some (map js_string xs) | _ \<Rightarrow> None),
      sc_transport = (if field s ''transport'' = JStr ''stdio'' then Some Stdio else None)\<rparr>"

text \<open>\<open>JSON.stringify(a) !== JSON.stringify(b)\<close>.\<close>

definition differs :: "json \<Rightarrow> json \<Rightarrow> bool" where
  "differs a b \<longleftrightarrow> stringify a \<noteq> stringify b"

subsection \<open>Servers\<close>

definition quoted :: "string \<Rightarrow> string" where
  "quoted s = CHR 0x22 # s @ [CHR 0x22]"

text \<open>The client is stored before \<open>addServer\<close>, which throws when the registry has the id already.\<close>

definition reload_add ::
  "'c host_env \<Rightarrow> json \<Rightarrow> reload_report \<times> 'c host_state \<Rightarrow> reload_report \<times> 'c host_state" where
  "reload_add env server rs =
     (case rs of (r, s) \<Rightarrow>
       (let reg = (hs_registry s)\<lparr>rg_clients := List.insert (id_of server) (rg_clients (hs_registry s))\<rparr>
        in case addServer (he_registry_config env) (he_now env) (he_now env) (he_reply env (id_of server))
                  (server_of server) reg of
             Inr reg' \<Rightarrow>
               (note_reloaded True (''server.'' @ id_of server @ '' (added)'') r,
                s\<lparr>hs_registry := reg',
                  hs_config := put ''servers'' (JArr (servers_of (hs_config s) @ [server])) (hs_config s)\<rparr>)
           | Inl e \<Rightarrow>
               (note_error (''Failed to add server '' @ quoted (id_of server) @ '': Error: '' @ e) r,
                s\<lparr>hs_registry := reg\<rparr>)))"

definition reload_remove ::
  "'c host_env \<Rightarrow> json \<Rightarrow> reload_report \<times> 'c host_state \<Rightarrow> reload_report \<times> 'c host_state" where
  "reload_remove env server rs =
     (case rs of (r, s) \<Rightarrow>
       (let i = id_of server; reg = snd (removeServer (he_registry_config env) i (hs_registry s))
        in (note_reloaded True (''server.'' @ i @ '' (removed)'') r,
            s\<lparr>hs_registry := reg\<lparr>rg_clients := removeAll i (rg_clients reg)\<rparr>,
              hs_cache := snd (deleteByServer (he_lru env) i (hs_cache s))\<rparr>)))"

definition reload_servers ::
  "'c host_env \<Rightarrow> json \<Rightarrow> reload_report \<times> 'c host_state \<Rightarrow> reload_report \<times> 'c host_state" where
  "reload_servers env newConfig rs =
     (case rs of (r, s) \<Rightarrow>
       (let currentIds = map id_of (servers_of (hs_config s));
            newServers = servers_of newConfig;
            newIds = map id_of newServers;
            (r1, s1) = fold (reload_add env) (filter (\<lambda>n. id_of n \<notin> set currentIds) newServers) (r, s);
            (r2, s2) = fold (reload_remove env)
                         (filter (\<lambda>c. id_of c \<notin> set newIds) (servers_of (hs_config s1))) (r1, s1);
            kept = filter (\<lambda>c. id_of c \<in> set newIds) (servers_of (hs_config s2));
            s3 = s2\<lparr>hs_config := put ''servers'' (JArr kept) (hs_config s2)\<rparr>;
            r3 = fold (\<lambda>n. case find_server (id_of n) kept of
                          Some cur \<Rightarrow> note_skipped (\<not> strict_eq (field cur ''url'') (field n ''url''))
                                        (''server.'' @ id_of n @ ''.url (URL change requires restart)'')
                        | None \<Rightarrow> id) newServers r2
        in (r3, s3)))"

text \<open>\<open>cur.cache = newServer.cache\<close> on the first server of the list with the id.\<close>

fun set_cache :: "string \<Rightarrow> json \<Rightarrow> json list \<Rightarrow> json list" where
  "set_cache i c [] = []"
| "set_cache i c (s # ss) = (if id_of s = i then put ''cache'' c s # ss else s # set_cache i c ss)"

definition reload_cache ::
  "json \<Rightarrow> reload_report \<times> 'c host_state \<Rightarrow> reload_report \<times> 'c host_state" where
  "reload_cache n rs =
     (case rs of (r, s) \<Rightarrow>
       (case find_server (id_of n) (servers_of (hs_config s)) of
          Some cur \<Rightarrow>
            (if differs (field n ''cache'') (field cur ''cache'')
             then (note_reloaded True (''server.'' @ id_of n @ ''.cache'') r,
                   s\<lparr>hs_config := put ''servers''
                       (JArr (set_cache (id_of n) (field n ''cache'') (servers_of (hs_config s)))) (hs_config s)\<rparr>)
             else (r, s))
        | None \<Rightarrow> (r, s)))"

definition reload_caches ::
  "json \<Rightarrow> reload_report \<times> 'c host_state \<Rightarrow> reload_report \<times> 'c host_state" where
  "reload_caches newConfig = fold reload_cache (servers_of newConfig)"

subsection \<open>Sections\<close>

definition flag_restarts :: "json \<Rightarrow> json \<Rightarrow> reload_report \<Rightarrow> reload_report" where
  "flag_restarts newConfig config r =
     (let g = field newConfig ''gateway''; c = field config ''gateway''
      in note_skipped (differs (field g ''tls'') (field c ''tls'')) ''gateway.tls (restart required)''
           (note_skipped (\<not> strict_eq (field g ''port'') (field c ''port'') \<or> \<not> strict_eq (field g ''host'') (field c ''host''))
              ''gateway.port/host (restart required)'' r))"

definition reload_section ::
  "string \<Rightarrow> json \<Rightarrow> reload_report \<times> 'c host_state \<Rightarrow> reload_report \<times> 'c host_state" where
  "reload_section k newConfig rs =
     (case rs of (r, s) \<Rightarrow>
       (if differs (field newConfig k) (field (hs_config s) k)
        then (note_reloaded True k r, s\<lparr>hs_config := put k (field newConfig k) (hs_config s)\<rparr>)
        else (r, s)))"

definition reload_governance ::
  "json \<Rightarrow> reload_report \<times> 'c host_state \<Rightarrow> reload_report \<times> 'c host_state" where
  "reload_governance newConfig rs =
     (case rs of (r, s) \<Rightarrow>
       (let new = field newConfig ''governance''; cur = field (hs_config s) ''governance''
        in if \<not> strict_eq (field new ''enabled'') (field cur ''enabled'') \<or>
              \<not> strict_eq (field new ''db_path'') (field cur ''db_path'')
           then (note_skipped True ''governance.enabled/db_path (restart required)'' r, s)
           else reload_section ''governance'' newConfig (r, s)))"

definition reload_observability ::
  "json \<Rightarrow> reload_report \<times> 'c host_state \<Rightarrow> reload_report \<times> 'c host_state" where
  "reload_observability newConfig rs =
     (case rs of (r, s) \<Rightarrow>
       (let obs = field (hs_config s) ''observability''; nobs = field newConfig ''observability'';
            args = field nobs ''log_args''; responses = field nobs ''log_responses''; fields = field nobs ''redact_fields''
        in if \<not> strict_eq args (field obs ''log_args'') \<or> \<not> strict_eq responses (field obs ''log_responses'') \<or>
              differs fields (field obs ''redact_fields'')
           then (note_reloaded True ''observability'' r,
                 s\<lparr>hs_config := put ''observability''
                     (put ''redact_fields'' fields (put ''log_responses'' responses (put ''log_args'' args obs))) (hs_config s),
                   hs_logger := (args, responses, fields)\<rparr>)
           else (r, s)))"

subsection \<open>reload\<close>

definition apply_config :: "'c host_env \<Rightarrow> json \<Rightarrow> 'c host_state \<Rightarrow> reload_report \<times> 'c host_state" where
  "apply_config env newConfig s =
     (let r = flag_restarts newConfig (hs_config s) \<lparr>rr_reloaded = [], rr_skipped = [], rr_errors = []\<rparr>;
          (r1, s1) = reload_servers env newConfig (r, s);
          r2 = note_skipped
                 (\<not> strict_eq (field (field newConfig ''auth'') ''method'') (field (field (hs_config s1) ''auth'') ''method''))
                 ''auth.method (restart required)'' r1
      in reload_caches newConfig
           (reload_observability newConfig
             (reload_section ''rate_limits'' newConfig
               (reload_governance newConfig
                 (reload_section ''guardrails'' newConfig
                   (reload_section ''acl'' newConfig (r2, s1)))))))"

definition reload ::
  "'c host_env \<Rightarrow> string option \<Rightarrow> 'c host_state \<Rightarrow> (reload_report \<times> 'c host_state) option" where
  "reload env configPathOverride s =
     (let ld = he_loader env;
          name = (case configPathOverride of Some p \<Rightarrow> p
                  | None \<Rightarrow> (case ld_env ld ''CONDUIT_CONFIG'' of Some p \<Rightarrow> p | None \<Rightarrow> ''conduit.config.yml''))
      in case ld_read ld (ld_resolve ld name) of
           Inl e \<Rightarrow> Some (report_error (''Cannot read config file: '' @ e), s)
         | Inr yaml \<Rightarrow>
             (case safeYamlLoad ld yaml of
                Inl e \<Rightarrow> Some (report_error (''YAML parse error: '' @ e), s)
              | Inr parsed \<Rightarrow>
                  (let raw = or_else parsed (JObj [])
                   in if \<not> is_record raw then Some (report_error ''Config must be a YAML object'', s)
                      else case mergeWithDefaults raw of
                             None \<Rightarrow> None
                           | Some newConfig \<Rightarrow>
                               (case validateConfig (ld_validator ld) newConfig of
                                  None \<Rightarrow> None
                                | Some errors \<Rightarrow>
                                    if errors \<noteq> [] then Some (report_error (formatConfigErrors errors), s)
                                    else Some (apply_config env newConfig s)))))"

text \<open>What \<open>createMcpClient\<close> makes for a server: \<open>None\<close> is the thrown error.\<close>

definition createMcpClient :: "json \<Rightarrow> transport_kind option" where
  "createMcpClient server =
     (let transport = or_else (field server ''transport'') (JStr ''http'')
      in if transport = JStr ''stdio'' then Some Stdio else if transport = JStr ''http'' then Some Http else None)"

end
