(* ===== verification/Config_Laws.thy ===== *)
theory Config_Laws
  imports Config
begin

section \<open>What a loaded configuration guarantees\<close>

text \<open>
  The suggestions for unknown keys compute the edit distance.  A configuration that loads has
  no validation error, so that its admin API is guarded, its ports differ, and each tenant is
  mapped to one workspace.  Some mistakes in the file are dropped before the validation sees
  them.
\<close>

subsection \<open>levenshtein is the edit distance\<close>

text \<open>One insertion, deletion or substitution of a character.\<close>

definition single_edit :: "string \<Rightarrow> string \<Rightarrow> bool" where
  "single_edit a b \<longleftrightarrow>
     (\<exists>u v c d. (a = u @ v \<and> b = u @ d # v) \<or> (a = u @ c # v \<and> b = u @ v) \<or> (a = u @ c # v \<and> b = u @ d # v))"

text \<open>The recurrence of the matrix, on the reversed prefixes.\<close>

fun ed :: "string \<Rightarrow> string \<Rightarrow> nat" where
  "ed [] b = length b"
| "ed a [] = length a"
| "ed (x # a) (y # b) = min (ed a (y # b) + 1) (min (ed (x # a) b + 1) (ed a b + (if x = y then 0 else 1)))"

text \<open>A row of the matrix: a function of the reversed prefixes of \<open>bs\<close>.\<close>

fun row_of :: "(string \<Rightarrow> nat) \<Rightarrow> string \<Rightarrow> string \<Rightarrow> nat list" where
  "row_of f q [] = [f q]"
| "row_of f q (b # bs) = f q # row_of f (b # q) bs"

lemma row_of_hd: "row_of f q bs = f q # List.tl (row_of f q bs)"
  by (cases bs) auto

lemma ed_Nil2 [simp]: "ed a [] = length a"
  by (cases a) auto

lemma row_cells_row_of: "row_cells x bs (row_of (ed p) q bs) (ed (x # p) q) = List.tl (row_of (ed (x # p)) q bs)"
proof (induction bs arbitrary: q)
  case (Cons b bs)
  obtain rest where r: "row_of (ed p) (b # q) bs = ed p (b # q) # rest" using row_of_hd by blast
  have "row_cells x (b # bs) (row_of (ed p) q (b # bs)) (ed (x # p) q) =
        ed (x # p) (b # q) # row_cells x bs (row_of (ed p) (b # q) bs) (ed (x # p) (b # q))"
    by (simp add: r Let_def)
  also have "\<dots> = ed (x # p) (b # q) # List.tl (row_of (ed (x # p)) (b # q) bs)" by (simp only: Cons.IH)
  finally show ?case using row_of_hd [of "ed (x # p)" "b # q" bs] by simp
qed simp

lemma lev_rows_row_of: "lev_rows (length p) xs bs (row_of (ed p) [] bs) = row_of (ed (rev xs @ p)) [] bs"
proof (induction xs arbitrary: p)
  case (Cons x xs)
  have "Suc (length p) # row_cells x bs (row_of (ed p) [] bs) (Suc (length p)) = row_of (ed (x # p)) [] bs"
    using row_cells_row_of [of x bs p "[]"] row_of_hd [of "ed (x # p)" "[]" bs] by simp
  with Cons.IH [of "x # p"] show ?case by simp
qed simp

lemma row_of_length: "row_of length q bs = [length q..<length q + length bs + 1]"
proof (induction bs arbitrary: q)
  case (Cons b bs)
  then show ?case by (simp add: upt_conv_Cons del: upt_Suc)
qed simp

lemma last_row_of: "last (row_of f q bs) = f (rev bs @ q)"
proof (induction bs arbitrary: q)
  case (Cons b bs)
  then show ?case using row_of_hd [of f "b # q" bs] by (metis append.assoc append_Cons append_Nil last_ConsR
      list.distinct(1) rev.simps(2) row_of.simps(2))
qed simp

lemma levenshtein_ed: "levenshtein a b = ed (rev a) (rev b)"
proof -
  have "row_of (ed []) [] b = [0..<length b + 1]"
  proof -
    have "ed [] = length" by (rule ext) simp
    then show ?thesis using row_of_length [of "[]" b] by simp
  qed
  then show ?thesis using lev_rows_row_of [of "[]" a b] by (simp add: levenshtein_def last_row_of)
qed

lemma single_edit_rev: "single_edit (rev a) (rev b) \<longleftrightarrow> single_edit a b"
proof -
  have *: "single_edit a b \<Longrightarrow> single_edit (rev a) (rev b)" for a b
    unfolding single_edit_def
    apply (elim exE disjE)
    subgoal for u v c d by (rule exI [of _ "rev v"], rule exI [of _ "rev u"]) auto
    subgoal for u v c d by (rule exI [of _ "rev v"], rule exI [of _ "rev u"]) auto
    subgoal for u v c d by (rule exI [of _ "rev v"], rule exI [of _ "rev u"]) auto
    done
  show ?thesis using * [of a b] * [of "rev a" "rev b"] by auto
qed

lemma edits_rev: "(single_edit ^^ n) (rev a) (rev b) \<longleftrightarrow> (single_edit ^^ n) a b"
proof -
  have *: "(single_edit ^^ n) a b \<Longrightarrow> (single_edit ^^ n) (rev a) (rev b)" for a b
  proof (induction n arbitrary: b)
    case (Suc n)
    then obtain m where "(single_edit ^^ n) a m" "single_edit m b" by auto
    then show ?case by (intro relpowp_Suc_I [OF Suc.IH]) (simp_all add: single_edit_rev)
  qed simp
  show ?thesis using * [of a b] * [of "rev a" "rev b"] by auto
qed

lemma single_edit_Cons: "single_edit a b \<Longrightarrow> single_edit (x # a) (x # b)"
  unfolding single_edit_def by (elim exE) (metis append_Cons)

lemma edits_Cons: "(single_edit ^^ n) a b \<Longrightarrow> (single_edit ^^ n) (x # a) (x # b)"
  by (induction n arbitrary: b) (auto intro: single_edit_Cons)

lemma single_edit_intros: "single_edit a (d # a)" "single_edit (c # a) a" "single_edit (c # a) (d # a)"
  unfolding single_edit_def by (metis append_Nil)+

lemma edits_to_Nil: "(single_edit ^^ length a) a []" "(single_edit ^^ length a) [] a"
  by (induction a) (auto intro: relpowp_Suc_I2 relpowp_Suc_I single_edit_intros simp del: relpowp.simps(2))

lemma ed_script: "(single_edit ^^ ed a b) a b"
proof (induction a b rule: ed.induct)
  case (3 x a y b)
  let ?m = "ed (x # a) (y # b)"
  consider "?m = Suc (ed a (y # b))" | "?m = Suc (ed (x # a) b)" | "?m = ed a b" "x = y" | "?m = Suc (ed a b)"
    by (cases "x = y") (simp, linarith)+
  then show ?case
  proof cases
    case 1
    with 3(1) show ?thesis by (metis relpowp_Suc_I2 single_edit_intros(2))
  next
    case 2
    with 3(2) show ?thesis by (metis relpowp_Suc_I single_edit_intros(1))
  next
    case c: 3
    with "3.IH"(3) edits_Cons show ?thesis by auto
  next
    case 4
    with 3(3) show ?thesis by (metis edits_Cons relpowp_Suc_I2 single_edit_intros(3))
  qed
next
  case (2 x a)
  show ?case using edits_to_Nil(1) [of "x # a"] by (simp only: ed.simps)
qed (simp only: ed.simps edits_to_Nil)

lemma ed_grow: "ed a (y # b) \<le> ed a b + 1" "ed (x # a) b \<le> ed a b + 1"
  by (cases a; simp) (cases b; simp)

lemma ed_shrink: "ed a b \<le> ed a (y # b) + 1"
proof (induction a)
  case (Cons x a)
  then show ?case using ed_grow(2) [of x a b] by (auto simp: min_def split: if_splits)
qed simp

lemma ed_subst: "ed a (d # v) \<le> ed a (c # v) + 1"
  by (induction a) (auto simp: min_def)

lemma ed_refl [simp]: "ed a a = 0"
  by (induction a) auto

lemma ed_under: "(\<And>a. ed a b' \<le> ed a b + 1) \<Longrightarrow> ed a (y # b') \<le> ed a (y # b) + 1"
proof (induction a)
  case Nil
  from Nil [of "[]"] show ?case by simp
next
  case (Cons x a)
  from Cons.IH [OF Cons.prems] Cons.prems [of a] Cons.prems [of "x # a"]
  show ?case by (auto simp: min_def)
qed

lemma ed_single_edit: "single_edit b b' \<Longrightarrow> ed a b' \<le> ed a b + 1"
proof -
  assume "single_edit b b'"
  then obtain u v c d where "(b = u @ v \<and> b' = u @ d # v) \<or> (b = u @ c # v \<and> b' = u @ v) \<or>
      (b = u @ c # v \<and> b' = u @ d # v)"
    unfolding single_edit_def by blast
  moreover have "ed a (u @ s') \<le> ed a (u @ s) + 1" if "\<And>a. ed a s' \<le> ed a s + 1" for s s'
  proof (induction u arbitrary: a)
    case (Cons y u)
    then show ?case using ed_under [of "u @ s'" "u @ s"] by simp
  qed (use that in simp)
  ultimately show ?thesis using ed_grow(1) ed_shrink ed_subst by metis
qed

lemma ed_least: "(single_edit ^^ n) a b \<Longrightarrow> ed a b \<le> n"
proof (induction n arbitrary: b)
  case (Suc n)
  then obtain m where "(single_edit ^^ n) a m" "single_edit m b" by auto
  with Suc.IH [of m] ed_single_edit [of m b a] show ?case by simp
qed simp

text \<open>C26. \<open>levenshtein\<close> is the least number of insertions, deletions and substitutions of
  single characters that turn one string into the other.\<close>

theorem levenshtein_is_edit_distance:
  "(single_edit ^^ levenshtein a b) a b \<and> levenshtein a b = (LEAST n. (single_edit ^^ n) a b)"
proof
  show script: "(single_edit ^^ levenshtein a b) a b"
    using ed_script [of "rev a" "rev b"] by (simp add: levenshtein_ed edits_rev)
  have "levenshtein a b \<le> n" if "(single_edit ^^ n) a b" for n
    using ed_least [of n "rev a" "rev b"] that by (simp add: levenshtein_ed edits_rev)
  with script show "levenshtein a b = (LEAST n. (single_edit ^^ n) a b)"
    by (intro Least_equality [symmetric])
qed

subsection \<open>A configuration that loads\<close>

lemma err_if_Nil [simp]: "err_if c e = [] \<longleftrightarrow> \<not> c"
  by (simp add: err_if_def)

lemma loaded_valid:
  assumes "r = snd (loadConfig ld path) \<or> r = snd (loadConfigFromEnv ld)" "r = Loaded config"
  shows "validateConfig (ld_validator ld) config = Some []"
proof -
  have f: "finish_load ld raw = Loaded config \<Longrightarrow> validateConfig (ld_validator ld) config = Some []" for raw
    by (auto simp: finish_load_def throwIfInvalid_def split: option.splits if_splits)
  have l: "snd (loadConfig ld p) = Loaded config \<Longrightarrow> validateConfig (ld_validator ld) config = Some []" for p
    by (auto simp: loadConfig_def Let_def intro: f split: sum.splits if_splits)
  then show ?thesis using assms f by (auto simp: loadConfigFromEnv_def Let_def split: if_splits)
qed

lemma valid_parts:
  assumes "validateConfig va config = Some []"
  shows "gateway_errors va (field config ''gateway'') = []"
    and "metrics_errors (field config ''metrics'') (field config ''gateway'') = []"
    and "auth_errors (field config ''auth'') = []"
    and "admin_errors (field config ''admin'') (field (field config ''gateway'') ''host'') = Some []"
    and "identity_errors (field config ''identity'') = []"
    and "connect_errors va (elements (field config ''servers'')) (field config ''connect'') = []"
  using assms by (auto simp: validateConfig_def Let_def split: option.splits)


text \<open>The prefix of the loopback test is one of names as well: a host outside the machine passes.\<close>

lemma loopback_host_by_prefix: "isLoopbackHost (JStr ''127.example.com'') = Some True"
  by code_simp

subsection \<open>Tenants and workspaces\<close>

text \<open>The tenants of a workspace as the configuration lists them.\<close>

definition workspace_tenants :: "json \<Rightarrow> json list" where
  "workspace_tenants w =
     (if truthy (field w ''tenant_ids'') then elements (field w ''tenant_ids'') else [])"

definition configured_workspaces :: "json \<Rightarrow> json list" where
  "configured_workspaces config =
     filter truthy (elements (or_else (field (field config ''identity'') ''workspaces'') (JArr [])))"

lemma tenant_ids_loop_Nil:
  "fst (tenant_ids_loop i j ts claimed) = [] \<Longrightarrow>
     (\<exists>ss. ts = map JStr ss \<and> distinct ss \<and> set ss \<inter> set claimed = {} \<and>
           set (snd (tenant_ids_loop i j ts claimed)) = set ss \<union> set claimed)"
proof (induction ts arbitrary: j claimed)
  case (Cons t ts)
  then obtain s where t: "t = JStr s" "s \<noteq> []" "s \<notin> set claimed"
    by (cases t) (auto simp: Let_def split: if_splits)
  with Cons.prems have "fst (tenant_ids_loop i (Suc j) ts (s # claimed)) = []" by (simp add: Let_def)
  from Cons.IH [OF this] obtain ss where
    "ts = map JStr ss" "distinct ss" "set ss \<inter> set (s # claimed) = {}"
    "set (snd (tenant_ids_loop i (Suc j) ts (s # claimed))) = set ss \<union> set (s # claimed)" by blast
  with t show ?case by (intro exI [of _ "s # ss"]) (auto simp: Let_def)
qed simp

lemma workspaces_loop_Nil:
  "workspaces_loop i ws seen claimed = [] \<Longrightarrow>
     \<exists>ss. concat (map workspace_tenants (filter truthy ws)) = map JStr ss \<and> distinct ss \<and>
          set ss \<inter> set claimed = {}"
proof (induction ws arbitrary: i seen claimed)
  case (Cons w ws)
  show ?case
  proof (cases "truthy w")
    case True
    let ?loop = "if truthy (field w ''tenant_ids'')
      then tenant_ids_loop i 0 (elements (field w ''tenant_ids'')) claimed else ([], claimed)"
    obtain es seen' where e: "workspace_id_errors i (field w ''id'') seen = (es, seen')" by fastforce
    from Cons.prems True e have rest: "workspaces_loop (Suc i) ws seen' (snd ?loop) = []" and t: "fst ?loop = []"
      by (auto simp: Let_def split: prod.splits)
    obtain ss where ss: "workspace_tenants w = map JStr ss" "distinct ss" "set ss \<inter> set claimed = {}"
      "set (snd ?loop) = set ss \<union> set claimed"
    proof (cases "truthy (field w ''tenant_ids'')")
      case True
      with t tenant_ids_loop_Nil [of i 0 "elements (field w ''tenant_ids'')" claimed] that show ?thesis
        by (auto simp: workspace_tenants_def)
    next
      case False
      with that [of "[]"] show ?thesis by (simp add: workspace_tenants_def)
    qed
    from Cons.IH [OF rest] obtain ss' where
      "concat (map workspace_tenants (filter truthy ws)) = map JStr ss'" "distinct ss'"
      "set ss' \<inter> set (snd ?loop) = {}" by blast
    with ss True show ?thesis by (intro exI [of _ "ss @ ss'"]) auto
  qed (use Cons in auto)
qed simp

lemma workspace_ids_Nil:
  "workspaces_loop i ws seen claimed = [] \<Longrightarrow>
     \<forall>w \<in> set (filter truthy ws). id_ok (field w ''id'') \<and> \<not> list_ex (strict_eq (field w ''id'')) seen"
proof (induction ws arbitrary: i seen claimed)
  case (Cons w ws)
  show ?case
  proof (cases "truthy w")
    case True
    let ?loop = "if truthy (field w ''tenant_ids'')
      then tenant_ids_loop i 0 (elements (field w ''tenant_ids'')) claimed else ([], claimed)"
    from Cons.prems True have e: "fst (workspace_id_errors i (field w ''id'') seen) = []"
      and rest: "workspaces_loop (Suc i) ws (snd (workspace_id_errors i (field w ''id'') seen)) (snd ?loop) = []"
      by (auto simp: Let_def split: prod.splits)
    from e have "id_ok (field w ''id'')" "\<not> list_ex (strict_eq (field w ''id'')) seen"
      "snd (workspace_id_errors i (field w ''id'') seen) = field w ''id'' # seen"
      by (auto simp: workspace_id_errors_def Let_def split: if_splits)
    with Cons.IH [OF rest] True show ?thesis by auto
  qed (use Cons in auto)
qed simp

text \<open>In a configuration that loads with identity enabled, the tenants are non-empty strings and
  no tenant is mapped twice: at most one workspace claims it, and only once.\<close>

theorem loaded_tenants_have_one_workspace:
  assumes "snd (loadConfigFromEnv ld) = Loaded config"
    and "truthy (field (field config ''identity'') ''enabled'')"
  shows "(\<forall>w \<in> set (configured_workspaces config). id_ok (field w ''id'')) \<and>
         (\<exists>tenants. concat (map workspace_tenants (configured_workspaces config)) = map JStr tenants \<and>
                    distinct tenants)"
proof -
  have v: "validateConfig (ld_validator ld) config = Some []" using loaded_valid assms by blast
  have l: "workspaces_loop 0 (elements (or_else (field (field config ''identity'') ''workspaces'') (JArr []))) [] [] = []"
    using valid_parts(5) [OF v] assms(2) by (simp add: identity_errors_def Let_def)
  show ?thesis
    using workspaces_loop_Nil [OF l] workspace_ids_Nil [OF l] by (auto simp: configured_workspaces_def)
qed

subsection \<open>Mistakes that are dropped before the validation\<close>

lemma field_delete: "field (JObj (AList.delete k ps)) k' = (if k' = k then JUndef else field (JObj ps) k')"
  by (simp add: obj_get_def delete_conv')

text \<open>A \<open>registry_default_action\<close> other than allow and deny is dropped by the normalisation: the
  file loads exactly as if it had no such entry, and the validation that would refuse the value
  never sees it.\<close>

theorem misspelt_default_action_fails_open:
  assumes "obj_get governance ''registry_default_action'' = JStr action" "action \<notin> {''allow'', ''deny''}"
    and "obj_get file ''governance'' = JObj governance"
  shows "finish_load ld (JObj file) =
         finish_load ld (JObj (AList.update ''governance''
           (JObj (AList.delete ''registry_default_action'' governance)) file))"
proof -
  have n: "normalizeGovernanceConfig (JObj governance) =
           normalizeGovernanceConfig (JObj (AList.delete ''registry_default_action'' governance))"
    using assms(1,2)
    by (simp add: normalizeGovernanceConfig_def nullish_def Let_def field_delete given_def del: field.simps)
       (simp add: obj_get_def)
  have f: "field (JObj (AList.update k v ps)) k' = (if k' = k then v else field (JObj ps) k')" for k k' v ps
    by (simp add: obj_get_def update_conv')
  have g: "field (JObj file) ''governance'' = JObj governance" using assms(3) by simp
  have "mergeWithDefaults (JObj file) =
        mergeWithDefaults (JObj (AList.update ''governance''
          (JObj (AList.delete ''registry_default_action'' governance)) file))"
    by (simp add: mergeWithDefaults_def f g merge_section_def n del: field.simps cong: option.case_cong)
  then show ?thesis by (simp add: finish_load_def)
qed

text \<open>The same for the transport of a server: any text but stdio means HTTP.\<close>

lemma misspelt_transport_is_http:
  assumes "obj_get server ''transport'' = JStr transport" "transport \<noteq> ''stdio''"
  shows "normalizeServer (JObj server) = normalizeServer (JObj (AList.delete ''transport'' server))"
  using assms by (simp add: normalizeServer_def nullish_def Let_def field_delete del: field.simps) simp

text \<open>The known keys \<open>plugins\<close> and \<open>discovery\<close> are neither reported nor loaded.\<close>

lemma plugins_are_never_loaded:
  assumes "mergeWithDefaults file = Some config" "key \<in> {''plugins'', ''discovery''}"
  shows "field config key = JUndef \<and> key \<in> set KNOWN_TOP_LEVEL_KEYS"
  using assms
  by (auto simp: mergeWithDefaults_def KNOWN_TOP_LEVEL_KEYS_def field_literal simp del: field.simps split: option.splits)

text \<open>Two servers of one id load: the registry keeps the second, the pipeline reads the first.\<close>

lemma duplicate_server_ids_load:
  "(case mergeWithDefaults (JObj [(''servers'', JArr
       [JObj [(''id'', JStr ''crm''), (''url'', JStr ''http://a'')], JObj [(''id'', JStr ''crm''), (''url'', JStr ''http://b'')]])]) of
      Some config \<Rightarrow> validateConfig \<lparr>va_exists = (\<lambda>_. True), va_url = (\<lambda>_. Some ''http:''), va_regex_error = (\<lambda>_. None)\<rparr> config = Some []
    | None \<Rightarrow> False)"
  by code_simp

text \<open>An override that is \<open>null\<close> stops the load with a type error instead of a message.\<close>

lemma null_override_is_a_type_error:
  assumes "obj_get overrides tool = JNull" "field (field server ''cache'') ''overrides'' = JObj overrides"
  shows "server_errors va i server = None"
proof -
  have "(tool, JNull) \<in> set overrides"
    using assms(1) by (auto simp: obj_get_def map_of_SomeD split: option.splits)
  then have "list_ex (\<lambda>(tool, override). nullish override) overrides"
    by (force simp: list_ex_iff nullish_def)
  with assms(2) show ?thesis by (simp add: server_errors_def Let_def override_errors_def truthy_def)
qed

subsection \<open>A configuration on which the theorems hold\<close>

definition demo_file :: jobject where
  "demo_file =
     [(''gateway'', JObj [(''host'', JStr ''0.0.0.0'')]),
      (''admin'', JObj [(''key'', JStr ''secret'')]),
      (''identity'', JObj [(''workspaces'', JArr
         [JObj [(''id'', JStr ''red''), (''tenant_ids'', strings [''acme'', ''north''])],
          JObj [(''id'', JStr ''blue''), (''tenant_ids'', strings [''south''])]])]),
      (''governance'', JObj [(''registry_default_action'', JStr ''Deny'')])]"

definition demo_loader :: loader where
  "demo_loader =
     \<lparr>ld_env = (\<lambda>_. None), ld_resolve = (\<lambda>p. p), ld_read = (\<lambda>_. Inr []), ld_yaml = (\<lambda>_. Inr (JObj demo_file)),
      ld_validator = \<lparr>va_exists = (\<lambda>_. True), va_url = (\<lambda>_. Some ''http:''), va_regex_error = (\<lambda>_. None)\<rparr>\<rparr>"

definition loads :: "load_result \<Rightarrow> (json \<Rightarrow> bool) \<Rightarrow> bool" where
  "loads r P = (case r of Loaded config \<Rightarrow> P config | _ \<Rightarrow> False)"

lemma demo_loads:
  "loads (snd (loadConfigFromEnv demo_loader)) (\<lambda>c. truthy (field (field c ''identity'') ''enabled''))"
  by code_simp

lemma demo_config:
  obtains config where "snd (loadConfigFromEnv demo_loader) = Loaded config"
    "truthy (field (field config ''identity'') ''enabled'')"
  using demo_loads by (auto simp: loads_def split: load_result.splits)


lemma loaded_tenants_have_one_workspace_witness:
  "\<exists>config tenants. snd (loadConfigFromEnv demo_loader) = Loaded config \<and>
     concat (map workspace_tenants (configured_workspaces config)) = map JStr tenants \<and> distinct tenants"
  using demo_config loaded_tenants_have_one_workspace by metis

lemma misspelt_default_action_fails_open_witness:
  "finish_load demo_loader (JObj demo_file) =
   finish_load demo_loader (JObj (AList.update ''governance'' (JObj []) demo_file))"
  using misspelt_default_action_fails_open [of "[(''registry_default_action'', JStr ''Deny'')]" "''Deny''" demo_file demo_loader]
  by (simp add: obj_get_def demo_file_def)

end
