(* ===== verification/Registered.thy ===== *)
theory Registered
  imports Router
begin

section \<open>The servers of a registry under registration\<close>

text \<open>
  What adding and removing servers does to the set of registered ids and to the entries of
  the other servers, for the components that change the registry while the gateway runs.
\<close>

definition registered :: "registry \<Rightarrow> string set" where
  "registered reg = fst ` set (rg_servers reg)"

lemma registered_dom: "registered reg = dom (map_of (rg_servers reg))"
  by (simp add: registered_def dom_map_of_conv_image_fst)

lemma registered_clients [simp]: "registered (rg_clients_update f reg) = registered reg"
  by (simp add: registered_def)

lemma registered_update [simp]: "registered (update_server i f reg) = registered reg"
  by (auto simp: registered_dom update_server_def update_conv' split: option.splits)

lemma registered_refresh [simp]: "registered (refreshServer cfg st now reply i reg) = registered reg"
  by (simp add: refreshServer_def)

lemma registered_rebuild [simp]: "registered (rebuildNamespaceMap cfg reg) = registered reg"
  by (simp add: registered_def)

lemma registered_add:
  "addServer cfg st now reply sc reg = Inr reg' \<Longrightarrow> registered reg' = insert (sc_id sc) (registered reg)"
  by (auto simp: addServer_def Let_def split: if_splits) (auto simp: registered_dom update_conv' split: if_splits)

lemma add_fails_iff:
  "(\<exists>e. addServer cfg st now reply sc reg = Inl e) \<longleftrightarrow> sc_id sc \<in> registered reg"
  by (auto simp: addServer_def Let_def registered_dom)

lemma registered_remove [simp]: "registered (snd (removeServer cfg i reg)) = registered reg - {i}"
  by (auto simp: removeServer_def registered_dom delete_conv' split: if_splits)

text \<open>The entry of another server stays as it is.\<close>

lemma entry_update: "j \<noteq> i \<Longrightarrow> map_of (rg_servers (update_server i f reg)) j = map_of (rg_servers reg) j"
  by (auto simp: update_server_def update_conv' split: option.splits)

lemma entry_refresh:
  "j \<noteq> i \<Longrightarrow> map_of (rg_servers (refreshServer cfg st now reply i reg)) j = map_of (rg_servers reg) j"
  by (simp add: refreshServer_def entry_update)

lemma entry_add:
  "addServer cfg st now reply sc reg = Inr reg' \<Longrightarrow> j \<noteq> sc_id sc \<Longrightarrow>
     map_of (rg_servers reg') j = map_of (rg_servers reg) j"
  by (auto simp: addServer_def Let_def entry_refresh update_conv' split: if_splits)

lemma entry_remove:
  "j \<noteq> i \<Longrightarrow> map_of (rg_servers (snd (removeServer cfg i reg))) j = map_of (rg_servers reg) j"
  by (auto simp: removeServer_def delete_conv')

end
