(* ===== verification/Gateway_Laws.thy ===== *)
theory Gateway_Laws
  imports Gateway Config_Laws Registered
begin

section \<open>What a reload does to a running gateway\<close>

text \<open>
  The servers of the file are the servers configured and registered after a reload, and a
  second reload of the same file finds nothing to do.  The environment is not applied, and the
  limits of a running limiter stay what they were.
\<close>

subsection \<open>Reading an updated configuration\<close>

lemma field_put [simp]:
  "is_record c \<Longrightarrow> k \<noteq> ''__proto__'' \<Longrightarrow> field (put k v c) k' = (if k' = k then v else field c k')"
  by (cases c) (auto simp: is_record_def put_def obj_get_def delete_conv' map_of_obj_assign)

lemma is_record_put [simp]: "is_record (put k v c) = is_record c"
  by (cases c) (auto simp: is_record_def put_def)

lemma put_same [simp]: "field c k = v \<Longrightarrow> v \<noteq> JUndef \<Longrightarrow> k \<noteq> ''__proto__'' \<Longrightarrow> put k v c = c"
  by (cases c) (auto simp: put_def obj_get_def obj_assign_def obj_insert_def update_triv split: option.splits)

lemma servers_of_put [simp]:
  "is_record c \<Longrightarrow> k \<noteq> ''__proto__'' \<Longrightarrow>
     servers_of (put k v c) = (if k = ''servers'' then elements v else servers_of c)"
  by (simp add: servers_of_def)

lemma differs_refl [simp]: "\<not> differs v v"
  by (simp add: differs_def)

subsection \<open>The configured servers\<close>

definition configured :: "'c host_state \<Rightarrow> string set" where
  "configured s = id_of ` set (servers_of (hs_config s))"

definition registry_matches :: "'c host_state \<Rightarrow> bool" where
  "registry_matches s \<longleftrightarrow> is_record (hs_config s) \<and> registered (hs_registry s) = configured s"

lemma reload_add_servers:
  assumes "registry_matches (snd rs)"
  shows "registry_matches (snd (reload_add env server rs)) \<and>
         configured (snd (reload_add env server rs)) = insert (id_of server) (configured (snd rs))"
proof -
  obtain r s where rs: "rs = (r, s)" by force
  let ?reg = "(hs_registry s)\<lparr>rg_clients := List.insert (id_of server) (rg_clients (hs_registry s))\<rparr>"
  have i: "sc_id (server_of server) = id_of server" by (simp add: server_of_def)
  show ?thesis
  proof (cases "addServer (he_registry_config env) (he_now env) (he_now env) (he_reply env (id_of server))
                  (server_of server) ?reg")
    case (Inl e)
    then have "sc_id (server_of server) \<in> registered ?reg" using add_fails_iff by blast
    then have "id_of server \<in> registered (hs_registry s)" by (simp add: i)
    with Inl rs assms show ?thesis
      by (auto simp: reload_add_def Let_def registry_matches_def configured_def)
  next
    case (Inr reg')
    with registered_add [OF Inr] rs assms show ?thesis
      by (auto simp: reload_add_def Let_def registry_matches_def configured_def i)
  qed
qed

lemma reload_adds_servers:
  "registry_matches (snd rs) \<Longrightarrow>
     registry_matches (snd (fold (reload_add env) servers rs)) \<and>
     configured (snd (fold (reload_add env) servers rs)) = configured (snd rs) \<union> id_of ` set servers"
proof (induction servers arbitrary: rs)
  case (Cons server servers)
  with reload_add_servers [OF Cons.prems, of env server] show ?case by auto
qed simp

lemma reload_remove_servers [simp]:
  "hs_config (snd (reload_remove env server rs)) = hs_config (snd rs)"
  "registered (hs_registry (snd (reload_remove env server rs))) =
     registered (hs_registry (snd rs)) - {id_of server}"
  by (cases rs; simp add: reload_remove_def Let_def)+

lemma reload_removes_servers:
  "hs_config (snd (fold (reload_remove env) servers rs)) = hs_config (snd rs) \<and>
   registered (hs_registry (snd (fold (reload_remove env) servers rs))) =
     registered (hs_registry (snd rs)) - id_of ` set servers"
  by (induction servers arbitrary: rs) auto

lemma reload_removes_config:
  "fold (reload_remove env) servers (r, s) = (r', s') \<Longrightarrow> hs_config s' = hs_config s"
  using reload_removes_servers [of env servers "(r, s)"] by simp

lemma reload_servers_match:
  assumes "registry_matches (snd rs)"
  shows "registry_matches (snd (reload_servers env new rs)) \<and>
         configured (snd (reload_servers env new rs)) = id_of ` set (servers_of new)"
proof -
  obtain r s where rs: "rs = (r, s)" by force
  let ?old = "map id_of (servers_of (hs_config s))"
  let ?added = "fold (reload_add env) (filter (\<lambda>n. id_of n \<notin> set ?old) (servers_of new)) (r, s)"
  let ?gone = "filter (\<lambda>c. id_of c \<notin> set (map id_of (servers_of new))) (servers_of (hs_config (snd ?added)))"
  let ?removed = "fold (reload_remove env) ?gone ?added"
  have a: "registry_matches (snd ?added)"
    "configured (snd ?added) = configured s \<union> id_of ` {n \<in> set (servers_of new). id_of n \<notin> set ?old}"
    using reload_adds_servers [of "(r, s)" env] assms rs by auto
  then have c: "id_of ` set (servers_of (hs_config (snd ?added))) =
      configured s \<union> id_of ` set (servers_of new)"
    unfolding configured_def by auto
  have m: "hs_config (snd ?removed) = hs_config (snd ?added)"
    "registered (hs_registry (snd ?removed)) = registered (hs_registry (snd ?added)) - id_of ` set ?gone"
    using reload_removes_servers by blast+
  let ?kept = "filter (\<lambda>c. id_of c \<in> set (map id_of (servers_of new))) (servers_of (hs_config (snd ?added)))"
  have kept: "id_of ` set ?kept = id_of ` set (servers_of new)"
  proof -
    have "id_of ` set ?kept = id_of ` set (servers_of (hs_config (snd ?added))) \<inter> id_of ` set (servers_of new)"
      by auto
    with c show ?thesis by blast
  qed
  have gone: "id_of ` set ?gone = configured (snd ?added) - id_of ` set (servers_of new)"
    by (auto simp: configured_def)
  have e: "snd (reload_servers env new rs) =
    snd ?removed\<lparr>hs_config := put ''servers'' (JArr ?kept) (hs_config (snd ?added))\<rparr>"
    by (auto simp: reload_servers_def rs Let_def dest: reload_removes_config split: prod.splits)
  have rec: "is_record (hs_config (snd ?added))" and reg: "registered (hs_registry (snd ?added)) = configured (snd ?added)"
    using a(1) by (auto simp: registry_matches_def)
  have "configured (snd (reload_servers env new rs)) = id_of ` set (servers_of new)"
    using rec kept unfolding configured_def e by simp
  moreover have "registered (hs_registry (snd (reload_servers env new rs))) = id_of ` set (servers_of new)"
  proof -
    have "registered (hs_registry (snd ?removed)) =
        configured (snd ?added) - (configured (snd ?added) - id_of ` set (servers_of new))"
      by (simp only: m(2) gone reg)
    also have "\<dots> = id_of ` set (servers_of new)" using c unfolding configured_def by blast
    finally show ?thesis unfolding e by simp
  qed
  moreover have "is_record (hs_config (snd (reload_servers env new rs)))" using rec unfolding e by simp
  ultimately show ?thesis by (simp add: registry_matches_def)
qed

subsection \<open>The other sections keep the servers\<close>

definition keeps_servers ::
  "(reload_report \<times> 'c host_state \<Rightarrow> reload_report \<times> 'c host_state) \<Rightarrow> bool" where
  "keeps_servers stage \<longleftrightarrow>
     (\<forall>rs. is_record (hs_config (snd rs)) \<longrightarrow>
        is_record (hs_config (snd (stage rs))) \<and> hs_registry (snd (stage rs)) = hs_registry (snd rs) \<and>
        configured (snd (stage rs)) = configured (snd rs))"

lemma keeps_matching:
  "keeps_servers stage \<Longrightarrow> registry_matches (snd rs) \<Longrightarrow>
     registry_matches (snd (stage rs)) \<and> configured (snd (stage rs)) = configured (snd rs)"
  by (simp add: keeps_servers_def registry_matches_def del: split_paired_All)

lemma keeps_section: "k \<noteq> ''servers'' \<Longrightarrow> k \<noteq> ''__proto__'' \<Longrightarrow> keeps_servers (reload_section k new)"
  by (auto simp: keeps_servers_def reload_section_def configured_def split: prod.splits)

lemma keeps_governance: "keeps_servers (reload_governance new)"
  using keeps_section [of "''governance''" new]
  by (auto simp: keeps_servers_def reload_governance_def Let_def split: prod.splits)

lemma keeps_observability: "keeps_servers (reload_observability new)"
  by (auto simp: keeps_servers_def reload_observability_def Let_def configured_def split: prod.splits)

lemma id_of_put [simp]: "id_of (put ''cache'' c s) = id_of s"
proof (cases "is_record s")
  case False
  then show ?thesis by (cases s) (auto simp: is_record_def put_def)
qed (simp add: id_of_def)

lemma ids_set_cache [simp]: "map id_of (set_cache i c ss) = map id_of ss"
  by (induction ss) auto

lemma ids_set_cache_set [simp]: "id_of ` set (set_cache i c ss) = id_of ` set ss"
  by (metis ids_set_cache list.set_map)

lemma keeps_fold: "(\<And>n. keeps_servers (f n)) \<Longrightarrow> keeps_servers (fold f ns)"
proof (induction ns)
  case (Cons n ns)
  then have "keeps_servers (fold f ns)" "keeps_servers (f n)" by auto
  then show ?case by (simp add: keeps_servers_def del: split_paired_All)
qed (simp add: keeps_servers_def)

lemma keeps_caches: "keeps_servers (reload_caches new)"
  unfolding reload_caches_def
  by (rule keeps_fold) (auto simp: keeps_servers_def reload_cache_def configured_def split: prod.splits option.splits)

lemma apply_config_match:
  assumes "registry_matches s"
  shows "registry_matches (snd (apply_config env new s)) \<and>
         configured (snd (apply_config env new s)) = id_of ` set (servers_of new)"
proof -
  let ?r = "flag_restarts new (hs_config s) \<lparr>rr_reloaded = [], rr_skipped = [], rr_errors = []\<rparr>"
  obtain r1 s1 where e: "reload_servers env new (?r, s) = (r1, s1)" by force
  with reload_servers_match [of "(?r, s)" env new] assms
  have m: "registry_matches s1" "configured s1 = id_of ` set (servers_of new)" by auto
  show ?thesis
    unfolding apply_config_def Let_def e prod.case
    using m by (simp add: keeps_matching keeps_section keeps_governance keeps_observability keeps_caches)
qed


subsection \<open>A second reload finds nothing to do\<close>

definition well_formed :: "json \<Rightarrow> bool" where
  "well_formed c \<longleftrightarrow> is_record c \<and> is_array (field c ''servers'') \<and> list_all is_record (servers_of c) \<and>
     is_record (field c ''observability'')"

definition touches ::
  "string \<Rightarrow> (reload_report \<times> 'c host_state \<Rightarrow> reload_report \<times> 'c host_state) \<Rightarrow> bool" where
  "touches k stage \<longleftrightarrow>
     (\<forall>r s. is_record (hs_config s) \<longrightarrow>
        is_record (hs_config (snd (stage (r, s)))) \<and>
        (\<forall>k'. k' \<noteq> k \<longrightarrow> field (hs_config (snd (stage (r, s)))) k' = field (hs_config s) k'))"

lemma touches_section: "k \<noteq> ''__proto__'' \<Longrightarrow> touches k (reload_section k new)"
  by (auto simp: touches_def reload_section_def)

lemma touches_governance: "touches ''governance'' (reload_governance new)"
  using touches_section [of "''governance''" new] by (auto simp: touches_def reload_governance_def Let_def)

lemma touches_observability: "touches ''observability'' (reload_observability new)"
  by (auto simp: touches_def reload_observability_def Let_def)

lemma touches_fold: "(\<And>n. touches k (f n)) \<Longrightarrow> touches k (fold f ns)"
proof (induction ns)
  case (Cons n ns)
  then have a: "touches k (fold f ns)" "touches k (f n)" by auto
  show ?case
    unfolding touches_def
  proof (intro allI impI)
    fix r :: reload_report and s :: "'b host_state"
    assume "is_record (hs_config s)"
    moreover obtain r' s' where "f n (r, s) = (r', s')" by force
    ultimately show "is_record (hs_config (snd (fold f (n # ns) (r, s)))) \<and>
      (\<forall>k'. k' \<noteq> k \<longrightarrow> field (hs_config (snd (fold f (n # ns) (r, s)))) k' = field (hs_config s) k')"
      using a unfolding touches_def by (metis comp_apply fold_simps(2) snd_conv)
  qed
qed (simp add: touches_def)

lemma touches_add: "touches ''servers'' (reload_add env n)"
  by (auto simp: touches_def reload_add_def Let_def split: sum.splits)

lemma touches_servers: "touches ''servers'' (reload_servers env new)"
proof -
  have "is_record (hs_config s') \<and> (\<forall>k'. k' \<noteq> ''servers'' \<longrightarrow> field (hs_config s') k' = field (hs_config s) k')"
    if "fold (reload_add env) ns (r, s) = (r', s')" "is_record (hs_config s)" for ns r s r' s'
    using touches_fold [of "''servers''" "reload_add env" ns, OF touches_add] that unfolding touches_def by (metis snd_conv)
  then show ?thesis
    by (fastforce simp: touches_def reload_servers_def Let_def dest: reload_removes_config split: prod.splits)
qed

lemma touches_cache: "touches ''servers'' (reload_cache n)"
  by (auto simp: touches_def reload_cache_def split: option.splits)

lemma touches_caches: "touches ''servers'' (reload_caches new)"
  unfolding reload_caches_def by (rule touches_fold) (rule touches_cache)

text \<open>What each stage leaves behind, and that it then changes nothing.\<close>

definition same_section :: "string \<Rightarrow> json \<Rightarrow> json \<Rightarrow> bool" where
  "same_section k new c \<longleftrightarrow> \<not> differs (field new k) (field c k)"

definition governance_settled :: "json \<Rightarrow> json \<Rightarrow> bool" where
  "governance_settled new c \<longleftrightarrow>
     \<not> strict_eq (field (field new ''governance'') ''enabled'') (field (field c ''governance'') ''enabled'') \<or>
     \<not> strict_eq (field (field new ''governance'') ''db_path'') (field (field c ''governance'') ''db_path'') \<or>
     same_section ''governance'' new c"

definition observability_settled :: "json \<Rightarrow> json \<Rightarrow> bool" where
  "observability_settled new c \<longleftrightarrow>
     strict_eq (field (field new ''observability'') ''log_args'') (field (field c ''observability'') ''log_args'') \<and>
     strict_eq (field (field new ''observability'') ''log_responses'') (field (field c ''observability'') ''log_responses'') \<and>
     \<not> differs (field (field new ''observability'') ''redact_fields'') (field (field c ''observability'') ''redact_fields'')"

definition caches_settled :: "json list \<Rightarrow> json \<Rightarrow> bool" where
  "caches_settled ns c \<longleftrightarrow>
     (\<forall>n \<in> set ns. \<forall>cur. find_server (id_of n) (servers_of c) = Some cur \<longrightarrow>
        \<not> differs (field n ''cache'') (field cur ''cache''))"

lemma section_settles:
  "is_record (hs_config s) \<Longrightarrow> k \<noteq> ''__proto__'' \<Longrightarrow>
     same_section k new (hs_config (snd (reload_section k new (r, s))))"
  by (simp add: same_section_def reload_section_def)

lemma section_inert: "same_section k new (hs_config s) \<Longrightarrow> reload_section k new (r, s) = (r, s)"
  by (simp add: same_section_def reload_section_def)

lemma governance_settles:
  "is_record (hs_config s) \<Longrightarrow> governance_settled new (hs_config (snd (reload_governance new (r, s))))"
  using section_settles [of s "''governance''" new r]
  by (auto simp: governance_settled_def reload_governance_def Let_def)

lemma observability_settles:
  assumes "is_record (hs_config s)" "is_record (field (hs_config s) ''observability'')"
    and "field (field new ''observability'') ''log_args'' = JBool a"
    and "field (field new ''observability'') ''log_responses'' = JBool b"
  shows "observability_settled new (hs_config (snd (reload_observability new (r, s))))"
  using assms by (auto simp: observability_settled_def reload_observability_def Let_def)

lemma observability_inert: "observability_settled new (hs_config s) \<Longrightarrow> reload_observability new (r, s) = (r, s)"
  by (simp add: observability_settled_def reload_observability_def Let_def)

lemma find_set_cache:
  "find_server j (set_cache i c ss) =
     (if j = i then map_option (put ''cache'' c) (find_server j ss) else find_server j ss)"
  by (induction ss) (auto simp: find_server_def)

lemma records_set_cache [simp]: "list_all is_record (set_cache i c ss) = list_all is_record ss"
  by (induction ss) auto

lemma find_server_in: "find_server i ss = Some x \<Longrightarrow> x \<in> set ss"
  by (simp add: find_server_def find_SomeD)

lemma reload_cache_effect:
  assumes "is_record (hs_config s)" "list_all is_record (servers_of (hs_config s))"
  shows "list_all is_record (servers_of (hs_config (snd (reload_cache n (r, s)))))"
    and "\<And>cur. find_server (id_of n) (servers_of (hs_config (snd (reload_cache n (r, s))))) = Some cur \<Longrightarrow>
           \<not> differs (field n ''cache'') (field cur ''cache'')"
    and "\<And>j. j \<noteq> id_of n \<Longrightarrow> find_server j (servers_of (hs_config (snd (reload_cache n (r, s))))) =
           find_server j (servers_of (hs_config s))"
proof -
  show "list_all is_record (servers_of (hs_config (snd (reload_cache n (r, s)))))"
    using assms by (auto simp: reload_cache_def split: option.splits)
  show "\<not> differs (field n ''cache'') (field cur ''cache'')"
    if "find_server (id_of n) (servers_of (hs_config (snd (reload_cache n (r, s))))) = Some cur" for cur
  proof -
    have "is_record x" if "find_server (id_of n) (servers_of (hs_config s)) = Some x" for x
      using assms(2) find_server_in [OF that] by (simp add: list_all_iff)
    with that assms(1) show ?thesis by (auto simp: reload_cache_def find_set_cache split: option.splits if_splits)
  qed
  show "find_server j (servers_of (hs_config (snd (reload_cache n (r, s))))) = find_server j (servers_of (hs_config s))"
    if "j \<noteq> id_of n" for j
    using assms(1) that by (auto simp: reload_cache_def find_set_cache split: option.splits)
qed

lemma caches_settle:
  "distinct (map id_of ns) \<Longrightarrow> is_record (hs_config s) \<Longrightarrow> list_all is_record (servers_of (hs_config s)) \<Longrightarrow>
     caches_settled ns (hs_config (snd (fold reload_cache ns (r, s)))) \<and>
     (\<forall>j. j \<notin> id_of ` set ns \<longrightarrow>
        find_server j (servers_of (hs_config (snd (fold reload_cache ns (r, s))))) =
        find_server j (servers_of (hs_config s)))"
proof (induction ns arbitrary: r s)
  case (Cons n ns)
  obtain r' s' where e: "reload_cache n (r, s) = (r', s')" by force
  note eff = reload_cache_effect [OF Cons.prems(2,3), where n = n and r = r, unfolded e snd_conv]
  have "is_record (hs_config s')"
    using touches_cache Cons.prems(2) e unfolding touches_def by (metis snd_conv)
  with Cons.IH [of s' r'] Cons.prems eff(1) have
    ih: "caches_settled ns (hs_config (snd (fold reload_cache ns (r', s'))))"
    "\<And>j. j \<notin> id_of ` set ns \<Longrightarrow>
        find_server j (servers_of (hs_config (snd (fold reload_cache ns (r', s'))))) =
        find_server j (servers_of (hs_config s'))" by auto
  have "id_of n \<notin> id_of ` set ns" using Cons.prems(1) by auto
  with ih eff(2,3) e show ?case by (auto simp: caches_settled_def)
qed (simp add: caches_settled_def)

lemma caches_inert: "caches_settled ns (hs_config s) \<Longrightarrow> fold reload_cache ns (r, s) = (r, s)"
proof (induction ns)
  case (Cons n ns)
  then have "reload_cache n (r, s) = (r, s)"
    by (auto simp: reload_cache_def caches_settled_def split: option.splits)
  with Cons show ?case by (simp add: caches_settled_def)
qed simp

text \<open>A stage that only adds to what is skipped.\<close>

lemma skipped_only:
  "rr_reloaded (note_skipped c t r) = rr_reloaded r" "rr_errors (note_skipped c t r) = rr_errors r"
  by (simp_all add: note_skipped_def)

lemma skipped_fold:
  "rr_reloaded (fold (\<lambda>n. case f n of Some x \<Rightarrow> note_skipped (c n x) (t n x) | None \<Rightarrow> id) ns r) = rr_reloaded r \<and>
   rr_errors (fold (\<lambda>n. case f n of Some x \<Rightarrow> note_skipped (c n x) (t n x) | None \<Rightarrow> id) ns r) = rr_errors r"
  by (induction ns arbitrary: r) (auto simp: skipped_only split: option.splits)

lemma servers_inert:
  assumes "is_array (field (hs_config s) ''servers'')" "configured s = id_of ` set (servers_of new)"
  shows "snd (reload_servers env new (r, s)) = s \<and>
         rr_reloaded (fst (reload_servers env new (r, s))) = rr_reloaded r \<and>
         rr_errors (fst (reload_servers env new (r, s))) = rr_errors r"
proof -
  have n: "filter (\<lambda>n. id_of n \<notin> id_of ` set (servers_of (hs_config s))) (servers_of new) = []"
    "filter (\<lambda>c. id_of c \<notin> id_of ` set (servers_of new)) (servers_of (hs_config s)) = []"
    "filter (\<lambda>c. id_of c \<in> id_of ` set (servers_of new)) (servers_of (hs_config s)) = servers_of (hs_config s)"
    using assms(2) by (auto simp: configured_def filter_empty_conv intro!: filter_True)
  have a: "field (hs_config s) ''servers'' = JArr (servers_of (hs_config s))"
    using assms(1) by (auto simp: is_array_def servers_of_def split: json.splits)
  then have "put ''servers'' (JArr (servers_of (hs_config s))) (hs_config s) = hs_config s" by simp
  then show ?thesis by (simp add: reload_servers_def Let_def n skipped_fold)
qed

lemma set_servers_of_reload:
  "set (servers_of (hs_config (snd (reload_servers env new (r, s))))) \<subseteq>
     set (servers_of (hs_config s)) \<union> set (servers_of new) \<and>
   is_array (field (hs_config (snd (reload_servers env new (r, s)))) ''servers'')"
  if "is_record (hs_config s)"
proof -
  have add: "set (servers_of (hs_config (snd (fold (reload_add env) ns rs)))) \<subseteq>
      set (servers_of (hs_config (snd rs))) \<union> set ns \<and> is_record (hs_config (snd (fold (reload_add env) ns rs)))"
    if "is_record (hs_config (snd rs))" for ns rs
    using that
  proof (induction ns arbitrary: rs)
    case (Cons n ns)
    have "set (servers_of (hs_config (snd (reload_add env n rs)))) \<subseteq> insert n (set (servers_of (hs_config (snd rs)))) \<and>
        is_record (hs_config (snd (reload_add env n rs)))"
      using Cons.prems by (cases rs) (auto simp: reload_add_def Let_def split: sum.splits)
    with Cons.IH [of "reload_add env n rs"] show ?case by auto
  qed auto
  let ?ns = "filter (\<lambda>n. id_of n \<notin> set (map id_of (servers_of (hs_config s)))) (servers_of new)"
  obtain r1 s1 where e1: "fold (reload_add env) ?ns (r, s) = (r1, s1)" by force
  let ?gone = "filter (\<lambda>c. id_of c \<notin> set (map id_of (servers_of new))) (servers_of (hs_config s1))"
  obtain r2 s2 where e2: "fold (reload_remove env) ?gone (r1, s1) = (r2, s2)" by force
  have "set (servers_of (hs_config s1)) \<subseteq> set (servers_of (hs_config s)) \<union> set (servers_of new)"
    and "is_record (hs_config s1)"
    using add [of "(r, s)" ?ns] that e1 by auto
  moreover have "hs_config s2 = hs_config s1" by (rule reload_removes_config [OF e2])
  ultimately show ?thesis using e1 e2 by (auto simp: reload_servers_def Let_def is_array_def)
qed

lemma is_array_caches:
  "is_record (hs_config s) \<Longrightarrow> is_array (field (hs_config s) ''servers'') \<Longrightarrow>
     is_array (field (hs_config (snd (fold reload_cache ns (r, s)))) ''servers'')"
proof (induction ns arbitrary: r s)
  case (Cons n ns)
  obtain r' s' where e: "reload_cache n (r, s) = (r', s')" by force
  then have "is_record (hs_config s') \<and> is_array (field (hs_config s') ''servers'')"
    using Cons.prems by (auto simp: reload_cache_def is_array_def split: option.splits if_splits)
  with Cons.IH [of s' r'] e show ?case by simp
qed simp

lemma governance_inert:
  "governance_settled new (hs_config s) \<Longrightarrow>
     snd (reload_governance new (r, s)) = s \<and>
     rr_reloaded (fst (reload_governance new (r, s))) = rr_reloaded r \<and>
     rr_errors (fst (reload_governance new (r, s))) = rr_errors r"
  by (auto simp: governance_settled_def reload_governance_def Let_def note_skipped_def section_inert)


subsection \<open>What a reload leaves out\<close>

text \<open>The rate limiter keeps the limits it was built with, also when the report names them.\<close>

lemma limiter_fold:
  "(\<And>n rs. hs_limiter (snd (f n rs)) = hs_limiter (snd rs)) \<Longrightarrow>
     hs_limiter (snd (fold f ns rs)) = hs_limiter (snd rs)"
  by (induction ns arbitrary: rs) auto

lemma limiter_stages:
  "hs_limiter (snd (reload_add env n rs)) = hs_limiter (snd rs)"
  "hs_limiter (snd (reload_remove env n rs)) = hs_limiter (snd rs)"
  "hs_limiter (snd (reload_cache n rs)) = hs_limiter (snd rs)"
  "hs_limiter (snd (reload_section k new rs)) = hs_limiter (snd rs)"
  "hs_limiter (snd (reload_governance new rs)) = hs_limiter (snd rs)"
  "hs_limiter (snd (reload_observability new rs)) = hs_limiter (snd rs)"
  by (cases rs; auto simp: reload_add_def reload_remove_def reload_cache_def reload_section_def reload_governance_def
      reload_observability_def Let_def split: sum.splits option.splits)+

lemma limiter_servers: "hs_limiter (snd (reload_servers env new rs)) = hs_limiter (snd rs)"
proof -
  have "hs_limiter s' = hs_limiter s" if "fold (reload_add env) ns (r, s) = (r', s')" for ns r s r' s'
    by (metis limiter_fold limiter_stages(1) snd_conv that)
  moreover have "hs_limiter s' = hs_limiter s" if "fold (reload_remove env) ns (r, s) = (r', s')" for ns r s r' s'
    by (metis limiter_fold limiter_stages(2) snd_conv that)
  ultimately show ?thesis by (cases rs) (force simp: reload_servers_def Let_def split: prod.splits)
qed

lemma reload_keeps_the_limiter:
  "reload env path s = Some (report, s') \<Longrightarrow> hs_limiter s' = hs_limiter s"
proof -
  have "hs_limiter (snd (apply_config env new s)) = hs_limiter s" for new
    using limiter_servers [of env new]
    by (simp add: apply_config_def Let_def reload_caches_def limiter_fold limiter_stages split: prod.splits)
       (metis snd_conv)
  then have "apply_config env new s = (report, s') \<Longrightarrow> hs_limiter s' = hs_limiter s" for new
    by (metis snd_conv)
  then show "reload env path s = Some (report, s') \<Longrightarrow> hs_limiter s' = hs_limiter s"
    by (auto simp: reload_def Let_def split: sum.splits option.splits if_splits)
qed

subsection \<open>A gateway on which the theorems hold\<close>

definition demo_registry_config :: registry_config where
  "demo_registry_config =
     \<lparr>rc_strategy = NoNamespace,
      rc_health = \<lparr>hc_enabled = False, hc_interval_seconds = 30, hc_timeout_ms = 5000, hc_unhealthy_threshold = 3,
                   hc_healthy_threshold = 1\<rparr>,
      rc_breaker = None\<rparr>"

definition demo_env :: "loader \<Rightarrow> two_entries host_env" where
  "demo_env ld = \<lparr>he_loader = ld, he_lru = two_lru, he_registry_config = demo_registry_config,
     he_reply = (\<lambda>_. ReplyThrew), he_now = 0\<rparr>"

definition demo_host :: "two_entries host_state" where
  "demo_host =
     \<lparr>hs_config = JObj [(''servers'', JArr []), (''observability'', JObj [])],
      hs_registry = new_registry demo_registry_config [] [], hs_cache = new_cache_store [] 64,
      hs_limiter = None, hs_logger = (JBool True, JBool False, JArr [])\<rparr>"

definition demo_new :: json where
  "demo_new =
     JObj [(''servers'', JArr [JObj [(''id'', JStr ''crm''), (''url'', JStr ''http://crm''), (''cache'', JObj [])]]),
           (''observability'', JObj [(''log_args'', JBool True), (''log_responses'', JBool False)])]"

lemma demo_host_matches: "registry_matches demo_host" "well_formed (hs_config demo_host)"
  by code_simp+



text \<open>
  The environment is not applied when the file is read again: a gateway whose admin key comes
  from the environment starts, and never reloads.
\<close>

definition keyless_loader :: loader where
  "keyless_loader = demo_loader
     \<lparr>ld_env := (\<lambda>name. if name = ''CONDUIT_ADMIN_KEY'' then Some ''secret'' else None),
      ld_yaml := (\<lambda>_. Inr (JObj [(''gateway'', JObj [(''host'', JStr ''0.0.0.0'')])]))\<rparr>"

lemma reload_ignores_the_environment:
  "loads (snd (loadConfigFromEnv keyless_loader)) (\<lambda>config. True) \<and>
   (case reload (demo_env keyless_loader) None s of
      Some (report, s') \<Rightarrow> s' = s \<and> rr_errors report \<noteq> [] | None \<Rightarrow> False)"
proof
  show "loads (snd (loadConfigFromEnv keyless_loader)) (\<lambda>config. True)" by code_simp
  let ?file = "JObj [(''gateway'', JObj [(''host'', JStr ''0.0.0.0'')])]"
  have "case mergeWithDefaults ?file of
      Some c \<Rightarrow> (case validateConfig (ld_validator keyless_loader) c of Some es \<Rightarrow> es \<noteq> [] | None \<Rightarrow> False)
    | None \<Rightarrow> False" by code_simp
  then obtain c es where "mergeWithDefaults ?file = Some c"
    "validateConfig (ld_validator keyless_loader) c = Some es" "es \<noteq> []"
    by (auto split: option.splits)
  moreover have "safeYamlLoad keyless_loader [] = Inr ?file" by code_simp
  moreover have "ld_read keyless_loader p = Inr []" for p by (simp add: keyless_loader_def demo_loader_def)
  ultimately show "case reload (demo_env keyless_loader) None s of
      Some (report, s') \<Rightarrow> s' = s \<and> rr_errors report \<noteq> [] | None \<Rightarrow> False"
    by (simp add: reload_def demo_env_def or_else_def nullish_def is_record_def report_error_def Let_def)
qed

end
