(* ===== verification/Discovery.thy ===== *)
theory Discovery
  imports Router
begin

section \<open>Service discovery (src/src/discovery)\<close>

text \<open>
  Servers announce themselves to the HTTP backend, or are found by DNS; the manager compares
  what its backends report with the servers it manages and adds or removes them in the
  registry.  What a DNS query answers and what the backends of a cycle report are arguments,
  and so are the replies to the tool lists that a registration asks for.  A cycle is taken as
  atomic.
\<close>

record discovered_server =
  ds_id :: string
  ds_url :: string
  ds_transport :: "string option"

record registration =
  rn_server :: discovered_server
  rn_lastSeen :: timestamp

subsection \<open>http-registry.ts, dns-discovery.ts\<close>

record http_registry =
  hb_registrations :: "(string, registration) jsmap"
  hb_staleTimeoutMs :: int

definition new_http_registry :: "int \<Rightarrow> http_registry" where
  "new_http_registry staleTimeoutSeconds =
     \<lparr>hb_registrations = [], hb_staleTimeoutMs = staleTimeoutSeconds * 1000\<rparr>"

definition register :: "timestamp \<Rightarrow> discovered_server \<Rightarrow> http_registry \<Rightarrow> http_registry" where
  "register now server b =
     b\<lparr>hb_registrations :=
         AList.update (ds_id server) \<lparr>rn_server = server, rn_lastSeen = now\<rparr> (hb_registrations b)\<rparr>"

definition deregister :: "string \<Rightarrow> http_registry \<Rightarrow> bool \<times> http_registry" where
  "deregister serverId b =
     (map_has (hb_registrations b) serverId,
      b\<lparr>hb_registrations := AList.delete serverId (hb_registrations b)\<rparr>)"

definition is_stale :: "http_registry \<Rightarrow> timestamp \<Rightarrow> registration \<Rightarrow> bool" where
  "is_stale b now reg \<longleftrightarrow> now - rn_lastSeen reg > hb_staleTimeoutMs b"

definition poll :: "timestamp \<Rightarrow> http_registry \<Rightarrow> discovered_server list \<times> http_registry" where
  "poll now b =
     (let alive = filter (\<lambda>(i, reg). \<not> is_stale b now reg) (hb_registrations b)
      in (map (rn_server \<circ> snd) alive, b\<lparr>hb_registrations := alive\<rparr>))"

definition registry_size :: "http_registry \<Rightarrow> nat" where
  "registry_size b = length (hb_registrations b)"

definition srvToServer :: "string \<times> int \<Rightarrow> discovered_server" where
  "srvToServer record =
     (case record of (host, port) \<Rightarrow>
       \<lparr>ds_id = ''dns-'' @ host @ ''-'' @ show_int port,
        ds_url = ''http://'' @ host @ '':'' @ show_int port @ ''/mcp'',
        ds_transport = Some ''http''\<rparr>)"

text \<open>A failed lookup is logged and counts as no server.\<close>

definition dns_poll :: "string + (string \<times> int) list \<Rightarrow> discovered_server list" where
  "dns_poll answer = (case answer of Inl message \<Rightarrow> [] | Inr records \<Rightarrow> map srvToServer records)"

subsection \<open>manager.ts\<close>

record discovery =
  dm_managed :: "string list"
  dm_registry :: registry

record discovery_env =
  de_static :: "string list"
  de_config :: registry_config
  de_reply :: "string \<Rightarrow> list_reply"
  de_now :: timestamp

text \<open>A backend whose poll fails (\<open>None\<close>) contributes nothing; the last server of an id counts.\<close>

definition merge_discovered :: "discovered_server list option list \<Rightarrow> (string, discovered_server) jsmap" where
  "merge_discovered results =
     fold (\<lambda>server. AList.update (ds_id server) server)
       (concat (map (\<lambda>r. case r of Some servers \<Rightarrow> servers | None \<Rightarrow> []) results)) []"

text \<open>\<open>createMcpClient\<close> throws on a transport it does not know; an absent or empty one is HTTP.\<close>

definition transport_of :: "discovered_server \<Rightarrow> transport_kind option option" where
  "transport_of d =
     (case ds_transport d of
        None \<Rightarrow> Some None
      | Some t \<Rightarrow> if t = [] then Some None
                  else if t = ''stdio'' then Some (Some Stdio)
                  else if t = ''http'' then Some (Some Http) else None)"

definition add_discovered ::
  "discovery_env \<Rightarrow> string \<times> discovered_server \<Rightarrow> string list \<times> discovery \<Rightarrow> string list \<times> discovery" where
  "add_discovered env entry acc =
     (case (entry, acc) of ((i, d), (added, m)) \<Rightarrow>
       if i \<in> set (de_static env) \<or> i \<in> set (dm_managed m) then (added, m)
       else case transport_of d of
              None \<Rightarrow> (added, m)
            | Some transport \<Rightarrow>
                (let reg = (dm_registry m)\<lparr>rg_clients := List.insert i (rg_clients (dm_registry m))\<rparr>;
                     sc = \<lparr>sc_id = ds_id d, sc_url = ds_url d, sc_replicas = None, sc_transport = transport\<rparr>
                 in case addServer (de_config env) (de_now env) (de_now env) (de_reply env i) sc reg of
                      Inl e \<Rightarrow> (added, m\<lparr>dm_registry := reg\<rparr>)
                    | Inr reg' \<Rightarrow>
                        (added @ [i], m\<lparr>dm_managed := dm_managed m @ [i], dm_registry := reg'\<rparr>)))"

definition remove_stale ::
  "discovery_env \<Rightarrow> string \<Rightarrow> string list \<times> discovery \<Rightarrow> string list \<times> discovery" where
  "remove_stale env i acc =
     (case acc of (removed, m) \<Rightarrow>
       (let reg = snd (removeServer (de_config env) i (dm_registry m))
        in (removed @ [i],
            m\<lparr>dm_managed := removeAll i (dm_managed m),
              dm_registry := reg\<lparr>rg_clients := removeAll i (rg_clients reg)\<rparr>\<rparr>)))"

definition reconcile ::
  "discovery_env \<Rightarrow> discovered_server list option list \<Rightarrow> discovery \<Rightarrow> (string list \<times> string list) \<times> discovery" where
  "reconcile env results m =
     (let found = merge_discovered results;
          (added, m1) = fold (add_discovered env) found ([], m);
          (removed, m2) = fold (remove_stale env)
                            (filter (\<lambda>i. i \<notin> set (map_keys found)) (dm_managed m1)) ([], m1)
      in ((added, removed), m2))"

text \<open>
  A gateway with one HTTP backend: announcements, withdrawals and cycles of the manager, which
  polls the backend and reconciles.
\<close>

datatype discovery_event =
    Register timestamp discovered_server
  | Deregister string
  | Cycle discovery_env

fun discovery_step :: "discovery_event \<Rightarrow> http_registry \<times> discovery \<Rightarrow> http_registry \<times> discovery" where
  "discovery_step (Register now server) (b, m) = (register now server b, m)"
| "discovery_step (Deregister i) (b, m) = (snd (deregister i b), m)"
| "discovery_step (Cycle env) (b, m) =
     (let (servers, b') = poll (de_now env) b in (b', snd (reconcile env [Some servers] m)))"

end
