(* ===== verification/Discovery_Laws.thy ===== *)
theory Discovery_Laws
  imports Discovery Registered
begin

section \<open>What discovery does to the registry\<close>

text \<open>
  The manager only ever touches the servers it added itself: a statically configured server
  keeps its entry whatever the backends report.  After a cycle it manages the announced
  servers that are fresh.
\<close>

definition discovery_ok :: "string list \<Rightarrow> discovery \<Rightarrow> bool" where
  "discovery_ok static m \<longleftrightarrow>
     distinct (dm_managed m) \<and> set (dm_managed m) \<subseteq> registered (dm_registry m) \<and>
     set (dm_managed m) \<inter> set static = {}"

text \<open>The entries that a cycle adds to a manager.\<close>

definition addable :: "discovery_env \<Rightarrow> discovery \<Rightarrow> string \<times> discovered_server \<Rightarrow> bool" where
  "addable env m e \<longleftrightarrow>
     fst e \<notin> set (de_static env) \<and> fst e \<notin> set (dm_managed m) \<and> fst e \<notin> registered (dm_registry m) \<and>
     transport_of (snd e) \<noteq> None"

lemma add_discovered_one:
  fixes added :: "string list"
  assumes "ds_id d = i" "discovery_ok (de_static env) m"
  defines "m' \<equiv> snd (add_discovered env (i, d) (added, m))"
  shows "discovery_ok (de_static env) m'"
    and "set (dm_managed m') = (if addable env m (i, d) then insert i (set (dm_managed m)) else set (dm_managed m))"
    and "registered (dm_registry m') =
           (if addable env m (i, d) then insert i (registered (dm_registry m)) else registered (dm_registry m))"
    and "j \<noteq> i \<or> \<not> addable env m (i, d) \<Longrightarrow>
           map_of (rg_servers (dm_registry m')) j = map_of (rg_servers (dm_registry m)) j"
proof -
  let ?reg = "(dm_registry m)\<lparr>rg_clients := List.insert i (rg_clients (dm_registry m))\<rparr>"
  let ?sc = "\<lambda>t. \<lparr>sc_id = ds_id d, sc_url = ds_url d, sc_replicas = None, sc_transport = t\<rparr>"
  let ?add = "\<lambda>t. addServer (de_config env) (de_now env) (de_now env) (de_reply env i) (?sc t) ?reg"
  consider (skip) "m' = m" "\<not> addable env m (i, d)"
    | (fails) "m' = m\<lparr>dm_registry := ?reg\<rparr>" "\<not> addable env m (i, d)"
    | (adds) t reg' where "?add t = Inr reg'" "registered reg' = insert i (registered (dm_registry m))" "addable env m (i, d)"
        "m' = m\<lparr>dm_managed := dm_managed m @ [i], dm_registry := reg'\<rparr>"
  proof (cases "i \<in> set (de_static env) \<or> i \<in> set (dm_managed m) \<or> transport_of d = None")
    case True
    then show thesis by (intro skip) (auto simp: m'_def add_discovered_def addable_def)
  next
    case False
    then obtain t where t: "transport_of d = Some t" by auto
    show thesis
    proof (cases "?add t")
      case (Inl e)
      then have "sc_id (?sc t) \<in> registered ?reg" using add_fails_iff by blast
      then have "i \<in> registered ?reg" using assms(1) by simp
      with False t Inl show thesis by (intro fails) (auto simp: m'_def add_discovered_def addable_def Let_def)
    next
      case (Inr reg')
      then have "sc_id (?sc t) \<notin> registered ?reg" using add_fails_iff by (metis Inl_Inr_False)
      then have "i \<notin> registered ?reg" using assms(1) by simp
      with False t Inr registered_add [OF Inr] assms(1) show thesis
        by (intro adds [of t reg']) (auto simp: m'_def add_discovered_def addable_def Let_def)
    qed
  qed
  note cases = this
  show "discovery_ok (de_static env) m'"
    using cases assms(2)
    by cases (auto simp: discovery_ok_def addable_def assms(1) dest: registered_add)
  show "set (dm_managed m') = (if addable env m (i, d) then insert i (set (dm_managed m)) else set (dm_managed m))"
    using cases by cases auto
  show "registered (dm_registry m') =
           (if addable env m (i, d) then insert i (registered (dm_registry m)) else registered (dm_registry m))"
    using cases by cases (auto simp: assms(1) dest: registered_add)
  show "map_of (rg_servers (dm_registry m')) j = map_of (rg_servers (dm_registry m)) j"
    if "j \<noteq> i \<or> \<not> addable env m (i, d)"
    using cases that by cases (auto simp: assms(1) dest: entry_add)
qed

lemma add_discovered_all:
  fixes added :: "string list"
  assumes "discovery_ok (de_static env) m" "distinct (map fst es)" "\<forall>(i, d) \<in> set es. ds_id d = i"
  defines "m' \<equiv> snd (fold (add_discovered env) es (added, m))"
  shows "discovery_ok (de_static env) m' \<and>
         set (dm_managed m') = set (dm_managed m) \<union> fst ` set (filter (addable env m) es) \<and>
         registered (dm_registry m') = registered (dm_registry m) \<union> fst ` set (filter (addable env m) es) \<and>
         (\<forall>j. j \<notin> fst ` set (filter (addable env m) es) \<longrightarrow>
            map_of (rg_servers (dm_registry m')) j = map_of (rg_servers (dm_registry m)) j)"
  using assms(1-3) unfolding m'_def
proof (induction es arbitrary: added m)
  case (Cons e es)
  obtain i d where e: "e = (i, d)" by force
  obtain added1 m1 where m1: "add_discovered env (i, d) (added, m) = (added1, m1)" by force
  have i: "ds_id d = i" using Cons.prems(3) e by auto
  note one = add_discovered_one [OF i Cons.prems(1), where added = added, unfolded m1 snd_conv]
  have same: "addable env m1 x \<longleftrightarrow> addable env m x" if "x \<in> set es" for x
  proof -
    have "fst x \<noteq> i" using Cons.prems(2) e that by force
    then show ?thesis using one(2,3) by (auto simp: addable_def)
  qed
  then have f: "filter (addable env m1) es = filter (addable env m) es" by (simp cong: filter_cong)
  have "fold (add_discovered env) (e # es) (added, m) = fold (add_discovered env) es (added1, m1)"
    using e m1 by simp
  with Cons.IH [OF one(1), of added1] Cons.prems(2,3) one f e show ?case by auto
qed simp

lemma remove_stale_all:
  "dm_managed (snd (fold (remove_stale env) ids (removed, m))) =
           filter (\<lambda>i. i \<notin> set ids) (dm_managed m) \<and>
         registered (dm_registry (snd (fold (remove_stale env) ids (removed, m)))) =
           registered (dm_registry m) - set ids \<and>
         (\<forall>j. j \<notin> set ids \<longrightarrow>
            map_of (rg_servers (dm_registry (snd (fold (remove_stale env) ids (removed, m))))) j =
            map_of (rg_servers (dm_registry m)) j)"
proof (induction ids arbitrary: removed m)
  case (Cons i ids)
  obtain removed1 m1 where m1: "remove_stale env i (removed, m) = (removed1, m1)" by force
  then have "dm_managed m1 = removeAll i (dm_managed m)" "registered (dm_registry m1) = registered (dm_registry m) - {i}"
    "\<And>j. j \<noteq> i \<Longrightarrow> map_of (rg_servers (dm_registry m1)) j = map_of (rg_servers (dm_registry m)) j"
    by (auto simp: remove_stale_def Let_def entry_remove)
  with Cons.IH [of removed1 m1] m1 show ?case
    by (auto simp: removeAll_filter_not_eq intro: filter_cong)
qed simp

lemma merge_discovered_keys:
  "distinct (map fst (merge_discovered results)) \<and> (\<forall>(i, d) \<in> set (merge_discovered results). ds_id d = i)"
proof -
  have "distinct (map fst (fold (\<lambda>s. AList.update (ds_id s) s) ss acc)) \<and>
        (\<forall>(i, d) \<in> set (fold (\<lambda>s. AList.update (ds_id s) s) ss acc). ds_id d = i)"
    if "distinct (map fst acc)" "\<forall>(i, d) \<in> set acc. ds_id d = i" for ss acc
    using that
  proof (induction ss arbitrary: acc)
    case (Cons s ss)
    have "\<forall>(i, d) \<in> set (AList.update (ds_id s) s acc). ds_id d = i"
      using Cons.prems by (induction acc) auto
    with Cons.IH [of "AList.update (ds_id s) s acc"] Cons.prems show ?case by (simp add: distinct_update)
  qed simp
  from this [of "[]"] show ?thesis by (simp add: merge_discovered_def)
qed

text \<open>The servers a cycle leaves under management.\<close>

lemma reconcile_effect:
  fixes results
  assumes "discovery_ok (de_static env) m"
  defines "m' \<equiv> snd (reconcile env results m)" and "found \<equiv> merge_discovered results"
  shows "discovery_ok (de_static env) m'"
    and "set (dm_managed m') =
           set (map_keys found) \<inter> (set (dm_managed m) \<union> fst ` set (filter (addable env m) found))"
    and "i \<in> set (de_static env) \<Longrightarrow> map_of (rg_servers (dm_registry m')) i = map_of (rg_servers (dm_registry m)) i"
proof -
  obtain added m1 where m1: "fold (add_discovered env) found ([], m) = (added, m1)" by force
  note a = add_discovered_all [OF assms(1), where es = found and added = "[]", unfolded m1 snd_conv]
  have a: "discovery_ok (de_static env) m1"
    "set (dm_managed m1) = set (dm_managed m) \<union> fst ` set (filter (addable env m) found)"
    "\<And>j. j \<notin> fst ` set (filter (addable env m) found) \<Longrightarrow>
       map_of (rg_servers (dm_registry m1)) j = map_of (rg_servers (dm_registry m)) j"
    using a merge_discovered_keys [of results] unfolding found_def by auto
  let ?stale = "filter (\<lambda>i. i \<notin> set (map_keys found)) (dm_managed m1)"
  have m': "m' = snd (fold (remove_stale env) ?stale ([], m1))"
    unfolding m'_def by (simp add: reconcile_def found_def [symmetric] Let_def m1 split: prod.splits)
  note r = remove_stale_all [where env = env and ids = ?stale and removed = "[]" and m = m1, folded m']
  show "set (dm_managed m') = set (map_keys found) \<inter> (set (dm_managed m) \<union> fst ` set (filter (addable env m) found))"
    using r a(2) by auto
  show "discovery_ok (de_static env) m'" using r a(1) by (auto simp: discovery_ok_def)
  show "map_of (rg_servers (dm_registry m')) i = map_of (rg_servers (dm_registry m)) i" if "i \<in> set (de_static env)"
  proof -
    have "i \<notin> set ?stale" using that a(1) by (auto simp: discovery_ok_def)
    moreover have "i \<notin> fst ` set (filter (addable env m) found)" using that by (auto simp: addable_def)
    ultimately show ?thesis using r a(3) by auto
  qed
qed

subsection \<open>A gateway with the HTTP backend\<close>

definition backend_ok :: "http_registry \<Rightarrow> bool" where
  "backend_ok b \<longleftrightarrow>
     distinct (map_keys (hb_registrations b)) \<and> (\<forall>(i, reg) \<in> set (hb_registrations b). ds_id (rn_server reg) = i)"

text \<open>The ids whose last announcement is not older than the timeout.\<close>

definition fresh :: "http_registry \<Rightarrow> timestamp \<Rightarrow> string set" where
  "fresh b now =
     {i. \<exists>reg. map_of (hb_registrations b) i = Some reg \<and> now - rn_lastSeen reg \<le> hb_staleTimeoutMs b}"

lemma backend_ok_step: "backend_ok b \<Longrightarrow> backend_ok (fst (discovery_step ev (b, m)))"
proof (cases ev)
  case (Register now server)
  assume "backend_ok b"
  moreover have "(i, reg) \<in> set (AList.update k v xs) \<Longrightarrow> (i, reg) = (k, v) \<or> (i, reg) \<in> set xs" for i reg k v and xs :: "(string \<times> registration) list"
    by (induction xs) (auto split: if_splits)
  ultimately show ?thesis
    using Register by (fastforce simp: backend_ok_def register_def distinct_update)
next
  case (Deregister i)
  assume "backend_ok b"
  then show ?thesis using Deregister
    by (auto simp: backend_ok_def deregister_def AList.delete_eq distinct_map_filter)
next
  case (Cycle env)
  assume "backend_ok b"
  then show ?thesis using Cycle
    by (auto simp: backend_ok_def poll_def Let_def distinct_map intro: inj_on_subset)
qed

lemma merge_alive:
  "distinct (map fst rs) \<Longrightarrow> \<forall>(i, reg) \<in> set rs. ds_id (rn_server reg) = i \<Longrightarrow>
   fst ` set rs \<inter> fst ` set acc = {} \<Longrightarrow>
     fold (\<lambda>s. AList.update (ds_id s) s) (map (rn_server \<circ> snd) rs) acc = acc @ map (\<lambda>(i, reg). (i, rn_server reg)) rs"
proof (induction rs arbitrary: acc)
  case (Cons r rs)
  obtain i reg where r: "r = (i, reg)" by force
  have "AList.update i (rn_server reg) acc = acc @ [(i, rn_server reg)]"
    using Cons.prems(3) r by (induction acc) auto
  with Cons.IH [of "acc @ [(i, rn_server reg)]"] Cons.prems r show ?case by (auto simp: image_iff)
qed simp

text \<open>C30. Whatever servers announce, withdraw or stop announcing themselves, and however often the
  manager reconciles, a statically configured server keeps its entry in the registry: it is
  neither removed nor replaced nor redirected.\<close>

theorem discovery_keeps_static_servers:
  assumes "discovery_ok static m" "\<forall>env. Cycle env \<in> set events \<longrightarrow> de_static env = static" "i \<in> set static"
  shows "map_of (rg_servers (dm_registry (snd (fold discovery_step events (b, m))))) i =
         map_of (rg_servers (dm_registry m)) i"
  using assms
proof (induction events arbitrary: b m)
  case (Cons ev events)
  obtain b1 m1 where s: "discovery_step ev (b, m) = (b1, m1)" by force
  have "discovery_ok static m1 \<and> map_of (rg_servers (dm_registry m1)) i = map_of (rg_servers (dm_registry m)) i"
  proof (cases ev)
    case (Cycle env)
    then have st: "de_static env = static" using Cons.prems(2) by auto
    show ?thesis
      using reconcile_effect(1,3) [of env m] Cons.prems(1,3) s Cycle st by (auto simp: Let_def split: prod.splits)
  qed (use Cons.prems(1) s in auto)
  with Cons.IH [of m1 b1] Cons.prems s show ?case by simp
qed simp

text \<open>After a cycle the manager manages exactly the fresh announcements that are not static and
  that it managed before or could add: a server that stops announcing itself leaves with the
  first cycle after its timeout.\<close>

theorem cycle_manages_fresh_servers:
  assumes "discovery_ok (de_static env) m" "backend_ok b"
    and "\<forall>(i, reg) \<in> set (hb_registrations b). transport_of (rn_server reg) \<noteq> None"
  shows "set (dm_managed (snd (discovery_step (Cycle env) (b, m)))) =
         fresh b (de_now env) \<inter> (set (dm_managed m) \<union> - (set (de_static env) \<union> registered (dm_registry m)))"
proof -
  let ?servers = "fst (poll (de_now env) b)"
  let ?found = "merge_discovered [Some ?servers]"
  let ?alive = "filter (\<lambda>(i, reg). \<not> is_stale b (de_now env) reg) (hb_registrations b)"
  have "distinct (map fst ?alive)" using assms(2) by (simp add: backend_ok_def distinct_map_filter)
  moreover have "\<forall>(i, reg) \<in> set ?alive. ds_id (rn_server reg) = i" using assms(2) by (auto simp: backend_ok_def)
  ultimately have found: "?found = map (\<lambda>(i, reg). (i, rn_server reg)) ?alive"
    using merge_alive [of ?alive "[]"] by (simp add: merge_discovered_def poll_def Let_def)
  have mem: "(i, reg) \<in> set (hb_registrations b) \<longleftrightarrow> map_of (hb_registrations b) i = Some reg" for i reg
    using assms(2) by (simp add: backend_ok_def)
  have alive: "i \<in> fresh b (de_now env) \<longleftrightarrow> (\<exists>reg. (i, reg) \<in> set ?alive)" for i
    by (auto simp: fresh_def is_stale_def mem)
  have keys: "set (map_keys ?found) = fresh b (de_now env)"
    unfolding found by (auto simp: alive image_iff Bex_def)
  have "addable env m e \<longleftrightarrow> fst e \<notin> set (de_static env) \<union> set (dm_managed m) \<union> registered (dm_registry m)"
    if "e \<in> set ?found" for e
    using that assms(3) unfolding found by (auto simp: addable_def)
  then have "filter (addable env m) ?found =
      filter (\<lambda>e. fst e \<notin> set (de_static env) \<union> set (dm_managed m) \<union> registered (dm_registry m)) ?found"
    by (rule filter_cong [OF refl])
  then have add: "fst ` set (filter (addable env m) ?found) =
      set (map_keys ?found) - (set (de_static env) \<union> set (dm_managed m) \<union> registered (dm_registry m))"
    by auto
  have "snd (discovery_step (Cycle env) (b, m)) = snd (reconcile env [Some ?servers] m)"
    by (simp add: Let_def split: prod.splits)
  with reconcile_effect(2) [OF assms(1), of "[Some ?servers]", unfolded add keys]
  show ?thesis by auto
qed

text \<open>A server that announces itself again under another URL keeps its former one.\<close>

lemma managed_url_is_kept:
  "i \<in> set (dm_managed m) \<Longrightarrow> add_discovered env (i, d) (added, m) = (added, m)"
  by (simp add: add_discovered_def)

subsection \<open>A cycle on which the theorems hold\<close>

definition demo_cycle :: "timestamp \<Rightarrow> discovery_env" where
  "demo_cycle now =
     \<lparr>de_static = [''crm''],
      de_config = \<lparr>rc_strategy = Prefixed,
        rc_health = \<lparr>hc_enabled = False, hc_interval_seconds = 30, hc_timeout_ms = 5000, hc_unhealthy_threshold = 3,
                     hc_healthy_threshold = 1\<rparr>,
        rc_breaker = None\<rparr>,
      de_reply = (\<lambda>_. ReplyThrew), de_now = now\<rparr>"

definition announced :: "string \<Rightarrow> discovered_server" where
  "announced i = \<lparr>ds_id = i, ds_url = ''http://'' @ i, ds_transport = None\<rparr>"

definition demo_backend :: http_registry where
  "demo_backend =
     \<lparr>hb_registrations =
        [(''a'', \<lparr>rn_server = announced ''a'', rn_lastSeen = 0\<rparr>), (''b'', \<lparr>rn_server = announced ''b'', rn_lastSeen = 90\<rparr>),
         (''crm'', \<lparr>rn_server = announced ''crm'', rn_lastSeen = 95\<rparr>)],
      hb_staleTimeoutMs = 50\<rparr>"

definition demo_manager :: discovery where
  "demo_manager =
     \<lparr>dm_managed = [],
      dm_registry = new_registry (de_config (demo_cycle 0)) [\<lparr>sc_id = ''crm'', sc_url = ''http://c'', sc_replicas = None, sc_transport = None\<rparr>] [''crm'']\<rparr>"

lemma demo_manager_facts:
  "discovery_ok [''crm''] demo_manager" "registered (dm_registry demo_manager) = {''crm''}"
  by (simp_all add: discovery_ok_def demo_manager_def registered_def new_registry_def)

lemma cycle_manages_fresh_servers_witness:
  "set (dm_managed (snd (discovery_step (Cycle (demo_cycle 100)) (demo_backend, demo_manager)))) = {''b''}"
proof -
  have "backend_ok demo_backend" by (simp add: backend_ok_def demo_backend_def announced_def)
  moreover have "\<forall>(i, reg) \<in> set (hb_registrations demo_backend). transport_of (rn_server reg) \<noteq> None"
    by (simp add: demo_backend_def transport_of_def announced_def)
  moreover have "discovery_ok (de_static (demo_cycle 100)) demo_manager"
    using demo_manager_facts(1) by (simp add: demo_cycle_def)
  moreover have "fresh demo_backend 100 = {''b'', ''crm''}"
    by (auto simp: fresh_def demo_backend_def split: if_splits)
  ultimately show ?thesis
    using cycle_manages_fresh_servers [of "demo_cycle 100" demo_manager demo_backend] demo_manager_facts(2)
    by (auto simp: demo_cycle_def demo_manager_def simp del: discovery_step.simps)
qed

lemma discovery_keeps_static_servers_witness:
  "map_of (rg_servers (dm_registry (snd (fold discovery_step
      [Register 5 (announced ''crm''), Cycle (demo_cycle 6), Deregister ''crm'', Cycle (demo_cycle 7)]
      (demo_backend, demo_manager))))) ''crm'' =
   map_of (rg_servers (dm_registry demo_manager)) ''crm''"
  by (rule discovery_keeps_static_servers [OF demo_manager_facts(1)]) (auto simp: demo_cycle_def)

end
