(* ===== verification/Redaction.thy ===== *)
theory Redaction
  imports Dynamic
begin

section \<open>Redaction of logged values and the guard of system paths\<close>

text \<open>
  \<open>observability/redactor.ts\<close> masks the fields whose name is sensitive, at every depth, before
  the arguments of a call are logged.  The theorem is one of non-interference: what is logged
  does not depend on the values of sensitive fields.  The second part is
  \<open>utils/path-guard.ts\<close>, over a parameter for \<open>path.resolve\<close>.
\<close>

subsection \<open>redactor.ts\<close>

definition REDACTED_VALUE :: string where
  "REDACTED_VALUE = ''[REDACTED]''"

definition is_upper :: "char \<Rightarrow> bool" where
  "is_upper c = (let n = (of_char c :: nat) in 65 \<le> n \<and> n \<le> 90)"

definition is_lower :: "char \<Rightarrow> bool" where
  "is_lower c = (let n = (of_char c :: nat) in 97 \<le> n \<and> n \<le> 122)"

text \<open>The split before an upper-case letter that follows a lower-case one.\<close>

fun split_camel :: "string \<Rightarrow> string \<Rightarrow> string list" where
  "split_camel part [] = [part]"
| "split_camel part [c] = [part @ [c]]"
| "split_camel part (c # d # cs) =
     (if is_lower c \<and> is_upper d then (part @ [c]) # split_camel [] (d # cs)
      else split_camel (part @ [c]) (d # cs))"

fun split_separators :: "string \<Rightarrow> string \<Rightarrow> string list" where
  "split_separators part [] = [part]"
| "split_separators part (c # cs) =
     (if c = CHR ''_'' \<or> c = CHR ''-'' then part # split_separators [] cs
      else split_separators (part @ [c]) cs)"

definition splitIntoSegments :: "string \<Rightarrow> string list" where
  "splitIntoSegments name =
     filter (\<lambda>s. s \<noteq> []) (map to_lower (concat (map (split_camel []) (split_separators [] name))))"

text \<open>First pass: the sensitive segments as a run of the segments of the field.\<close>

definition segments_match :: "string list \<Rightarrow> string list \<Rightarrow> bool" where
  "segments_match fs sensitive \<longleftrightarrow>
     list_ex (\<lambda>i. take (length sensitive) (drop i fs) = sensitive) [0..<length fs - length sensitive + 1]"

text \<open>
  Second pass: a run of segments whose concatenation is the sensitive word; the inner loop
  stops when the concatenation is too long.
\<close>

fun concat_loop :: "string \<Rightarrow> string \<Rightarrow> string list \<Rightarrow> bool" where
  "concat_loop joined acc [] = False"
| "concat_loop joined acc (s # ss) =
     (let t = acc @ s
      in if t = joined then True else if length t > length joined then False else concat_loop joined t ss)"

definition concat_match :: "string list \<Rightarrow> string \<Rightarrow> bool" where
  "concat_match fs joined \<longleftrightarrow> list_ex (\<lambda>i. concat_loop joined [] (drop i fs)) [0..<length fs]"

definition isSensitiveField :: "string \<Rightarrow> string list \<Rightarrow> bool" where
  "isSensitiveField fieldName sensitiveFields =
     (let fieldSegments = splitIntoSegments fieldName
      in list_ex (\<lambda>sensitive.
             let sensitiveSegments = splitIntoSegments sensitive
             in if length sensitiveSegments = 0 then False
                else if length sensitiveSegments > length fieldSegments then False
                else segments_match fieldSegments sensitiveSegments \<or>
                     concat_match fieldSegments (concat sensitiveSegments))
           sensitiveFields)"

primrec redact :: "string list \<Rightarrow> json \<Rightarrow> json" where
  "redact fields JUndef = JUndef"
| "redact fields JNull = JNull"
| "redact fields (JBool b) = JBool b"
| "redact fields (JNum n) = JNum n"
| "redact fields (JStr s) = JStr s"
| "redact fields (JArr xs) = JArr (map (redact fields) xs)"
| "redact fields (JObj ps) =
     JObj (obj_build (map (\<lambda>(k, r). (k, if isSensitiveField k fields then JStr REDACTED_VALUE else r))
                        (map (map_prod id (redact fields)) ps)))"
| "redact fields (JBuiltin f) = JBuiltin f"
| "redact fields JNaN = JNaN"

text \<open>What the logger records of the arguments of a call (\<open>observability/logger.ts\<close>).\<close>

definition logged_args :: "bool \<Rightarrow> string list \<Rightarrow> json \<Rightarrow> json option" where
  "logged_args logArgs redactFields args =
     (if logArgs \<and> args \<noteq> JUndef then Some (redact redactFields (sanitizeArgs 500 args)) else None)"

subsection \<open>path-guard.ts\<close>

definition UNIX_BLOCKED_PREFIXES :: "string list" where
  "UNIX_BLOCKED_PREFIXES =
     [''/etc/'', ''/etc'', ''/root/'', ''/root'', ''/proc/'', ''/proc'', ''/sys/'', ''/sys'', ''/dev/'', ''/dev'',
      ''/boot/'', ''/boot'', ''/var/log/'', ''/var/run/'']"

definition backslash :: string where
  "backslash = [CHR 0x5C]"

definition WINDOWS_BLOCKED_PREFIXES :: "string list" where
  "WINDOWS_BLOCKED_PREFIXES =
     [''c:'' @ backslash @ ''windows'' @ backslash, ''c:'' @ backslash @ ''windows'',
      ''c:'' @ backslash @ ''program files'' @ backslash, ''c:'' @ backslash @ ''program files'',
      ''c:'' @ backslash @ ''program files (x86)'' @ backslash,
      ''c:'' @ backslash @ ''programdata'' @ backslash, ''c:'' @ backslash @ ''programdata'',
      ''c:'' @ backslash @ ''system volume information'' @ backslash]"

definition starts_with :: "string \<Rightarrow> string \<Rightarrow> bool" where
  "starts_with s pre \<longleftrightarrow> take (length pre) s = pre"

definition path_blocked :: "string \<Rightarrow> string \<Rightarrow> bool" where
  "path_blocked normalized pre \<longleftrightarrow>
     normalized = pre \<or>
     starts_with normalized
       (if pre \<noteq> [] \<and> (last pre = CHR ''/'' \<or> last pre = CHR 0x5C) then pre else pre @ ''/'')"

text \<open>The resolved path, or the text of the error.\<close>

definition assertSafeSystemPath :: "(string \<Rightarrow> string) \<Rightarrow> bool \<Rightarrow> string \<Rightarrow> string \<Rightarrow> string + string" where
  "assertSafeSystemPath resolve win32 path label =
     (let absolute = resolve path; normalized = to_lower (resolve absolute);
          blocked = (if win32 then WINDOWS_BLOCKED_PREFIXES else UNIX_BLOCKED_PREFIXES)
      in if list_ex (path_blocked normalized) blocked
         then Inl (label @ '' \"'' @ path @ ''\" resolves to a restricted system directory ('' @ absolute @ '').'')
         else Inr absolute)"

subsection \<open>What is logged does not depend on sensitive fields\<close>

text \<open>
  Two values are alike when they have the same shape and differ only in the values of
  sensitive fields.
\<close>

inductive alike :: "string list \<Rightarrow> json \<Rightarrow> json \<Rightarrow> bool" for fields where
  leaf: "alike fields v v"
| arr: "length xs = length ys \<Longrightarrow> (\<And>i. i < length xs \<Longrightarrow> alike fields (xs ! i) (ys ! i)) \<Longrightarrow>
     alike fields (JArr xs) (JArr ys)"
| obj: "map fst ps = map fst qs \<Longrightarrow>
     (\<And>i. i < length ps \<Longrightarrow> \<not> isSensitiveField (fst (ps ! i)) fields \<Longrightarrow>
        alike fields (snd (ps ! i)) (snd (qs ! i))) \<Longrightarrow>
     alike fields (JObj ps) (JObj qs)"

lemma redact_alike: "alike fields v w \<Longrightarrow> redact fields v = redact fields w"
proof (induction rule: alike.induct)
  case (arr xs ys)
  then show ?case by (auto intro: nth_equalityI)
next
  case (obj ps qs)
  have len: "length ps = length qs" using obj(1) by (rule map_eq_imp_length_eq)
  have "fst (ps ! i) = fst (qs ! i)" if "i < length ps" for i
    using obj(1) that len by (metis nth_map)
  then have "map (\<lambda>(k, r). (k, if isSensitiveField k fields then JStr REDACTED_VALUE else r))
      (map (map_prod id (redact fields)) ps) =
    map (\<lambda>(k, r). (k, if isSensitiveField k fields then JStr REDACTED_VALUE else r))
      (map (map_prod id (redact fields)) qs)"
    using obj len by (intro nth_equalityI) (auto simp: case_prod_beta)
  then show ?case by (simp only: redact.simps)
qed simp

text \<open>Building an object commutes with a function of the values and their keys.\<close>

definition map_entries :: "(string \<Rightarrow> 'v \<Rightarrow> 'w) \<Rightarrow> (string \<times> 'v) list \<Rightarrow> (string \<times> 'w) list" where
  "map_entries f ps = map (\<lambda>(k, v). (k, f k v)) ps"

lemma map_entries_keys [simp]: "map fst (map_entries f ps) = map fst ps"
  by (induction ps) (auto simp: map_entries_def)

lemma map_entries_place: "map_entries f (obj_place k v ps) = obj_place k (f k v) (map_entries f ps)"
  by (induction k v ps rule: obj_place.induct) (auto simp: map_entries_def split: option.splits)

lemma map_entries_update: "map_entries f (AList.update k v ps) = AList.update k (f k v) (map_entries f ps)"
  by (induction ps) (auto simp: map_entries_def)

lemma map_entries_has: "map_of (map_entries f ps) k = None \<longleftrightarrow> map_of ps k = None"
  by (simp add: map_of_eq_None_iff flip: set_map del: set_map)

lemma map_entries_assign: "map_entries f (obj_assign k v ps) = obj_assign k (f k v) (map_entries f ps)"
  by (simp add: obj_assign_def obj_insert_def map_entries_place map_entries_update map_entries_has)

lemma map_entries_build: "map_entries f (obj_build es) = obj_build (map_entries f es)"
proof -
  have "map_entries f (fold (\<lambda>(k, v). obj_assign k v) es acc) =
        fold (\<lambda>(k, v). obj_assign k v) (map_entries f es) (map_entries f acc)" for acc
    by (induction es arbitrary: acc) (auto simp: map_entries_assign, auto simp: map_entries_def)
  from this [of "[]"] show ?thesis by (simp add: obj_build_def) (simp add: map_entries_def)
qed

definition mask :: "string list \<Rightarrow> string \<Rightarrow> json \<Rightarrow> json" where
  "mask fields k v = (if isSensitiveField k fields then JStr REDACTED_VALUE else redact fields v)"

lemma redact_obj: "redact fields (JObj ps) = JObj (obj_build (map_entries (mask fields) ps))"
  by (simp add: map_entries_def mask_def comp_def case_prod_unfold map_prod_def cong: if_cong)

lemma sanitize_obj: "sanitizeArgs n (JObj ps) = JObj (obj_build (map_entries (\<lambda>k. sanitizeArgs n) ps))"
  by (simp add: map_entries_def comp_def case_prod_beta map_prod_def)

lemma map_entries_twice: "map_entries f (map_entries g ps) = map_entries (\<lambda>k v. f k (g k v)) ps"
  by (simp add: map_entries_def case_prod_beta comp_def)

declare redact.simps(7) [simp del] sanitizeArgs.simps(7) [simp del]

lemma logged_alike: "alike fields v w \<Longrightarrow> redact fields (sanitizeArgs n v) = redact fields (sanitizeArgs n w)"
proof (induction rule: alike.induct)
  case (arr xs ys)
  then show ?case by (auto intro: nth_equalityI)
next
  case (obj ps qs)
  have len: "length ps = length qs" using obj(1) by (rule map_eq_imp_length_eq)
  have "fst (ps ! i) = fst (qs ! i)" if "i < length ps" for i
    using obj(1) that len by (metis nth_map)
  then have "map_entries (\<lambda>k v. mask fields k (sanitizeArgs n v)) ps =
             map_entries (\<lambda>k v. mask fields k (sanitizeArgs n v)) qs"
    using obj len unfolding map_entries_def
    by (intro nth_equalityI) (auto simp: case_prod_beta mask_def)
  then show ?case by (simp add: sanitize_obj redact_obj map_entries_build map_entries_twice)
qed simp

text \<open>C29. What the logger records of the arguments of a call does not depend on the values of
  sensitive fields, at whatever depth they are: two calls whose arguments differ only there leave
  the same log entry.\<close>

theorem sensitive_values_are_not_logged:
  assumes "alike fields v w" "v \<noteq> JUndef" "w \<noteq> JUndef"
  shows "logged_args logArgs fields v = logged_args logArgs fields w"
  using logged_alike [OF assms(1)] assms(2,3) by (simp add: logged_args_def)

lemma sensitive_values_are_not_logged_witness:
  "logged_args True [''password''] (JObj [(''user'', JStr ''bob''), (''userPassword'', JStr ''abc'')]) =
   logged_args True [''password''] (JObj [(''user'', JStr ''bob''), (''userPassword'', JNum 7)])"
proof (rule sensitive_values_are_not_logged)
  have s: "isSensitiveField ''userPassword'' [''password'']" by code_simp
  show "alike [''password''] (JObj [(''user'', JStr ''bob''), (''userPassword'', JStr ''abc'')])
     (JObj [(''user'', JStr ''bob''), (''userPassword'', JNum 7)])"
    by (rule alike.obj) (auto simp: s less_Suc_eq nth_Cons' intro: alike.leaf)
qed simp_all

text \<open>
  A name whose words are not separated by an underscore, a dash or a change from lower to upper
  case is one segment: a sensitive word inside it is not found.
\<close>

lemma acronym_hides_a_sensitive_word:
  "\<not> isSensitiveField ''JWTToken'' [''token''] \<and> \<not> isSensitiveField ''auth.token'' [''token''] \<and>
   \<not> isSensitiveField ''apikey'' [''api_key''] \<and> isSensitiveField ''jwtToken'' [''token'']"
  by code_simp

text \<open>The first pass is subsumed by the second.\<close>

lemma concat_loop_run:
  "(\<exists>n. 0 < n \<and> n \<le> length ss \<and> acc @ concat (take n ss) = joined) \<Longrightarrow> concat_loop joined acc ss"
proof (induction ss arbitrary: acc)
  case (Cons s ss)
  then obtain n where n: "0 < n" "n \<le> Suc (length ss)" "acc @ concat (take n (s # ss)) = joined" by auto
  show ?case
  proof (cases "n = 1")
    case False
    with n have "0 < n - 1 \<and> n - 1 \<le> length ss \<and> (acc @ s) @ concat (take (n - 1) ss) = joined"
      by (auto simp: take_Cons split: nat.splits)
    then have "concat_loop joined (acc @ s) ss" using Cons.IH [of "acc @ s"] by blast
    moreover have "length (acc @ s) \<le> length joined"
      using n(3) n(1) by (cases n) auto
    ultimately show ?thesis by (simp add: Let_def)
  qed (use n in simp)
qed simp

lemma first_pass_is_redundant:
  assumes "segments_match fs sensitive" "sensitive \<noteq> []" "length sensitive \<le> length fs"
  shows "concat_match fs (concat sensitive)"
proof -
  obtain i where i: "i \<le> length fs - length sensitive" "take (length sensitive) (drop i fs) = sensitive"
    using assms(1) by (auto simp: segments_match_def list_ex_iff less_Suc_eq_le simp del: upt_Suc)
  have "concat_loop (concat sensitive) [] (drop i fs)"
    using i assms(2,3) by (intro concat_loop_run exI [of _ "length sensitive"]) auto
  moreover have "i < length fs" using i assms(2,3) by (cases sensitive) auto
  ultimately show ?thesis by (auto simp: concat_match_def list_ex_iff)
qed

subsection \<open>Paths\<close>

text \<open>The directory of the logs itself passes, everything below it is refused.\<close>

lemma log_directory_is_not_blocked:
  "assertSafeSystemPath (\<lambda>p. p) False ''/var/log'' ''root'' = Inr ''/var/log'' \<and>
   assertSafeSystemPath (\<lambda>p. p) False ''/var/log/x'' ''root'' \<noteq> Inr ''/var/log/x''"
  by code_simp

lemma blocked_below:
  assumes "dir \<in> set UNIX_BLOCKED_PREFIXES" "last dir = CHR ''/''" "take (length dir) (to_lower (resolve (resolve path))) = dir"
  shows "\<exists>message. assertSafeSystemPath resolve False path label = Inl message"
proof -
  have "path_blocked (to_lower (resolve (resolve path))) dir"
    using assms by (auto simp: path_blocked_def starts_with_def UNIX_BLOCKED_PREFIXES_def)
  with assms(1) have "list_ex (path_blocked (to_lower (resolve (resolve path)))) UNIX_BLOCKED_PREFIXES"
    by (auto simp: list_ex_iff)
  then show ?thesis by (simp add: assertSafeSystemPath_def Let_def)
qed

end
