(* ===== verification/Admin.thy ===== *)
theory Admin
  imports Pipeline_Types Gateway Discovery Url_Validator
begin

section \<open>The admin API (src/src/admin/routes.ts)\<close>

text \<open>
  The routes under \<open>/conduit\<close>.  They read and change the very state the request pipeline works
  on: \<open>ad_gateway\<close> is the configuration, whose list of servers the routes extend and shrink,
  \<open>ad_pipeline\<close> the state of the components, \<open>ad_registrations\<close> the HTTP discovery backend where
  the gateway has one.  The router of the framework is a table of methods, patterns and
  handlers, searched in order; a request is given with its path, query, headers (names in
  lower case) and parsed body (\<open>None\<close> where it is not JSON) as the framework reads them.
  A handler that throws answers with status 500.  A response is a status, an object and, where
  the source serialises a value of a component, that value.

  Parameters: the runtime and the callbacks the source is given (\<open>onReload\<close>, the URL parser,
  the resolver, \<open>JSON.parse\<close>), the text of a parsed URL, as it is and with the user \<open>***\<close> and
  no password, how the typed parts of a \<open>ServerConfig\<close> read a body, and
  \<open>ae_other\<close>, the routes of the log store, the metrics, the managed runtime and \<open>connect/\<close>.
\<close>

record admin_request =
  hr_method :: string
  hr_path :: string
  hr_query :: "(string, string) jsmap"
  hr_headers :: "(string, string) jsmap"
  hr_body :: "json option"

datatype payload =
    NoPayload
  | AccountPayload account_row
  | AccountsPayload "account_row list"
  | WorkspacesPayload "(resolved_workspace \<times> nat) list"
  | TemplatesPayload "(string \<times> transport_kind \<times> connected_account_config \<times> forward_mode) list"
  | ServerPreflightPayload "principal option" server_preflight
  | ProfilePreflightPayload "principal option" string string "bool \<times> nat \<times> server_preflight list"
  | ApprovalPayload approval_row
  | ApprovalsPayload "approval_row list"
  | AuditPayload "audit_event list"
  | RolesPayload "role_binding list" "(string \<times> string \<times> workspace_role list) option"
  | QuotaPayload "client_quota list"
  | BucketsPayload "(string \<times> nat \<times> timestamp) list"
  | CircuitsPayload "circuit_breaker_state list"
  | DiscoveredPayload "discovered_server list"
  | InflightPayload "(string \<times> timestamp \<times> int) list"
  | CachePayload cache_stats
  | AclPayload acl_decision
  | GuardrailPayload guardrail_decision
  | ReloadPayload reload_report
  | PagePayload

record admin_response =
  rs_status :: int
  rs_body :: jobject
  rs_payload :: payload

record ('c, 'r, 'b, 'q, 'j, 'p) admin_state =
  ad_gateway :: "('c, 'r, 'b, 'q, 'j, 'p) gateway"
  ad_pipeline :: "('c, 'r, 'b, 'q, 'j, 'p) pipeline_state"
  ad_registrations :: "http_registry option"

type_synonym ('c, 'r, 'b, 'q, 'j, 'p) route_handler =
  "admin_request \<Rightarrow> string list \<Rightarrow> ('c, 'r, 'b, 'q, 'j, 'p) admin_state \<Rightarrow>
   admin_response \<times> ('c, 'r, 'b, 'q, 'j, 'p) admin_state"

record ('c, 'r, 'b, 'q, 'j, 'p) admin_env =
  ae_key :: "string option"
  ae_allow_private :: bool
  ae_parse_url :: "string \<Rightarrow> parsed_url option"
  ae_url_text :: "string \<Rightarrow> string"
  ae_masked_text :: "string \<Rightarrow> string"
  ae_lookup :: "string \<Rightarrow> (string \<times> nat) list option"
  ae_param :: "string \<Rightarrow> string"
  ae_json :: "string \<Rightarrow> json option"
  ae_collate :: "string \<Rightarrow> string \<Rightarrow> bool"
  ae_cache :: "json \<Rightarrow> server_cache_config"
  ae_upstream_auth :: "json \<Rightarrow> upstream_auth_config option"
  ae_tools :: "string \<Rightarrow> list_reply"
  ae_buckets :: "'b \<Rightarrow> (string \<times> nat \<times> timestamp) list"
  ae_db_writable :: bool
  ae_now :: timestamp
  ae_iso :: "timestamp \<Rightarrow> string"
  ae_uuids :: "string \<times> string \<times> string"
  ae_version :: jobject
  ae_reload :: "(('c, 'r, 'b, 'q, 'j, 'p) admin_state \<Rightarrow>
      reload_report option \<times> ('c, 'r, 'b, 'q, 'j, 'p) admin_state) option"
  ae_other :: "admin_request \<Rightarrow> ('c, 'r, 'b, 'q, 'j, 'p) admin_state \<Rightarrow>
      admin_response \<times> ('c, 'r, 'b, 'q, 'j, 'p) admin_state"

definition respond :: "int \<Rightarrow> jobject \<Rightarrow> admin_response" where
  "respond status entries = \<lparr>rs_status = status, rs_body = entries, rs_payload = NoPayload\<rparr>"

definition respond_with :: "int \<Rightarrow> jobject \<Rightarrow> payload \<Rightarrow> admin_response" where
  "respond_with status entries p = \<lparr>rs_status = status, rs_body = entries, rs_payload = p\<rparr>"

definition failure :: "int \<Rightarrow> string \<Rightarrow> admin_response" where
  "failure status message = respond status [(''error'', JStr message)]"

definition crashed :: admin_response where
  "crashed = failure 500 ''Internal Server Error''"

definition stamp :: "('c, 'r, 'b, 'q, 'j, 'p) admin_env \<Rightarrow> json" where
  "stamp env = JStr (ae_iso env (ae_now env))"

text \<open>\<open>query[k]\<close>, and \<open>query[k]\<close> where it is not empty.\<close>

definition query :: "admin_request \<Rightarrow> string \<Rightarrow> string option" where
  "query rq k = map_of (hr_query rq) k"

definition query_given :: "admin_request \<Rightarrow> string \<Rightarrow> string option" where
  "query_given rq k = (case query rq k of Some [] \<Rightarrow> None | v \<Rightarrow> v)"

definition text_field :: "json \<Rightarrow> string \<Rightarrow> string option" where
  "text_field v k = (case field v k of JStr s \<Rightarrow> Some s | _ \<Rightarrow> None)"

subsection \<open>Middleware\<close>

definition verifyAdminKey :: "string \<Rightarrow> string \<Rightarrow> bool" where
  "verifyAdminKey provided expected \<longleftrightarrow> length provided = length expected \<and> provided = expected"

definition public_path :: "string \<Rightarrow> bool" where
  "public_path p \<longleftrightarrow> p = ''/conduit/health'' \<or> p = ''/health'' \<or> p = ''/conduit/dashboard'' \<or>
     starts_with p ''/conduit/dashboard/'' \<or>
     starts_with p ''/conduit/connect/install/bundles/'' \<or> starts_with p ''/connect/install/bundles/'' \<or>
     starts_with p ''/conduit/connect/remote/bundles/'' \<or> starts_with p ''/connect/remote/bundles/''"

definition provided_key :: "admin_request \<Rightarrow> string" where
  "provided_key rq =
     (case map_of (hr_headers rq) ''authorization'' of
        Some h \<Rightarrow> if starts_with h ''Bearer '' then drop 7 h
                  else default_to [] (map_of (hr_headers rq) ''x-admin-key'')
      | None \<Rightarrow> default_to [] (map_of (hr_headers rq) ''x-admin-key''))"

definition admin_guard :: "('c, 'r, 'b, 'q, 'j, 'p) admin_env \<Rightarrow> admin_request \<Rightarrow> admin_response option" where
  "admin_guard env rq =
     (case ae_key env of
        None \<Rightarrow> None
      | Some key \<Rightarrow>
          if key = [] \<or> public_path (hr_path rq) \<or> verifyAdminKey (provided_key rq) key then None
          else Some (failure 401 ''Unauthorized''))"

definition changes_state :: "string \<Rightarrow> bool" where
  "changes_state m \<longleftrightarrow> map upper_char m \<in> {''POST'', ''PUT'', ''DELETE''}"

definition csrf_guard :: "admin_request \<Rightarrow> admin_response option" where
  "csrf_guard rq =
     (if \<not> changes_state (hr_method rq) then None
      else case map_of (hr_headers rq) ''x-conduit-admin'' of
             None \<Rightarrow> Some (failure 403 ''Missing X-Conduit-Admin header (CSRF protection)'')
           | Some v \<Rightarrow>
               if v = [] then Some (failure 403 ''Missing X-Conduit-Admin header (CSRF protection)'')
               else if to_lower (trim v) \<in> {''1'', ''true''} then None
               else Some (failure 403 (''Invalid X-Conduit-Admin header value (expected '' @ quoted ''1'' @ '' or '' @
                            quoted ''true'' @ '')'')))"

subsection \<open>Servers\<close>

text \<open>
  \<open>validateServerUrlWithDns\<close> on a value that may be missing or not a text; a URL that does not
  apply is not examined.
\<close>

definition url_refused :: "('c, 'r, 'b, 'q, 'j, 'p) admin_env \<Rightarrow> json \<Rightarrow> string option" where
  "url_refused env body =
     (if truthy (field body ''url'') \<and> field body ''transport'' \<noteq> JStr ''stdio''
      then (case validateServerUrlWithDns (ae_parse_url env) (ae_lookup env) (js_string (field body ''url''))
                   (ae_allow_private env) of
              Invalid e \<Rightarrow> Some e | Valid _ \<Rightarrow> None)
      else None)"

definition gateway_server_of :: "('c, 'r, 'b, 'q, 'j, 'p) admin_env \<Rightarrow> json \<Rightarrow> gateway_server" where
  "gateway_server_of env body = server_config.extend (server_of body)
     (gateway_server.fields (ae_cache env (field body ''cache'')) (ae_upstream_auth env (field body ''upstream_auth''))
        (case field body ''forward_authorization'' of JBool b \<Rightarrow> Some b | _ \<Rightarrow> None))"

definition registry_cfg :: "('c, 'r, 'b, 'q, 'j, 'p) admin_state \<Rightarrow> registry_config" where
  "registry_cfg s = ro_registry (gw_router (ad_gateway s))"

definition with_registry ::
  "registry \<Rightarrow> ('c, 'r, 'b, 'q, 'j, 'p) admin_state \<Rightarrow> ('c, 'r, 'b, 'q, 'j, 'p) admin_state" where
  "with_registry reg s = s\<lparr>ad_pipeline := (ad_pipeline s)\<lparr>ps_registry := reg\<rparr>\<rparr>"

definition with_servers ::
  "gateway_server list \<Rightarrow> ('c, 'r, 'b, 'q, 'j, 'p) admin_state \<Rightarrow> ('c, 'r, 'b, 'q, 'j, 'p) admin_state" where
  "with_servers servers s = s\<lparr>ad_gateway := (ad_gateway s)\<lparr>gw_servers := servers\<rparr>\<rparr>"

definition server_info_of :: "string \<Rightarrow> ('c, 'r, 'b, 'q, 'j, 'p) admin_state \<Rightarrow> server_info option" where
  "server_info_of i s = map_of (rg_servers (ps_registry (ad_pipeline s))) i"

text \<open>\<open>findIndex\<close> and \<open>splice\<close>: the first server of the list with the id goes.\<close>

fun splice_server :: "string \<Rightarrow> gateway_server list \<Rightarrow> gateway_server list" where
  "splice_server i [] = []"
| "splice_server i (s # ss) = (if sc_id s = i then ss else s # splice_server i ss)"

definition drop_server ::
  "string \<Rightarrow> ('c, 'r, 'b, 'q, 'j, 'p) admin_state \<Rightarrow> ('c, 'r, 'b, 'q, 'j, 'p) admin_state" where
  "drop_server i s =
     with_servers (splice_server i (gw_servers (ad_gateway s)))
       (with_registry (snd (removeServer (registry_cfg s) i (ps_registry (ad_pipeline s)))) s)"

text \<open>
  \<open>createMcpClient\<close>, \<open>registry.addServer\<close> and \<open>config.servers.push\<close>; \<open>Inl\<close> is the message of
  what they throw.
\<close>

definition install_server ::
  "('c, 'r, 'b, 'q, 'j, 'p) admin_env \<Rightarrow> json \<Rightarrow> ('c, 'r, 'b, 'q, 'j, 'p) admin_state \<Rightarrow>
   string + ('c, 'r, 'b, 'q, 'j, 'p) admin_state" where
  "install_server env body s =
     (case createMcpClient body of
        None \<Rightarrow> Inl (''Transport inconnu '' @ quoted (js_string (field body ''transport'')) @ '' pour le serveur '' @
                     quoted (js_string (field body ''id'')))
      | Some _ \<Rightarrow>
          (case addServer (registry_cfg s) (ae_now env) (ae_now env) (ae_tools env (id_of body)) (server_of body)
                  (ps_registry (ad_pipeline s)) of
             Inl e \<Rightarrow> Inl e
           | Inr reg \<Rightarrow>
               Inr (with_servers (gw_servers (ad_gateway s) @ [gateway_server_of env body]) (with_registry reg s))))"

record import_report =
  im_imported :: "string list"
  im_updated :: "string list"
  im_skipped :: "(string \<times> string) list"

definition import_server ::
  "('c, 'r, 'b, 'q, 'j, 'p) admin_env \<Rightarrow> bool \<Rightarrow> json \<Rightarrow>
   import_report \<times> ('c, 'r, 'b, 'q, 'j, 'p) admin_state \<Rightarrow> import_report \<times> ('c, 'r, 'b, 'q, 'j, 'p) admin_state" where
  "import_server env replace_existing server rs =
     (case rs of (r, s) \<Rightarrow>
       (let i = id_of server; existing = server_info_of i s \<noteq> None;
            skip = (\<lambda>reason. r\<lparr>im_skipped := im_skipped r @ [(i, reason)]\<rparr>)
        in if existing \<and> \<not> replace_existing then (skip ''already exists'', s)
           else case url_refused env server of
                  Some e \<Rightarrow> (skip (''invalid server URL: '' @ e), s)
                | None \<Rightarrow>
                    (let s1 = (if existing then drop_server i s else s)
                     in case install_server env server s1 of
                          Inl e \<Rightarrow> (skip e, s1)
                        | Inr s2 \<Rightarrow>
                            ((if existing then r\<lparr>im_updated := im_updated r @ [i]\<rparr>
                              else r\<lparr>im_imported := im_imported r @ [i]\<rparr>), s2))))"

definition addServersToConduit ::
  "('c, 'r, 'b, 'q, 'j, 'p) admin_env \<Rightarrow> bool \<Rightarrow> json list \<Rightarrow> ('c, 'r, 'b, 'q, 'j, 'p) admin_state \<Rightarrow>
   import_report \<times> ('c, 'r, 'b, 'q, 'j, 'p) admin_state" where
  "addServersToConduit env replace_existing servers s =
     fold (import_server env replace_existing) servers (\<lparr>im_imported = [], im_updated = [], im_skipped = []\<rparr>, s)"

text \<open>\<open>if (!body.cache) body.cache = { default_ttl: 0 }\<close>.\<close>

definition with_cache :: "json \<Rightarrow> json" where
  "with_cache body = (if truthy (field body ''cache'') then body
     else put ''cache'' (JObj [(''default_ttl'', JNum 0)]) body)"

definition tools_count :: "string \<Rightarrow> ('c, 'r, 'b, 'q, 'j, 'p) admin_state \<Rightarrow> json" where
  "tools_count i s = JNum (case server_info_of i s of Some info \<Rightarrow> int (length (si_tools info)) | None \<Rightarrow> 0)"

definition post_server :: "('c, 'r, 'b, 'q, 'j, 'p) admin_env \<Rightarrow> ('c, 'r, 'b, 'q, 'j, 'p) route_handler" where
  "post_server env rq ps s =
     (case hr_body rq of
        None \<Rightarrow> (failure 400 ''Invalid JSON body'', s)
      | Some body \<Rightarrow>
          if nullish body then (crashed, s)
          else if \<not> truthy (field body ''id'') \<or> \<not> is_string (field body ''id'')
          then (failure 400 (''Missing or invalid '' @ quoted ''id'' @ '' field''), s)
          else if server_info_of (id_of body) s \<noteq> None
          then (failure 409 (''Server '' @ quoted (id_of body) @ '' already exists''), s)
          else case url_refused env body of
                 Some e \<Rightarrow> (failure 400 (''Invalid server URL: '' @ e), s)
               | None \<Rightarrow>
                   (case install_server env (with_cache body) s of
                      Inl e \<Rightarrow> (failure 500 (''Failed to register server: Error: '' @ e), s)
                    | Inr s' \<Rightarrow>
                        (respond 201 [(''server_id'', JStr (id_of body)), (''tools_count'', tools_count (id_of body) s'),
                                    (''registered_at'', stamp env)], s')))"

definition unknown_server :: "string \<Rightarrow> admin_response" where
  "unknown_server i = failure 404 (''Serveur introuvable : '' @ i)"

definition delete_server :: "('c, 'r, 'b, 'q, 'j, 'p) admin_env \<Rightarrow> ('c, 'r, 'b, 'q, 'j, 'p) route_handler" where
  "delete_server env rq ps s =
     (let i = hd ps
      in if server_info_of i s = None then (unknown_server i, s)
         else (respond 200 [(''server_id'', JStr i), (''removed'', JBool True), (''removed_at'', stamp env)], drop_server i s))"

definition refresh_server :: "('c, 'r, 'b, 'q, 'j, 'p) admin_env \<Rightarrow> ('c, 'r, 'b, 'q, 'j, 'p) route_handler" where
  "refresh_server env rq ps s =
     (let i = hd ps
      in if server_info_of i s = None then (unknown_server i, s)
         else (let s' = with_registry (refreshServer (registry_cfg s) (ae_now env) (ae_now env) (ae_tools env i) i
                                         (ps_registry (ad_pipeline s))) s
               in (respond 200 [(''server_id'', JStr i), (''tools_count'', tools_count i s'), (''refreshed_at'', stamp env)], s')))"

text \<open>\<open>redactUrl\<close>; the replacement of a text that is no URL is the first match of the source's pattern.\<close>

fun mask_userinfo :: "string \<Rightarrow> string" where
  "mask_userinfo [] = []"
| "mask_userinfo (c # cs) =
     (let rest = drop 3 (c # cs); user = takeWhile (\<lambda>d. d \<noteq> CHR ''@'') rest
      in if starts_with (c # cs) ''://'' \<and> user \<noteq> [] \<and> length user < length rest
         then ''://***'' @ drop (length user) rest
         else c # mask_userinfo cs)"

definition redactUrl :: "('c, 'r, 'b, 'q, 'j, 'p) admin_env \<Rightarrow> string \<Rightarrow> string" where
  "redactUrl env url =
     (case ae_parse_url env url of
        Some u \<Rightarrow> if pu_password u \<noteq> [] \<or> pu_username u \<noteq> [] then ae_masked_text env url else ae_url_text env url
      | None \<Rightarrow> mask_userinfo url)"

definition health_fields :: "backend_health \<Rightarrow> jobject" where
  "health_fields h = [(''healthy'', JBool (bh_healthy h)), (''latency_ms'', JNum (bh_latencyMs h))]"

definition replica_view :: "('c, 'r, 'b, 'q, 'j, 'p) admin_env \<Rightarrow> nat \<times> replica_info \<Rightarrow> json" where
  "replica_view env r =
     (case r of (idx, r) \<Rightarrow>
       JObj ([(''index'', JNum (int idx)), (''url'', JStr (redactUrl env (rp_url r)))] @ health_fields (rp_health r) @
             [(''active_connections'', JNum (rp_activeConnections r))]))"

definition server_view :: "('c, 'r, 'b, 'q, 'j, 'p) admin_env \<Rightarrow> server_info \<Rightarrow> json" where
  "server_view env info =
     JObj ([(''id'', JStr (sc_id (si_config info))), (''url'', JStr (redactUrl env (sc_url (si_config info))))] @
           health_fields (si_health info) @
           [(''tools_count'', JNum (int (length (si_tools info)))),
            (''tools'', JArr (map (JStr \<circ> tm_name) (si_tools info))),
            (''replicas'', JArr (map (replica_view env) (enumerate 0 (si_replicas info))))])"

definition get_servers :: "('c, 'r, 'b, 'q, 'j, 'p) admin_env \<Rightarrow> ('c, 'r, 'b, 'q, 'j, 'p) route_handler" where
  "get_servers env rq ps s =
     (respond 200 [(''servers'', JArr (map (server_view env \<circ> snd) (rg_servers (ps_registry (ad_pipeline s)))))], s)"

subsection \<open>Probes\<close>

definition backend_view :: "('c, 'r, 'b, 'q, 'j, 'p) admin_env \<Rightarrow> backend_health \<Rightarrow> json" where
  "backend_view env h =
     JObj ([(''id'', JStr (bh_serverId h))] @ health_fields h @
           [(''last_checked'', if bh_lastChecked h > 0 then JStr (ae_iso env (bh_lastChecked h)) else JNull)])"

text \<open>The uptime and the state of a Redis limiter are left out of the answer.\<close>

definition get_health :: "('c, 'r, 'b, 'q, 'j, 'p) admin_env \<Rightarrow> ('c, 'r, 'b, 'q, 'j, 'p) route_handler" where
  "get_health env rq ps s =
     (let backends = getHealthStatus (ps_registry (ad_pipeline s));
          ok = (backends = [] \<or> list_ex bh_healthy backends) \<and> ae_db_writable env
      in (respond (if ok then 200 else 503)
            [(''status'', JStr (if ok then ''ok'' else ''degraded'')), (''db_writable'', JBool (ae_db_writable env)),
             (''backends'', JArr (map (backend_view env) backends))], s))"

definition get_readyz :: "('c, 'r, 'b, 'q, 'j, 'p) admin_env \<Rightarrow> ('c, 'r, 'b, 'q, 'j, 'p) route_handler" where
  "get_readyz env rq ps s =
     (let anyHealthy = list_ex bh_healthy (getHealthStatus (ps_registry (ad_pipeline s)))
      in (if \<not> anyHealthy \<or> \<not> ae_db_writable env
          then (respond 503 [(''ready'', JBool False), (''backends_healthy'', JBool anyHealthy),
                           (''db_writable'', JBool (ae_db_writable env))], s)
          else (respond 200 [(''ready'', JBool True)], s)))"

definition get_version :: "('c, 'r, 'b, 'q, 'j, 'p) admin_env \<Rightarrow> ('c, 'r, 'b, 'q, 'j, 'p) route_handler" where
  "get_version env rq ps s = (respond 200 (ae_version env), s)"

subsection \<open>Identity\<close>

definition identity_rt :: "('c, 'r, 'b, 'q, 'j, 'p) admin_state \<Rightarrow> identity_runtime" where
  "identity_rt s = \<lparr>ir_config = gw_identity (ad_gateway s), ir_store = ps_identity (ad_pipeline s)\<rparr>"

definition default_workspace :: "('c, 'r, 'b, 'q, 'j, 'p) admin_state \<Rightarrow> string option" where
  "default_workspace s =
     (case gw_identity (ad_gateway s) of Some c \<Rightarrow> id_default_workspace_id c | None \<Rightarrow> None)"

text \<open>\<open>IdentityRuntime.listWorkspaces\<close>: each workspace with the number of its accounts in use.\<close>

definition all_accounts :: account_filters where
  "all_accounts = \<lparr>af_workspace_id = None, af_provider = None, af_client_id = None, af_tenant_id = None,
     af_include_revoked = False\<rparr>"

definition account_count :: "identity_runtime \<Rightarrow> string \<Rightarrow> nat" where
  "account_count rt w =
     (case ir_store rt of
        Some st \<Rightarrow> length (filter (\<lambda>a. ar_workspace_id a = w) (listConnectedAccounts all_accounts st))
      | None \<Rightarrow> 0)"

text \<open>The stable sort by \<open>localeCompare\<close>, of which \<open>collate\<close> says whether its result is at most 0.\<close>

fun place_by :: "('a \<Rightarrow> 'a \<Rightarrow> bool) \<Rightarrow> 'a \<Rightarrow> 'a list \<Rightarrow> 'a list" where
  "place_by le x [] = [x]"
| "place_by le x (y # ys) = (if le x y then x # y # ys else y # place_by le x ys)"

definition listWorkspaces ::
  "(string \<Rightarrow> string \<Rightarrow> bool) \<Rightarrow> identity_runtime \<Rightarrow> (resolved_workspace \<times> nat) list" where
  "listWorkspaces collate rt =
     (let configured = map (\<lambda>w. (\<lparr>rw_id = wc_id w, rw_label = default_to (wc_id w) (wc_label w),
              rw_source = SourceMapping, rw_tenant_ids = opt_list (wc_tenant_ids w)\<rparr>, account_count rt (wc_id w)))
            (case ir_config rt of Some c \<Rightarrow> opt_list (id_workspaces c) | None \<Rightarrow> [])
      in foldr (place_by (\<lambda>a b. collate (rw_id (fst a)) (rw_id (fst b))))
           (case (case ir_config rt of Some c \<Rightarrow> id_default_workspace_id c | None \<Rightarrow> None) of
              None \<Rightarrow> configured
            | Some d \<Rightarrow>
                (if d = [] \<or> d \<in> rw_id ` fst ` set configured then configured
                 else configured @ [(\<lparr>rw_id = d, rw_label = d, rw_source = SourceDefault, rw_tenant_ids = []\<rparr>,
                                     account_count rt d)])) [])"

definition listConnectionTemplates ::
  "gateway_server list \<Rightarrow> (string \<times> transport_kind \<times> connected_account_config \<times> forward_mode) list" where
  "listConnectionTemplates servers =
     List.map_filter (\<lambda>server. map_option
        (\<lambda>req. (sc_id server, default_to Http (sc_transport server),
                req\<lparr>cc_binding := Some (default_to BindClientOrWorkspace (cc_binding req)),
                    cc_required := Some (cc_required req \<noteq> Some False),
                    cc_headers := Some (default_to default_header_templates (cc_headers req))\<rparr>,
                forward_mode_of server)) (account_requirement server)) servers"

definition get_identity_settings :: "('c, 'r, 'b, 'q, 'j, 'p) admin_env \<Rightarrow> ('c, 'r, 'b, 'q, 'j, 'p) route_handler" where
  "get_identity_settings env rq ps s =
     (respond_with 200
        [(''enabled'', JBool (identity_enabled (identity_rt s))), (''has_store'', JBool (ps_identity (ad_pipeline s) \<noteq> None)),
         (''db_writable'', JBool (ps_identity (ad_pipeline s) \<noteq> None \<and> ae_db_writable env)),
         (''default_workspace_id'', case default_workspace s of Some d \<Rightarrow> JStr d | None \<Rightarrow> JNull)]
        (WorkspacesPayload (listWorkspaces (ae_collate env) (identity_rt s))), s)"

definition get_identity_workspaces :: "('c, 'r, 'b, 'q, 'j, 'p) admin_env \<Rightarrow> ('c, 'r, 'b, 'q, 'j, 'p) route_handler" where
  "get_identity_workspaces env rq ps s =
     (respond_with 200 [(''enabled'', JBool (identity_enabled (identity_rt s)))]
        (WorkspacesPayload (listWorkspaces (ae_collate env) (identity_rt s))), s)"

definition get_identity_templates :: "('c, 'r, 'b, 'q, 'j, 'p) admin_env \<Rightarrow> ('c, 'r, 'b, 'q, 'j, 'p) route_handler" where
  "get_identity_templates env rq ps s =
     (respond_with 200 [] (TemplatesPayload (listConnectionTemplates (gw_servers (ad_gateway s)))), s)"

definition get_accounts :: "('c, 'r, 'b, 'q, 'j, 'p) admin_env \<Rightarrow> ('c, 'r, 'b, 'q, 'j, 'p) route_handler" where
  "get_accounts env rq ps s =
     (case ps_identity (ad_pipeline s) of
        None \<Rightarrow> (respond_with 200 [(''enabled'', JBool False)] (AccountsPayload []), s)
      | Some st \<Rightarrow>
          (let accounts = listConnectedAccounts
                 \<lparr>af_workspace_id = query_given rq ''workspace_id'', af_provider = query_given rq ''provider'',
                  af_client_id = query_given rq ''client_id'', af_tenant_id = query_given rq ''tenant_id'',
                  af_include_revoked = (query rq ''include_revoked'' = Some ''true'')\<rparr> st
           in (respond_with 200 [(''enabled'', JBool True), (''count'', JNum (int (length accounts)))]
                 (AccountsPayload accounts), s)))"

text \<open>\<open>String(body[k] ?? '')\<close>.\<close>

definition string_or_empty :: "json \<Rightarrow> string \<Rightarrow> string" where
  "string_or_empty body k = js_string (or_else (field body k) (JStr []))"

definition account_workspace :: "json \<Rightarrow> ('c, 'r, 'b, 'q, 'j, 'p) admin_state \<Rightarrow> string" where
  "account_workspace body s =
     (case text_field body ''workspace_id'' of
        Some w \<Rightarrow> w
      | None \<Rightarrow> (case text_field body ''tenant_id'' of
                  Some t \<Rightarrow> rw_id (resolveWorkspace (gw_identity (ad_gateway s)) t)
                | None \<Rightarrow> default_to ''default'' (default_workspace s)))"

definition account_body :: "json \<Rightarrow> ('c, 'r, 'b, 'q, 'j, 'p) admin_state \<Rightarrow> create_account_input" where
  "account_body body s =
     \<lparr>ci_workspace_id = account_workspace body s, ci_provider = string_or_empty body ''provider'',
      ci_client_id = text_field body ''client_id'', ci_tenant_id = text_field body ''tenant_id'',
      ci_label = text_field body ''label'', ci_access_token = string_or_empty body ''access_token'',
      ci_refresh_token = text_field body ''refresh_token'', ci_token_type = text_field body ''token_type'',
      ci_metadata = (case field body ''metadata'' of JObj m \<Rightarrow> Some m | _ \<Rightarrow> None),
      ci_replace_existing = (field body ''replace_existing'' \<noteq> JUndef \<and> field body ''replace_existing'' \<noteq> JBool False)\<rparr>"

definition with_identity ::
  "identity_store \<Rightarrow> ('c, 'r, 'b, 'q, 'j, 'p) admin_state \<Rightarrow> ('c, 'r, 'b, 'q, 'j, 'p) admin_state" where
  "with_identity st s = s\<lparr>ad_pipeline := (ad_pipeline s)\<lparr>ps_identity := Some st\<rparr>\<rparr>"

definition post_account :: "('c, 'r, 'b, 'q, 'j, 'p) admin_env \<Rightarrow> ('c, 'r, 'b, 'q, 'j, 'p) route_handler" where
  "post_account env rq ps s =
     (case ps_identity (ad_pipeline s) of
        None \<Rightarrow> (failure 400 ''Identity plane is disabled'', s)
      | Some st \<Rightarrow>
          if \<not> identity_enabled (identity_rt s) then (failure 400 ''Identity plane is disabled'', s)
          else case hr_body rq of
                 None \<Rightarrow> (failure 400 ''Invalid JSON body'', s)
               | Some body \<Rightarrow>
                   if nullish body then (crashed, s)
                   else case createConnectedAccount (ae_now env) (ae_uuids env) (account_body body s) st of
                          (Inl e, st') \<Rightarrow> (failure 400 e, with_identity st' s)
                        | (Inr row, st') \<Rightarrow> (respond_with 201 [] (AccountPayload row), with_identity st' s))"

definition revoke_account :: "('c, 'r, 'b, 'q, 'j, 'p) admin_env \<Rightarrow> ('c, 'r, 'b, 'q, 'j, 'p) route_handler" where
  "revoke_account env rq ps s =
     (case ps_identity (ad_pipeline s) of
        None \<Rightarrow> (failure 400 ''Identity plane is disabled'', s)
      | Some st \<Rightarrow>
          (case revokeConnectedAccount (ae_now env) (hd ps) st of
             (None, st') \<Rightarrow> (failure 404 (''Connected account '' @ quoted (hd ps) @ '' not found''), with_identity st' s)
           | (Some row, st') \<Rightarrow>
               (respond_with 200 [(''revoked'', JBool True)] (AccountPayload row), with_identity st' s)))"

text \<open>\<open>Inl\<close> when only one of the two is given.\<close>

definition normalizePreflightPrincipal :: "admin_request \<Rightarrow> string + principal option" where
  "normalizePreflightPrincipal rq =
     (case (trimmed (query rq ''client_id''), trimmed (query rq ''tenant_id'')) of
        (Some c, Some t) \<Rightarrow> Inr (Some \<lparr>pr_client_id = c, pr_tenant_id = t, pr_auth_header = None, pr_claims = None\<rparr>)
      | (None, None) \<Rightarrow> Inr None
      | _ \<Rightarrow> Inl ''client_id and tenant_id must be provided together'')"

definition preflight_server :: "('c, 'r, 'b, 'q, 'j, 'p) admin_env \<Rightarrow> ('c, 'r, 'b, 'q, 'j, 'p) route_handler" where
  "preflight_server env rq ps s =
     (case normalizePreflightPrincipal rq of
        Inl e \<Rightarrow> (failure 400 e, s)
      | Inr p \<Rightarrow>
          (case List.find (\<lambda>c. sc_id c = hd ps) (gw_servers (ad_gateway s)) of
             None \<Rightarrow> (failure 404 (''Unknown server '' @ quoted (hd ps)), s)
           | Some server \<Rightarrow>
               (case getServerPreflight (identity_rt s) server p of
                  Inl e \<Rightarrow> (failure 404 e, s)
                | Inr r \<Rightarrow>
                    (respond_with 200 [(''enabled'', JBool (identity_enabled (identity_rt s)))]
                       (ServerPreflightPayload p r), s))))"

definition preflight_profile :: "('c, 'r, 'b, 'q, 'j, 'p) admin_env \<Rightarrow> ('c, 'r, 'b, 'q, 'j, 'p) route_handler" where
  "preflight_profile env rq ps s =
     (case normalizePreflightPrincipal rq of
        Inl e \<Rightarrow> (failure 400 e, s)
      | Inr p \<Rightarrow>
          (case resolveConnectProfile (gw_servers (ad_gateway s)) (gw_profiles (ad_gateway s)) (hd ps) of
             Inl e \<Rightarrow> (failure 404 e, s)
           | Inr profile \<Rightarrow>
               (case getProfilePreflight (identity_rt s) (cp_servers profile) p of
                  Inl e \<Rightarrow> (failure 404 e, s)
                | Inr r \<Rightarrow>
                    (respond_with 200 [(''enabled'', JBool (identity_enabled (identity_rt s)))]
                       (ProfilePreflightPayload p (cp_id profile) (cp_label profile) r), s))))"

subsection \<open>Governance\<close>

definition governance_on :: "('c, 'r, 'b, 'q, 'j, 'p) admin_state \<Rightarrow> bool" where
  "governance_on s = governance_enabled (gw_governance (ad_gateway s)) (ps_governance (ad_pipeline s))"

definition with_governance ::
  "governance_store option \<Rightarrow> ('c, 'r, 'b, 'q, 'j, 'p) admin_state \<Rightarrow> ('c, 'r, 'b, 'q, 'j, 'p) admin_state" where
  "with_governance st s = s\<lparr>ad_pipeline := (ad_pipeline s)\<lparr>ps_governance := st\<rparr>\<rparr>"

definition get_roles :: "('c, 'r, 'b, 'q, 'j, 'p) admin_env \<Rightarrow> ('c, 'r, 'b, 'q, 'j, 'p) route_handler" where
  "get_roles env rq ps s =
     (let config = gw_governance (ad_gateway s); ws = query_given rq ''workspace_id''; client = query_given rq ''client_id''
      in (respond_with 200 [(''enabled'', JBool (governance_on s))]
            (RolesPayload (listRoleBindings config ws)
               (case (ws, client) of
                  (Some w, Some c) \<Rightarrow> Some (w, c, getRolesForClient config w c)
                | _ \<Rightarrow> None)), s))"

text \<open>\<open>GovernanceRuntime.getWorkspaceQuota\<close>: \<open>None\<close> where no quota applies.\<close>

definition getWorkspaceQuota ::
  "'q backend_ops \<Rightarrow> timestamp \<Rightarrow> governance_config option \<Rightarrow> string \<Rightarrow> 'q \<Rightarrow> client_quota list option \<times> 'q" where
  "getWorkspaceQuota be now config ws st =
     (case pickQuotaConfig ws config of
        None \<Rightarrow> (None, st)
      | Some c \<Rightarrow> (case getClientQuota be now (buildQuotaChecks (''workspace:'' @ ws) c) st of
                    (limits, st') \<Rightarrow> (Some limits, st')))"

definition get_workspace_quota :: "('c, 'r, 'b, 'q, 'j, 'p) admin_env \<Rightarrow> ('c, 'r, 'b, 'q, 'j, 'p) route_handler" where
  "get_workspace_quota env rq ps s =
     (if \<not> governance_on s
      then (respond_with 200 [(''workspace_id'', JStr (hd ps)), (''enabled'', JBool False)] (QuotaPayload []), s)
      else case getWorkspaceQuota (en_quota (ad_gateway s)) (ae_now env) (gw_governance (ad_gateway s)) (hd ps)
                  (ps_quota (ad_pipeline s)) of
             (limits, q) \<Rightarrow>
               (respond_with 200 [(''workspace_id'', JStr (hd ps)), (''enabled'', JBool (limits \<noteq> None))]
                  (QuotaPayload (default_to [] limits)),
                s\<lparr>ad_pipeline := (ad_pipeline s)\<lparr>ps_quota := q\<rparr>\<rparr>))"

text \<open>
  \<open>LIMIT\<close> and \<open>OFFSET\<close> from \<open>Number(text)\<close>: SQLite takes a negative limit for none and a negative
  offset for 0, and refuses the NULL that a NaN is bound to (\<open>Inl\<close>, the handler throws).
\<close>

definition page_number :: "admin_request \<Rightarrow> string \<Rightarrow> nat \<Rightarrow> unit + nat option" where
  "page_number rq k negative =
     (case query rq k of
        None \<Rightarrow> Inr None
      | Some t \<Rightarrow> (case to_number (JStr t) of
                    None \<Rightarrow> Inl ()
                  | Some n \<Rightarrow> Inr (Some (if n < 0 then negative else nat n))))"

text \<open>A status or a source that is no name of one selects nothing; an empty one selects everything.\<close>

definition named :: "(string \<times> 'a) list \<Rightarrow> string option \<Rightarrow> 'a option option" where
  "named names t =
     (case t of None \<Rightarrow> Some None | Some [] \<Rightarrow> Some None
      | Some n \<Rightarrow> map_option Some (map_of names n))"

definition status_names :: "(string \<times> approval_status) list" where
  "status_names = map (\<lambda>st. (status_name st, st)) [Pending, Approved, Refused, Expired]"

definition source_names :: "(string \<times> approval_source) list" where
  "source_names = map (\<lambda>src. (source_name src, src)) [FromGuardrail, FromGovernance]"

definition get_approvals :: "('c, 'r, 'b, 'q, 'j, 'p) admin_env \<Rightarrow> ('c, 'r, 'b, 'q, 'j, 'p) route_handler" where
  "get_approvals env rq ps s =
     (if \<not> governance_on s then (respond_with 200 [(''enabled'', JBool False)] (ApprovalsPayload []), s)
      else case ps_governance (ad_pipeline s) of
             None \<Rightarrow> (respond_with 200 [(''enabled'', JBool False)] (ApprovalsPayload []), s)
           | Some st \<Rightarrow>
               (case (page_number rq ''limit'' (length (gv_approvals st)), page_number rq ''offset'' 0) of
                  (Inr lim, Inr off) \<Rightarrow>
                    (case (named status_names (query rq ''status''), named source_names (query rq ''source'')) of
                       (Some status, Some src) \<Rightarrow>
                         (case listApprovalRequests (ae_now env)
                                 \<lparr>lf_workspace_id = query rq ''workspace_id'', lf_status = status,
                                  lf_requester = query rq ''requester_client_id'',
                                  lf_approver = query rq ''approver_client_id'', lf_source = src,
                                  lf_limit = lim, lf_offset = off\<rparr> st of
                            (rows, st') \<Rightarrow>
                              (respond_with 200 [(''enabled'', JBool True), (''count'', JNum (int (length rows)))]
                                 (ApprovalsPayload rows), with_governance (Some st') s))
                     | _ \<Rightarrow> (respond_with 200 [(''enabled'', JBool True), (''count'', JNum 0)] (ApprovalsPayload []),
                             with_governance (Some (pruneExpired (ae_now env) st)) s))
                | _ \<Rightarrow> (crashed, with_governance (Some (pruneExpired (ae_now env) st)) s)))"

text \<open>\<open>GovernanceStore.listAuditEvents\<close>.\<close>

definition outcome_names :: "(string \<times> audit_outcome) list" where
  "outcome_names = [(''success'', AuditSuccess), (''denied'', AuditDenied), (''pending'', AuditPending), (''error'', AuditError)]"

definition listAuditEvents ::
  "string option \<Rightarrow> string option \<Rightarrow> string option \<Rightarrow> audit_outcome option \<Rightarrow> nat option \<Rightarrow> nat option \<Rightarrow>
   governance_store \<Rightarrow> audit_event list" where
  "listAuditEvents ws actor action outc lim off st =
     take (default_to 100 lim) (drop (default_to 0 off)
       (foldr (order_newest ev_timestamp)
          (filter (\<lambda>e. str_filter ws (ev_workspace_id e) \<and> str_filter actor (ev_actor e) \<and>
             str_filter action (Some (ev_action e)) \<and> opt_eq outc (Some (ev_outcome e))) (gv_audit st)) []))"

definition get_audit :: "('c, 'r, 'b, 'q, 'j, 'p) admin_env \<Rightarrow> ('c, 'r, 'b, 'q, 'j, 'p) route_handler" where
  "get_audit env rq ps s =
     (if \<not> governance_on s then (respond_with 200 [(''enabled'', JBool False)] (AuditPayload []), s)
      else case ps_governance (ad_pipeline s) of
             None \<Rightarrow> (respond_with 200 [(''enabled'', JBool False)] (AuditPayload []), s)
           | Some st \<Rightarrow>
               (case (page_number rq ''limit'' (length (gv_audit st)), page_number rq ''offset'' 0) of
                  (Inr lim, Inr off) \<Rightarrow>
                    (let events = (case named outcome_names (query rq ''outcome'') of
                           None \<Rightarrow> []
                         | Some outc \<Rightarrow> listAuditEvents (query rq ''workspace_id'') (query rq ''actor_client_id'')
                                         (query rq ''action'') outc lim off st)
                     in (respond_with 200 [(''enabled'', JBool True), (''count'', JNum (int (length events)))]
                           (AuditPayload events), s))
                | _ \<Rightarrow> (crashed, s)))"

text \<open>
  Where the gateway authenticates its clients, the decision is tied to the caller: \<open>Inl\<close> is the
  error (an empty one is no error to the handler), \<open>Inr None\<close> a gateway without authentication.  The keys a JWKS URL serves are kept.
\<close>

definition resolveApproverPrincipal ::
  "admin_request \<Rightarrow> ('c, 'r, 'b, 'q, 'j, 'p) admin_state \<Rightarrow>
   (string + string option) \<times> ('c, 'r, 'b, 'q, 'j, 'p) admin_state" where
  "resolveApproverPrincipal rq s =
     (case gw_auth (ad_gateway s) of
        None \<Rightarrow> (Inr None, s)
      | Some auth \<Rightarrow>
          if au_method auth = MethodNone then (Inr None, s)
          else case authenticate (en_fetch_jwks (ad_gateway s)) (en_verify (ad_gateway s)) (hr_headers rq) auth
                      (ps_jwks (ad_pipeline s)) of
                 (Authenticated c t claims, jwks) \<Rightarrow>
                   (Inr (Some c), s\<lparr>ad_pipeline := (ad_pipeline s)\<lparr>ps_jwks := jwks\<rparr>\<rparr>)
               | (Rejected e, jwks) \<Rightarrow> (Inl e, s\<lparr>ad_pipeline := (ad_pipeline s)\<lparr>ps_jwks := jwks\<rparr>\<rparr>))"

definition decide_approval :: "bool \<Rightarrow> ('c, 'r, 'b, 'q, 'j, 'p) admin_env \<Rightarrow> ('c, 'r, 'b, 'q, 'j, 'p) route_handler" where
  "decide_approval approve env rq ps s =
     (if \<not> governance_on s then (failure 400 ''Governance plane is disabled'', s)
      else case hr_body rq of
             None \<Rightarrow> (failure 400 ''Invalid JSON body'', s)
           | Some body \<Rightarrow>
               if nullish body then (crashed, s)
               else case text_field body ''approver_client_id'' of
                      None \<Rightarrow> (failure 400 ''approver_client_id is required'', s)
                    | Some approver \<Rightarrow>
                        if approver = [] then (failure 400 ''approver_client_id is required'', s)
                        else (case resolveApproverPrincipal rq s of (who, s1) \<Rightarrow>
                          if isl who \<and> projl who \<noteq> [] then (failure 401 (projl who), s1)
                          else (case decideApproval (ae_now env) (gw_governance (ad_gateway s1)) (hd ps) approver approve
                                       (text_field body ''note'') (case who of Inr c \<Rightarrow> c | Inl e \<Rightarrow> None)
                                       (ps_governance (ad_pipeline s1)) of
                                  (Inl e, st) \<Rightarrow> (failure 400 e, with_governance st s1)
                                | (Inr row, st) \<Rightarrow> (respond_with 200 [] (ApprovalPayload row), with_governance st s1))))"

subsection \<open>Reload, cache, flights\<close>

text \<open>\<open>None\<close> is a reload that throws.\<close>

definition post_reload :: "('c, 'r, 'b, 'q, 'j, 'p) admin_env \<Rightarrow> ('c, 'r, 'b, 'q, 'j, 'p) route_handler" where
  "post_reload env rq ps s =
     (case ae_reload env of
        None \<Rightarrow> (failure 501 ''Reload not available'', s)
      | Some onReload \<Rightarrow>
          (case onReload s of
             (None, s') \<Rightarrow> (crashed, s')
           | (Some r, s') \<Rightarrow>
               (respond_with (if rr_errors r \<noteq> [] then 500 else 200) [(''reloaded_at'', stamp env)] (ReloadPayload r), s')))"

definition get_cache_stats :: "('c, 'r, 'b, 'q, 'j, 'p) admin_env \<Rightarrow> ('c, 'r, 'b, 'q, 'j, 'p) route_handler" where
  "get_cache_stats env rq ps s =
     (respond_with 200
        (case ps_l2 (ad_pipeline s) of
           None \<Rightarrow> []
         | Some l2 \<Rightarrow> [(''hits'', JNum (l2_hits l2)), (''misses'', JNum (l2_misses l2)), (''writes'', JNum (l2_writes l2)),
                       (''writes_coalesced'', JNum (l2_writesCoalesced l2)), (''errors'', JNum (l2_errors l2)),
                       (''connected'', JBool (l2_connected l2))])
        (CachePayload (getStats (en_lru (ad_gateway s)) (ps_l1 (ad_pipeline s)))), s)"

definition flush_l2 :: "('c, 'r, 'b, 'q, 'j, 'p) admin_env \<Rightarrow> ('c, 'r, 'b, 'q, 'j, 'p) route_handler" where
  "flush_l2 env rq ps s =
     (case ps_l2 (ad_pipeline s) of
        None \<Rightarrow> (respond 200 [(''flushed'', JBool False), (''reason'', JStr ''L2 cache not configured'')], s)
      | Some l2 \<Rightarrow>
          (case l2_flush (en_kv (ad_gateway s)) l2 of
             (n, l2') \<Rightarrow>
               (respond 200 [(''flushed'', JBool True), (''deleted_count'', JNum n), (''flushed_at'', stamp env)],
                s\<lparr>ad_pipeline := (ad_pipeline s)\<lparr>ps_l2 := Some l2'\<rparr>\<rparr>)))"

definition with_l1 ::
  "'c cache_store \<Rightarrow> ('c, 'r, 'b, 'q, 'j, 'p) admin_state \<Rightarrow> ('c, 'r, 'b, 'q, 'j, 'p) admin_state" where
  "with_l1 c s = s\<lparr>ad_pipeline := (ad_pipeline s)\<lparr>ps_l1 := c\<rparr>\<rparr>"

definition l1_entries :: "('c, 'r, 'b, 'q, 'j, 'p) admin_state \<Rightarrow> nat" where
  "l1_entries s = length (lru_keys (en_lru (ad_gateway s)) (cs_cache (ps_l1 (ad_pipeline s))))"

definition delete_server_cache :: "('c, 'r, 'b, 'q, 'j, 'p) admin_env \<Rightarrow> ('c, 'r, 'b, 'q, 'j, 'p) route_handler" where
  "delete_server_cache env rq ps s =
     (case deleteByServer (en_lru (ad_gateway s)) (hd ps) (ps_l1 (ad_pipeline s)) of
        (n, c) \<Rightarrow>
          (let s' = with_l1 c s
           in (respond 200 [(''server_id'', JStr (hd ps)), (''deleted_count'', JNum (int n))],
               s'\<lparr>ad_pipeline := emit (CacheEntries (l1_entries s')) (ad_pipeline s')\<rparr>)))"

definition delete_cache_key :: "('c, 'r, 'b, 'q, 'j, 'p) admin_env \<Rightarrow> ('c, 'r, 'b, 'q, 'j, 'p) route_handler" where
  "delete_cache_key env rq ps s =
     (case store_delete (en_lru (ad_gateway s)) (hd ps) (ps_l1 (ad_pipeline s)) of
        (deleted, c) \<Rightarrow> (respond 200 [(''deleted'', JBool deleted), (''key'', JStr (hd ps))], with_l1 c s))"

definition get_inflight :: "('c, 'r, 'b, 'q, 'j, 'p) admin_env \<Rightarrow> ('c, 'r, 'b, 'q, 'j, 'p) route_handler" where
  "get_inflight env rq ps s =
     (let snapshot = getInflightSnapshot (ps_inflight (ad_pipeline s))
      in (respond_with 200 [(''count'', JNum (int (length snapshot)))] (InflightPayload snapshot), s))"

subsection \<open>Dry runs of the policies\<close>

definition missing_parameters :: admin_response where
  "missing_parameters = failure 400 (''Param'' @ [CHR 0xE8] @ ''tres requis : client, server, tool'')"

definition check_acl :: "('c, 'r, 'b, 'q, 'j, 'p) admin_env \<Rightarrow> ('c, 'r, 'b, 'q, 'j, 'p) route_handler" where
  "check_acl env rq ps s =
     (case (query_given rq ''client'', query_given rq ''server'', query_given rq ''tool'') of
        (Some client, Some server, Some tool) \<Rightarrow>
          (case gw_acl (ad_gateway s) of
             Some acl \<Rightarrow>
               if acl_enabled acl
               then (respond_with 200 [] (AclPayload (evaluateAcl client server tool (acl_policies acl) (acl_default_action acl))), s)
               else (respond 200 [(''allowed'', JBool True), (''policy'', JStr []),
                                (''reason'', JStr (''ACL d'' @ e_acute @ ''sactiv'' @ e_acute))], s)
           | None \<Rightarrow> (respond 200 [(''allowed'', JBool True), (''policy'', JStr []),
                                 (''reason'', JStr (''ACL d'' @ e_acute @ ''sactiv'' @ e_acute))], s))
      | _ \<Rightarrow> (missing_parameters, s))"

text \<open>A text of arguments that does not parse counts as no argument; a value that is no object has no fields.\<close>

definition check_args :: "('c, 'r, 'b, 'q, 'j, 'p) admin_env \<Rightarrow> admin_request \<Rightarrow> jobject" where
  "check_args env rq =
     (case ae_json env (default_to ''{}'' (query rq ''args'')) of
        Some v \<Rightarrow> (case v of JObj a \<Rightarrow> a | JArr xs \<Rightarrow> indexed xs | _ \<Rightarrow> []) | None \<Rightarrow> [])"

definition check_guardrails :: "('c, 'r, 'b, 'q, 'j, 'p) admin_env \<Rightarrow> ('c, 'r, 'b, 'q, 'j, 'p) route_handler" where
  "check_guardrails env rq ps s =
     (let disabled = (respond 200 [(''action'', JStr ''allow''), (''rule_name'', JStr []),
            (''reason'', JStr (''Guardrails d'' @ e_acute @ ''sactiv'' @ e_acute @ ''s''))], s)
      in case (query_given rq ''client'', query_given rq ''server'', query_given rq ''tool'') of
        (Some client, Some server, Some tool) \<Rightarrow>
          (case gw_guardrails (ad_gateway s) of
             Some g \<Rightarrow>
               if gr_enabled g
               then (respond_with 200 [] (GuardrailPayload (evaluateGuardrails (en_regex (ad_gateway s))
                       \<lparr>ctx_clientId = client, ctx_serverId = server, ctx_toolName = tool, ctx_toolArgs = check_args env rq\<rparr>
                       (gr_rules g) (gr_default_allow g))), s)
               else disabled
           | None \<Rightarrow> disabled)
      | _ \<Rightarrow> (missing_parameters, s))"

subsection \<open>Limits and circuits\<close>

definition get_limits :: "('c, 'r, 'b, 'q, 'j, 'p) admin_env \<Rightarrow> ('c, 'r, 'b, 'q, 'j, 'p) route_handler" where
  "get_limits env rq ps s =
     (case en_limiter (ad_gateway s) of
        None \<Rightarrow> (respond_with 200 [(''enabled'', JBool False)] (BucketsPayload []), s)
      | Some _ \<Rightarrow> (respond_with 200 [(''enabled'', JBool True)] (BucketsPayload (ae_buckets env (ps_limits (ad_pipeline s)))), s))"

definition with_limits ::
  "'b \<Rightarrow> ('c, 'r, 'b, 'q, 'j, 'p) admin_state \<Rightarrow> ('c, 'r, 'b, 'q, 'j, 'p) admin_state" where
  "with_limits b s = s\<lparr>ad_pipeline := (ad_pipeline s)\<lparr>ps_limits := b\<rparr>\<rparr>"

definition client_checks :: "('c, 'r, 'b, 'q, 'j, 'p) admin_state \<Rightarrow> string \<Rightarrow> rate_limit_check list" where
  "client_checks s clientId =
     (case gw_rate_limits (ad_gateway s) of Some (enabled, cfg) \<Rightarrow> getClientChecks cfg clientId | None \<Rightarrow> [])"

definition get_client_limits :: "('c, 'r, 'b, 'q, 'j, 'p) admin_env \<Rightarrow> ('c, 'r, 'b, 'q, 'j, 'p) route_handler" where
  "get_client_limits env rq ps s =
     (case en_limiter (ad_gateway s) of
        None \<Rightarrow> (respond_with 200 [(''client_id'', JStr (hd ps)), (''enabled'', JBool False)] (QuotaPayload []), s)
      | Some be \<Rightarrow>
          (case getClientQuota be (ae_now env) (client_checks s (hd ps)) (ps_limits (ad_pipeline s)) of
             (limits, b) \<Rightarrow>
               (respond_with 200 [(''client_id'', JStr (hd ps)), (''enabled'', JBool True)] (QuotaPayload limits), with_limits b s)))"

definition limits_disabled :: admin_response where
  "limits_disabled = respond 200 [(''reset'', JBool False),
     (''reason'', JStr (''Rate limiting d'' @ e_acute @ ''sactiv'' @ e_acute))]"

definition reset_limits :: "('c, 'r, 'b, 'q, 'j, 'p) admin_env \<Rightarrow> ('c, 'r, 'b, 'q, 'j, 'p) route_handler" where
  "reset_limits env rq ps s =
     (case en_limiter (ad_gateway s) of
        None \<Rightarrow> (limits_disabled, s)
      | Some be \<Rightarrow> (respond 200 [(''reset'', JBool True), (''reset_at'', stamp env)],
                   with_limits (be_resetAll be (ps_limits (ad_pipeline s))) s))"

definition reset_client_limits :: "('c, 'r, 'b, 'q, 'j, 'p) admin_env \<Rightarrow> ('c, 'r, 'b, 'q, 'j, 'p) route_handler" where
  "reset_client_limits env rq ps s =
     (case en_limiter (ad_gateway s) of
        None \<Rightarrow> (limits_disabled, s)
      | Some be \<Rightarrow> (respond 200 [(''reset'', JBool True), (''client_id'', JStr (hd ps)), (''reset_at'', stamp env)],
                   with_limits (resetClient be (hd ps) (ps_limits (ad_pipeline s))) s))"

definition get_circuits :: "('c, 'r, 'b, 'q, 'j, 'p) admin_env \<Rightarrow> ('c, 'r, 'b, 'q, 'j, 'p) route_handler" where
  "get_circuits env rq ps s =
     (let states = getCircuitBreakerStates (ps_registry (ad_pipeline s))
      in (respond_with 200 [(''count'', JNum (int (length states)))] (CircuitsPayload states), s))"

definition reset_circuits :: "('c, 'r, 'b, 'q, 'j, 'p) admin_env \<Rightarrow> ('c, 'r, 'b, 'q, 'j, 'p) route_handler" where
  "reset_circuits env rq ps s =
     (if server_info_of (hd ps) s = None then (unknown_server (hd ps), s)
      else case resetCircuitBreaker (hd ps) (ps_registry (ad_pipeline s)) of
             (reset, reg) \<Rightarrow> (respond 200 [(''server_id'', JStr (hd ps)), (''reset'', JBool reset), (''reset_at'', stamp env)],
                             with_registry reg s))"

text \<open>An index below 0 is outside the list of replicas.\<close>

definition reset_replica_circuit :: "('c, 'r, 'b, 'q, 'j, 'p) admin_env \<Rightarrow> ('c, 'r, 'b, 'q, 'j, 'p) route_handler" where
  "reset_replica_circuit env rq ps s =
     (case parseInt (ps ! 1) of
        None \<Rightarrow> (failure 400 ''Invalid replica index'', s)
      | Some idx \<Rightarrow>
          if server_info_of (hd ps) s = None then (unknown_server (hd ps), s)
          else (let (reset, reg) = (if idx < 0 then (False, ps_registry (ad_pipeline s))
                      else resetReplicaCircuitBreaker (hd ps) (nat idx) (ps_registry (ad_pipeline s)))
                in if \<not> reset
                   then (failure 404 (''No circuit breaker for replica '' @ show_int idx @ '' of '' @ hd ps), with_registry reg s)
                   else (respond 200 [(''server_id'', JStr (hd ps)), (''replica_index'', JNum idx), (''reset'', JBool True),
                                    (''reset_at'', stamp env)], with_registry reg s)))"

subsection \<open>Discovery\<close>

text \<open>A body that is no record of texts is read as the source reads it: \<open>body.id\<close>, \<open>body.url\<close>.\<close>

definition discovered_of :: "json \<Rightarrow> discovered_server" where
  "discovered_of body = \<lparr>ds_id = id_of body, ds_url = js_string (field body ''url''), ds_transport = text_field body ''transport''\<rparr>"

definition MAX_REGISTRATIONS :: nat where "MAX_REGISTRATIONS = 1000"

definition discover_register ::
  "http_registry \<Rightarrow> ('c, 'r, 'b, 'q, 'j, 'p) admin_env \<Rightarrow> ('c, 'r, 'b, 'q, 'j, 'p) route_handler" where
  "discover_register b env rq ps s =
     (case hr_body rq of
        None \<Rightarrow> (failure 400 ''Invalid JSON body'', s)
      | Some body \<Rightarrow>
          if nullish body then (crashed, s)
          else if \<not> truthy (field body ''id'') \<or> \<not> truthy (field body ''url'')
          then (failure 400 ''Missing required fields: id, url'', s)
          else case validateServerUrlWithDns (ae_parse_url env) (ae_lookup env) (js_string (field body ''url''))
                      (ae_allow_private env) of
                 Invalid e \<Rightarrow> (failure 400 (''Invalid URL: '' @ e), s)
               | Valid _ \<Rightarrow>
                   if registry_size b \<ge> MAX_REGISTRATIONS
                   then (failure 429 ''Maximum registration limit (1000) reached'', s)
                   else (respond 200 [(''registered'', JBool True), (''server_id'', field body ''id'')],
                         s\<lparr>ad_registrations := Some (register (ae_now env) (discovered_of body) b)\<rparr>))"

definition discover_deregister ::
  "http_registry \<Rightarrow> ('c, 'r, 'b, 'q, 'j, 'p) admin_env \<Rightarrow> ('c, 'r, 'b, 'q, 'j, 'p) route_handler" where
  "discover_deregister b env rq ps s =
     (case deregister (hd ps) b of
        (removed, b') \<Rightarrow> (respond 200 [(''deregistered'', JBool removed), (''server_id'', JStr (hd ps))],
                          s\<lparr>ad_registrations := Some b'\<rparr>))"

definition discover_status ::
  "http_registry \<Rightarrow> ('c, 'r, 'b, 'q, 'j, 'p) admin_env \<Rightarrow> ('c, 'r, 'b, 'q, 'j, 'p) route_handler" where
  "discover_status b env rq ps s =
     (case poll (ae_now env) b of
        (servers, b') \<Rightarrow> (respond_with 200 [(''count'', JNum (int (length servers)))] (DiscoveredPayload servers),
                          s\<lparr>ad_registrations := Some b'\<rparr>))"

definition get_dashboard :: "('c, 'r, 'b, 'q, 'j, 'p) admin_env \<Rightarrow> ('c, 'r, 'b, 'q, 'j, 'p) route_handler" where
  "get_dashboard env rq ps s = (respond_with 200 [] PagePayload, s)"

subsection \<open>The router\<close>

datatype path_part = Lit string | Param | Rest

fun match_path :: "path_part list \<Rightarrow> string list \<Rightarrow> string list option" where
  "match_path [] [] = Some []"
| "match_path [Rest] ws = Some []"
| "match_path (Lit t # ts) (w # ws) = (if w = t then match_path ts ws else None)"
| "match_path (Param # ts) (w # ws) = (if w = [] then None else map_option (Cons w) (match_path ts ws))"
| "match_path _ _ = None"

type_synonym ('c, 'r, 'b, 'q, 'j, 'p) route = "string \<times> path_part list \<times> ('c, 'r, 'b, 'q, 'j, 'p) route_handler"

definition read_routes :: "('c, 'r, 'b, 'q, 'j, 'p) admin_env \<Rightarrow> ('c, 'r, 'b, 'q, 'j, 'p) route list" where
  "read_routes env =
     [(''GET'', [Lit ''health''], get_health env),
      (''GET'', [Lit ''readyz''], get_readyz env),
      (''GET'', [Lit ''version''], get_version env),
      (''GET'', [Lit ''identity'', Lit ''settings''], get_identity_settings env),
      (''GET'', [Lit ''identity'', Lit ''workspaces''], get_identity_workspaces env),
      (''GET'', [Lit ''identity'', Lit ''templates''], get_identity_templates env),
      (''GET'', [Lit ''identity'', Lit ''accounts''], get_accounts env),
      (''GET'', [Lit ''identity'', Lit ''preflight'', Lit ''server'', Param], preflight_server env),
      (''GET'', [Lit ''identity'', Lit ''preflight'', Lit ''profile'', Param], preflight_profile env),
      (''GET'', [Lit ''governance'', Lit ''roles''], get_roles env),
      (''GET'', [Lit ''governance'', Lit ''audit''], get_audit env),
      (''GET'', [Lit ''cache'', Lit ''stats''], get_cache_stats env),
      (''GET'', [Lit ''servers''], get_servers env),
      (''GET'', [Lit ''dedup'', Lit ''inflight''], get_inflight env),
      (''GET'', [Lit ''acl'', Lit ''check''], check_acl env),
      (''GET'', [Lit ''guardrails'', Lit ''check''], check_guardrails env),
      (''GET'', [Lit ''limits''], get_limits env),
      (''GET'', [Lit ''circuits''], get_circuits env),
      (''GET'', [Lit ''dashboard''], get_dashboard env),
      (''GET'', [Lit ''dashboard'', Rest], get_dashboard env)]"

text \<open>Reads that let a component drop what has expired.\<close>

definition sweep_routes :: "('c, 'r, 'b, 'q, 'j, 'p) admin_env \<Rightarrow> ('c, 'r, 'b, 'q, 'j, 'p) route list" where
  "sweep_routes env =
     [(''GET'', [Lit ''governance'', Lit ''quotas'', Lit ''workspace'', Param], get_workspace_quota env),
      (''GET'', [Lit ''governance'', Lit ''approvals''], get_approvals env),
      (''GET'', [Lit ''limits'', Lit ''client'', Param], get_client_limits env)]"

definition write_routes :: "('c, 'r, 'b, 'q, 'j, 'p) admin_env \<Rightarrow> ('c, 'r, 'b, 'q, 'j, 'p) route list" where
  "write_routes env =
     [(''POST'', [Lit ''identity'', Lit ''accounts''], post_account env),
      (''POST'', [Lit ''identity'', Lit ''accounts'', Param, Lit ''revoke''], revoke_account env),
      (''POST'', [Lit ''governance'', Lit ''approvals'', Param, Lit ''approve''], decide_approval True env),
      (''POST'', [Lit ''governance'', Lit ''approvals'', Param, Lit ''reject''], decide_approval False env),
      (''POST'', [Lit ''config'', Lit ''reload''], post_reload env),
      (''DELETE'', [Lit ''cache'', Lit ''l2'', Lit ''flush''], flush_l2 env),
      (''DELETE'', [Lit ''cache'', Lit ''server'', Param], delete_server_cache env),
      (''DELETE'', [Lit ''cache'', Lit ''key'', Param], delete_cache_key env),
      (''POST'', [Lit ''servers'', Param, Lit ''refresh''], refresh_server env),
      (''POST'', [Lit ''servers''], post_server env),
      (''DELETE'', [Lit ''servers'', Param], delete_server env),
      (''DELETE'', [Lit ''limits'', Lit ''reset''], reset_limits env),
      (''DELETE'', [Lit ''limits'', Lit ''client'', Param, Lit ''reset''], reset_client_limits env),
      (''POST'', [Lit ''circuits'', Param, Lit ''reset''], reset_circuits env),
      (''POST'', [Lit ''circuits'', Param, Lit ''replicas'', Param, Lit ''reset''], reset_replica_circuit env)]"

definition discovery_routes ::
  "('c, 'r, 'b, 'q, 'j, 'p) admin_env \<Rightarrow> ('c, 'r, 'b, 'q, 'j, 'p) admin_state \<Rightarrow> ('c, 'r, 'b, 'q, 'j, 'p) route list" where
  "discovery_routes env s =
     (case ad_registrations s of
        None \<Rightarrow> []
      | Some b \<Rightarrow>
          [(''POST'', [Lit ''discover'', Lit ''register''], discover_register b env),
           (''DELETE'', [Lit ''discover'', Lit ''deregister'', Param], discover_deregister b env),
           (''GET'', [Lit ''discover'', Lit ''status''], discover_status b env)])"

definition other_route :: "string list \<Rightarrow> bool" where
  "other_route ws \<longleftrightarrow> (case ws of w # _ \<Rightarrow> w \<in> {''connect'', ''runtime'', ''settings'', ''logs'', ''stats'', ''metrics''} | [] \<Rightarrow> False)
     \<or> ws = [''governance'', ''settings''] \<or> ws = [''guardrails'', ''rules''] \<or> ws = [''guardrails'', ''stats'']"

fun find_route ::
  "string \<Rightarrow> string list \<Rightarrow> ('c, 'r, 'b, 'q, 'j, 'p) route list \<Rightarrow>
   (string list \<times> ('c, 'r, 'b, 'q, 'j, 'p) route_handler) option" where
  "find_route m ws [] = None"
| "find_route m ws ((m', pat, h) # routes) =
     (if m = m' then (case match_path pat ws of Some ps \<Rightarrow> Some (ps, h) | None \<Rightarrow> find_route m ws routes)
      else find_route m ws routes)"

text \<open>The parts of the path below the mount point.\<close>

definition route_path :: "admin_request \<Rightarrow> string list option" where
  "route_path rq = (case split_on (CHR ''/'') (hr_path rq) of e # m # ws \<Rightarrow>
       (if e = [] \<and> m = ''conduit'' then Some ws else None) | _ \<Rightarrow> None)"

definition not_found :: admin_response where
  "not_found = failure 404 ''404 Not Found''"

definition admin_dispatch ::
  "('c, 'r, 'b, 'q, 'j, 'p) admin_env \<Rightarrow> admin_request \<Rightarrow> ('c, 'r, 'b, 'q, 'j, 'p) admin_state \<Rightarrow>
   admin_response \<times> ('c, 'r, 'b, 'q, 'j, 'p) admin_state" where
  "admin_dispatch env rq s =
     (case route_path rq of
        None \<Rightarrow> (not_found, s)
      | Some ws \<Rightarrow>
          if other_route ws then ae_other env rq s
          else case find_route (hr_method rq) ws
                      (read_routes env @ sweep_routes env @ write_routes env @ discovery_routes env s) of
                 None \<Rightarrow> (not_found, s)
               | Some (ps, h) \<Rightarrow> h rq (map (ae_param env) ps) s)"

definition admin ::
  "('c, 'r, 'b, 'q, 'j, 'p) admin_env \<Rightarrow> admin_request \<Rightarrow> ('c, 'r, 'b, 'q, 'j, 'p) admin_state \<Rightarrow>
   admin_response \<times> ('c, 'r, 'b, 'q, 'j, 'p) admin_state" where
  "admin env rq s =
     (case admin_guard env rq of
        Some r \<Rightarrow> (r, s)
      | None \<Rightarrow> (case csrf_guard rq of Some r \<Rightarrow> (r, s) | None \<Rightarrow> admin_dispatch env rq s))"

end
