(* ===== verification/Admin_Example.thy ===== *)
theory Admin_Example
  imports Admin Pipeline_Example
begin

section \<open>An admin API on which the theorems hold\<close>

text \<open>
  The gateway of \<open>Pipeline_Example\<close> with an admin key, a workspace in which \<open>alice\<close> approves, and
  one pending approval of \<open>bob\<close>.
\<close>

type_synonym demo_admin_env = "(two_entries, timed_db, limiter_store, limiter_store, unit, unit) admin_env"
type_synonym demo_admin_state = "(two_entries, timed_db, limiter_store, limiter_store, unit, unit) admin_state"

definition demo_admin_env :: demo_admin_env where
  "demo_admin_env = \<lparr>ae_key = Some ''secret'', ae_allow_private = False,
     ae_parse_url = (\<lambda>t. Some public_url), ae_url_text = id, ae_masked_text = id,
     ae_lookup = (\<lambda>h. Some [(''93.184.216.34'', 4)]), ae_param = id, ae_json = (\<lambda>_. None),
     ae_collate = (\<lambda>_ _. True), ae_cache = (\<lambda>_. \<lparr>scc_default_ttl = 0, scc_overrides = None\<rparr>),
     ae_upstream_auth = (\<lambda>_. None), ae_tools = (\<lambda>_. ReplyThrew),
     ae_buckets = getAllBuckets, ae_db_writable = True, ae_now = 1000, ae_iso = (\<lambda>_. ''t''),
     ae_uuids = (''a'', ''b'', ''c''), ae_version = [], ae_reload = None, ae_other = (\<lambda>_ s. (not_found, s))\<rparr>"

definition demo_governance :: governance_config where
  "demo_governance = \<lparr>gc_enabled = True, gc_registry_default_allow = None,
     gc_role_bindings = Some [\<lparr>rb_workspace_id = ''w'', rb_role = Approver, rb_clients = [''alice'']\<rparr>],
     gc_tool_policies = None, gc_registry_policies = None, gc_quota_default = None,
     gc_quota_workspaces = None, gc_approvals = None\<rparr>"

definition demo_approval :: approval_row where
  "demo_approval = \<lparr>ap_id = ''u1'', ap_created_at = 0, ap_updated_at = 0, ap_expires_at = 9000, ap_status = Pending,
     ap_source = FromGovernance, ap_workspace_id = ''w'', ap_requester = ''bob'', ap_approver = None,
     ap_server_id = ''crm'', ap_tool_name = ''delete_all'', ap_rule_name = None, ap_reason = [], ap_trace_id = None,
     ap_fingerprint = [], ap_tool_args = [], ap_note = None\<rparr>"

definition demo_admin :: demo_admin_state where
  "demo_admin = \<lparr>ad_gateway = demo_gateway\<lparr>gw_governance := Some demo_governance\<rparr>,
     ad_pipeline = demo_state\<lparr>ps_governance := Some \<lparr>gv_approvals = [demo_approval], gv_audit = []\<rparr>\<rparr>,
     ad_registrations = Some (new_http_registry 60)\<rparr>"

definition demo_call :: "string \<Rightarrow> string \<Rightarrow> (string \<times> string) list \<Rightarrow> json \<Rightarrow> admin_request" where
  "demo_call method path headers body = \<lparr>hr_method = method, hr_path = path, hr_query = [],
     hr_headers = (''x-conduit-admin'', ''1'') # headers, hr_body = Some body\<rparr>"

definition demo_keys :: "(string \<times> string) list" where
  "demo_keys = [(''x-admin-key'', ''secret''), (''x-api-key'', ''k1'')]"

definition demo_approve :: admin_request where
  "demo_approve = demo_call ''POST'' ''/conduit/governance/approvals/u1/approve'' demo_keys
     (JObj [(''approver_client_id'', JStr ''alice'')])"

definition demo_add :: "json list \<Rightarrow> admin_request" where
  "demo_add replicas = demo_call ''POST'' ''/conduit/servers'' demo_keys
     (JObj ([(''id'', JStr ''erp''), (''url'', JStr ''https://mcp.example.com'')] @
            (if replicas = [] then [] else [(''replicas'', JArr replicas)])))"

end
