(* ===== verification/Admin_Laws.thy ===== *)
theory Admin_Laws
  imports Admin_Example Registered
begin

section \<open>What the admin API may change\<close>

text \<open>
  Nothing without the admin key, nothing by a request another site can make a browser send;
  the configuration and the registry stay in step, whatever is added, replaced and removed.
\<close>

subsection \<open>Middleware\<close>

definition key_presented :: "('c, 'r, 'b, 'q, 'j, 'p) admin_env \<Rightarrow> admin_request \<Rightarrow> bool" where
  "key_presented env rq \<longleftrightarrow> (case ae_key env of Some key \<Rightarrow> key = [] \<or> provided_key rq = key | None \<Rightarrow> True)"

definition csrf_passed :: "admin_request \<Rightarrow> bool" where
  "csrf_passed rq \<longleftrightarrow> (\<exists>v. map_of (hr_headers rq) ''x-conduit-admin'' = Some v \<and> to_lower (trim v) \<in> {''1'', ''true''})"

lemma admin_guard_None: "admin_guard env rq = None \<Longrightarrow> key_presented env rq \<or> public_path (hr_path rq)"
  by (auto simp: admin_guard_def key_presented_def verifyAdminKey_def split: option.splits if_splits)

lemma csrf_guard_None: "csrf_guard rq = None \<Longrightarrow> changes_state (hr_method rq) \<Longrightarrow> csrf_passed rq"
  by (auto simp: csrf_guard_def csrf_passed_def split: option.splits if_splits)

lemma admin_cases:
  assumes "snd (admin env rq s) \<noteq> s"
  shows "admin_guard env rq = None" "csrf_guard rq = None" "admin env rq s = admin_dispatch env rq s"
  using assms by (auto simp: admin_def split: option.splits)

subsection \<open>Routes\<close>

lemma find_route_append:
  "find_route m ws (rs @ rs') = (case find_route m ws rs of Some r \<Rightarrow> Some r | None \<Rightarrow> find_route m ws rs')"
  by (induction rs) (auto split: option.splits)

lemma find_route_in:
  "find_route m ws rs = Some (ps, h) \<Longrightarrow> \<exists>pat. (m, pat, h) \<in> set rs \<and> match_path pat ws = Some ps"
  by (induction rs) (auto split: option.splits if_splits)

text \<open>A read answers from the state and leaves it as it is.\<close>

lemma read_handlers:
  "snd (get_health env rq ps s) = s" "snd (get_readyz env rq ps s) = s" "snd (get_version env rq ps s) = s"
  "snd (get_identity_settings env rq ps s) = s" "snd (get_identity_workspaces env rq ps s) = s"
  "snd (get_identity_templates env rq ps s) = s" "snd (get_accounts env rq ps s) = s"
  "snd (preflight_server env rq ps s) = s" "snd (preflight_profile env rq ps s) = s"
  "snd (get_roles env rq ps s) = s" "snd (get_audit env rq ps s) = s" "snd (get_cache_stats env rq ps s) = s"
  "snd (get_servers env rq ps s) = s" "snd (get_inflight env rq ps s) = s" "snd (check_acl env rq ps s) = s"
  "snd (check_guardrails env rq ps s) = s" "snd (get_limits env rq ps s) = s" "snd (get_circuits env rq ps s) = s"
  "snd (get_dashboard env rq ps s) = s"
  by (simp_all add: get_health_def get_readyz_def get_version_def get_identity_settings_def get_identity_workspaces_def
      get_identity_templates_def get_accounts_def preflight_server_def preflight_profile_def get_roles_def get_audit_def
      get_cache_stats_def get_servers_def get_inflight_def check_acl_def check_guardrails_def get_limits_def
      get_circuits_def get_dashboard_def Let_def split: option.split sum.split)

lemma read_route: "(m, pat, h) \<in> set (read_routes env) \<Longrightarrow> snd (h rq ps s) = s"
  by (auto simp: read_routes_def read_handlers)

lemma changing_methods: "changes_state ''POST''" "changes_state ''DELETE''" "\<not> changes_state ''GET''"
  by code_simp+

lemma write_method: "(m, pat, h) \<in> set (write_routes env) \<Longrightarrow> changes_state m"
  by (auto simp: write_routes_def changing_methods)

lemma sweep_method: "(m, pat, h) \<in> set (sweep_routes env) \<Longrightarrow> m = ''GET''"
  by (auto simp: sweep_routes_def)

lemma discovery_route:
  "(m, pat, h) \<in> set (discovery_routes env s) \<Longrightarrow>
     \<exists>b. ad_registrations s = Some b \<and> (changes_state m \<or> m = ''GET'' \<and> h = discover_status b env)"
  by (cases "ad_registrations s") (auto simp: discovery_routes_def changing_methods)

lemma split_after:
  "\<exists>w ws. split_on (CHR ''/'') (''/conduit/dashboard/'' @ t) = [] # ''conduit'' # ''dashboard'' # w # ws"
  "\<exists>w ws. split_on (CHR ''/'') (''/conduit/connect/install/bundles/'' @ t) = [] # ''conduit'' # ''connect'' # w # ws"
  "\<exists>w ws. split_on (CHR ''/'') (''/conduit/connect/remote/bundles/'' @ t) = [] # ''conduit'' # ''connect'' # w # ws"
  "\<exists>w ws. split_on (CHR ''/'') (''/connect/install/bundles/'' @ t) = [] # ''connect'' # w # ws"
  "\<exists>w ws. split_on (CHR ''/'') (''/connect/remote/bundles/'' @ t) = [] # ''connect'' # w # ws"
  by (cases "split_on (CHR ''/'') t"; simp)+

lemma public_segments:
  assumes "public_path (hr_path rq)" "route_path rq = Some ws"
  shows "\<exists>w ws'. ws = w # ws' \<and> w \<in> {''health'', ''dashboard'', ''connect''}"
proof -
  consider "hr_path rq \<in> {''/conduit/health'', ''/health'', ''/conduit/dashboard''}"
    | t where "hr_path rq = ''/conduit/dashboard/'' @ t"
    | t where "hr_path rq = ''/conduit/connect/install/bundles/'' @ t"
    | t where "hr_path rq = ''/conduit/connect/remote/bundles/'' @ t"
    | t where "hr_path rq = ''/connect/install/bundles/'' @ t"
    | t where "hr_path rq = ''/connect/remote/bundles/'' @ t"
    using assms(1) unfolding public_path_def prefix_def by blast
  then show ?thesis
  proof cases
    case 1
    with assms(2) show ?thesis by (auto simp: route_path_def)
  next
    case (2 t)
    with split_after(1) [of t] assms(2) show ?thesis by (auto simp: route_path_def)
  next
    case (3 t)
    with split_after(2) [of t] assms(2) show ?thesis by (auto simp: route_path_def)
  next
    case (4 t)
    with split_after(3) [of t] assms(2) show ?thesis by (auto simp: route_path_def)
  next
    case (5 t)
    with split_after(4) [of t] assms(2) show ?thesis by (auto simp: route_path_def)
  next
    case (6 t)
    with split_after(5) [of t] assms(2) show ?thesis by (auto simp: route_path_def)
  qed
qed

definition starts_apart :: "string \<Rightarrow> ('c, 'r, 'b, 'q, 'j, 'p) route \<Rightarrow> bool" where
  "starts_apart w r = (case r of (m, pat, h) \<Rightarrow> (case pat of Lit t # ts \<Rightarrow> t \<noteq> w | _ \<Rightarrow> False))"

lemma find_route_other: "list_all (starts_apart w) rs \<Longrightarrow> find_route m (w # ws) rs = None"
  by (induction rs) (auto simp: starts_apart_def split: list.splits path_part.splits)

lemma no_other_public:
  assumes "w = ''health'' \<or> w = ''dashboard''"
  shows "find_route m (w # ws) (sweep_routes env @ write_routes env @ discovery_routes env s) = None"
proof (rule find_route_other)
  have "list_all (starts_apart w) (sweep_routes env @ write_routes env)"
    using assms by (elim disjE) (simp_all add: sweep_routes_def write_routes_def starts_apart_def)
  moreover have "list_all (starts_apart w) (discovery_routes env s)"
    using assms by (cases "ad_registrations s"; elim disjE) (simp_all add: discovery_routes_def starts_apart_def)
  ultimately show "list_all (starts_apart w) (sweep_routes env @ write_routes env @ discovery_routes env s)" by simp
qed

lemma public_is_read:
  assumes "public_path (hr_path rq)" "route_path rq = Some ws" "\<not> other_route ws"
    and "find_route m ws (read_routes env @ sweep_routes env @ write_routes env @ discovery_routes env s) = Some (ps, h)"
  shows "find_route m ws (read_routes env) = Some (ps, h)"
proof -
  obtain w ws' where w: "ws = w # ws'" "w \<in> {''health'', ''dashboard'', ''connect''}"
    using public_segments [OF assms(1,2)] by blast
  have "w \<noteq> ''connect''" using assms(3) w(1) unfolding other_route_def by force
  with w(2) have "w = ''health'' \<or> w = ''dashboard''" by blast
  from no_other_public [OF this, of m ws' env s] assms(4) show ?thesis
    unfolding w(1) find_route_append [of _ _ "read_routes env"] by (auto split: option.splits)
qed

text \<open>What a read may change: expired approvals, what a limiter or the discovery backend drops.\<close>

definition swept ::
  "timestamp \<Rightarrow> ('c, 'r, 'b, 'q, 'j, 'p) admin_state \<Rightarrow> ('c, 'r, 'b, 'q, 'j, 'p) admin_state \<Rightarrow> bool" where
  "swept now s s' \<longleftrightarrow>
     ad_gateway s' = ad_gateway s \<and>
     (let p = ad_pipeline s; p' = ad_pipeline s'
      in ps_registry p' = ps_registry p \<and> ps_counters p' = ps_counters p \<and> ps_jwks p' = ps_jwks p \<and>
         ps_l1 p' = ps_l1 p \<and> ps_l2 p' = ps_l2 p \<and> ps_inflight p' = ps_inflight p \<and>
         ps_identity p' = ps_identity p \<and> ps_plugins p' = ps_plugins p \<and> ps_events p' = ps_events p \<and>
         ps_governance p' \<in> {ps_governance p, map_option (pruneExpired now) (ps_governance p)})"

lemma swept_refl [simp]: "swept now s s"
  by (simp add: swept_def)

lemma listing_prunes: "snd (listApprovalRequests now f st) = pruneExpired now st"
  by (simp add: listApprovalRequests_def Let_def)

lemma sweep_handlers:
  "swept (ae_now env) s (snd (get_workspace_quota env rq ps s))"
  "swept (ae_now env) s (snd (get_client_limits env rq ps s))"
  "swept (ae_now env) s (snd (discover_status b env rq ps s))"
  by (auto simp: swept_def get_workspace_quota_def get_client_limits_def discover_status_def with_limits_def Let_def
      split: option.splits prod.splits)

lemma sweep_approvals: "swept (ae_now env) s (snd (get_approvals env rq ps s))"
proof (cases "ps_governance (ad_pipeline s)")
  case None
  then show ?thesis by (simp add: get_approvals_def)
next
  case (Some st)
  have w: "swept (ae_now env) s (with_governance (Some (pruneExpired (ae_now env) st)) s)"
    by (simp add: swept_def with_governance_def Some Let_def)
  have "snd (get_approvals env rq ps s) \<in> {s, with_governance (Some (pruneExpired (ae_now env) st)) s}"
    using listing_prunes
    by (auto simp: get_approvals_def Some split: sum.splits option.splits prod.splits) (metis snd_conv)+
  with w show ?thesis by auto
qed

lemma sweep_route: "(m, pat, h) \<in> set (sweep_routes env) \<Longrightarrow> swept (ae_now env) s (snd (h rq ps s))"
  by (auto simp: sweep_routes_def sweep_handlers sweep_approvals)


subsection \<open>The configuration and the registry\<close>

text \<open>What the registry serves under an id.\<close>

definition served :: "registry \<Rightarrow> string \<Rightarrow> server_config option" where
  "served reg i = map_option si_config (map_of (rg_servers reg) i)"

lemma served_clients [simp]: "served (rg_clients_update f reg) = served reg"
  by (rule ext) (simp add: served_def)

lemma served_rebuild [simp]: "served (rebuildNamespaceMap cfg reg) = served reg"
  by (rule ext) (simp add: served_def)

lemma served_update:
  "(\<And>info. si_config (f info) = si_config info) \<Longrightarrow> served (update_server i f reg) = served reg"
  by (rule ext) (auto simp: served_def update_server_def update_conv' split: option.split)

lemma refresh_config [simp]: "si_config (refresh_info cfg st now reply info) = si_config info"
  by (auto simp: refresh_info_def apply_reply_def mark_unhealthy_def Let_def
      split: list.split prod.split list_reply.split option.split)

lemma served_refresh [simp]: "served (refreshServer cfg st now reply i reg) = served reg"
  by (simp add: refreshServer_def served_update)

lemma served_add:
  "addServer cfg st now reply sc reg = Inr reg' \<Longrightarrow> served reg' = (served reg)(sc_id sc \<mapsto> sc)"
proof -
  let ?reg1 = "reg\<lparr>rg_clients := List.insert (sc_id sc) (rg_clients reg),
    rg_servers := AList.update (sc_id sc) (new_server_info cfg sc) (rg_servers reg)\<rparr>"
  assume "addServer cfg st now reply sc reg = Inr reg'"
  then have "reg' = rebuildNamespaceMap cfg (refreshServer cfg st now reply (sc_id sc) ?reg1)"
    by (simp add: addServer_def Let_def split: if_splits)
  then have "served reg' = served ?reg1" by simp
  also have "\<dots> = (served reg)(sc_id sc \<mapsto> sc)"
    by (rule ext) (simp add: served_def update_conv' new_server_info_def)
  finally show ?thesis .
qed

lemma served_remove [simp]: "served (snd (removeServer cfg i reg)) = (served reg)(i := None)"
  by (rule ext) (auto simp: removeServer_def served_def delete_conv')

lemma served_resets [simp]:
  "served (snd (resetCircuitBreaker i reg)) = served reg"
  "served (snd (resetReplicaCircuitBreaker i n reg)) = served reg"
  by (auto simp: resetCircuitBreaker_def resetReplicaCircuitBreaker_def Let_def set_replica_def served_update split: option.split)

lemma served_resetD:
  "resetCircuitBreaker i reg = (b, reg') \<Longrightarrow> served reg' = served reg"
  "resetReplicaCircuitBreaker i n reg = (b, reg') \<Longrightarrow> served reg' = served reg"
  by (metis snd_conv served_resets(1), metis snd_conv served_resets(2))

lemma registered_served: "i \<in> registered reg \<longleftrightarrow> served reg i \<noteq> None"
  by (simp add: registered_dom served_def dom_def)

text \<open>
  The ids of the configuration are distinct, and what the registry serves under an id of the
  configuration is the configured server.  Discovery may have registered others.
\<close>

definition in_step :: "gateway_server list \<Rightarrow> registry \<Rightarrow> bool" where
  "in_step servers reg \<longleftrightarrow> distinct (map sc_id servers) \<and>
     (\<forall>c \<in> set servers. served reg (sc_id c) = Some (server_config.truncate c))"

definition admin_ok :: "('c, 'r, 'b, 'q, 'j, 'p) admin_state \<Rightarrow> bool" where
  "admin_ok s \<longleftrightarrow> in_step (gw_servers (ad_gateway s)) (ps_registry (ad_pipeline s))"

lemma splice_distinct:
  assumes "distinct (map sc_id servers)"
  shows "splice_server i servers = filter (\<lambda>c. sc_id c \<noteq> i) servers"
  using assms
proof (induction servers)
  case (Cons c cs)
  have "sc_id c \<notin> sc_id ` set cs" using Cons.prems by simp
  then have "sc_id c = i \<Longrightarrow> filter (\<lambda>c. sc_id c \<noteq> i) cs = cs" by (auto simp: filter_id_conv image_iff)
  with Cons show ?case by simp
qed simp

lemma drop_in_step: "admin_ok s \<Longrightarrow> admin_ok (drop_server i s)"
  by (auto simp: admin_ok_def in_step_def drop_server_def with_servers_def with_registry_def splice_distinct
      distinct_map_filter)

lemma truncate_server [simp]: "server_config.truncate (gateway_server_of env body) = server_of body"
  by (simp add: gateway_server_of_def server_config.defs)

lemma gateway_server_id [simp]: "sc_id (gateway_server_of env body) = id_of body"
  by (simp add: gateway_server_of_def server_config.defs server_of_def)

lemma server_id [simp]: "sc_id (server_of body) = id_of body"
  by (simp add: server_of_def)

lemma addServer_new: "addServer cfg st now reply sc reg = Inr reg' \<Longrightarrow> served reg (sc_id sc) = None"
  by (auto simp: addServer_def served_def split: if_splits)

lemma install_in_step:
  assumes "admin_ok s" "install_server env body s = Inr s'"
  shows "admin_ok s'"
proof -
  obtain reg where reg: "addServer (registry_cfg s) (ae_now env) (ae_now env) (ae_tools env (id_of body)) (server_of body)
        (ps_registry (ad_pipeline s)) = Inr reg"
    and s': "s' = with_servers (gw_servers (ad_gateway s) @ [gateway_server_of env body]) (with_registry reg s)"
    using assms(2) by (auto simp: install_server_def split: option.splits sum.splits)
  have new: "served (ps_registry (ad_pipeline s)) (id_of body) = None" using addServer_new [OF reg] by simp
  then have "id_of body \<notin> sc_id ` set (gw_servers (ad_gateway s))"
    using assms(1) by (force simp: admin_ok_def in_step_def)
  with assms(1) served_add [OF reg] show ?thesis
    by (auto simp: admin_ok_def in_step_def s' with_servers_def with_registry_def image_iff)
qed

lemma admin_ok_same:
  "ad_gateway s' = ad_gateway s \<Longrightarrow> served (ps_registry (ad_pipeline s')) = served (ps_registry (ad_pipeline s)) \<Longrightarrow>
     admin_ok s \<Longrightarrow> admin_ok s'"
  by (simp add: admin_ok_def in_step_def)

lemma import_in_step: "admin_ok s \<Longrightarrow> admin_ok (snd (import_server env rep server (r, s)))"
  by (auto simp: import_server_def Let_def drop_in_step split: option.split sum.split 
      intro: install_in_step [OF drop_in_step] install_in_step)

lemma imports_in_step: "admin_ok s \<Longrightarrow> admin_ok (snd (addServersToConduit env rep servers s))"
proof -
  have "admin_ok s \<Longrightarrow> admin_ok (snd (fold (import_server env rep) servers (r, s)))" for r
  proof (induction servers arbitrary: r s)
    case (Cons x xs)
    obtain r' s' where x: "import_server env rep x (r, s) = (r', s')" by force
    with import_in_step [OF Cons.prems, of env rep x r] have "admin_ok s'" by simp
    from Cons.IH [OF this] x show ?case by simp
  qed simp
  then show "admin_ok s \<Longrightarrow> admin_ok (snd (addServersToConduit env rep servers s))"
    by (simp add: addServersToConduit_def)
qed

definition callbacks_ok :: "('c, 'r, 'b, 'q, 'j, 'p) admin_env \<Rightarrow> bool" where
  "callbacks_ok env \<longleftrightarrow> (\<forall>onReload s. ae_reload env = Some onReload \<longrightarrow> admin_ok s \<longrightarrow> admin_ok (snd (onReload s))) \<and>
     (\<forall>rq s. admin_ok s \<longrightarrow> admin_ok (snd (ae_other env rq s)))"

lemmas state_parts = with_registry_def with_identity_def with_governance_def with_l1_def with_limits_def emit_def

lemma write_servers_in_step:
  assumes "admin_ok s"
  shows "admin_ok (snd (post_server env rq ps s))" "admin_ok (snd (delete_server env rq ps s))"
    "admin_ok (snd (refresh_server env rq ps s))" "admin_ok (snd (reset_circuits env rq ps s))"
    "admin_ok (snd (reset_replica_circuit env rq ps s))"
proof -
  show "admin_ok (snd (post_server env rq ps s))"
    using assms by (auto simp: post_server_def split: option.split sum.split intro: install_in_step)
  show "admin_ok (snd (delete_server env rq ps s))"
    using assms by (auto simp: delete_server_def Let_def drop_in_step)
  show "admin_ok (snd (refresh_server env rq ps s))"
    using assms by (auto simp: refresh_server_def Let_def admin_ok_def in_step_def with_registry_def)
  show "admin_ok (snd (reset_circuits env rq ps s))"
    using assms by (auto simp: reset_circuits_def admin_ok_def in_step_def with_registry_def split: prod.split dest: served_resetD)
  show "admin_ok (snd (reset_replica_circuit env rq ps s))"
    using assms
    by (auto simp: reset_replica_circuit_def admin_ok_def in_step_def with_registry_def Let_def
        split: prod.split option.split dest: served_resetD)
qed

lemma write_others_in_step:
  assumes "admin_ok s"
  shows "admin_ok (snd (post_account env rq ps s))" "admin_ok (snd (revoke_account env rq ps s))"
    "admin_ok (snd (decide_approval ap env rq ps s))" "admin_ok (snd (flush_l2 env rq ps s))"
    "admin_ok (snd (delete_server_cache env rq ps s))" "admin_ok (snd (delete_cache_key env rq ps s))"
    "admin_ok (snd (reset_limits env rq ps s))" "admin_ok (snd (reset_client_limits env rq ps s))"
    "admin_ok (snd (discover_register b env rq ps s))" "admin_ok (snd (discover_deregister b env rq ps s))"
  using assms
  by (auto simp: post_account_def revoke_account_def decide_approval_def resolveApproverPrincipal_def flush_l2_def
      delete_server_cache_def delete_cache_key_def reset_limits_def reset_client_limits_def discover_register_def
      discover_deregister_def state_parts admin_ok_def Let_def
      split: option.split sum.split prod.split auth_result.split url_validation.split)

lemma write_route_in_step:
  assumes "(m, pat, h) \<in> set (write_routes env)" "callbacks_ok env" "admin_ok s"
  shows "admin_ok (snd (h rq ps s))"
proof -
  have "admin_ok (snd (post_reload env rq ps s))"
  proof (cases "ae_reload env")
    case (Some f)
    with assms(2,3) have "admin_ok (snd (f s))" by (auto simp: callbacks_ok_def)
    with Some show ?thesis by (auto simp: post_reload_def split: prod.split option.split)
  qed (simp add: post_reload_def assms(3))
  with assms write_servers_in_step [OF assms(3)] write_others_in_step [OF assms(3)]
  show ?thesis by (auto simp: write_routes_def)
qed

lemma sweep_in_step: "swept now s s' \<Longrightarrow> admin_ok s \<Longrightarrow> admin_ok s'"
  by (simp add: swept_def admin_ok_def Let_def)

lemma discovery_route_in_step:
  "(m, pat, h) \<in> set (discovery_routes env t) \<Longrightarrow> admin_ok s \<Longrightarrow> admin_ok (snd (h rq ps s))"
  using sweep_in_step [OF sweep_handlers(3)]
  by (cases "ad_registrations t") (auto simp: discovery_routes_def write_others_in_step)

lemma dispatch_in_step:
  assumes "callbacks_ok env" "admin_ok s"
  shows "admin_ok (snd (admin_dispatch env rq s))"
proof (cases "route_path rq")
  case None
  with assms show ?thesis by (simp add: admin_dispatch_def)
next
  case (Some ws)
  let ?routes = "read_routes env @ sweep_routes env @ write_routes env @ discovery_routes env s"
  show ?thesis
  proof (cases "other_route ws \<or> find_route (hr_method rq) ws ?routes = None")
    case True
    with Some assms show ?thesis by (auto simp: admin_dispatch_def callbacks_ok_def)
  next
    case False
    then obtain ps h where found: "find_route (hr_method rq) ws ?routes = Some (ps, h)" by auto
    from find_route_in [OF this] obtain pat where "(hr_method rq, pat, h) \<in> set ?routes" by blast
    then have "admin_ok (snd (h rq (map (ae_param env) ps) s))"
      using assms read_route sweep_in_step [OF sweep_route] write_route_in_step discovery_route_in_step
      by (fastforce simp del: find_route.simps)
    with Some False found show ?thesis by (simp add: admin_dispatch_def)
  qed
qed

definition admin_run ::
  "(('c, 'r, 'b, 'q, 'j, 'p) admin_env \<times> admin_request) list \<Rightarrow> ('c, 'r, 'b, 'q, 'j, 'p) admin_state \<Rightarrow>
   ('c, 'r, 'b, 'q, 'j, 'p) admin_state" where
  "admin_run calls s = fold (\<lambda>(env, rq) s. snd (admin env rq s)) calls s"


subsection \<open>On the example\<close>


lemma demo_admin_ok: "admin_ok demo_admin" "callbacks_ok demo_admin_env"
  by (code_simp, simp add: callbacks_ok_def demo_admin_env_def)

definition demo_remove :: admin_request where
  "demo_remove = demo_call ''DELETE'' ''/conduit/servers/crm'' demo_keys (JObj [])"


subsection \<open>Defects\<close>

text \<open>
  \<open>POST /servers/:id/refresh\<close> reads the tools of the server again but does not rebuild the names
  under which the gateway exposes them: a new tool stays unknown until the next health check.
\<close>

lemma refresh_keeps_the_names:
  "rg_namespaceMap (ps_registry (ad_pipeline (snd (refresh_server env rq ps s)))) =
     rg_namespaceMap (ps_registry (ad_pipeline s))"
  by (simp add: refresh_server_def with_registry_def refreshServer_def update_server_def Let_def split: option.split)

text \<open>
  Removing a server leaves its answers in both caches, unlike a reload, and so does adding one:
  a server that is later registered under the same id is answered for with the old results.
\<close>

lemma removed_server_keeps_its_answers:
  "ps_l1 (ad_pipeline (snd (delete_server env rq ps s))) = ps_l1 (ad_pipeline s)"
  "ps_l2 (ad_pipeline (snd (delete_server env rq ps s))) = ps_l2 (ad_pipeline s)"
  "ps_l1 (ad_pipeline (snd (post_server env rq' ps' s))) = ps_l1 (ad_pipeline s)"
  by (auto simp: delete_server_def post_server_def install_server_def drop_server_def with_servers_def with_registry_def
      Let_def split: option.split sum.split)

text \<open>Only the URL of a server is examined: its replicas may name any address, and are called.\<close>

lemma replicas_are_not_examined:
  "rs_status (fst (admin demo_admin_env (demo_add [JStr ''http://169.254.169.254/'']) demo_admin)) = 201 \<and>
   map rp_url (si_replicas (the (server_info_of ''erp''
     (snd (admin demo_admin_env (demo_add [JStr ''http://169.254.169.254/'']) demo_admin))))) =
     [''https://mcp.example.com'', ''http://169.254.169.254/'']"
  by (rule conjI; code_simp)

text \<open>The limit on announcements counts a heartbeat of a server that is registered already as a new one.\<close>

lemma full_backend_refuses_heartbeats:
  assumes "hr_body rq = Some body" "truthy (field body ''id'')" "truthy (field body ''url'')"
    and "registry_size b = MAX_REGISTRATIONS" "map_has (hb_registrations b) (id_of body)"
    and "validateServerUrlWithDns (ae_parse_url env) (ae_lookup env) (js_string (field body ''url'')) (ae_allow_private env) = Valid a"
  shows "rs_status (fst (discover_register b env rq ps s)) = 429 \<and> snd (discover_register b env rq ps s) = s"
proof -
  have "\<not> Dynamic.nullish body" using assms(2) by (auto simp: Dynamic.nullish_def truthy_def)
  with assms show ?thesis by (simp add: discover_register_def failure_def respond_def)
qed

text \<open>A replacement removes the server before the new one can fail: an unknown transport leaves none.\<close>

lemma failed_replacement_loses_the_server:
  assumes "server_info_of (id_of server) s \<noteq> None" "url_refused env server = None" "createMcpClient server = None"
  shows "server_info_of (id_of server) (snd (import_server env True server (r, s))) = None"
  using assms
  by (simp add: import_server_def install_server_def drop_server_def server_info_of_def with_servers_def with_registry_def
      removeServer_def delete_conv' Let_def)

end
