(* ===== verification/Admin_Approvals.thy ===== *)
theory Admin_Approvals
  imports Admin_Laws
begin

section \<open>Decisions on approvals over the admin API\<close>

text \<open>
  A decision is the caller's own where the gateway authenticates its clients, and cannot be made
  at all where it does so with JWTs: the admin key and the token need the same header.
\<close>

subsection \<open>Decisions on approvals\<close>

text \<open>The errors of the JWT library and of the fetch of its keys say something.\<close>

definition errors_have_text :: "('c, 'r, 'b, 'q, 'j, 'p) gateway \<Rightarrow> bool" where
  "errors_have_text gw \<longleftrightarrow> (\<forall>url. en_fetch_jwks gw url \<noteq> Inl []) \<and> (\<forall>token jwks opts. en_verify gw token jwks opts \<noteq> Inl [])"

definition approver_auth ::
  "admin_request \<Rightarrow> ('c, 'r, 'b, 'q, 'j, 'p) admin_state \<Rightarrow> auth_config \<Rightarrow> auth_result" where
  "approver_auth rq s auth = fst (authenticate (en_fetch_jwks (ad_gateway s)) (en_verify (ad_gateway s)) (hr_headers rq) auth
     (ps_jwks (ad_pipeline s)))"

lemma rejected_text:
  assumes "errors_have_text (ad_gateway s)" "approver_auth rq s auth = Rejected e"
  shows "e \<noteq> []"
proof (cases "au_method auth")
  case MethodJwt
  then show ?thesis
    using assms by (auto simp: approver_auth_def errors_have_text_def authenticate_def authenticateJwt_def getJwks_def
        payload_result_def Let_def split: option.splits sum.splits if_splits)
qed (use assms in \<open>auto simp: approver_auth_def authenticate_def authenticateApiKey_def split: option.splits if_splits\<close>)

lemma resolved_approver:
  assumes "gw_auth (ad_gateway s) = Some auth" "au_method auth \<noteq> MethodNone"
  shows "fst (resolveApproverPrincipal rq s) =
      (case approver_auth rq s auth of Authenticated c t claims \<Rightarrow> Inr (Some c) | Rejected e \<Rightarrow> Inl e)"
    and "ad_gateway (snd (resolveApproverPrincipal rq s)) = ad_gateway s"
    and "ps_governance (ad_pipeline (snd (resolveApproverPrincipal rq s))) = ps_governance (ad_pipeline s)"
  using assms by (auto simp: resolveApproverPrincipal_def approver_auth_def split: prod.split auth_result.split)

definition approval_rows :: "('c, 'r, 'b, 'q, 'j, 'p) admin_state \<Rightarrow> approval_row list" where
  "approval_rows s = (case ps_governance (ad_pipeline s) of Some st \<Rightarrow> gv_approvals st | None \<Rightarrow> [])"

text \<open>A row is one of before, expired at most, or decided by the client \<open>c\<close>, who may decide it.\<close>

definition decided_by ::
  "governance_config option \<Rightarrow> string \<Rightarrow> approval_row \<Rightarrow> bool" where
  "decided_by config c r \<longleftrightarrow> ap_approver r = Some c \<and> may_decide config (ap_workspace_id r) c \<and>
     (approval_option ac_allow_self_approval False config \<or> ap_requester r \<noteq> c)"

lemma decided_rows:
  assumes d: "decideApproval now config i approver approve note (Some approver) (Some st) = (res, Some st')"
    and ids: "distinct (map ap_id (gv_approvals st))" and r': "r' \<in> set (gv_approvals st')"
  shows "r' \<in> expire_row now ` set (gv_approvals st) \<or> decided_by config approver r'"
  using d
proof (cases rule: decideApproval_cases)
  case kept
  with r' show ?thesis by simp
next
  case (decided r)
  let ?status = "if approve then Approved else Refused"
  let ?rows = "map (expire_row now) (gv_approvals st)"
  obtain x where x: "x \<in> set ?rows" "r' = expire_row now (decide_row now i ?status approver note x)"
    using r' unfolding decided(7) by auto
  show ?thesis
  proof (cases "ap_id x = i")
    case True
    have "distinct (map ap_id ?rows)" using ids by (simp add: comp_def)
    with x(1) decided(1,2) True have "x = r" by (metis distinct_map inj_on_def)
    with x(2) decided(2,4,5) True show ?thesis by (auto simp: decided_by_def decide_row_def expire_row_def)
  next
    case False
    with x(2) have "r' = expire_row now x" by (simp add: decide_row_def)
    with x(1) show ?thesis by auto
  qed
qed

text \<open>What a request may do to the rows when the clients of the gateway authenticate.\<close>

definition rows_accounted ::
  "timestamp \<Rightarrow> auth_config \<Rightarrow> admin_request \<Rightarrow> ('c, 'r, 'b, 'q, 'j, 'p) admin_state \<Rightarrow>
   ('c, 'r, 'b, 'q, 'j, 'p) admin_state \<Rightarrow> bool" where
  "rows_accounted now auth rq s s' \<longleftrightarrow>
     (\<forall>r \<in> set (approval_rows s'). r \<in> set (approval_rows s) \<or> r \<in> expire_row now ` set (approval_rows s) \<or>
        (\<exists>c t claims. approver_auth rq s auth = Authenticated c t claims \<and>
           decided_by (gw_governance (ad_gateway s)) c r))"

lemma accounted_same: "ps_governance (ad_pipeline s') = ps_governance (ad_pipeline s) \<Longrightarrow> rows_accounted now auth rq s s'"
  by (simp add: rows_accounted_def approval_rows_def)

lemma accounted_swept: "swept now s s' \<Longrightarrow> rows_accounted now auth rq s s'"
  by (cases "ps_governance (ad_pipeline s)") (auto simp: swept_def rows_accounted_def approval_rows_def Let_def)

lemma decide_accounted:
  assumes auth: "gw_auth (ad_gateway s) = Some auth" "au_method auth \<noteq> MethodNone"
    and errs: "errors_have_text (ad_gateway s)" and ids: "distinct (map ap_id (approval_rows s))"
  shows "rows_accounted (ae_now env) auth rq s (snd (decide_approval ap env rq ps s))"
proof -
  obtain who s1 where res: "resolveApproverPrincipal rq s = (who, s1)" by force
  note kept = resolved_approver [OF auth, of rq, unfolded res snd_conv fst_conv]
  let ?decide = "\<lambda>body approver. decideApproval (ae_now env) (gw_governance (ad_gateway s1)) (hd ps) approver ap
       (text_field body ''note'') (case who of Inr c \<Rightarrow> c | Inl e \<Rightarrow> None) (ps_governance (ad_pipeline s1))"
  consider (unchanged) "ps_governance (ad_pipeline (snd (decide_approval ap env rq ps s))) = ps_governance (ad_pipeline s)"
    | (decided) body approver where "\<not> (isl who \<and> projl who \<noteq> [])" "governance_on s"
        "ps_governance (ad_pipeline (snd (decide_approval ap env rq ps s))) = snd (?decide body approver)"
  proof (cases "\<exists>body approver. governance_on s \<and> hr_body rq = Some body \<and> \<not> Dynamic.nullish body \<and>
      text_field body ''approver_client_id'' = Some approver \<and> approver \<noteq> [] \<and> \<not> (isl who \<and> projl who \<noteq> [])")
    case True
    then obtain body approver where b: "governance_on s" "hr_body rq = Some body" "\<not> Dynamic.nullish body"
      "text_field body ''approver_client_id'' = Some approver" "approver \<noteq> []" "\<not> (isl who \<and> projl who \<noteq> [])" by blast
    have "snd (decide_approval ap env rq ps s) = with_governance (snd (?decide body approver)) s1"
      using b by (auto simp: decide_approval_def res split: sum.split prod.split)
    with decided b show thesis by (simp add: with_governance_def)
  next
    case False
    then have "snd (decide_approval ap env rq ps s) \<in> {s, s1}"
      by (auto simp: decide_approval_def res split: option.split)
    with unchanged kept(3) show thesis by auto
  qed
  then show ?thesis
  proof cases
    case unchanged
    then show ?thesis by (rule accounted_same)
  next
    case decided
    from decided(2) obtain st where st: "ps_governance (ad_pipeline s) = Some st"
      by (auto simp: governance_on_def governance_enabled_def)
    obtain c t claims where c: "approver_auth rq s auth = Authenticated c t claims" "who = Inr (Some c)"
      using decided(1) kept(1) rejected_text [OF errs] by (cases "approver_auth rq s auth") auto
    obtain res st' where d: "?decide body approver = (res, Some st')"
      using decideApproval_some unfolding kept(3) st by blast
    have "r \<in> expire_row (ae_now env) ` set (gv_approvals st) \<or> decided_by (gw_governance (ad_gateway s)) c r"
      if "r \<in> set (gv_approvals st')" for r
    proof (cases "approver = c")
      case True
      from decided_rows [OF d [unfolded c(2) kept(2,3) st True, simplified] _ that] ids st True show ?thesis
        by (simp add: approval_rows_def)
    next
      case False
      from d [unfolded c(2) kept(2,3) st, simplified] have "gv_approvals st' = map (expire_row (ae_now env)) (gv_approvals st)"
      proof (cases rule: decideApproval_cases)
        case (decided r)
        with False show ?thesis by simp
      qed
      with that show ?thesis by simp
    qed
    with c(1) decided(3) d st show ?thesis by (auto simp: rows_accounted_def approval_rows_def)
  qed
qed

definition reload_keeps_approvals ::
  "('c, 'r, 'b, 'q, 'j, 'p) admin_env \<Rightarrow> ('c, 'r, 'b, 'q, 'j, 'p) admin_state \<Rightarrow> bool" where
  "reload_keeps_approvals env s \<longleftrightarrow>
     (\<forall>f. ae_reload env = Some f \<longrightarrow> ps_governance (ad_pipeline (snd (f s))) = ps_governance (ad_pipeline s))"

lemma write_keeps_approvals:
  assumes "(m, pat, h) \<in> set (write_routes env)" "h \<noteq> decide_approval True env" "h \<noteq> decide_approval False env"
    and "reload_keeps_approvals env s"
  shows "ps_governance (ad_pipeline (snd (h rq ps s))) = ps_governance (ad_pipeline s)"
proof -
  have install: "install_server env body s = Inr s' \<Longrightarrow> ps_governance (ad_pipeline s') = ps_governance (ad_pipeline s)" for body s'
    by (auto simp: install_server_def with_servers_def with_registry_def split: option.splits sum.splits)
  have server: "ps_governance (ad_pipeline (snd (post_server env rq ps s))) = ps_governance (ad_pipeline s)"
    using install by (auto simp: post_server_def split: option.split sum.split)
  have reload: "ps_governance (ad_pipeline (snd (post_reload env rq ps s))) = ps_governance (ad_pipeline s)"
    using assms(4) by (auto simp: reload_keeps_approvals_def post_reload_def split: option.split prod.split)
  have others: "ps_governance (ad_pipeline (snd (g env rq ps s))) = ps_governance (ad_pipeline s)"
    if "g \<in> {post_account, revoke_account, flush_l2, delete_server_cache, delete_cache_key, refresh_server, delete_server,
      reset_limits, reset_client_limits, reset_circuits, reset_replica_circuit}" for g
    using that
    by (auto simp: post_account_def revoke_account_def flush_l2_def delete_server_cache_def delete_cache_key_def
        refresh_server_def delete_server_def drop_server_def with_servers_def reset_limits_def reset_client_limits_def
        reset_circuits_def reset_replica_circuit_def state_parts Let_def
        split: option.split sum.split prod.split)
  show ?thesis
    using assms(1-3) server reload others by (auto simp: write_routes_def)
qed

lemma write_route_accounted:
  assumes "(m, pat, h) \<in> set (write_routes env)"
    and "gw_auth (ad_gateway s) = Some auth" "au_method auth \<noteq> MethodNone"
    and "errors_have_text (ad_gateway s)" "distinct (map ap_id (approval_rows s))"
    and "reload_keeps_approvals env s"
  shows "rows_accounted (ae_now env) auth rq s (snd (h rq ps s))"
proof (cases "h = decide_approval True env \<or> h = decide_approval False env")
  case True
  with decide_accounted [OF assms(2-5)] show ?thesis by auto
next
  case False
  with write_keeps_approvals [OF assms(1) _ _ assms(6)] show ?thesis by (auto intro: accounted_same)
qed

lemma discovery_route_accounted:
  "(m, pat, h) \<in> set (discovery_routes env t) \<Longrightarrow> rows_accounted (ae_now env) auth rq s (snd (h rq ps s))"
  by (cases "ad_registrations t")
     (auto simp: discovery_routes_def discover_register_def discover_deregister_def discover_status_def
       intro!: accounted_same split: option.split url_validation.split prod.split)



subsection \<open>Gateways with JWTs\<close>

definition avoids :: "string list \<Rightarrow> ('c, 'r, 'b, 'q, 'j, 'p) route list \<Rightarrow> bool" where
  "avoids ws rs \<longleftrightarrow> list_all (\<lambda>(m, pat, h). match_path pat ws = None) rs"

lemma approval_avoids:
  "avoids [''governance'', ''approvals'', i, v] (read_routes env)"
  "avoids [''governance'', ''approvals'', i, v] (sweep_routes env)"
  "avoids [''governance'', ''approvals'', i, v] (discovery_routes env s)"
  by (cases "ad_registrations s"; simp add: avoids_def read_routes_def sweep_routes_def discovery_routes_def)+

lemma approval_writes:
  "list_all (\<lambda>(m, pat, h). match_path pat [''governance'', ''approvals'', i, v] = None \<or>
      m = ''POST'' \<and> (h = decide_approval True env \<or> h = decide_approval False env)) (write_routes env)"
  by (simp add: write_routes_def)

lemma approval_route:
  assumes "(m, pat, h) \<in> set (read_routes env @ sweep_routes env @ write_routes env @ discovery_routes env s)"
    and "match_path pat [''governance'', ''approvals'', i, v] = Some ps"
  shows "h = decide_approval True env \<or> h = decide_approval False env"
  using assms approval_avoids [of i v env] approval_avoids(3) [of i v env s] approval_writes [of i v env]
  unfolding avoids_def list_all_iff set_append by (elim UnE) fastforce+

text \<open>The bearer token of a request that presents the admin key is the admin key, or there is none.\<close>

lemma bearer_is_the_key:
  assumes "map_of (hr_headers rq) ''Authorization'' = None" "bearer_token (hr_headers rq) = Some token"
  shows "provided_key rq = token"
  using assms by (auto simp: bearer_token_def header_either_def provided_key_def split: option.splits if_splits)

lemma jwt_rejects_the_key:
  assumes "au_method auth = MethodJwt" "map_of (hr_headers rq) ''Authorization'' = None" "provided_key rq = key"
    and "\<And>jwks opts p. en_verify (ad_gateway s) key jwks opts \<noteq> Inr p"
  shows "\<exists>e. approver_auth rq s auth = Rejected e"
proof (cases "bearer_token (hr_headers rq)")
  case None
  with assms(1) show ?thesis by (simp add: approver_auth_def authenticate_def authenticateJwt_def)
next
  case (Some token)
  with bearer_is_the_key [OF assms(2)] assms(3) have "token = key" by simp
  with Some assms(1,4) show ?thesis
    by (auto simp: approver_auth_def authenticate_def authenticateJwt_def split: option.split sum.split prod.split)
qed

text \<open>C34. Where clients authenticate with JWTs and an admin key is configured, no approval can be
  decided: the guard takes the admin key from a bearer token whenever there is one, and the
  authentication of the approver takes the JWT from the same token.  Unless the admin key is
  itself a valid JWT, every request to approve or to reject fails and leaves the approvals alone,
  and a pending call can only expire.\<close>

theorem jwt_gateways_decide_no_approval:
  assumes auth: "gw_auth (ad_gateway s) = Some auth" "au_method auth = MethodJwt" "errors_have_text (ad_gateway s)"
    and key: "ae_key env = Some key" "key \<noteq> []" "\<And>jwks opts p. en_verify (ad_gateway s) key jwks opts \<noteq> Inr p"
    and lower: "map_of (hr_headers rq) ''Authorization'' = None"
    and route: "route_path rq = Some [''governance'', ''approvals'', i, v]"
  shows "rs_status (fst (admin env rq s)) \<ge> 400 \<and>
    ps_governance (ad_pipeline (snd (admin env rq s))) = ps_governance (ad_pipeline s)"
proof (cases "admin_guard env rq = None \<and> csrf_guard rq = None")
  case False
  then show ?thesis
    by (auto simp: admin_def admin_guard_def csrf_guard_def failure_def respond_def split: option.splits if_splits)
next
  case True
  have "\<not> public_path (hr_path rq)" using public_segments [OF _ route(1)] by auto
  with True admin_guard_None [of env rq] key(1,2) have "provided_key rq = key" by (auto simp: key_presented_def)
  from jwt_rejects_the_key [OF auth(2) lower this key(3)] obtain e where e: "approver_auth rq s auth = Rejected e" by blast
  from rejected_text [OF auth(3) this] have "e \<noteq> []" .
  have decide: "rs_status (fst (decide_approval ap env rq ps s)) \<ge> 400 \<and>
      ps_governance (ad_pipeline (snd (decide_approval ap env rq ps s))) = ps_governance (ad_pipeline s)" for ap ps
  proof -
    obtain who s1 where res: "resolveApproverPrincipal rq s = (who, s1)" by force
    from resolved_approver [OF auth(1), of rq, unfolded res snd_conv fst_conv] auth(2) e
    have "who = Inl e" "ps_governance (ad_pipeline s1) = ps_governance (ad_pipeline s)" by simp_all
    with \<open>e \<noteq> []\<close> show ?thesis
      by (auto simp: decide_approval_def res failure_def crashed_def respond_def split: option.split)
  qed
  let ?ws = "[''governance'', ''approvals'', i, v]"
  let ?routes = "read_routes env @ sweep_routes env @ write_routes env @ discovery_routes env s"
  have "\<not> other_route ?ws" by (simp add: other_route_def)
  then have run: "admin env rq s = (case find_route (hr_method rq) ?ws ?routes of
      None \<Rightarrow> (not_found, s) | Some (ps, h) \<Rightarrow> h rq (map (ae_param env) ps) s)"
    using True by (simp add: admin_def admin_dispatch_def route(1))
  show ?thesis
  proof (cases "find_route (hr_method rq) ?ws ?routes")
    case None
    with run show ?thesis by (simp add: not_found_def failure_def respond_def)
  next
    case (Some r)
    then obtain ps h where r: "find_route (hr_method rq) ?ws ?routes = Some (ps, h)" by (cases r) auto
    from find_route_in [OF this] approval_route
    have "h = decide_approval True env \<or> h = decide_approval False env" by blast
    with run decide r show ?thesis by auto
  qed
qed

definition jwt_auth :: auth_config where
  "jwt_auth = demo_auth\<lparr>au_method := MethodJwt, au_jwks_url := Some ''https://idp/jwks''\<rparr>"

definition jwt_admin :: demo_admin_state where
  "jwt_admin = demo_admin\<lparr>ad_gateway := (ad_gateway demo_admin)\<lparr>gw_auth := Some jwt_auth\<rparr>\<rparr>"

definition jwt_approve :: admin_request where
  "jwt_approve = demo_call ''POST'' ''/conduit/governance/approvals/u1/approve'' [(''authorization'', ''Bearer secret'')]
     (JObj [(''approver_client_id'', JStr ''alice'')])"

lemma jwt_gateways_decide_no_approval_witness:
  "rs_status (fst (admin demo_admin_env jwt_approve jwt_admin)) \<ge> 400 \<and>
   map ap_status (approval_rows (snd (admin demo_admin_env jwt_approve jwt_admin))) = [Pending]"
proof -
  have route: "route_path jwt_approve = Some [''governance'', ''approvals'', ''u1'', ''approve'']" by code_simp
  have "rs_status (fst (admin demo_admin_env jwt_approve jwt_admin)) \<ge> 400 \<and>
      ps_governance (ad_pipeline (snd (admin demo_admin_env jwt_approve jwt_admin))) = ps_governance (ad_pipeline jwt_admin)"
  proof (rule jwt_gateways_decide_no_approval [OF _ _ _ _ _ _ _ route])
    show "gw_auth (ad_gateway jwt_admin) = Some jwt_auth" by (simp add: jwt_admin_def)
    show "au_method jwt_auth = MethodJwt" by code_simp
    show "ae_key demo_admin_env = Some ''secret''" by (simp add: demo_admin_env_def)
    show "map_of (hr_headers jwt_approve) ''Authorization'' = None" by code_simp
  qed (simp_all add: jwt_admin_def demo_admin_def demo_gateway_def errors_have_text_def)
  moreover have "map ap_status (approval_rows jwt_admin) = [Pending]" by code_simp
  ultimately show ?thesis by (simp add: approval_rows_def)
qed

end
