(* ===== verification/Managed.thy ===== *)
theory Managed
  imports Redaction Admin
begin

section \<open>The managed runtime (src/src/runtime/managed.ts)\<close>

text \<open>
  A stdio server whose package the gateway runs itself keeps its releases: a rollout adds one
  and makes it the active one, a rollback returns to a former one, and the routes under
  \<open>/conduit/runtime\<close> deploy the result and mark it healthy.  A server is the part of
  \<open>ServerConfig\<close> these functions read and write; the copy of a server through JSON is the server.
  The path library, the file system (\<open>mkdirSync\<close>) and the environment of the process are
  parameters, and so is how a server is put in the place of its predecessor (\<open>deploy_ops\<close>,
  \<open>admin_deploy\<close> being the one of the admin API).
\<close>

datatype runtime_channel = Stable | Beta | Canary | Pinned | OtherChannel string
datatype runtime_source = SourceNpm | SourcePypi | SourceOci | SourceCommand | SourceUnknown string
datatype release_status = ReleaseActive | ReleaseHealthy | ReleaseCandidate | ReleaseFailed | ReleaseRolledBack

type_synonym env_vars = "(string, string) jsmap"

record release =
  mr_id :: string
  mr_version :: string
  mr_channel :: runtime_channel
  mr_command :: string
  mr_args :: "string list option"
  mr_env :: "env_vars option"
  mr_created_at :: timestamp
  mr_status :: "release_status option"
  mr_notes :: "string option"

record sandbox_config =
  sx_enabled :: "bool option"
  sx_root_dir :: "string option"
  sx_sanitize_env :: "bool option"
  sx_allow_network :: "bool option"

record health_gate =
  hg_enabled :: "bool option"
  hg_auto_rollback :: "bool option"

record managed_runtime =
  mt_enabled :: bool
  mt_source_type :: runtime_source
  mt_source_ref :: string
  mt_channel :: runtime_channel
  mt_active_release_id :: string
  mt_last_healthy_release_id :: "string option"
  mt_last_rollout_at :: "timestamp option"
  mt_sandbox :: "sandbox_config option"
  mt_health_gate :: "health_gate option"
  mt_releases :: "release list"

record managed_server =
  ms_id :: string
  ms_url :: string
  ms_stdio :: bool
  ms_command :: "string option"
  ms_args :: "string list option"
  ms_env :: "env_vars option"
  ms_runtime :: "managed_runtime option"

record runtime_defaults =
  md_enabled :: bool
  md_root_dir :: string
  md_default_channel :: runtime_channel
  md_sanitize_env :: bool
  md_auto_rollback :: bool

record raw_defaults =
  rd_enabled :: "bool option"
  rd_root_dir :: "string option"
  rd_default_channel :: "runtime_channel option"
  rd_sanitize_env :: "bool option"
  rd_auto_rollback :: "bool option"

subsection \<open>Helpers\<close>

text \<open>A run of other characters becomes one hyphen.\<close>

definition token_char :: "char \<Rightarrow> bool" where
  "token_char c \<longleftrightarrow> is_alnum c \<or> c \<in> set ''._-''"

fun sanitize_from :: "bool \<Rightarrow> string \<Rightarrow> string" where
  "sanitize_from inside [] = []"
| "sanitize_from inside (c # cs) =
     (if token_char c then c # sanitize_from False cs
      else if inside then sanitize_from True cs else CHR ''-'' # sanitize_from True cs)"

definition sanitizeToken :: "string \<Rightarrow> string" where
  "sanitizeToken v = sanitize_from False v"

definition channel_name :: "runtime_channel \<Rightarrow> string" where
  "channel_name c = (case c of Stable \<Rightarrow> ''stable'' | Beta \<Rightarrow> ''beta'' | Canary \<Rightarrow> ''canary'' | Pinned \<Rightarrow> ''pinned''
     | OtherChannel s \<Rightarrow> s)"

definition release_id :: "runtime_channel \<Rightarrow> string \<Rightarrow> timestamp \<Rightarrow> string" where
  "release_id channel version now = channel_name channel @ ''-'' @ sanitizeToken version @ ''-'' @ show_int now"

text \<open>An empty list, an empty map and an empty text are left out.\<close>

definition nonempty :: "'a list option \<Rightarrow> 'a list option" where
  "nonempty v = (case v of Some [] \<Rightarrow> None | _ \<Rightarrow> v)"

definition createRelease ::
  "timestamp \<Rightarrow> runtime_channel \<Rightarrow> string \<Rightarrow> string \<Rightarrow> string list option \<Rightarrow> env_vars option \<Rightarrow> release_status \<Rightarrow>
   string option \<Rightarrow> release" where
  "createRelease now channel version command args env status notes =
     \<lparr>mr_id = release_id channel version now, mr_version = version, mr_channel = channel, mr_command = command,
      mr_args = nonempty args, mr_env = nonempty env, mr_created_at = now, mr_status = Some status,
      mr_notes = nonempty notes\<rparr>"

definition buildVersionedPackageIdentifier :: "string \<Rightarrow> string \<Rightarrow> string" where
  "buildVersionedPackageIdentifier identifier version =
     (if version = [] then identifier
      else if starts_with identifier ''@''
      then (if CHR ''@'' \<in> set (drop 1 identifier) then identifier else identifier @ ''@'' @ version)
      else if CHR ''@'' \<in> set identifier then identifier else identifier @ ''@'' @ version)"

definition flattenDockerEnv :: "env_vars \<Rightarrow> string list" where
  "flattenDockerEnv env = concat (map (\<lambda>(k, v). [''-e'', k @ ''='' @ v]) env)"

text \<open>The command, the arguments and the variables of a release; the error is its message.\<close>

definition buildReleaseCommand ::
  "runtime_source \<Rightarrow> string \<Rightarrow> string \<Rightarrow> env_vars \<Rightarrow> string option \<Rightarrow> string list option \<Rightarrow>
   string + string \<times> string list \<times> env_vars option" where
  "buildReleaseCommand sourceType sourceRef version env command args =
     (case sourceType of
        SourceNpm \<Rightarrow> Inr (''npx'', [''-y'', buildVersionedPackageIdentifier sourceRef version], nonempty (Some env))
      | SourcePypi \<Rightarrow>
          Inr (''uvx'', [if version \<noteq> [] then sourceRef @ ''=='' @ version else sourceRef], nonempty (Some env))
      | SourceOci \<Rightarrow> Inr (''docker'', [''run'', ''-i'', ''--rm''] @ flattenDockerEnv env @ [sourceRef], None)
      | SourceCommand \<Rightarrow>
          (case nonempty command of
             None \<Rightarrow> Inl ''Command runtimes must provide an explicit command to rollout''
           | Some c \<Rightarrow> Inr (c, default_to [] args, nonempty (Some env)))
      | SourceUnknown t \<Rightarrow> Inl (''Unsupported managed runtime source '' @ quoted t))"

definition resolveConnectManagedRuntimeConfig :: "raw_defaults option \<Rightarrow> runtime_defaults" where
  "resolveConnectManagedRuntimeConfig raw =
     \<lparr>md_enabled = (case raw of Some r \<Rightarrow> default_to True (rd_enabled r) | None \<Rightarrow> True),
      md_root_dir = (case raw of Some r \<Rightarrow> default_to ''./.conduit/runtime'' (rd_root_dir r) | None \<Rightarrow> ''./.conduit/runtime''),
      md_default_channel = (case raw of Some r \<Rightarrow> default_to Stable (rd_default_channel r) | None \<Rightarrow> Stable),
      md_sanitize_env = (case raw of Some r \<Rightarrow> default_to True (rd_sanitize_env r) | None \<Rightarrow> True),
      md_auto_rollback = (case raw of Some r \<Rightarrow> default_to True (rd_auto_rollback r) | None \<Rightarrow> True)\<rparr>"

definition isManagedRuntimeServer :: "managed_server \<Rightarrow> bool" where
  "isManagedRuntimeServer server \<longleftrightarrow>
     ms_stdio server \<and> (case ms_runtime server of Some r \<Rightarrow> mt_enabled r | None \<Rightarrow> False)"

definition find_release :: "string \<Rightarrow> release list \<Rightarrow> release option" where
  "find_release i rs = List.find (\<lambda>r. mr_id r = i) rs"

definition getActiveManagedRelease :: "managed_server \<Rightarrow> release option" where
  "getActiveManagedRelease server =
     (case ms_runtime server of
        None \<Rightarrow> None
      | Some r \<Rightarrow> if mt_enabled r then find_release (mt_active_release_id r) (mt_releases r) else None)"

definition createManagedRuntimeForPackage ::
  "(string \<Rightarrow> string \<Rightarrow> string) \<Rightarrow> timestamp \<Rightarrow> string \<Rightarrow> runtime_source \<Rightarrow> string \<Rightarrow> string \<Rightarrow> string \<Rightarrow> string list \<Rightarrow>
   env_vars option \<Rightarrow> raw_defaults option \<Rightarrow> managed_runtime" where
  "createManagedRuntimeForPackage join_path now serverId sourceType sourceRef version command args env raw =
     (let defaults = resolveConnectManagedRuntimeConfig raw;
          r = createRelease now (md_default_channel defaults) version command (Some args) env ReleaseActive None
      in \<lparr>mt_enabled = md_enabled defaults, mt_source_type = sourceType, mt_source_ref = sourceRef,
          mt_channel = mr_channel r, mt_active_release_id = mr_id r, mt_last_healthy_release_id = Some (mr_id r),
          mt_last_rollout_at = Some now,
          mt_sandbox = Some \<lparr>sx_enabled = Some True, sx_root_dir = Some (join_path (md_root_dir defaults) serverId),
                             sx_sanitize_env = Some (md_sanitize_env defaults), sx_allow_network = Some True\<rparr>,
          mt_health_gate = Some \<lparr>hg_enabled = Some True, hg_auto_rollback = Some (md_auto_rollback defaults)\<rparr>,
          mt_releases = [r]\<rparr>)"

text \<open>
  The server that connecting a package makes (src/src/connect/registry.ts);
  \<open>runtime_args\<close> are the arguments the package asks for, \<open>env\<close> its resolved variables.
\<close>

definition package_server ::
  "(string \<Rightarrow> string \<Rightarrow> string) \<Rightarrow> timestamp \<Rightarrow> string \<Rightarrow> runtime_source \<Rightarrow> string \<Rightarrow> string \<Rightarrow> string list \<Rightarrow>
   env_vars \<Rightarrow> raw_defaults option \<Rightarrow> managed_server option" where
  "package_server join_path now i source identifier version runtime_args env raw =
     (let make = (\<lambda>command args. Some
            \<lparr>ms_id = i, ms_url = ''stdio://'' @ command @ ''/'' @ identifier, ms_stdio = True, ms_command = Some command,
             ms_args = Some args, ms_env = nonempty (Some env),
             ms_runtime = Some (createManagedRuntimeForPackage join_path now i source identifier version command args
                                  (nonempty (Some env)) raw)\<rparr>)
      in case source of
           SourceNpm \<Rightarrow> make ''npx'' ([''-y'', buildVersionedPackageIdentifier identifier version] @ runtime_args)
         | SourcePypi \<Rightarrow> make ''uvx'' ((if version \<noteq> [] then identifier @ ''=='' @ version else identifier) # runtime_args)
         | SourceOci \<Rightarrow> make ''docker'' ([''run'', ''-i'', ''--rm'', identifier] @ runtime_args)
         | _ \<Rightarrow> None)"

subsection \<open>The environment of a process\<close>

text \<open>An environment is the list of its variables; the keys of \<open>process.env\<close> are distinct.\<close>

definition sandbox_keys :: "string list" where
  "sandbox_keys = [''PATH'', ''TMPDIR'', ''TMP'', ''TEMP'', ''LANG'', ''LC_ALL'', ''TERM'', ''SystemRoot'', ''ComSpec'', ''PATHEXT'']"

definition pickSandboxEnv :: "env_vars \<Rightarrow> env_vars" where
  "pickSandboxEnv env = List.map_filter (\<lambda>k. map_option (Pair k) (map_of env k)) sandbox_keys"

definition SANDBOX_ENV_DENYLIST_PREFIXES :: "string list" where
  "SANDBOX_ENV_DENYLIST_PREFIXES = [''npm_config_'', ''pip_'', ''pipx_'', ''poetry_'', ''uv_'', ''cargo_'']"

definition SANDBOX_ENV_DENYLIST_KEYS :: "string list" where
  "SANDBOX_ENV_DENYLIST_KEYS = [''NPM_TOKEN'', ''NODE_AUTH_TOKEN'', ''GITHUB_TOKEN'', ''GH_TOKEN'', ''GITLAB_TOKEN'',
     ''NUGET_API_KEY'', ''TWINE_USERNAME'', ''TWINE_PASSWORD'', ''PYPI_TOKEN'', ''AWS_ACCESS_KEY_ID'',
     ''AWS_SECRET_ACCESS_KEY'', ''AWS_SESSION_TOKEN'', ''GOOGLE_APPLICATION_CREDENTIALS'', ''CONDUIT_ADMIN_KEY'']"

definition leaky :: "string \<Rightarrow> bool" where
  "leaky k \<longleftrightarrow> list_ex (\<lambda>p. starts_with (to_lower k) p) SANDBOX_ENV_DENYLIST_PREFIXES \<or>
     map upper_char k \<in> set SANDBOX_ENV_DENYLIST_KEYS"

definition stripSandboxLeakyEnv :: "env_vars \<Rightarrow> env_vars" where
  "stripSandboxLeakyEnv env = filter (\<lambda>(k, v). \<not> leaky k) env"

text \<open>\<open>{ ...a, ...b }\<close>\<close>

definition merge_env :: "env_vars \<Rightarrow> env_vars \<Rightarrow> env_vars" where
  "merge_env a b = fold (\<lambda>(k, v). obj_insert k v) b a"

record host_system =
  sy_join :: "string \<Rightarrow> string \<Rightarrow> string"
  sy_resolve :: "string \<Rightarrow> string"
  sy_win32 :: bool
  sy_mkdir :: "string \<Rightarrow> string option"
  sy_env :: env_vars

record launch_spec =
  sp_command :: string
  sp_args :: "string list"
  sp_env :: env_vars
  sp_cwd :: "string option"

definition sandbox_flag :: "(sandbox_config \<Rightarrow> bool option) \<Rightarrow> managed_runtime \<Rightarrow> bool" where
  "sandbox_flag f r = (case mt_sandbox r of Some x \<Rightarrow> f x \<noteq> Some False | None \<Rightarrow> True)"

definition sandbox_root :: "host_system \<Rightarrow> string \<Rightarrow> managed_runtime \<Rightarrow> string" where
  "sandbox_root sy serverId r =
     (case mt_sandbox r of
        Some x \<Rightarrow> default_to (sy_join sy ''./.conduit/runtime'' serverId) (sx_root_dir x)
      | None \<Rightarrow> sy_join sy ''./.conduit/runtime'' serverId)"

definition sandbox_vars :: "host_system \<Rightarrow> string \<Rightarrow> managed_runtime \<Rightarrow> env_vars" where
  "sandbox_vars sy root r =
     [(''HOME'', root), (''XDG_CACHE_HOME'', sy_join sy root ''cache''), (''XDG_CONFIG_HOME'', sy_join sy root ''config''),
      (''XDG_DATA_HOME'', sy_join sy root ''data''), (''npm_config_cache'', sy_join sy root ''npm-cache''),
      (''PIP_CACHE_DIR'', sy_join sy root ''pip-cache''), (''UV_CACHE_DIR'', sy_join sy root ''uv-cache''),
      (''CONDUIT_SANDBOX_ROOT'', root),
      (''CONDUIT_SANDBOX_NETWORK'', if sandbox_flag sx_allow_network r then ''enabled'' else ''disabled'')]"

text \<open>\<open>Inl\<close> is the message of the error, \<open>Inr None\<close> a server that is not managed.\<close>

definition buildManagedRuntimeLaunchSpec :: "host_system \<Rightarrow> managed_server \<Rightarrow> string + launch_spec option" where
  "buildManagedRuntimeLaunchSpec sy server =
     (case ms_runtime server of
        None \<Rightarrow> Inr None
      | Some r \<Rightarrow>
          if \<not> isManagedRuntimeServer server then Inr None
          else (let rel = getActiveManagedRelease server;
                    command = (case rel of Some x \<Rightarrow> Some (mr_command x) | None \<Rightarrow> ms_command server);
                    args = default_to [] (case rel of
                             Some x \<Rightarrow> (case mr_args x of Some a \<Rightarrow> Some a | None \<Rightarrow> ms_args server)
                           | None \<Rightarrow> ms_args server)
                in case nonempty command of
                     None \<Rightarrow> Inl (''Managed runtime '' @ quoted (ms_id server) @ '' has no executable command'')
                   | Some c \<Rightarrow>
                       (case assertSafeSystemPath (sy_resolve sy) (sy_win32 sy) (sandbox_root sy (ms_id server) r)
                               (''managed_runtime.sandbox.root_dir for '' @ quoted (ms_id server)) of
                          Inl e \<Rightarrow> Inl e
                        | Inr root \<Rightarrow>
                            (let base = (if sandbox_flag sx_sanitize_env r then pickSandboxEnv (sy_env sy)
                                         else stripSandboxLeakyEnv (sy_env sy));
                                 own = (\<lambda>env. merge_env (merge_env env (default_to [] (ms_env server)))
                                         (case rel of Some x \<Rightarrow> default_to [] (mr_env x) | None \<Rightarrow> []))
                             in if sandbox_flag sx_enabled r
                                then (case sy_mkdir sy root of
                                        Some e \<Rightarrow> Inl (''Managed runtime '' @ quoted (ms_id server) @
                                                     '' failed to create sandbox at '' @ root @ '': '' @ e)
                                      | None \<Rightarrow> Inr (Some \<lparr>sp_command = c, sp_args = args,
                                                  sp_env = own (merge_env base (sandbox_vars sy root r)),
                                                  sp_cwd = Some root\<rparr>))
                                else Inr (Some \<lparr>sp_command = c, sp_args = args, sp_env = own base, sp_cwd = None\<rparr>)))))"

subsection \<open>Rollout and rollback\<close>

record rollout_input =
  ri_version :: string
  ri_channel :: "runtime_channel option"
  ri_env :: "env_vars option"
  ri_notes :: "string option"
  ri_command :: "string option"
  ri_args :: "string list option"

definition not_managed :: "managed_server \<Rightarrow> string" where
  "not_managed server = ''Server '' @ quoted (ms_id server) @ '' is not managed by the runtime plane''"

text \<open>The server runs a release: its command, arguments and variables are the release's.\<close>

definition run_release :: "release \<Rightarrow> managed_server \<Rightarrow> managed_server" where
  "run_release r server = server\<lparr>ms_command := Some (mr_command r), ms_args := Some (default_to [] (mr_args r)),
     ms_env := mr_env r\<rparr>"

definition demote :: "managed_runtime \<Rightarrow> release \<Rightarrow> release" where
  "demote rt r =
     (if mr_id r = mt_active_release_id rt
      then r\<lparr>mr_status := Some (if Some (mr_id r) = mt_last_healthy_release_id rt then ReleaseHealthy
                                else default_to ReleaseHealthy (mr_status r))\<rparr>
      else r)"

definition rolloutManagedRuntime ::
  "timestamp \<Rightarrow> rollout_input \<Rightarrow> managed_server \<Rightarrow> string + managed_server \<times> release" where
  "rolloutManagedRuntime now input server =
     (case ms_runtime server of
        None \<Rightarrow> Inl (not_managed server)
      | Some rt \<Rightarrow>
          if \<not> isManagedRuntimeServer server then Inl (not_managed server)
          else (let channel = default_to (mt_channel rt) (ri_channel input);
                    env = merge_env (default_to [] (ms_env server)) (default_to [] (ri_env input))
                in case buildReleaseCommand (mt_source_type rt) (mt_source_ref rt) (ri_version input) env
                          (ri_command input) (ri_args input) of
                     Inl e \<Rightarrow> Inl e
                   | Inr (command, args, vars) \<Rightarrow>
                       (let r = createRelease now channel (ri_version input) command (Some args) vars ReleaseCandidate
                                  (ri_notes input)
                        in Inr ((run_release r server)\<lparr>ms_runtime := Some (rt\<lparr>mt_channel := channel,
                                  mt_active_release_id := mr_id r, mt_last_rollout_at := Some now,
                                  mt_releases := map (demote rt) (mt_releases rt) @ [r]\<rparr>)\<rparr>, r))))"

datatype release_outcome = OutcomeHealthy | OutcomeFailed | OutcomeRolledBack

definition outcome_status :: "release_outcome \<Rightarrow> release_status" where
  "outcome_status out = (case out of OutcomeHealthy \<Rightarrow> ReleaseHealthy | OutcomeFailed \<Rightarrow> ReleaseFailed
     | OutcomeRolledBack \<Rightarrow> ReleaseRolledBack)"

definition markManagedRuntimeRelease :: "string \<Rightarrow> release_outcome \<Rightarrow> managed_server \<Rightarrow> managed_server" where
  "markManagedRuntimeRelease releaseId out server =
     (case ms_runtime server of
        None \<Rightarrow> server
      | Some rt \<Rightarrow>
          if \<not> mt_enabled rt then server
          else (let status = (if out = OutcomeHealthy \<and> mt_active_release_id rt = releaseId then ReleaseActive
                              else outcome_status out);
                    rt' = rt\<lparr>mt_releases := map (\<lambda>r. if mr_id r = releaseId then r\<lparr>mr_status := Some status\<rparr> else r) (mt_releases rt)\<rparr>
                in server\<lparr>ms_runtime := Some (if out = OutcomeHealthy then rt'\<lparr>mt_last_healthy_release_id := Some releaseId\<rparr> else rt')\<rparr>))"

definition rollback_target :: "string option \<Rightarrow> managed_runtime \<Rightarrow> string option" where
  "rollback_target releaseId rt =
     (case releaseId of
        Some i \<Rightarrow> Some i
      | None \<Rightarrow> (case mt_last_healthy_release_id rt of
                   Some i \<Rightarrow> Some i
                 | None \<Rightarrow> map_option mr_id (List.find (\<lambda>r. mr_id r \<noteq> mt_active_release_id rt) (mt_releases rt))))"

definition restore_status :: "string \<Rightarrow> string \<Rightarrow> release \<Rightarrow> release" where
  "restore_status current fallback r =
     (if mr_id r = current then r\<lparr>mr_status := Some ReleaseRolledBack\<rparr>
      else if mr_id r = fallback then r\<lparr>mr_status := Some ReleaseActive\<rparr> else r)"

definition rollbackManagedRuntime :: "timestamp \<Rightarrow> string option \<Rightarrow> managed_server \<Rightarrow> string + managed_server" where
  "rollbackManagedRuntime now releaseId server =
     (case ms_runtime server of
        None \<Rightarrow> Inl (not_managed server)
      | Some rt \<Rightarrow>
          if \<not> isManagedRuntimeServer server then Inl (not_managed server)
          else (case nonempty (rollback_target releaseId rt) of
                  None \<Rightarrow> Inl (''Managed runtime '' @ quoted (ms_id server) @ '' has no rollback target'')
                | Some fallback \<Rightarrow>
                    (case find_release fallback (mt_releases rt) of
                       None \<Rightarrow> Inl (''Managed runtime '' @ quoted (ms_id server) @ '' cannot find rollback release '' @ quoted fallback)
                     | Some target \<Rightarrow>
                         Inr ((run_release target server)\<lparr>ms_runtime := Some (rt\<lparr>
                           mt_releases := map (restore_status (mt_active_release_id rt) fallback) (mt_releases rt),
                           mt_active_release_id := fallback, mt_channel := mr_channel target,
                           mt_last_healthy_release_id := Some fallback, mt_last_rollout_at := Some now\<rparr>)\<rparr>))))"

subsection \<open>Deployment (src/src/admin/routes.ts)\<close>

text \<open>
  \<open>dp_replace\<close> puts a server in the place of the one with its id: it answers with the reason why
  it was skipped, if it was.  \<open>dp_healthy\<close> is whether the registry has the server as healthy.
\<close>

record 's deploy_ops =
  dp_replace :: "managed_server \<Rightarrow> 's \<Rightarrow> string option \<times> 's"
  dp_healthy :: "string \<Rightarrow> 's \<Rightarrow> bool"

definition gate_flag :: "(health_gate \<Rightarrow> bool option) \<Rightarrow> managed_server \<Rightarrow> bool" where
  "gate_flag f server =
     (case ms_runtime server of
        Some rt \<Rightarrow> (case mt_health_gate rt of Some g \<Rightarrow> f g \<noteq> Some False | None \<Rightarrow> True)
      | None \<Rightarrow> True)"

record deployment =
  dy_ok :: bool
  dy_current :: managed_server
  dy_rolledBack :: bool
  dy_reason :: "string option"

definition deployManagedRuntimeServer ::
  "'s deploy_ops \<Rightarrow> managed_server \<Rightarrow> managed_server \<Rightarrow> 's \<Rightarrow> deployment \<times> 's" where
  "deployManagedRuntimeServer ops previous new s =
     (case dp_replace ops new s of
        (Some reason, s1) \<Rightarrow>
          (\<lparr>dy_ok = False, dy_current = previous, dy_rolledBack = True, dy_reason = Some reason\<rparr>,
           snd (dp_replace ops previous s1))
      | (None, s1) \<Rightarrow>
          if gate_flag hg_enabled new \<and> \<not> dp_healthy ops (ms_id new) s1
          then (let auto = gate_flag hg_auto_rollback new
                in (\<lparr>dy_ok = False, dy_current = (if auto then previous else new), dy_rolledBack = auto,
                     dy_reason = Some ''health gate failed after rollout''\<rparr>,
                    if auto then snd (dp_replace ops previous s1) else s1))
          else (\<lparr>dy_ok = True, dy_current = new, dy_rolledBack = False, dy_reason = None\<rparr>, s1))"

text \<open>
  The input of a rollout from the body of its request, unless it names no version: a channel is
  any text.
\<close>

definition channel_of :: "string \<Rightarrow> runtime_channel" where
  "channel_of s =
     (if s = ''stable'' then Stable else if s = ''beta'' then Beta else if s = ''canary'' then Canary
      else if s = ''pinned'' then Pinned else OtherChannel s)"

definition rollout_body :: "json \<Rightarrow> rollout_input option" where
  "rollout_body body =
     (case text_field body ''version'' of
        None \<Rightarrow> None
      | Some v \<Rightarrow>
          if trim v = [] then None
          else Some
            \<lparr>ri_version = trim v, ri_channel = map_option channel_of (text_field body ''channel''),
             ri_env = (case field body ''env'' of JObj es \<Rightarrow> Some (map (\<lambda>(k, e). (k, js_string e)) es) | _ \<Rightarrow> None),
             ri_notes = text_field body ''notes'', ri_command = text_field body ''command'',
             ri_args = (case field body ''args'' of JArr xs \<Rightarrow> Some (map js_string xs) | _ \<Rightarrow> None)\<rparr>)"

text \<open>
  \<open>POST /rollout\<close> and \<open>POST /rollback\<close> on the configuration of the server: what it is afterwards,
  or the status of the refusal.  A server whose deployment fails keeps the configuration that
  was deployed last; where putting the former server back fails as well, the registry has lost the
  server (\<open>failed_replacement_loses_the_server\<close>) and the routes answer 404 from then on.
\<close>

definition runtime_rollout ::
  "'s deploy_ops \<Rightarrow> timestamp \<Rightarrow> rollout_input \<Rightarrow> managed_server \<times> 's \<Rightarrow> int \<times> managed_server \<times> 's" where
  "runtime_rollout ops now input st =
     (case st of (server, s) \<Rightarrow>
       if \<not> isManagedRuntimeServer server then (404, server, s)
       else case rolloutManagedRuntime now input server of
              Inl e \<Rightarrow> (400, server, s)
            | Inr (new, r) \<Rightarrow>
                (case deployManagedRuntimeServer ops server new s of
                   (d, s1) \<Rightarrow> if dy_ok d then (200, markManagedRuntimeRelease (mr_id r) OutcomeHealthy new, s1)
                              else (409, dy_current d, s1)))"

definition runtime_rollback ::
  "'s deploy_ops \<Rightarrow> timestamp \<Rightarrow> string option \<Rightarrow> managed_server \<times> 's \<Rightarrow> int \<times> managed_server \<times> 's" where
  "runtime_rollback ops now releaseId st =
     (case st of (server, s) \<Rightarrow>
       if \<not> isManagedRuntimeServer server then (404, server, s)
       else case rollbackManagedRuntime now releaseId server of
              Inl e \<Rightarrow> (400, server, s)
            | Inr new \<Rightarrow>
                (case deployManagedRuntimeServer ops server new s of
                   (d, s1) \<Rightarrow>
                     if dy_ok d
                     then (200, (case ms_runtime new of
                             Some rt \<Rightarrow> if mt_active_release_id rt \<noteq> []
                                        then markManagedRuntimeRelease (mt_active_release_id rt) OutcomeHealthy new else new
                           | None \<Rightarrow> new), s1)
                     else (409, dy_current d, s1)))"

text \<open>
  The deployment through the registry and the configuration of the admin API; \<open>encode\<close> is the
  \<open>ServerConfig\<close> of a managed server.
\<close>

definition admin_deploy ::
  "('c, 'r, 'b, 'q, 'j, 'p) admin_env \<Rightarrow> (managed_server \<Rightarrow> json) \<Rightarrow> ('c, 'r, 'b, 'q, 'j, 'p) admin_state deploy_ops" where
  "admin_deploy env encode =
     \<lparr>dp_replace = (\<lambda>server s. case addServersToConduit env True [encode server] s of
        (r, s') \<Rightarrow> (if im_skipped r \<noteq> [] then Some (snd (hd (im_skipped r)))
                    else if im_updated r = [] \<and> im_imported r = [] then Some ''rollout failed before health validation''
                    else None, s')),
      dp_healthy = (\<lambda>i s. case server_info_of i s of Some info \<Rightarrow> bh_healthy (si_health info) | None \<Rightarrow> False)\<rparr>"

end
