(* ===== verification/Connect_Registry.thy ===== *)
theory Connect_Registry
  imports Managed
begin

section \<open>The registry library (src/src/connect/registry.ts)\<close>

text \<open>
  The library lists the servers of the public MCP registry, scored, and makes the configuration
  of a server that is imported.  A document of the registry is the record its interface declares,
  an absent list being the empty one and a flag being whether the member is \<open>true\<close>; the
  \<open>_meta\<close> member is the JSON value it is.  \<open>Date.parse\<close>, \<open>localeCompare\<close> (\<open>collate a b\<close>: the sign
  of the comparison), the URL parser and the answers of the registry are parameters.
\<close>

record runtime_argument =
  ra_type :: "string option"
  ra_name :: "string option"
  ra_value :: "string option"

record declared_value =
  dv_name :: "string option"
  dv_description :: "string option"
  dv_isRequired :: bool
  dv_isSecret :: bool

record registry_package =
  rp_registryType :: "string option"
  rp_identifier :: "string option"
  rp_version :: "string option"
  rp_runtimeArguments :: "runtime_argument list"
  rp_environmentVariables :: "declared_value list"

record remote_variable =
  rw_description :: "string option"
  rw_isRequired :: bool
  rw_isSecret :: bool
  rw_default :: "string option"
  rw_choices :: "string list option"

record registry_remote =
  rr_url :: "string option"
  rr_variables :: "(string, remote_variable) jsmap"
  rr_headers :: "declared_value list"

record registry_document =
  od_name :: string
  od_title :: "string option"
  od_description :: "string option"
  od_version :: string
  od_repository_url :: "string option"
  od_packages :: "registry_package list"
  od_remotes :: "registry_remote list"

record registry_entry =
  re_server :: registry_document
  re_meta :: json

record official_meta =
  om_status :: "string option"
  om_publishedAt :: "string option"
  om_updatedAt :: "string option"
  om_isLatest :: "bool option"

datatype install_mode = ModeRemote | ModePackage | ModeHybrid
datatype readiness = LibReady | LibNeedsConfig | LibManual | LibBlocked
datatype import_strategy = ProxyRemote | HostPackage
datatype requirement_source = RemoteVariable | RemoteHeader | PackageEnv
datatype verification_basis = BasisRegistry | BasisNamespace | BasisScope | BasisUnverified
datatype score_label = Excellent | Good | Fair | Poor

record requirement_field =
  rf_key :: string
  rf_description :: "string option"
  rf_required :: bool
  rf_secret :: bool
  rf_source :: requirement_source
  rf_default_value :: "string option"
  rf_choices :: "string list option"

record requirements =
  qs_variables :: "requirement_field list"
  qs_headers :: "requirement_field list"
  qs_env :: "requirement_field list"

record import_option =
  io_strategy :: import_strategy
  io_readiness :: readiness
  io_requirements :: requirements
  io_remote :: "registry_remote option"
  io_package :: "registry_package option"

text \<open>A strategy that is \<open>None\<close> is the source's \<open>manual\<close>.\<close>

record import_support =
  su_autoImportable :: bool
  su_configurableImport :: bool
  su_readiness :: readiness
  su_strategy :: "import_strategy option"
  su_strategyOptions :: "import_strategy list"
  su_requirements :: requirements
  su_reason :: "string option"

record library_item =
  li_name :: string
  li_conduit_id :: string
  li_title :: string
  li_description :: string
  li_version :: string
  li_status :: string
  li_is_latest :: bool
  li_install_mode :: install_mode
  li_readiness :: readiness
  li_strategy :: "import_strategy option"
  li_score :: int
  li_score_label :: score_label
  li_auto_importable :: bool
  li_configurable_import :: bool
  li_package_types :: "string list"
  li_package_identifiers :: "string list"
  li_remote_patterns :: "string list"
  li_package_count :: nat
  li_remote_count :: nat
  li_required_config_count :: nat
  li_requirement_keys :: "string list"
  li_strategy_options :: "import_strategy list"
  li_import_requirements :: requirements
  li_verified_publisher :: bool
  li_publisher_label :: string
  li_verification_basis :: verification_basis
  li_repository_url :: "string option"
  li_published_at :: "string option"
  li_updated_at :: "string option"
  li_reasons :: "string list"

record stored_item =
  sl_item :: library_item
  sl_raw :: registry_document

subsection \<open>Helpers of the language\<close>

text \<open>
  A sort is stable: an element comes after those it compares equal to.  \<open>cmp\<close> is the callback;
  \<open>sorted_texts\<close> is \<open>sort\<close> without one, by the codes of the characters.
\<close>

fun insert_after :: "('a \<Rightarrow> 'a \<Rightarrow> int) \<Rightarrow> 'a \<Rightarrow> 'a list \<Rightarrow> 'a list" where
  "insert_after cmp x [] = [x]"
| "insert_after cmp x (y # ys) = (if cmp x y < 0 then x # y # ys else y # insert_after cmp x ys)"

definition sort_with :: "('a \<Rightarrow> 'a \<Rightarrow> int) \<Rightarrow> 'a list \<Rightarrow> 'a list" where
  "sort_with cmp xs = fold (insert_after cmp) xs []"

fun text_less :: "string \<Rightarrow> string \<Rightarrow> bool" where
  "text_less [] t = (t \<noteq> [])"
| "text_less (c # s) [] = False"
| "text_less (c # s) (d # t) = ((of_char c :: nat) < of_char d \<or> c = d \<and> text_less s t)"

definition sorted_texts :: "string list \<Rightarrow> string list" where
  "sorted_texts xs = sort_with (\<lambda>a b. if text_less a b then -1 else if a = b then 0 else 1) xs"

text \<open>\<open>Array.from(new Set(xs))\<close> keeps the first of equal elements.\<close>

fun distinct_first :: "'a list \<Rightarrow> 'a list" where
  "distinct_first [] = []"
| "distinct_first (x # xs) = x # distinct_first (filter (\<lambda>y. y \<noteq> x) xs)"

text \<open>\<open>a || b\<close>: the first comparison that decides.\<close>

definition or_compare :: "int \<Rightarrow> int \<Rightarrow> int" where
  "or_compare a b = (if a \<noteq> 0 then a else b)"

definition clamp :: "int \<Rightarrow> int \<Rightarrow> int \<Rightarrow> int" where
  "clamp v lo hi = max lo (min hi v)"

definition upper_hex_digit :: "nat \<Rightarrow> char" where
  "upper_hex_digit n = (if n < 10 then char_of (48 + n) else char_of (55 + n))"

definition percent_byte :: "nat \<Rightarrow> string" where
  "percent_byte n = [CHR ''%'', upper_hex_digit (n div 16), upper_hex_digit (n mod 16)]"

text \<open>A character below 256 is one byte of UTF-8 below 128 and two from there on.\<close>

definition encodeURIComponent :: "string \<Rightarrow> string" where
  "encodeURIComponent s = concat (map (\<lambda>c.
     if is_alnum c \<or> c \<in> set ''-_.!~*()'' \<or> c = CHR 0x27 then [c]
     else let n = of_char c :: nat
          in if n < 128 then percent_byte n else percent_byte (192 + n div 64) @ percent_byte (128 + n mod 64)) s)"

text \<open>The parts between the runs of characters outside \<open>P\<close>; the empty ones at the ends are dropped by the callers.\<close>

fun word_parts :: "(char \<Rightarrow> bool) \<Rightarrow> string \<Rightarrow> string \<Rightarrow> string list" where
  "word_parts P part [] = [part]"
| "word_parts P part (c # cs) = (if P c then word_parts P (part @ [c]) cs else part # word_parts P [] cs)"

definition texts :: "string list \<Rightarrow> string list" where
  "texts xs = filter (\<lambda>t. t \<noteq> []) xs"

definition uniqueStrings :: "string list \<Rightarrow> string list" where
  "uniqueStrings values = sorted_texts (distinct_first (texts values))"

subsection \<open>Requirements and strategies of an entry\<close>

definition emptyRequirements :: requirements where
  "emptyRequirements = \<lparr>qs_variables = [], qs_headers = [], qs_env = []\<rparr>"

definition countRequirements :: "requirements \<Rightarrow> nat" where
  "countRequirements q = length (filter rf_required (qs_variables q)) + length (filter rf_required (qs_headers q)) +
     length (filter rf_required (qs_env q))"

definition declared_field :: "requirement_source \<Rightarrow> declared_value \<Rightarrow> requirement_field option" where
  "declared_field src v =
     (case dv_name v of
        None \<Rightarrow> None
      | Some n \<Rightarrow>
          if trim n = [] then None
          else Some \<lparr>rf_key = n, rf_description = nonempty (dv_description v), rf_required = dv_isRequired v,
                     rf_secret = dv_isSecret v, rf_source = src, rf_default_value = None, rf_choices = None\<rparr>)"

definition variable_field :: "string \<Rightarrow> remote_variable \<Rightarrow> requirement_field" where
  "variable_field key v = \<lparr>rf_key = key, rf_description = nonempty (rw_description v), rf_required = rw_isRequired v,
     rf_secret = rw_isSecret v, rf_source = RemoteVariable, rf_default_value = rw_default v, rf_choices = rw_choices v\<rparr>"

definition buildRemoteRequirements :: "registry_remote \<Rightarrow> requirements" where
  "buildRemoteRequirements remote =
     \<lparr>qs_variables = map (\<lambda>(k, v). variable_field k v) (rr_variables remote),
      qs_headers = List.map_filter (declared_field RemoteHeader) (rr_headers remote), qs_env = []\<rparr>"

definition buildPackageRequirements :: "registry_package \<Rightarrow> requirements" where
  "buildPackageRequirements pkg =
     \<lparr>qs_variables = [], qs_headers = [],
      qs_env = List.map_filter (declared_field PackageEnv) (rp_environmentVariables pkg)\<rparr>"

definition normalizePackageType :: "string option \<Rightarrow> string" where
  "normalizePackageType v =
     (case v of
        Some t \<Rightarrow> if t \<in> set [''npm'', ''pypi'', ''nuget'', ''oci'', ''mcpb''] then t else ''unknown''
      | None \<Rightarrow> ''unknown'')"

definition canAutoImportPackage :: "registry_package \<Rightarrow> bool" where
  "canAutoImportPackage pkg \<longleftrightarrow> normalizePackageType (rp_registryType pkg) \<in> set [''npm'', ''pypi'', ''oci'']"

definition needed_readiness :: "requirements \<Rightarrow> readiness" where
  "needed_readiness q = (if countRequirements q > 0 then LibNeedsConfig else LibReady)"

definition compareImportOptions :: "import_option \<Rightarrow> import_option \<Rightarrow> int" where
  "compareImportOptions a b =
     (if io_readiness a \<noteq> io_readiness b then (if io_readiness a = LibReady then -1 else 1)
      else if io_strategy a = io_strategy b then 0
      else if io_strategy a = ProxyRemote then -1 else 1)"

definition deriveImportOptions :: "registry_document \<Rightarrow> import_option list" where
  "deriveImportOptions server =
     (let remotes = (case List.find (\<lambda>r. rr_url r \<noteq> None) (od_remotes server) of
            None \<Rightarrow> []
          | Some r \<Rightarrow> (let q = buildRemoteRequirements r
                       in [\<lparr>io_strategy = ProxyRemote, io_readiness = needed_readiness q, io_requirements = q,
                            io_remote = Some r, io_package = None\<rparr>]));
          packages = (case List.find canAutoImportPackage (od_packages server) of
            None \<Rightarrow> []
          | Some p \<Rightarrow> (let q = buildPackageRequirements p
                       in [\<lparr>io_strategy = HostPackage, io_readiness = needed_readiness q, io_requirements = q,
                            io_remote = None, io_package = Some p\<rparr>]))
      in sort_with compareImportOptions (remotes @ packages))"

definition findImportOption :: "registry_document \<Rightarrow> import_strategy \<Rightarrow> import_option option" where
  "findImportOption server st = List.find (\<lambda>x. io_strategy x = st) (deriveImportOptions server)"

definition deriveImportSupport :: "registry_document \<Rightarrow> import_support" where
  "deriveImportSupport server =
     (case deriveImportOptions server of
        preferred # others \<Rightarrow>
          \<lparr>su_autoImportable = (io_readiness preferred = LibReady), su_configurableImport = True,
           su_readiness = io_readiness preferred, su_strategy = Some (io_strategy preferred),
           su_strategyOptions = distinct_first (map io_strategy (preferred # others)),
           su_requirements = io_requirements preferred,
           su_reason = (if io_readiness preferred = LibNeedsConfig
                        then Some ''Required headers, variables, or environment values must be collected before import''
                        else None)\<rparr>
      | [] \<Rightarrow>
          \<lparr>su_autoImportable = False, su_configurableImport = False, su_readiness = LibManual, su_strategy = None,
           su_strategyOptions = [], su_requirements = emptyRequirements,
           su_reason = Some ''This registry entry cannot yet be mapped automatically into a managed Conduit runtime''\<rparr>)"

subsection \<open>The publisher of an entry\<close>

text \<open>
  \<open>parse_url\<close> is the host and the path of a URL, if it is one.  The interface of the meta data has no
  member \<open>publisherVerified\<close>, which the source reads: \<open>readOfficialMeta\<close> never sets it.
\<close>

type_synonym repository_parser = "string \<Rightarrow> (string \<times> string) option"

definition repository_owner :: "repository_parser \<Rightarrow> string option \<Rightarrow> string option" where
  "repository_owner parse_url url =
     (case nonempty url of
        None \<Rightarrow> None
      | Some u \<Rightarrow>
          (case parse_url u of
             None \<Rightarrow> None
           | Some (host, path) \<Rightarrow> (case texts (split_on (CHR ''/'') path) of w # ws \<Rightarrow> Some w | [] \<Rightarrow> None)))"

definition namespace_owner :: "string \<Rightarrow> string option" where
  "namespace_owner name =
     (case split_on (CHR ''.'') (hd (split_on (CHR ''/'') name)) of
        a # b # c # rest \<Rightarrow> nonempty (Some c)
      | _ \<Rightarrow> None)"

definition scope_of :: "string \<Rightarrow> string option" where
  "scope_of identifier =
     (case identifier of
        c # cs \<Rightarrow>
          (if c = CHR ''@'' \<and> CHR ''/'' \<in> set cs then nonempty (Some (hd (split_on (CHR ''/'') cs))) else None)
      | [] \<Rightarrow> None)"

fun findPackageScope :: "registry_package list \<Rightarrow> string option" where
  "findPackageScope [] = None"
| "findPackageScope (p # ps) =
     (case rp_identifier p of
        None \<Rightarrow> findPackageScope ps
      | Some i \<Rightarrow> (case scope_of i of Some s \<Rightarrow> Some s | None \<Rightarrow> findPackageScope ps))"

definition derivePublisherLabel :: "repository_parser \<Rightarrow> registry_document \<Rightarrow> string" where
  "derivePublisherLabel parse_url server =
     (case repository_owner parse_url (od_repository_url server) of
        Some w \<Rightarrow> w
      | None \<Rightarrow>
          (case findPackageScope (od_packages server) of
             Some s \<Rightarrow> s
           | None \<Rightarrow> default_to ''community'' (namespace_owner (od_name server))))"

definition same_name :: "string option \<Rightarrow> string option \<Rightarrow> bool" where
  "same_name a b = (case (a, b) of (Some v, Some w) \<Rightarrow> to_lower v = to_lower w | _ \<Rightarrow> False)"

record publisher_verification =
  pv_verified :: bool
  pv_basis :: verification_basis
  pv_label :: string
  pv_reason :: string

definition derivePublisherVerification :: "repository_parser \<Rightarrow> registry_document \<Rightarrow> publisher_verification" where
  "derivePublisherVerification parse_url server =
     (let owner = repository_owner parse_url (od_repository_url server)
      in if same_name owner (namespace_owner (od_name server))
         then \<lparr>pv_verified = True, pv_basis = BasisNamespace, pv_label = the owner,
               pv_reason = ''Repository owner matches the published registry namespace''\<rparr>
         else if same_name owner (findPackageScope (od_packages server))
         then \<lparr>pv_verified = True, pv_basis = BasisScope, pv_label = the owner,
               pv_reason = ''Package scope matches the declared repository owner''\<rparr>
         else \<lparr>pv_verified = False, pv_basis = BasisUnverified, pv_label = derivePublisherLabel parse_url server,
               pv_reason = ''Publisher identity could not be verified from repository or package metadata''\<rparr>)"

subsection \<open>The score of an entry\<close>

definition meta_text :: "json \<Rightarrow> string \<Rightarrow> string option" where
  "meta_text meta k = (case field meta k of JStr s \<Rightarrow> Some s | _ \<Rightarrow> None)"

definition readOfficialMeta :: "registry_entry \<Rightarrow> official_meta" where
  "readOfficialMeta entry =
     (case field (re_meta entry) ''io.modelcontextprotocol.registry/official'' of
        JObj ps \<Rightarrow>
          \<lparr>om_status = meta_text (JObj ps) ''status'', om_publishedAt = meta_text (JObj ps) ''publishedAt'',
           om_updatedAt = meta_text (JObj ps) ''updatedAt'',
           om_isLatest = (case field (JObj ps) ''isLatest'' of JBool b \<Rightarrow> Some b | _ \<Rightarrow> None)\<rparr>
      | _ \<Rightarrow> \<lparr>om_status = None, om_publishedAt = None, om_updatedAt = None, om_isLatest = None\<rparr>)"

definition deriveInstallMode :: "registry_document \<Rightarrow> install_mode" where
  "deriveInstallMode server =
     (if od_remotes server \<noteq> [] \<and> od_packages server \<noteq> [] then ModeHybrid
      else if od_remotes server \<noteq> [] then ModeRemote else ModePackage)"

definition listPackageTypes :: "registry_document \<Rightarrow> string list" where
  "listPackageTypes server =
     (let values = uniqueStrings (map (\<lambda>p. normalizePackageType (rp_registryType p)) (od_packages server))
      in if values \<noteq> [] then values else [''unknown''])"

definition listPackageIdentifiers :: "registry_document \<Rightarrow> string list" where
  "listPackageIdentifiers server = uniqueStrings (map (\<lambda>p. trim (default_to [] (rp_identifier p))) (od_packages server))"

definition listRemotePatterns :: "registry_document \<Rightarrow> string list" where
  "listRemotePatterns server = uniqueStrings (map (\<lambda>r. trim (default_to [] (rr_url r))) (od_remotes server))"

definition listRequirementKeys :: "requirements \<Rightarrow> string list" where
  "listRequirementKeys q = uniqueStrings (map rf_key (qs_variables q) @ map rf_key (qs_headers q) @ map rf_key (qs_env q))"

text \<open>\<open>parse_date\<close> is \<open>Date.parse\<close> in milliseconds; a day has 86400000 of them.\<close>

definition computeFreshnessBonus :: "(string \<Rightarrow> int option) \<Rightarrow> int \<Rightarrow> string option \<Rightarrow> int" where
  "computeFreshnessBonus parse_date now date =
     (case nonempty date of
        None \<Rightarrow> 0
      | Some s \<Rightarrow>
          (case parse_date s of
             None \<Rightarrow> 0
           | Some ms \<Rightarrow>
               if now - ms \<le> 30 * 86400000 then 10
               else if now - ms \<le> 180 * 86400000 then 6
               else if now - ms \<le> 365 * 86400000 then 3 else 0))"

text \<open>The lower-case words between runs of other characters, and the id of a server in the configuration.\<close>

definition lower_alnum :: "char \<Rightarrow> bool" where
  "lower_alnum c \<longleftrightarrow> is_alnum c \<and> upper_char c \<noteq> c \<or> is_digit c"

definition toConduitServerId :: "string \<Rightarrow> string" where
  "toConduitServerId name =
     (let ws = texts (word_parts lower_alnum [] (to_lower name))
      in if ws = [] then ''registry-server'' else join_with ''-'' ws)"

definition trailingName :: "string \<Rightarrow> string" where
  "trailingName name = last (split_on (CHR ''/'') name)"

definition strategy_name :: "import_strategy option \<Rightarrow> string" where
  "strategy_name st = (case st of Some ProxyRemote \<Rightarrow> ''proxy-remote'' | Some HostPackage \<Rightarrow> ''conduit-host-package''
     | None \<Rightarrow> ''manual'')"

text \<open>A deleted entry loses every way of importing it.\<close>

definition blocked_support :: import_support where
  "blocked_support = \<lparr>su_autoImportable = False, su_configurableImport = False, su_readiness = LibBlocked, su_strategy = None,
     su_strategyOptions = [], su_requirements = emptyRequirements,
     su_reason = Some ''Deleted registry entries are blocked from auto-import''\<rparr>"

text \<open>The points of an entry, each with the reason that is shown for it.\<close>

definition status_points :: "string \<Rightarrow> int \<times> string" where
  "status_points status =
     (if status = ''active'' then (30, ''Registry status is active'')
      else if status = ''deprecated'' then (12, ''Registry marks this server as deprecated'')
      else if status = ''deleted'' then (0, ''Registry marks this server as deleted'')
      else (8, ''Registry status is not explicitly active''))"

definition import_points :: "import_support \<Rightarrow> int \<times> string" where
  "import_points su =
     (if su_autoImportable su then (18, ''Conduit can auto-import this server via '' @ strategy_name (su_strategy su))
      else if su_configurableImport su \<and> su_readiness su = LibNeedsConfig
      then (6, default_to ''Extra configuration is required before import'' (su_reason su))
      else (0, default_to ''Manual setup is required'' (su_reason su)))"

definition required_text :: "nat \<Rightarrow> string" where
  "required_text n = show_nat n @ '' required runtime parameter'' @ (if n > 1 then ''s'' else []) @ '' must be provided''"

definition entry_points ::
  "string \<Rightarrow> official_meta \<Rightarrow> registry_document \<Rightarrow> publisher_verification \<Rightarrow> import_support \<Rightarrow> nat \<Rightarrow> int \<Rightarrow> (int \<times> string) list" where
  "entry_points status meta server publisher su needed bonus =
     (let hybrid = (deriveInstallMode server = ModeHybrid)
      in [status_points status]
       @ (if om_isLatest meta = Some True then [(10, ''Latest published version'')] else [])
       @ (if nonempty (od_repository_url server) \<noteq> None then [(10, ''Repository URL is published'')] else [])
       @ [if pv_verified publisher then (12, pv_reason publisher)
          else (0, ''Publisher identity could not be verified heuristically'')]
       @ (if od_remotes server \<noteq> [] then [(if hybrid then 20 else 24, ''Remote transport is advertised'')] else [])
       @ (if od_packages server \<noteq> [] then [(if hybrid then 14 else 18, ''Installable package metadata is published'')] else [])
       @ [import_points su]
       @ (if needed > 0 then [(- min 18 (int needed * 6), required_text needed)] else [])
       @ (if bonus > 0 then [(bonus, ''Metadata was updated recently'')] else []))"

definition label_of :: "int \<Rightarrow> score_label" where
  "label_of score = (if score \<ge> 85 then Excellent else if score \<ge> 70 then Good else if score \<ge> 45 then Fair else Poor)"

definition first_given :: "'a option \<Rightarrow> 'a option \<Rightarrow> 'a option" where
  "first_given a b = (case a of Some v \<Rightarrow> Some v | None \<Rightarrow> b)"

definition scoreOfficialEntry ::
  "repository_parser \<Rightarrow> (string \<Rightarrow> int option) \<Rightarrow> int \<Rightarrow> registry_document \<Rightarrow> official_meta \<Rightarrow> library_item" where
  "scoreOfficialEntry parse_url parse_date now server meta =
     (let derived = deriveImportSupport server;
          needed = countRequirements (su_requirements derived);
          status = default_to ''unknown'' (om_status meta);
          publisher = derivePublisherVerification parse_url server;
          su = (if status = ''deleted'' then blocked_support else derived);
          bonus = computeFreshnessBonus parse_date now (first_given (om_updatedAt meta) (om_publishedAt meta));
          points = entry_points status meta server publisher su needed bonus;
          score = clamp (sum_list (map fst points)) 0 100
      in \<lparr>li_name = od_name server, li_conduit_id = toConduitServerId (od_name server),
          li_title = default_to (trailingName (od_name server)) (od_title server),
          li_description = default_to ''No description provided.'' (od_description server),
          li_version = od_version server, li_status = status, li_is_latest = (om_isLatest meta = Some True),
          li_install_mode = deriveInstallMode server, li_readiness = su_readiness su, li_strategy = su_strategy su,
          li_score = score, li_score_label = label_of score,
          li_auto_importable = su_autoImportable su, li_configurable_import = su_configurableImport su,
          li_package_types = listPackageTypes server, li_package_identifiers = listPackageIdentifiers server,
          li_remote_patterns = listRemotePatterns server,
          li_package_count = length (od_packages server), li_remote_count = length (od_remotes server),
          li_required_config_count = needed, li_requirement_keys = listRequirementKeys (su_requirements derived),
          li_strategy_options = su_strategyOptions su, li_import_requirements = su_requirements su,
          li_verified_publisher = pv_verified publisher, li_publisher_label = pv_label publisher,
          li_verification_basis = pv_basis publisher, li_repository_url = nonempty (od_repository_url server),
          li_published_at = nonempty (om_publishedAt meta), li_updated_at = nonempty (om_updatedAt meta),
          li_reasons = map snd points\<rparr>)"

subsection \<open>Filters and pages\<close>

record library_filters =
  lf_search :: "string option"
  lf_status :: "string option"
  lf_install_mode :: "install_mode option"
  lf_readiness :: "readiness option"
  lf_package_type :: "string option"
  lf_min_score :: "int option"
  lf_auto_importable :: "bool option"
  lf_limit :: "int option"
  lf_offset :: "int option"

definition search_char :: "char \<Rightarrow> bool" where
  "search_char c \<longleftrightarrow> is_alnum c \<or> c \<in> set ''@._/-''"

definition tokenizeLibrarySearch :: "string \<Rightarrow> string list" where
  "tokenizeLibrarySearch v = texts (map trim (word_parts search_char [] (to_lower v)))"

definition basis_name :: "verification_basis \<Rightarrow> string" where
  "basis_name b = (case b of BasisRegistry \<Rightarrow> ''registry'' | BasisNamespace \<Rightarrow> ''namespace-repository-match''
     | BasisScope \<Rightarrow> ''package-scope-match'' | BasisUnverified \<Rightarrow> ''unverified'')"

definition haystack :: "library_item \<Rightarrow> string" where
  "haystack x = to_lower (join_with '' '' [li_name x, li_title x, li_conduit_id x, li_description x, li_publisher_label x,
     basis_name (li_verification_basis x), default_to [] (li_repository_url x), join_with '' '' (li_package_types x),
     join_with '' '' (li_package_identifiers x), join_with '' '' (li_remote_patterns x),
     join_with '' '' (li_requirement_keys x), join_with '' '' (li_reasons x)])"

text \<open>A filter that is absent, or an empty text, keeps every item.\<close>

definition unless_given :: "'a option \<Rightarrow> ('a \<Rightarrow> bool) \<Rightarrow> bool" where
  "unless_given v P = (case v of None \<Rightarrow> True | Some x \<Rightarrow> P x)"

definition library_match :: "library_filters \<Rightarrow> library_item \<Rightarrow> bool" where
  "library_match f x \<longleftrightarrow>
     unless_given (lf_search f) (\<lambda>s. list_all (js_includes (haystack x)) (tokenizeLibrarySearch (to_lower (trim s)))) \<and>
     unless_given (nonempty (lf_status f)) (\<lambda>s. li_status x = s) \<and>
     unless_given (lf_install_mode f) (\<lambda>m. li_install_mode x = m) \<and>
     unless_given (lf_readiness f) (\<lambda>r. li_readiness x = r) \<and>
     unless_given (nonempty (lf_package_type f)) (\<lambda>t. t \<in> set (li_package_types x)) \<and>
     unless_given (lf_min_score f) (\<lambda>n. n \<le> li_score x) \<and>
     unless_given (lf_auto_importable f) (\<lambda>b. li_auto_importable x = b)"

definition applyLibraryFilters :: "library_item list \<Rightarrow> library_filters \<Rightarrow> library_item list" where
  "applyLibraryFilters items f = filter (library_match f) items"

record 'a page =
  pg_limit :: nat
  pg_offset :: nat
  pg_total_filtered :: nat
  pg_page :: nat
  pg_total_pages :: nat
  pg_has_more :: bool
  pg_next_offset :: "nat option"
  pg_previous_offset :: "nat option"
  pg_items :: "'a list"

definition page_of :: "nat \<Rightarrow> nat \<Rightarrow> 'a list \<Rightarrow> 'a page" where
  "page_of lim off filtered =
     (let items = take lim (drop off filtered);
          more = off + length items < length filtered
      in \<lparr>pg_limit = lim, pg_offset = off, pg_total_filtered = length filtered,
          pg_page = (if lim > 0 then off div lim + 1 else 1),
          pg_total_pages = max 1 ((length filtered + lim - 1) div lim),
          pg_has_more = more, pg_next_offset = (if more then Some (off + lim) else None),
          pg_previous_offset = (if off > 0 then Some (off - lim) else None), pg_items = items\<rparr>)"

definition library_page :: "library_item list \<Rightarrow> library_filters \<Rightarrow> library_item page" where
  "library_page items f =
     page_of (nat (clamp (default_to 40 (lf_limit f)) 1 200)) (nat (max 0 (default_to 0 (lf_offset f))))
       (applyLibraryFilters items f)"

subsection \<open>The store\<close>

record registry_settings =
  rg_cache_ttl_seconds :: int
  rg_max_pages :: int
  rg_latest_only :: bool

record raw_settings =
  rx_base_url :: "string option"
  rx_cache_ttl_seconds :: "int option"
  rx_page_size :: "int option"
  rx_max_pages :: "int option"
  rx_latest_only :: "bool option"

definition resolveConnectRegistryConfig :: "raw_settings option \<Rightarrow> registry_settings" where
  "resolveConnectRegistryConfig raw =
     (case raw of
        None \<Rightarrow> \<lparr>rg_cache_ttl_seconds = 3600, rg_max_pages = 0, rg_latest_only = True\<rparr>
      | Some r \<Rightarrow> \<lparr>rg_cache_ttl_seconds = default_to 3600 (rx_cache_ttl_seconds r),
                   rg_max_pages = default_to 0 (rx_max_pages r), rg_latest_only = default_to True (rx_latest_only r)\<rparr>)"

text \<open>
  \<open>registry n cursor\<close> is the answer to the request number \<open>n\<close> of a refresh: the message of the
  failure, or the entries and the cursor of the next page.  The loop ends when there is no
  cursor or the pages are used up; \<open>None\<close> is a refresh that does not end.
\<close>

record registry_page =
  ry_servers :: "registry_entry list"
  ry_nextCursor :: "string option"

type_synonym registry_source = "nat \<Rightarrow> string option \<Rightarrow> string + registry_page"

definition page_entries :: "registry_settings \<Rightarrow> registry_page \<Rightarrow> registry_entry list" where
  "page_entries cfg p =
     (if rg_latest_only cfg then filter (\<lambda>e. om_isLatest (readOfficialMeta e) = Some True) (ry_servers p) else ry_servers p)"

partial_function (option) fetch_from ::
  "registry_settings \<Rightarrow> registry_source \<Rightarrow> nat \<Rightarrow> string option \<Rightarrow> registry_entry list \<Rightarrow>
   (string + registry_entry list) option" where
  "fetch_from cfg registry n cursor entries =
     (if rg_max_pages cfg = 0 \<or> int n < rg_max_pages cfg
      then (case registry n (nonempty cursor) of
              Inl e \<Rightarrow> Some (Inl e)
            | Inr p \<Rightarrow>
                (let entries' = entries @ page_entries cfg p
                 in if nonempty (ry_nextCursor p) = None then Some (Inr entries')
                    else fetch_from cfg registry (Suc n) (ry_nextCursor p) entries'))
      else Some (Inr entries))"

definition fetchAllEntries :: "registry_settings \<Rightarrow> registry_source \<Rightarrow> (string + registry_entry list) option" where
  "fetchAllEntries cfg registry = fetch_from cfg registry 0 None []"

record library_state =
  ls_cacheExpiresAt :: int
  ls_syncedAt :: "int option"
  ls_lastError :: "string option"
  ls_cached :: "stored_item list"

definition empty_library :: library_state where
  "empty_library = \<lparr>ls_cacheExpiresAt = 0, ls_syncedAt = None, ls_lastError = None, ls_cached = []\<rparr>"

record library_env =
  le_parse_url :: repository_parser
  le_parse_date :: "string \<Rightarrow> int option"
  le_collate :: "string \<Rightarrow> string \<Rightarrow> int"
  le_settings :: registry_settings

definition compareLibraryItems :: "(string \<Rightarrow> string \<Rightarrow> int) \<Rightarrow> stored_item \<Rightarrow> stored_item \<Rightarrow> int" where
  "compareLibraryItems collate a b =
     or_compare (li_score (sl_item b) - li_score (sl_item a))
       (or_compare (of_bool (li_auto_importable (sl_item b)) - of_bool (li_auto_importable (sl_item a)))
          (collate (li_name (sl_item a)) (li_name (sl_item b))))"

definition library_of :: "library_env \<Rightarrow> int \<Rightarrow> registry_entry list \<Rightarrow> stored_item list" where
  "library_of env now entries =
     sort_with (compareLibraryItems (le_collate env))
       (map (\<lambda>e. \<lparr>sl_item = scoreOfficialEntry (le_parse_url env) (le_parse_date env) now (re_server e) (readOfficialMeta e),
                  sl_raw = re_server e\<rparr>)
          (filter (\<lambda>e. od_name (re_server e) \<noteq> [] \<and> od_version (re_server e) \<noteq> []) entries))"

definition shouldRefresh :: "int \<Rightarrow> library_state \<Rightarrow> bool" where
  "shouldRefresh now st \<longleftrightarrow> ls_cached st = [] \<or> ls_cacheExpiresAt st \<le> now"

text \<open>\<open>Inl\<close> is the error that is thrown: only an empty library has nothing to fall back on.\<close>

definition refresh ::
  "library_env \<Rightarrow> int \<Rightarrow> registry_source \<Rightarrow> bool \<Rightarrow> library_state \<Rightarrow> (string option \<times> library_state) option" where
  "refresh env now registry force st =
     (if \<not> force \<and> \<not> shouldRefresh now st then Some (None, st)
      else map_option (\<lambda>r. case r of
             Inr entries \<Rightarrow>
               (None, st\<lparr>ls_cached := library_of env now entries, ls_syncedAt := Some now,
                         ls_cacheExpiresAt := now + rg_cache_ttl_seconds (le_settings env) * 1000, ls_lastError := None\<rparr>)
           | Inl e \<Rightarrow>
               (if ls_cached st = [] then (Some (''Unable to refresh official MCP registry: '' @ e), st)
                else (None, st\<lparr>ls_lastError := Some e\<rparr>)))
         (fetchAllEntries (le_settings env) registry))"

definition ensureFresh ::
  "library_env \<Rightarrow> int \<Rightarrow> registry_source \<Rightarrow> library_state \<Rightarrow> (string option \<times> library_state) option" where
  "ensureFresh env now registry st = (if shouldRefresh now st then refresh env now registry True st else Some (None, st))"

subsection \<open>Import plans\<close>

record import_options =
  ix_strategy :: "import_strategy option"
  ix_variables :: "(string, string) jsmap"
  ix_headers :: "(string, string) jsmap"
  ix_env :: "(string, string) jsmap"

definition requirement_source_name :: "requirement_source \<Rightarrow> string" where
  "requirement_source_name s = (case s of RemoteVariable \<Rightarrow> ''remote-variable'' | RemoteHeader \<Rightarrow> ''remote-header''
     | PackageEnv \<Rightarrow> ''package-env'')"

text \<open>The value of a requirement, \<open>None\<close> being undefined; \<open>Inl\<close> is the message of the error.\<close>

definition resolveRequirementValue :: "requirement_field \<Rightarrow> string option \<Rightarrow> string + string option" where
  "resolveRequirementValue q supplied =
     (let v = (case nonempty (map_option trim supplied) of Some s \<Rightarrow> Some s | None \<Rightarrow> rf_default_value q)
      in if nonempty v = None \<and> rf_required q
         then Inl (''Missing required '' @ requirement_source_name (rf_source q) @ '' value '' @ quote (rf_key q))
         else case (nonempty v, nonempty (rf_choices q)) of
                (Some s, Some cs) \<Rightarrow>
                  (if s \<in> set cs then Inr v
                   else Inl (''Invalid value for '' @ quote (rf_key q) @ ''. Expected one of: '' @ join_with '', '' cs))
              | _ \<Rightarrow> Inr v)"

fun resolve_map :: "requirement_field list \<Rightarrow> (string, string) jsmap \<Rightarrow> (string, string) jsmap \<Rightarrow> string + (string, string) jsmap" where
  "resolve_map [] supplied resolved = Inr resolved"
| "resolve_map (q # qs) supplied resolved =
     (case resolveRequirementValue q (map_of supplied (rf_key q)) of
        Inl e \<Rightarrow> Inl e
      | Inr None \<Rightarrow> resolve_map qs supplied resolved
      | Inr (Some v) \<Rightarrow> resolve_map qs supplied (obj_assign (rf_key q) v resolved))"

definition resolveRequirementMap :: "requirement_field list \<Rightarrow> (string, string) jsmap \<Rightarrow> string + (string, string) jsmap" where
  "resolveRequirementMap qs supplied = resolve_map qs supplied []"

text \<open>\<open>replaceAll\<close> with a text that is not empty; the replacement has no \<open>$\<close>.\<close>

function replaceAll :: "string \<Rightarrow> string \<Rightarrow> string \<Rightarrow> string" where
  "replaceAll w by s =
     (case s of
        [] \<Rightarrow> []
      | c # cs \<Rightarrow> if w \<noteq> [] \<and> prefix w s then by @ replaceAll w by (drop (length w) s) else c # replaceAll w by cs)"
  by pat_completeness auto
termination by (relation "measure (\<lambda>(w, by, s). length s)") auto

declare replaceAll.simps [simp del]

text \<open>The names between braces that hold no brace themselves.\<close>

definition no_brace :: "char \<Rightarrow> bool" where
  "no_brace c \<longleftrightarrow> c \<noteq> CHR ''{'' \<and> c \<noteq> CHR ''}''"

fun placeholders :: "string \<Rightarrow> string list" where
  "placeholders [] = []"
| "placeholders (c # cs) =
     (if c = CHR ''{'' \<and> takeWhile no_brace cs \<noteq> [] \<and> prefix [CHR ''}''] (dropWhile no_brace cs)
      then takeWhile no_brace cs # placeholders cs else placeholders cs)"

fun fill_template :: "requirement_field list \<Rightarrow> (string, string) jsmap \<Rightarrow> string \<Rightarrow> string + string" where
  "fill_template [] supplied resolved = Inr resolved"
| "fill_template (q # qs) supplied resolved =
     (case resolveRequirementValue q (map_of supplied (rf_key q)) of
        Inl e \<Rightarrow> Inl e
      | Inr None \<Rightarrow> fill_template qs supplied resolved
      | Inr (Some v) \<Rightarrow> fill_template qs supplied
          (replaceAll (CHR ''{'' # rf_key q @ ''}'') (encodeURIComponent v) resolved))"

definition resolveRemoteUrl :: "string \<Rightarrow> requirement_field list \<Rightarrow> (string, string) jsmap \<Rightarrow> string + string" where
  "resolveRemoteUrl template qs supplied =
     (case fill_template qs supplied template of
        Inl e \<Rightarrow> Inl e
      | Inr url \<Rightarrow>
          (if placeholders url = [] then Inr url
           else Inl (''Missing URL template values for '' @ join_with '', '' (distinct_first (placeholders url)))))"

definition normalizeRuntimeFlag :: "string \<Rightarrow> string" where
  "normalizeRuntimeFlag v =
     (let t = trim v
      in if t = [] then [] else if starts_with t ''-'' then t
         else if length t = 1 then CHR ''-'' # t else ''--'' @ t)"

definition runtime_words :: "runtime_argument \<Rightarrow> string list" where
  "runtime_words a =
     (let kind = default_to ''positional'' (ra_type a); name = trim (default_to [] (ra_name a)); v = default_to [] (ra_value a)
      in if kind = ''positional'' then (if trim v \<noteq> [] then [v] else [])
         else if (kind = ''flag'' \<or> kind = ''switch'') \<and> (name \<noteq> [] \<or> v \<noteq> [])
         then texts [normalizeRuntimeFlag (if name \<noteq> [] then name else v)]
         else if (kind = ''option'' \<or> kind = ''named'') \<and> name \<noteq> [] \<and> trim v \<noteq> []
         then (if normalizeRuntimeFlag name \<noteq> [] then [normalizeRuntimeFlag name, v] else [])
         else [])"

definition buildPackageRuntimeArguments :: "registry_package \<Rightarrow> string list" where
  "buildPackageRuntimeArguments pkg = concat (map runtime_words (rp_runtimeArguments pkg))"

text \<open>What is imported: a remote server with its headers, or a package the gateway runs.\<close>

datatype imported_server =
    ImportedRemote string string "(string, string) jsmap"
  | ImportedPackage managed_server

definition package_source :: "registry_package \<Rightarrow> runtime_source" where
  "package_source pkg =
     (let t = normalizePackageType (rp_registryType pkg)
      in if t = ''npm'' then SourceNpm else if t = ''pypi'' then SourcePypi else if t = ''oci'' then SourceOci
         else SourceUnknown t)"

definition buildServerConfigFromOfficialServer ::
  "(string \<Rightarrow> string \<Rightarrow> string) \<Rightarrow> timestamp \<Rightarrow> raw_defaults option \<Rightarrow> registry_document \<Rightarrow> import_option \<Rightarrow> import_options \<Rightarrow>
   string + imported_server" where
  "buildServerConfigFromOfficialServer join_path now defaults server opt input =
     (let i = toConduitServerId (od_name server); q = io_requirements opt;
          no_way = Inl (''Registry server '' @ quote (od_name server) @ '' cannot be converted into a Conduit server config automatically'')
      in case (case io_remote opt of Some r \<Rightarrow> nonempty (rr_url r) | None \<Rightarrow> None) of
           Some template \<Rightarrow>
             (case resolveRemoteUrl template (qs_variables q) (ix_variables input) of
                Inl e \<Rightarrow> Inl e
              | Inr url \<Rightarrow> map_sum id (ImportedRemote i url) (resolveRequirementMap (qs_headers q) (ix_headers input)))
         | None \<Rightarrow>
             (case io_package opt of
                None \<Rightarrow> no_way
              | Some p \<Rightarrow>
                  (case resolveRequirementMap (qs_env q) (ix_env input) of
                     Inl e \<Rightarrow> Inl e
                   | Inr env \<Rightarrow>
                       (case package_server join_path now i (package_source p) (default_to [] (rp_identifier p))
                               (default_to (od_version server) (rp_version p)) (buildPackageRuntimeArguments p) env defaults of
                          Some s \<Rightarrow> Inr (ImportedPackage s)
                        | None \<Rightarrow> no_way))))"

definition findOfficialServer :: "stored_item list \<Rightarrow> string \<Rightarrow> string \<Rightarrow> stored_item option" where
  "findOfficialServer cached name version =
     List.find (\<lambda>x. od_name (sl_raw x) = name \<and>
       (if version = ''latest'' then li_is_latest (sl_item x) else od_version (sl_raw x) = version)) cached"

record import_plan =
  ip_server :: imported_server
  ip_name :: string
  ip_version :: string
  ip_strategy :: import_strategy

text \<open>
  The plan from the library as it is once it is fresh.  The error for a strategy that is
  \<open>manual\<close> cannot arise: an entry that can be imported has a strategy.
\<close>

definition import_plan_of ::
  "(string \<Rightarrow> string \<Rightarrow> string) \<Rightarrow> timestamp \<Rightarrow> raw_defaults option \<Rightarrow> stored_item list \<Rightarrow> string \<Rightarrow> string \<Rightarrow> import_options \<Rightarrow>
   string + import_plan" where
  "import_plan_of join_path now defaults cached name version input =
     (case findOfficialServer cached name version of
        None \<Rightarrow> Inl (''Registry server '' @ quote name @ '' ('' @ version @ '') not found in cached library'')
      | Some sel \<Rightarrow>
          if li_status (sl_item sel) = ''deleted''
          then Inl (''Registry server '' @ quote name @ '' is marked as deleted and cannot be auto-imported'')
          else (let su = deriveImportSupport (sl_raw sel)
                in if \<not> su_configurableImport su
                   then Inl (default_to (''Registry server '' @ quote name @ '' requires manual configuration before import'') (su_reason su))
                   else case first_given (ix_strategy input) (su_strategy su) of
                          None \<Rightarrow> Inl (''Registry server '' @ quote name @ '' does not expose a managed Conduit import strategy'')
                        | Some st \<Rightarrow>
                            (case findImportOption (sl_raw sel) st of
                               None \<Rightarrow> Inl (''Registry server '' @ quote name @ '' does not support strategy '' @ quote (strategy_name (Some st)))
                             | Some opt \<Rightarrow>
                                 map_sum id (\<lambda>s. \<lparr>ip_server = s, ip_name = od_name (sl_raw sel),
                                    ip_version = od_version (sl_raw sel), ip_strategy = io_strategy opt\<rparr>)
                                   (buildServerConfigFromOfficialServer join_path now defaults (sl_raw sel) opt input))))"

definition createImportPlan ::
  "library_env \<Rightarrow> (string \<Rightarrow> string \<Rightarrow> string) \<Rightarrow> timestamp \<Rightarrow> registry_source \<Rightarrow> raw_defaults option \<Rightarrow> string \<Rightarrow> string \<Rightarrow> import_options \<Rightarrow>
   library_state \<Rightarrow> ((string + import_plan) \<times> library_state) option" where
  "createImportPlan env join_path now registry defaults name version input st =
     map_option (\<lambda>(e, st1). ((case e of Some m \<Rightarrow> Inl m
          | None \<Rightarrow> import_plan_of join_path now defaults (ls_cached st1) name version input), st1))
       (ensureFresh env now registry st)"

end
