(* ===== verification/Connect_Laws.thy ===== *)
theory Connect_Laws
  imports Connect_Registry
begin

section \<open>The registry library: refreshes, pages and imports\<close>

text \<open>
  A refresh ends when the number of pages is bounded, and need not otherwise.  Whatever the
  registry answers, the library is sorted, scored within its bounds and blocks what was deleted;
  pages cover it; and what an import plan configures has the values its entry requires.
\<close>

subsection \<open>Refreshes\<close>

lemma fetch_from_ends:
  assumes "0 < rg_max_pages cfg" "m = nat (rg_max_pages cfg) - n"
  shows "\<exists>r. fetch_from cfg registry n cursor entries = Some r"
  using assms(2)
proof (induction m arbitrary: n cursor entries)
  case 0
  with assms(1) show ?case by (subst fetch_from.simps) auto
next
  case (Suc m)
  then have "m = nat (rg_max_pages cfg) - Suc n" by simp
  with Suc.IH assms(1) show ?case
    by (subst fetch_from.simps) (auto simp: Let_def split: sum.splits)
qed

text \<open>C39. A refresh of the registry library ends when its pages are bounded: for any answers of the
  registry, failures and endless cursors included, the loop over the pages returns.\<close>

theorem bounded_refreshes_end:
  assumes "0 < rg_max_pages (le_settings env)"
  shows "\<exists>e st'. refresh env now registry force st = Some (e, st')"
proof -
  obtain r where "fetchAllEntries (le_settings env) registry = Some r"
    using fetch_from_ends [OF assms refl] unfolding fetchAllEntries_def by blast
  then show ?thesis by (cases r) (simp_all add: refresh_def)
qed

definition endless_registry :: registry_source where
  "endless_registry n cursor = Inr \<lparr>ry_servers = [], ry_nextCursor = Some ''more''\<rparr>"

definition demo_library :: "int \<Rightarrow> library_env" where
  "demo_library pages = \<lparr>le_parse_url = (\<lambda>_. None), le_parse_date = (\<lambda>_. None), le_collate = (\<lambda>a b. int (length a) - int (length b)),
     le_settings = \<lparr>rg_cache_ttl_seconds = 3600, rg_max_pages = pages, rg_latest_only = True\<rparr>\<rparr>"

theorem bounded_refreshes_end_witness:
  "\<exists>e st'. refresh (demo_library 3) 0 endless_registry True empty_library = Some (e, st')"
  by (rule bounded_refreshes_end) (simp add: demo_library_def)

text \<open>By default the pages are not bounded: a registry that always names a next page holds the refresh for ever.\<close>

lemma fetch_from_endless:
  assumes "fetch_from cfg registry n cursor entries = Some r"
  shows "rg_max_pages cfg = 0 \<longrightarrow> registry = endless_registry \<longrightarrow> False"
  by (rule fetch_from.raw_induct [where P = "\<lambda>cfg registry n cursor entries r.
        rg_max_pages cfg = 0 \<longrightarrow> registry = endless_registry \<longrightarrow> False", OF _ assms])
    (auto simp: endless_registry_def Let_def nonempty_def, metis endless_registry_def)

lemma default_refresh_may_not_end:
  "fetchAllEntries (resolveConnectRegistryConfig None) endless_registry = None"
proof (cases "fetchAllEntries (resolveConnectRegistryConfig None) endless_registry")
  case (Some r)
  have "rg_max_pages (resolveConnectRegistryConfig None) = 0" by (simp add: resolveConnectRegistryConfig_def)
  with fetch_from_endless [OF Some [unfolded fetchAllEntries_def]] show ?thesis by blast
qed

subsection \<open>Sorting\<close>

definition preorder_cmp :: "('a \<Rightarrow> 'a \<Rightarrow> int) \<Rightarrow> bool" where
  "preorder_cmp cmp \<longleftrightarrow> (\<forall>a b. cmp a b \<le> 0 \<longleftrightarrow> \<not> cmp b a < 0) \<and>
     (\<forall>a b c. cmp a b \<le> 0 \<longrightarrow> cmp b c \<le> 0 \<longrightarrow> cmp a c \<le> 0)"

lemma set_insert_after [simp]: "set (insert_after cmp x ys) = insert x (set ys)"
  by (induction ys) auto

lemma set_sort_with [simp]: "set (sort_with cmp xs) = set xs"
proof -
  have "set (fold (insert_after cmp) xs ys) = set xs \<union> set ys" for ys
    by (induction xs arbitrary: ys) auto
  then show ?thesis by (simp add: sort_with_def)
qed

lemma sorted_insert_after:
  assumes "preorder_cmp cmp" "sorted_wrt (\<lambda>a b. cmp a b \<le> 0) ys"
  shows "sorted_wrt (\<lambda>a b. cmp a b \<le> 0) (insert_after cmp x ys)"
  using assms(2)
proof (induction ys)
  case (Cons y ys)
  show ?case
  proof (cases "cmp x y < 0")
    case True
    with assms(1) Cons.prems show ?thesis by (force simp: preorder_cmp_def)
  next
    case False
    with assms(1) have "cmp y x \<le> 0" by (simp add: preorder_cmp_def)
    with False Cons show ?thesis by simp
  qed
qed simp

lemma sorted_sort_with:
  assumes "preorder_cmp cmp"
  shows "sorted_wrt (\<lambda>a b. cmp a b \<le> 0) (sort_with cmp xs)"
proof -
  have "sorted_wrt (\<lambda>a b. cmp a b \<le> 0) (fold (insert_after cmp) xs ys)" if "sorted_wrt (\<lambda>a b. cmp a b \<le> 0) ys" for ys
    using that by (induction xs arbitrary: ys) (auto simp: sorted_insert_after [OF assms])
  then show ?thesis by (simp add: sort_with_def)
qed

lemma or_preorder:
  fixes key :: "'a \<Rightarrow> int"
  assumes "preorder_cmp cmp"
  shows "preorder_cmp (\<lambda>a b. or_compare (key b - key a) (cmp a b))"
  unfolding preorder_cmp_def or_compare_def
proof (intro conjI allI impI)
  fix a b c
  have cmp: "cmp a b \<le> 0 \<longleftrightarrow> \<not> cmp b a < 0" "cmp a b \<le> 0 \<Longrightarrow> cmp b c \<le> 0 \<Longrightarrow> cmp a c \<le> 0"
    using assms unfolding preorder_cmp_def by blast+
  show "(if key b - key a \<noteq> 0 then key b - key a else cmp a b) \<le> 0 \<longleftrightarrow>
      \<not> (if key a - key b \<noteq> 0 then key a - key b else cmp b a) < 0"
    using cmp(1) by auto
  assume "(if key b - key a \<noteq> 0 then key b - key a else cmp a b) \<le> 0"
    "(if key c - key b \<noteq> 0 then key c - key b else cmp b c) \<le> 0"
  then show "(if key c - key a \<noteq> 0 then key c - key a else cmp a c) \<le> 0"
    using cmp(2) by (auto split: if_splits)
qed

lemma key_preorder: "preorder_cmp cmp \<Longrightarrow> preorder_cmp (\<lambda>a b. cmp (f a) (f b))"
  unfolding preorder_cmp_def by blast

lemma library_preorder:
  assumes "preorder_cmp collate"
  shows "preorder_cmp (compareLibraryItems collate)"
  using or_preorder [OF or_preorder [OF key_preorder [OF assms, of "\<lambda>x. li_name (sl_item x)"],
      of "\<lambda>x. of_bool (li_auto_importable (sl_item x))"], of "\<lambda>x. li_score (sl_item x)"]
  by (simp add: compareLibraryItems_def [abs_def])

subsection \<open>The library\<close>

text \<open>The events of a store: when it is refreshed, forced or not, and what the registry answers then.\<close>

fun library_run :: "library_env \<Rightarrow> (int \<times> registry_source \<times> bool) list \<Rightarrow> library_state \<Rightarrow> library_state option" where
  "library_run env [] st = Some st"
| "library_run env ((now, registry, force) # es) st =
     (case refresh env now registry force st of None \<Rightarrow> None | Some (e, st') \<Rightarrow> library_run env es st')"

definition item_ok :: "library_item \<Rightarrow> bool" where
  "item_ok x \<longleftrightarrow> 0 \<le> li_score x \<and> li_score x \<le> 100 \<and> li_score_label x = label_of (li_score x) \<and>
     (li_auto_importable x \<longleftrightarrow> li_readiness x = LibReady) \<and>
     (li_configurable_import x \<longleftrightarrow> li_strategy_options x \<noteq> []) \<and>
     (li_status x = ''deleted'' \<longrightarrow> li_strategy x = None \<and> li_strategy_options x = [] \<and> li_readiness x = LibBlocked)"

definition library_ok :: "library_env \<Rightarrow> library_state \<Rightarrow> bool" where
  "library_ok env st \<longleftrightarrow>
     sorted_wrt (\<lambda>a b. compareLibraryItems (le_collate env) a b \<le> 0) (ls_cached st) \<and>
     (\<forall>x \<in> set (ls_cached st). item_ok (sl_item x) \<and> li_name (sl_item x) = od_name (sl_raw x) \<and>
        od_name (sl_raw x) \<noteq> [] \<and> od_version (sl_raw x) \<noteq> [])"

lemma option_readiness: "opt \<in> set (deriveImportOptions server) \<Longrightarrow> io_readiness opt = needed_readiness (io_requirements opt)"
  by (auto simp: deriveImportOptions_def Let_def split: option.splits)

lemma support_ok:
  "su_autoImportable (deriveImportSupport server) \<longleftrightarrow> su_readiness (deriveImportSupport server) = LibReady"
  "su_configurableImport (deriveImportSupport server) \<longleftrightarrow> su_strategyOptions (deriveImportSupport server) \<noteq> []"
  by (auto simp: deriveImportSupport_def split: list.splits)

lemma scored_ok: "item_ok (scoreOfficialEntry parse_url parse_date now server meta)"
  using support_ok [of server]
  by (auto simp: item_ok_def scoreOfficialEntry_def Let_def clamp_def blocked_support_def)

lemma score_name: "li_name (scoreOfficialEntry parse_url parse_date now server meta) = od_name server"
  by (simp add: scoreOfficialEntry_def Let_def)

lemma library_of_ok:
  assumes "preorder_cmp (le_collate env)" "ls_cached st = library_of env now entries"
  shows "library_ok env st"
  using assms(2) sorted_sort_with [OF library_preorder [OF assms(1)]]
  by (auto simp: library_ok_def library_of_def scored_ok score_name)

lemma refresh_cases:
  assumes "refresh env now registry force st = Some (e, st')"
  obtains (kept) "ls_cached st' = ls_cached st" "ls_syncedAt st' = ls_syncedAt st"
  | (synced) entries where "fetchAllEntries (le_settings env) registry = Some (Inr entries)"
      "ls_cached st' = library_of env now entries" "ls_syncedAt st' = Some now" "ls_lastError st' = None"
proof (cases "\<not> force \<and> \<not> shouldRefresh now st")
  case True
  with assms that show ?thesis by (simp add: refresh_def)
next
  case False
  with assms obtain r where r: "fetchAllEntries (le_settings env) registry = Some r" unfolding refresh_def by auto
  show ?thesis
  proof (cases r)
    case (Inl m)
    with assms False r that show ?thesis by (auto simp: refresh_def split: if_splits)
  next
    case (Inr entries)
    with assms False r that show ?thesis by (auto simp: refresh_def)
  qed
qed

lemma refresh_ok:
  assumes "preorder_cmp (le_collate env)" "refresh env now registry force st = Some (e, st')" "library_ok env st"
  shows "library_ok env st'"
  using assms(2)
proof (cases rule: refresh_cases)
  case kept
  with assms(3) show ?thesis by (simp add: library_ok_def)
next
  case (synced entries)
  from library_of_ok [OF assms(1) synced(2)] show ?thesis .
qed

lemma run_library_ok:
  assumes "preorder_cmp (le_collate env)" "library_ok env st" "library_run env events st = Some st'"
  shows "library_ok env st'"
  using assms(2,3)
proof (induction events arbitrary: st)
  case (Cons ev events)
  obtain now registry force where ev: "ev = (now, registry, force)" by (cases ev)
  with Cons.prems(2) obtain e st1 where st1: "refresh env now registry force st = Some (e, st1)" "library_run env events st1 = Some st'"
    by (auto split: option.splits)
  from Cons.IH [OF refresh_ok [OF assms(1) st1(1) Cons.prems(1)] st1(2)] show ?case .
qed simp

text \<open>Whatever the registry answers, and whenever the library is refreshed, the library is sorted by
  score, then by whether an entry can be imported at once, then by name; every score is between
  0 and 100 and has the label of its range; an entry is importable at once exactly when it is
  ready; and an entry that was deleted offers no way of importing it.\<close>

theorem library_is_sorted_and_scored:
  assumes "preorder_cmp (le_collate env)" "library_run env events empty_library = Some st"
  shows "sorted_wrt (\<lambda>a b. compareLibraryItems (le_collate env) a b \<le> 0) (ls_cached st) \<and>
     (\<forall>x \<in> set (ls_cached st). 0 \<le> li_score (sl_item x) \<and> li_score (sl_item x) \<le> 100 \<and>
        li_score_label (sl_item x) = label_of (li_score (sl_item x)) \<and>
        (li_auto_importable (sl_item x) \<longleftrightarrow> li_readiness (sl_item x) = LibReady) \<and>
        (li_status (sl_item x) = ''deleted'' \<longrightarrow> li_strategy_options (sl_item x) = [] \<and> \<not> li_auto_importable (sl_item x)))"
proof -
  have "library_ok env empty_library" by (simp add: library_ok_def empty_library_def)
  from run_library_ok [OF assms(1) this assms(2)] show ?thesis by (auto simp: library_ok_def item_ok_def)
qed

definition demo_package_entry :: registry_package where
  "demo_package_entry = \<lparr>rp_registryType = Some ''npm'', rp_identifier = Some ''fs'', rp_version = None,
     rp_runtimeArguments = [\<lparr>ra_type = Some ''flag'', ra_name = Some ''verbose'', ra_value = None\<rparr>],
     rp_environmentVariables = [\<lparr>dv_name = Some ''TOKEN'', dv_description = None, dv_isRequired = True, dv_isSecret = True\<rparr>]\<rparr>"

definition demo_document :: registry_document where
  "demo_document = \<lparr>od_name = ''acme/fs'', od_title = None, od_description = None, od_version = ''1.2.0'',
     od_repository_url = None, od_packages = [demo_package_entry], od_remotes = []\<rparr>"

definition demo_registry :: registry_source where
  "demo_registry n cursor = Inr \<lparr>ry_servers = [\<lparr>re_server = demo_document,
     re_meta = JObj [(''io.modelcontextprotocol.registry/official'', JObj [(''status'', JStr ''active''), (''isLatest'', JBool True)])]\<rparr>],
     ry_nextCursor = None\<rparr>"

definition demo_state :: library_state where
  "demo_state = \<lparr>ls_cacheExpiresAt = 3600000, ls_syncedAt = Some 0, ls_lastError = None,
     ls_cached = library_of (demo_library 3) 0 (case demo_registry 0 None of Inr p \<Rightarrow> ry_servers p | Inl e \<Rightarrow> [])\<rparr>"

lemma demo_fetch: "fetchAllEntries (le_settings (demo_library 3)) demo_registry =
    Some (Inr (case demo_registry 0 None of Inr p \<Rightarrow> ry_servers p | Inl e \<Rightarrow> []))"
proof -
  have "page_entries (le_settings (demo_library 3)) (case demo_registry 0 None of Inr p \<Rightarrow> p) =
      (case demo_registry 0 None of Inr p \<Rightarrow> ry_servers p | Inl e \<Rightarrow> [])" by code_simp
  then show ?thesis
    unfolding fetchAllEntries_def
    by (subst fetch_from.simps) (simp add: demo_registry_def demo_library_def Let_def nonempty_def)
qed

lemma demo_library_run: "library_run (demo_library 3) [(0, demo_registry, True)] empty_library = Some demo_state"
  using demo_fetch by (simp add: refresh_def demo_state_def empty_library_def demo_library_def)

lemma demo_collate: "preorder_cmp (le_collate (demo_library n))"
  by (auto simp: preorder_cmp_def demo_library_def)

theorem library_is_sorted_and_scored_witness:
  "sorted_wrt (\<lambda>a b. compareLibraryItems (le_collate (demo_library 3)) a b \<le> 0) (ls_cached demo_state) \<and>
     (\<forall>x \<in> set (ls_cached demo_state). 0 \<le> li_score (sl_item x) \<and> li_score (sl_item x) \<le> 100)"
  using library_is_sorted_and_scored [OF demo_collate demo_library_run] by blast

subsection \<open>Ids of imported servers\<close>

lemma word_parts_chars:
  "list_all (list_all P) (word_parts P part s) \<longleftrightarrow> list_all P part"
  by (induction P part s rule: word_parts.induct) auto

lemma word_parts_texts:
  assumes "w \<in> set (texts (word_parts P [] s))"
  shows "w \<noteq> [] \<and> list_all P w"
proof -
  have "list_all (list_all P) (word_parts P [] s)" by (simp add: word_parts_chars)
  with assms show ?thesis by (auto simp: texts_def list_all_iff)
qed

lemma lower_alnum_word: "lower_alnum c \<Longrightarrow> id_char c \<and> c \<noteq> CHR ''-'' \<and> lower_char c = c"
proof -
  have "of_char c < (256 :: nat)" by simp
  moreover assume "lower_alnum c"
  ultimately show ?thesis
    by (auto simp: lower_alnum_def is_alnum_def is_word_def upper_char_def is_digit_def id_char_def lower_char_def Let_def
        split: if_splits)
qed

lemma join_hyphens:
  assumes "ws \<noteq> []" "\<And>w. w \<in> set ws \<Longrightarrow> w \<noteq> [] \<and> list_all lower_alnum w"
  shows "list_all (\<lambda>c. lower_alnum c \<or> c = CHR ''-'') (join_with ''-'' ws) \<and> lower_alnum (hd (join_with ''-'' ws)) \<and>
     lower_alnum (last (join_with ''-'' ws)) \<and> join_with ''-'' ws \<noteq> []"
  using assms
proof (induction "''-''" ws rule: join_with.induct)
  case (2 w)
  then show ?case by (cases w) (auto simp: list_all_iff)
next
  case (3 w v vs)
  have "w \<noteq> [] \<and> list_all lower_alnum w" using 3(3) by simp
  moreover have "list_all (\<lambda>c. lower_alnum c \<or> c = CHR ''-'') (join_with ''-'' (v # vs)) \<and>
      lower_alnum (last (join_with ''-'' (v # vs))) \<and> join_with ''-'' (v # vs) \<noteq> []"
    using 3 by auto
  ultimately show ?case by (cases w) (auto simp: list_all_iff)
qed simp

text \<open>C40. Every server that is imported gets an id the configuration accepts, whatever its name in the
  registry: letters of lower case, digits and hyphens only, not empty, neither starting nor ending
  with a hyphen.\<close>

theorem imported_ids_are_valid:
  "dashed_id (toConduitServerId name) \<and> to_lower (toConduitServerId name) = toConduitServerId name \<and>
     hd (toConduitServerId name) \<noteq> CHR ''-'' \<and> last (toConduitServerId name) \<noteq> CHR ''-''"
proof (cases "texts (word_parts lower_alnum [] (to_lower name)) = []")
  case True
  then have "toConduitServerId name = ''registry-server''" by (simp add: toConduitServerId_def)
  moreover have "dashed_id ''registry-server'' \<and> to_lower ''registry-server'' = ''registry-server''" by code_simp
  ultimately show ?thesis by simp
next
  case False
  let ?i = "join_with ''-'' (texts (word_parts lower_alnum [] (to_lower name)))"
  have i: "toConduitServerId name = ?i" using False by (simp add: toConduitServerId_def)
  have chars: "id_char c \<and> lower_char c = c" if "lower_alnum c \<or> c = CHR ''-''" for c
    using that lower_alnum_word [of c] by (auto simp: id_char_def lower_char_def)
  have "list_all (\<lambda>c. lower_alnum c \<or> c = CHR ''-'') ?i \<and> lower_alnum (hd ?i) \<and> lower_alnum (last ?i) \<and> ?i \<noteq> []"
    by (rule join_hyphens [OF False]) (rule word_parts_texts)
  then have w: "list_all (\<lambda>c. lower_alnum c \<or> c = CHR ''-'') ?i" "lower_alnum (hd ?i)" "lower_alnum (last ?i)" "?i \<noteq> []" by blast+
  then have "list_all (\<lambda>c. id_char c \<and> lower_char c = c) ?i" using chars by (auto simp: list_all_iff)
  then have "dashed_id ?i \<and> to_lower ?i = ?i"
    using w(4) by (auto simp: dashed_id_def to_lower_def list_all_iff intro: map_idI)
  moreover have "hd ?i \<noteq> CHR ''-'' \<and> last ?i \<noteq> CHR ''-''" using w(2,3) lower_alnum_word by blast
  ultimately show ?thesis by (simp add: i)
qed

text \<open>Two names of the registry can share the id, so that only one of the two servers can be imported.\<close>

lemma imported_ids_collide: "toConduitServerId ''acme/my-fs'' = toConduitServerId ''acme-my/fs''"
  by code_simp

subsection \<open>Pages\<close>

lemma drop_pages:
  assumes "0 < n"
  shows "concat (map (\<lambda>i. take n (drop (i * n) xs)) [0..<k]) = take (k * n) xs"
proof (induction k)
  case (Suc k)
  have "take (Suc k * n) xs = take (k * n) xs @ take n (drop (k * n) xs)"
    by (metis add.commute mult_Suc take_add)
  with Suc show ?case by simp
qed simp

text \<open>The pages of the library cover it: for any limit, the pages from the first to the last one, each
  starting where the limit says, make up the filtered list, every item once and in order; and a
  page says that there are more exactly when it is not the last.\<close>

theorem pages_cover_the_library:
  assumes "0 < lim"
  shows "concat (map (\<lambda>i. pg_items (page_of lim (i * lim) xs)) [0..<pg_total_pages (page_of lim 0 xs)]) = xs \<and>
     (\<forall>i < pg_total_pages (page_of lim 0 xs).
        (pg_next_offset (page_of lim (i * lim) xs) =
           (if Suc i < pg_total_pages (page_of lim 0 xs) then Some (Suc i * lim) else None)) \<and>
        pg_page (page_of lim (i * lim) xs) = Suc i)"
proof -
  define c where "c = (length xs + lim - 1) div lim"
  define k where "k = max 1 c"
  have k: "pg_total_pages (page_of lim off xs) = k" for off by (simp add: page_of_def k_def c_def Let_def)
  have c: "m < c \<longleftrightarrow> m * lim < length xs" for m
  proof -
    have "m < c \<longleftrightarrow> Suc m * lim \<le> length xs + lim - 1"
      unfolding c_def by (simp only: Suc_le_eq [symmetric] less_eq_div_iff_mult_less_eq [OF assms])
    also have "\<dots> \<longleftrightarrow> m * lim < length xs" using assms by simp linarith
    finally show ?thesis .
  qed
  have enough: "length xs \<le> k * lim"
  proof -
    have "length xs \<le> c * lim" using c [of c] by simp
    also have "\<dots> \<le> k * lim" by (simp add: k_def)
    finally show ?thesis .
  qed
  have more: "i * lim + min lim (length xs - i * lim) < length xs \<longleftrightarrow> Suc i < k" for i
  proof -
    have "i * lim + min lim (length xs - i * lim) < length xs \<longleftrightarrow> Suc i * lim < length xs" using assms by auto
    also have "\<dots> \<longleftrightarrow> Suc i < c" by (simp only: c)
    finally show ?thesis by (auto simp: k_def)
  qed
  have "concat (map (\<lambda>i. pg_items (page_of lim (i * lim) xs)) [0..<k]) = xs"
    using drop_pages [OF assms, of xs k] enough by (simp add: page_of_def Let_def)
  with assms show ?thesis
    unfolding k using more by (auto simp: page_of_def Let_def min.commute)
qed

theorem pages_cover_the_library_witness:
  "concat (map (\<lambda>i. pg_items (page_of 2 (i * 2) ''abcde'')) [0..<3]) = ''abcde''"
proof -
  have "pg_total_pages (page_of 2 0 ''abcde'') = 3" by code_simp
  with pages_cover_the_library [of 2 "''abcde''"] show ?thesis by simp
qed

subsection \<open>Import plans\<close>

lemma resolved_required:
  assumes "resolveRequirementValue q vals = Inr v" "rf_required q"
  shows "\<exists>s. v = Some s \<and> s \<noteq> []"
  using assms by (cases v) (auto simp: resolveRequirementValue_def Let_def nonempty_def split: if_splits option.splits list.splits)

lemma resolved_value:
  assumes "resolveRequirementValue q vals = Inr v" "rf_default_value q = None"
  shows "v = nonempty (map_option trim vals)"
  using assms
  by (auto simp: resolveRequirementValue_def Let_def split: if_splits option.splits)

lemma resolve_map_keeps:
  assumes "resolve_map qs vals res = Inr m" "\<forall>q \<in> set qs. rf_default_value q = None"
    and "map_of res k = Some v" "nonempty (map_option trim (map_of vals k)) = Some v"
  shows "map_of m k = Some v"
  using assms
proof (induction qs arbitrary: res)
  case (Cons q qs)
  then obtain w where w: "resolveRequirementValue q (map_of vals (rf_key q)) = Inr w" by (auto split: sum.splits)
  then have val: "w = nonempty (map_option trim (map_of vals (rf_key q)))" using Cons.prems(2) by (intro resolved_value) auto
  show ?case
  proof (cases w)
    case None
    with Cons w show ?thesis by simp
  next
    case (Some u)
    have "map_of (obj_assign (rf_key q) u res) k = Some v"
      using Cons.prems(3,4) val Some by (auto simp: obj_assign_def)
    with Cons w Some show ?thesis by simp
  qed
qed simp

lemma resolve_map_required:
  assumes "resolve_map qs vals res = Inr m" "\<forall>q \<in> set qs. rf_default_value q = None"
    and "q \<in> set qs" "rf_required q" "rf_key q \<noteq> ''__proto__''"
  shows "\<exists>v. map_of m (rf_key q) = Some v \<and> v \<noteq> []"
  using assms
proof (induction qs arbitrary: res)
  case (Cons p qs)
  then obtain w where w: "resolveRequirementValue p (map_of vals (rf_key p)) = Inr w" by (auto split: sum.splits)
  then have val: "w = nonempty (map_option trim (map_of vals (rf_key p)))" using Cons.prems(2) by (intro resolved_value) auto
  show ?case
  proof (cases "p = q")
    case True
    with resolved_required [OF w] Cons.prems(4) obtain u where u: "w = Some u" "u \<noteq> []" by auto
    have "map_of (obj_assign (rf_key q) u res) (rf_key q) = Some u" using Cons.prems(5) by (simp add: obj_assign_def)
    with resolve_map_keeps [of qs vals "obj_assign (rf_key q) u res" m "rf_key q" u] Cons.prems(1,2) w u val True
    show ?thesis by auto
  next
    case False
    with Cons.prems Cons.IH w show ?thesis by (cases w) auto
  qed
qed simp

lemma declared_required:
  assumes "dv_name v = Some n" "trim n \<noteq> []" "v \<in> set vs"
  shows "\<exists>q \<in> set (List.map_filter (declared_field src) vs). rf_key q = n \<and> rf_required q = dv_isRequired v"
  using assms by (force simp: declared_field_def map_filter_def)

lemma declared_no_default: "\<forall>q \<in> set (List.map_filter (declared_field src) vs). rf_default_value q = None"
  by (auto simp: declared_field_def map_filter_def split: option.splits if_splits)

lemma resolved_declared:
  assumes "resolveRequirementMap (List.map_filter (declared_field src) vs) vals = Inr m"
    and "v \<in> set vs" "dv_isRequired v" "dv_name v = Some n" "trim n \<noteq> []" "n \<noteq> ''__proto__''"
  shows "\<exists>s. map_of m n = Some s \<and> s \<noteq> []"
proof -
  obtain q where "q \<in> set (List.map_filter (declared_field src) vs)" "rf_key q = n" "rf_required q"
    using declared_required [OF assms(4,5,2)] assms(3) by blast
  with resolve_map_required [OF assms(1) [unfolded resolveRequirementMap_def] declared_no_default] assms(6) show ?thesis by blast
qed

text \<open>What an import gives a server: the values its entry requires.\<close>

definition requires :: "declared_value list \<Rightarrow> string \<Rightarrow> bool" where
  "requires vs n \<longleftrightarrow> (\<exists>v \<in> set vs. dv_isRequired v \<and> dv_name v = Some n \<and> trim n \<noteq> [] \<and> n \<noteq> ''__proto__'')"

lemma resolved_requires:
  assumes "resolveRequirementMap (List.map_filter (declared_field src) vs) vals = Inr m" "requires vs n"
  shows "\<exists>s. map_of m n = Some s \<and> s \<noteq> []"
  using resolved_declared [OF assms(1)] assms(2) by (auto simp: requires_def)

lemma sorted_options:
  "set (deriveImportOptions server) \<subseteq>
     {opt. (\<exists>r \<in> set (od_remotes server). io_remote opt = Some r \<and> io_package opt = None \<and>
              io_requirements opt = buildRemoteRequirements r) \<or>
           (\<exists>p \<in> set (od_packages server). io_remote opt = None \<and> io_package opt = Some p \<and> canAutoImportPackage p \<and>
              io_requirements opt = buildPackageRequirements p)}"
  by (auto simp: deriveImportOptions_def Let_def dest!: find_in [OF sym] split: option.splits)

lemma package_server_env:
  assumes "package_server j t i src identifier version runtime_args env raw = Some s"
  shows "ms_id s = i \<and> default_to [] (ms_env s) = env"
  using assms
  by (auto simp: package_server_def Let_def nonempty_def default_to_def split: runtime_source.splits list.splits)

lemma built_server:
  assumes "buildServerConfigFromOfficialServer j now defaults server opt input = Inr s" "opt \<in> set (deriveImportOptions server)"
  shows "case s of
       ImportedRemote i url headers \<Rightarrow> i = toConduitServerId (od_name server) \<and> placeholders url = [] \<and>
         (\<exists>r \<in> set (od_remotes server). \<forall>n. requires (rr_headers r) n \<longrightarrow> (\<exists>v. map_of headers n = Some v \<and> v \<noteq> []))
     | ImportedPackage m \<Rightarrow> ms_id m = toConduitServerId (od_name server) \<and>
         (\<exists>p \<in> set (od_packages server). canAutoImportPackage p \<and>
            (\<forall>n. requires (rp_environmentVariables p) n \<longrightarrow> (\<exists>v. map_of (default_to [] (ms_env m)) n = Some v \<and> v \<noteq> [])))"
proof -
  consider (remote) r where "r \<in> set (od_remotes server)" "io_remote opt = Some r" "io_package opt = None"
      "io_requirements opt = buildRemoteRequirements r"
    | (package) p where "p \<in> set (od_packages server)" "io_remote opt = None" "io_package opt = Some p"
      "canAutoImportPackage p" "io_requirements opt = buildPackageRequirements p"
    using sorted_options assms(2) by blast
  then show ?thesis
  proof cases
    case remote
    then obtain template url headers where s: "s = ImportedRemote (toConduitServerId (od_name server)) url headers"
        "resolveRemoteUrl template (qs_variables (buildRemoteRequirements r)) (ix_variables input) = Inr url"
        "resolveRequirementMap (List.map_filter (declared_field RemoteHeader) (rr_headers r)) (ix_headers input) = Inr headers"
      using assms(1)
      by (auto simp: buildServerConfigFromOfficialServer_def Let_def buildRemoteRequirements_def map_sum_def
          split: option.splits sum.splits)
    have "placeholders url = []" using s(2) by (auto simp: resolveRemoteUrl_def split: sum.splits if_splits)
    with s remote(1) resolved_requires [OF s(3)] show ?thesis by auto
  next
    case package
    then obtain env m where s: "s = ImportedPackage m"
        "resolveRequirementMap (List.map_filter (declared_field PackageEnv) (rp_environmentVariables p)) (ix_env input) = Inr env"
        "package_server j now (toConduitServerId (od_name server)) (package_source p) (default_to [] (rp_identifier p))
           (default_to (od_version server) (rp_version p)) (buildPackageRuntimeArguments p) env defaults = Some m"
      using assms(1)
      by (auto simp: buildServerConfigFromOfficialServer_def Let_def buildPackageRequirements_def split: option.splits sum.splits)
    from package(1,4) package_server_env [OF s(3)] resolved_requires [OF s(2)] s(1) show ?thesis by auto
  qed
qed

text \<open>C38. An import plan configures what the entry asks for: the entry is in the library under the name that
  was asked for and is not deleted; the server has the id made of its name; a remote server has no
  placeholder left in its URL and a value for every header one of the remotes of the entry
  requires; and a package that can be run has a value for every variable it requires.  (A
  requirement named \<open>__proto__\<close> is no property of the result.)\<close>

theorem import_plans_are_configured:
  assumes "import_plan_of j now defaults cached name version input = Inr plan"
  shows "\<exists>x \<in> set cached. od_name (sl_raw x) = name \<and> ip_name plan = name \<and> li_status (sl_item x) \<noteq> ''deleted'' \<and>
     (case ip_server plan of
        ImportedRemote i url headers \<Rightarrow> i = toConduitServerId name \<and> placeholders url = [] \<and>
          (\<exists>r \<in> set (od_remotes (sl_raw x)). \<forall>n. requires (rr_headers r) n \<longrightarrow> (\<exists>v. map_of headers n = Some v \<and> v \<noteq> []))
      | ImportedPackage m \<Rightarrow> ms_id m = toConduitServerId name \<and>
          (\<exists>p \<in> set (od_packages (sl_raw x)). canAutoImportPackage p \<and>
             (\<forall>n. requires (rp_environmentVariables p) n \<longrightarrow>
                (\<exists>v. map_of (default_to [] (ms_env m)) n = Some v \<and> v \<noteq> []))))"
proof -
  obtain sel opt s where sel: "findOfficialServer cached name version = Some sel" "li_status (sl_item sel) \<noteq> ''deleted''"
      "opt \<in> set (deriveImportOptions (sl_raw sel))"
      "buildServerConfigFromOfficialServer j now defaults (sl_raw sel) opt input = Inr s"
      "ip_server plan = s" "ip_name plan = od_name (sl_raw sel)"
    using assms
    by (auto simp: import_plan_of_def Let_def findImportOption_def map_sum_def dest: find_in
        split: option.splits if_splits sum.splits)
  from sel(1) have x: "sel \<in> set cached" "od_name (sl_raw sel) = name" by (auto simp: findOfficialServer_def dest!: find_in)
  from built_server [OF sel(4,3)] show ?thesis
    by (intro bexI [OF _ x(1)] conjI) (simp_all only: sel(2,5,6) x(2) not_False_eq_True)
qed

definition demo_input :: import_options where
  "demo_input = \<lparr>ix_strategy = None, ix_variables = [], ix_headers = [], ix_env = [(''TOKEN'', ''s1'')]\<rparr>"

theorem import_plans_are_configured_witness:
  "(case import_plan_of (\<lambda>a b. a @ ''/'' @ b) 5 None (ls_cached demo_state) ''acme/fs'' ''latest'' demo_input of
      Inr plan \<Rightarrow> (\<exists>x \<in> set (ls_cached demo_state). od_name (sl_raw x) = ip_name plan)
    | Inl e \<Rightarrow> False)"
proof -
  have "\<not> isl (import_plan_of (\<lambda>a b. a @ ''/'' @ b) 5 None (ls_cached demo_state) ''acme/fs'' ''latest'' demo_input)"
    by code_simp
  then obtain plan where p: "import_plan_of (\<lambda>a b. a @ ''/'' @ b) 5 None (ls_cached demo_state) ''acme/fs'' ''latest''
      demo_input = Inr plan"
    by (cases "import_plan_of (\<lambda>a b. a @ ''/'' @ b) 5 None (ls_cached demo_state) ''acme/fs'' ''latest'' demo_input") auto
  from import_plans_are_configured [OF p] have "\<exists>x \<in> set (ls_cached demo_state). od_name (sl_raw x) = ip_name plan" by metis
  then show ?thesis unfolding p by simp
qed

subsection \<open>Where the library promises too much\<close>

text \<open>An entry that is shown as importable at once can fail to import: nothing is declared to fill its URL with.\<close>

definition open_remote :: registry_remote where
  "open_remote = \<lparr>rr_url = Some ''https://{tenant}.example.com/mcp'', rr_variables = [], rr_headers = []\<rparr>"

definition open_document :: registry_document where
  "open_document = \<lparr>od_name = ''com.example/open'', od_title = None, od_description = None, od_version = ''1.0.0'',
     od_repository_url = None, od_packages = [], od_remotes = [open_remote]\<rparr>"

lemma ready_entry_cannot_be_imported:
  "su_autoImportable (deriveImportSupport open_document) \<and>
   list_all (\<lambda>opt. buildServerConfigFromOfficialServer j now defaults open_document opt input =
     Inl ''Missing URL template values for tenant'') (deriveImportOptions open_document)"
proof -
  have o: "deriveImportOptions open_document = [\<lparr>io_strategy = ProxyRemote, io_readiness = LibReady,
      io_requirements = emptyRequirements, io_remote = Some open_remote, io_package = None\<rparr>]"
    by code_simp
  have "placeholders ''https://{tenant}.example.com/mcp'' = [''tenant'']" by code_simp
  then show ?thesis
    by (simp add: deriveImportSupport_def o buildServerConfigFromOfficialServer_def open_remote_def emptyRequirements_def
        resolveRemoteUrl_def nonempty_def)
qed

text \<open>
  A publisher is verified by what its own document declares: a scope and a repository that name
  another owner make it that owner.  The basis \<open>registry\<close> is never given.
\<close>

lemma publisher_verifies_itself:
  assumes "parse_url u = Some (''github.com'', ''/acme/tools'')" "u \<noteq> []" "od_repository_url server = Some u"
    and "namespace_owner (od_name server) = Some ''mallory''" "findPackageScope (od_packages server) = Some ''acme''"
  shows "pv_verified (derivePublisherVerification parse_url server) \<and> pv_label (derivePublisherVerification parse_url server) = ''acme''"
proof -
  have "nonempty (Some u) = Some u" using assms(2) by (auto simp: nonempty_def split: list.splits)
  moreover have "texts (split_on (CHR ''/'') ''/acme/tools'') = [''acme'', ''tools'']" by code_simp
  ultimately have "repository_owner parse_url (Some u) = Some ''acme''" by (simp add: repository_owner_def assms(1))
  moreover have "to_lower ''acme'' \<noteq> to_lower ''mallory''" by code_simp
  ultimately show ?thesis
    by (simp add: derivePublisherVerification_def Let_def same_name_def assms(3-5))
qed

lemma registry_never_verifies: "pv_basis (derivePublisherVerification parse_url server) \<noteq> BasisRegistry"
  by (simp add: derivePublisherVerification_def Let_def)

end
