(* ===== verification/Managed_Laws.thy ===== *)
theory Managed_Laws
  imports Managed
begin

section \<open>Releases of the managed runtime\<close>

text \<open>
  However rollouts and rollbacks follow each other, the server runs its active release.  A
  rollback to a named release restores it; one that names none changes nothing, since a
  successful rollout has already made the new release the last healthy one.
\<close>

subsection \<open>The invariant\<close>

text \<open>The ids of the releases are distinct, and the server runs the active one.\<close>

definition runs :: "managed_server \<Rightarrow> release \<Rightarrow> bool" where
  "runs server r \<longleftrightarrow> ms_command server = Some (mr_command r) \<and> default_to [] (ms_args server) = default_to [] (mr_args r) \<and>
     ms_env server = mr_env r"

definition runtime_ok :: "managed_server \<Rightarrow> bool" where
  "runtime_ok server \<longleftrightarrow>
     (\<exists>rt r. ms_runtime server = Some rt \<and> distinct (map mr_id (mt_releases rt)) \<and>
        find_release (mt_active_release_id rt) (mt_releases rt) = Some r \<and> mt_channel rt = mr_channel r \<and> runs server r)"

definition same_release :: "release \<Rightarrow> release \<Rightarrow> bool" where
  "same_release r r' \<longleftrightarrow> mr_id r' = mr_id r \<and> mr_channel r' = mr_channel r \<and> mr_command r' = mr_command r \<and>
     mr_args r' = mr_args r \<and> mr_env r' = mr_env r \<and> mr_version r' = mr_version r"

definition keeps_releases :: "(release \<Rightarrow> release) \<Rightarrow> bool" where
  "keeps_releases f \<longleftrightarrow> (\<forall>r. same_release r (f r))"

lemma keeps_ids: "keeps_releases f \<Longrightarrow> map mr_id (map f rs) = map mr_id rs"
  by (simp add: keeps_releases_def same_release_def)

lemma keeps_find: "keeps_releases f \<Longrightarrow> find_release i (map f rs) = map_option f (find_release i rs)"
  by (induction rs) (auto simp: find_release_def keeps_releases_def same_release_def)

lemma keeps_runs: "keeps_releases f \<Longrightarrow> runs server (f r) \<longleftrightarrow> runs server r"
  by (simp add: runs_def keeps_releases_def same_release_def)

lemma status_keeps [simp]:
  "keeps_releases (demote rt)" "keeps_releases (restore_status a b)"
  "keeps_releases (\<lambda>r. if mr_id r = i then r\<lparr>mr_status := st\<rparr> else r)"
  by (simp_all add: keeps_releases_def same_release_def demote_def restore_status_def)

lemma find_new: "i \<notin> set (map mr_id rs) \<Longrightarrow> mr_id r = i \<Longrightarrow> find_release i (rs @ [r]) = Some r"
  by (induction rs) (auto simp: find_release_def)

lemma find_old: "find_release i rs = Some r \<Longrightarrow> find_release i (rs @ rs') = Some r"
  by (induction rs) (auto simp: find_release_def split: if_splits)

lemma find_release_id: "find_release i rs = Some r \<Longrightarrow> mr_id r = i \<and> r \<in> set rs"
  by (induction rs) (auto simp: find_release_def split: if_splits)

lemma run_release_runs [simp]: "runs (run_release r server) r"
  by (simp add: runs_def run_release_def default_to_def)

lemma runs_runtime [simp]: "runs (ms_runtime_update f server) r \<longleftrightarrow> runs server r"
  by (simp add: runs_def)

lemma rollout_result:
  assumes "rolloutManagedRuntime now input server = Inr (new, r)"
  obtains rt where "ms_runtime server = Some rt" "isManagedRuntimeServer server"
    "mr_id r = release_id (mr_channel r) (ri_version input) now"
    "new = (run_release r server)\<lparr>ms_runtime := Some (rt\<lparr>mt_channel := mr_channel r, mt_active_release_id := mr_id r,
        mt_last_rollout_at := Some now, mt_releases := map (demote rt) (mt_releases rt) @ [r]\<rparr>)\<rparr>"
  using assms that
  by (auto simp: rolloutManagedRuntime_def createRelease_def Let_def split: option.splits if_splits sum.splits)

lemma rollout_ok:
  assumes "rolloutManagedRuntime now input server = Inr (new, r)" "runtime_ok server"
    and "\<And>rt. ms_runtime server = Some rt \<Longrightarrow> mr_id r \<notin> set (map mr_id (mt_releases rt))"
  shows "runtime_ok new"
proof (rule rollout_result [OF assms(1)])
  fix rt
  assume rt: "ms_runtime server = Some rt" and new: "new = (run_release r server)\<lparr>ms_runtime := Some (rt\<lparr>mt_channel := mr_channel r,
      mt_active_release_id := mr_id r, mt_last_rollout_at := Some now, mt_releases := map (demote rt) (mt_releases rt) @ [r]\<rparr>)\<rparr>"
  have ids: "map mr_id (map (demote rt) (mt_releases rt)) = map mr_id (mt_releases rt)" by (rule keeps_ids) simp
  then have "find_release (mr_id r) (map (demote rt) (mt_releases rt) @ [r]) = Some r"
    using find_new assms(3) [OF rt] by metis
  moreover have "distinct (map mr_id (map (demote rt) (mt_releases rt) @ [r]))"
    using assms(2,3) rt ids by (auto simp: runtime_ok_def simp del: map_map)
  ultimately show "runtime_ok new" by (simp add: runtime_ok_def new)
qed

lemma mark_ok: "runtime_ok server \<Longrightarrow> runtime_ok (markManagedRuntimeRelease i out server)"
  unfolding runtime_ok_def markManagedRuntimeRelease_def
  by (auto simp: Let_def keeps_find keeps_runs keeps_ids [OF status_keeps(3)] runs_def simp del: map_map)

lemma rollback_result:
  assumes "rollbackManagedRuntime now i server = Inr new"
  obtains rt target where "ms_runtime server = Some rt" "isManagedRuntimeServer server"
    "rollback_target i rt = Some (mr_id target)" "find_release (mr_id target) (mt_releases rt) = Some target"
    "new = (run_release target server)\<lparr>ms_runtime := Some (rt\<lparr>
        mt_releases := map (restore_status (mt_active_release_id rt) (mr_id target)) (mt_releases rt),
        mt_active_release_id := mr_id target, mt_channel := mr_channel target,
        mt_last_healthy_release_id := Some (mr_id target), mt_last_rollout_at := Some now\<rparr>)\<rparr>"
proof -
  obtain rt fallback target where r: "ms_runtime server = Some rt" "isManagedRuntimeServer server"
    "nonempty (rollback_target i rt) = Some fallback" "find_release fallback (mt_releases rt) = Some target"
    "new = (run_release target server)\<lparr>ms_runtime := Some (rt\<lparr>
        mt_releases := map (restore_status (mt_active_release_id rt) fallback) (mt_releases rt),
        mt_active_release_id := fallback, mt_channel := mr_channel target,
        mt_last_healthy_release_id := Some fallback, mt_last_rollout_at := Some now\<rparr>)\<rparr>"
    using assms by (auto simp: rollbackManagedRuntime_def split: option.splits if_splits)
  from find_release_id [OF r(4)] have "fallback = mr_id target" by simp
  moreover from r(3) have "rollback_target i rt = Some fallback" by (auto simp: nonempty_def split: option.splits list.splits)
  ultimately show thesis using r that by blast
qed

lemma rollback_to:
  assumes "ms_runtime server = Some rt" "isManagedRuntimeServer server" "i \<noteq> []" "find_release i (mt_releases rt) = Some target"
  shows "rollbackManagedRuntime now (Some i) server = Inr ((run_release target server)\<lparr>ms_runtime := Some (rt\<lparr>
        mt_releases := map (restore_status (mt_active_release_id rt) i) (mt_releases rt),
        mt_active_release_id := i, mt_channel := mr_channel target,
        mt_last_healthy_release_id := Some i, mt_last_rollout_at := Some now\<rparr>)\<rparr>)"
proof -
  have "nonempty (rollback_target (Some i) rt) = Some i"
    using assms(3) by (simp add: rollback_target_def nonempty_def split: list.splits)
  with assms show ?thesis by (simp add: rollbackManagedRuntime_def)
qed

lemma rollback_ok:
  assumes "rollbackManagedRuntime now i server = Inr new" "runtime_ok server"
  shows "runtime_ok new"
proof (rule rollback_result [OF assms(1)])
  fix rt target
  assume rt: "ms_runtime server = Some rt" "find_release (mr_id target) (mt_releases rt) = Some target"
    and new: "new = (run_release target server)\<lparr>ms_runtime := Some (rt\<lparr>
        mt_releases := map (restore_status (mt_active_release_id rt) (mr_id target)) (mt_releases rt),
        mt_active_release_id := mr_id target, mt_channel := mr_channel target,
        mt_last_healthy_release_id := Some (mr_id target), mt_last_rollout_at := Some now\<rparr>)\<rparr>"
  have "same_release target (restore_status a b target)" for a b
    using status_keeps(2) unfolding keeps_releases_def by blast
  then show "runtime_ok new"
    using assms(2) rt keeps_ids [OF status_keeps(2)]
    by (simp add: runtime_ok_def new keeps_find keeps_runs same_release_def del: map_map)
qed

subsection \<open>The ids of releases\<close>

lemma no_minus: "CHR ''-'' \<notin> set (show_nat n)"
  using show_nat_digits by (fastforce simp: is_digit_def)

lemma release_id_time:
  assumes "release_id c v t = release_id c' v' t'" "0 \<le> t" "0 \<le> t'"
  shows "t = t'"
proof -
  have "(channel_name c @ ''-'' @ sanitizeToken v) @ CHR ''-'' # show_nat (nat t) =
      (channel_name c' @ ''-'' @ sanitizeToken v') @ CHR ''-'' # show_nat (nat t')"
    using assms by (simp add: release_id_def show_int_def)
  from last_sep_unique [OF no_minus no_minus this] assms(2,3) show ?thesis by (simp add: eq_nat_nat_iff)
qed

text \<open>Every release was created at a time up to \<open>t\<close>.\<close>

definition dated :: "timestamp \<Rightarrow> managed_server \<Rightarrow> bool" where
  "dated t server \<longleftrightarrow> (\<forall>rt r. ms_runtime server = Some rt \<longrightarrow> r \<in> set (mt_releases rt) \<longrightarrow>
     (\<exists>c v u. mr_id r = release_id c v u \<and> 0 \<le> u \<and> u \<le> t))"

lemma dated_later: "dated t server \<Longrightarrow> t \<le> t' \<Longrightarrow> dated t' server"
  unfolding dated_def by (meson order_trans)

lemma keeps_id: "keeps_releases f \<Longrightarrow> mr_id (f r) = mr_id r"
  by (simp add: keeps_releases_def same_release_def)

lemma rollout_dated:
  assumes "rolloutManagedRuntime now input server = Inr (new, r)" "dated t server" "t < now" "0 \<le> t"
  shows "dated now new" "\<And>rt. ms_runtime server = Some rt \<Longrightarrow> mr_id r \<notin> set (map mr_id (mt_releases rt))"
proof -
  obtain rt where rt: "ms_runtime server = Some rt" "mr_id r = release_id (mr_channel r) (ri_version input) now"
    and new: "ms_runtime new = Some (rt\<lparr>mt_channel := mr_channel r, mt_active_release_id := mr_id r,
        mt_last_rollout_at := Some now, mt_releases := map (demote rt) (mt_releases rt) @ [r]\<rparr>)"
    by (rule rollout_result [OF assms(1)]) auto
  have old: "\<exists>c v u. mr_id x = release_id c v u \<and> 0 \<le> u \<and> u \<le> t" if "x \<in> set (mt_releases rt)" for x
    using assms(2) rt(1) that by (auto simp: dated_def)
  have now: "0 \<le> now" using assms(3,4) by simp
  have "\<exists>c v u. mr_id x = release_id c v u \<and> 0 \<le> u \<and> u \<le> now" if "x \<in> set (map (demote rt) (mt_releases rt) @ [r])" for x
  proof (cases "x = r")
    case True
    with rt(2) now show ?thesis by blast
  next
    case False
    with that obtain y where "y \<in> set (mt_releases rt)" "x = demote rt y" by auto
    moreover have "mr_id (demote rt y) = mr_id y" by (rule keeps_id) simp
    ultimately show ?thesis using old [of y] assms(3) by (metis order_less_imp_le order_trans)
  qed
  with new show "dated now new" by (simp add: dated_def)
  have "mr_id r \<noteq> mr_id x" if "x \<in> set (mt_releases rt)" for x
    using old [OF that] rt(2) release_id_time now assms(3) by (metis leD)
  with rt(1) show "\<And>rt. ms_runtime server = Some rt \<Longrightarrow> mr_id r \<notin> set (map mr_id (mt_releases rt))" by auto
qed

lemma dated_map:
  assumes "dated t server" "ms_runtime server = Some rt" "keeps_releases f"
    and "ms_runtime new = Some rt'" "mt_releases rt' = map f (mt_releases rt)"
  shows "dated t new"
  using assms by (auto simp: dated_def keeps_id)

lemma mark_dated:
  assumes "dated t server"
  shows "dated t (markManagedRuntimeRelease i out server)"
proof (cases "ms_runtime server")
  case None
  with assms show ?thesis by (simp add: markManagedRuntimeRelease_def)
next
  case (Some rt)
  show ?thesis
  proof (cases "mt_enabled rt")
    case False
    with assms Some show ?thesis by (simp add: markManagedRuntimeRelease_def)
  next
    case True
    let ?status = "if out = OutcomeHealthy \<and> mt_active_release_id rt = i then ReleaseActive else outcome_status out"
    let ?rt = "rt\<lparr>mt_releases := map (\<lambda>r. if mr_id r = i then r\<lparr>mr_status := Some ?status\<rparr> else r) (mt_releases rt)\<rparr>"
    have "ms_runtime (markManagedRuntimeRelease i out server) =
        Some (if out = OutcomeHealthy then ?rt\<lparr>mt_last_healthy_release_id := Some i\<rparr> else ?rt)"
      using True Some by (simp add: markManagedRuntimeRelease_def Let_def)
    from dated_map [OF assms Some status_keeps(3) [of i "Some ?status"] this] show ?thesis by simp
  qed
qed

lemma rollback_dated:
  assumes "rollbackManagedRuntime now i server = Inr new" "dated t server"
  shows "dated t new"
proof (rule rollback_result [OF assms(1)])
  fix rt target
  assume rt: "ms_runtime server = Some rt"
    and new: "new = (run_release target server)\<lparr>ms_runtime := Some (rt\<lparr>
        mt_releases := map (restore_status (mt_active_release_id rt) (mr_id target)) (mt_releases rt),
        mt_active_release_id := mr_id target, mt_channel := mr_channel target,
        mt_last_healthy_release_id := Some (mr_id target), mt_last_rollout_at := Some now\<rparr>)\<rparr>"
  from assms(2) rt show "dated t new" 
    by (rule dated_map [OF _ _ status_keeps(2) [of "mt_active_release_id rt" "mr_id target"]]) (simp add: new, simp)
qed

subsection \<open>Runs of the API\<close>

datatype runtime_event = Rollout timestamp rollout_input | Rollback timestamp "string option"

fun event_time :: "runtime_event \<Rightarrow> timestamp" where
  "event_time (Rollout now input) = now"
| "event_time (Rollback now i) = now"

fun runtime_step :: "'s deploy_ops \<Rightarrow> runtime_event \<Rightarrow> managed_server \<times> 's \<Rightarrow> managed_server \<times> 's" where
  "runtime_step ops (Rollout now input) st = snd (runtime_rollout ops now input st)"
| "runtime_step ops (Rollback now i) st = snd (runtime_rollback ops now i st)"

definition runtime_run :: "'s deploy_ops \<Rightarrow> runtime_event list \<Rightarrow> managed_server \<times> 's \<Rightarrow> managed_server \<times> 's" where
  "runtime_run ops es st = fold (runtime_step ops) es st"

lemma deploy_current:
  assumes "deployManagedRuntimeServer ops previous new s = (d, s')"
  shows "dy_current d = previous \<or> dy_current d = new" "dy_ok d \<Longrightarrow> dy_current d = new"
    "\<not> dy_ok d \<Longrightarrow> gate_flag hg_auto_rollback new \<Longrightarrow> dy_current d = previous"
  using assms by (auto simp: deployManagedRuntimeServer_def Let_def split: prod.splits option.splits if_splits)

text \<open>A server after a step is the former one, or the new one, marked where the deployment succeeded.\<close>

lemma rollout_cases:
  assumes "runtime_rollout ops now input (server, s) = (code, server', s')"
  obtains (same) "server' = server"
  | (failed) new r where "rolloutManagedRuntime now input server = Inr (new, r)" "server' = new" "\<not> gate_flag hg_auto_rollback new"
  | (deployed) new r where "rolloutManagedRuntime now input server = Inr (new, r)"
      "server' = markManagedRuntimeRelease (mr_id r) OutcomeHealthy new" "code = 200"
proof (cases "isManagedRuntimeServer server \<and> \<not> isl (rolloutManagedRuntime now input server)")
  case False
  with assms show ?thesis by (intro same) (auto simp: runtime_rollout_def split: if_splits sum.splits)
next
  case True
  then obtain new r where r: "rolloutManagedRuntime now input server = Inr (new, r)" "isManagedRuntimeServer server"
    by (cases "rolloutManagedRuntime now input server") auto
  obtain d s1 where d: "deployManagedRuntimeServer ops server new s = (d, s1)" by force
  show ?thesis
  proof (cases "dy_ok d")
    case True
    with assms r d show ?thesis by (intro deployed) (auto simp: runtime_rollout_def)
  next
    case False
    with assms r d have "server' = dy_current d" by (auto simp: runtime_rollout_def)
    with same failed [OF r(1)] deploy_current(1,3) [OF d] False show ?thesis by blast
  qed
qed

lemma rollback_cases:
  assumes "runtime_rollback ops now i (server, s) = (code, server', s')"
  obtains (same) "server' = server"
  | (failed) new where "rollbackManagedRuntime now i server = Inr new" "server' = new" "\<not> gate_flag hg_auto_rollback new"
  | (deployed) new where "rollbackManagedRuntime now i server = Inr new" "code = 200"
      "server' = new \<or> (\<exists>rt. ms_runtime new = Some rt \<and> mt_active_release_id rt \<noteq> [] \<and>
         server' = markManagedRuntimeRelease (mt_active_release_id rt) OutcomeHealthy new)"
proof (cases "isManagedRuntimeServer server \<and> \<not> isl (rollbackManagedRuntime now i server)")
  case False
  with assms show ?thesis by (intro same) (auto simp: runtime_rollback_def split: if_splits sum.splits)
next
  case True
  then obtain new where r: "rollbackManagedRuntime now i server = Inr new" "isManagedRuntimeServer server"
    by (cases "rollbackManagedRuntime now i server") auto
  obtain d s1 where d: "deployManagedRuntimeServer ops server new s = (d, s1)" by force
  show ?thesis
  proof (cases "dy_ok d")
    case True
    with assms r d show ?thesis
      by (intro deployed [OF r(1)]) (auto simp: runtime_rollback_def split: option.splits if_splits)
  next
    case False
    with assms r d have "server' = dy_current d" by (auto simp: runtime_rollback_def)
    with same failed [OF r(1)] deploy_current(1,3) [OF d] False show ?thesis by blast
  qed
qed

lemma step_ok:
  assumes "runtime_ok server" "dated t server" "0 \<le> t" "t < event_time e"
    and "runtime_step ops e (server, s) = (server', s')"
  shows "runtime_ok server' \<and> dated (event_time e) server'"
proof (cases e)
  case (Rollout now input)
  obtain code where "runtime_rollout ops now input (server, s) = (code, server', s')"
    using assms(5) Rollout by (cases "runtime_rollout ops now input (server, s)") auto
  then show ?thesis
  proof (cases rule: rollout_cases)
    case same
    with assms Rollout show ?thesis by (auto intro: dated_later)
  next
    case (failed new r)
    with rollout_ok [OF failed(1) assms(1)] rollout_dated [OF failed(1) assms(2) _ assms(3)] assms(4) Rollout show ?thesis by simp
  next
    case (deployed new r)
    with rollout_ok [OF deployed(1) assms(1)] rollout_dated [OF deployed(1) assms(2) _ assms(3)] assms(4) Rollout mark_ok mark_dated
    show ?thesis by simp
  qed
next
  case (Rollback now i)
  obtain code where "runtime_rollback ops now i (server, s) = (code, server', s')"
    using assms(5) Rollback by (cases "runtime_rollback ops now i (server, s)") auto
  then have "runtime_ok server' \<and> dated t server'"
  proof (cases rule: rollback_cases)
    case same
    with assms show ?thesis by simp
  next
    case (failed new)
    with rollback_ok [OF failed(1) assms(1)] rollback_dated [OF failed(1) assms(2)] show ?thesis by simp
  next
    case (deployed new)
    with rollback_ok [OF deployed(1) assms(1)] rollback_dated [OF deployed(1) assms(2)] mark_ok mark_dated show ?thesis by auto
  qed
  with assms(4) Rollback show ?thesis by (auto intro: dated_later)
qed

lemma run_ok:
  assumes "runtime_ok server" "dated t server" "0 \<le> t" "sorted_wrt (<) (t # map event_time es)"
    and "runtime_run ops es (server, s) = (server', s')"
  shows "runtime_ok server'"
  using assms
proof (induction es arbitrary: server s t)
  case Nil
  then show ?case by (simp add: runtime_run_def)
next
  case (Cons e es)
  obtain server1 s1 where step: "runtime_step ops e (server, s) = (server1, s1)" by force
  have "runtime_ok server1 \<and> dated (event_time e) server1"
    using step_ok [OF Cons.prems(1-3) _ step] Cons.prems(4) by simp
  moreover have "runtime_run ops es (server1, s1) = (server', s')" using Cons.prems(5) step by (simp add: runtime_run_def)
  ultimately show ?case using Cons.IH [of server1 "event_time e" s1] Cons.prems(3,4) by auto
qed

lemma package_ok:
  assumes "package_server join_path t i source identifier version runtime_args env raw = Some server" "0 \<le> t"
  shows "runtime_ok server" "dated t server"
proof -
  obtain command args where server: "ms_command server = Some command" "ms_args server = Some args"
      "ms_env server = nonempty (Some env)"
      "ms_runtime server = Some (createManagedRuntimeForPackage join_path t i source identifier version command args
         (nonempty (Some env)) raw)"
    using assms(1) by (auto simp: package_server_def Let_def split: runtime_source.splits)
  have [simp]: "nonempty (nonempty v) = nonempty v" for v :: "'a list option"
    by (simp add: nonempty_def split: option.splits list.splits)
  have [simp]: "default_to [] (nonempty v) = default_to [] v" for v :: "'a list option"
    by (simp add: nonempty_def default_to_def split: option.splits list.splits)
  show "runtime_ok server"
    by (simp add: runtime_ok_def server createManagedRuntimeForPackage_def createRelease_def Let_def find_release_def runs_def)
  show "dated t server"
    using assms(2)
    by (auto simp: dated_def server createManagedRuntimeForPackage_def createRelease_def Let_def)
qed

subsection \<open>The properties\<close>

text \<open>A host, a package and a registry for the witnesses; the registry takes every server.\<close>

definition demo_system :: host_system where
  "demo_system = \<lparr>sy_join = (\<lambda>a b. a @ ''/'' @ b), sy_resolve = (\<lambda>p. p), sy_win32 = False, sy_mkdir = (\<lambda>_. None),
     sy_env = [(''PATH'', ''/bin''), (''NPM_TOKEN'', ''t0''), (''LANG'', ''C'')]\<rparr>"

definition demo_package :: managed_server where
  "demo_package = the (package_server (\<lambda>a b. a @ ''/'' @ b) 1 ''pkg'' SourceNpm ''@example/pkg'' ''1.0.0'' [''--stdio'']
     [(''API_TOKEN'', ''s1'')] None)"

definition demo_deploy :: "nat deploy_ops" where
  "demo_deploy = \<lparr>dp_replace = (\<lambda>_ n. (None, Suc n)), dp_healthy = (\<lambda>_ _. True)\<rparr>"

definition demo_rollout :: "string \<Rightarrow> rollout_input" where
  "demo_rollout version = \<lparr>ri_version = version, ri_channel = None, ri_env = None, ri_notes = None, ri_command = None, ri_args = None\<rparr>"

text \<open>C35. However rollouts and rollbacks follow each other on a server that connecting a package
  made, whatever they ask for and whether or not their deployments succeed, the server runs its
  active release: it is among its releases, whose ids are distinct, and the command, the
  arguments, the variables and the channel of the server are those of the release.\<close>

theorem managed_servers_run_their_active_release:
  assumes "package_server join_path t i source identifier version runtime_args env raw = Some server" "0 \<le> t"
    and "sorted_wrt (<) (t # map event_time es)"
    and "runtime_run ops es (server, s) = (server', s')"
  shows "\<exists>rt r. ms_runtime server' = Some rt \<and> find_release (mt_active_release_id rt) (mt_releases rt) = Some r \<and>
     distinct (map mr_id (mt_releases rt)) \<and> mt_channel rt = mr_channel r \<and> ms_command server' = Some (mr_command r) \<and>
     default_to [] (ms_args server') = default_to [] (mr_args r) \<and> ms_env server' = mr_env r"
  using run_ok [OF package_ok [OF assms(1,2)] assms(2,3,4)] by (auto simp: runtime_ok_def runs_def)

lemma demo_package_eq: "package_server (\<lambda>a b. a @ ''/'' @ b) 1 ''pkg'' SourceNpm ''@example/pkg'' ''1.0.0'' [''--stdio'']
     [(''API_TOKEN'', ''s1'')] None = Some demo_package"
  by (simp add: demo_package_def package_server_def Let_def)

theorem managed_servers_run_their_active_release_witness:
  "(let (server', s') = runtime_run demo_deploy [Rollout 2 (demo_rollout ''2.0.0''), Rollback 3 None] (demo_package, 0) in
    \<exists>rt r. ms_runtime server' = Some rt \<and> find_release (mt_active_release_id rt) (mt_releases rt) = Some r \<and>
     distinct (map mr_id (mt_releases rt)) \<and> mt_channel rt = mr_channel r \<and> ms_command server' = Some (mr_command r) \<and>
     default_to [] (ms_args server') = default_to [] (mr_args r) \<and> ms_env server' = mr_env r)"
  using managed_servers_run_their_active_release [OF demo_package_eq, of "[Rollout 2 (demo_rollout ''2.0.0''), Rollback 3 None]"
      demo_deploy 0]
  by (simp add: split_beta prod_eq_iff)

text \<open>C36. A rollout can be undone: from any state of the server whose releases were made up to now,
  rolling out a later release, marking it healthy and rolling back to the release that was active
  before succeeds, and gives the server the command, the arguments, the variables, the channel
  and the active release it had.\<close>

theorem rollback_undoes_a_rollout:
  assumes "runtime_ok server" "dated t server" "0 \<le> t" "t < now"
    and "rolloutManagedRuntime now input server = Inr (new, r)"
    and "ms_runtime server = Some rt"
  shows "\<exists>old rt'. rollbackManagedRuntime later (Some (mt_active_release_id rt))
            (markManagedRuntimeRelease (mr_id r) OutcomeHealthy new) = Inr old \<and>
     ms_command old = ms_command server \<and> default_to [] (ms_args old) = default_to [] (ms_args server) \<and>
     ms_env old = ms_env server \<and> ms_runtime old = Some rt' \<and> mt_channel rt' = mt_channel rt \<and>
     mt_active_release_id rt' = mt_active_release_id rt"
proof -
  let ?marked = "markManagedRuntimeRelease (mr_id r) OutcomeHealthy new"
  obtain x where x: "find_release (mt_active_release_id rt) (mt_releases rt) = Some x" "mt_channel rt = mr_channel x" "runs server x"
    using assms(1,6) by (auto simp: runtime_ok_def)
  have new: "ms_stdio new = ms_stdio server" "isManagedRuntimeServer server"
      "ms_runtime new = Some (rt\<lparr>mt_channel := mr_channel r, mt_active_release_id := mr_id r,
        mt_last_rollout_at := Some now, mt_releases := map (demote rt) (mt_releases rt) @ [r]\<rparr>)"
    by (rule rollout_result [OF assms(5)], simp add: assms(6) run_release_def)+
  have id: "mr_id x = mt_active_release_id rt" "x \<in> set (mt_releases rt)" using find_release_id [OF x(1)] by simp_all
  with assms(2,6) obtain c v u where "mt_active_release_id rt = release_id c v u" unfolding dated_def by metis
  then have nonempty_id: "mt_active_release_id rt \<noteq> []" by (simp add: release_id_def)
  have "find_release (mt_active_release_id rt) (map (demote rt) (mt_releases rt)) = Some (demote rt x)"
    using x(1) by (simp add: keeps_find)
  then have old: "find_release (mt_active_release_id rt) (map (demote rt) (mt_releases rt) @ [r]) = Some (demote rt x)"
    by (rule find_old)
  have [simp]: "mt_enabled rt" "ms_stdio server" using new(2) assms(6) by (auto simp: isManagedRuntimeServer_def)
  obtain f rt1 where f: "keeps_releases f" "ms_runtime ?marked = Some rt1" "mt_enabled rt1" "ms_stdio ?marked"
      "mt_releases rt1 = map f (map (demote rt) (mt_releases rt) @ [r])"
  proof (rule that [OF status_keeps(3) [of "mr_id r" "Some ReleaseActive"]])
    show "ms_runtime ?marked = Some (rt\<lparr>mt_channel := mr_channel r, mt_active_release_id := mr_id r,
        mt_last_rollout_at := Some now, mt_last_healthy_release_id := Some (mr_id r),
        mt_releases := map (\<lambda>x. if mr_id x = mr_id r then x\<lparr>mr_status := Some ReleaseActive\<rparr> else x)
          (map (demote rt) (mt_releases rt) @ [r])\<rparr>)"
      by (simp add: markManagedRuntimeRelease_def new Let_def)
  qed (simp_all add: markManagedRuntimeRelease_def new Let_def)
  define y where "y = f (demote rt x)"
  have y: "find_release (mt_active_release_id rt) (mt_releases rt1) = Some y"
    unfolding f(5) keeps_find [OF f(1)] old y_def by simp
  have same: "same_release x y"
    using f(1) status_keeps(1) [of rt] unfolding y_def keeps_releases_def same_release_def by metis
  have "isManagedRuntimeServer ?marked" using f(2-4) by (simp add: isManagedRuntimeServer_def)
  from rollback_to [OF f(2) this nonempty_id y, of later] show ?thesis
    using x(2,3) same by (simp add: run_release_def same_release_def runs_def default_to_def [of "[]" "Some _"])
qed

theorem rollback_undoes_a_rollout_witness:
  "(case rolloutManagedRuntime 2 (demo_rollout ''2.0.0'') demo_package of
      Inr (new, r) \<Rightarrow> (\<exists>old rt'. rollbackManagedRuntime 3 (Some ''stable-1.0.0-1'')
            (markManagedRuntimeRelease (mr_id r) OutcomeHealthy new) = Inr old \<and>
         ms_command old = ms_command demo_package \<and>
         default_to [] (ms_args old) = default_to [] (ms_args demo_package) \<and> ms_env old = ms_env demo_package \<and>
         ms_runtime old = Some rt' \<and> mt_channel rt' = Stable \<and> mt_active_release_id rt' = ''stable-1.0.0-1'')
    | Inl e \<Rightarrow> False)"
proof -
  have rt: "map_option mt_active_release_id (ms_runtime demo_package) = Some ''stable-1.0.0-1''"
      "map_option mt_channel (ms_runtime demo_package) = Some Stable"
    by code_simp+
  then obtain rt where rt: "ms_runtime demo_package = Some rt" "mt_active_release_id rt = ''stable-1.0.0-1''" "mt_channel rt = Stable"
    by auto
  have "\<not> isl (rolloutManagedRuntime 2 (demo_rollout ''2.0.0'') demo_package)" by code_simp
  then obtain new r where r: "rolloutManagedRuntime 2 (demo_rollout ''2.0.0'') demo_package = Inr (new, r)"
    by (cases "rolloutManagedRuntime 2 (demo_rollout ''2.0.0'') demo_package") auto
  from rollback_undoes_a_rollout [OF package_ok [OF demo_package_eq] _ _ r rt(1), of 3] show ?thesis
    by (simp add: r rt)
qed

subsection \<open>A rollback that names no release\<close>

lemma mark_active:
  assumes "ms_runtime new = Some rt" "mt_enabled rt"
  shows "\<exists>rt'. ms_runtime (markManagedRuntimeRelease i OutcomeHealthy new) = Some rt' \<and>
     mt_active_release_id rt' = mt_active_release_id rt \<and> mt_last_healthy_release_id rt' = Some i"
  using assms by (simp add: markManagedRuntimeRelease_def Let_def)

lemma rollback_active:
  assumes "rollbackManagedRuntime now None server = Inr new"
    and "ms_runtime server = Some rt" "mt_last_healthy_release_id rt = Some (mt_active_release_id rt)"
  shows "\<exists>rt'. ms_runtime new = Some rt' \<and> mt_active_release_id rt' = mt_active_release_id rt"
proof (rule rollback_result [OF assms(1)])
qed (use assms(2,3) in \<open>auto simp: rollback_target_def\<close>)

text \<open>A rollback that names no release does nothing after a successful rollout: the release that
  was rolled out is by then both the active and the last healthy one, so that it is its own
  fallback, and it stays active whether or not the deployment succeeds.\<close>

theorem rollback_without_release_stays:
  assumes "runtime_rollout ops now input (server, s) = (200, server1, s1)"
    and "runtime_rollback ops later None (server1, s1) = (code, server2, s2)"
  shows "\<exists>rt1 rt2. ms_runtime server1 = Some rt1 \<and> ms_runtime server2 = Some rt2 \<and>
     mt_last_healthy_release_id rt1 = Some (mt_active_release_id rt1) \<and>
     mt_active_release_id rt2 = mt_active_release_id rt1"
proof -
  have "isManagedRuntimeServer server \<and> (\<exists>new r. rolloutManagedRuntime now input server = Inr (new, r) \<and>
      server1 = markManagedRuntimeRelease (mr_id r) OutcomeHealthy new)"
    using assms(1) by (auto simp: runtime_rollout_def split: if_splits sum.splits prod.splits)
  then obtain new r where new: "rolloutManagedRuntime now input server = Inr (new, r)"
      "server1 = markManagedRuntimeRelease (mr_id r) OutcomeHealthy new" by blast
  obtain rt where rt: "ms_runtime new = Some rt" "mt_enabled rt" "mt_active_release_id rt = mr_id r"
    by (rule rollout_result [OF new(1)]) (simp add: isManagedRuntimeServer_def)
  obtain rt1 where rt1: "ms_runtime server1 = Some rt1" "mt_last_healthy_release_id rt1 = Some (mt_active_release_id rt1)"
    using mark_active [OF rt(1,2), of "mr_id r"] rt(3) new(2) by auto
  have "\<exists>rt2. ms_runtime server2 = Some rt2 \<and> mt_active_release_id rt2 = mt_active_release_id rt1"
    using assms(2)
  proof (cases rule: rollback_cases)
    case same
    with rt1 show ?thesis by simp
  next
    case (failed restored)
    with rollback_active [OF failed(1) rt1] show ?thesis by simp
  next
    case (deployed restored)
    obtain rt2 where rt2: "ms_runtime restored = Some rt2" "mt_active_release_id rt2 = mt_active_release_id rt1"
      using rollback_active [OF deployed(1) rt1] by blast
    have "\<exists>rt3. ms_runtime (markManagedRuntimeRelease i OutcomeHealthy restored) = Some rt3 \<and>
        mt_active_release_id rt3 = mt_active_release_id rt2" for i
      using rt2(1) by (simp add: markManagedRuntimeRelease_def Let_def)
    with deployed(3) rt2 show ?thesis by metis
  qed
  with rt1 show ?thesis by blast
qed

theorem rollback_without_release_stays_witness:
  "(case runtime_rollout demo_deploy 2 (demo_rollout ''2.0.0'') (demo_package, 0) of
      (code, server1, s1) \<Rightarrow> case runtime_rollback demo_deploy 3 None (server1, s1) of
        (code', server2, s2) \<Rightarrow> \<exists>rt1 rt2. ms_runtime server1 = Some rt1 \<and> ms_runtime server2 = Some rt2 \<and>
           mt_last_healthy_release_id rt1 = Some (mt_active_release_id rt1) \<and>
           mt_active_release_id rt2 = mt_active_release_id rt1)"
proof -
  have "fst (runtime_rollout demo_deploy 2 (demo_rollout ''2.0.0'') (demo_package, 0)) = 200" by code_simp
  then obtain server1 s1 where r: "runtime_rollout demo_deploy 2 (demo_rollout ''2.0.0'') (demo_package, 0) = (200, server1, s1)"
    by (cases "runtime_rollout demo_deploy 2 (demo_rollout ''2.0.0'') (demo_package, 0)") auto
  obtain code' server2 s2 where b: "runtime_rollback demo_deploy 3 None (server1, s1) = (code', server2, s2)"
    by (cases "runtime_rollback demo_deploy 3 None (server1, s1)") auto
  from rollback_without_release_stays [OF r b] show ?thesis by (simp add: r b)
qed

subsection \<open>The environment of the process\<close>

lemma sandbox_keys_kept: "k \<in> set sandbox_keys \<Longrightarrow> \<not> leaky k"
  unfolding sandbox_keys_def by (simp only: set_simps insert_iff empty_iff) (elim disjE FalseE; hypsubst; code_simp)

lemma map_of_kept: "\<not> leaky k \<Longrightarrow> map_of (filter (\<lambda>(k, v). \<not> leaky k) env) k = map_of env k"
  by (induction env) auto

lemma picked_kept: "pickSandboxEnv (filter (\<lambda>(k, v). \<not> leaky k) env) = pickSandboxEnv env"
proof -
  have "List.map_filter (\<lambda>k. map_option (Pair k) (map_of (filter (\<lambda>(k, v). \<not> leaky k) env) k)) ks =
      List.map_filter (\<lambda>k. map_option (Pair k) (map_of env k)) ks" if "set ks \<subseteq> set sandbox_keys" for ks
    using that by (induction ks) (auto simp: sandbox_keys_kept map_of_kept split: option.splits)
  then show ?thesis by (simp add: pickSandboxEnv_def)
qed

lemma stripped_kept: "stripSandboxLeakyEnv (filter (\<lambda>(k, v). \<not> leaky k) env) = stripSandboxLeakyEnv env"
  by (simp add: stripSandboxLeakyEnv_def)

text \<open>C37. A managed server is started without the credentials of the gateway: where two gateways
  differ only in variables of the deny list (the configuration of npm, pip, uv, poetry and cargo
  and the tokens of the continuous integration, whatever their case), the command, arguments,
  directory and environment the process gets are the same, with or without sanitizing.\<close>

theorem launch_hides_leaky_variables:
  assumes "filter (\<lambda>(k, v). \<not> leaky k) env = filter (\<lambda>(k, v). \<not> leaky k) env'"
  shows "buildManagedRuntimeLaunchSpec (sy\<lparr>sy_env := env\<rparr>) server = buildManagedRuntimeLaunchSpec (sy\<lparr>sy_env := env'\<rparr>) server"
proof -
  have picked: "pickSandboxEnv env = pickSandboxEnv env'" using picked_kept [of env] picked_kept [of env'] assms by simp
  have stripped: "stripSandboxLeakyEnv env = stripSandboxLeakyEnv env'"
    using stripped_kept [of env] stripped_kept [of env'] assms by simp
  have others: "sy_join (sy\<lparr>sy_env := e\<rparr>) = sy_join sy" "sy_resolve (sy\<lparr>sy_env := e\<rparr>) = sy_resolve sy"
      "sy_win32 (sy\<lparr>sy_env := e\<rparr>) = sy_win32 sy" "sy_mkdir (sy\<lparr>sy_env := e\<rparr>) = sy_mkdir sy"
      "sy_env (sy\<lparr>sy_env := e\<rparr>) = e" for e
    by simp_all
  show ?thesis
    unfolding buildManagedRuntimeLaunchSpec_def sandbox_root_def sandbox_vars_def others picked stripped ..
qed

theorem launch_hides_leaky_variables_witness:
  "buildManagedRuntimeLaunchSpec (demo_system\<lparr>sy_env := [(''PATH'', ''/bin''), (''npm_token'', ''t0'')]\<rparr>) demo_package =
     buildManagedRuntimeLaunchSpec (demo_system\<lparr>sy_env := [(''Pip_Index_Url'', ''u''), (''PATH'', ''/bin'')]\<rparr>) demo_package"
proof (rule launch_hides_leaky_variables)
  show "filter (\<lambda>(k, v). \<not> leaky k) [(''PATH'', ''/bin''), (''npm_token'', ''t0'')] =
      filter (\<lambda>(k, v). \<not> leaky k) [(''Pip_Index_Url'', ''u''), (''PATH'', ''/bin'')]"
    by code_simp
qed

subsection \<open>What a rollout loses\<close>

text \<open>
  The release of a container image runs the image the server was made with, whatever the version:
  the tag of the reference is neither added nor replaced.
\<close>

lemma oci_rollout_ignores_the_version:
  "buildReleaseCommand SourceOci sourceRef version env command args = buildReleaseCommand SourceOci sourceRef version' env command args"
  by (simp add: buildReleaseCommand_def)

text \<open>A reference to an npm package that has a version runs this version.\<close>

lemma pinned_rollout_ignores_the_version:
  assumes "CHR ''@'' \<in> set pinned"
  shows "buildReleaseCommand SourceNpm (CHR ''@'' # pinned) version env command args =
      Inr (''npx'', [''-y'', CHR ''@'' # pinned], nonempty (Some env))"
  using assms by (simp add: buildReleaseCommand_def buildVersionedPackageIdentifier_def starts_with_def)

text \<open>The variables of a container are lost by the second rollout, since the first drops them from the server.\<close>

definition demo_container :: managed_server where
  "demo_container = the (package_server (\<lambda>a b. a @ ''/'' @ b) 1 ''img'' SourceOci ''example/img'' ''1.0.0'' [] [(''API_TOKEN'', ''s1'')] None)"

lemma oci_rollouts_lose_the_environment:
  "(case rolloutManagedRuntime 2 (demo_rollout ''2.0.0'') demo_container of
      Inr (second, r) \<Rightarrow> ms_args second = Some [''run'', ''-i'', ''--rm'', ''-e'', ''API_TOKEN=s1'', ''example/img''] \<and>
        (case rolloutManagedRuntime 3 (demo_rollout ''3.0.0'') second of
           Inr (third, r') \<Rightarrow> ms_args third = Some [''run'', ''-i'', ''--rm'', ''example/img'']
         | Inl e \<Rightarrow> False)
    | Inl e \<Rightarrow> False)"
  by code_simp

text \<open>The installed container itself is started without them: they are variables of the docker client.\<close>

lemma oci_install_passes_no_variable:
  "map_option ms_args (package_server j t i SourceOci sourceRef version runtime_args env raw) =
     Some (Some ([''run'', ''-i'', ''--rm'', sourceRef] @ runtime_args))"
  by (simp add: package_server_def Let_def)

text \<open>The arguments a package is installed with are not those of its next release.\<close>

lemma rollout_drops_the_package_arguments:
  "ms_args demo_package = Some [''-y'', ''@example/pkg@1.0.0'', ''--stdio''] \<and>
   (case rolloutManagedRuntime 2 (demo_rollout ''2.0.0'') demo_package of
      Inr (new, r) \<Rightarrow> ms_args new = Some [''-y'', ''@example/pkg@2.0.0'']
    | Inl e \<Rightarrow> False)"
  by code_simp

end
