(* ===== verification/Spec2Isabelle.thy ===== *)
theory Spec2Isabelle
  imports Json_Canonical Authenticator Redis_Limiter Redis_Cache Trace Mcp_Client Profiles Transport Stdio_Client
    Url_Validator Gateway_Laws Discovery_Laws Redaction Admin_Approvals Connect_Laws Managed_Laws
begin

section \<open>The MCP gateway: a verification development\<close>

text \<open>
  Conduit is a gateway between clients and servers of the Model Context Protocol.  A client
  posts a JSON-RPC message; the gateway authenticates it, decides whether the call is allowed,
  answers it from its cache or forwards it to one replica of the server that owns the tool, and
  records what happened.  This library models the gateway's core (TypeScript, under
  \<open>src/src\<close>), one theory per component.

  Foundations.
  \<^item> \<open>Prelude\<close>: JavaScript maps as association lists that keep the order of insertion, the string
    functions the source uses, the \<open>named_theorems\<close> shared by the proofs.
  \<^item> \<open>Json\<close>, \<open>Json_Canonical\<close>: dynamic values, property access with the prototype's members,
    \<open>utils/deep-sort.ts\<close>; equal canonical texts mean values equal up to the order of keys.
  \<^item> \<open>Json_Rpc\<close>: \<open>proxy/json-rpc.ts\<close>, validation of messages and batches, responses.
  \<^item> \<open>Policies\<close>: \<open>utils/pattern.ts\<close>.

  Who may call what.
  \<^item> \<open>Authenticator\<close> (\<open>auth/authenticator.ts\<close>), \<open>Acl\<close> (\<open>auth/acl.ts\<close>), \<open>Guardrails\<close>
    (\<open>guardrails/evaluator.ts\<close>).
  \<^item> \<open>Governance_Store\<close>, \<open>Governance\<close> (\<open>governance/\<close>): approval requests as a table, roles,
    policies, quotas, decisions, audit.  \<open>governance_run\<close> is any sequence of public calls;
    an approval stays what an approver made it and covers the very request it names.
  \<^item> \<open>Identity_Store\<close>, \<open>Identity\<close> (\<open>identity/\<close>): workspaces, connected accounts and their
    secrets, the identity headers of an upstream call, the preflight.
  \<^item> \<open>Rate_Backend\<close>, \<open>Limiter\<close>, \<open>Redis_Limiter\<close>, \<open>Rate_Limiter\<close> (\<open>rate-limit/\<close>): the contract of
    a backend as the locale \<open>rate_backend\<close>, interpreted on the in-memory limiter, on the mock
    and on the Lua script; the checks of the scopes and the waiting queue over any backend.

  Answers kept.
  \<^item> \<open>Cache_Policy\<close>, \<open>Cache_Key\<close>, \<open>Cache_Store\<close>, \<open>Redis_Cache\<close>, \<open>Inflight\<close> (\<open>cache/\<close>): what is
    cached and under which key, the LRU store with its indexes, the second level in Redis, one
    flight per key.

  Where calls go.
  \<^item> \<open>Circuit_Breaker\<close>, \<open>Namespace\<close>, \<open>Registry\<close>, \<open>Router\<close> (\<open>router/\<close>): states of a breaker,
    exposed names, health of replicas, selection.  \<open>gateway_step\<close> interleaves selections, late
    results, health checks and tool lists.
  \<^item> \<open>Mcp_Client\<close> (\<open>proxy/mcp-client.ts\<close>), \<open>Trace\<close> (\<open>observability/trace.ts\<close>), \<open>Plugins\<close>
    (\<open>plugins/registry.ts\<close>), \<open>Profiles\<close> (\<open>connect/profile-target.ts\<close> and the profiles of
    \<open>connect/export.ts\<close>).

  The pipeline (\<open>gateway/pipeline.ts\<close>).
  \<^item> \<open>Pipeline_Types\<close>: the configuration (\<open>gateway_config\<close>), the libraries and services the
    pipeline calls (\<open>gateway\<close>), its state (\<open>pipeline_state\<close>: registry, router counters, cache,
    flights, limits, governance and identity tables, the trace of logged events), and one
    upstream call (\<open>upstream_call\<close>).
  \<^item> \<open>Pipeline\<close>: \<open>handle\<close> takes a message up to its answer or up to the point where it waits for a
    reply (\<open>progress\<close>); \<open>settle_call\<close> takes a waiting call and the reply, or the failure, to its
    answer.  The checks of a tool call are stages (profile, ACL, governance, quota, guardrails,
    approval, client limit) composed in the order of the source.
  \<^item> \<open>Pipeline_Safety\<close>: what a call must have passed when it waits upstream, and that a refused
    call leaves everything but counters and logs as it was.
  \<^item> \<open>Pipeline_Cache\<close>: tenants do not share entries, only successes are stored and what is stored
    is what is replayed, the client's credential is not sent upstream.
  \<^item> \<open>Pipeline_Runs\<close>: \<open>pipeline_step\<close> interleaves any number of messages and replies; the
    connections counted are the calls that wait, and the cache holds results of good replies.
  \<^item> \<open>Pipeline_Example\<close>: one gateway on which the witnesses evaluate.

  The way in and the way out.
  \<^item> \<open>Transport\<close> (\<open>proxy/transport.ts\<close>): the POST endpoints from the body to the response, single
    messages and batches, over the pipeline; a run of posts is a run of \<open>pipeline_step\<close>.
  \<^item> \<open>Stdio_Client\<close> (\<open>proxy/stdio-mcp-client.ts\<close>): the state of a child process under requests,
    lines, exits, timeouts and respawns; every request is settled once, crashes are bounded.
  \<^item> \<open>Url_Validator\<close> (\<open>utils/url-validator.ts\<close>): the guard against private targets; its patterns on
    IPv4 texts are the ranges of addresses.
  \<^item> \<open>Redaction\<close> (\<open>observability/redactor.ts\<close>, \<open>utils/path-guard.ts\<close>): the value of a sensitive key
    is not logged, at any depth.

  The configuration.
  \<^item> \<open>Dynamic\<close>: values of a file and the clean-up of \<open>utils/sanitize.ts\<close>.
  \<^item> \<open>Config_Schema\<close>, \<open>Config_Validation\<close> (\<open>config/schema.ts\<close>): defaults and every error of the
    validation.  \<open>Config\<close> (\<open>config/loader.ts\<close>): unknown keys, the environment, the load.
    \<open>Config_Laws\<close>: what a loaded configuration satisfies; the suggestion for a misspelt key is a
    closest one.
  \<^item> \<open>Gateway\<close> (\<open>gateway/gateway.ts\<close>): what a running gateway takes over from a changed file
    (\<open>host_state\<close>).  \<open>Registered\<close>, \<open>Gateway_Laws\<close>: after a reload the
    servers served are those of the file, and a second reload of it changes nothing.
  \<^item> \<open>Discovery\<close> (\<open>discovery/\<close>), \<open>Discovery_Laws\<close>: announcements, staleness and the cycle that
    reconciles them with the registry; servers of the file are never touched.

  Operation.
  \<^item> \<open>Admin\<close> (\<open>admin/routes.ts\<close>): a request (\<open>admin_request\<close>) passes the guards of the key and of
    cross-site requests and reaches one handler of the route table; the handlers work on the
    state of the gateway (\<open>admin_state\<close>).  \<open>Admin_Laws\<close>: no change without the key, and the
    configuration, the registry and the clients stay in step.  \<open>Admin_Approvals\<close>: who decides an
    approval over HTTP.  \<open>Admin_Example\<close>: a gateway for the witnesses.
  \<^item> \<open>Managed\<close> (\<open>runtime/managed.ts\<close> and its routes): releases of a package, rollout, rollback,
    deployment behind a health gate, and what a process is started with.  \<open>Managed_Laws\<close>: the
    server runs its active release after any sequence of calls, a rollout can be undone, no
    variable of the deny list reaches a process.

  \<^item> \<open>Connect_Registry\<close> (\<open>connect/registry.ts\<close>): the library of the public registry, from the pages
    of a refresh (a partial function, since it need not end) to the score of an entry and the
    configuration of an imported server.  \<open>Connect_Laws\<close>: bounded refreshes end, the library is
    sorted and scored within bounds, its pages cover it, an import plan has every value required.

  Lemmas named after a defect (\<open>redis_longer_window_never_blocks\<close>,
  \<open>removed_server_keeps_its_answers\<close>, \<open>oci_rollout_ignores_the_version\<close> and others) prove what the
  code does where that differs from what it means to do.

  Conventions.  Strings are lists of characters below 256, so that a dash or a quote of a
  message outside that range is written with one of these characters.  Numbers are
  integers: the source's counters, times and limits are integers far below $2^{53}$.  The time,
  random numbers and UUIDs are arguments.  An interleaving point is an \<open>await\<close> that waits for an
  upstream reply; the other awaits (limits, governance, cache, hooks) are taken as atomic with
  the code around them.  Loops are structural recursions or have termination proofs, the
  refresh of the registry library apart; no fuel is used.

  Parameters: the regular-expression engine, the digest, Base64, the JWT library, the LRU
  library, Redis, the second-level cache's client, plugin callbacks, the DNS and HTTP of
  upstream servers.  Where a theorem needs more of one of them its law is a hypothesis
  (\<open>redis_ok\<close>, \<open>lru_ok\<close>, injectivity of the digest on the texts at hand) which a
  witness discharges on a concrete instance.

  Not modelled: the routes of the admin API over logs, statistics, metrics, settings and
  \<open>connect\<close> (the parameter \<open>ae_other\<close>) with the log database and the exporters they read, whose
  content is written by \<open>better-sqlite3\<close>, \<open>prom-client\<close> and the OpenTelemetry SDK; the import of
  plugin modules; the construction of the HTTP server and of the components with its timers; the
  wrappers of fetch and of the file system; the page of the dashboard; the rest of
  \<open>connect/\<close> and \<open>cli/\<close>: the installers, which read and write the files of client
  applications, the texts exported for them and the presentation of the library
  (\<open>registry-smart.ts\<close>).
\<close>

end
